(* ===== verification/Prelude.thy ===== *)
theory Prelude
  imports Complex_Main "HOL-Library.AList"
begin

text \<open>
  Shared vocabulary of the development: the Python values that every component uses
  (strings, dictionaries, sets, slices, truthiness, decimal printing, JSON values), the
  generic lemmas about them, the interface of a dictionary as a locale, and the
  collections of simplification rules that the component theories extend.

  Python strings are \<^typ>\<open>string\<close>; the few characters of the source's literals outside
  Latin-1 (em dash, en dash, ellipsis, bullet) are represented by their code page 1252
  positions, so that \<^const>\<open>length\<close> counts one per character as Python does.
  A Python \<open>dict\<close> is an association list in insertion order with distinct keys. A Python
  \<open>set\<close> is a distinct list; its iteration order is not specified by the language and no
  theorem depends on it. Floating point numbers are only passed on, tested for zero and
  printed by the modelled code: they are rationals, and their printed form is a parameter.
\<close>

named_theorems dict_simps \<open>rewriting of dictionary reads after writes\<close>
named_theorems pyset_simps \<open>rewriting of membership after set updates\<close>

section \<open>Strings\<close>

type_synonym pyfloat = rat

definition em_dash :: string where "em_dash = [CHR 0x97]"
definition en_dash :: string where "en_dash = [CHR 0x96]"
definition ellipsis :: string where "ellipsis = [CHR 0x85]"
definition bullet :: string where "bullet = [CHR 0x95]"
definition newline :: string where "newline = [CHR 0x0A]"

definition digit :: "nat \<Rightarrow> char" where
  "digit n = ''0123456789'' ! n"

text \<open>\<open>str(n)\<close> for a non-negative and for an arbitrary integer.\<close>

fun nat_str :: "nat \<Rightarrow> string" where
  "nat_str n = (if n < 10 then [digit n] else nat_str (n div 10) @ [digit (n mod 10)])"

declare nat_str.simps [simp del]

definition int_str :: "int \<Rightarrow> string" where
  "int_str i = (if i < 0 then ''-'' @ nat_str (nat (- i)) else nat_str (nat i))"

text \<open>\<open>sep.join(xs)\<close>.\<close>

fun py_join :: "string \<Rightarrow> string list \<Rightarrow> string" where
  "py_join sep [] = []"
| "py_join sep [x] = x"
| "py_join sep (x # y # ys) = x @ sep @ py_join sep (y # ys)"

text \<open>\<open>s.startswith(p)\<close>, \<open>s.endswith(p)\<close>, \<open>p in s\<close>.\<close>

fun starts_with :: "string \<Rightarrow> string \<Rightarrow> bool" where
  "starts_with s [] = True"
| "starts_with [] (p # ps) = False"
| "starts_with (c # s) (p # ps) = (c = p \<and> starts_with s ps)"

definition ends_with :: "string \<Rightarrow> string \<Rightarrow> bool" where
  "ends_with s p = starts_with (rev s) (rev p)"

fun contains_str :: "string \<Rightarrow> string \<Rightarrow> bool" where
  "contains_str [] p = (p = [])"
| "contains_str (c # s) p = (starts_with (c # s) p \<or> contains_str s p)"

text \<open>The whitespace characters of the byte range that \<open>str.strip()\<close> removes.\<close>

definition is_space :: "char \<Rightarrow> bool" where
  "is_space c = (c \<in> {CHR 0x09, CHR 0x0A, CHR 0x0B, CHR 0x0C, CHR 0x0D,
     CHR 0x1C, CHR 0x1D, CHR 0x1E, CHR 0x1F, CHR '' '', CHR 0x85, CHR 0xA0})"

definition rstrip :: "string \<Rightarrow> string" where
  "rstrip s = rev (dropWhile is_space (rev s))"

definition strip :: "string \<Rightarrow> string" where
  "strip s = rstrip (dropWhile is_space s)"

section \<open>Truthiness and slices\<close>

text \<open>\<open>if s\<close> for a value of type \<open>str | None\<close>, and \<open>a or b\<close>.\<close>

definition truthy :: "string option \<Rightarrow> bool" where
  "truthy x = (case x of None \<Rightarrow> False | Some s \<Rightarrow> s \<noteq> [])"

definition or_str :: "string option \<Rightarrow> string \<Rightarrow> string" where
  "or_str x d = (if truthy x then the x else d)"

definition or_int :: "int option \<Rightarrow> int option \<Rightarrow> int option" where
  "or_int x d = (case x of Some i \<Rightarrow> if i \<noteq> 0 then Some i else d | None \<Rightarrow> d)"

text \<open>\<open>xs[:i]\<close> and \<open>xs[i:]\<close>; a negative index counts from the end and is clamped at 0.\<close>

definition slice_to :: "int \<Rightarrow> 'a list \<Rightarrow> 'a list" where
  "slice_to i xs = take (nat (if i < 0 then int (length xs) + i else i)) xs"

definition slice_from :: "int \<Rightarrow> 'a list \<Rightarrow> 'a list" where
  "slice_from i xs = drop (nat (if i < 0 then int (length xs) + i else i)) xs"

section \<open>Dictionaries\<close>

type_synonym ('k, 'v) dict = "('k \<times> 'v) list"

definition dict_get :: "('k, 'v) dict \<Rightarrow> 'k \<Rightarrow> 'v option" where
  "dict_get d k = map_of d k"

definition dict_set :: "'k \<Rightarrow> 'v \<Rightarrow> ('k, 'v) dict \<Rightarrow> ('k, 'v) dict" where
  "dict_set k v d = AList.update k v d"

definition dict_pop :: "'k \<Rightarrow> ('k, 'v) dict \<Rightarrow> ('k, 'v) dict" where
  "dict_pop k d = AList.delete k d"

definition dict_keys :: "('k, 'v) dict \<Rightarrow> 'k list" where
  "dict_keys d = map fst d"

definition dict_values :: "('k, 'v) dict \<Rightarrow> 'v list" where
  "dict_values d = map snd d"

definition dict_has :: "('k, 'v) dict \<Rightarrow> 'k \<Rightarrow> bool" where
  "dict_has d k = (dict_get d k \<noteq> None)"

definition dict_wf :: "('k, 'v) dict \<Rightarrow> bool" where
  "dict_wf d = distinct (map fst d)"

definition dict_default :: "('k, 'v) dict \<Rightarrow> 'k \<Rightarrow> 'v \<Rightarrow> 'v" where
  "dict_default d k v = (case dict_get d k of None \<Rightarrow> v | Some w \<Rightarrow> w)"

text \<open>Number of entries whose value satisfies a predicate.\<close>

definition dict_count :: "('v \<Rightarrow> bool) \<Rightarrow> ('k, 'v) dict \<Rightarrow> nat" where
  "dict_count P d = length (filter (\<lambda>(k, v). P v) d)"

text \<open>Popping a list of keys one after the other.\<close>

fun dict_pops :: "'k list \<Rightarrow> ('k, 'v) dict \<Rightarrow> ('k, 'v) dict" where
  "dict_pops [] d = d"
| "dict_pops (k # ks) d = dict_pops ks (dict_pop k d)"

definition dict_ran :: "('k, 'v) dict \<Rightarrow> 'v set" where
  "dict_ran d = {v. \<exists>k. dict_get d k = Some v}"

section \<open>Sets\<close>

type_synonym 'a pyset = "'a list"

definition set_add :: "'a \<Rightarrow> 'a pyset \<Rightarrow> 'a pyset" where
  "set_add x s = (if x \<in> set s then s else s @ [x])"

definition set_discard :: "'a \<Rightarrow> 'a pyset \<Rightarrow> 'a pyset" where
  "set_discard x s = removeAll x s"

section \<open>JSON values and \<open>json.dumps\<close>\<close>

text \<open>
  A float is carried as its printed form. \<open>json.dumps\<close> with its default separators and
  \<open>ensure_ascii=True\<close>, so that its result is ASCII and its UTF-8 size is its length.
\<close>

datatype json =
    JNull
  | JBool bool
  | JInt int
  | JFloat string
  | JStr string
  | JList "json list"
  | JObj "(string \<times> json) list"

definition hex_digit :: "nat \<Rightarrow> char" where
  "hex_digit n = ''0123456789abcdef'' ! n"

definition json_escape_char :: "char \<Rightarrow> string" where
  "json_escape_char c =
     (if c = CHR 0x22 then [CHR 0x5C, CHR 0x22]
      else if c = CHR 0x5C then [CHR 0x5C, CHR 0x5C]
      else if c = CHR 0x0A then [CHR 0x5C, CHR ''n'']
      else if c = CHR 0x0D then [CHR 0x5C, CHR ''r'']
      else if c = CHR 0x09 then [CHR 0x5C, CHR ''t'']
      else if c = CHR 0x0C then [CHR 0x5C, CHR ''f'']
      else if c = CHR 0x08 then [CHR 0x5C, CHR ''b'']
      else let n = (of_char c :: nat) in
        if 32 \<le> n \<and> n \<le> 126 then [c]
        else [CHR 0x5C] @ ''u00'' @ [hex_digit (n div 16), hex_digit (n mod 16)])"

definition json_quote :: "string \<Rightarrow> string" where
  "json_quote s = [CHR 0x22] @ concat (map json_escape_char s) @ [CHR 0x22]"

fun json_dumps :: "json \<Rightarrow> string" where
  "json_dumps JNull = ''null''"
| "json_dumps (JBool b) = (if b then ''true'' else ''false'')"
| "json_dumps (JInt i) = int_str i"
| "json_dumps (JFloat r) = r"
| "json_dumps (JStr s) = json_quote s"
| "json_dumps (JList xs) = ''['' @ py_join '', '' (map json_dumps xs) @ '']''"
| "json_dumps (JObj kvs) =
     ''{'' @ py_join '', '' (map (\<lambda>kv. json_quote (fst kv) @ '': '' @ json_dumps (snd kv)) kvs) @ ''}''"

section \<open>Lemmas on strings and slices\<close>

lemma digit_inj: "\<lbrakk>digit m = digit n; m < 10; n < 10\<rbrakk> \<Longrightarrow> m = n"
proof -
  assume eq: "digit m = digit n" and b: "m < 10" "n < 10"
  have d: "distinct (''0123456789'')" by simp
  have l: "length ''0123456789'' = 10" by simp
  from eq b show "m = n"
    unfolding digit_def using d l by (metis nth_eq_iff_index_eq)
qed

lemma nat_str_not_Nil [simp]: "nat_str n \<noteq> []"
  by (subst nat_str.simps) simp

lemma Nil_not_nat_str [simp]: "[] \<noteq> nat_str n"
  using nat_str_not_Nil [of n] by metis

lemma nat_str_small: "n < 10 \<Longrightarrow> nat_str n = [digit n]"
  by (subst nat_str.simps) simp

lemma nat_str_large: "\<not> n < 10 \<Longrightarrow> nat_str n = nat_str (n div 10) @ [digit (n mod 10)]"
  by (subst nat_str.simps) simp

text \<open>Decimal printing is injective: two identifiers built from different numbers differ.\<close>

lemma nat_str_inj: "nat_str m = nat_str n \<Longrightarrow> m = n"
proof (induction m arbitrary: n rule: nat_str.induct)
  case (1 m)
  show ?case
  proof (cases "m < 10")
    case True
    with "1.prems" show ?thesis
      by (cases "n < 10") (auto simp: nat_str_small nat_str_large [of n] intro: digit_inj)
  next
    case False
    with "1.prems" have n: "\<not> n < 10"
      by (auto simp: nat_str_small nat_str_large [of m])
    with False "1.prems" have eqs: "nat_str (m div 10) = nat_str (n div 10)"
      "digit (m mod 10) = digit (n mod 10)"
      by (auto simp: nat_str_large [of m] nat_str_large [of n])
    from "1.IH" [OF False eqs(1)] digit_inj [OF eqs(2)] have "m div 10 = n div 10" "m mod 10 = n mod 10"
      by auto
    then show ?thesis by (metis div_mult_mod_eq)
  qed
qed

lemma starts_with_iff: "starts_with s p \<longleftrightarrow> (\<exists>r. s = p @ r)"
  by (induction s p rule: starts_with.induct) auto

lemma starts_with_append [simp]: "starts_with (p @ r) p"
  by (auto simp: starts_with_iff)

lemma ends_with_iff: "ends_with s p \<longleftrightarrow> (\<exists>r. s = r @ p)"
proof
  assume "ends_with s p"
  then obtain r where "rev s = rev p @ r"
    by (auto simp: ends_with_def starts_with_iff)
  then have "s = rev r @ p" by (metis rev_append rev_rev_ident)
  then show "\<exists>r. s = r @ p" ..
next
  assume "\<exists>r. s = r @ p"
  then show "ends_with s p" by (auto simp: ends_with_def)
qed

lemma contains_str_append: "contains_str (a @ p @ b) p"
proof (induction a)
  case Nil
  show ?case
  proof (cases "p @ b")
    case (Cons c s)
    then have "starts_with (c # s) p" by (metis starts_with_append)
    with Cons show ?thesis by simp
  qed simp
qed auto

lemma truthy_None [simp]: "\<not> truthy None"
  by (simp add: truthy_def)

lemma truthy_Some [simp]: "truthy (Some s) \<longleftrightarrow> s \<noteq> []"
  by (simp add: truthy_def)

lemma truthyE: "truthy x \<Longrightarrow> (\<And>s. x = Some s \<Longrightarrow> s \<noteq> [] \<Longrightarrow> P) \<Longrightarrow> P"
  by (cases x) auto

lemma length_slice_to_nonneg: "0 \<le> i \<Longrightarrow> length (slice_to i xs) = min (nat i) (length xs)"
  by (simp add: slice_to_def min.commute)

lemma slice_to_nonneg: "0 \<le> i \<Longrightarrow> slice_to i xs = take (nat i) xs"
  by (simp add: slice_to_def)

lemma length_slice_from_neg: "0 < k \<Longrightarrow> length (slice_from (- k) xs) = min (nat k) (length xs)"
  by (auto simp: slice_from_def)

lemma slice_split: "0 \<le> i \<Longrightarrow> slice_to i xs @ slice_from i xs = xs"
  by (simp add: slice_to_def slice_from_def)

section \<open>Lemmas on dictionaries and sets\<close>

lemma dict_get_Nil [simp]: "dict_get [] k = None"
  by (simp add: dict_get_def)

lemma dict_get_set [dict_simps]:
  "dict_get (dict_set k v d) k' = (if k' = k then Some v else dict_get d k')"
  by (simp add: dict_get_def dict_set_def update_conv')

lemma dict_get_pop [dict_simps]:
  "dict_get (dict_pop k d) k' = (if k' = k then None else dict_get d k')"
  by (simp add: dict_get_def dict_pop_def delete_conv')

lemma dict_get_pops [dict_simps]:
  "dict_get (dict_pops ks d) k = (if k \<in> set ks then None else dict_get d k)"
  by (induction ks arbitrary: d) (auto simp: dict_get_pop)

lemma dict_wf_Nil [simp, intro]: "dict_wf []"
  by (simp add: dict_wf_def)

lemma dict_wf_set [simp, intro]: "dict_wf d \<Longrightarrow> dict_wf (dict_set k v d)"
  by (simp add: dict_wf_def dict_set_def distinct_update)

lemma dict_wf_pop [simp, intro]: "dict_wf d \<Longrightarrow> dict_wf (dict_pop k d)"
  by (simp add: dict_wf_def dict_pop_def distinct_delete)

lemma dict_wf_pops [simp, intro]: "dict_wf d \<Longrightarrow> dict_wf (dict_pops ks d)"
  by (induction ks arbitrary: d) auto

lemma dict_keys_iff: "k \<in> set (dict_keys d) \<longleftrightarrow> dict_get d k \<noteq> None"
  by (simp add: dict_keys_def dict_get_def map_of_eq_None_iff)

lemma dict_mem_get: "dict_wf d \<Longrightarrow> (k, v) \<in> set d \<longleftrightarrow> dict_get d k = Some v"
  by (auto simp: dict_wf_def dict_get_def)

lemma dict_values_iff: "dict_wf d \<Longrightarrow> v \<in> set (dict_values d) \<longleftrightarrow> (\<exists>k. dict_get d k = Some v)"
  by (force simp: dict_values_def dict_mem_get [symmetric])

lemma dict_get_all_None: "(\<And>k. dict_get d k = None) \<Longrightarrow> d = []"
proof (cases d)
  case (Cons x xs)
  assume "\<And>k. dict_get d k = None"
  from this [of "fst x"] Cons show ?thesis by (simp add: dict_get_def)
qed

lemma dict_pop_absent: "dict_get d k = None \<Longrightarrow> dict_pop k d = d"
  by (induction d) (auto simp: dict_get_def dict_pop_def split: if_splits)

lemma dict_pop_set_absent: "dict_get d k = None \<Longrightarrow> dict_pop k (dict_set k v d) = d"
  by (induction d) (auto simp: dict_get_def dict_pop_def dict_set_def split: if_splits)

lemma dict_count_pop:
  assumes "dict_wf d"
  shows "dict_count P d =
    dict_count P (dict_pop k d) + (case dict_get d k of Some v \<Rightarrow> if P v then 1 else 0 | None \<Rightarrow> 0)"
  using assms
proof (induction d)
  case Nil
  then show ?case by (simp add: dict_count_def dict_pop_def dict_get_def)
next
  case (Cons e d)
  obtain k' v' where e: "e = (k', v')" by (cases e)
  show ?case
  proof (cases "k' = k")
    case True
    with Cons.prems e have "dict_get d k = None"
      by (auto simp: dict_wf_def dict_get_def map_of_eq_None_iff)
    then have "dict_pop k d = d" by (rule dict_pop_absent)
    with True e show ?thesis
      by (simp add: dict_count_def dict_pop_def dict_get_def)
  next
    case False
    with Cons e show ?thesis
      by (simp add: dict_count_def dict_pop_def dict_get_def dict_wf_def)
  qed
qed

lemma dict_count_set:
  assumes "dict_wf d"
  shows "dict_count P (dict_set k v d) = dict_count P (dict_pop k d) + (if P v then 1 else 0)"
proof -
  have "dict_pop k (dict_set k v d) = dict_pop k d"
    by (induction d) (auto simp: dict_pop_def dict_set_def)
  moreover have "dict_wf (dict_set k v d)" using assms by simp
  ultimately show ?thesis
    using dict_count_pop [of "dict_set k v d" P k] by (simp add: dict_get_set)
qed

lemma dict_count_le: "dict_count P (dict_pop k d) \<le> dict_count P d"
  by (induction d) (auto simp: dict_count_def dict_pop_def)

lemma dict_count_le_length: "dict_count P d \<le> length d"
  by (simp add: dict_count_def)

lemma dict_count_0_iff: "dict_wf d \<Longrightarrow> dict_count P d = 0 \<longleftrightarrow> (\<forall>k v. dict_get d k = Some v \<longrightarrow> \<not> P v)"
  by (auto simp: dict_count_def filter_empty_conv dict_mem_get)

lemma dict_ran_set: "dict_get d k = None \<Longrightarrow> dict_ran (dict_set k v d) = insert v (dict_ran d)"
  unfolding dict_ran_def dict_get_set by (auto, metis option.distinct(1))

lemma dict_ran_pop:
  assumes "dict_get d k = Some v" and "\<forall>j. dict_get d j = Some v \<longrightarrow> j = k"
  shows "dict_ran (dict_pop k d) = dict_ran d - {v}"
proof (rule set_eqI, rule iffI)
  fix u
  assume "u \<in> dict_ran (dict_pop k d)"
  then obtain j where "j \<noteq> k" "dict_get d j = Some u" by (auto simp: dict_ran_def dict_get_pop split: if_splits)
  with assms(2) show "u \<in> dict_ran d - {v}" by (auto simp: dict_ran_def)
next
  fix u
  assume "u \<in> dict_ran d - {v}"
  then obtain j where "dict_get d j = Some u" "u \<noteq> v" by (auto simp: dict_ran_def)
  with assms(1) have "dict_get (dict_pop k d) j = Some u" by (auto simp: dict_get_pop)
  then show "u \<in> dict_ran (dict_pop k d)" by (auto simp: dict_ran_def)
qed

lemma dict_ranI: "dict_get d k = Some v \<Longrightarrow> v \<in> dict_ran d"
  by (auto simp: dict_ran_def)

lemma set_add_iff [pyset_simps]: "y \<in> set (set_add x s) \<longleftrightarrow> y = x \<or> y \<in> set s"
  by (auto simp: set_add_def)

lemma set_discard_iff [pyset_simps]: "y \<in> set (set_discard x s) \<longleftrightarrow> y \<noteq> x \<and> y \<in> set s"
  by (auto simp: set_discard_def)

lemma distinct_set_add [simp, intro]: "distinct s \<Longrightarrow> distinct (set_add x s)"
  by (simp add: set_add_def)

lemma distinct_set_discard [simp, intro]: "distinct s \<Longrightarrow> distinct (set_discard x s)"
  by (simp add: set_discard_def distinct_removeAll)

lemma length_set_add: "length (set_add x s) \<le> Suc (length s)"
  by (simp add: set_add_def)

lemma length_set_discard: "length (set_discard x s) \<le> length s"
  by (simp add: set_discard_def)

lemma distinct_count_list: "distinct xs \<Longrightarrow> count_list xs v = (if v \<in> set xs then 1 else 0)"
  by (induction xs) auto

text \<open>An in-place update of the selected rows of a table that keeps their keys.\<close>

lemma map_key_update:
  "(\<And>x. g (f x) = g x) \<Longrightarrow> map (g \<circ> (\<lambda>x. if P x then f x else x)) xs = map g xs"
  by (induction xs) auto

section \<open>The interface of a dictionary\<close>

text \<open>
  What the components rely on: a read returns the last value written under the key, and
  popping forgets exactly one key. The lemmas of the locale are the algebra of writes
  that the broker and the client use for their registries.
\<close>

locale dictionary =
  fixes get :: "'d \<Rightarrow> 'k \<Rightarrow> 'v option"
    and put :: "'k \<Rightarrow> 'v \<Rightarrow> 'd \<Rightarrow> 'd"
    and pop :: "'k \<Rightarrow> 'd \<Rightarrow> 'd"
  assumes get_put: "get (put k v d) k' = (if k' = k then Some v else get d k')"
    and get_pop: "get (pop k d) k' = (if k' = k then None else get d k')"
begin

lemma pop_put: "get (pop k (put k v d)) = get (pop k d)"
  by (rule ext) (simp add: get_put get_pop)

lemma put_put: "get (put k v (put k w d)) = get (put k v d)"
  by (rule ext) (simp add: get_put)

lemma put_commute: "k \<noteq> k' \<Longrightarrow> get (put k v (put k' w d)) = get (put k' w (put k v d))"
  by (rule ext) (simp add: get_put)

lemma pop_idem: "get (pop k (pop k d)) = get (pop k d)"
  by (rule ext) (simp add: get_pop)

lemma read_your_write: "get (put k v d) k = Some v"
  by (simp add: get_put)

lemma roll_back: "get d k = None \<Longrightarrow> get (pop k (put k v d)) = get d"
  by (rule ext) (simp add: get_put get_pop)

end

interpretation pydict: dictionary dict_get dict_set dict_pop
  by unfold_locales (simp_all add: dict_simps)

section \<open>The interface of a bounded buffer\<close>

text \<open>
  The audit writer's queue and the client's delivery queues differ in what they drop when
  full, and agree on this contract.
\<close>

locale bounded_buffer =
  fixes put :: "'a \<Rightarrow> 'a list \<Rightarrow> 'a list" and cap :: nat
  assumes put_bound: "length q \<le> cap \<Longrightarrow> length (put x q) \<le> cap"
    and put_room: "length q < cap \<Longrightarrow> put x q = q @ [x]"
begin

lemma puts_bound: "length q \<le> cap \<Longrightarrow> length (fold put xs q) \<le> cap"
  by (induction xs arbitrary: q) (simp_all add: put_bound)

lemma puts_lossless: "length q + length xs \<le> cap \<Longrightarrow> fold put xs q = q @ xs"
  by (induction xs arbitrary: q) (simp_all add: put_room)

end

text \<open>A queue that refuses new items when full.\<close>

definition drop_newest :: "nat \<Rightarrow> 'a \<Rightarrow> 'a list \<Rightarrow> 'a list" where
  "drop_newest n x q = (if length q \<ge> n then q else q @ [x])"

interpretation newest: bounded_buffer "drop_newest n" n for n
  by unfold_locales (auto simp: drop_newest_def)

end
