(* ===== verification/NmbModels.thy ===== *)
theory NmbModels
  imports Prelude
begin

text \<open>
  The wire protocol of the NemoClaw message bus (\<^verbatim>\<open>nmb/models.py\<close>): the operation,
  error and delivery-status enumerations with their wire values, the message model, the
  table of required fields and \<open>validate_frame\<close>, and the broker's pending-request record.
  Parsing and printing of frames is done by pydantic, which is outside the repository:
  the components that read frames take the parser as an argument.
\<close>

section \<open>Enumerations\<close>

datatype Op =
    Op_SEND | Op_REQUEST | Op_REPLY | Op_SUBSCRIBE | Op_UNSUBSCRIBE | Op_PUBLISH | Op_STREAM
  | Op_DELIVER | Op_ACK | Op_ERROR | Op_TIMEOUT

fun op_value :: "Op \<Rightarrow> string" where
  "op_value Op_SEND = ''send''"
| "op_value Op_REQUEST = ''request''"
| "op_value Op_REPLY = ''reply''"
| "op_value Op_SUBSCRIBE = ''subscribe''"
| "op_value Op_UNSUBSCRIBE = ''unsubscribe''"
| "op_value Op_PUBLISH = ''publish''"
| "op_value Op_STREAM = ''stream''"
| "op_value Op_DELIVER = ''deliver''"
| "op_value Op_ACK = ''ack''"
| "op_value Op_ERROR = ''error''"
| "op_value Op_TIMEOUT = ''timeout''"

datatype ErrorCode =
    TARGET_OFFLINE | TARGET_UNKNOWN | REQUEST_TIMEOUT | PAYLOAD_TOO_LARGE
  | RATE_LIMITED | CHANNEL_FULL | INVALID_FRAME | POLICY_DENIED

fun code_value :: "ErrorCode \<Rightarrow> string" where
  "code_value TARGET_OFFLINE = ''TARGET_OFFLINE''"
| "code_value TARGET_UNKNOWN = ''TARGET_UNKNOWN''"
| "code_value REQUEST_TIMEOUT = ''REQUEST_TIMEOUT''"
| "code_value PAYLOAD_TOO_LARGE = ''PAYLOAD_TOO_LARGE''"
| "code_value RATE_LIMITED = ''RATE_LIMITED''"
| "code_value CHANNEL_FULL = ''CHANNEL_FULL''"
| "code_value INVALID_FRAME = ''INVALID_FRAME''"
| "code_value POLICY_DENIED = ''POLICY_DENIED''"

datatype DeliveryStatus = DS_DELIVERED | DS_ERROR | DS_TIMEOUT

fun status_value :: "DeliveryStatus \<Rightarrow> string" where
  "status_value DS_DELIVERED = ''delivered''"
| "status_value DS_ERROR = ''error''"
| "status_value DS_TIMEOUT = ''timeout''"

section \<open>Messages\<close>

type_synonym payload = "(string \<times> json) list"

record NMBMessage =
  m_op :: Op
  m_id :: string
  m_from_sandbox :: "string option"
  m_to_sandbox :: "string option"
  m_type :: "string option"
  m_reply_to :: "string option"
  m_channel :: "string option"
  m_stream_id :: "string option"
  m_seq :: "int option"
  m_done :: "bool option"
  m_timeout :: "pyfloat option"
  m_timestamp :: "pyfloat option"
  m_payload :: "payload option"
  m_code :: "string option"
  m_message :: "string option"

text \<open>\<open>NMBMessage(op=o, id=i)\<close>: every other field has its default \<open>None\<close>.\<close>

definition new_message :: "Op \<Rightarrow> string \<Rightarrow> NMBMessage" where
  "new_message opn i = \<lparr>m_op = opn, m_id = i, m_from_sandbox = None, m_to_sandbox = None,
     m_type = None, m_reply_to = None, m_channel = None, m_stream_id = None, m_seq = None,
     m_done = None, m_timeout = None, m_timestamp = None, m_payload = None, m_code = None,
     m_message = None\<rparr>"

datatype FrameValidationError = FrameValidationError (err_code: ErrorCode) (err_text: string)

text \<open>The default of \<open>DEFAULT_NMB_MAX_PAYLOAD_BYTES\<close>: 10 MB.\<close>

definition DEFAULT_NMB_MAX_PAYLOAD_BYTES :: nat where
  "DEFAULT_NMB_MAX_PAYLOAD_BYTES = 10 * 1024 * 1024"

text \<open>
  The required fields per operation. The source keeps them in sets, whose iteration order
  is unspecified; the model walks them in the order in which the source writes them, which
  decides only which one of several missing fields the error text names.
\<close>

fun REQUIRED_FIELDS :: "Op \<Rightarrow> string list" where
  "REQUIRED_FIELDS Op_SEND = [''id'', ''to_sandbox'', ''type'', ''payload'']"
| "REQUIRED_FIELDS Op_REQUEST = [''id'', ''to_sandbox'', ''type'', ''payload'']"
| "REQUIRED_FIELDS Op_REPLY = [''id'', ''reply_to'', ''type'', ''payload'']"
| "REQUIRED_FIELDS Op_SUBSCRIBE = [''channel'']"
| "REQUIRED_FIELDS Op_UNSUBSCRIBE = [''channel'']"
| "REQUIRED_FIELDS Op_PUBLISH = [''channel'', ''type'', ''payload'']"
| "REQUIRED_FIELDS Op_STREAM = [''to_sandbox'', ''stream_id'', ''seq'', ''payload'']"
| "REQUIRED_FIELDS Op_DELIVER = [''id'', ''from_sandbox'', ''type'', ''payload'']"
| "REQUIRED_FIELDS Op_ACK = [''id'']"
| "REQUIRED_FIELDS Op_ERROR = [''id'', ''code'', ''message'']"
| "REQUIRED_FIELDS Op_TIMEOUT = [''id'']"

text \<open>\<open>getattr(self, field_name, None) is None\<close>; \<open>op\<close> and \<open>id\<close> are never \<open>None\<close>.\<close>

definition field_missing :: "NMBMessage \<Rightarrow> string \<Rightarrow> bool" where
  "field_missing m f =
     (if f = ''op'' then False
      else if f = ''id'' then False
      else if f = ''from_sandbox'' then m_from_sandbox m = None
      else if f = ''to_sandbox'' then m_to_sandbox m = None
      else if f = ''type'' then m_type m = None
      else if f = ''reply_to'' then m_reply_to m = None
      else if f = ''channel'' then m_channel m = None
      else if f = ''stream_id'' then m_stream_id m = None
      else if f = ''seq'' then m_seq m = None
      else if f = ''done'' then m_done m = None
      else if f = ''timeout'' then m_timeout m = None
      else if f = ''timestamp'' then m_timestamp m = None
      else if f = ''payload'' then m_payload m = None
      else if f = ''code'' then m_code m = None
      else if f = ''message'' then m_message m = None
      else True)"

fun first_missing :: "NMBMessage \<Rightarrow> string list \<Rightarrow> string option" where
  "first_missing m [] = None"
| "first_missing m (f # fs) = (if field_missing m f then Some f else first_missing m fs)"

definition payload_bytes :: "payload \<Rightarrow> nat" where
  "payload_bytes p = length (json_dumps (JObj p))"

definition validate_frame :: "NMBMessage \<Rightarrow> FrameValidationError option" where
  "validate_frame m =
     (case first_missing m (REQUIRED_FIELDS (m_op m)) of
        Some f \<Rightarrow> Some (FrameValidationError INVALID_FRAME
          (''Missing required field '' @ [CHR 0x27] @ f @ [CHR 0x27] @ '' for op='' @ op_value (m_op m)))
      | None \<Rightarrow>
         (case m_payload m of
            None \<Rightarrow> None
          | Some p \<Rightarrow>
             if payload_bytes p > DEFAULT_NMB_MAX_PAYLOAD_BYTES
             then Some (FrameValidationError PAYLOAD_TOO_LARGE
               (''Payload size '' @ nat_str (payload_bytes p) @ '' exceeds '' @
                nat_str DEFAULT_NMB_MAX_PAYLOAD_BYTES @ '' byte limit''))
             else None))"

text \<open>\<open>PendingRequest\<close>: the broker's record of an in-flight request.\<close>

record PendingRequest =
  request_id :: string
  pr_from_sandbox :: string
  created_at :: pyfloat
  pr_timeout :: pyfloat

section \<open>Lemmas\<close>

lemma op_value_inj: "op_value a = op_value b \<Longrightarrow> a = b"
  by (cases a; cases b) simp_all

lemma code_value_inj: "code_value a = code_value b \<Longrightarrow> a = b"
  by (cases a; cases b) simp_all

lemma first_missing_None_iff: "first_missing m fs = None \<longleftrightarrow> (\<forall>f \<in> set fs. \<not> field_missing m f)"
  by (induction fs) auto

lemma first_missing_SomeD: "first_missing m fs = Some f \<Longrightarrow> f \<in> set fs \<and> field_missing m f"
  by (induction fs) (auto split: if_splits)

lemma validate_frame_None_iff:
  "validate_frame m = None \<longleftrightarrow>
     (\<forall>f \<in> set (REQUIRED_FIELDS (m_op m)). \<not> field_missing m f) \<and>
     (\<forall>p. m_payload m = Some p \<longrightarrow> payload_bytes p \<le> DEFAULT_NMB_MAX_PAYLOAD_BYTES)"
  by (auto simp: validate_frame_def first_missing_None_iff split: option.splits
      dest: first_missing_SomeD)

text \<open>What a validated frame of each client operation is known to carry.\<close>

lemma validate_frame_fields:
  assumes "validate_frame m = None"
  shows "m_op m \<in> {Op_SEND, Op_REQUEST, Op_STREAM} \<Longrightarrow> m_to_sandbox m \<noteq> None"
    and "m_op m = Op_REPLY \<Longrightarrow> m_reply_to m \<noteq> None"
    and "m_op m \<in> {Op_SUBSCRIBE, Op_UNSUBSCRIBE, Op_PUBLISH} \<Longrightarrow> m_channel m \<noteq> None"
    and "m_op m \<in> {Op_SEND, Op_REQUEST, Op_REPLY, Op_PUBLISH} \<Longrightarrow> m_type m \<noteq> None"
    and "m_op m \<in> {Op_SEND, Op_REQUEST, Op_REPLY, Op_PUBLISH, Op_STREAM} \<Longrightarrow> m_payload m \<noteq> None"
  using assms by (auto simp: validate_frame_None_iff field_missing_def)

lemma new_message_simps [simp]:
  "m_op (new_message op i) = op" "m_id (new_message op i) = i"
  "m_from_sandbox (new_message op i) = None" "m_reply_to (new_message op i) = None"
  "m_channel (new_message op i) = None" "m_code (new_message op i) = None"
  "m_message (new_message op i) = None" "m_payload (new_message op i) = None"
  by (simp_all add: new_message_def)

section \<open>Properties\<close>

text \<open>
  \<open>validate_frame\<close> accepts exactly the frames whose required fields for the operation
  are all present and whose JSON payload, if any, is at most 10 MB when printed; a
  rejection carries \<open>INVALID_FRAME\<close> exactly when a required field is missing, and
  \<open>PAYLOAD_TOO_LARGE\<close> otherwise.
\<close>

theorem validate_frame_spec:
  "(validate_frame m = None \<longleftrightarrow>
      list_all (\<lambda>f. \<not> field_missing m f) (REQUIRED_FIELDS (m_op m)) \<and>
      (case m_payload m of None \<Rightarrow> True
       | Some p \<Rightarrow> payload_bytes p \<le> 10485760)) \<and>
   (map_option err_code (validate_frame m) = Some INVALID_FRAME \<longleftrightarrow>
      \<not> list_all (\<lambda>f. \<not> field_missing m f) (REQUIRED_FIELDS (m_op m))) \<and>
   map_option err_code (validate_frame m) \<in> {None, Some INVALID_FRAME, Some PAYLOAD_TOO_LARGE}"
proof -
  have a: "list_all (\<lambda>f. \<not> field_missing m f) (REQUIRED_FIELDS (m_op m)) \<longleftrightarrow>
      first_missing m (REQUIRED_FIELDS (m_op m)) = None"
    by (simp add: first_missing_None_iff list_all_iff)
  show ?thesis
    unfolding a by (simp add: validate_frame_def DEFAULT_NMB_MAX_PAYLOAD_BYTES_def
        split: option.splits)
qed

end
