(* ===== verification/AuditDb.thy ===== *)
theory AuditDb
  imports NmbModels
begin

text \<open>
  The audit database (\<^verbatim>\<open>audit/db.py\<close>, \<^verbatim>\<open>audit/models.py\<close>) and the sub-agent's in-memory
  audit buffer (\<^verbatim>\<open>agent/audit_buffer.py\<close>), both implementations of the \<open>AuditSink\<close>
  interface (\<^verbatim>\<open>audit/sink.py\<close>), which is the locale \<open>audit_sink\<close> below.

  A table is the list of its rows in insertion order, under the primary-key and
  \<open>NOT NULL\<close> constraints that the row classes declare; a transaction either commits
  whole or leaves the tables unchanged. The background writer is split at its await point:
  \<open>flush_take\<close> removes a batch from the queue and \<open>flush_commit\<close> writes it, with the
  batch in between held in \<open>in_flight\<close>. Clock readings and generated ids are arguments.
\<close>

section \<open>Rows\<close>

record MessageRow =
  mr_id :: string
  mr_timestamp :: pyfloat
  mr_op :: string
  mr_from_sandbox :: "string option"
  mr_to_sandbox :: "string option"
  mr_type :: "string option"
  mr_reply_to :: "string option"
  mr_channel :: "string option"
  mr_payload :: string
  mr_payload_size :: nat
  mr_delivery_status :: string

record ConnectionRow =
  cr_sandbox_id :: string
  cr_connected_at :: pyfloat
  cr_disconnected_at :: "pyfloat option"
  cr_disconnect_reason :: "string option"

record ToolCallRow =
  tc_id :: string
  tc_timestamp :: pyfloat
  tc_session_id :: "string option"
  tc_thread_ts :: "string option"
  tc_service :: string
  tc_command :: string
  tc_args :: string
  tc_operation_type :: string
  tc_approval_status :: "string option"
  tc_approved_by :: "string option"
  tc_approval_time_ms :: "pyfloat option"
  tc_exit_code :: "int option"
  tc_duration_ms :: pyfloat
  tc_success :: int
  tc_error_code :: "string option"
  tc_error_message :: "string option"
  tc_response_payload :: string
  tc_payload_size :: nat
  tc_workflow_id :: "string option"
  tc_parent_sandbox_id :: "string option"
  tc_agent_id :: "string option"
  tc_agent_role :: "string option"

record DelegationRow =
  dr_workflow_id :: string
  dr_started_at :: pyfloat
  dr_completed_at :: "pyfloat option"
  dr_parent_sandbox_id :: string
  dr_agent_id :: string
  dr_workspace_root :: string
  dr_prompt :: string
  dr_requested_model :: "string option"
  dr_requested_max_turns :: "int option"
  dr_base_sha :: "string option"
  dr_base_repo_url :: "string option"
  dr_base_branch :: "string option"
  dr_status :: string
  dr_error_kind :: "string option"
  dr_error_message :: "string option"
  dr_recoverable :: "int option"
  dr_rounds_used :: "int option"
  dr_tool_calls_made :: "int option"
  dr_model_used :: "string option"
  dr_summary :: "string option"
  dr_diff_size :: "int option"

section \<open>The keyword arguments of \<open>log_tool_call\<close>\<close>

record ToolCallEntry =
  e_row_id :: "string option"
  e_session_id :: "string option"
  e_thread_ts :: "string option"
  e_service :: string
  e_command :: string
  e_args :: string
  e_operation_type :: string
  e_approval_status :: "string option"
  e_approved_by :: "string option"
  e_approval_time_ms :: "pyfloat option"
  e_exit_code :: "int option"
  e_duration_ms :: pyfloat
  e_success :: bool
  e_error_code :: "string option"
  e_error_message :: "string option"
  e_response_payload :: string
  e_workflow_id :: "string option"
  e_parent_sandbox_id :: "string option"
  e_agent_id :: "string option"
  e_agent_role :: "string option"

text \<open>\<open>AuditToolCallPayload\<close> and \<open>AuditFlushPayload\<close> of \<^verbatim>\<open>nmb/protocol.py\<close>.\<close>

record AuditToolCallPayload =
  p_id :: string
  p_service :: string
  p_command :: string
  p_args :: string
  p_operation_type :: string
  p_approval_status :: "string option"
  p_approved_by :: "string option"
  p_approval_time_ms :: "pyfloat option"
  p_exit_code :: "int option"
  p_duration_ms :: pyfloat
  p_success :: bool
  p_error_code :: "string option"
  p_error_message :: "string option"
  p_response_payload :: string

record AuditFlushPayload =
  f_workflow_id :: string
  f_parent_sandbox_id :: string
  f_agent_id :: string
  f_agent_role :: string
  f_tool_calls :: "AuditToolCallPayload list"

section \<open>The database\<close>

datatype audit_error = NotOpen | IntegrityError

datatype audit_item = InsertItem NMBMessage DeliveryStatus | UpdateItem string DeliveryStatus

text \<open>
  \<open>wal_ok\<close> is the environment's part: whether a WAL checkpoint statement succeeds.
  \<open>flush_running\<close> says that the background task exists.
\<close>

record AuditDB =
  persist_payloads :: bool
  checkpoint_interval :: int
  commits_since_checkpoint :: int
  wal_ok :: bool
  session_open :: bool
  write_queue :: "audit_item list option"
  flush_running :: bool
  in_flight :: "audit_item list"
  messages_table :: "MessageRow list"
  connections_table :: "ConnectionRow list"
  tool_calls_table :: "ToolCallRow list"
  delegations_table :: "DelegationRow list"

definition DEFAULT_AUDIT_QUEUE_SIZE :: nat where "DEFAULT_AUDIT_QUEUE_SIZE = 10000"
definition DEFAULT_AUDIT_BATCH_SIZE :: nat where "DEFAULT_AUDIT_BATCH_SIZE = 100"

definition audit_init :: "bool \<Rightarrow> int \<Rightarrow> AuditDB" where
  "audit_init persist interval = \<lparr>persist_payloads = persist, checkpoint_interval = interval,
     commits_since_checkpoint = 0, wal_ok = True, session_open = False, write_queue = None,
     flush_running = False, in_flight = [], messages_table = [], connections_table = [],
     tool_calls_table = [], delegations_table = []\<rparr>"

definition checkpoint :: "AuditDB \<Rightarrow> AuditDB" where
  "checkpoint db = (if \<not> session_open db then db
     else if wal_ok db then db\<lparr>commits_since_checkpoint := 0\<rparr> else db)"

definition maybe_checkpoint :: "AuditDB \<Rightarrow> AuditDB" where
  "maybe_checkpoint db =
     (if checkpoint_interval db \<le> 0 then db
      else let db' = db\<lparr>commits_since_checkpoint := commits_since_checkpoint db + 1\<rparr> in
        if commits_since_checkpoint db' \<ge> checkpoint_interval db' then checkpoint db' else db')"

definition audit_open :: "AuditDB \<Rightarrow> AuditDB" where
  "audit_open db = db\<lparr>session_open := True\<rparr>"

definition audit_close :: "AuditDB \<Rightarrow> AuditDB" where
  "audit_close db = (if session_open db then (checkpoint db)\<lparr>session_open := False\<rparr> else db)"

section \<open>Background batch writer\<close>

definition start_background_writer :: "AuditDB \<Rightarrow> AuditDB" where
  "start_background_writer db = db\<lparr>write_queue := Some [], flush_running := True\<rparr>"

text \<open>\<open>put_nowait\<close> on a bounded queue; \<open>QueueFull\<close> drops the new item.\<close>

definition put_nowait_or_drop :: "audit_item \<Rightarrow> AuditDB \<Rightarrow> AuditDB" where
  "put_nowait_or_drop item db =
     (case write_queue db of
        None \<Rightarrow> db
      | Some q \<Rightarrow> db\<lparr>write_queue := Some (drop_newest DEFAULT_AUDIT_QUEUE_SIZE item q)\<rparr>)"

definition enqueue_message :: "NMBMessage \<Rightarrow> DeliveryStatus \<Rightarrow> AuditDB \<Rightarrow> AuditDB" where
  "enqueue_message msg st db = put_nowait_or_drop (InsertItem msg st) db"

definition enqueue_status_update :: "string \<Rightarrow> DeliveryStatus \<Rightarrow> AuditDB \<Rightarrow> AuditDB" where
  "enqueue_status_update mid st db = put_nowait_or_drop (UpdateItem mid st) db"

definition message_row :: "pyfloat \<Rightarrow> bool \<Rightarrow> NMBMessage \<Rightarrow> DeliveryStatus \<Rightarrow> MessageRow" where
  "message_row now persist msg st =
     (let payload_json = (case m_payload msg of Some p \<Rightarrow> json_dumps (JObj p) | None \<Rightarrow> []) in
      \<lparr>mr_id = m_id msg,
       mr_timestamp = (case m_timestamp msg of Some t \<Rightarrow> if t \<noteq> 0 then t else now | None \<Rightarrow> now),
       mr_op = op_value (m_op msg), mr_from_sandbox = m_from_sandbox msg,
       mr_to_sandbox = m_to_sandbox msg, mr_type = m_type msg, mr_reply_to = m_reply_to msg,
       mr_channel = m_channel msg, mr_payload = (if persist then payload_json else []),
       mr_payload_size = length payload_json, mr_delivery_status = status_value st\<rparr>)"

definition row_nonnull :: "MessageRow \<Rightarrow> bool" where
  "row_nonnull r = (mr_from_sandbox r \<noteq> None \<and> mr_type r \<noteq> None)"

text \<open>The constraints of \<open>MessageRow\<close>: primary key \<open>id\<close>, \<open>from_sandbox\<close> and \<open>type\<close> not null.\<close>

definition insert_message_row :: "MessageRow \<Rightarrow> MessageRow list \<Rightarrow> audit_error + MessageRow list" where
  "insert_message_row r tbl =
     (if \<not> row_nonnull r \<or> mr_id r \<in> mr_id ` set tbl
      then Inl IntegrityError else Inr (tbl @ [r]))"

fun insert_message_rows :: "MessageRow list \<Rightarrow> MessageRow list \<Rightarrow> audit_error + MessageRow list" where
  "insert_message_rows [] tbl = Inr tbl"
| "insert_message_rows (r # rs) tbl =
     (case insert_message_row r tbl of Inl e \<Rightarrow> Inl e | Inr tbl' \<Rightarrow> insert_message_rows rs tbl')"

definition update_message_status :: "string \<Rightarrow> DeliveryStatus \<Rightarrow> MessageRow list \<Rightarrow> MessageRow list" where
  "update_message_status mid st tbl =
     map (\<lambda>r. if mr_id r = mid then r\<lparr>mr_delivery_status := status_value st\<rparr> else r) tbl"

fun batch_inserts :: "audit_item list \<Rightarrow> (NMBMessage \<times> DeliveryStatus) list" where
  "batch_inserts [] = []"
| "batch_inserts (InsertItem m st # b) = (m, st) # batch_inserts b"
| "batch_inserts (UpdateItem i st # b) = batch_inserts b"

fun batch_updates :: "audit_item list \<Rightarrow> (string \<times> DeliveryStatus) list" where
  "batch_updates [] = []"
| "batch_updates (InsertItem m st # b) = batch_updates b"
| "batch_updates (UpdateItem i st # b) = (i, st) # batch_updates b"

definition write_message_batch :: "pyfloat \<Rightarrow> audit_item list \<Rightarrow> AuditDB \<Rightarrow> audit_error + AuditDB" where
  "write_message_batch now batch db =
     (if \<not> session_open db then Inl NotOpen
      else case insert_message_rows
          (map (\<lambda>(m, st). message_row now (persist_payloads db) m st) (batch_inserts batch))
          (messages_table db) of
        Inl e \<Rightarrow> Inl e
      | Inr tbl \<Rightarrow> Inr (maybe_checkpoint (db\<lparr>messages_table :=
          fold (\<lambda>(i, st). update_message_status i st) (batch_updates batch) tbl\<rparr>)))"

text \<open>
  One turn of \<open>_flush_loop\<close>: block on the first item (no step while the queue is empty),
  take up to \<open>DEFAULT_AUDIT_BATCH_SIZE\<close> items, then write them; a failed batch is dropped.
\<close>

definition flush_take :: "AuditDB \<Rightarrow> AuditDB option" where
  "flush_take db =
     (case write_queue db of
        None \<Rightarrow> None
      | Some q \<Rightarrow> if \<not> flush_running db \<or> in_flight db \<noteq> [] \<or> q = [] then None
          else Some (db\<lparr>write_queue := Some (drop DEFAULT_AUDIT_BATCH_SIZE q),
                        in_flight := take DEFAULT_AUDIT_BATCH_SIZE q\<rparr>))"

definition flush_commit :: "pyfloat \<Rightarrow> AuditDB \<Rightarrow> AuditDB" where
  "flush_commit now db =
     (case write_message_batch now (in_flight db) db of
        Inl e \<Rightarrow> db\<lparr>in_flight := []\<rparr>
      | Inr db' \<Rightarrow> db'\<lparr>in_flight := []\<rparr>)"

definition drain_queue :: "pyfloat \<Rightarrow> AuditDB \<Rightarrow> AuditDB" where
  "drain_queue now db =
     (case write_queue db of
        None \<Rightarrow> db
      | Some q \<Rightarrow>
         if q = [] then db
         else case write_message_batch now q (db\<lparr>write_queue := Some []\<rparr>) of
            Inl e \<Rightarrow> db\<lparr>write_queue := Some []\<rparr>
          | Inr db' \<Rightarrow> db')"

text \<open>
  Cancelling the flush task while it awaits a batch leaves the session's \<open>async with\<close>
  block. \<open>landed\<close> says whether the transaction had already reached its commit; if not,
  the batch is abandoned.
\<close>

definition stop_background_writer :: "pyfloat \<Rightarrow> bool \<Rightarrow> AuditDB \<Rightarrow> AuditDB" where
  "stop_background_writer now landed db =
     (drain_queue now (if landed then flush_commit now db else db\<lparr>in_flight := []\<rparr>))\<lparr>write_queue := None, flush_running := False\<rparr>"

section \<open>Direct writes\<close>

definition update_delivery_status :: "string \<Rightarrow> DeliveryStatus \<Rightarrow> AuditDB \<Rightarrow> audit_error + AuditDB" where
  "update_delivery_status mid st db =
     (if \<not> session_open db then Inl NotOpen
      else Inr (maybe_checkpoint (db\<lparr>messages_table := update_message_status mid st (messages_table db)\<rparr>)))"

definition log_message :: "pyfloat \<Rightarrow> NMBMessage \<Rightarrow> DeliveryStatus \<Rightarrow> AuditDB \<Rightarrow> audit_error + AuditDB" where
  "log_message now msg st db =
     (if \<not> session_open db then Inl NotOpen
      else case insert_message_row (message_row now (persist_payloads db) msg st) (messages_table db) of
        Inl e \<Rightarrow> Inl e
      | Inr tbl \<Rightarrow> Inr (maybe_checkpoint (db\<lparr>messages_table := tbl\<rparr>)))"

definition log_connection :: "pyfloat \<Rightarrow> string \<Rightarrow> AuditDB \<Rightarrow> audit_error + AuditDB" where
  "log_connection now sid db =
     (if \<not> session_open db then Inl NotOpen
      else if sid \<in> cr_sandbox_id ` set (connections_table db) then Inl IntegrityError
      else Inr (maybe_checkpoint (db\<lparr>connections_table := connections_table db @
        [\<lparr>cr_sandbox_id = sid, cr_connected_at = now, cr_disconnected_at = None,
          cr_disconnect_reason = None\<rparr>]\<rparr>)))"

definition log_disconnection :: "pyfloat \<Rightarrow> string \<Rightarrow> string \<Rightarrow> AuditDB \<Rightarrow> audit_error + AuditDB" where
  "log_disconnection now sid reason db =
     (if \<not> session_open db then Inl NotOpen
      else Inr (maybe_checkpoint (db\<lparr>connections_table :=
        map (\<lambda>r. if cr_sandbox_id r = sid \<and> cr_disconnected_at r = None
                 then r\<lparr>cr_disconnected_at := Some now, cr_disconnect_reason := Some reason\<rparr> else r)
          (connections_table db)\<rparr>)))"

text \<open>UTF-8 size of a string of Latin-1 characters.\<close>

definition utf8_size :: "string \<Rightarrow> nat" where
  "utf8_size s = sum_list (map (\<lambda>c. if (of_char c :: nat) < 128 then 1 else 2) s)"

definition tool_call_row :: "pyfloat \<Rightarrow> string \<Rightarrow> bool \<Rightarrow> ToolCallEntry \<Rightarrow> ToolCallRow" where
  "tool_call_row now rid persist e =
     \<lparr>tc_id = rid, tc_timestamp = now, tc_session_id = e_session_id e, tc_thread_ts = e_thread_ts e,
      tc_service = e_service e, tc_command = e_command e, tc_args = e_args e,
      tc_operation_type = e_operation_type e, tc_approval_status = e_approval_status e,
      tc_approved_by = e_approved_by e, tc_approval_time_ms = e_approval_time_ms e,
      tc_exit_code = e_exit_code e, tc_duration_ms = e_duration_ms e,
      tc_success = (if e_success e then 1 else 0), tc_error_code = e_error_code e,
      tc_error_message = e_error_message e,
      tc_response_payload = (if persist then e_response_payload e else []),
      tc_payload_size = utf8_size (e_response_payload e),
      tc_workflow_id = e_workflow_id e, tc_parent_sandbox_id = e_parent_sandbox_id e,
      tc_agent_id = e_agent_id e, tc_agent_role = e_agent_role e\<rparr>"

text \<open>
  \<open>uid\<close> is the id \<open>uuid.uuid4().hex[:16]\<close> would generate. A primary-key collision is
  rolled back and reported as success.
\<close>

definition log_tool_call :: "pyfloat \<Rightarrow> string \<Rightarrow> ToolCallEntry \<Rightarrow> AuditDB \<Rightarrow> audit_error + (AuditDB \<times> string)" where
  "log_tool_call now uid e db =
     (let rid = or_str (e_row_id e) uid in
      if \<not> session_open db then Inl NotOpen
      else if rid \<in> tc_id ` set (tool_calls_table db) then Inr (db, rid)
      else Inr (maybe_checkpoint (db\<lparr>tool_calls_table :=
             tool_calls_table db @ [tool_call_row now rid (persist_payloads db) e]\<rparr>), rid))"

definition flush_entry :: "AuditFlushPayload \<Rightarrow> AuditToolCallPayload \<Rightarrow> ToolCallEntry" where
  "flush_entry p item =
     \<lparr>e_row_id = Some (p_id item), e_session_id = Some (f_workflow_id p), e_thread_ts = None,
      e_service = p_service item, e_command = p_command item, e_args = p_args item,
      e_operation_type = p_operation_type item, e_approval_status = p_approval_status item,
      e_approved_by = p_approved_by item, e_approval_time_ms = p_approval_time_ms item,
      e_exit_code = p_exit_code item, e_duration_ms = p_duration_ms item,
      e_success = p_success item, e_error_code = p_error_code item,
      e_error_message = p_error_message item, e_response_payload = p_response_payload item,
      e_workflow_id = Some (f_workflow_id p), e_parent_sandbox_id = Some (f_parent_sandbox_id p),
      e_agent_id = Some (f_agent_id p), e_agent_role = Some (f_agent_role p)\<rparr>"

fun ingest_items :: "pyfloat \<Rightarrow> string \<Rightarrow> AuditFlushPayload \<Rightarrow> AuditToolCallPayload list \<Rightarrow> nat \<Rightarrow> AuditDB
    \<Rightarrow> audit_error + (AuditDB \<times> nat)" where
  "ingest_items now uid p [] n db = Inr (db, n)"
| "ingest_items now uid p (item # items) n db =
     (case log_tool_call now uid (flush_entry p item) db of
        Inl e \<Rightarrow> Inl e
      | Inr (db', rid) \<Rightarrow> ingest_items now uid p items (n + 1) db')"

definition ingest_audit_flush :: "pyfloat \<Rightarrow> string \<Rightarrow> AuditFlushPayload \<Rightarrow> AuditDB \<Rightarrow> audit_error + (AuditDB \<times> nat)" where
  "ingest_audit_flush now uid p db = ingest_items now uid p (f_tool_calls p) 0 db"

section \<open>Delegation rows\<close>

definition log_delegation_started ::
  "pyfloat \<Rightarrow> string \<Rightarrow> string \<Rightarrow> string \<Rightarrow> string \<Rightarrow> string \<Rightarrow> string option \<Rightarrow> int option \<Rightarrow>
   string option \<Rightarrow> string option \<Rightarrow> string option \<Rightarrow> AuditDB \<Rightarrow> audit_error + AuditDB" where
  "log_delegation_started now wid parent agent wroot prompt model turns sha repo branch db =
     (if \<not> session_open db then Inl NotOpen
      else if wid \<in> dr_workflow_id ` set (delegations_table db) then Inl IntegrityError
      else Inr (maybe_checkpoint (db\<lparr>delegations_table := delegations_table db @
        [\<lparr>dr_workflow_id = wid, dr_started_at = now, dr_completed_at = None,
          dr_parent_sandbox_id = parent, dr_agent_id = agent, dr_workspace_root = wroot,
          dr_prompt = prompt, dr_requested_model = model, dr_requested_max_turns = turns,
          dr_base_sha = sha, dr_base_repo_url = repo, dr_base_branch = branch,
          dr_status = ''started'', dr_error_kind = None, dr_error_message = None,
          dr_recoverable = None, dr_rounds_used = None, dr_tool_calls_made = None,
          dr_model_used = None, dr_summary = None, dr_diff_size = None\<rparr>]\<rparr>)))"

definition update_delegation :: "string \<Rightarrow> (DelegationRow \<Rightarrow> DelegationRow) \<Rightarrow> AuditDB \<Rightarrow> audit_error + AuditDB" where
  "update_delegation wid f db =
     (if \<not> session_open db then Inl NotOpen
      else Inr (maybe_checkpoint (db\<lparr>delegations_table :=
        map (\<lambda>r. if dr_workflow_id r = wid then f r else r) (delegations_table db)\<rparr>)))"

definition log_delegation_complete ::
  "pyfloat \<Rightarrow> string \<Rightarrow> int \<Rightarrow> int \<Rightarrow> string option \<Rightarrow> string \<Rightarrow> int \<Rightarrow> AuditDB \<Rightarrow> audit_error + AuditDB" where
  "log_delegation_complete now wid rounds calls model summary dsize db =
     update_delegation wid (\<lambda>r. r\<lparr>dr_completed_at := Some now, dr_status := ''complete'',
       dr_rounds_used := Some rounds, dr_tool_calls_made := Some calls, dr_model_used := model,
       dr_summary := Some summary, dr_diff_size := Some dsize\<rparr>) db"

definition log_delegation_error ::
  "pyfloat \<Rightarrow> string \<Rightarrow> string \<Rightarrow> string \<Rightarrow> bool \<Rightarrow> AuditDB \<Rightarrow> audit_error + AuditDB" where
  "log_delegation_error now wid kind msg recov db =
     update_delegation wid (\<lambda>r. r\<lparr>dr_completed_at := Some now, dr_status := ''error'',
       dr_error_kind := Some kind, dr_error_message := Some msg,
       dr_recoverable := Some (if recov then 1 else 0)\<rparr>) db"

section \<open>The sub-agent's buffer\<close>

record AuditBuffer =
  ab_workflow_id :: string
  ab_parent_sandbox_id :: string
  ab_agent_id :: string
  ab_agent_role :: string
  ab_tool_calls :: "AuditToolCallPayload list"

definition buffer_init :: "string \<Rightarrow> string \<Rightarrow> string \<Rightarrow> string \<Rightarrow> AuditBuffer" where
  "buffer_init wid parent agent role = \<lparr>ab_workflow_id = wid, ab_parent_sandbox_id = parent,
     ab_agent_id = agent, ab_agent_role = role, ab_tool_calls = []\<rparr>"

definition buffer_is_empty :: "AuditBuffer \<Rightarrow> bool" where
  "buffer_is_empty b = (ab_tool_calls b = [])"

definition entry_payload :: "string \<Rightarrow> ToolCallEntry \<Rightarrow> AuditToolCallPayload" where
  "entry_payload rid e =
     \<lparr>p_id = rid, p_service = e_service e, p_command = e_command e, p_args = e_args e,
      p_operation_type = e_operation_type e, p_approval_status = e_approval_status e,
      p_approved_by = e_approved_by e, p_approval_time_ms = e_approval_time_ms e,
      p_exit_code = e_exit_code e, p_duration_ms = e_duration_ms e, p_success = e_success e,
      p_error_code = e_error_code e, p_error_message = e_error_message e,
      p_response_payload = e_response_payload e\<rparr>"

definition buffer_log_tool_call :: "string \<Rightarrow> ToolCallEntry \<Rightarrow> AuditBuffer \<Rightarrow> AuditBuffer \<times> string" where
  "buffer_log_tool_call uid e b =
     (let rid = or_str (e_row_id e) uid in
      (b\<lparr>ab_tool_calls := ab_tool_calls b @ [entry_payload rid e]\<rparr>, rid))"

definition to_payload :: "AuditBuffer \<Rightarrow> AuditFlushPayload" where
  "to_payload b = \<lparr>f_workflow_id = ab_workflow_id b, f_parent_sandbox_id = ab_parent_sandbox_id b,
     f_agent_id = ab_agent_id b, f_agent_role = ab_agent_role b, f_tool_calls = ab_tool_calls b\<rparr>"

text \<open>
  \<open>AuditDB.log_tool_call\<close> as the agent loop sees it: the loop swallows an exception of the
  sink, so a closed database leaves the state as it was.
\<close>

definition db_log :: "pyfloat \<Rightarrow> string \<Rightarrow> ToolCallEntry \<Rightarrow> AuditDB \<Rightarrow> AuditDB \<times> string" where
  "db_log now uid e db =
     (case log_tool_call now uid e db of Inl _ \<Rightarrow> (db, []) | Inr r \<Rightarrow> r)"

definition db_row_ids :: "AuditDB \<Rightarrow> string set" where
  "db_row_ids db = tc_id ` set (tool_calls_table db)"

definition buffer_row_ids :: "AuditBuffer \<Rightarrow> string set" where
  "buffer_row_ids b = p_id ` set (ab_tool_calls b)"

section \<open>Invariant and step relation\<close>

definition audit_inv :: "AuditDB \<Rightarrow> bool" where
  "audit_inv db \<longleftrightarrow>
     distinct (map mr_id (messages_table db)) \<and>
     list_all row_nonnull (messages_table db) \<and>
     distinct (map cr_sandbox_id (connections_table db)) \<and>
     distinct (map tc_id (tool_calls_table db)) \<and>
     distinct (map dr_workflow_id (delegations_table db)) \<and>
     (case write_queue db of None \<Rightarrow> True | Some q \<Rightarrow> length q \<le> DEFAULT_AUDIT_QUEUE_SIZE) \<and>
     length (in_flight db) \<le> DEFAULT_AUDIT_BATCH_SIZE"

text \<open>Every operation of the database, as a step; a raised exception leaves the state as it was.\<close>

inductive audit_step :: "AuditDB \<Rightarrow> AuditDB \<Rightarrow> bool" where
  step_open: "audit_step db (audit_open db)"
| step_close: "audit_step db (audit_close db)"
| step_start: "audit_step db (start_background_writer db)"
| step_stop: "audit_step db (stop_background_writer now landed db)"
| step_enqueue: "audit_step db (enqueue_message m st db)"
| step_enqueue_update: "audit_step db (enqueue_status_update i st db)"
| step_flush_take: "flush_take db = Some db' \<Longrightarrow> audit_step db db'"
| step_flush_commit: "audit_step db (flush_commit now db)"
| step_update_status: "update_delivery_status i st db = Inr db' \<Longrightarrow> audit_step db db'"
| step_log_message: "log_message now m st db = Inr db' \<Longrightarrow> audit_step db db'"
| step_log_connection: "log_connection now sid db = Inr db' \<Longrightarrow> audit_step db db'"
| step_log_disconnection: "log_disconnection now sid why db = Inr db' \<Longrightarrow> audit_step db db'"
| step_log_tool_call: "log_tool_call now uid e db = Inr (db', rid) \<Longrightarrow> audit_step db db'"
| step_ingest: "ingest_audit_flush now uid p db = Inr (db', n) \<Longrightarrow> audit_step db db'"
| step_delegation_started:
    "log_delegation_started now wid parent agent wroot prompt model turns sha repo branch db = Inr db' \<Longrightarrow>
     audit_step db db'"
| step_delegation_complete:
    "log_delegation_complete now wid rounds calls model summary dsize db = Inr db' \<Longrightarrow> audit_step db db'"
| step_delegation_error: "log_delegation_error now wid kind msg recov db = Inr db' \<Longrightarrow> audit_step db db'"

section \<open>Lemmas\<close>

lemma maybe_checkpoint_frame [simp]:
  "messages_table (maybe_checkpoint db) = messages_table db"
  "connections_table (maybe_checkpoint db) = connections_table db"
  "tool_calls_table (maybe_checkpoint db) = tool_calls_table db"
  "delegations_table (maybe_checkpoint db) = delegations_table db"
  "write_queue (maybe_checkpoint db) = write_queue db"
  "in_flight (maybe_checkpoint db) = in_flight db"
  "session_open (maybe_checkpoint db) = session_open db"
  "persist_payloads (maybe_checkpoint db) = persist_payloads db"
  by (simp_all add: maybe_checkpoint_def checkpoint_def Let_def)

lemma checkpoint_frame [simp]:
  "messages_table (checkpoint db) = messages_table db"
  "connections_table (checkpoint db) = connections_table db"
  "tool_calls_table (checkpoint db) = tool_calls_table db"
  "delegations_table (checkpoint db) = delegations_table db"
  "write_queue (checkpoint db) = write_queue db"
  "in_flight (checkpoint db) = in_flight db"
  by (simp_all add: checkpoint_def)

lemma audit_inv_maybe_checkpoint [simp]: "audit_inv (maybe_checkpoint db) = audit_inv db"
  by (simp add: audit_inv_def)

text \<open>Inserting rows: all or nothing.\<close>

definition insertable :: "MessageRow list \<Rightarrow> MessageRow list \<Rightarrow> bool" where
  "insertable rs tbl \<longleftrightarrow> list_all row_nonnull rs \<and>
     distinct (map mr_id rs) \<and> set (map mr_id rs) \<inter> set (map mr_id tbl) = {}"

lemma insert_message_rows_eq:
  "insert_message_rows rs tbl = (if insertable rs tbl then Inr (tbl @ rs) else Inl IntegrityError)"
proof (induction rs arbitrary: tbl)
  case Nil
  then show ?case by (simp add: insertable_def)
next
  case (Cons r rs)
  show ?case
  proof (cases "\<not> row_nonnull r \<or> mr_id r \<in> mr_id ` set tbl")
    case True
    then show ?thesis by (auto simp: insert_message_row_def insertable_def)
  next
    case False
    then have "insertable (r # rs) tbl \<longleftrightarrow> insertable rs (tbl @ [r])"
      by (auto simp: insertable_def)
    with False show ?thesis by (simp add: insert_message_row_def Cons.IH)
  qed
qed

lemma map_id_update_status [simp]: "map mr_id (update_message_status i st tbl) = map mr_id tbl"
  by (simp add: update_message_status_def map_key_update)

lemma nonnull_update_status [simp]:
  "list_all row_nonnull (update_message_status i st tbl) =
   list_all row_nonnull tbl"
  by (induction tbl) (simp_all add: update_message_status_def row_nonnull_def)

lemma fold_update_status_frame [simp]:
  "map mr_id (fold (\<lambda>(i, st). update_message_status i st) us tbl) = map mr_id tbl"
  "list_all row_nonnull
     (fold (\<lambda>(i, st). update_message_status i st) us tbl) =
   list_all row_nonnull tbl"
  by (induction us arbitrary: tbl) (auto simp: nonnull_update_status)

lemma write_message_batch_inv:
  assumes "write_message_batch now b db = Inr db'" and inv: "audit_inv db"
  shows "audit_inv db'"
proof -
  let ?rows = "map (\<lambda>(m, st). message_row now (persist_payloads db) m st) (batch_inserts b)"
  from assms(1) have ins: "insertable ?rows (messages_table db)"
    and db': "db' = maybe_checkpoint (db\<lparr>messages_table :=
        fold (\<lambda>(i, st). update_message_status i st) (batch_updates b) (messages_table db @ ?rows)\<rparr>)"
    by (auto simp: write_message_batch_def insert_message_rows_eq split: if_splits)
  from ins inv show ?thesis
    unfolding db' audit_inv_maybe_checkpoint
    by (simp add: audit_inv_def insertable_def) blast
qed

lemma audit_inv_in_flight [simp]: "audit_inv db \<Longrightarrow> audit_inv (db\<lparr>in_flight := []\<rparr>)"
  by (simp add: audit_inv_def)

lemma audit_inv_queue:
  "audit_inv db \<Longrightarrow> (case q of None \<Rightarrow> True | Some xs \<Rightarrow> length xs \<le> DEFAULT_AUDIT_QUEUE_SIZE) \<Longrightarrow>
   audit_inv (db\<lparr>write_queue := q\<rparr>)"
  by (simp add: audit_inv_def)

lemma flush_commit_inv: "audit_inv db \<Longrightarrow> audit_inv (flush_commit now db)"
  by (auto simp: flush_commit_def split: sum.splits dest: write_message_batch_inv)

lemma drain_queue_inv: "audit_inv db \<Longrightarrow> audit_inv (drain_queue now db)"
proof -
  assume inv: "audit_inv db"
  then have inv': "audit_inv (db\<lparr>write_queue := Some []\<rparr>)" by (simp add: audit_inv_def)
  then show ?thesis
    using inv by (auto simp: drain_queue_def split: sum.splits option.splits
        dest: write_message_batch_inv)
qed

lemma put_nowait_inv: "audit_inv db \<Longrightarrow> audit_inv (put_nowait_or_drop i db)"
  by (auto simp: put_nowait_or_drop_def drop_newest_def audit_inv_def split: option.splits)

lemma log_tool_call_inv: "log_tool_call now uid e db = Inr (db', rid) \<Longrightarrow> audit_inv db \<Longrightarrow> audit_inv db'"
  by (auto simp: log_tool_call_def Let_def audit_inv_def tool_call_row_def image_iff split: if_splits)

lemma ingest_items_inv:
  "ingest_items now uid p items n db = Inr (db', k) \<Longrightarrow> audit_inv db \<Longrightarrow> audit_inv db'"
  by (induction items arbitrary: n db) (auto split: sum.splits prod.splits dest: log_tool_call_inv)

lemma update_delegation_inv:
  "update_delegation wid f db = Inr db' \<Longrightarrow> (\<And>r. dr_workflow_id (f r) = dr_workflow_id r) \<Longrightarrow>
   audit_inv db \<Longrightarrow> audit_inv db'"
  by (auto simp: update_delegation_def audit_inv_def map_key_update split: if_splits)

lemma audit_step_inv: "audit_step db db' \<Longrightarrow> audit_inv db \<Longrightarrow> audit_inv db'"
proof (induction rule: audit_step.induct)
  case (step_stop db now landed)
  then have "audit_inv (if landed then flush_commit now db else db\<lparr>in_flight := []\<rparr>)"
    by (simp add: flush_commit_inv)
  then show ?case
    using drain_queue_inv [of _ now] by (auto simp: stop_background_writer_def audit_inv_def)
next
  case (step_flush_commit db now)
  then show ?case by (rule flush_commit_inv)
next
  case (step_log_tool_call now uid e db db' rid)
  then show ?case by (rule log_tool_call_inv)
next
  case (step_ingest now uid p db db' n)
  then show ?case by (auto simp: ingest_audit_flush_def intro: ingest_items_inv)
next
  case (step_delegation_complete now wid rounds calls model summary dsize db db')
  then show ?case unfolding log_delegation_complete_def by (auto elim: update_delegation_inv)
next
  case (step_delegation_error now wid kind msg recov db db')
  then show ?case unfolding log_delegation_error_def by (auto elim: update_delegation_inv)
next
  case (step_log_message now m st db db')
  then show ?case
    by (auto simp: log_message_def insert_message_row_def audit_inv_def split: if_splits)
next
  case (step_flush_take db db')
  then show ?case by (auto simp: flush_take_def audit_inv_def split: option.splits if_splits)
next
  case (step_log_disconnection now sid why db db')
  then show ?case
    by (auto simp: log_disconnection_def audit_inv_def map_key_update split: if_splits)
next
  case (step_enqueue db m st)
  then show ?case by (simp add: enqueue_message_def put_nowait_inv)
next
  case (step_enqueue_update db i st)
  then show ?case by (simp add: enqueue_status_update_def put_nowait_inv)
qed (auto simp: audit_open_def audit_close_def start_background_writer_def
    update_delivery_status_def log_connection_def
    log_delegation_started_def audit_inv_def image_iff nonnull_update_status split: if_splits)

lemma audit_init_inv: "audit_inv (audit_init persist interval)"
  by (simp add: audit_inv_def audit_init_def)


text \<open>Ingesting a payload: the rows whose id is new are appended, with the payload's attribution.\<close>

lemma log_tool_call_present:
  "session_open db \<Longrightarrow> or_str (e_row_id e) uid \<in> db_row_ids db \<Longrightarrow>
   log_tool_call now uid e db = Inr (db, or_str (e_row_id e) uid)"
  by (simp add: log_tool_call_def db_row_ids_def Let_def)

lemma log_tool_call_ids:
  "log_tool_call now uid e db = Inr (db', rid) \<Longrightarrow>
   rid = or_str (e_row_id e) uid \<and> session_open db' = session_open db \<and> session_open db \<and>
   db_row_ids db' = insert rid (db_row_ids db)"
  by (auto simp: log_tool_call_def db_row_ids_def Let_def tool_call_row_def split: if_splits)

lemma flush_entry_row_id [simp]:
  "p_id item \<noteq> [] \<Longrightarrow> or_str (e_row_id (flush_entry p item)) uid = p_id item"
  by (simp add: flush_entry_def or_str_def)

lemma ingest_items_present:
  assumes "session_open db" and "\<forall>item \<in> set items. p_id item \<noteq> [] \<and> p_id item \<in> db_row_ids db"
  shows "ingest_items now uid p items n db = Inr (db, n + length items)"
  using assms(2)
proof (induction items arbitrary: n)
  case (Cons item items)
  then have "log_tool_call now uid (flush_entry p item) db = Inr (db, p_id item)"
    using log_tool_call_present [OF assms(1), of "flush_entry p item" uid now] by simp
  with Cons show ?case by simp
qed simp

lemma ingest_items_ids:
  assumes "ingest_items now uid p items n db = Inr (db', k)" and "\<forall>item \<in> set items. p_id item \<noteq> []"
  shows "k = n + length items \<and> (items \<noteq> [] \<longrightarrow> session_open db') \<and>
    db_row_ids db' = p_id ` set items \<union> db_row_ids db"
  using assms
proof (induction items arbitrary: n db)
  case (Cons item items)
  from Cons.prems(1) obtain db1 rid where
    one: "log_tool_call now uid (flush_entry p item) db = Inr (db1, rid)" and
    rest: "ingest_items now uid p items (n + 1) db1 = Inr (db', k)"
    by (auto split: sum.splits prod.splits)
  note ids1 = log_tool_call_ids [OF one]
  with Cons.prems(2) have "rid = p_id item" by simp
  with Cons.IH [OF rest] Cons.prems(2) ids1 rest show ?case by (cases items) auto
qed auto

text \<open>What a row inserted by a batch looks like after the batch's updates.\<close>

definition drain_result :: "pyfloat \<Rightarrow> audit_item list \<Rightarrow> AuditDB \<Rightarrow> MessageRow list" where
  "drain_result now q db = fold (\<lambda>(i, st). update_message_status i st) (batch_updates q)
     (messages_table db @ map (\<lambda>(m, st). message_row now (persist_payloads db) m st) (batch_inserts q))"

definition batch_ok :: "audit_item list \<Rightarrow> AuditDB \<Rightarrow> bool" where
  "batch_ok q db \<longleftrightarrow> distinct (map (m_id \<circ> fst) (batch_inserts q)) \<and>
     list_all (\<lambda>(m, st). m_from_sandbox m \<noteq> None \<and> m_type m \<noteq> None \<and>
       m_id m \<notin> mr_id ` set (messages_table db)) (batch_inserts q)"

lemma message_row_simps [simp]:
  "mr_id (message_row now persist m st) = m_id m"
  "mr_from_sandbox (message_row now persist m st) = m_from_sandbox m"
  "mr_type (message_row now persist m st) = m_type m"
  by (simp_all add: message_row_def Let_def)

lemma batch_ok_insertable:
  "batch_ok q db \<longleftrightarrow>
   insertable (map (\<lambda>(m, st). message_row now (persist_payloads db) m st) (batch_inserts q)) (messages_table db)"
proof -
  have ids: "map mr_id (map (\<lambda>(m, st). message_row now (persist_payloads db) m st) xs) = map (m_id \<circ> fst) xs" for xs
    by (induction xs) auto
  show ?thesis
    unfolding batch_ok_def insertable_def ids
    by (auto simp: list_all_iff row_nonnull_def split: prod.splits)
qed

lemma write_message_batch_eq:
  "session_open db \<Longrightarrow> write_message_batch now q db =
     (if batch_ok q db then Inr (maybe_checkpoint (db\<lparr>messages_table := drain_result now q db\<rparr>))
      else Inl IntegrityError)"
  by (simp add: write_message_batch_def insert_message_rows_eq batch_ok_insertable [of _ _ now] drain_result_def)

lemma batch_ok_frame [simp]:
  "batch_ok q (db\<lparr>write_queue := x\<rparr>) = batch_ok q db" "batch_ok q (db\<lparr>in_flight := y\<rparr>) = batch_ok q db"
  "drain_result now q (db\<lparr>write_queue := x\<rparr>) = drain_result now q db"
  "drain_result now q (db\<lparr>in_flight := y\<rparr>) = drain_result now q db"
  by (simp_all add: batch_ok_def drain_result_def)

lemma stop_messages:
  assumes "session_open db" "write_queue db = Some q" "in_flight db = []" "batch_ok q db"
  shows "messages_table (stop_background_writer now False db) = drain_result now q db"
  using assms
  by (auto simp: stop_background_writer_def drain_queue_def write_message_batch_eq)
     (simp add: drain_result_def)

definition settled_status :: "(string \<times> DeliveryStatus) list \<Rightarrow> string \<Rightarrow> string \<Rightarrow> string" where
  "settled_status us i st = fold (\<lambda>(j, s) acc. if j = i then status_value s else acc) us st"

lemma settled_status_simps [simp]:
  "settled_status [] i st = st"
  "settled_status ((j, s) # us) i st = settled_status us i (if j = i then status_value s else st)"
  by (simp_all add: settled_status_def)

lemma fold_update_status_eq:
  "fold (\<lambda>(i, st). update_message_status i st) us tbl =
   map (\<lambda>r. r\<lparr>mr_delivery_status := settled_status us (mr_id r) (mr_delivery_status r)\<rparr>) tbl"
proof (induction us arbitrary: tbl)
  case (Cons u us)
  obtain j s where u: "u = (j, s)" by (cases u)
  show ?case
    by (simp add: u Cons.IH) (simp add: update_message_status_def)
qed simp

section \<open>The audit sink interface\<close>

text \<open>
  \<open>AuditSink.log_tool_call\<close>: the sink returns the row's id, which is the caller's when it
  gave one, and from then on the row is recorded under it, whatever else is logged.
\<close>

locale audit_sink =
  fixes sink_log :: "string \<Rightarrow> ToolCallEntry \<Rightarrow> 's \<Rightarrow> 's \<times> string"
    and sink_ids :: "'s \<Rightarrow> string set"
    and sink_ready :: "'s \<Rightarrow> bool"
  assumes log_id: "sink_ready s \<Longrightarrow> snd (sink_log uid e s) = or_str (e_row_id e) uid"
    and log_ids: "sink_ready s \<Longrightarrow> sink_ids (fst (sink_log uid e s)) = insert (or_str (e_row_id e) uid) (sink_ids s)"
    and log_ready: "sink_ready s \<Longrightarrow> sink_ready (fst (sink_log uid e s))"
begin

primrec log_all :: "(string \<times> ToolCallEntry) list \<Rightarrow> 's \<Rightarrow> 's" where
  "log_all [] s = s"
| "log_all (x # xs) s = log_all xs (fst (sink_log (fst x) (snd x) s))"

lemma log_all_ids:
  "sink_ready s \<Longrightarrow> sink_ids (log_all es s) = (\<lambda>(uid, e). or_str (e_row_id e) uid) ` set es \<union> sink_ids s"
  by (induction es arbitrary: s) (auto simp: log_ids log_ready)

lemma nothing_lost: "sink_ready s \<Longrightarrow> i \<in> sink_ids s \<Longrightarrow> i \<in> sink_ids (log_all es s)"
  by (simp add: log_all_ids)

end

interpretation db_sink: audit_sink "db_log now" db_row_ids session_open for now
proof unfold_locales
  fix s :: AuditDB and uid e
  assume "session_open s"
  then show "snd (db_log now uid e s) = or_str (e_row_id e) uid"
    and "db_row_ids (fst (db_log now uid e s)) = insert (or_str (e_row_id e) uid) (db_row_ids s)"
    and "session_open (fst (db_log now uid e s))"
    by (auto simp: db_log_def log_tool_call_def Let_def db_row_ids_def tool_call_row_def)
qed

interpretation buffer_sink: audit_sink buffer_log_tool_call buffer_row_ids "\<lambda>_. True"
  by unfold_locales (auto simp: buffer_log_tool_call_def buffer_row_ids_def entry_payload_def Let_def)

section \<open>Properties\<close>


definition sample_message :: NMBMessage where
  "sample_message = (new_message Op_SEND ''m1'')\<lparr>m_from_sandbox := Some ''a'', m_to_sandbox := Some ''b'',
     m_type := Some ''t'', m_payload := Some [], m_timestamp := Some 1\<rparr>"


text \<open>
  A clean shutdown loses nothing that was accepted. If the background writer is stopped
  between two batches, the queued messages carry a sender, a type and ids that are new and
  pairwise different, then the table afterwards is the old one followed by exactly the
  queued messages, in order, each with the status its last queued update gives it; the old
  rows are updated in the same way, and the queue is gone.
\<close>

theorem clean_shutdown_flushes:
  assumes "session_open db" and "write_queue db = Some q" and "in_flight db = []" and "batch_ok q db"
  shows "messages_table (stop_background_writer now False db) =
      map (\<lambda>r. r\<lparr>mr_delivery_status := settled_status (batch_updates q) (mr_id r) (mr_delivery_status r)\<rparr>)
        (messages_table db @ map (\<lambda>(m, st). message_row now (persist_payloads db) m st) (batch_inserts q))
    \<and> write_queue (stop_background_writer now False db) = None"
  using stop_messages [OF assms]
  by (simp add: drain_result_def fold_update_status_eq stop_background_writer_def)

definition shutdown_sample :: AuditDB where
  "shutdown_sample = enqueue_status_update ''m1'' DS_TIMEOUT (enqueue_message sample_message DS_DELIVERED
     (start_background_writer (audit_open (audit_init True 10))))"

theorem clean_shutdown_flushes_witness:
  "map (\<lambda>r. (mr_id r, mr_delivery_status r)) (messages_table (stop_background_writer 5 False shutdown_sample)) =
     [(''m1'', ''timeout'')]"
proof -
  have q: "write_queue shutdown_sample = Some [InsertItem sample_message DS_DELIVERED, UpdateItem ''m1'' DS_TIMEOUT]"
    and o: "session_open shutdown_sample" "in_flight shutdown_sample = []" "messages_table shutdown_sample = []"
    by (simp_all add: shutdown_sample_def enqueue_status_update_def enqueue_message_def put_nowait_or_drop_def drop_newest_def
        start_background_writer_def audit_open_def audit_init_def DEFAULT_AUDIT_QUEUE_SIZE_def)
  have ok: "batch_ok [InsertItem sample_message DS_DELIVERED, UpdateItem ''m1'' DS_TIMEOUT] shutdown_sample"
    by (simp add: batch_ok_def o sample_message_def)
  have "m_id sample_message = ''m1''" by (simp add: sample_message_def)
  with clean_shutdown_flushes [OF o(1) q o(2) ok, of 5] o(3) show ?thesis by simp
qed

text \<open>
  C15: Replaying an \<open>audit.flush\<close> payload is idempotent: once it has been ingested, ingesting
  it again, at any later time, changes nothing in the database and reports the same number
  of processed items, and that number is the number of items in the payload.
\<close>

theorem ingest_audit_flush_idempotent:
  assumes "ingest_audit_flush now uid p db = Inr (db', n)" and "session_open db"
    and "\<forall>item \<in> set (f_tool_calls p). p_id item \<noteq> []"
  shows "ingest_audit_flush later uid' p db' = Inr (db', n) \<and> n = length (f_tool_calls p)"
proof (cases "f_tool_calls p = []")
  case True
  with assms(1) show ?thesis by (simp add: ingest_audit_flush_def)
next
  case False
  from ingest_items_ids [OF assms(1) [unfolded ingest_audit_flush_def] assms(3)] False
  have n: "n = length (f_tool_calls p)" and o: "session_open db'"
    and ids: "db_row_ids db' = p_id ` set (f_tool_calls p) \<union> db_row_ids db" by auto
  from assms(3) ids have "\<forall>item \<in> set (f_tool_calls p). p_id item \<noteq> [] \<and> p_id item \<in> db_row_ids db'"
    by auto
  from ingest_items_present [OF o this, of later uid' p 0] n show ?thesis
    by (simp add: ingest_audit_flush_def)
qed

definition sample_item :: AuditToolCallPayload where
  "sample_item = \<lparr>p_id = ''r1'', p_service = ''files'', p_command = ''read_file'', p_args = ''{}'',
     p_operation_type = ''READ'', p_approval_status = None, p_approved_by = None,
     p_approval_time_ms = None, p_exit_code = None, p_duration_ms = 1, p_success = True,
     p_error_code = None, p_error_message = None, p_response_payload = ''ok''\<rparr>"

definition sample_flush :: AuditFlushPayload where
  "sample_flush = \<lparr>f_workflow_id = ''wf-1'', f_parent_sandbox_id = ''orch'', f_agent_id = ''coding-1'',
     f_agent_role = ''coding'', f_tool_calls = [sample_item]\<rparr>"

theorem ingest_audit_flush_idempotent_witness:
  "\<exists>db'. ingest_audit_flush 1 ''u'' sample_flush (audit_open (audit_init True 10)) = Inr (db', 1) \<and>
     tc_workflow_id (hd (tool_calls_table db')) = Some ''wf-1'' \<and>
     ingest_audit_flush 9 ''v'' sample_flush db' = Inr (db', 1)"
proof -
  let ?db = "audit_open (audit_init True 10)"
  let ?row = "tool_call_row 1 ''r1'' True (flush_entry sample_flush sample_item)"
  let ?db' = "maybe_checkpoint (?db\<lparr>tool_calls_table := [?row]\<rparr>)"
  have o: "session_open ?db" by (simp add: audit_open_def)
  have i: "ingest_audit_flush 1 ''u'' sample_flush ?db = Inr (?db', 1)"
    by (simp add: ingest_audit_flush_def sample_flush_def log_tool_call_def Let_def audit_open_def
        audit_init_def flush_entry_def sample_item_def or_str_def)
  have "\<forall>item \<in> set (f_tool_calls sample_flush). p_id item \<noteq> []"
    by (simp add: sample_flush_def sample_item_def)
  from ingest_audit_flush_idempotent [OF i o this, of 9 "''v''"] i show ?thesis
    by (intro exI [of _ ?db']) (simp add: tool_call_row_def flush_entry_def sample_flush_def)
qed

text \<open>
  The message ids are the clients' own, and they are the table's primary key: a single
  insert of a batch whose id is already logged makes the background writer drop the whole
  batch. Every other message of that batch, up to 99 of them, is missing from the audit
  trail although it was accepted into the queue.
\<close>

theorem duplicate_id_drops_batch:
  assumes "session_open db" and "InsertItem m st \<in> set (in_flight db)"
    and "m_id m \<in> mr_id ` set (messages_table db)"
  shows "messages_table (flush_commit now db) = messages_table db \<and> in_flight (flush_commit now db) = []"
proof -
  have mem: "InsertItem m st \<in> set q \<Longrightarrow> (m, st) \<in> set (batch_inserts q)" for q
    by (induction q rule: batch_inserts.induct) auto
  have "\<not> batch_ok (in_flight db) db"
    using mem [OF assms(2)] assms(3) by (auto simp: batch_ok_def list_all_iff)
  with assms(1) show ?thesis
    by (simp add: flush_commit_def write_message_batch_eq)
qed

definition duplicate_sample :: AuditDB where
  "duplicate_sample = (audit_open (audit_init True 10))\<lparr>
     messages_table := [message_row 1 True sample_message DS_DELIVERED],
     in_flight := [InsertItem (sample_message\<lparr>m_id := ''m2''\<rparr>) DS_DELIVERED, InsertItem sample_message DS_ERROR]\<rparr>"

theorem duplicate_id_drops_batch_witness:
  "map mr_id (messages_table (flush_commit 5 duplicate_sample)) = [''m1''] \<and>
   batch_ok [InsertItem (sample_message\<lparr>m_id := ''m2''\<rparr>) DS_DELIVERED] duplicate_sample"
proof -
  have a: "session_open duplicate_sample" "InsertItem sample_message DS_ERROR \<in> set (in_flight duplicate_sample)"
    "m_id sample_message \<in> mr_id ` set (messages_table duplicate_sample)"
    by (simp_all add: duplicate_sample_def audit_open_def)
  have t: "map mr_id (messages_table duplicate_sample) = [''m1'']"
    by (simp add: duplicate_sample_def sample_message_def)
  from duplicate_id_drops_batch [OF a, of 5] t show ?thesis
    by (simp add: batch_ok_def) (simp add: duplicate_sample_def sample_message_def)
qed

end
