(* ===== verification/Broker.thy ===== *)
theory Broker
  imports AuditDb
begin

text \<open>
  The message broker (\<^verbatim>\<open>nmb/broker.py\<close>): its registries, one definition per handler, the
  dispatcher, the timeout task, and the step relation of connections, frames, disconnects
  and timer firings.

  A WebSocket connection is a number. The record \<open>env\<close> holds what one step takes from
  outside: pydantic's parser, whether a given frame can be sent on a given connection
  (a send raises \<open>ConnectionClosed\<close>, or times out, when it cannot), the clock, a fresh
  message id and the printing of floats. A handler is one step: it runs to its end with
  the send outcomes that \<open>env\<close> gives. The frames the broker has sent are the list \<open>sent\<close>.
  A timeout task is a \<open>timer\<close> in the list of live tasks; cancelling removes it.
\<close>

section \<open>State\<close>

type_synonym ws = nat

record BrokerConfig =
  cfg_host :: string
  cfg_port :: int
  cfg_audit_db_path :: string
  cfg_persist_payloads :: bool
  cfg_max_message_size :: int
  cfg_max_pending_per_sandbox :: int
  cfg_default_request_timeout :: pyfloat
  cfg_max_channels_per_sandbox :: int

definition default_broker_config :: BrokerConfig where
  "default_broker_config = \<lparr>cfg_host = ''0.0.0.0'', cfg_port = 9876,
     cfg_audit_db_path = ''~/.nemoclaw/audit.db'', cfg_persist_payloads = True,
     cfg_max_message_size = 10 * 1024 * 1024, cfg_max_pending_per_sandbox = 100,
     cfg_default_request_timeout = 300, cfg_max_channels_per_sandbox = 50\<rparr>"

record timer =
  t_id :: nat
  t_request_id :: string
  t_requester_id :: string
  t_timeout :: pyfloat

record TrackedPending =
  tp_pending :: PendingRequest
  tp_timeout_task :: "nat option"

record NMBBroker =
  config :: BrokerConfig
  connections :: "(string, ws) dict"
  ws_to_sandbox :: "(ws, string) dict"
  channels :: "(string, string pyset) dict"
  sandbox_channels :: "(string, string pyset) dict"
  pendings :: "(string, TrackedPending) dict"
  pending_counts :: "(string, int) dict"
  timers :: "timer list"
  next_task :: nat
  audit :: "AuditDB option"
  sent :: "(ws \<times> NMBMessage) list"
  rejected :: "ws list"

record env =
  parse :: "string \<Rightarrow> string + NMBMessage"
  send_ok :: "ws \<Rightarrow> NMBMessage \<Rightarrow> bool"
  clock :: pyfloat
  fresh_id :: string
  float_str :: "pyfloat \<Rightarrow> string"

definition broker_init :: "BrokerConfig \<Rightarrow> AuditDB option \<Rightarrow> NMBBroker" where
  "broker_init cfg aud = \<lparr>config = cfg, connections = [], ws_to_sandbox = [], channels = [],
     sandbox_channels = [], pendings = [], pending_counts = [], timers = [], next_task = 0,
     audit = aud, sent = [], rejected = []\<rparr>"

section \<open>Helpers\<close>

text \<open>\<open>NMBMessage.from_json\<close>: a parse failure becomes an \<open>INVALID_FRAME\<close> error.\<close>

definition from_json :: "env \<Rightarrow> string \<Rightarrow> FrameValidationError + NMBMessage" where
  "from_json e raw = (case parse e raw of
     Inl txt \<Rightarrow> Inl (FrameValidationError INVALID_FRAME txt) | Inr m \<Rightarrow> Inr m)"

definition make_deliver :: "NMBMessage \<Rightarrow> NMBMessage" where
  "make_deliver msg = (new_message Op_DELIVER (m_id msg))\<lparr>m_from_sandbox := m_from_sandbox msg,
     m_type := m_type msg, m_reply_to := m_reply_to msg, m_channel := m_channel msg,
     m_stream_id := m_stream_id msg, m_seq := m_seq msg, m_done := m_done msg,
     m_timestamp := m_timestamp msg, m_payload := m_payload msg\<rparr>"

definition ack_frame :: "string \<Rightarrow> NMBMessage" where
  "ack_frame mid = new_message Op_ACK mid"

definition error_frame :: "string \<Rightarrow> ErrorCode \<Rightarrow> string \<Rightarrow> NMBMessage" where
  "error_frame mid code txt = (new_message Op_ERROR mid)\<lparr>m_code := Some (code_value code), m_message := Some txt\<rparr>"

text \<open>\<open>await ws.send(frame)\<close>, with its exceptions swallowed.\<close>

definition try_send :: "env \<Rightarrow> ws \<Rightarrow> NMBMessage \<Rightarrow> NMBBroker \<Rightarrow> NMBBroker" where
  "try_send e w m b = (if send_ok e w m then b\<lparr>sent := sent b @ [(w, m)]\<rparr> else b)"

definition audit_msg :: "NMBMessage \<Rightarrow> DeliveryStatus \<Rightarrow> NMBBroker \<Rightarrow> NMBBroker" where
  "audit_msg msg st b = b\<lparr>audit := map_option (enqueue_message msg st) (audit b)\<rparr>"

definition audit_update_status :: "string \<Rightarrow> DeliveryStatus \<Rightarrow> NMBBroker \<Rightarrow> NMBBroker" where
  "audit_update_status mid st b = b\<lparr>audit := map_option (enqueue_status_update mid st) (audit b)\<rparr>"

definition audit_opt :: "NMBMessage option \<Rightarrow> DeliveryStatus \<Rightarrow> NMBBroker \<Rightarrow> NMBBroker" where
  "audit_opt am st b = (case am of None \<Rightarrow> b | Some m \<Rightarrow> audit_msg m st b)"

definition send_ack :: "env \<Rightarrow> ws \<Rightarrow> string \<Rightarrow> NMBMessage option \<Rightarrow> NMBBroker \<Rightarrow> NMBBroker" where
  "send_ack e w mid am b = audit_opt am DS_DELIVERED (try_send e w (ack_frame mid) b)"

definition send_error :: "env \<Rightarrow> ws \<Rightarrow> string \<Rightarrow> ErrorCode \<Rightarrow> string \<Rightarrow> NMBMessage option \<Rightarrow> NMBBroker \<Rightarrow> NMBBroker" where
  "send_error e w mid code txt am b = audit_opt am DS_ERROR (try_send e w (error_frame mid code txt) b)"

text \<open>\<open>_safe_send\<close> to every listed subscriber that is connected, in the given order.\<close>

fun fan_out :: "env \<Rightarrow> NMBMessage \<Rightarrow> string list \<Rightarrow> NMBBroker \<Rightarrow> NMBBroker" where
  "fan_out e m [] b = b"
| "fan_out e m (sub # subs) b =
     (case dict_get (connections b) sub of
        None \<Rightarrow> fan_out e m subs b
      | Some w \<Rightarrow> fan_out e m subs (try_send e w m b))"

definition broadcast_system :: "env \<Rightarrow> NMBMessage \<Rightarrow> NMBBroker \<Rightarrow> NMBBroker" where
  "broadcast_system e m b = fan_out e m (dict_default (channels b) ''system'' []) b"

definition cancel_task :: "nat option \<Rightarrow> NMBBroker \<Rightarrow> NMBBroker" where
  "cancel_task tid b = (case tid of None \<Rightarrow> b | Some i \<Rightarrow> b\<lparr>timers := filter (\<lambda>t. t_id t \<noteq> i) (timers b)\<rparr>)"

text \<open>\<open>self._pending_counts[s] = max(0, self._pending_counts.get(s, 1) - 1)\<close>.\<close>

definition decrement_count :: "string \<Rightarrow> NMBBroker \<Rightarrow> NMBBroker" where
  "decrement_count s b = b\<lparr>pending_counts :=
     dict_set s (max 0 (dict_default (pending_counts b) s 1 - 1)) (pending_counts b)\<rparr>"

text \<open>Removing a subscriber from a channel; an emptied channel is deleted.\<close>

definition discard_subscriber :: "string \<Rightarrow> string \<Rightarrow> NMBBroker \<Rightarrow> NMBBroker" where
  "discard_subscriber sid ch b =
     (case dict_get (channels b) ch of
        None \<Rightarrow> b
      | Some subs \<Rightarrow>
         if subs = [] then b
         else let subs' = set_discard sid subs in
           if subs' = [] then b\<lparr>channels := dict_pop ch (channels b)\<rparr>
           else b\<lparr>channels := dict_set ch subs' (channels b)\<rparr>)"

section \<open>Connections\<close>

datatype handshake = Accept string | Respond int string

definition process_request :: "string option \<Rightarrow> handshake" where
  "process_request header =
     (if truthy header then Accept (the header) else Respond 400 (''Missing X-Sandbox-ID header'' @ newline))"

definition register :: "env \<Rightarrow> string \<Rightarrow> ws \<Rightarrow> NMBBroker \<Rightarrow> NMBBroker" where
  "register e sid w b =
     (if dict_has (connections b) sid then b\<lparr>rejected := rejected b @ [w]\<rparr>
      else b\<lparr>connections := dict_set sid w (connections b),
             ws_to_sandbox := dict_set w sid (ws_to_sandbox b),
             audit := map_option (\<lambda>db. case log_connection (clock e) sid db of Inr db' \<Rightarrow> db' | Inl _ \<Rightarrow> db)
               (audit b)\<rparr>)"

text \<open>Dropping the pending requests of a list of ids, and their timeout tasks.\<close>

fun expire_requests :: "string list \<Rightarrow> NMBBroker \<Rightarrow> NMBBroker" where
  "expire_requests [] b = b"
| "expire_requests (rid # rids) b =
     expire_requests rids
       (case dict_get (pendings b) rid of
          None \<Rightarrow> b
        | Some tracked \<Rightarrow> cancel_task (tp_timeout_task tracked) (b\<lparr>pendings := dict_pop rid (pendings b)\<rparr>))"

definition shutdown_message :: "env \<Rightarrow> string \<Rightarrow> NMBMessage" where
  "shutdown_message e sid = (new_message Op_DELIVER (fresh_id e))\<lparr>m_from_sandbox := Some ''system'',
     m_type := Some ''sandbox.shutdown'', m_timestamp := Some (clock e),
     m_payload := Some [(''sandbox_id'', JStr sid), (''reason'', JStr ''disconnected'')]\<rparr>"

definition unregister :: "env \<Rightarrow> string \<Rightarrow> ws \<Rightarrow> NMBBroker \<Rightarrow> NMBBroker" where
  "unregister e sid w b =
     (if dict_get (connections b) sid \<noteq> Some w
      then b\<lparr>ws_to_sandbox := dict_pop w (ws_to_sandbox b)\<rparr>
      else
        let b1 = b\<lparr>connections := dict_pop sid (connections b),
                   ws_to_sandbox := dict_pop w (ws_to_sandbox b)\<rparr>;
            b2 = fold (discard_subscriber sid) (dict_default (sandbox_channels b1) sid []) b1;
            b3 = b2\<lparr>sandbox_channels := dict_pop sid (sandbox_channels b2)\<rparr>;
            expired = map fst (filter (\<lambda>(rid, t). pr_from_sandbox (tp_pending t) = sid) (pendings b3));
            b4 = expire_requests expired b3;
            b5 = b4\<lparr>pending_counts := dict_pop sid (pending_counts b4)\<rparr>;
            b6 = broadcast_system e (shutdown_message e sid) b5
        in b6\<lparr>audit := map_option (\<lambda>db. case log_disconnection (clock e) sid ''disconnected'' db of
                 Inr db' \<Rightarrow> db' | Inl _ \<Rightarrow> db) (audit b6)\<rparr>)"

section \<open>Operation handlers\<close>

definition handle_send :: "env \<Rightarrow> string \<Rightarrow> ws \<Rightarrow> NMBMessage \<Rightarrow> NMBBroker \<Rightarrow> NMBBroker" where
  "handle_send e sender w msg b =
     (if \<not> truthy (m_to_sandbox msg) then send_error e w (m_id msg) INVALID_FRAME ''Missing to_sandbox'' None b
      else let to = the (m_to_sandbox msg) in
        case dict_get (connections b) to of
          None \<Rightarrow> send_error e w (m_id msg) TARGET_OFFLINE (to @ '' not connected'') (Some msg) b
        | Some tw \<Rightarrow>
           let deliver = make_deliver msg in
           if \<not> send_ok e tw deliver
           then send_error e w (m_id msg) TARGET_OFFLINE (to @ '' disconnected'') (Some msg) b
           else send_ack e w (m_id msg) (Some msg) (try_send e tw deliver b))"

text \<open>\<open>msg.timeout or self.config.default_request_timeout\<close>.\<close>

definition request_timeout :: "NMBMessage \<Rightarrow> NMBBroker \<Rightarrow> pyfloat" where
  "request_timeout msg b = (case m_timeout msg of
     Some t \<Rightarrow> if t \<noteq> 0 then t else cfg_default_request_timeout (config b)
   | None \<Rightarrow> cfg_default_request_timeout (config b))"

text \<open>Registering the pending state and its timeout task, before the delivery.\<close>

definition register_pending :: "env \<Rightarrow> string \<Rightarrow> NMBMessage \<Rightarrow> NMBBroker \<Rightarrow> NMBBroker" where
  "register_pending e sender msg b =
     (let count = dict_default (pending_counts b) sender 0;
          timeout = request_timeout msg b;
          tid = next_task b
      in b\<lparr>pendings := dict_set (m_id msg)
             \<lparr>tp_pending = \<lparr>request_id = m_id msg, pr_from_sandbox = sender, created_at = clock e, pr_timeout = timeout\<rparr>,
              tp_timeout_task = Some tid\<rparr> (pendings b),
           pending_counts := dict_set sender (count + 1) (pending_counts b),
           timers := timers b @ [\<lparr>t_id = tid, t_request_id = m_id msg, t_requester_id = sender, t_timeout = timeout\<rparr>],
           next_task := Suc tid\<rparr>)"

definition handle_request :: "env \<Rightarrow> string \<Rightarrow> ws \<Rightarrow> NMBMessage \<Rightarrow> NMBBroker \<Rightarrow> NMBBroker" where
  "handle_request e sender w msg b =
     (if \<not> truthy (m_to_sandbox msg) then send_error e w (m_id msg) INVALID_FRAME ''Missing to_sandbox'' None b
      else let to = the (m_to_sandbox msg); count = dict_default (pending_counts b) sender 0 in
        if count \<ge> cfg_max_pending_per_sandbox (config b)
        then send_error e w (m_id msg) RATE_LIMITED ''Too many pending requests'' None b
        else case dict_get (connections b) to of
          None \<Rightarrow> send_error e w (m_id msg) TARGET_OFFLINE (to @ '' not connected'') (Some msg) b
        | Some tw \<Rightarrow>
           let b1 = register_pending e sender msg b; deliver = make_deliver msg in
           if \<not> send_ok e tw deliver
           then let b2 = b1\<lparr>pendings := dict_pop (m_id msg) (pendings b1)\<rparr>;
                    b3 = decrement_count sender (cancel_task (Some (next_task b)) b2)
                in send_error e w (m_id msg) TARGET_OFFLINE (to @ '' disconnected'') (Some msg) b3
           else send_ack e w (m_id msg) (Some msg) (try_send e tw deliver b1))"

definition handle_reply :: "env \<Rightarrow> string \<Rightarrow> ws \<Rightarrow> NMBMessage \<Rightarrow> NMBBroker \<Rightarrow> NMBBroker" where
  "handle_reply e sender w msg b =
     (if \<not> truthy (m_reply_to msg) then send_error e w (m_id msg) INVALID_FRAME ''Missing reply_to'' None b
      else let rid = the (m_reply_to msg) in
        case dict_get (pendings b) rid of
          None \<Rightarrow> send_error e w (m_id msg) INVALID_FRAME (''No pending request with id='' @ rid) None b
        | Some tracked \<Rightarrow>
           let b1 = cancel_task (tp_timeout_task tracked) (b\<lparr>pendings := dict_pop rid (pendings b)\<rparr>);
               requester = pr_from_sandbox (tp_pending tracked);
               b2 = decrement_count requester b1
           in case dict_get (connections b2) requester of
                None \<Rightarrow> audit_msg msg DS_ERROR b2
              | Some tw \<Rightarrow>
                 let deliver = make_deliver msg in
                 if \<not> send_ok e tw deliver then audit_msg msg DS_ERROR b2
                 else audit_msg msg DS_DELIVERED (try_send e tw deliver b2))"

definition handle_subscribe :: "env \<Rightarrow> string \<Rightarrow> ws \<Rightarrow> NMBMessage \<Rightarrow> NMBBroker \<Rightarrow> NMBBroker" where
  "handle_subscribe e sender w msg b =
     (if \<not> truthy (m_channel msg) then send_error e w (m_id msg) INVALID_FRAME ''Missing channel'' None b
      else let ch = the (m_channel msg);
               chans = dict_default (sandbox_channels b) sender [];
               b1 = (if dict_has (sandbox_channels b) sender then b
                     else b\<lparr>sandbox_channels := dict_set sender [] (sandbox_channels b)\<rparr>)
           in if int (length chans) \<ge> cfg_max_channels_per_sandbox (config b)
              then send_error e w (m_id msg) CHANNEL_FULL ''Too many channel subscriptions'' None b1
              else send_ack e w (m_id msg) None
                (b1\<lparr>channels := dict_set ch (set_add sender (dict_default (channels b1) ch [])) (channels b1),
                    sandbox_channels := dict_set sender (set_add ch chans) (sandbox_channels b1)\<rparr>))"

definition handle_unsubscribe :: "env \<Rightarrow> string \<Rightarrow> ws \<Rightarrow> NMBMessage \<Rightarrow> NMBBroker \<Rightarrow> NMBBroker" where
  "handle_unsubscribe e sender w msg b =
     (if \<not> truthy (m_channel msg) then send_error e w (m_id msg) INVALID_FRAME ''Missing channel'' None b
      else let ch = the (m_channel msg);
               b1 = discard_subscriber sender ch b;
               b2 = (case dict_get (sandbox_channels b1) sender of
                       None \<Rightarrow> b1
                     | Some chans \<Rightarrow> if chans = [] then b1
                         else b1\<lparr>sandbox_channels := dict_set sender (set_discard ch chans) (sandbox_channels b1)\<rparr>)
           in send_ack e w (m_id msg) None b2)"

definition handle_publish :: "env \<Rightarrow> string \<Rightarrow> ws \<Rightarrow> NMBMessage \<Rightarrow> NMBBroker \<Rightarrow> NMBBroker" where
  "handle_publish e sender w msg b =
     (if \<not> truthy (m_channel msg) then send_error e w (m_id msg) INVALID_FRAME ''Missing channel'' None b
      else let ch = the (m_channel msg);
               subs = filter (\<lambda>sub. sub \<noteq> sender) (dict_default (channels b) ch [])
           in send_ack e w (m_id msg) (Some msg) (fan_out e (make_deliver msg) subs b))"

definition handle_stream :: "env \<Rightarrow> string \<Rightarrow> ws \<Rightarrow> NMBMessage \<Rightarrow> NMBBroker \<Rightarrow> NMBBroker" where
  "handle_stream e sender w msg b =
     (if \<not> truthy (m_to_sandbox msg) then send_error e w (m_id msg) INVALID_FRAME ''Missing to_sandbox'' None b
      else let to = the (m_to_sandbox msg) in
        case dict_get (connections b) to of
          None \<Rightarrow> send_error e w (m_id msg) TARGET_OFFLINE (to @ '' not connected'') (Some msg) b
        | Some tw \<Rightarrow>
           let deliver = make_deliver msg in
           if \<not> send_ok e tw deliver
           then send_error e w (m_id msg) TARGET_OFFLINE (to @ '' disconnected'') (Some msg) b
           else try_send e tw deliver b)"

section \<open>Dispatch\<close>

text \<open>The handler map: the broker-to-client operations have no handler.\<close>

definition route :: "env \<Rightarrow> string \<Rightarrow> ws \<Rightarrow> NMBMessage \<Rightarrow> NMBBroker \<Rightarrow> NMBBroker" where
  "route e sender w msg b =
     (case m_op msg of
        Op_SEND \<Rightarrow> handle_send e sender w msg b
      | Op_REQUEST \<Rightarrow> handle_request e sender w msg b
      | Op_REPLY \<Rightarrow> handle_reply e sender w msg b
      | Op_SUBSCRIBE \<Rightarrow> handle_subscribe e sender w msg b
      | Op_UNSUBSCRIBE \<Rightarrow> handle_unsubscribe e sender w msg b
      | Op_PUBLISH \<Rightarrow> handle_publish e sender w msg b
      | Op_STREAM \<Rightarrow> handle_stream e sender w msg b
      | _ \<Rightarrow> send_error e w (m_id msg) INVALID_FRAME (''Client cannot send op='' @ op_value (m_op msg)) None b)"

definition stamp :: "env \<Rightarrow> string \<Rightarrow> NMBMessage \<Rightarrow> NMBMessage" where
  "stamp e sender m = m\<lparr>m_from_sandbox := Some sender, m_timestamp := Some (clock e)\<rparr>"

definition dispatch :: "env \<Rightarrow> string \<Rightarrow> ws \<Rightarrow> string \<Rightarrow> NMBBroker \<Rightarrow> NMBBroker" where
  "dispatch e sender w raw b =
     (case from_json e raw of
        Inl err \<Rightarrow> send_error e w [] (err_code err) (err_text err) None b
      | Inr m \<Rightarrow>
         let msg = stamp e sender m in
         case validate_frame msg of
           Some err \<Rightarrow> send_error e w (m_id msg) (err_code err) (err_text err) None b
         | None \<Rightarrow> route e sender w msg b)"

section \<open>Timeouts and shutdown\<close>

definition timeout_frame :: "env \<Rightarrow> string \<Rightarrow> pyfloat \<Rightarrow> NMBMessage" where
  "timeout_frame e rid timeout = (new_message Op_TIMEOUT rid)\<lparr>
     m_message := Some (''No reply within '' @ float_str e timeout @ ''s'')\<rparr>"

definition timeout_request :: "env \<Rightarrow> string \<Rightarrow> string \<Rightarrow> pyfloat \<Rightarrow> NMBBroker \<Rightarrow> NMBBroker" where
  "timeout_request e rid requester timeout b =
     (case dict_get (pendings b) rid of
        None \<Rightarrow> b
      | Some tracked \<Rightarrow>
         let b1 = decrement_count requester (b\<lparr>pendings := dict_pop rid (pendings b)\<rparr>);
             b2 = (case dict_get (connections b1) requester of
                     None \<Rightarrow> b1
                   | Some w \<Rightarrow> try_send e w (timeout_frame e rid timeout) b1)
         in audit_update_status rid DS_TIMEOUT b2)"

text \<open>The task that wakes up after its sleep: it is no longer live when its body ends.\<close>

definition fire_timer :: "env \<Rightarrow> timer \<Rightarrow> NMBBroker \<Rightarrow> NMBBroker" where
  "fire_timer e t b = timeout_request e (t_request_id t) (t_requester_id t) (t_timeout t)
     (b\<lparr>timers := filter (\<lambda>u. t_id u \<noteq> t_id t) (timers b)\<rparr>)"

definition broker_stop :: "env \<Rightarrow> bool \<Rightarrow> NMBBroker \<Rightarrow> NMBBroker" where
  "broker_stop e landed b =
     (let b1 = fold (\<lambda>tr. cancel_task (tp_timeout_task tr)) (dict_values (pendings b)) b
      in b1\<lparr>pendings := [],
            audit := map_option (\<lambda>db. audit_close (stop_background_writer (clock e) landed db)) (audit b1)\<rparr>)"

record health_report =
  connected_sandboxes :: "string list"
  num_connections :: nat
  num_pending_requests :: nat
  channel_subscribers :: "(string \<times> string list) list"

definition health :: "NMBBroker \<Rightarrow> health_report" where
  "health b = \<lparr>connected_sandboxes = dict_keys (connections b), num_connections = length (connections b),
     num_pending_requests = length (pendings b), channel_subscribers = channels b\<rparr>"

section \<open>The system of connections\<close>

text \<open>
  A running connection handler (\<open>_handler\<close>) is a pair of its WebSocket and the sandbox id
  stored at the handshake. A rejected duplicate keeps its handler until its socket closes.
\<close>

record system =
  broker :: NMBBroker
  handlers :: "(ws \<times> string) list"

definition system_init :: "BrokerConfig \<Rightarrow> AuditDB option \<Rightarrow> system" where
  "system_init cfg aud = \<lparr>broker = broker_init cfg aud, handlers = []\<rparr>"

inductive system_step :: "system \<Rightarrow> system \<Rightarrow> bool" where
  connect: "\<lbrakk>process_request header = Accept sid; w \<notin> fst ` set (handlers s)\<rbrakk> \<Longrightarrow>
    system_step s \<lparr>broker = register e sid w (broker s), handlers = (w, sid) # handlers s\<rparr>"
| frame: "(w, sid) \<in> set (handlers s) \<Longrightarrow>
    system_step s (s\<lparr>broker := dispatch e sid w raw (broker s)\<rparr>)"
| disconnect: "(w, sid) \<in> set (handlers s) \<Longrightarrow>
    system_step s \<lparr>broker = unregister e sid w (broker s), handlers = filter (\<lambda>h. fst h \<noteq> w) (handlers s)\<rparr>"
| timeout: "t \<in> set (timers (broker s)) \<Longrightarrow>
    system_step s (s\<lparr>broker := fire_timer e t (broker s)\<rparr>)"

text \<open>
  The same system under the clients' discipline: a sandbox id is used by one connection at
  a time (each launch appends a random suffix), and every request carries an id that is
  not that of a request still pending (the client library draws a fresh UUID for each).
\<close>

definition request_id_free :: "env \<Rightarrow> string \<Rightarrow> NMBBroker \<Rightarrow> bool" where
  "request_id_free e raw b = (case parse e raw of
     Inl _ \<Rightarrow> True | Inr m \<Rightarrow> m_op m = Op_REQUEST \<longrightarrow> dict_get (pendings b) (m_id m) = None)"

inductive fresh_step :: "system \<Rightarrow> system \<Rightarrow> bool" where
  fresh_connect: "\<lbrakk>process_request header = Accept sid; w \<notin> fst ` set (handlers s);
      sid \<notin> snd ` set (handlers s)\<rbrakk> \<Longrightarrow>
    fresh_step s \<lparr>broker = register e sid w (broker s), handlers = (w, sid) # handlers s\<rparr>"
| fresh_frame: "\<lbrakk>(w, sid) \<in> set (handlers s); request_id_free e raw (broker s)\<rbrakk> \<Longrightarrow>
    fresh_step s (s\<lparr>broker := dispatch e sid w raw (broker s)\<rparr>)"
| fresh_disconnect: "(w, sid) \<in> set (handlers s) \<Longrightarrow>
    fresh_step s \<lparr>broker = unregister e sid w (broker s), handlers = filter (\<lambda>h. fst h \<noteq> w) (handlers s)\<rparr>"
| fresh_timeout: "t \<in> set (timers (broker s)) \<Longrightarrow>
    fresh_step s (s\<lparr>broker := fire_timer e t (broker s)\<rparr>)"

end
