(* ===== verification/BrokerInvariants.thy ===== *)
theory BrokerInvariants
  imports Broker
begin

text \<open>
  Invariants of the broker. The routing state of the broker (its registries, without the
  frames sent and the audit trail) is \<open>core\<close>; the sending helpers do not change it, and
  each handler's effect on it is one equation. On top of those equations: the two
  directions of the connection registry agree, the two directions of the subscription
  registry agree and respect the limit, and, under the clients' discipline, the pending
  table, the timers and the counters describe the same set of requests.
\<close>

named_theorems core_simps \<open>the effect of the broker's operations on the routing state\<close>

section \<open>The routing state\<close>

definition core :: "NMBBroker \<Rightarrow> NMBBroker" where
  "core b = b\<lparr>audit := None, sent := [], rejected := []\<rparr>"

definition subs_of :: "NMBBroker \<Rightarrow> string \<Rightarrow> string list" where
  "subs_of b c = dict_default (channels b) c []"

definition chans_of :: "NMBBroker \<Rightarrow> string \<Rightarrow> string list" where
  "chans_of b s = dict_default (sandbox_channels b) s []"

definition is_connected :: "NMBBroker \<Rightarrow> string \<Rightarrow> bool" where
  "is_connected b s = dict_has (connections b) s"

definition from_count :: "NMBBroker \<Rightarrow> string \<Rightarrow> nat" where
  "from_count b s = dict_count (\<lambda>tr. pr_from_sandbox (tp_pending tr) = s) (pendings b)"

section \<open>Invariants\<close>

definition reg_inv :: "system \<Rightarrow> bool" where
  "reg_inv s =
     (distinct (map fst (handlers s)) \<and>
      dict_wf (connections (broker s)) \<and> dict_wf (ws_to_sandbox (broker s)) \<and>
      (\<forall>sid w. dict_get (connections (broker s)) sid = Some w \<longleftrightarrow> dict_get (ws_to_sandbox (broker s)) w = Some sid) \<and>
      (\<forall>sid w. dict_get (connections (broker s)) sid = Some w \<longrightarrow> (w, sid) \<in> set (handlers s)))"

definition chan_inv :: "NMBBroker \<Rightarrow> bool" where
  "chan_inv b =
     (dict_wf (channels b) \<and> dict_wf (sandbox_channels b) \<and>
      (\<forall>s c. s \<in> set (subs_of b c) \<longleftrightarrow> c \<in> set (chans_of b s)) \<and>
      (\<forall>c. dict_get (channels b) c \<noteq> Some []) \<and>
      (\<forall>c. distinct (subs_of b c)) \<and> (\<forall>s. distinct (chans_of b s)) \<and>
      (\<forall>s. int (length (chans_of b s)) \<le> max 0 (cfg_max_channels_per_sandbox (config b))))"

text \<open>Every pending request has exactly one live timer, and every live timer its request.\<close>

definition timers_inv :: "NMBBroker \<Rightarrow> bool" where
  "timers_inv b =
     (dict_wf (pendings b) \<and> distinct (map t_id (timers b)) \<and>
      (\<forall>t \<in> set (timers b). t_id t < next_task b) \<and>
      (\<forall>rid tr. dict_get (pendings b) rid = Some tr \<longrightarrow>
         (\<exists>t \<in> set (timers b). tp_timeout_task tr = Some (t_id t) \<and> t_request_id t = rid)) \<and>
      (\<forall>t \<in> set (timers b). \<exists>tr. dict_get (pendings b) (t_request_id t) = Some tr \<and>
         tp_timeout_task tr = Some (t_id t) \<and> pr_from_sandbox (tp_pending tr) = t_requester_id t))"

definition count_inv :: "NMBBroker \<Rightarrow> bool" where
  "count_inv b =
     (\<forall>s. dict_default (pending_counts b) s 0 = int (from_count b s) \<and>
          int (from_count b s) \<le> max 0 (cfg_max_pending_per_sandbox (config b)))"

text \<open>Nothing is kept for a sandbox that is not connected.\<close>

definition live_core :: "NMBBroker \<Rightarrow> bool" where
  "live_core b =
     ((\<forall>sid. dict_get (sandbox_channels b) sid \<noteq> None \<longrightarrow> is_connected b sid) \<and>
      (\<forall>sid. dict_get (pending_counts b) sid \<noteq> None \<longrightarrow> is_connected b sid) \<and>
      (\<forall>rid tr. dict_get (pendings b) rid = Some tr \<longrightarrow> is_connected b (pr_from_sandbox (tp_pending tr))))"

definition live_inv :: "system \<Rightarrow> bool" where
  "live_inv s =
     (distinct (map snd (handlers s)) \<and>
      (\<forall>w sid. (w, sid) \<in> set (handlers s) \<longrightarrow> dict_get (connections (broker s)) sid = Some w) \<and>
      live_core (broker s))"

section \<open>Effects on the routing state\<close>

lemma core_fields [simp]:
  "connections (core b) = connections b" "ws_to_sandbox (core b) = ws_to_sandbox b"
  "channels (core b) = channels b" "sandbox_channels (core b) = sandbox_channels b"
  "pendings (core b) = pendings b" "pending_counts (core b) = pending_counts b"
  "timers (core b) = timers b" "next_task (core b) = next_task b" "config (core b) = config b"
  by (simp_all add: core_def)

lemma core_idem [simp]: "core (core b) = core b"
  by (simp add: core_def)

text \<open>Two states with the same routing state agree on every registry.\<close>

lemma core_eqD:
  assumes "core a = core b"
  shows "connections a = connections b" "ws_to_sandbox a = ws_to_sandbox b" "channels a = channels b"
    "sandbox_channels a = sandbox_channels b" "pendings a = pendings b"
    "pending_counts a = pending_counts b" "timers a = timers b" "next_task a = next_task b"
    "config a = config b"
  using assms by (metis core_fields)+

lemma core_views [simp]:
  "subs_of (core b) = subs_of b" "chans_of (core b) = chans_of b"
  "is_connected (core b) = is_connected b" "from_count (core b) = from_count b"
  by (simp_all add: fun_eq_iff subs_of_def chans_of_def is_connected_def from_count_def)

lemma inv_core [simp]:
  "chan_inv (core b) = chan_inv b" "timers_inv (core b) = timers_inv b" "count_inv (core b) = count_inv b"
  by (simp_all add: chan_inv_def timers_inv_def count_inv_def)

lemma core_inv_cong:
  "core a = core b \<Longrightarrow> chan_inv a = chan_inv b"
  "core a = core b \<Longrightarrow> timers_inv a = timers_inv b"
  "core a = core b \<Longrightarrow> count_inv a = count_inv b"
  by (metis inv_core)+

lemma core_try_send [core_simps, simp]: "core (try_send e w m b) = core b"
  by (simp add: core_def try_send_def)

lemma core_audit [core_simps, simp]:
  "core (audit_msg m st b) = core b" "core (audit_update_status i st b) = core b"
  "core (audit_opt am st b) = core b" "core (b\<lparr>audit := x\<rparr>) = core b"
  "core (b\<lparr>rejected := r\<rparr>) = core b"
  by (simp_all add: core_def audit_msg_def audit_update_status_def audit_opt_def split: option.splits)

lemma core_reply [core_simps, simp]:
  "core (send_ack e w i am b) = core b" "core (send_error e w i c t am b) = core b"
  by (simp_all add: send_ack_def send_error_def)

lemma core_fan_out [core_simps, simp]: "core (fan_out e m subs b) = core b"
  by (induction subs arbitrary: b) (simp_all split: option.splits)

lemma core_broadcast [core_simps, simp]: "core (broadcast_system e m b) = core b"
  by (simp add: broadcast_system_def)

lemmas helper_fields [simp] =
  core_eqD [OF core_try_send] core_eqD [OF core_audit(1)] core_eqD [OF core_audit(2)]
  core_eqD [OF core_audit(3)] core_eqD [OF core_reply(1)] core_eqD [OF core_reply(2)]
  core_eqD [OF core_fan_out] core_eqD [OF core_broadcast]

lemma core_handle_send [core_simps]: "core (handle_send e s w msg b) = core b"
  by (simp add: handle_send_def Let_def split: option.splits)

lemma core_handle_stream [core_simps]: "core (handle_stream e s w msg b) = core b"
  by (simp add: handle_stream_def Let_def split: option.splits)

lemma core_handle_publish [core_simps]: "core (handle_publish e s w msg b) = core b"
  by (simp add: handle_publish_def Let_def)

section \<open>Subscriptions\<close>

lemma subs_of_discard [simp]:
  "subs_of (discard_subscriber sid ch b) c = (if c = ch then set_discard sid (subs_of b c) else subs_of b c)"
  by (auto simp: discard_subscriber_def subs_of_def dict_default_def dict_simps set_discard_def Let_def
      split: option.splits)

lemma discard_fields [simp]:
  "sandbox_channels (discard_subscriber sid ch b) = sandbox_channels b"
  "connections (discard_subscriber sid ch b) = connections b"
  "ws_to_sandbox (discard_subscriber sid ch b) = ws_to_sandbox b"
  "pendings (discard_subscriber sid ch b) = pendings b"
  "pending_counts (discard_subscriber sid ch b) = pending_counts b"
  "timers (discard_subscriber sid ch b) = timers b"
  "next_task (discard_subscriber sid ch b) = next_task b"
  "config (discard_subscriber sid ch b) = config b"
  by (simp_all add: discard_subscriber_def Let_def split: option.splits)

lemma discard_channels:
  assumes "dict_wf (channels b)" and "\<forall>c. dict_get (channels b) c \<noteq> Some []"
  shows "dict_wf (channels (discard_subscriber sid ch b)) \<and>
    (\<forall>c. dict_get (channels (discard_subscriber sid ch b)) c \<noteq> Some [])"
  using assms by (auto simp: discard_subscriber_def dict_simps Let_def split: option.splits)

lemma fold_discard_fields [simp]:
  "sandbox_channels (fold (discard_subscriber sid) chs b) = sandbox_channels b"
  "connections (fold (discard_subscriber sid) chs b) = connections b"
  "ws_to_sandbox (fold (discard_subscriber sid) chs b) = ws_to_sandbox b"
  "pendings (fold (discard_subscriber sid) chs b) = pendings b"
  "pending_counts (fold (discard_subscriber sid) chs b) = pending_counts b"
  "timers (fold (discard_subscriber sid) chs b) = timers b"
  "next_task (fold (discard_subscriber sid) chs b) = next_task b"
  "config (fold (discard_subscriber sid) chs b) = config b"
  by (induction chs arbitrary: b) simp_all

lemma set_discard_idem [simp]: "set_discard x (set_discard x s) = set_discard x s"
  by (simp add: set_discard_def removeAll_filter_not_eq)

lemma subs_of_fold_discard [simp]:
  "subs_of (fold (discard_subscriber sid) chs b) c =
     (if c \<in> set chs then set_discard sid (subs_of b c) else subs_of b c)"
  by (induction chs arbitrary: b) auto

lemma fold_discard_channels:
  assumes "dict_wf (channels b)" and "\<forall>c. dict_get (channels b) c \<noteq> Some []"
  shows "dict_wf (channels (fold (discard_subscriber sid) chs b)) \<and>
    (\<forall>c. dict_get (channels (fold (discard_subscriber sid) chs b)) c \<noteq> Some [])"
  using assms by (induction chs arbitrary: b) (simp_all add: discard_channels)

text \<open>What the two subscription handlers do to the routing state.\<close>

definition add_subscription :: "string \<Rightarrow> string \<Rightarrow> NMBBroker \<Rightarrow> NMBBroker" where
  "add_subscription s c b = b\<lparr>channels := dict_set c (set_add s (subs_of b c)) (channels b),
     sandbox_channels := dict_set s (set_add c (chans_of b s)) (sandbox_channels b)\<rparr>"

definition drop_subscription :: "string \<Rightarrow> string \<Rightarrow> NMBBroker \<Rightarrow> NMBBroker" where
  "drop_subscription s c b =
     (let b1 = discard_subscriber s c b in
      if chans_of b s = [] then b1
      else b1\<lparr>sandbox_channels := dict_set s (set_discard c (chans_of b s)) (sandbox_channels b)\<rparr>)"

definition touch_channels :: "string \<Rightarrow> NMBBroker \<Rightarrow> NMBBroker" where
  "touch_channels s b = (if dict_has (sandbox_channels b) s then b
     else b\<lparr>sandbox_channels := dict_set s [] (sandbox_channels b)\<rparr>)"

lemma dict_set_set [simp]: "dict_set k v (dict_set k w d) = dict_set k v d"
  by (simp add: dict_set_def)

lemma core_handle_subscribe:
  "core (handle_subscribe e s w msg b) =
     core (if \<not> truthy (m_channel msg) then b
           else if int (length (chans_of b s)) \<ge> cfg_max_channels_per_sandbox (config b) then touch_channels s b
           else add_subscription s (the (m_channel msg)) b)"
  by (simp add: handle_subscribe_def Let_def chans_of_def touch_channels_def add_subscription_def subs_of_def
      core_def [of "_\<lparr>channels := _\<rparr>"] core_def [of "_\<lparr>sandbox_channels := _\<rparr>"])

lemma core_handle_unsubscribe:
  "core (handle_unsubscribe e s w msg b) =
     core (if \<not> truthy (m_channel msg) then b else drop_subscription s (the (m_channel msg)) b)"
  by (auto simp: handle_unsubscribe_def Let_def drop_subscription_def chans_of_def dict_default_def
      split: option.splits)

lemma add_subscription_views [simp]:
  "subs_of (add_subscription s c b) c' = (if c' = c then set_add s (subs_of b c) else subs_of b c')"
  "chans_of (add_subscription s c b) s' = (if s' = s then set_add c (chans_of b s) else chans_of b s')"
  by (simp_all add: add_subscription_def subs_of_def chans_of_def dict_default_def dict_simps)

lemma drop_subscription_views [simp]:
  "subs_of (drop_subscription s c b) c' = (if c' = c then set_discard s (subs_of b c) else subs_of b c')"
  "chans_of (drop_subscription s c b) s' = (if s' = s then set_discard c (chans_of b s) else chans_of b s')"
proof -
  show "subs_of (drop_subscription s c b) c' = (if c' = c then set_discard s (subs_of b c) else subs_of b c')"
    using subs_of_discard [of s c b c'] by (auto simp: drop_subscription_def Let_def subs_of_def split: if_splits)
  show "chans_of (drop_subscription s c b) s' = (if s' = s then set_discard c (chans_of b s) else chans_of b s')"
    by (auto simp: drop_subscription_def Let_def chans_of_def dict_default_def dict_simps set_discard_def
        split: option.splits)
qed

lemma touch_channels_views [simp]:
  "subs_of (touch_channels s b) = subs_of b" "chans_of (touch_channels s b) s' = chans_of b s'"
  by (auto simp: touch_channels_def subs_of_def chans_of_def dict_default_def dict_simps dict_has_def
      fun_eq_iff split: option.splits)

lemma chan_inv_add:
  assumes "chan_inv b" and "int (length (chans_of b s)) < cfg_max_channels_per_sandbox (config b)"
  shows "chan_inv (add_subscription s c b)"
proof -
  have fields: "channels (add_subscription s c b) = dict_set c (set_add s (subs_of b c)) (channels b)"
    "sandbox_channels (add_subscription s c b) = dict_set s (set_add c (chans_of b s)) (sandbox_channels b)"
    "config (add_subscription s c b) = config b"
    by (simp_all add: add_subscription_def)
  have ne: "set_add s (subs_of b c) \<noteq> []" by (auto simp: set_add_def)
  have len: "int (length (set_add c (chans_of b s))) \<le> max 0 (cfg_max_channels_per_sandbox (config b))"
    using length_set_add [of c "chans_of b s"] assms(2) by linarith
  from assms(1) ne len show ?thesis
    unfolding chan_inv_def by (simp add: fields dict_simps pyset_simps)
qed

lemma chan_inv_drop: "chan_inv b \<Longrightarrow> chan_inv (drop_subscription s c b)"
proof -
  assume inv: "chan_inv b"
  then have ch: "dict_wf (channels (drop_subscription s c b)) \<and>
      (\<forall>c'. dict_get (channels (drop_subscription s c b)) c' \<noteq> Some [])"
    using discard_channels [of b s c] by (simp add: chan_inv_def drop_subscription_def Let_def)
  have sc: "dict_wf (sandbox_channels (drop_subscription s c b))"
    using inv by (simp add: chan_inv_def drop_subscription_def Let_def)
  have cf: "config (drop_subscription s c b) = config b" by (simp add: drop_subscription_def Let_def)
  have len: "int (length (set_discard c (chans_of b s))) \<le> max 0 (cfg_max_channels_per_sandbox (config b))"
  proof -
    have "int (length (chans_of b s)) \<le> max 0 (cfg_max_channels_per_sandbox (config b))"
      using inv by (simp add: chan_inv_def)
    with length_set_discard [of c "chans_of b s"] show ?thesis by linarith
  qed
  from inv ch sc len show ?thesis
    unfolding chan_inv_def by (simp add: cf pyset_simps)
qed

lemma chan_inv_touch: "chan_inv b \<Longrightarrow> chan_inv (touch_channels s b)"
proof -
  assume inv: "chan_inv b"
  have "channels (touch_channels s b) = channels b" "config (touch_channels s b) = config b"
    by (simp_all add: touch_channels_def)
  moreover have "dict_wf (sandbox_channels b) \<Longrightarrow> dict_wf (sandbox_channels (touch_channels s b))"
    by (simp add: touch_channels_def)
  ultimately show ?thesis using inv by (simp add: chan_inv_def)
qed

lemma chan_inv_subscribe: "chan_inv b \<Longrightarrow> chan_inv (handle_subscribe e s w msg b)"
  using chan_inv_add [of b s] chan_inv_touch [of b s] core_inv_cong(1) [OF core_handle_subscribe]
  by (simp split: if_splits)

lemma chan_inv_unsubscribe: "chan_inv b \<Longrightarrow> chan_inv (handle_unsubscribe e s w msg b)"
  using chan_inv_drop core_inv_cong(1) [OF core_handle_unsubscribe] by (simp split: if_splits)

section \<open>Disconnection\<close>

lemma cancel_fields [simp]:
  "connections (cancel_task i b) = connections b" "ws_to_sandbox (cancel_task i b) = ws_to_sandbox b"
  "channels (cancel_task i b) = channels b" "sandbox_channels (cancel_task i b) = sandbox_channels b"
  "pendings (cancel_task i b) = pendings b" "pending_counts (cancel_task i b) = pending_counts b"
  "next_task (cancel_task i b) = next_task b" "config (cancel_task i b) = config b"
  "audit (cancel_task i b) = audit b" "sent (cancel_task i b) = sent b"
  by (simp_all add: cancel_task_def split: option.splits)

lemma expire_fields [simp]:
  "connections (expire_requests rids b) = connections b"
  "ws_to_sandbox (expire_requests rids b) = ws_to_sandbox b"
  "channels (expire_requests rids b) = channels b"
  "sandbox_channels (expire_requests rids b) = sandbox_channels b"
  "pending_counts (expire_requests rids b) = pending_counts b"
  "next_task (expire_requests rids b) = next_task b" "config (expire_requests rids b) = config b"
  by (induction rids arbitrary: b) (simp_all split: option.splits)

lemma pendings_expire [simp]: "pendings (expire_requests rids b) = dict_pops rids (pendings b)"
  by (induction rids arbitrary: b) (auto simp: dict_pop_absent split: option.splits)

text \<open>The pending requests that a disconnecting sandbox leaves behind.\<close>

definition own_requests :: "string \<Rightarrow> NMBBroker \<Rightarrow> string list" where
  "own_requests sid b = map fst (filter (\<lambda>(rid, t). pr_from_sandbox (tp_pending t) = sid) (pendings b))"

lemma unregister_fields:
  assumes "dict_get (connections b) sid = Some w"
  shows "connections (unregister e sid w b) = dict_pop sid (connections b)"
    and "ws_to_sandbox (unregister e sid w b) = dict_pop w (ws_to_sandbox b)"
    and "sandbox_channels (unregister e sid w b) = dict_pop sid (sandbox_channels b)"
    and "pending_counts (unregister e sid w b) = dict_pop sid (pending_counts b)"
    and "channels (unregister e sid w b) = channels (fold (discard_subscriber sid) (chans_of b sid)
           (b\<lparr>connections := dict_pop sid (connections b), ws_to_sandbox := dict_pop w (ws_to_sandbox b)\<rparr>))"
    and "pendings (unregister e sid w b) = dict_pops (own_requests sid b) (pendings b)"
    and "next_task (unregister e sid w b) = next_task b" and "config (unregister e sid w b) = config b"
  using assms by (simp_all add: unregister_def Let_def chans_of_def own_requests_def)

lemma unregister_stale:
  "dict_get (connections b) sid \<noteq> Some w \<Longrightarrow>
   unregister e sid w b = b\<lparr>ws_to_sandbox := dict_pop w (ws_to_sandbox b)\<rparr>"
  by (simp add: unregister_def)

lemma subs_of_cong: "channels a = channels b \<Longrightarrow> subs_of a = subs_of b"
  by (simp add: fun_eq_iff subs_of_def)

lemma subs_of_unregister:
  assumes "dict_get (connections b) sid = Some w"
  shows "subs_of (unregister e sid w b) c =
    (if c \<in> set (chans_of b sid) then set_discard sid (subs_of b c) else subs_of b c)"
proof -
  let ?b1 = "b\<lparr>connections := dict_pop sid (connections b), ws_to_sandbox := dict_pop w (ws_to_sandbox b)\<rparr>"
  have "subs_of (unregister e sid w b) c = subs_of (fold (discard_subscriber sid) (chans_of b sid) ?b1) c"
    by (simp add: subs_of_def unregister_fields(5) [OF assms])
  also have "\<dots> = (if c \<in> set (chans_of b sid) then set_discard sid (subs_of ?b1 c) else subs_of ?b1 c)"
    by (rule subs_of_fold_discard)
  also have "subs_of ?b1 c = subs_of b c" by (simp add: subs_of_def)
  finally show ?thesis .
qed

lemma chans_of_unregister:
  "dict_get (connections b) sid = Some w \<Longrightarrow>
   chans_of (unregister e sid w b) s = (if s = sid then [] else chans_of b s)"
  by (simp add: chans_of_def unregister_fields dict_default_def dict_simps)

lemma chan_inv_unregister: "chan_inv b \<Longrightarrow> chan_inv (unregister e sid w b)"
proof (cases "dict_get (connections b) sid = Some w")
  case False
  assume "chan_inv b"
  with False show ?thesis by (simp add: unregister_stale chan_inv_def subs_of_def chans_of_def)
next
  case True
  assume inv: "chan_inv b"
  let ?b1 = "b\<lparr>connections := dict_pop sid (connections b), ws_to_sandbox := dict_pop w (ws_to_sandbox b)\<rparr>"
  from inv fold_discard_channels [of ?b1 sid "chans_of b sid"]
  have "dict_wf (channels (unregister e sid w b)) \<and>
      (\<forall>c. dict_get (channels (unregister e sid w b)) c \<noteq> Some [])"
    by (simp add: chan_inv_def unregister_fields(5) [OF True])
  with inv show ?thesis
    unfolding chan_inv_def
    by (auto simp: subs_of_unregister [OF True] chans_of_unregister [OF True] unregister_fields [OF True]
        pyset_simps)
qed

section \<open>The connection registry\<close>

lemma register_fields [simp]:
  "channels (register e sid w b) = channels b" "sandbox_channels (register e sid w b) = sandbox_channels b"
  "pendings (register e sid w b) = pendings b" "pending_counts (register e sid w b) = pending_counts b"
  "timers (register e sid w b) = timers b" "next_task (register e sid w b) = next_task b"
  "config (register e sid w b) = config b"
  by (simp_all add: register_def)

lemma reg_inv_connect:
  assumes "reg_inv s" and "w \<notin> fst ` set (handlers s)"
  shows "reg_inv \<lparr>broker = register e sid w (broker s), handlers = (w, sid) # handlers s\<rparr>"
proof (cases "dict_has (connections (broker s)) sid")
  case True
  with assms show ?thesis
    by (simp add: reg_inv_def register_def)
next
  case False
  from assms(1) have inv: "distinct (map fst (handlers s))" "dict_wf (connections (broker s))"
    "dict_wf (ws_to_sandbox (broker s))"
    "\<And>sid w. dict_get (connections (broker s)) sid = Some w \<longleftrightarrow> dict_get (ws_to_sandbox (broker s)) w = Some sid"
    "\<And>sid w. dict_get (connections (broker s)) sid = Some w \<Longrightarrow> (w, sid) \<in> set (handlers s)"
    by (simp_all add: reg_inv_def)
  from assms(2) inv(5) have nw: "dict_get (connections (broker s)) sid' \<noteq> Some w" for sid'
    by force
  from False have ns: "dict_get (connections (broker s)) sid = None" by (simp add: dict_has_def)
  with inv(4) have ns': "dict_get (ws_to_sandbox (broker s)) w' \<noteq> Some sid" for w'
    by (metis option.distinct(1))
  show ?thesis
    using False assms(2) inv(1-3) inv(5) nw ns' inv(4)
    by (auto simp: reg_inv_def register_def dict_simps split: if_splits)
qed

lemma reg_inv_disconnect:
  assumes "reg_inv s" and "(w, sid) \<in> set (handlers s)"
  shows "reg_inv \<lparr>broker = unregister e sid w (broker s), handlers = filter (\<lambda>h. fst h \<noteq> w) (handlers s)\<rparr>"
proof -
  from assms(1) have inv: "distinct (map fst (handlers s))" "dict_wf (connections (broker s))"
    "dict_wf (ws_to_sandbox (broker s))"
    "\<And>sid w. dict_get (connections (broker s)) sid = Some w \<longleftrightarrow> dict_get (ws_to_sandbox (broker s)) w = Some sid"
    "\<And>sid w. dict_get (connections (broker s)) sid = Some w \<Longrightarrow> (w, sid) \<in> set (handlers s)"
    by (simp_all add: reg_inv_def)
  have uniq: "sid' = sid" if "dict_get (connections (broker s)) sid' = Some w" for sid'
    using inv(1) inv(5) [OF that] assms(2) by (metis eq_key_imp_eq_value)
  have dis: "distinct (map fst (filter (\<lambda>h. fst h \<noteq> w) (handlers s)))"
    using inv(1) by (simp add: distinct_map_filter)
  show ?thesis
  proof (cases "dict_get (connections (broker s)) sid = Some w")
    case True
    have "dict_get (connections (broker s)) a = Some w \<Longrightarrow> a = sid" for a by (rule uniq)
    moreover have "dict_get (ws_to_sandbox (broker s)) v = Some sid \<Longrightarrow> v = w" for v
      using inv(4) True by (metis option.inject)
    ultimately show ?thesis
      using dis inv(2-5)
      by (auto simp: reg_inv_def unregister_fields [OF True] dict_simps split: if_splits)
  next
    case False
    have none: "dict_get (ws_to_sandbox (broker s)) w = None"
      using uniq False inv(4) by (metis option.exhaust)
    then have "dict_pop w (ws_to_sandbox (broker s)) = ws_to_sandbox (broker s)" by (rule dict_pop_absent)
    moreover have "dict_get (connections (broker s)) a \<noteq> Some w" for a
      using uniq False by metis
    ultimately show ?thesis
      using dis inv(2-5) none by (auto simp: reg_inv_def unregister_stale [OF False])
  qed
qed

section \<open>Pending requests\<close>

text \<open>Forgetting one pending request together with its timer.\<close>

definition drop_pending :: "string \<Rightarrow> TrackedPending \<Rightarrow> NMBBroker \<Rightarrow> NMBBroker" where
  "drop_pending rid tr b = cancel_task (tp_timeout_task tr) (b\<lparr>pendings := dict_pop rid (pendings b)\<rparr>)"

definition resolve :: "string \<Rightarrow> TrackedPending \<Rightarrow> NMBBroker \<Rightarrow> NMBBroker" where
  "resolve rid tr b = decrement_count (pr_from_sandbox (tp_pending tr)) (drop_pending rid tr b)"

lemma decrement_fields [simp]:
  "connections (decrement_count s b) = connections b" "ws_to_sandbox (decrement_count s b) = ws_to_sandbox b"
  "channels (decrement_count s b) = channels b" "sandbox_channels (decrement_count s b) = sandbox_channels b"
  "pendings (decrement_count s b) = pendings b" "timers (decrement_count s b) = timers b"
  "next_task (decrement_count s b) = next_task b" "config (decrement_count s b) = config b"
  "audit (decrement_count s b) = audit b" "sent (decrement_count s b) = sent b"
  by (simp_all add: decrement_count_def)

lemma core_handle_reply:
  "core (handle_reply e s w msg b) =
     core (if \<not> truthy (m_reply_to msg) then b
           else case dict_get (pendings b) (the (m_reply_to msg)) of
             None \<Rightarrow> b | Some tr \<Rightarrow> resolve (the (m_reply_to msg)) tr b)"
  by (simp add: handle_reply_def Let_def resolve_def drop_pending_def split: option.splits)

lemma core_handle_request:
  "core (handle_request e s w msg b) =
     core (if truthy (m_to_sandbox msg)
             \<and> dict_default (pending_counts b) s 0 < cfg_max_pending_per_sandbox (config b)
           then (case dict_get (connections b) (the (m_to_sandbox msg)) of
               None \<Rightarrow> b
             | Some tw \<Rightarrow>
                 if send_ok e tw (make_deliver msg) then register_pending e s msg b
                 else decrement_count s (cancel_task (Some (next_task b))
                   ((register_pending e s msg b)\<lparr>pendings := dict_pop (m_id msg) (pendings (register_pending e s msg b))\<rparr>)))
           else b)"
  by (simp add: handle_request_def Let_def split: option.splits)

text \<open>The tracked entry that \<open>_handle_request\<close> registers.\<close>

definition new_tracked :: "env \<Rightarrow> string \<Rightarrow> NMBMessage \<Rightarrow> NMBBroker \<Rightarrow> TrackedPending" where
  "new_tracked e s msg b = \<lparr>tp_pending = \<lparr>request_id = m_id msg, pr_from_sandbox = s, created_at = clock e,
     pr_timeout = request_timeout msg b\<rparr>, tp_timeout_task = Some (next_task b)\<rparr>"

lemma register_pending_fields [simp]:
  "connections (register_pending e s msg b) = connections b"
  "ws_to_sandbox (register_pending e s msg b) = ws_to_sandbox b"
  "channels (register_pending e s msg b) = channels b"
  "sandbox_channels (register_pending e s msg b) = sandbox_channels b"
  "pendings (register_pending e s msg b) = dict_set (m_id msg) (new_tracked e s msg b) (pendings b)"
  "pending_counts (register_pending e s msg b) =
     dict_set s (dict_default (pending_counts b) s 0 + 1) (pending_counts b)"
  "timers (register_pending e s msg b) = timers b @
     [\<lparr>t_id = next_task b, t_request_id = m_id msg, t_requester_id = s, t_timeout = request_timeout msg b\<rparr>]"
  "next_task (register_pending e s msg b) = Suc (next_task b)"
  "config (register_pending e s msg b) = config b"
  by (simp_all add: register_pending_def new_tracked_def Let_def)

lemma new_tracked_simps [simp]:
  "tp_timeout_task (new_tracked e s msg b) = Some (next_task b)"
  "pr_from_sandbox (tp_pending (new_tracked e s msg b)) = s"
  by (simp_all add: new_tracked_def)

lemma register_then_resolve:
  "decrement_count s (cancel_task (Some (next_task b))
     ((register_pending e s msg b)\<lparr>pendings := dict_pop (m_id msg) (pendings (register_pending e s msg b))\<rparr>)) =
   resolve (m_id msg) (new_tracked e s msg b) (register_pending e s msg b)"
  by (simp add: resolve_def drop_pending_def)

lemma core_handle_request_cases:
  "core (handle_request e s w msg b) = core b \<or>
   dict_default (pending_counts b) s 0 < cfg_max_pending_per_sandbox (config b) \<and>
   core (handle_request e s w msg b) \<in> {core (register_pending e s msg b),
     core (resolve (m_id msg) (new_tracked e s msg b) (register_pending e s msg b))}"
  unfolding core_handle_request register_then_resolve by (auto split: option.splits)

lemma timers_inv_register:
  assumes "timers_inv b" and "dict_get (pendings b) (m_id msg) = None"
  shows "timers_inv (register_pending e s msg b)"
proof -
  have old: "t_request_id t \<noteq> m_id msg" if "t \<in> set (timers b)" for t
    using assms that unfolding timers_inv_def by (metis option.distinct(1))
  have ids: "distinct (map t_id (timers b))" "\<And>t. t \<in> set (timers b) \<Longrightarrow> t_id t < next_task b"
    and wf: "dict_wf (pendings b)" using assms(1) by (simp_all add: timers_inv_def)
  have fresh: "next_task b \<notin> t_id ` set (timers b)" using ids(2) by force
  show ?thesis
    unfolding timers_inv_def
  proof (intro conjI)
    show "distinct (map t_id (timers (register_pending e s msg b)))" using ids(1) fresh by simp
    show "\<forall>t\<in>set (timers (register_pending e s msg b)). t_id t < next_task (register_pending e s msg b)"
      using ids(2) by (auto simp: less_SucI)
  qed (use assms old wf in \<open>auto simp: timers_inv_def dict_simps\<close>)
qed

lemma timers_inv_drop:
  assumes inv: "timers_inv b" and get: "dict_get (pendings b) rid = Some tr"
  shows "timers_inv (drop_pending rid tr b)"
proof -
  from inv get obtain t where t: "t \<in> set (timers b)" "tp_timeout_task tr = Some (t_id t)" "t_request_id t = rid"
    unfolding timers_inv_def by blast
  have f: "timers (drop_pending rid tr b) = filter (\<lambda>u. t_id u \<noteq> t_id t) (timers b)"
    "pendings (drop_pending rid tr b) = dict_pop rid (pendings b)"
    "next_task (drop_pending rid tr b) = next_task b"
    by (simp_all add: drop_pending_def cancel_task_def t(2))
  from inv have dis: "distinct (map t_id (timers b))" by (simp add: timers_inv_def)
  have same: "u = t" if "u \<in> set (timers b)" "t_id u = t_id t" for u
    using dis t(1) that by (metis distinct_map inj_onD)
  have own: "t_id u = t_id t" if "u \<in> set (timers b)" "t_request_id u = rid" for u
    using inv that get t(2) unfolding timers_inv_def by fastforce
  show ?thesis
    unfolding timers_inv_def f
  proof (intro conjI allI impI ballI)
    show "distinct (map t_id (filter (\<lambda>u. t_id u \<noteq> t_id t) (timers b)))"
      using dis by (simp add: distinct_map_filter)
    fix rid' tr' assume g: "dict_get (dict_pop rid (pendings b)) rid' = Some tr'"
    then have "rid' \<noteq> rid" "dict_get (pendings b) rid' = Some tr'" by (auto simp: dict_simps split: if_splits)
    with inv obtain u where "u \<in> set (timers b)" "tp_timeout_task tr' = Some (t_id u)" "t_request_id u = rid'"
      unfolding timers_inv_def by blast
    with same t(3) \<open>rid' \<noteq> rid\<close>
    show "\<exists>u\<in>set (filter (\<lambda>u. t_id u \<noteq> t_id t) (timers b)). tp_timeout_task tr' = Some (t_id u) \<and> t_request_id u = rid'"
      by (intro bexI [of _ u]) auto
  next
    fix u assume u: "u \<in> set (filter (\<lambda>u. t_id u \<noteq> t_id t) (timers b))"
    with own have "t_request_id u \<noteq> rid" by auto
    with inv u show "\<exists>tr'. dict_get (dict_pop rid (pendings b)) (t_request_id u) = Some tr' \<and>
        tp_timeout_task tr' = Some (t_id u) \<and> pr_from_sandbox (tp_pending tr') = t_requester_id u"
      by (auto simp: timers_inv_def dict_simps)
  qed (use inv in \<open>auto simp: timers_inv_def\<close>)
qed

lemma timers_inv_cong:
  "\<lbrakk>pendings a = pendings b; timers a = timers b; next_task a = next_task b\<rbrakk> \<Longrightarrow> timers_inv a = timers_inv b"
  by (simp add: timers_inv_def)

lemma timers_inv_resolve:
  "timers_inv b \<Longrightarrow> dict_get (pendings b) rid = Some tr \<Longrightarrow> timers_inv (resolve rid tr b)"
  using timers_inv_drop timers_inv_cong [of "resolve rid tr b" "drop_pending rid tr b"]
  by (simp add: resolve_def)

lemma timers_inv_expire: "timers_inv b \<Longrightarrow> timers_inv (expire_requests rids b)"
  by (induction rids arbitrary: b)
     (auto simp: drop_pending_def [symmetric] intro: timers_inv_drop split: option.splits)

lemma dict_count_pops:
  assumes "dict_wf d" and "\<And>k v. k \<in> set ks \<Longrightarrow> dict_get d k = Some v \<Longrightarrow> \<not> P v"
  shows "dict_count P (dict_pops ks d) = dict_count P d"
  using assms
proof (induction ks arbitrary: d)
  case (Cons k ks)
  have "dict_count P (dict_pops ks (dict_pop k d)) = dict_count P (dict_pop k d)"
    by (rule Cons.IH) (use Cons.prems in \<open>auto simp: dict_simps split: if_splits\<close>)
  moreover have "dict_count P d = dict_count P (dict_pop k d)"
    using dict_count_pop [OF Cons.prems(1), of P k] Cons.prems(2) [of k] by (auto split: option.splits)
  ultimately show ?case by simp
qed simp

lemma from_count_register:
  assumes "timers_inv b" and "dict_get (pendings b) (m_id msg) = None"
  shows "from_count (register_pending e s msg b) s' = from_count b s' + (if s' = s then 1 else 0)"
  using assms by (auto simp: from_count_def timers_inv_def dict_count_set dict_pop_absent)

lemma from_count_resolve:
  assumes "timers_inv b" and "dict_get (pendings b) rid = Some tr"
  shows "from_count b s = from_count (resolve rid tr b) s + (if s = pr_from_sandbox (tp_pending tr) then 1 else 0)"
  using assms dict_count_pop [of "pendings b" _ rid]
  by (auto simp: from_count_def timers_inv_def resolve_def drop_pending_def)

lemma count_inv_register:
  assumes "count_inv b" "timers_inv b" "dict_get (pendings b) (m_id msg) = None"
    and "dict_default (pending_counts b) s 0 < cfg_max_pending_per_sandbox (config b)"
  shows "count_inv (register_pending e s msg b)"
  using assms unfolding count_inv_def
  by (auto simp: from_count_register dict_default_def dict_simps)

lemma count_inv_resolve:
  assumes inv: "count_inv b" "timers_inv b" and get: "dict_get (pendings b) rid = Some tr"
  shows "count_inv (resolve rid tr b)"
proof -
  let ?r = "pr_from_sandbox (tp_pending tr)"
  have cnt: "from_count b s = from_count (resolve rid tr b) s + (if s = ?r then 1 else 0)" for s
    by (rule from_count_resolve [OF inv(2) get])
  have pc: "pending_counts (resolve rid tr b) =
      dict_set ?r (max 0 (dict_default (pending_counts b) ?r 1 - 1)) (pending_counts b)"
    by (simp add: resolve_def drop_pending_def decrement_count_def)
  have c: "config (resolve rid tr b) = config b" by (simp add: resolve_def drop_pending_def)
  have pos: "dict_default (pending_counts b) ?r 0 \<ge> 1"
    using inv(1) cnt [of ?r] by (simp add: count_inv_def)
  have old: "dict_default (pending_counts b) s 0 = int (from_count b s)"
    "int (from_count b s) \<le> max 0 (cfg_max_pending_per_sandbox (config b))" for s
    using inv(1) by (simp_all add: count_inv_def)
  have d1: "dict_default (pending_counts b) ?r 1 = dict_default (pending_counts b) ?r 0"
    using pos by (auto simp: dict_default_def split: option.splits)
  show ?thesis
    unfolding count_inv_def
  proof (intro allI conjI)
    fix s
    show "dict_default (pending_counts (resolve rid tr b)) s 0 = int (from_count (resolve rid tr b) s)"
      using old(1) [of s] cnt [of s] pos
      by (cases "s = ?r") (simp_all add: pc d1 dict_simps dict_default_def [of "dict_set _ _ _"], simp add: dict_default_def)
    show "int (from_count (resolve rid tr b) s) \<le> max 0 (cfg_max_pending_per_sandbox (config (resolve rid tr b)))"
      using old(2) [of s] cnt [of s] by (simp add: c split: if_splits)
  qed
qed

text \<open>Every way in which one frame can change the routing state.\<close>

lemma dispatch_cases [case_names same touch add drop reply request failed]:
  obtains "core (dispatch e s w raw b) = core b"
  | "core (dispatch e s w raw b) = core (touch_channels s b)"
  | c where "core (dispatch e s w raw b) = core (add_subscription s c b)"
      "int (length (chans_of b s)) < cfg_max_channels_per_sandbox (config b)"
  | c where "core (dispatch e s w raw b) = core (drop_subscription s c b)"
  | rid tr where "core (dispatch e s w raw b) = core (resolve rid tr b)" "dict_get (pendings b) rid = Some tr"
  | m where "core (dispatch e s w raw b) = core (register_pending e s (stamp e s m) b)"
      "parse e raw = Inr m" "m_op m = Op_REQUEST"
      "dict_default (pending_counts b) s 0 < cfg_max_pending_per_sandbox (config b)"
  | m where "core (dispatch e s w raw b) =
        core (resolve (m_id m) (new_tracked e s (stamp e s m) b) (register_pending e s (stamp e s m) b))"
      "parse e raw = Inr m" "m_op m = Op_REQUEST"
      "dict_default (pending_counts b) s 0 < cfg_max_pending_per_sandbox (config b)"
proof (cases "parse e raw")
  case (Inl t)
  with that(1) show ?thesis by (simp add: dispatch_def from_json_def)
next
  case (Inr m)
  let ?m = "stamp e s m"
  show ?thesis
  proof (cases "validate_frame ?m")
    case (Some err)
    with Inr that(1) show ?thesis by (simp add: dispatch_def from_json_def Let_def)
  next
    case None
    with Inr have d: "dispatch e s w raw b = route e s w ?m b"
      by (simp add: dispatch_def from_json_def Let_def)
    have op: "m_op ?m = m_op m" and mid: "m_id ?m = m_id m" by (simp_all add: stamp_def)
    consider "m_op m = Op_SUBSCRIBE" | "m_op m = Op_UNSUBSCRIBE" | "m_op m = Op_REPLY" | "m_op m = Op_REQUEST"
      | "core (route e s w ?m b) = core b"
      by (cases "m_op m") (simp_all add: route_def op core_simps)
    then show ?thesis
    proof cases
      case 1
      then have "dispatch e s w raw b = handle_subscribe e s w ?m b" by (simp add: d route_def op)
      with core_handle_subscribe [of e s w ?m b] that(1-3) show ?thesis by (auto split: if_splits)
    next
      case 2
      then have "dispatch e s w raw b = handle_unsubscribe e s w ?m b" by (simp add: d route_def op)
      with core_handle_unsubscribe [of e s w ?m b] that(1,4) show ?thesis by (auto split: if_splits)
    next
      case 3
      then have "dispatch e s w raw b = handle_reply e s w ?m b" by (simp add: d route_def op)
      with core_handle_reply [of e s w ?m b] that(1,5) show ?thesis by (auto split: if_splits option.splits)
    next
      case 4
      then have "dispatch e s w raw b = handle_request e s w ?m b" by (simp add: d route_def op)
      with core_handle_request_cases [of e s w ?m b] that(1) that(6,7) [of m] Inr 4 mid
      show ?thesis by fastforce
    next
      case 5
      with d that(1) show ?thesis by simp
    qed
  qed
qed

section \<open>Steps preserve the invariants\<close>

lemma subscription_fields [simp]:
  "connections (touch_channels s b) = connections b" "connections (add_subscription s c b) = connections b"
  "connections (drop_subscription s c b) = connections b"
  "ws_to_sandbox (touch_channels s b) = ws_to_sandbox b" "ws_to_sandbox (add_subscription s c b) = ws_to_sandbox b"
  "ws_to_sandbox (drop_subscription s c b) = ws_to_sandbox b"
  "pendings (touch_channels s b) = pendings b" "pendings (add_subscription s c b) = pendings b"
  "pendings (drop_subscription s c b) = pendings b"
  "pending_counts (touch_channels s b) = pending_counts b" "pending_counts (add_subscription s c b) = pending_counts b"
  "pending_counts (drop_subscription s c b) = pending_counts b"
  "timers (touch_channels s b) = timers b" "timers (add_subscription s c b) = timers b"
  "timers (drop_subscription s c b) = timers b"
  "next_task (touch_channels s b) = next_task b" "next_task (add_subscription s c b) = next_task b"
  "next_task (drop_subscription s c b) = next_task b"
  "config (touch_channels s b) = config b" "config (add_subscription s c b) = config b"
  "config (drop_subscription s c b) = config b"
  by (simp_all add: touch_channels_def add_subscription_def drop_subscription_def Let_def)

lemma resolve_fields [simp]:
  "connections (resolve rid tr b) = connections b" "ws_to_sandbox (resolve rid tr b) = ws_to_sandbox b"
  "channels (resolve rid tr b) = channels b" "sandbox_channels (resolve rid tr b) = sandbox_channels b"
  "pendings (resolve rid tr b) = dict_pop rid (pendings b)" "config (resolve rid tr b) = config b"
  "next_task (resolve rid tr b) = next_task b"
  by (simp_all add: resolve_def drop_pending_def)

lemma chan_inv_cong:
  "\<lbrakk>channels a = channels b; sandbox_channels a = sandbox_channels b; config a = config b\<rbrakk> \<Longrightarrow> chan_inv a = chan_inv b"
  by (simp add: chan_inv_def subs_of_def chans_of_def)

text \<open>To preserve a property of the routing state under dispatch, preserve it under each effect.\<close>

lemma dispatch_preserves:
  assumes "\<And>a. P (core a) = P a" and "P b" and "P (touch_channels s b)"
    and "\<And>c. int (length (chans_of b s)) < cfg_max_channels_per_sandbox (config b) \<Longrightarrow> P (add_subscription s c b)"
    and "\<And>c. P (drop_subscription s c b)"
    and "\<And>rid tr. dict_get (pendings b) rid = Some tr \<Longrightarrow> P (resolve rid tr b)"
    and "\<And>m. parse e raw = Inr m \<Longrightarrow> m_op m = Op_REQUEST \<Longrightarrow>
           dict_default (pending_counts b) s 0 < cfg_max_pending_per_sandbox (config b) \<Longrightarrow>
           P (register_pending e s (stamp e s m) b)"
    and "\<And>m. parse e raw = Inr m \<Longrightarrow> m_op m = Op_REQUEST \<Longrightarrow>
           dict_default (pending_counts b) s 0 < cfg_max_pending_per_sandbox (config b) \<Longrightarrow>
           P (resolve (m_id m) (new_tracked e s (stamp e s m) b) (register_pending e s (stamp e s m) b))"
  shows "P (dispatch e s w raw b)"
proof -
  have step: "core a = core a' \<Longrightarrow> P a' \<Longrightarrow> P a" for a a' using assms(1) by metis
  show ?thesis
    by (cases e s w raw b rule: dispatch_cases) (rule step, assumption, blast intro: assms(2-8))+
qed

lemma dispatch_connections:
  "connections (dispatch e s w raw b) = connections b" "ws_to_sandbox (dispatch e s w raw b) = ws_to_sandbox b"
  "config (dispatch e s w raw b) = config b"
  by (rule dispatch_preserves; simp)+

lemma chan_inv_pending_ops [simp]:
  "chan_inv (resolve rid tr b) = chan_inv b" "chan_inv (register_pending e s msg b) = chan_inv b"
  by (rule chan_inv_cong; simp)+

lemma chan_inv_dispatch: "chan_inv b \<Longrightarrow> chan_inv (dispatch e s w raw b)"
  by (rule dispatch_preserves) (simp_all add: chan_inv_touch chan_inv_add chan_inv_drop)

lemma core_timeout_request:
  "core (timeout_request e rid r t b) =
     core (case dict_get (pendings b) rid of None \<Rightarrow> b
           | Some tr \<Rightarrow> decrement_count r (b\<lparr>pendings := dict_pop rid (pendings b)\<rparr>))"
  by (simp add: timeout_request_def Let_def split: option.splits)

lemma fire_timer_fields:
  "connections (fire_timer e t b) = connections b" "ws_to_sandbox (fire_timer e t b) = ws_to_sandbox b"
  "channels (fire_timer e t b) = channels b" "sandbox_channels (fire_timer e t b) = sandbox_channels b"
  "config (fire_timer e t b) = config b"
  by (simp_all add: fire_timer_def core_eqD [OF core_timeout_request] split: option.splits)

text \<open>A timer that fires resolves its own request.\<close>

lemma core_fire_timer:
  assumes "timers_inv b" and "t \<in> set (timers b)"
  obtains tr where "dict_get (pendings b) (t_request_id t) = Some tr"
    and "core (fire_timer e t b) = core (resolve (t_request_id t) tr b)"
proof -
  from assms obtain tr where tr: "dict_get (pendings b) (t_request_id t) = Some tr"
    "tp_timeout_task tr = Some (t_id t)" "pr_from_sandbox (tp_pending tr) = t_requester_id t"
    by (auto simp: timers_inv_def)
  have "core (fire_timer e t b) = core (resolve (t_request_id t) tr b)"
    unfolding fire_timer_def core_timeout_request
    by (cases b) (use tr in \<open>simp add: resolve_def drop_pending_def cancel_task_def decrement_count_def core_def\<close>)
  with tr(1) that show thesis by blast
qed

inductive_cases system_stepE: "system_step s s'"

lemma reg_inv_step: "system_step s s' \<Longrightarrow> reg_inv s \<Longrightarrow> reg_inv s'"
proof (induction rule: system_step.induct)
  case (connect header sid w s e)
  then show ?case by (intro reg_inv_connect)
next
  case (frame w sid s e raw)
  then show ?case by (simp add: reg_inv_def dispatch_connections)
next
  case (disconnect w sid s e)
  then show ?case by (intro reg_inv_disconnect)
next
  case (timeout t s e)
  then show ?case by (simp add: reg_inv_def fire_timer_fields)
qed

lemma chan_inv_step: "system_step s s' \<Longrightarrow> chan_inv (broker s) \<Longrightarrow> chan_inv (broker s')"
proof (induction rule: system_step.induct)
  case (connect header sid w s e)
  then show ?case by (simp add: chan_inv_cong [of "register e sid w (broker s)" "broker s"])
next
  case (frame w sid s e raw)
  then show ?case by (simp add: chan_inv_dispatch)
next
  case (disconnect w sid s e)
  then show ?case by (simp add: chan_inv_unregister)
next
  case (timeout t s e)
  then show ?case
    by (simp add: chan_inv_cong [of "fire_timer e t (broker s)" "broker s"] fire_timer_fields)
qed

lemma config_step: "system_step s s' \<Longrightarrow> config (broker s') = config (broker s)"
proof (induction rule: system_step.induct)
  case (connect header sid w s e)
  show ?case by (simp add: register_def)
next
  case (frame w sid s e raw)
  show ?case by (simp add: dispatch_connections)
next
  case (disconnect w sid s e)
  show ?case
    by (cases "dict_get (connections (broker s)) sid = Some w") (simp_all add: unregister_fields unregister_stale)
next
  case (timeout t s e)
  show ?case by (simp add: fire_timer_fields)
qed

lemma system_init_inv: "reg_inv (system_init cfg aud)" "chan_inv (broker (system_init cfg aud))"
  by (simp_all add: system_init_def broker_init_def reg_inv_def chan_inv_def subs_of_def chans_of_def dict_default_def)

lemma system_reachable:
  assumes "system_step\<^sup>*\<^sup>* (system_init cfg aud) s"
  shows "reg_inv s" "chan_inv (broker s)" "config (broker s) = cfg"
  using assms
proof (induction rule: rtranclp_induct)
  case base
  show "reg_inv (system_init cfg aud)" "chan_inv (broker (system_init cfg aud))"
    "config (broker (system_init cfg aud)) = cfg"
    by (simp_all add: system_init_inv) (simp add: system_init_def broker_init_def)
next
  case (step s s')
  then show "reg_inv s'" "chan_inv (broker s')" "config (broker s') = cfg"
    by (simp_all add: reg_inv_step chan_inv_step config_step)
qed

section \<open>The disciplined system\<close>

definition pend_inv :: "NMBBroker \<Rightarrow> bool" where
  "pend_inv b = (timers_inv b \<and> count_inv b)"

lemma pend_inv_core [simp]: "pend_inv (core b) = pend_inv b"
  by (simp add: pend_inv_def)

lemma pend_inv_cong:
  assumes "pendings a = pendings b" "timers a = timers b" "next_task a = next_task b"
    and "pending_counts a = pending_counts b" "config a = config b"
  shows "pend_inv a = pend_inv b"
  using assms by (simp add: pend_inv_def timers_inv_def count_inv_def from_count_def)

lemma pend_inv_subscription_ops [simp]:
  "pend_inv (touch_channels s b) = pend_inv b" "pend_inv (add_subscription s c b) = pend_inv b"
  "pend_inv (drop_subscription s c b) = pend_inv b" "pend_inv (register e sid w b) = pend_inv b"
  by (rule pend_inv_cong; simp)+

lemma pend_inv_resolve: "pend_inv b \<Longrightarrow> dict_get (pendings b) rid = Some tr \<Longrightarrow> pend_inv (resolve rid tr b)"
  by (simp add: pend_inv_def timers_inv_resolve count_inv_resolve)

lemma pend_inv_register:
  "\<lbrakk>pend_inv b; dict_get (pendings b) (m_id msg) = None;
    dict_default (pending_counts b) s 0 < cfg_max_pending_per_sandbox (config b)\<rbrakk> \<Longrightarrow>
   pend_inv (register_pending e s msg b)"
  by (simp add: pend_inv_def timers_inv_register count_inv_register)

lemma m_id_stamp [simp]: "m_id (stamp e s m) = m_id m" "m_op (stamp e s m) = m_op m"
  "m_from_sandbox (stamp e s m) = Some s" "m_timestamp (stamp e s m) = Some (clock e)"
  by (simp_all add: stamp_def)

lemma pend_inv_dispatch:
  assumes "pend_inv b" and "request_id_free e raw b"
  shows "pend_inv (dispatch e s w raw b)"
proof (rule dispatch_preserves)
  fix m assume m: "parse e raw = Inr m" "m_op m = Op_REQUEST"
    "dict_default (pending_counts b) s 0 < cfg_max_pending_per_sandbox (config b)"
  from assms(2) m(1,2) have "dict_get (pendings b) (m_id m) = None" by (simp add: request_id_free_def)
  with assms(1) m(3) show "pend_inv (register_pending e s (stamp e s m) b)"
    by (intro pend_inv_register) simp_all
  then show "pend_inv (resolve (m_id m) (new_tracked e s (stamp e s m) b) (register_pending e s (stamp e s m) b))"
    by (rule pend_inv_resolve) (simp add: dict_simps)
qed (simp_all add: assms pend_inv_resolve)

lemma pend_inv_fire_timer: "pend_inv b \<Longrightarrow> t \<in> set (timers b) \<Longrightarrow> pend_inv (fire_timer e t b)"
  by (metis core_fire_timer pend_inv_core pend_inv_def pend_inv_resolve)

lemma own_requests_iff:
  "dict_wf (pendings b) \<Longrightarrow> rid \<in> set (own_requests sid b) \<longleftrightarrow>
     (\<exists>tr. dict_get (pendings b) rid = Some tr \<and> pr_from_sandbox (tp_pending tr) = sid)"
  by (force simp: own_requests_def dict_mem_get)

lemma timers_inv_unregister: "timers_inv b \<Longrightarrow> timers_inv (unregister e sid w b)"
proof (cases "dict_get (connections b) sid = Some w")
  case False
  assume "timers_inv b"
  with False show ?thesis by (simp add: unregister_stale timers_inv_def)
next
  case True
  assume inv: "timers_inv b"
  let ?b3 = "(fold (discard_subscriber sid) (chans_of b sid) (b\<lparr>connections := dict_pop sid (connections b),
     ws_to_sandbox := dict_pop w (ws_to_sandbox b)\<rparr>))\<lparr>sandbox_channels := dict_pop sid (sandbox_channels b)\<rparr>"
  have "timers_inv ?b3"
    using inv timers_inv_cong [of ?b3 b] by simp
  then have "timers_inv (expire_requests (own_requests sid b) ?b3)" by (rule timers_inv_expire)
  moreover have "timers (unregister e sid w b) = timers (expire_requests (own_requests sid b) ?b3)"
    using True by (simp add: unregister_def Let_def chans_of_def own_requests_def)
  ultimately show ?thesis
    using timers_inv_cong [of "unregister e sid w b" "expire_requests (own_requests sid b) ?b3"]
    by (simp add: unregister_fields [OF True])
qed

lemma from_count_unregister:
  assumes "dict_get (connections b) sid = Some w" and "dict_wf (pendings b)"
  shows "from_count (unregister e sid w b) s = (if s = sid then 0 else from_count b s)"
proof (cases "s = sid")
  case True
  then show ?thesis
    using assms by (simp add: from_count_def unregister_fields dict_count_0_iff dict_simps own_requests_iff)
next
  case False
  then show ?thesis
    using assms by (auto simp: from_count_def unregister_fields own_requests_iff intro!: dict_count_pops)
qed

lemma pend_inv_unregister: "pend_inv b \<Longrightarrow> pend_inv (unregister e sid w b)"
proof (cases "dict_get (connections b) sid = Some w")
  case False
  assume "pend_inv b"
  then show ?thesis
    using pend_inv_cong [of "unregister e sid w b" b] by (simp add: unregister_stale [OF False])
next
  case True
  assume inv: "pend_inv b"
  then have wf: "dict_wf (pendings b)" by (simp add: pend_inv_def timers_inv_def)
  have "count_inv (unregister e sid w b)"
    using inv from_count_unregister [OF True wf, of e]
    unfolding count_inv_def pend_inv_def
    by (auto simp: unregister_fields [OF True] dict_default_def dict_simps)
  with inv show ?thesis by (simp add: pend_inv_def timers_inv_unregister)
qed

lemma fresh_is_system_step: "fresh_step s s' \<Longrightarrow> system_step s s'"
  by (induction rule: fresh_step.induct) (auto intro: system_step.intros)

lemma fresh_reachable_system: "fresh_step\<^sup>*\<^sup>* s s' \<Longrightarrow> system_step\<^sup>*\<^sup>* s s'"
  by (induction rule: rtranclp_induct) (auto intro: rtranclp.rtrancl_into_rtrancl fresh_is_system_step)

lemma pend_inv_step: "fresh_step s s' \<Longrightarrow> pend_inv (broker s) \<Longrightarrow> pend_inv (broker s')"
  by (induction rule: fresh_step.induct)
     (simp_all add: pend_inv_dispatch pend_inv_unregister pend_inv_fire_timer)

lemma live_core_core [simp]: "live_core (core b) = live_core b"
  by (simp add: live_core_def)

lemma is_connected_cong: "connections a = connections b \<Longrightarrow> is_connected a = is_connected b"
  by (simp add: fun_eq_iff is_connected_def)

lemma live_core_resolve:
  assumes "live_core b" and "dict_get (pendings b) rid = Some tr"
  shows "live_core (resolve rid tr b)"
proof -
  have c: "is_connected (resolve rid tr b) = is_connected b" by (rule is_connected_cong) simp
  have p: "pending_counts (resolve rid tr b) = dict_set (pr_from_sandbox (tp_pending tr))
      (max 0 (dict_default (pending_counts b) (pr_from_sandbox (tp_pending tr)) 1 - 1)) (pending_counts b)"
    by (simp add: resolve_def drop_pending_def decrement_count_def)
  show ?thesis
    using assms unfolding live_core_def c by (auto simp: p dict_simps split: if_splits)
qed

lemma live_core_register_pending:
  assumes "live_core b" and "is_connected b s"
  shows "live_core (register_pending e s msg b)"
proof -
  have c: "is_connected (register_pending e s msg b) = is_connected b" by (rule is_connected_cong) simp
  show ?thesis using assms unfolding live_core_def c by (auto simp: dict_simps split: if_splits)
qed

lemma live_core_subscription_ops:
  assumes "live_core b" and "is_connected b s"
  shows "live_core (touch_channels s b)" "live_core (add_subscription s c b)" "live_core (drop_subscription s c b)"
proof -
  have c: "is_connected (touch_channels s b) = is_connected b" "is_connected (add_subscription s c b) = is_connected b"
    "is_connected (drop_subscription s c b) = is_connected b"
    by (rule is_connected_cong, simp)+
  show "live_core (touch_channels s b)"
    using assms unfolding live_core_def c by (auto simp: touch_channels_def dict_simps split: if_splits)
  show "live_core (add_subscription s c b)"
    using assms unfolding live_core_def c by (auto simp: add_subscription_def dict_simps split: if_splits)
  show "live_core (drop_subscription s c b)"
    using assms unfolding live_core_def c
    by (auto simp: drop_subscription_def Let_def dict_simps split: if_splits)
qed

lemma live_core_dispatch:
  assumes "live_core b" and "is_connected b s"
  shows "live_core (dispatch e s w raw b)"
proof (rule dispatch_preserves)
  fix m
  show r: "live_core (register_pending e s (stamp e s m) b)"
    by (rule live_core_register_pending [OF assms])
  show "live_core (resolve (m_id m) (new_tracked e s (stamp e s m) b) (register_pending e s (stamp e s m) b))"
    by (rule live_core_resolve [OF r]) (simp add: dict_simps)
qed (simp_all add: assms live_core_resolve live_core_subscription_ops)

lemma live_core_unregister:
  assumes "live_core b" and "dict_get (connections b) sid = Some w" and "dict_wf (pendings b)"
  shows "live_core (unregister e sid w b)"
  using assms
  by (auto simp: live_core_def is_connected_def dict_has_def unregister_fields own_requests_iff dict_simps)

lemma live_inv_step:
  assumes "fresh_step s s'" and "live_inv s" and "reg_inv s" and "pend_inv (broker s)"
  shows "live_inv s'"
  using assms
proof (induction rule: fresh_step.induct)
  case (fresh_connect header sid w s e)
  from fresh_connect have nc: "\<not> dict_has (connections (broker s)) sid"
    by (force simp: reg_inv_def dict_has_def)
  with fresh_connect have "live_core (register e sid w (broker s))"
    by (auto simp: live_inv_def live_core_def is_connected_def dict_has_def register_def dict_simps)
  with fresh_connect nc show ?case
    by (auto simp: live_inv_def register_def dict_has_def dict_simps)
next
  case (fresh_frame w sid s e raw)
  then have "is_connected (broker s) sid" by (auto simp: live_inv_def is_connected_def dict_has_def)
  with fresh_frame show ?case
    by (simp add: live_inv_def dispatch_connections live_core_dispatch)
next
  case (fresh_disconnect w sid s e)
  then have c: "dict_get (connections (broker s)) sid = Some w" by (auto simp: live_inv_def)
  from fresh_disconnect have "dict_wf (pendings (broker s))" by (simp add: pend_inv_def timers_inv_def)
  with fresh_disconnect c have "live_core (unregister e sid w (broker s))"
    by (simp add: live_inv_def live_core_unregister)
  moreover have "sid' \<noteq> sid" if "(w', sid') \<in> set (handlers s)" "w' \<noteq> w" for w' sid'
    using fresh_disconnect(2) that c by (auto simp: live_inv_def)
  moreover have "distinct (map snd (filter (\<lambda>h. fst h \<noteq> w) (handlers s)))"
    using fresh_disconnect(2) by (simp add: live_inv_def distinct_map_filter)
  ultimately show ?case
    using fresh_disconnect(2) by (auto simp: live_inv_def unregister_fields [OF c] dict_simps)
next
  case (fresh_timeout t s e)
  then obtain tr where "dict_get (pendings (broker s)) (t_request_id t) = Some tr"
    and "core (fire_timer e t (broker s)) = core (resolve (t_request_id t) tr (broker s))"
    using core_fire_timer pend_inv_def by metis
  then have "live_core (fire_timer e t (broker s))"
    using fresh_timeout(2) live_core_resolve live_core_core unfolding live_inv_def by metis
  with fresh_timeout show ?case by (simp add: live_inv_def fire_timer_fields)
qed

lemma fresh_reachable:
  assumes "fresh_step\<^sup>*\<^sup>* (system_init cfg aud) s"
  shows "pend_inv (broker s)" "live_inv s" "reg_inv s" "chan_inv (broker s)" "config (broker s) = cfg"
proof -
  note sys = system_reachable [OF fresh_reachable_system [OF assms]]
  show "reg_inv s" "chan_inv (broker s)" "config (broker s) = cfg" by (rule sys)+
  have init: "pend_inv (broker (system_init cfg aud))" "live_inv (system_init cfg aud)"
    by (simp_all add: system_init_def broker_init_def pend_inv_def timers_inv_def count_inv_def from_count_def
        dict_count_def dict_default_def live_inv_def live_core_def)
  have "pend_inv (broker s) \<and> live_inv s"
    using assms
  proof (induction rule: rtranclp_induct)
    case (step s s')
    from step.hyps(1) have "reg_inv s" by (intro system_reachable fresh_reachable_system)
    with step show ?case using pend_inv_step live_inv_step by blast
  qed (use init in simp)
  then show "pend_inv (broker s)" "live_inv s" by auto
qed

end
