(* ===== verification/BrokerProps.thy ===== *)
theory BrokerProps
  imports BrokerInvariants
begin

text \<open>
  What the broker promises its clients: which frames it emits and to whom, how requests
  are resolved, what the audit trail records, and the abstract view of the subscription
  registry as a relation. The properties of reachable states rest on the invariants of
  the preceding theory.
\<close>

named_theorems sent_simps \<open>the frames that the broker's operations send\<close>

section \<open>Emitted frames\<close>

definition frames_if :: "bool \<Rightarrow> ws \<Rightarrow> NMBMessage \<Rightarrow> (ws \<times> NMBMessage) list" where
  "frames_if ok w m = (if ok then [(w, m)] else [])"

lemma sent_try_send [sent_simps]: "sent (try_send e w m b) = sent b @ frames_if (send_ok e w m) w m"
  by (simp add: try_send_def frames_if_def)

lemma sent_audit [sent_simps]:
  "sent (audit_msg m st b) = sent b" "sent (audit_update_status i st b) = sent b"
  "sent (audit_opt am st b) = sent b" "sent (decrement_count s b) = sent b" "sent (cancel_task t b) = sent b"
  "sent (register_pending e s m b) = sent b" "sent (discard_subscriber s c b) = sent b"
  by (simp_all add: audit_msg_def audit_update_status_def audit_opt_def register_pending_def
      discard_subscriber_def Let_def split: option.splits)

lemma sent_reply [sent_simps]:
  "sent (send_ack e w i am b) = sent b @ frames_if (send_ok e w (ack_frame i)) w (ack_frame i)"
  "sent (send_error e w i c t am b) = sent b @ frames_if (send_ok e w (error_frame i c t)) w (error_frame i c t)"
  by (simp_all add: send_ack_def send_error_def sent_simps)

text \<open>The connections of the listed subscribers, in order.\<close>

definition conns_of :: "NMBBroker \<Rightarrow> string list \<Rightarrow> ws list" where
  "conns_of b subs = List.map_filter (dict_get (connections b)) subs"

lemma sent_fan_out [sent_simps]:
  "sent (fan_out e m subs b) = sent b @ map (\<lambda>w. (w, m)) (filter (\<lambda>w. send_ok e w m) (conns_of b subs))"
  by (induction subs arbitrary: b)
     (auto simp: conns_of_def map_filter_simps sent_simps frames_if_def split: option.splits)

lemma sent_fold_discard [sent_simps]: "sent (fold (discard_subscriber s) cs b) = sent b"
  by (induction cs arbitrary: b) (simp_all add: sent_simps)

text \<open>Every frame of a handler is the delivery, or an answer on the sender's own connection.\<close>

definition answer_or_delivery :: "ws \<Rightarrow> NMBMessage \<Rightarrow> ws \<times> NMBMessage \<Rightarrow> bool" where
  "answer_or_delivery w msg f =
     (snd f = make_deliver msg \<or>
      fst f = w \<and> (snd f = ack_frame (m_id msg) \<or> m_op (snd f) = Op_ERROR \<and> m_id (snd f) = m_id msg))"

lemma answers [simp]:
  "answer_or_delivery w msg (w', make_deliver msg)"
  "answer_or_delivery w msg (w, ack_frame (m_id msg))"
  "answer_or_delivery w msg (w, error_frame (m_id msg) c t)"
  by (simp_all add: answer_or_delivery_def error_frame_def)

lemma list_all_frames_if [simp]: "list_all P (frames_if ok w m) \<longleftrightarrow> (ok \<longrightarrow> P (w, m))"
  by (simp add: frames_if_def)

definition emits :: "NMBBroker \<Rightarrow> NMBBroker \<Rightarrow> (ws \<times> NMBMessage \<Rightarrow> bool) \<Rightarrow> bool" where
  "emits b b' P = (\<exists>new. sent b' = sent b @ new \<and> list_all P new)"

lemma emitsI: "sent b' = sent b @ new \<Longrightarrow> list_all P new \<Longrightarrow> emits b b' P"
  by (auto simp: emits_def)

lemma emits_same: "sent b' = sent b \<Longrightarrow> emits b b' P"
  by (rule emitsI [of _ _ "[]"]) simp_all

lemma emits_mono: "emits b b' P \<Longrightarrow> (\<And>f. P f \<Longrightarrow> Q f) \<Longrightarrow> emits b b' Q"
  by (auto simp: emits_def list_all_iff)

lemmas handler_defs = handle_send_def handle_request_def handle_reply_def handle_subscribe_def
  handle_unsubscribe_def handle_publish_def handle_stream_def

lemma handlers_emit:
  "emits b (handle_send e s w msg b) (answer_or_delivery w msg)"
  "emits b (handle_request e s w msg b) (answer_or_delivery w msg)"
  "emits b (handle_reply e s w msg b) (answer_or_delivery w msg)"
  "emits b (handle_subscribe e s w msg b) (answer_or_delivery w msg)"
  "emits b (handle_unsubscribe e s w msg b) (answer_or_delivery w msg)"
  "emits b (handle_stream e s w msg b) (answer_or_delivery w msg)"
  by (auto simp: emits_def handler_defs Let_def sent_simps split: option.splits)

lemma handle_publish_emits: "emits b (handle_publish e s w msg b) (answer_or_delivery w msg)"
  by (auto simp: emits_def handle_publish_def Let_def sent_simps list_all_iff frames_if_def split: if_splits)

lemma send_error_emits: "emits b (send_error e w (m_id msg) c t am b) (answer_or_delivery w msg)"
  by (auto simp: emits_def sent_simps)

lemma route_emits: "emits b (route e s w msg b) (answer_or_delivery w msg)"
  by (cases "m_op msg") (simp_all add: route_def handlers_emit handle_publish_emits send_error_emits)

lemma make_deliver_simps [simp]:
  "m_op (make_deliver m) = Op_DELIVER" "m_id (make_deliver m) = m_id m"
  "m_from_sandbox (make_deliver m) = m_from_sandbox m" "m_timestamp (make_deliver m) = m_timestamp m"
  "m_reply_to (make_deliver m) = m_reply_to m" "m_payload (make_deliver m) = m_payload m"
  "m_type (make_deliver m) = m_type m" "m_channel (make_deliver m) = m_channel m"
  by (simp_all add: make_deliver_def)

lemma answer_ops [simp]: "m_op (ack_frame i) = Op_ACK" "m_op (error_frame i c t) = Op_ERROR"
  by (simp_all add: ack_frame_def error_frame_def)

section \<open>Sample inputs\<close>

definition sample_request :: NMBMessage where
  "sample_request = (new_message Op_REQUEST ''r1'')\<lparr>m_to_sandbox := Some ''b'', m_from_sandbox := Some ''mallory'',
     m_type := Some ''task.assign'', m_payload := Some []\<rparr>"

definition sample_reply :: NMBMessage where
  "sample_reply = (new_message Op_REPLY ''r2'')\<lparr>m_reply_to := Some ''r1'', m_type := Some ''task.complete'',
     m_payload := Some []\<rparr>"

definition sample_subscribe :: NMBMessage where
  "sample_subscribe = (new_message Op_SUBSCRIBE ''s1'')\<lparr>m_channel := Some ''progress''\<rparr>"

definition sample_publish :: NMBMessage where
  "sample_publish = (new_message Op_PUBLISH ''p1'')\<lparr>m_channel := Some ''progress'', m_type := Some ''t'',
     m_payload := Some []\<rparr>"

definition sample_parse :: "string \<Rightarrow> string + NMBMessage" where
  "sample_parse raw =
     (if raw = ''request'' then Inr sample_request else if raw = ''reply'' then Inr sample_reply
      else if raw = ''subscribe'' then Inr sample_subscribe else if raw = ''publish'' then Inr sample_publish
      else Inl ''malformed'')"

definition sample_env :: env where
  "sample_env = \<lparr>parse = sample_parse, send_ok = (\<lambda>w m. True), clock = 1, fresh_id = ''f1'',
     float_str = (\<lambda>t. ''300.0'')\<rparr>"

abbreviation on_frame :: "string \<Rightarrow> ws \<Rightarrow> string \<Rightarrow> NMBBroker \<Rightarrow> NMBBroker" where
  "on_frame \<equiv> dispatch sample_env"

abbreviation on_connect :: "string \<Rightarrow> ws \<Rightarrow> NMBBroker \<Rightarrow> NMBBroker" where
  "on_connect \<equiv> register sample_env"

lemmas sample_defs = sample_env_def sample_parse_def sample_request_def sample_reply_def sample_subscribe_def
  sample_publish_def broker_init_def default_broker_config_def new_message_def

lemmas broker_eval = dispatch_def from_json_def stamp_def validate_frame_def field_missing_def payload_bytes_def
  DEFAULT_NMB_MAX_PAYLOAD_BYTES_def route_def handler_defs register_def register_pending_def request_timeout_def
  unregister_def fire_timer_def timeout_request_def broadcast_system_def send_ack_def send_error_def audit_opt_def
  audit_msg_def try_send_def cancel_task_def decrement_count_def discard_subscriber_def Let_def dict_has_def
  dict_get_def dict_set_def dict_pop_def dict_default_def set_add_def set_discard_def

lemma sample_valid [simp]:
  "validate_frame (stamp sample_env s sample_request) = None"
  "validate_frame (stamp sample_env s sample_reply) = None"
  "validate_frame (stamp sample_env s sample_subscribe) = None"
  "validate_frame (stamp sample_env s sample_publish) = None"
  by (simp_all add: validate_frame_def stamp_def sample_request_def sample_reply_def sample_subscribe_def
      sample_publish_def field_missing_def payload_bytes_def DEFAULT_NMB_MAX_PAYLOAD_BYTES_def)

text \<open>Reachability of the sample runs, one step at a time.\<close>

lemmas run_init = rtranclp.rtrancl_refl [of fresh_step]

lemma run_connect:
  "fresh_step\<^sup>*\<^sup>* s0 s \<Longrightarrow> sid \<noteq> [] \<Longrightarrow> w \<notin> fst ` set (handlers s) \<Longrightarrow> sid \<notin> snd ` set (handlers s) \<Longrightarrow>
   fresh_step\<^sup>*\<^sup>* s0 \<lparr>broker = register e sid w (broker s), handlers = (w, sid) # handlers s\<rparr>"
  by (erule rtranclp.rtrancl_into_rtrancl, rule fresh_connect [of "Some sid"]) (simp_all add: process_request_def)

lemma run_frame:
  "fresh_step\<^sup>*\<^sup>* s0 s \<Longrightarrow> (w, sid) \<in> set (handlers s) \<Longrightarrow> request_id_free e raw (broker s) \<Longrightarrow>
   fresh_step\<^sup>*\<^sup>* s0 (s\<lparr>broker := dispatch e sid w raw (broker s)\<rparr>)"
  by (erule rtranclp.rtrancl_into_rtrancl) (rule fresh_frame)

definition two_sandboxes :: system where
  "two_sandboxes = \<lparr>broker = on_connect ''b'' 2 (on_connect ''a'' 1 (broker_init default_broker_config None)),
     handlers = [(2, ''b''), (1, ''a'')]\<rparr>"

lemma two_sandboxes_run: "fresh_step\<^sup>*\<^sup>* (system_init default_broker_config None) two_sandboxes"
proof -
  let ?s1 = "\<lparr>broker = on_connect ''a'' 1 (broker_init default_broker_config None), handlers = [(1, ''a'')]\<rparr>"
  have "fresh_step\<^sup>*\<^sup>* (system_init default_broker_config None) ?s1"
    using run_connect [OF run_init, of "''a''" 1 "system_init default_broker_config None" sample_env]
    by (simp add: system_init_def)
  from run_connect [OF this, of "''b''" 2 sample_env] show ?thesis by (simp add: two_sandboxes_def)
qed

definition one_pending :: system where
  "one_pending = two_sandboxes\<lparr>broker := on_frame ''a'' 1 ''request'' (broker two_sandboxes)\<rparr>"

lemma one_pending_run: "fresh_step\<^sup>*\<^sup>* (system_init default_broker_config None) one_pending"
  unfolding one_pending_def
  by (rule run_frame [OF two_sandboxes_run])
     (simp_all add: two_sandboxes_def request_id_free_def sample_defs register_def dict_has_def)

definition subscribed :: system where
  "subscribed = two_sandboxes\<lparr>broker := on_frame ''b'' 2 ''subscribe'' (broker two_sandboxes)\<rparr>"

lemma subscribed_run: "fresh_step\<^sup>*\<^sup>* (system_init default_broker_config None) subscribed"
  unfolding subscribed_def
  by (rule run_frame [OF two_sandboxes_run])
     (simp_all add: two_sandboxes_def request_id_free_def sample_defs)

section \<open>Properties\<close>

text \<open>
  C1: No impersonation. Whatever frame a client sends, every frame that the broker emits
  while dispatching it is either a delivery that names the authenticated sandbox of that
  connection as its sender and carries the broker's own time stamp, or an ack or error
  that goes back to the connection the frame came from.
\<close>

theorem dispatch_frames:
  "\<exists>new. sent (dispatch e sender w raw b) = sent b @ new \<and>
     list_all (\<lambda>(w', m).
       (m_op m = Op_DELIVER \<and> m_from_sandbox m = Some sender \<and> m_timestamp m = Some (clock e)) \<or>
       (w' = w \<and> (m_op m = Op_ACK \<or> m_op m = Op_ERROR))) new"
proof -
  let ?P = "\<lambda>(w', m). (m_op m = Op_DELIVER \<and> m_from_sandbox m = Some sender \<and> m_timestamp m = Some (clock e)) \<or>
       (w' = w \<and> (m_op m = Op_ACK \<or> m_op m = Op_ERROR))"
  have err: "emits b (send_error e w i c t None b) ?P" for i c t
    by (auto simp: emits_def sent_simps)
  have del: "emits b (route e sender w (stamp e sender m) b) ?P" for m
    by (rule emits_mono [OF route_emits]) (auto simp: answer_or_delivery_def)
  have "emits b (dispatch e sender w raw b) ?P"
    by (simp add: dispatch_def Let_def err del split: sum.splits option.splits)
  then show ?thesis by (simp add: emits_def)
qed

text \<open>
  C2: The registries of the broker stay consistent. In every state reachable by any
  sequence of connects, frames, disconnects and timer firings, with any outcome of the
  sends: the two directions of the connection registry are inverse to each other, a
  sandbox is listed under a channel exactly when the channel is listed under the sandbox,
  no empty channel is kept, and no sandbox exceeds its subscription limit.
\<close>

theorem registries_consistent:
  assumes "system_step\<^sup>*\<^sup>* (system_init cfg aud) s"
  shows "(dict_get (connections (broker s)) sid = Some w \<longleftrightarrow> dict_get (ws_to_sandbox (broker s)) w = Some sid) \<and>
    (sid \<in> set (dict_default (channels (broker s)) c []) \<longleftrightarrow>
       c \<in> set (dict_default (sandbox_channels (broker s)) sid [])) \<and>
    dict_get (channels (broker s)) c \<noteq> Some [] \<and>
    distinct (dict_default (channels (broker s)) c []) \<and>
    int (length (dict_default (sandbox_channels (broker s)) sid [])) \<le> max 0 (cfg_max_channels_per_sandbox cfg)"
  using system_reachable [OF assms] by (simp add: reg_inv_def chan_inv_def subs_of_def chans_of_def)

theorem registries_consistent_witness:
  "dict_get (channels (broker subscribed)) ''progress'' = Some [''b''] \<and>
   ''progress'' \<in> set (dict_default (sandbox_channels (broker subscribed)) ''b'' [])"
proof -
  have c: "dict_get (channels (broker subscribed)) ''progress'' = Some [''b'']"
    by (simp add: subscribed_def two_sandboxes_def sample_defs broker_eval)
  then have "''b'' \<in> set (dict_default (channels (broker subscribed)) ''progress'' [])"
    by (simp add: dict_default_def)
  with registries_consistent [OF fresh_reachable_system [OF subscribed_run], of "''b''" 2 "''progress''"] c
  show ?thesis by blast
qed



text \<open>
  C4: Nothing leaks. Under the same discipline, once the last connection has gone, the
  broker keeps no connection, subscription, pending request, counter or timeout task.
\<close>

theorem no_leak:
  assumes "fresh_step\<^sup>*\<^sup>* (system_init cfg aud) s" and "handlers s = []"
  shows "connections (broker s) = [] \<and> ws_to_sandbox (broker s) = [] \<and> channels (broker s) = [] \<and>
    sandbox_channels (broker s) = [] \<and> pendings (broker s) = [] \<and> pending_counts (broker s) = [] \<and>
    timers (broker s) = []"
proof -
  let ?b = "broker s"
  note inv = fresh_reachable [OF assms(1)]
  have conn: "dict_get (connections ?b) k = None" for k
    using inv(3) assms(2) by (cases "dict_get (connections ?b) k") (auto simp: reg_inv_def)
  have ws: "dict_get (ws_to_sandbox ?b) w = None" for w
    using inv(3) conn by (cases "dict_get (ws_to_sandbox ?b) w") (auto simp: reg_inv_def)
  have live: "\<not> is_connected ?b k" for k using conn by (simp add: is_connected_def dict_has_def)
  have sc: "dict_get (sandbox_channels ?b) k = None" and pc: "dict_get (pending_counts ?b) k = None"
    and pd: "dict_get (pendings ?b) k = None" for k
    using inv(2) live by (auto simp: live_inv_def live_core_def)
  have ch: "dict_get (channels ?b) c = None" for c
  proof -
    have "s \<notin> set (subs_of ?b c)" for s
      using inv(4) sc [of s] by (simp add: chan_inv_def chans_of_def dict_default_def)
    then have "subs_of ?b c = []" by (metis list.set_intros(1) neq_Nil_conv)
    with inv(4) show ?thesis
      by (auto simp: chan_inv_def subs_of_def dict_default_def split: option.splits)
  qed
  have "timers ?b = []"
    using inv(1) pd by (cases "timers ?b") (auto simp: pend_inv_def timers_inv_def)
  with conn ws sc pc pd ch show ?thesis by (simp add: dict_get_all_None)
qed

definition all_gone :: system where
  "all_gone = \<lparr>broker = unregister sample_env ''b'' 2 (unregister sample_env ''a'' 1 (broker one_pending)), handlers = []\<rparr>"

theorem no_leak_witness:
  "length (pendings (broker one_pending)) = 1 \<and> pendings (broker all_gone) = [] \<and> timers (broker all_gone) = []"
proof -
  have h: "handlers one_pending = [(2, ''b''), (1, ''a'')]" by (simp add: one_pending_def two_sandboxes_def)
  have s1: "fresh_step one_pending \<lparr>broker = unregister sample_env ''a'' 1 (broker one_pending), handlers = [(2, ''b'')]\<rparr>"
    using fresh_disconnect [of 1 "''a''" one_pending sample_env] h by simp
  have s2: "fresh_step \<lparr>broker = unregister sample_env ''a'' 1 (broker one_pending), handlers = [(2, ''b'')]\<rparr> all_gone"
    using fresh_disconnect [of 2 "''b''" "\<lparr>broker = unregister sample_env ''a'' 1 (broker one_pending), handlers = [(2, ''b'')]\<rparr>" sample_env]
    by (simp add: all_gone_def)
  have "fresh_step\<^sup>*\<^sup>* (system_init default_broker_config None) all_gone"
    using one_pending_run s1 s2 by (meson rtranclp.rtrancl_into_rtrancl)
  from no_leak [OF this] have "pendings (broker all_gone) = []" "timers (broker all_gone) = []"
    by (simp_all add: all_gone_def)
  moreover have "length (pendings (broker one_pending)) = 1"
    by (simp add: one_pending_def two_sandboxes_def sample_defs broker_eval)
  ultimately show ?thesis by simp
qed

text \<open>
  C6: Request and reply. In a reachable state of the disciplined system, let sandbox \<open>a\<close>
  send a valid request to the connected sandbox \<open>c\<close> below its limit, and let \<open>c\<close> answer
  it, every send succeeding. Then \<open>c\<close> receives the request with its id, \<open>a\<close> an ack, and
  \<open>a\<close> receives the reply with \<open>reply_to\<close> set to the request's id and the replier's
  identity; afterwards the pending table and the timers are what they were before the
  request and the requester's counter is back at its old value.
\<close>

theorem request_reply_roundtrip:
  assumes "fresh_step\<^sup>*\<^sup>* (system_init cfg aud) s" and "b = broker s"
    and "parse e raw = Inr req" and "m_op req = Op_REQUEST" and "validate_frame (stamp e a req) = None"
    and "m_to_sandbox req = Some c" and "c \<noteq> []" and "dict_get (pendings b) (m_id req) = None"
    and "dict_default (pending_counts b) a 0 < cfg_max_pending_per_sandbox cfg"
    and "dict_get (connections b) a = Some wa" and "dict_get (connections b) c = Some wc"
    and "parse e' raw' = Inr rep" and "m_op rep = Op_REPLY" and "validate_frame (stamp e' c rep) = None"
    and "m_reply_to rep = Some (m_id req)" and "m_id req \<noteq> []"
    and "\<forall>w m. send_ok e w m \<and> send_ok e' w m"
  shows "sent (dispatch e' c wc raw' (dispatch e a wa raw b)) =
      sent b @ [(wc, make_deliver (stamp e a req)), (wa, ack_frame (m_id req)), (wa, make_deliver (stamp e' c rep))] \<and>
    m_reply_to (make_deliver (stamp e' c rep)) = Some (m_id req) \<and>
    m_from_sandbox (make_deliver (stamp e' c rep)) = Some c \<and>
    pendings (dispatch e' c wc raw' (dispatch e a wa raw b)) = pendings b \<and>
    timers (dispatch e' c wc raw' (dispatch e a wa raw b)) = timers b \<and>
    dict_default (pending_counts (dispatch e' c wc raw' (dispatch e a wa raw b))) a 0 = dict_default (pending_counts b) a 0"
proof -
  let ?m = "stamp e a req" and ?r = "stamp e' c rep"
  let ?b1 = "register_pending e a ?m b"
  let ?b1' = "send_ack e wa (m_id req) (Some ?m) (try_send e wc (make_deliver ?m) ?b1)"
  note inv = fresh_reachable [OF assms(1)]
  have to: "m_to_sandbox ?m = Some c" and rt: "m_reply_to ?r = Some (m_id req)"
    using assms by (simp_all add: stamp_def)
  have d1: "dispatch e a wa raw b = ?b1'"
    using assms to inv(5) by (simp add: dispatch_def from_json_def Let_def route_def handle_request_def)
  have p1: "pendings ?b1' = dict_set (m_id req) (new_tracked e a ?m b) (pendings b)"
    and c1: "connections ?b1' = connections b"
    and t1: "timers ?b1' = timers b @ [\<lparr>t_id = next_task b, t_request_id = m_id req, t_requester_id = a,
       t_timeout = request_timeout ?m b\<rparr>]"
    and n1: "pending_counts ?b1' = dict_set a (dict_default (pending_counts b) a 0 + 1) (pending_counts b)"
    by simp_all
  define b2 where "b2 = decrement_count a (cancel_task (Some (next_task b)) (?b1'\<lparr>pendings := dict_pop (m_id req) (pendings ?b1')\<rparr>))"
  have d2: "dispatch e' c wc raw' ?b1' = audit_msg ?r DS_DELIVERED (try_send e' wa (make_deliver ?r) b2)"
    using assms rt
    by (simp add: dispatch_def from_json_def Let_def route_def handle_reply_def dict_simps b2_def)
  have old: "\<forall>t\<in>set (timers b). t_id t \<noteq> next_task b"
    using inv(1) assms(2) by (auto simp: pend_inv_def timers_inv_def)
  have f2: "pendings b2 = pendings b" "timers b2 = timers b"
    using old by (simp_all add: b2_def cancel_task_def dict_pop_set_absent assms(8) filter_True)
  have nonneg: "dict_default (pending_counts b) a 0 \<ge> 0"
    using inv(1) assms(2) by (simp add: pend_inv_def count_inv_def)
  have n2: "dict_default (pending_counts b2) a 0 = dict_default (pending_counts b) a 0"
    using nonneg by (simp add: b2_def decrement_count_def dict_default_def [of "dict_set _ _ _"] dict_simps)
  have s2: "sent b2 = sent b @ [(wc, make_deliver ?m), (wa, ack_frame (m_id req))]"
    using assms(17) by (simp add: b2_def sent_simps frames_if_def)
  show ?thesis
    using assms(17) rt by (simp add: d1 d2 f2 n2 s2 sent_simps frames_if_def)
qed

theorem request_reply_roundtrip_witness:
  "map (\<lambda>(w, m). (w, m_op m, m_from_sandbox m))
     (sent (on_frame ''b'' 2 ''reply'' (on_frame ''a'' 1 ''request'' (broker two_sandboxes)))) =
   [(2, Op_DELIVER, Some ''a''), (1, Op_ACK, None), (1, Op_DELIVER, Some ''b'')]"
proof -
  let ?b = "broker two_sandboxes"
  have b: "connections ?b = [(''a'', 1), (''b'', 2)]" "pendings ?b = []" "pending_counts ?b = []" "sent ?b = []"
    by (simp_all add: two_sandboxes_def sample_defs broker_eval)
  have m: "m_op sample_request = Op_REQUEST" "m_to_sandbox sample_request = Some ''b''" "m_id sample_request = ''r1''"
    "m_op sample_reply = Op_REPLY" "m_reply_to sample_reply = Some ''r1''"
    by (simp_all add: sample_request_def sample_reply_def)
  have e: "parse sample_env ''request'' = Inr sample_request" "parse sample_env ''reply'' = Inr sample_reply"
    "\<forall>w m. send_ok sample_env w m \<and> send_ok sample_env w m"
    by (simp_all add: sample_env_def sample_parse_def)
  have "sent (on_frame ''b'' 2 ''reply'' (on_frame ''a'' 1 ''request'' ?b)) =
      [(2, make_deliver (stamp sample_env ''a'' sample_request)), (1, ack_frame ''r1''),
       (1, make_deliver (stamp sample_env ''b'' sample_reply))]"
    using request_reply_roundtrip [OF two_sandboxes_run refl e(1) m(1), of "''a''" "''b''" 1 2 sample_env "''reply''" sample_reply]
      b m e by (simp add: dict_get_def dict_default_def default_broker_config_def)
  then show ?thesis by (simp add: ack_frame_def)
qed

text \<open>
  A request is resolved at most once. After a reply to a pending request was routed in
  a reachable state of the disciplined system, no pending entry and no timeout task for it
  is left; any further reply to the same request, from any sandbox, changes no registry
  and only earns its sender an \<open>INVALID_FRAME\<close> error.
\<close>

theorem reply_at_most_once:
  assumes "fresh_step\<^sup>*\<^sup>* (system_init cfg aud) s" and "rid \<noteq> []"
    and "m_reply_to rep = Some rid" and "m_reply_to rep2 = Some rid"
  shows "let b' = handle_reply e c w rep (broker s); b'' = handle_reply e2 c2 w2 rep2 b' in
    dict_get (pendings b') rid = None \<and> (\<forall>t \<in> set (timers b'). t_request_id t \<noteq> rid) \<and>
    core b'' = core b' \<and>
    (\<exists>txt. sent b'' = sent b' @ frames_if (send_ok e2 w2 (error_frame (m_id rep2) INVALID_FRAME txt)) w2
      (error_frame (m_id rep2) INVALID_FRAME txt))"
proof -
  let ?b' = "handle_reply e c w rep (broker s)"
  note inv = fresh_reachable [OF assms(1)]
  have eff: "core ?b' = core (case dict_get (pendings (broker s)) rid of None \<Rightarrow> broker s | Some tr \<Rightarrow> resolve rid tr (broker s))"
    using core_handle_reply [of e c w rep "broker s"] assms(2,3) by (simp split: option.splits)
  have gone: "dict_get (pendings ?b') rid = None"
    by (cases "dict_get (pendings (broker s)) rid") (simp_all add: core_eqD(5) [OF eff] dict_simps)
  have "timers_inv ?b'"
    using inv(1) pend_inv_resolve core_inv_cong(2) [OF eff] by (auto simp: pend_inv_def split: option.splits)
  then have "\<forall>t \<in> set (timers ?b'). t_request_id t \<noteq> rid"
    using gone unfolding timers_inv_def by (metis option.distinct(1))
  then show ?thesis
    using gone assms(2,4) by (auto simp: handle_reply_def [of e2] Let_def sent_simps)
qed

theorem reply_at_most_once_witness:
  "let b' = handle_reply sample_env ''b'' 2 sample_reply (broker one_pending) in
   length (pendings (broker one_pending)) = 1 \<and> dict_get (pendings b') ''r1'' = None \<and> timers b' = []"
proof -
  have r: "m_reply_to sample_reply = Some ''r1''" by (simp add: sample_reply_def)
  have "length (pendings (broker one_pending)) = 1"
    "timers (handle_reply sample_env ''b'' 2 sample_reply (broker one_pending)) = []"
    by (simp_all add: one_pending_def two_sandboxes_def sample_defs broker_eval)
  with reply_at_most_once [OF one_pending_run _ r r, of sample_env "''b''" 2 sample_env "''b''" 2] show ?thesis
    by (simp add: Let_def)
qed

text \<open>
  A timeout reaches its requester. In a reachable state of the disciplined system the
  requester of every live timeout task is connected; when the task fires, the pending
  entry goes, exactly one slot of the requester is freed, the requester's connection is
  sent one \<open>timeout\<close> frame for that request (if it can still be sent to) and the audit
  trail is told that the message timed out.
\<close>

theorem timeout_notifies_requester:
  assumes "fresh_step\<^sup>*\<^sup>* (system_init cfg aud) s" and "t \<in> set (timers (broker s))"
  shows "\<exists>w. dict_get (connections (broker s)) (t_requester_id t) = Some w \<and>
    sent (fire_timer e t (broker s)) = sent (broker s) @
      frames_if (send_ok e w (timeout_frame e (t_request_id t) (t_timeout t))) w
        (timeout_frame e (t_request_id t) (t_timeout t)) \<and>
    dict_get (pendings (broker s)) (t_request_id t) \<noteq> None \<and>
    dict_get (pendings (fire_timer e t (broker s))) (t_request_id t) = None \<and>
    dict_default (pending_counts (fire_timer e t (broker s))) (t_requester_id t) 0 =
      dict_default (pending_counts (broker s)) (t_requester_id t) 0 - 1 \<and>
    audit (fire_timer e t (broker s)) =
      map_option (enqueue_status_update (t_request_id t) DS_TIMEOUT) (audit (broker s))"
proof -
  let ?b = "broker s" and ?rid = "t_request_id t" and ?r = "t_requester_id t"
  note inv = fresh_reachable [OF assms(1)]
  from inv(1) assms(2) obtain tr where tr: "dict_get (pendings ?b) ?rid = Some tr"
    "pr_from_sandbox (tp_pending tr) = ?r"
    unfolding pend_inv_def timers_inv_def by blast
  with inv(2) obtain w where w: "dict_get (connections ?b) ?r = Some w"
    unfolding live_inv_def live_core_def is_connected_def dict_has_def by (metis option.exhaust)
  have pos: "from_count ?b ?r = from_count (resolve ?rid tr ?b) ?r + 1"
    using from_count_resolve [OF _ tr(1), of ?r] inv(1) tr(2) by (simp add: pend_inv_def)
  then have cnt: "dict_default (pending_counts ?b) ?r 0 \<ge> 1"
    using inv(1) by (simp add: pend_inv_def count_inv_def)
  then have "dict_default (pending_counts ?b) ?r 1 = dict_default (pending_counts ?b) ?r 0"
    by (auto simp: dict_default_def split: option.splits)
  with cnt w tr show ?thesis
    by (intro exI [of _ w])
       (simp add: fire_timer_def timeout_request_def Let_def sent_simps dict_simps audit_update_status_def
         try_send_def frames_if_def decrement_count_def dict_default_def [of "dict_set _ _ _"])
qed

theorem timeout_notifies_requester_witness:
  "map (\<lambda>(w, m). (w, m_op m)) (drop (length (sent (broker one_pending)))
     (sent (fire_timer sample_env (hd (timers (broker one_pending))) (broker one_pending)))) = [(1, Op_TIMEOUT)]"
proof -
  have t: "hd (timers (broker one_pending)) \<in> set (timers (broker one_pending))"
    and c: "dict_get (connections (broker one_pending)) (t_requester_id (hd (timers (broker one_pending)))) = Some 1"
    by (simp_all add: one_pending_def two_sandboxes_def sample_defs broker_eval)
  have ok: "send_ok sample_env w m" for w m by (simp add: sample_env_def)
  from timeout_notifies_requester [OF one_pending_run t, of sample_env] c show ?thesis
    by (auto simp: frames_if_def ok timeout_frame_def)
qed

text \<open>The two registries of subscriptions, seen as one relation between sandboxes and channels.\<close>

definition subscriptions :: "NMBBroker \<Rightarrow> (string \<times> string) set" where
  "subscriptions b = {(s, c). s \<in> set (dict_default (channels b) c [])}"

lemma subscriptions_views: "subscriptions b = {(s, c). s \<in> set (subs_of b c)}"
  by (simp add: subscriptions_def subs_of_def)

lemma subscriptions_core: "core a = core b \<Longrightarrow> subscriptions a = subscriptions b"
  using core_eqD(3) [of a b] by (simp add: subscriptions_def)

text \<open>
  C8: The subscription registries implement a relation. In every reachable state,
  subscribing adds the pair of sandbox and channel unless the sandbox is at its limit
  (and then changes nothing), unsubscribing removes exactly that pair, and the
  disconnection of a sandbox's registered connection removes exactly its own pairs.
\<close>

theorem subscriptions_refine:
  assumes "system_step\<^sup>*\<^sup>* (system_init cfg aud) s" and "m_channel msg = Some c" and "c \<noteq> []"
  shows "subscriptions (handle_subscribe e sid w msg (broker s)) =
      (if int (card {d. (sid, d) \<in> subscriptions (broker s)}) < cfg_max_channels_per_sandbox cfg
       then insert (sid, c) (subscriptions (broker s)) else subscriptions (broker s)) \<and>
    subscriptions (handle_unsubscribe e sid w msg (broker s)) = subscriptions (broker s) - {(sid, c)} \<and>
    (dict_get (connections (broker s)) sid = Some w \<longrightarrow>
      subscriptions (unregister e sid w (broker s)) = subscriptions (broker s) - {sid} \<times> UNIV)"
proof (intro conjI impI)
  let ?b = "broker s"
  note inv = system_reachable [OF assms(1)]
  have dual: "\<And>s c. s \<in> set (subs_of ?b c) \<longleftrightarrow> c \<in> set (chans_of ?b s)"
    and dist: "distinct (chans_of ?b sid)" using inv(2) by (simp_all add: chan_inv_def)
  have card: "card {d. (sid, d) \<in> subscriptions ?b} = length (chans_of ?b sid)"
    using dual dist distinct_card by (fastforce simp: subscriptions_views)
  show "subscriptions (handle_subscribe e sid w msg ?b) =
      (if int (card {d. (sid, d) \<in> subscriptions ?b}) < cfg_max_channels_per_sandbox cfg
       then insert (sid, c) (subscriptions ?b) else subscriptions ?b)"
    unfolding card subscriptions_core [OF core_handle_subscribe]
    using assms(2,3) inv(3) by (auto simp: subscriptions_views pyset_simps split: if_splits)
  show "subscriptions (handle_unsubscribe e sid w msg ?b) = subscriptions ?b - {(sid, c)}"
    unfolding subscriptions_core [OF core_handle_unsubscribe]
    using assms(2,3) by (auto simp: subscriptions_views pyset_simps split: if_splits)
  assume w: "dict_get (connections ?b) sid = Some w"
  show "subscriptions (unregister e sid w ?b) = subscriptions ?b - {sid} \<times> UNIV"
    using dual by (auto simp: subscriptions_views subs_of_unregister [OF w] pyset_simps split: if_splits)
qed

theorem subscriptions_refine_witness:
  "subscriptions (handle_subscribe sample_env ''b'' 2 sample_subscribe (broker two_sandboxes)) = {(''b'', ''progress'')}"
proof -
  have c: "m_channel sample_subscribe = Some ''progress''" by (simp add: sample_subscribe_def)
  have "subscriptions (broker two_sandboxes) = {}"
    by (simp add: subscriptions_def two_sandboxes_def sample_defs broker_eval)
  with subscriptions_refine [OF fresh_reachable_system [OF two_sandboxes_run] c, of sample_env "''b''" 2]
  show ?thesis by (simp add: default_broker_config_def)
qed

text \<open>
  C7: Publishing. In every reachable state and for every connection, a published message
  is delivered on that connection once if it belongs to a subscriber of the channel other
  than the publisher and the send succeeds, and not at all otherwise; the publisher is
  acked and nothing else is sent.
\<close>

theorem publish_exactly_once:
  assumes "system_step\<^sup>*\<^sup>* (system_init cfg aud) s" and "m_channel msg = Some c" and "c \<noteq> []"
  shows "\<exists>deliveries. sent (handle_publish e sid w msg (broker s)) = sent (broker s) @
      map (\<lambda>v. (v, make_deliver msg)) deliveries @ frames_if (send_ok e w (ack_frame (m_id msg))) w (ack_frame (m_id msg)) \<and>
    (\<forall>v. count_list deliveries v =
      (if \<exists>sub. (sub, c) \<in> subscriptions (broker s) \<and> sub \<noteq> sid \<and> dict_get (connections (broker s)) sub = Some v \<and>
           send_ok e v (make_deliver msg) then 1 else 0))"
proof -
  let ?b = "broker s" and ?d = "make_deliver msg"
  let ?subs = "filter (\<lambda>sub. sub \<noteq> sid) (subs_of (broker s) c)"
  let ?del = "filter (\<lambda>v. send_ok e v ?d) (conns_of ?b ?subs)"
  note inv = system_reachable [OF assms(1)]
  have inj: "x = y" if "dict_get (connections ?b) x = Some u" "dict_get (connections ?b) y = Some u" for x y u
    using inv(1) that by (metis option.inject reg_inv_def)
  have dist: "distinct (conns_of ?b xs)" if "distinct xs" for xs
    using that inj by (induction xs) (force simp: conns_of_def map_filter_simps map_filter_def split: option.splits)+
  have mem: "u \<in> set (conns_of ?b xs) \<longleftrightarrow> (\<exists>x \<in> set xs. dict_get (connections ?b) x = Some u)" for u xs
    by (force simp: conns_of_def map_filter_def)
  have "distinct ?del" using inv(2) dist by (simp add: chan_inv_def)
  then have "count_list ?del v = (if v \<in> set ?del then 1 else 0)" for v
    by (simp add: distinct_count_list)
  then show ?thesis
    using assms(2,3) mem
    by (intro exI [of _ ?del]) (auto simp: handle_publish_def Let_def sent_simps subscriptions_views subs_of_def)
qed

theorem publish_exactly_once_witness:
  "\<exists>deliveries. map fst (sent (handle_publish sample_env ''a'' 1 sample_publish (broker subscribed))) =
     map fst (sent (broker subscribed)) @ deliveries @ [1] \<and> count_list deliveries 2 = 1"
proof -
  have c: "m_channel sample_publish = Some ''progress''" by (simp add: sample_publish_def)
  have sub: "(''b'', ''progress'') \<in> subscriptions (broker subscribed)" "dict_get (connections (broker subscribed)) ''b'' = Some 2"
    by (simp_all add: subscriptions_def subscribed_def two_sandboxes_def sample_defs broker_eval)
  have ok: "send_ok sample_env v m" for v m by (simp add: sample_env_def)
  have ex: "\<exists>sub. (sub, ''progress'') \<in> subscriptions (broker subscribed) \<and> sub \<noteq> ''a'' \<and>
      dict_get (connections (broker subscribed)) sub = Some 2 \<and> send_ok sample_env 2 (make_deliver sample_publish)"
    using sub ok by (intro exI [of _ "''b''"]) simp
  have "''progress'' \<noteq> []" by simp
  from publish_exactly_once [OF fresh_reachable_system [OF subscribed_run] c this, of sample_env "''a''" 1]
  obtain ds where ds: "sent (handle_publish sample_env ''a'' 1 sample_publish (broker subscribed)) =
      sent (broker subscribed) @ map (\<lambda>v. (v, make_deliver sample_publish)) ds @
      frames_if (send_ok sample_env 1 (ack_frame (m_id sample_publish))) 1 (ack_frame (m_id sample_publish))"
    and cnt: "\<forall>v. count_list ds v = (if \<exists>sub. (sub, ''progress'') \<in> subscriptions (broker subscribed) \<and> sub \<noteq> ''a'' \<and>
      dict_get (connections (broker subscribed)) sub = Some v \<and> send_ok sample_env v (make_deliver sample_publish) then 1 else 0)"
    by blast
  have "count_list ds 2 = 1" using spec [OF cnt, of 2] if_P [OF ex] by metis
  moreover have "map fst (map (\<lambda>v. (v, make_deliver sample_publish)) ds) = ds" by (induction ds) auto
  ultimately show ?thesis using ds by (intro exI [of _ ds]) (simp add: frames_if_def ok)
qed

text \<open>
  What the audit trail records of a routed frame. A send or request with a target is
  recorded once, as delivered when the delivery was sent and as an error otherwise, unless
  the request was refused for the rate limit; a publish is recorded once as delivered; a
  stream chunk is recorded only when it could not be delivered.
\<close>

theorem routing_audit:
  assumes "m_to_sandbox msg = Some c" and "c \<noteq> []"
    and "delivered \<longleftrightarrow> (\<exists>tw. dict_get (connections b) c = Some tw \<and> send_ok e tw (make_deliver msg))"
  shows "audit (handle_send e sid w msg b) =
      map_option (enqueue_message msg (if delivered then DS_DELIVERED else DS_ERROR)) (audit b) \<and>
    audit (handle_request e sid w msg b) =
      (if dict_default (pending_counts b) sid 0 \<ge> cfg_max_pending_per_sandbox (config b) then audit b
       else map_option (enqueue_message msg (if delivered then DS_DELIVERED else DS_ERROR)) (audit b)) \<and>
    audit (handle_stream e sid w msg b) =
      (if delivered then audit b else map_option (enqueue_message msg DS_ERROR) (audit b)) \<and>
    (truthy (m_channel msg) \<longrightarrow>
      audit (handle_publish e sid w msg b) = map_option (enqueue_message msg DS_DELIVERED) (audit b))"
proof -
  have ts: "audit (try_send e' w' m' b') = audit b'" for e' w' m' b' by (simp add: try_send_def)
  have fan: "audit (fan_out e m' subs b') = audit b'" for m' subs b'
    by (induction subs arbitrary: b') (simp_all add: ts split: option.splits)
  have reg: "audit (register_pending e sid msg b') = audit b'" for b' by (simp add: register_pending_def Let_def)
  show ?thesis
    using assms
    by (auto simp: handle_send_def handle_request_def handle_stream_def handle_publish_def Let_def send_ack_def
        send_error_def audit_opt_def audit_msg_def ts fan reg split: option.splits)
qed

theorem routing_audit_witness:
  "audit (handle_stream sample_env ''a'' 1 sample_request (broker two_sandboxes)) = None \<and>
   (\<exists>db. audit (handle_send sample_env ''a'' 1 sample_request ((broker two_sandboxes)\<lparr>audit := Some
      (start_background_writer (audit_open (audit_init True 10)))\<rparr>)) = Some db \<and>
      write_queue db = Some [InsertItem sample_request DS_DELIVERED])"
proof -
  let ?b = "broker two_sandboxes"
  let ?b' = "?b\<lparr>audit := Some (start_background_writer (audit_open (audit_init True 10)))\<rparr>"
  have to: "m_to_sandbox sample_request = Some ''b''" by (simp add: sample_request_def)
  have c: "dict_get (connections ?b) ''b'' = Some 2" "audit ?b = None"
    by (simp_all add: two_sandboxes_def sample_defs broker_eval)
  have ok: "send_ok sample_env v m" for v m by (simp add: sample_env_def)
  show ?thesis
    using routing_audit [OF to, of True ?b sample_env "''a''" 1] routing_audit [OF to, of True ?b' sample_env "''a''" 1] c ok
    by (simp add: enqueue_message_def put_nowait_or_drop_def drop_newest_def start_background_writer_def DEFAULT_AUDIT_QUEUE_SIZE_def)
qed

text \<open>
  Reusing a pending request id hijacks the request. If sandbox \<open>a\<close> waits for the reply
  to request \<open>rid\<close> and another sandbox \<open>c\<close> below its limit sends a deliverable request
  under the same id, the pending entry becomes \<open>c\<close>'s: the reply is then delivered to \<open>c\<close>
  and not to \<open>a\<close>, whose counter still includes a request that is no longer pending.
\<close>

theorem duplicate_request_id_hijack:
  assumes "dict_get (pendings b) (m_id req) = Some tr" and "pr_from_sandbox (tp_pending tr) = a" and "a \<noteq> c"
    and "m_to_sandbox req = Some t" and "t \<noteq> []" and "dict_get (connections b) t = Some wt"
    and "dict_get (connections b) c = Some wc"
    and "dict_default (pending_counts b) c 0 < cfg_max_pending_per_sandbox (config b)"
    and "m_reply_to rep = Some (m_id req)" and "m_id req \<noteq> []" and "\<forall>w m. send_ok e w m"
  shows "let b1 = handle_request e c wc req b; b2 = handle_reply e t wt rep b1 in
    map_option (pr_from_sandbox \<circ> tp_pending) (dict_get (pendings b1) (m_id req)) = Some c \<and>
    sent b2 = sent b1 @ [(wc, make_deliver rep)] \<and> dict_get (pendings b2) (m_id req) = None \<and>
    dict_default (pending_counts b2) a 0 = dict_default (pending_counts b) a 0"
proof -
  let ?b1 = "handle_request e c wc req b" and ?nt = "new_tracked e c req b"
  have b1: "?b1 = send_ack e wc (m_id req) (Some req) (try_send e wt (make_deliver req) (register_pending e c req b))"
    using assms by (simp add: handle_request_def Let_def)
  have p1: "dict_get (pendings ?b1) (m_id req) = Some ?nt" and c1: "connections ?b1 = connections b"
    and n1: "pending_counts ?b1 = dict_set c (dict_default (pending_counts b) c 0 + 1) (pending_counts b)"
    by (simp_all add: b1 dict_simps)
  have b2: "handle_reply e t wt rep ?b1 = audit_msg rep DS_DELIVERED (try_send e wc (make_deliver rep)
      (decrement_count c (cancel_task (Some (next_task b)) (?b1\<lparr>pendings := dict_pop (m_id req) (pendings ?b1)\<rparr>))))"
    using assms p1 c1 by (simp add: handle_reply_def Let_def)
  show ?thesis
    using assms(3,11)
    by (simp add: Let_def p1 b2 sent_simps frames_if_def dict_simps decrement_count_def n1 dict_default_def)
qed

definition three_sandboxes :: NMBBroker where
  "three_sandboxes = on_connect ''c'' 3 (broker one_pending)"

theorem duplicate_request_id_hijack_witness:
  "let b1 = handle_request sample_env ''c'' 3 sample_request three_sandboxes;
       b2 = handle_reply sample_env ''b'' 2 sample_reply b1 in
   sent b2 = sent b1 @ [(3, make_deliver sample_reply)] \<and> pendings b2 = [] \<and> dict_default (pending_counts b2) ''a'' 0 = 1"
proof -
  let ?tr = "\<lparr>tp_pending = \<lparr>request_id = ''r1'', pr_from_sandbox = ''a'', created_at = 1, pr_timeout = 300\<rparr>, tp_timeout_task = Some 0\<rparr>"
  have b: "dict_get (pendings three_sandboxes) (m_id sample_request) = Some ?tr"
    "dict_get (connections three_sandboxes) ''b'' = Some 2" "dict_get (connections three_sandboxes) ''c'' = Some 3"
    "dict_default (pending_counts three_sandboxes) ''c'' 0 < cfg_max_pending_per_sandbox (config three_sandboxes)"
    "dict_default (pending_counts three_sandboxes) ''a'' 0 = 1"
    by (simp_all add: three_sandboxes_def one_pending_def two_sandboxes_def sample_defs broker_eval)
  have m: "m_to_sandbox sample_request = Some ''b''" "m_reply_to sample_reply = Some (m_id sample_request)"
    "m_id sample_request \<noteq> []" by (simp_all add: sample_request_def sample_reply_def)
  have ok: "\<forall>w m. send_ok sample_env w m" by (simp add: sample_env_def)
  have "pendings (handle_reply sample_env ''b'' 2 sample_reply (handle_request sample_env ''c'' 3 sample_request three_sandboxes)) = []"
    by (simp add: three_sandboxes_def one_pending_def two_sandboxes_def sample_defs broker_eval)
  with duplicate_request_id_hijack [OF b(1) _ _ m(1) _ b(2,3,4) m(2,3) ok, of "''a''"] b(5) show ?thesis
    by (simp add: Let_def)
qed

text \<open>
  A rejected duplicate connection keeps acting for the sandbox it claimed. The broker
  only schedules the closing of its socket: its frames are still dispatched under the
  claimed id, and since its disconnection skips the cleanup, a subscription it made after
  the registered connection had gone stays behind when no connection is left.
\<close>

theorem rejected_duplicate_leaks:
  "\<exists>s. system_step\<^sup>*\<^sup>* (system_init default_broker_config None) s \<and> handlers s = [] \<and>
     connections (broker s) = [] \<and> channels (broker s) = [(''progress'', [''a''])]"
proof -
  let ?i = "system_init default_broker_config None" and ?b0 = "broker_init default_broker_config None"
  let ?b1 = "on_connect ''a'' 1 ?b0"
  let ?b2 = "on_connect ''a'' 2 ?b1"
  let ?b3 = "unregister sample_env ''a'' 1 ?b2"
  let ?b4 = "on_frame ''a'' 2 ''subscribe'' ?b3"
  let ?b5 = "unregister sample_env ''a'' 2 ?b4"
  have a: "process_request (Some ''a'') = Accept ''a''" by (simp add: process_request_def)
  have s1: "system_step ?i \<lparr>broker = ?b1, handlers = [(1, ''a'')]\<rparr>"
    using connect [OF a, of 1 ?i sample_env] by (simp add: system_init_def)
  have s2: "system_step \<lparr>broker = ?b1, handlers = [(1, ''a'')]\<rparr> \<lparr>broker = ?b2, handlers = [(2, ''a''), (1, ''a'')]\<rparr>"
    using connect [OF a, of 2 "\<lparr>broker = ?b1, handlers = [(1, ''a'')]\<rparr>" sample_env] by simp
  have s3: "system_step \<lparr>broker = ?b2, handlers = [(2, ''a''), (1, ''a'')]\<rparr> \<lparr>broker = ?b3, handlers = [(2, ''a'')]\<rparr>"
    using disconnect [of 1 "''a''" "\<lparr>broker = ?b2, handlers = [(2, ''a''), (1, ''a'')]\<rparr>" sample_env] by simp
  have s4: "system_step \<lparr>broker = ?b3, handlers = [(2, ''a'')]\<rparr> \<lparr>broker = ?b4, handlers = [(2, ''a'')]\<rparr>"
    using frame [of 2 "''a''" "\<lparr>broker = ?b3, handlers = [(2, ''a'')]\<rparr>" sample_env "''subscribe''"] by simp
  have s5: "system_step \<lparr>broker = ?b4, handlers = [(2, ''a'')]\<rparr> \<lparr>broker = ?b5, handlers = []\<rparr>"
    using disconnect [of 2 "''a''" "\<lparr>broker = ?b4, handlers = [(2, ''a'')]\<rparr>" sample_env] by simp
  have "system_step\<^sup>*\<^sup>* ?i \<lparr>broker = ?b5, handlers = []\<rparr>"
    using s1 s2 s3 s4 s5 by (meson r_into_rtranclp rtranclp.rtrancl_into_rtrancl)
  moreover have "connections ?b5 = []" "channels ?b5 = [(''progress'', [''a''])]"
    by (simp_all add: sample_defs broker_eval own_requests_def)
  ultimately show ?thesis by (intro exI [of _ "\<lparr>broker = ?b5, handlers = []\<rparr>"]) simp
qed

end
