(* ===== verification/Client.thy ===== *)
theory Client
  imports NmbModels
begin

text \<open>
  The client library of the message bus (\<^verbatim>\<open>nmb/client.py\<close>, class \<open>MessageBus\<close>): the
  futures of requests and acks, the bounded delivery queues, the dispatch of the broker's
  frames, and the public operations. An operation that awaits is split at its await: its
  first part registers and sends, its last part reads what the future became. A future is
  a number that callers hold; its state is in the table \<open>futures\<close>. Identifiers drawn by
  \<open>uuid4\<close> are arguments, as is whether the transport accepts a frame.
\<close>

section \<open>State\<close>

datatype bus_error = NMBConnectionError string | TimeoutError string | ConnectionClosed

datatype fut_state = Pending | Result "NMBMessage option" | Failed bus_error | Cancelled

type_synonym fut = nat
type_synonym queue = "nat \<times> NMBMessage list"

record MessageBus =
  broker_url :: string
  sandbox_id :: string
  ws_open :: bool
  recv_running :: bool
  pending_futures :: "(string, fut) dict"
  pending_acks :: "(string, fut) dict"
  listen_queue :: "NMBMessage list"
  channel_queues :: "(string, queue list) dict"
  bus_closed :: bool
  futures :: "(fut, fut_state) dict"
  next_fut :: fut
  next_queue :: nat
  outbox :: "NMBMessage list"

definition LISTEN_QUEUE_SIZE :: nat where "LISTEN_QUEUE_SIZE = 1000"
definition CHANNEL_QUEUE_SIZE :: nat where "CHANNEL_QUEUE_SIZE = 1000"

text \<open>\<open>MessageBus(name, url, append_random_suffix=...)\<close>; \<open>hex\<close> is \<open>uuid4().hex\<close>.\<close>

definition bus_init :: "string \<Rightarrow> string \<Rightarrow> bool \<Rightarrow> string \<Rightarrow> MessageBus" where
  "bus_init name url append_random_suffix hex = \<lparr>broker_url = url,
     sandbox_id = (if append_random_suffix then name @ ''-'' @ take 8 hex else name),
     ws_open = False, recv_running = False, pending_futures = [], pending_acks = [],
     listen_queue = [], channel_queues = [], bus_closed = False, futures = [], next_fut = 0,
     next_queue = 0, outbox = []\<rparr>"

section \<open>Futures\<close>

definition create_future :: "MessageBus \<Rightarrow> fut \<times> MessageBus" where
  "create_future c = (next_fut c, c\<lparr>futures := dict_set (next_fut c) Pending (futures c), next_fut := Suc (next_fut c)\<rparr>)"

text \<open>\<open>if not fut.done(): fut.set_result(...)\<close> and the same with \<open>set_exception\<close>.\<close>

definition settle :: "fut \<Rightarrow> fut_state \<Rightarrow> MessageBus \<Rightarrow> MessageBus" where
  "settle f st c = (if dict_get (futures c) f = Some Pending then c\<lparr>futures := dict_set f st (futures c)\<rparr> else c)"

section \<open>Connection lifecycle\<close>

definition bus_connect :: "string option \<Rightarrow> MessageBus \<Rightarrow> bus_error + MessageBus" where
  "bus_connect failure c = (case failure of
     Some txt \<Rightarrow> Inl (NMBConnectionError (''Cannot connect to broker at '' @ broker_url c @ '': '' @ txt))
   | None \<Rightarrow> Inr (c\<lparr>ws_open := True, bus_closed := False, recv_running := True\<rparr>))"

definition fail_pending_futures :: "MessageBus \<Rightarrow> MessageBus" where
  "fail_pending_futures c =
     (let err = Failed (NMBConnectionError ''Connection closed'');
          c1 = fold (\<lambda>f. settle f err) (dict_values (pending_futures c)) c;
          c2 = c1\<lparr>pending_futures := []\<rparr>;
          c3 = fold (\<lambda>f. settle f err) (dict_values (pending_acks c2)) c2
      in c3\<lparr>pending_acks := []\<rparr>)"

text \<open>The end of \<open>_receive_loop\<close>, whether by loss of the connection or by cancellation.\<close>

definition receive_loop_ends :: "MessageBus \<Rightarrow> MessageBus" where
  "receive_loop_ends c = (fail_pending_futures c)\<lparr>recv_running := False\<rparr>"

definition bus_close :: "MessageBus \<Rightarrow> MessageBus" where
  "bus_close c =
     (let c1 = c\<lparr>bus_closed := True\<rparr>;
          c2 = (if recv_running c1 then receive_loop_ends c1 else c1);
          c3 = c2\<lparr>ws_open := False\<rparr>
      in fail_pending_futures c3)"

text \<open>\<open>self._conn.send(msg.to_json())\<close>: \<open>ok\<close> says whether the transport takes the frame.\<close>

definition conn_send :: "bool \<Rightarrow> NMBMessage \<Rightarrow> MessageBus \<Rightarrow> bus_error option \<times> MessageBus" where
  "conn_send ok m c =
     (if \<not> ws_open c then (Some (NMBConnectionError (''Not connected '' @ em_dash @ '' call connect() first'')), c)
      else if ok then (None, c\<lparr>outbox := outbox c @ [m]\<rparr>) else (Some ConnectionClosed, c))"

section \<open>Dispatch of the broker's frames\<close>

definition put_or_drop_oldest :: "nat \<Rightarrow> 'a \<Rightarrow> 'a list \<Rightarrow> 'a list" where
  "put_or_drop_oldest cap m q = (if length q \<ge> cap then tl q @ [m] else q @ [m])"

definition dispatch_deliver :: "NMBMessage \<Rightarrow> MessageBus \<Rightarrow> MessageBus" where
  "dispatch_deliver msg c =
     (if truthy (m_reply_to msg) \<and> dict_has (pending_futures c) (the (m_reply_to msg))
      then let rid = the (m_reply_to msg); f = the (dict_get (pending_futures c) rid) in
        settle f (Result (Some msg)) (c\<lparr>pending_futures := dict_pop rid (pending_futures c)\<rparr>)
      else if truthy (m_channel msg) \<and> dict_has (channel_queues c) (the (m_channel msg))
      then let ch = the (m_channel msg); qs = the (dict_get (channel_queues c) ch) in
        c\<lparr>channel_queues := dict_set ch (map (\<lambda>(i, q). (i, put_or_drop_oldest CHANNEL_QUEUE_SIZE msg q)) qs) (channel_queues c)\<rparr>
      else c\<lparr>listen_queue := put_or_drop_oldest LISTEN_QUEUE_SIZE msg (listen_queue c)\<rparr>)"

definition dispatch_ack :: "NMBMessage \<Rightarrow> MessageBus \<Rightarrow> MessageBus" where
  "dispatch_ack msg c = (case dict_get (pending_acks c) (m_id msg) of
     None \<Rightarrow> c
   | Some f \<Rightarrow> settle f (Result None) (c\<lparr>pending_acks := dict_pop (m_id msg) (pending_acks c)\<rparr>))"

text \<open>\<open>f"{x}"\<close> for a value of type \<open>str | None\<close>.\<close>

definition fstr :: "string option \<Rightarrow> string" where
  "fstr x = (case x of None \<Rightarrow> ''None'' | Some s \<Rightarrow> s)"

definition dispatch_error :: "NMBMessage \<Rightarrow> MessageBus \<Rightarrow> MessageBus" where
  "dispatch_error msg c =
     (let exc = Failed (NMBConnectionError (''Broker error '' @ fstr (m_code msg) @ '': '' @ fstr (m_message msg))) in
      case dict_get (pending_futures c) (m_id msg) of
        Some f \<Rightarrow> settle f exc (c\<lparr>pending_futures := dict_pop (m_id msg) (pending_futures c)\<rparr>)
      | None \<Rightarrow>
         (case dict_get (pending_acks c) (m_id msg) of
            Some f \<Rightarrow> settle f exc (c\<lparr>pending_acks := dict_pop (m_id msg) (pending_acks c)\<rparr>)
          | None \<Rightarrow> c))"

definition dispatch_timeout :: "NMBMessage \<Rightarrow> MessageBus \<Rightarrow> MessageBus" where
  "dispatch_timeout msg c = (case dict_get (pending_futures c) (m_id msg) of
     None \<Rightarrow> c
   | Some f \<Rightarrow> settle f (Failed (TimeoutError (''Request '' @ m_id msg @ '' timed out: '' @ fstr (m_message msg))))
       (c\<lparr>pending_futures := dict_pop (m_id msg) (pending_futures c)\<rparr>))"

text \<open>\<open>_dispatch\<close>; a frame with any other operation is ignored.\<close>

definition client_dispatch :: "NMBMessage \<Rightarrow> MessageBus \<Rightarrow> MessageBus" where
  "client_dispatch msg c = (case m_op msg of
     Op_DELIVER \<Rightarrow> dispatch_deliver msg c
   | Op_ACK \<Rightarrow> dispatch_ack msg c
   | Op_ERROR \<Rightarrow> dispatch_error msg c
   | Op_TIMEOUT \<Rightarrow> dispatch_timeout msg c
   | _ \<Rightarrow> c)"

text \<open>One frame in \<open>_receive_loop\<close>: an unparseable one is skipped.\<close>

definition receive_frame :: "(string \<Rightarrow> string + NMBMessage) \<Rightarrow> string \<Rightarrow> MessageBus \<Rightarrow> MessageBus" where
  "receive_frame parser raw c = (case parser raw of Inl _ \<Rightarrow> c | Inr m \<Rightarrow> client_dispatch m c)"

section \<open>Public operations\<close>

text \<open>\<open>_send_and_await_ack\<close> up to its await; the error, if any, is raised to the caller.\<close>

definition send_begin :: "bool \<Rightarrow> NMBMessage \<Rightarrow> MessageBus \<Rightarrow> (bus_error + fut) \<times> MessageBus" where
  "send_begin ok msg c =
     (let (f, c1) = create_future c;
          c2 = c1\<lparr>pending_acks := dict_set (m_id msg) f (pending_acks c1)\<rparr>
      in case conn_send ok msg c2 of
           (Some err, c3) \<Rightarrow> (Inl err, c3)
         | (None, c3) \<Rightarrow> (Inr f, c3))"

text \<open>What the awaiting caller sees: \<open>None\<close> while the future is pending.\<close>

definition await_result :: "fut \<Rightarrow> MessageBus \<Rightarrow> (bus_error + NMBMessage option) option" where
  "await_result f c = (case dict_get (futures c) f of
     Some (Result r) \<Rightarrow> Some (Inr r) | Some (Failed err) \<Rightarrow> Some (Inl err) | _ \<Rightarrow> None)"

text \<open>
  \<open>wait_for\<close> gives up: it cancels the future, the entry is removed and the caller gets an
  error. \<open>tmo\<close> is the printed timeout.
\<close>

definition ack_timed_out :: "NMBMessage \<Rightarrow> fut \<Rightarrow> string \<Rightarrow> MessageBus \<Rightarrow> bus_error \<times> MessageBus" where
  "ack_timed_out msg f tmo c =
     (let c1 = settle f Cancelled c in
      (NMBConnectionError (''No ACK for '' @ op_value (m_op msg) @ '' '' @ m_id msg @ '' within '' @ tmo @ ''s''),
       c1\<lparr>pending_acks := dict_pop (m_id msg) (pending_acks c1)\<rparr>))"

definition send_msg :: "string \<Rightarrow> string \<Rightarrow> string \<Rightarrow> payload \<Rightarrow> NMBMessage" where
  "send_msg i to ty p = (new_message Op_SEND i)\<lparr>m_to_sandbox := Some to, m_type := Some ty, m_payload := Some p\<rparr>"

definition request_msg :: "string \<Rightarrow> string \<Rightarrow> string \<Rightarrow> payload \<Rightarrow> pyfloat \<Rightarrow> NMBMessage" where
  "request_msg i to ty p tmo = (new_message Op_REQUEST i)\<lparr>m_to_sandbox := Some to, m_type := Some ty,
     m_payload := Some p, m_timeout := Some tmo\<rparr>"

definition reply_msg :: "string \<Rightarrow> NMBMessage \<Rightarrow> string \<Rightarrow> payload \<Rightarrow> NMBMessage" where
  "reply_msg i original ty p = (new_message Op_REPLY i)\<lparr>m_reply_to := Some (m_id original), m_type := Some ty,
     m_payload := Some p\<rparr>"

definition subscribe_msg :: "string \<Rightarrow> string \<Rightarrow> NMBMessage" where
  "subscribe_msg i ch = (new_message Op_SUBSCRIBE i)\<lparr>m_channel := Some ch\<rparr>"

definition unsubscribe_msg :: "string \<Rightarrow> string \<Rightarrow> NMBMessage" where
  "unsubscribe_msg i ch = (new_message Op_UNSUBSCRIBE i)\<lparr>m_channel := Some ch\<rparr>"

definition publish_msg :: "string \<Rightarrow> string \<Rightarrow> string \<Rightarrow> payload \<Rightarrow> NMBMessage" where
  "publish_msg i ch ty p = (new_message Op_PUBLISH i)\<lparr>m_channel := Some ch, m_type := Some ty, m_payload := Some p\<rparr>"

definition stream_msg :: "string \<Rightarrow> string \<Rightarrow> string \<Rightarrow> string \<Rightarrow> int \<Rightarrow> bool \<Rightarrow> payload \<Rightarrow> NMBMessage" where
  "stream_msg i to ty sid seq dn p = (new_message Op_STREAM i)\<lparr>m_to_sandbox := Some to, m_type := Some ty,
     m_stream_id := Some sid, m_seq := Some seq, m_done := Some dn, m_payload := Some p\<rparr>"

definition client_send :: "bool \<Rightarrow> string \<Rightarrow> string \<Rightarrow> string \<Rightarrow> payload \<Rightarrow> MessageBus \<Rightarrow> (bus_error + fut) \<times> MessageBus" where
  "client_send ok i to ty p c = send_begin ok (send_msg i to ty p) c"

definition client_publish :: "bool \<Rightarrow> string \<Rightarrow> string \<Rightarrow> string \<Rightarrow> payload \<Rightarrow> MessageBus \<Rightarrow> (bus_error + fut) \<times> MessageBus" where
  "client_publish ok i ch ty p c = send_begin ok (publish_msg i ch ty p) c"

definition client_request ::
  "bool \<Rightarrow> string \<Rightarrow> string \<Rightarrow> string \<Rightarrow> payload \<Rightarrow> pyfloat \<Rightarrow> MessageBus \<Rightarrow> (bus_error + fut) \<times> MessageBus" where
  "client_request ok i to ty p tmo c =
     (let msg = request_msg i to ty p tmo;
          (f, c1) = create_future c;
          c2 = c1\<lparr>pending_futures := dict_set (m_id msg) f (pending_futures c1)\<rparr>
      in case conn_send ok msg c2 of
           (Some err, c3) \<Rightarrow> (Inl err, c3)
         | (None, c3) \<Rightarrow> (Inr f, c3))"

text \<open>The local timeout of \<open>request\<close>, after the broker's own timeout and the grace period.\<close>

definition request_timed_out :: "string \<Rightarrow> fut \<Rightarrow> MessageBus \<Rightarrow> MessageBus" where
  "request_timed_out i f c =
     (let c1 = settle f Cancelled c in c1\<lparr>pending_futures := dict_pop i (pending_futures c1)\<rparr>)"

definition client_reply :: "bool \<Rightarrow> string \<Rightarrow> NMBMessage \<Rightarrow> string \<Rightarrow> payload \<Rightarrow> MessageBus \<Rightarrow> bus_error option \<times> MessageBus" where
  "client_reply ok i original ty p c = conn_send ok (reply_msg i original ty p) c"

text \<open>\<open>subscribe\<close>: entry (queue first, then the frame), one turn of the loop, and the cleanup.\<close>

definition subscribe_begin :: "bool \<Rightarrow> string \<Rightarrow> string \<Rightarrow> MessageBus \<Rightarrow> nat \<times> (bus_error + fut) \<times> MessageBus" where
  "subscribe_begin ok i ch c =
     (let qid = next_queue c;
          qs = dict_default (channel_queues c) ch [];
          c1 = c\<lparr>channel_queues := dict_set ch (qs @ [(qid, [])]) (channel_queues c), next_queue := Suc qid\<rparr>
      in (qid, send_begin ok (subscribe_msg i ch) c1))"

datatype 'a turn = Stop | Block | Yield 'a

definition queue_of :: "nat \<Rightarrow> string \<Rightarrow> MessageBus \<Rightarrow> NMBMessage list" where
  "queue_of qid ch c = dict_default (dict_default (channel_queues c) ch []) qid []"

definition subscribe_next :: "nat \<Rightarrow> string \<Rightarrow> MessageBus \<Rightarrow> NMBMessage turn \<times> MessageBus" where
  "subscribe_next qid ch c =
     (if bus_closed c then (Stop, c)
      else case queue_of qid ch c of
        [] \<Rightarrow> (Block, c)
      | m # q \<Rightarrow> (Yield m, c\<lparr>channel_queues := dict_set ch
          (map (\<lambda>(i, q'). if i = qid then (i, q) else (i, q')) (dict_default (channel_queues c) ch [])) (channel_queues c)\<rparr>))"

definition subscribe_cleanup :: "bool \<Rightarrow> string \<Rightarrow> nat \<Rightarrow> string \<Rightarrow> MessageBus \<Rightarrow> MessageBus" where
  "subscribe_cleanup ok i qid ch c =
     (let qs = filter (\<lambda>q. fst q \<noteq> qid) (dict_default (channel_queues c) ch []) in
      if qs = [] then snd (conn_send ok (unsubscribe_msg i ch) (c\<lparr>channel_queues := dict_pop ch (channel_queues c)\<rparr>))
      else c\<lparr>channel_queues := dict_set ch qs (channel_queues c)\<rparr>)"

text \<open>
  \<open>stream\<close>: the chunks in order and the final sentinel; \<open>oks\<close> and \<open>ids\<close> give the outcome
  and the message id of each send. The first failing send ends the stream.
\<close>

fun stream_loop :: "string \<Rightarrow> string \<Rightarrow> string \<Rightarrow> (nat \<Rightarrow> bool) \<Rightarrow> (nat \<Rightarrow> string) \<Rightarrow> nat \<Rightarrow> payload list \<Rightarrow> MessageBus \<Rightarrow> bus_error option \<times> MessageBus" where
  "stream_loop to ty sid oks ids seq [] c =
     conn_send (oks seq) (stream_msg (ids seq) to ty sid (int seq) True []) c"
| "stream_loop to ty sid oks ids seq (p # ps) c =
     (case conn_send (oks seq) (stream_msg (ids seq) to ty sid (int seq) False p) c of
        (Some err, c1) \<Rightarrow> (Some err, c1)
      | (None, c1) \<Rightarrow> stream_loop to ty sid oks ids (Suc seq) ps c1)"

definition client_stream :: "string \<Rightarrow> string \<Rightarrow> string \<Rightarrow> (nat \<Rightarrow> bool) \<Rightarrow> (nat \<Rightarrow> string) \<Rightarrow> payload list \<Rightarrow> MessageBus \<Rightarrow> bus_error option \<times> MessageBus" where
  "client_stream to ty sid oks ids chunks c = stream_loop to ty sid oks ids 0 chunks c"

text \<open>One poll of \<open>listen\<close>: the poll interval bounds the time an empty queue blocks.\<close>

definition listen_next :: "MessageBus \<Rightarrow> NMBMessage turn \<times> MessageBus" where
  "listen_next c =
     (if bus_closed c then (Stop, c)
      else case listen_queue c of [] \<Rightarrow> (Block, c) | m # q \<Rightarrow> (Yield m, c\<lparr>listen_queue := q\<rparr>))"

section \<open>Steps\<close>

text \<open>
  The interleavings of a client: its public calls, the frames it receives, the end of the
  receive loop, and the local timeouts. Message ids are fresh UUIDs: an id that still waits
  is not drawn again.
\<close>

inductive client_step :: "MessageBus \<Rightarrow> MessageBus \<Rightarrow> bool" where
  cs_connect: "bus_connect None c = Inr c' \<Longrightarrow> client_step c c'"
| cs_close: "client_step c (bus_close c)"
| cs_lost: "recv_running c \<Longrightarrow> client_step c (receive_loop_ends c)"
| cs_frame: "recv_running c \<Longrightarrow> client_step c (client_dispatch m c)"
| cs_send: "dict_get (pending_acks c) (m_id msg) = None \<Longrightarrow> client_step c (snd (send_begin ok msg c))"
| cs_subscribe: "dict_get (pending_acks c) i = None \<Longrightarrow> client_step c (snd (snd (subscribe_begin ok i ch c)))"
| cs_request: "dict_get (pending_futures c) i = None \<Longrightarrow> client_step c (snd (client_request ok i to ty p tmo c))"
| cs_ack_timeout: "dict_get (pending_acks c) (m_id msg) = Some f \<Longrightarrow> client_step c (snd (ack_timed_out msg f tstr c))"
| cs_request_timeout: "dict_get (pending_futures c) i = Some f \<Longrightarrow> client_step c (request_timed_out i f c)"
| cs_reply: "client_step c (snd (client_reply ok i m ty p c))"
| cs_stream: "client_step c (snd (client_stream to ty sid oks ids ps c))"
| cs_sub_next: "client_step c (snd (subscribe_next qid ch c))"
| cs_cleanup: "client_step c (subscribe_cleanup ok i qid ch c)"
| cs_listen: "client_step c (snd (listen_next c))"

section \<open>Invariant\<close>

definition registered :: "MessageBus \<Rightarrow> fut \<Rightarrow> bool" where
  "registered c f = ((\<exists>i. dict_get (pending_futures c) i = Some f) \<or> (\<exists>i. dict_get (pending_acks c) i = Some f))"

text \<open>A future is pending exactly while it is registered, and under one id only.\<close>

definition fut_inv :: "MessageBus \<Rightarrow> bool" where
  "fut_inv c =
     ((\<forall>f. dict_get (futures c) f = Some Pending \<longleftrightarrow> registered c f) \<and>
      (\<forall>i j f. dict_get (pending_futures c) i = Some f \<longrightarrow> dict_get (pending_futures c) j = Some f \<longrightarrow> i = j) \<and>
      (\<forall>i j f. dict_get (pending_acks c) i = Some f \<longrightarrow> dict_get (pending_acks c) j = Some f \<longrightarrow> i = j) \<and>
      (\<forall>i j f. dict_get (pending_futures c) i = Some f \<longrightarrow> dict_get (pending_acks c) j \<noteq> Some f) \<and>
      (\<forall>f. dict_get (futures c) f \<noteq> None \<longrightarrow> f < next_fut c) \<and>
      dict_wf (pending_futures c) \<and> dict_wf (pending_acks c))"

definition qs_ok :: "queue list \<Rightarrow> bool" where
  "qs_ok qs = (qs \<noteq> [] \<and> (\<forall>q \<in> set qs. length (snd q) \<le> CHANNEL_QUEUE_SIZE))"

definition queue_inv :: "MessageBus \<Rightarrow> bool" where
  "queue_inv c =
     (length (listen_queue c) \<le> LISTEN_QUEUE_SIZE \<and>
      (\<forall>ch qs. dict_get (channel_queues c) ch = Some qs \<longrightarrow> qs_ok qs))"

section \<open>Lemmas on futures\<close>

lemma settle_fields [simp]:
  "pending_futures (settle f st c) = pending_futures c" "pending_acks (settle f st c) = pending_acks c"
  "next_fut (settle f st c) = next_fut c" "listen_queue (settle f st c) = listen_queue c"
  "channel_queues (settle f st c) = channel_queues c" "outbox (settle f st c) = outbox c"
  by (simp_all add: settle_def)

lemma futures_settle:
  "dict_get (futures (settle f st c)) g =
     (if g = f \<and> dict_get (futures c) f = Some Pending then Some st else dict_get (futures c) g)"
  by (simp add: settle_def dict_simps)

lemma fold_settle_fields [simp]:
  "pending_futures (fold (\<lambda>f. settle f st) fs c) = pending_futures c"
  "pending_acks (fold (\<lambda>f. settle f st) fs c) = pending_acks c"
  "next_fut (fold (\<lambda>f. settle f st) fs c) = next_fut c"
  "listen_queue (fold (\<lambda>f. settle f st) fs c) = listen_queue c"
  "channel_queues (fold (\<lambda>f. settle f st) fs c) = channel_queues c"
  by (induction fs arbitrary: c) simp_all

lemma futures_fold_settle:
  assumes "st \<noteq> Pending"
  shows "dict_get (futures (fold (\<lambda>f. settle f st) fs c)) g =
     (if g \<in> set fs \<and> dict_get (futures c) g = Some Pending then Some st else dict_get (futures c) g)"
  using assms by (induction fs arbitrary: c) (auto simp: futures_settle)

lemma conn_send_fields [simp]:
  "pending_futures (snd (conn_send ok m c)) = pending_futures c" "pending_acks (snd (conn_send ok m c)) = pending_acks c"
  "futures (snd (conn_send ok m c)) = futures c" "next_fut (snd (conn_send ok m c)) = next_fut c"
  "listen_queue (snd (conn_send ok m c)) = listen_queue c" "channel_queues (snd (conn_send ok m c)) = channel_queues c"
  by (simp_all add: conn_send_def)

lemma fut_inv_cong:
  assumes "pending_futures a = pending_futures b" "pending_acks a = pending_acks b" "futures a = futures b"
    and "next_fut a = next_fut b"
  shows "fut_inv a = fut_inv b"
  using assms by (simp add: fut_inv_def registered_def)

lemma fut_inv_flags [simp]:
  "fut_inv (c\<lparr>bus_closed := x\<rparr>) = fut_inv c" "fut_inv (c\<lparr>ws_open := y\<rparr>) = fut_inv c"
  "fut_inv (c\<lparr>recv_running := z\<rparr>) = fut_inv c"
  by (simp_all add: fut_inv_def registered_def)

lemma queue_inv_cong:
  "\<lbrakk>listen_queue a = listen_queue b; channel_queues a = channel_queues b\<rbrakk> \<Longrightarrow> queue_inv a = queue_inv b"
  by (simp add: queue_inv_def)

text \<open>Closing the books on every registered future.\<close>

lemma futures_fail_pending:
  assumes "fut_inv c"
  shows "dict_get (futures (fail_pending_futures c)) f =
    (if dict_get (futures c) f = Some Pending then Some (Failed (NMBConnectionError ''Connection closed''))
     else dict_get (futures c) f)"
proof -
  have "dict_get (futures c) f = Some Pending \<Longrightarrow> f \<in> set (dict_values (pending_futures c)) \<union> set (dict_values (pending_acks c))"
    using assms by (auto simp: fut_inv_def registered_def dict_values_iff)
  then show ?thesis
    by (auto simp: fail_pending_futures_def Let_def futures_fold_settle)
qed

lemma fail_pending_fields [simp]:
  "pending_futures (fail_pending_futures c) = []" "pending_acks (fail_pending_futures c) = []"
  "next_fut (fail_pending_futures c) = next_fut c" "listen_queue (fail_pending_futures c) = listen_queue c"
  "channel_queues (fail_pending_futures c) = channel_queues c"
  by (simp_all add: fail_pending_futures_def Let_def)

lemma fut_invD:
  assumes "fut_inv c"
  shows "dict_get (futures c) f = Some Pending \<longleftrightarrow> registered c f"
    and "dict_get (pending_futures c) i = Some f \<Longrightarrow> dict_get (pending_futures c) j = Some f \<Longrightarrow> i = j"
    and "dict_get (pending_acks c) i = Some f \<Longrightarrow> dict_get (pending_acks c) j = Some f \<Longrightarrow> i = j"
    and "dict_get (pending_futures c) i = Some f \<Longrightarrow> dict_get (pending_acks c) j \<noteq> Some f"
    and "dict_get (futures c) f \<noteq> None \<Longrightarrow> f < next_fut c"
    and "dict_wf (pending_futures c)" and "dict_wf (pending_acks c)"
  using assms unfolding fut_inv_def by blast+

lemma fut_invI:
  assumes "\<And>f. dict_get (futures c) f = Some Pending \<longleftrightarrow> registered c f"
    and "\<And>i j f. dict_get (pending_futures c) i = Some f \<Longrightarrow> dict_get (pending_futures c) j = Some f \<Longrightarrow> i = j"
    and "\<And>i j f. dict_get (pending_acks c) i = Some f \<Longrightarrow> dict_get (pending_acks c) j = Some f \<Longrightarrow> i = j"
    and "\<And>i j f. dict_get (pending_futures c) i = Some f \<Longrightarrow> dict_get (pending_acks c) j \<noteq> Some f"
    and "\<And>f. dict_get (futures c) f \<noteq> None \<Longrightarrow> f < next_fut c"
    and "dict_wf (pending_futures c)" and "dict_wf (pending_acks c)"
  shows "fut_inv c"
  using assms unfolding fut_inv_def by blast

lemma registered_pending: "fut_inv c \<Longrightarrow> registered c f \<Longrightarrow> dict_get (futures c) f = Some Pending"
  by (simp add: fut_invD(1))

lemma registered_less: "fut_inv c \<Longrightarrow> registered c f \<Longrightarrow> f < next_fut c"
  by (rule fut_invD(5)) (simp_all add: registered_pending)

lemma fut_inv_fail_pending: "fut_inv c \<Longrightarrow> fut_inv (fail_pending_futures c)"
proof (rule fut_invI)
  fix f
  assume inv: "fut_inv c"
  show "dict_get (futures (fail_pending_futures c)) f = Some Pending \<longleftrightarrow> registered (fail_pending_futures c) f"
    by (simp add: futures_fail_pending [OF inv] registered_def)
  assume "dict_get (futures (fail_pending_futures c)) f \<noteq> None"
  then have "dict_get (futures c) f \<noteq> None" by (auto simp: futures_fail_pending [OF inv] split: if_splits)
  then show "f < next_fut (fail_pending_futures c)" using fut_invD(5) [OF inv] by simp
qed simp_all

text \<open>Registering a new future, and settling one while removing its entry.\<close>

definition new_ack :: "string \<Rightarrow> MessageBus \<Rightarrow> MessageBus" where
  "new_ack i c = (let (f, c1) = create_future c in c1\<lparr>pending_acks := dict_set i f (pending_acks c1)\<rparr>)"

definition new_request :: "string \<Rightarrow> MessageBus \<Rightarrow> MessageBus" where
  "new_request i c = (let (f, c1) = create_future c in c1\<lparr>pending_futures := dict_set i f (pending_futures c1)\<rparr>)"

lemma new_ack_fields [simp]:
  "pending_acks (new_ack i c) = dict_set i (next_fut c) (pending_acks c)"
  "pending_futures (new_ack i c) = pending_futures c"
  "futures (new_ack i c) = dict_set (next_fut c) Pending (futures c)" "next_fut (new_ack i c) = Suc (next_fut c)"
  "listen_queue (new_ack i c) = listen_queue c" "channel_queues (new_ack i c) = channel_queues c"
  "ws_open (new_ack i c) = ws_open c" "outbox (new_ack i c) = outbox c" "recv_running (new_ack i c) = recv_running c"
  by (simp_all add: new_ack_def create_future_def)

lemma new_request_fields [simp]:
  "pending_futures (new_request i c) = dict_set i (next_fut c) (pending_futures c)"
  "pending_acks (new_request i c) = pending_acks c"
  "futures (new_request i c) = dict_set (next_fut c) Pending (futures c)" "next_fut (new_request i c) = Suc (next_fut c)"
  "listen_queue (new_request i c) = listen_queue c" "channel_queues (new_request i c) = channel_queues c"
  "ws_open (new_request i c) = ws_open c" "outbox (new_request i c) = outbox c" "recv_running (new_request i c) = recv_running c"
  by (simp_all add: new_request_def create_future_def)

lemma registered_ran: "registered c f \<longleftrightarrow> f \<in> dict_ran (pending_futures c) \<union> dict_ran (pending_acks c)"
  by (simp add: registered_def dict_ran_def)

lemma registered_new_ack:
  "dict_get (pending_acks c) i = None \<Longrightarrow> registered (new_ack i c) f \<longleftrightarrow> f = next_fut c \<or> registered c f"
  by (auto simp: registered_ran dict_ran_set)

lemma registered_new_request:
  "dict_get (pending_futures c) i = None \<Longrightarrow> registered (new_request i c) f \<longleftrightarrow> f = next_fut c \<or> registered c f"
  by (auto simp: registered_ran dict_ran_set)

lemma fut_inv_new_ack:
  assumes inv: "fut_inv c" and free: "dict_get (pending_acks c) i = None"
  shows "fut_inv (new_ack i c)"
proof (rule fut_invI)
  have fresh: "\<not> registered c (next_fut c)" using registered_less [OF inv] by blast
  fix f j k
  show "dict_get (futures (new_ack i c)) f = Some Pending \<longleftrightarrow> registered (new_ack i c) f"
    using fut_invD(1) [OF inv] by (simp add: registered_new_ack [OF free] dict_simps)
  show "dict_get (pending_acks (new_ack i c)) j = Some f \<Longrightarrow> dict_get (pending_acks (new_ack i c)) k = Some f \<Longrightarrow> j = k"
    using fut_invD(3) [OF inv] fresh by (auto simp: dict_simps registered_def split: if_splits)
  show "dict_get (pending_futures (new_ack i c)) j = Some f \<Longrightarrow> dict_get (pending_acks (new_ack i c)) k \<noteq> Some f"
    using fut_invD(4) [OF inv] fresh by (auto simp: dict_simps registered_def split: if_splits)
  show "dict_get (futures (new_ack i c)) f \<noteq> None \<Longrightarrow> f < next_fut (new_ack i c)"
    using fut_invD(5) [OF inv, of f] by (auto simp: dict_simps split: if_splits)
qed (use fut_invD(2,6,7) [OF inv] in auto)

lemma fut_inv_new_request:
  assumes inv: "fut_inv c" and free: "dict_get (pending_futures c) i = None"
  shows "fut_inv (new_request i c)"
proof (rule fut_invI)
  have fresh: "\<not> registered c (next_fut c)" using registered_less [OF inv] by blast
  fix f j k
  show "dict_get (futures (new_request i c)) f = Some Pending \<longleftrightarrow> registered (new_request i c) f"
    using fut_invD(1) [OF inv] by (simp add: registered_new_request [OF free] dict_simps)
  show "dict_get (pending_futures (new_request i c)) j = Some f \<Longrightarrow> dict_get (pending_futures (new_request i c)) k = Some f \<Longrightarrow> j = k"
    using fut_invD(2) [OF inv] fresh by (auto simp: dict_simps registered_def split: if_splits)
  show "dict_get (pending_futures (new_request i c)) j = Some f \<Longrightarrow> dict_get (pending_acks (new_request i c)) k \<noteq> Some f"
    using fut_invD(4) [OF inv] fresh by (auto simp: dict_simps registered_def split: if_splits)
  show "dict_get (futures (new_request i c)) f \<noteq> None \<Longrightarrow> f < next_fut (new_request i c)"
    using fut_invD(5) [OF inv, of f] by (auto simp: dict_simps split: if_splits)
qed (use fut_invD(3,6,7) [OF inv] in auto)

lemma fut_inv_settle_ack:
  assumes inv: "fut_inv c" and get: "dict_get (pending_acks c) i = Some f" and st: "st \<noteq> Pending"
  shows "fut_inv (settle f st (c\<lparr>pending_acks := dict_pop i (pending_acks c)\<rparr>))" (is "fut_inv ?c")
proof (rule fut_invI)
  have p: "dict_get (futures c) f = Some Pending" using registered_pending [OF inv] get by (auto simp: registered_def)
  fix g j k
  have "dict_ran (dict_pop i (pending_acks c)) = dict_ran (pending_acks c) - {f}"
    by (rule dict_ran_pop [OF get]) (use fut_invD(3) [OF inv get] in blast)
  moreover have "f \<notin> dict_ran (pending_futures c)"
    using fut_invD(4) [OF inv] get unfolding dict_ran_def by blast
  ultimately have "registered ?c g \<longleftrightarrow> registered c g \<and> g \<noteq> f"
    by (auto simp: registered_ran)
  then show "dict_get (futures ?c) g = Some Pending \<longleftrightarrow> registered ?c g"
    using fut_invD(1) [OF inv, of g] p st by (simp add: futures_settle)
  show "dict_get (pending_acks ?c) j = Some g \<Longrightarrow> dict_get (pending_acks ?c) k = Some g \<Longrightarrow> j = k"
    using fut_invD(3) [OF inv] by (auto simp: dict_simps split: if_splits)
  show "dict_get (pending_futures ?c) j = Some g \<Longrightarrow> dict_get (pending_acks ?c) k \<noteq> Some g"
    using fut_invD(4) [OF inv] by (auto simp: dict_simps split: if_splits)
  show "dict_get (futures ?c) g \<noteq> None \<Longrightarrow> g < next_fut ?c"
    using fut_invD(5) [OF inv, of g] p by (auto simp: futures_settle split: if_splits)
qed (use fut_invD(2,6,7) [OF inv] in auto)

lemma fut_inv_settle_request:
  assumes inv: "fut_inv c" and get: "dict_get (pending_futures c) i = Some f" and st: "st \<noteq> Pending"
  shows "fut_inv (settle f st (c\<lparr>pending_futures := dict_pop i (pending_futures c)\<rparr>))" (is "fut_inv ?c")
proof (rule fut_invI)
  have p: "dict_get (futures c) f = Some Pending" using registered_pending [OF inv] get by (auto simp: registered_def)
  fix g j k
  have "dict_ran (dict_pop i (pending_futures c)) = dict_ran (pending_futures c) - {f}"
    by (rule dict_ran_pop [OF get]) (use fut_invD(2) [OF inv get] in blast)
  moreover have "f \<notin> dict_ran (pending_acks c)"
    using fut_invD(4) [OF inv] get unfolding dict_ran_def by blast
  ultimately have "registered ?c g \<longleftrightarrow> registered c g \<and> g \<noteq> f"
    by (auto simp: registered_ran)
  then show "dict_get (futures ?c) g = Some Pending \<longleftrightarrow> registered ?c g"
    using fut_invD(1) [OF inv, of g] p st by (simp add: futures_settle)
  show "dict_get (pending_futures ?c) j = Some g \<Longrightarrow> dict_get (pending_futures ?c) k = Some g \<Longrightarrow> j = k"
    using fut_invD(2) [OF inv] by (auto simp: dict_simps split: if_splits)
  show "dict_get (pending_futures ?c) j = Some g \<Longrightarrow> dict_get (pending_acks ?c) k \<noteq> Some g"
    using fut_invD(4) [OF inv] by (auto simp: dict_simps split: if_splits)
  show "dict_get (futures ?c) g \<noteq> None \<Longrightarrow> g < next_fut ?c"
    using fut_invD(5) [OF inv, of g] p by (auto simp: futures_settle split: if_splits)
qed (use fut_invD(3,6,7) [OF inv] in auto)

section \<open>Steps keep the invariants\<close>

lemma send_begin_state: "snd (send_begin ok msg c) = snd (conn_send ok msg (new_ack (m_id msg) c))"
  by (simp add: send_begin_def new_ack_def create_future_def Let_def split: prod.splits option.splits)

lemma client_request_state:
  "snd (client_request ok i to ty p tmo c) = snd (conn_send ok (request_msg i to ty p tmo) (new_request i c))"
  by (simp add: client_request_def new_request_def create_future_def request_msg_def Let_def
      split: prod.splits option.splits)

lemma subscribe_begin_state:
  "snd (snd (subscribe_begin ok i ch c)) = snd (send_begin ok (subscribe_msg i ch)
     (c\<lparr>channel_queues := dict_set ch (dict_default (channel_queues c) ch [] @ [(next_queue c, [])]) (channel_queues c),
        next_queue := Suc (next_queue c)\<rparr>))"
  by (simp add: subscribe_begin_def Let_def)

lemma stream_loop_state [simp]:
  "pending_futures (snd (stream_loop to ty sid oks ids seq ps c)) = pending_futures c"
  "pending_acks (snd (stream_loop to ty sid oks ids seq ps c)) = pending_acks c"
  "futures (snd (stream_loop to ty sid oks ids seq ps c)) = futures c"
  "next_fut (snd (stream_loop to ty sid oks ids seq ps c)) = next_fut c"
  "listen_queue (snd (stream_loop to ty sid oks ids seq ps c)) = listen_queue c"
  "channel_queues (snd (stream_loop to ty sid oks ids seq ps c)) = channel_queues c"
  by (induction ps arbitrary: seq c) (auto simp: conn_send_def)

lemma settle_pop_commute:
  "(settle f st c)\<lparr>pending_acks := x\<rparr> = settle f st (c\<lparr>pending_acks := x\<rparr>)"
  "(settle f st c)\<lparr>pending_futures := y\<rparr> = settle f st (c\<lparr>pending_futures := y\<rparr>)"
  by (simp_all add: settle_def)

lemma fut_inv_dispatch: "fut_inv c \<Longrightarrow> fut_inv (client_dispatch m c)"
proof -
  assume inv: "fut_inv c"
  have "fut_inv (dispatch_deliver m c)"
  proof (cases "truthy (m_reply_to m) \<and> dict_has (pending_futures c) (the (m_reply_to m))")
    case True
    then obtain f where "dict_get (pending_futures c) (the (m_reply_to m)) = Some f" by (auto simp: dict_has_def)
    with True fut_inv_settle_request [OF inv this] show ?thesis by (simp add: dispatch_deliver_def Let_def)
  next
    case False
    then have "\<exists>x y. dispatch_deliver m c = c\<lparr>channel_queues := x, listen_queue := y\<rparr>"
      by (cases c) (auto simp: dispatch_deliver_def Let_def)
    with inv show ?thesis by (auto simp: fut_inv_cong [of "c\<lparr>channel_queues := _, listen_queue := _\<rparr>" c])
  qed
  with inv show ?thesis
    by (auto simp: client_dispatch_def dispatch_ack_def dispatch_error_def dispatch_timeout_def Let_def
        fut_inv_settle_ack fut_inv_settle_request split: Op.splits option.splits)
qed

lemma fut_inv_step: "client_step c c' \<Longrightarrow> fut_inv c \<Longrightarrow> fut_inv c'"
proof (induction rule: client_step.induct)
  case (cs_connect c c')
  then have "c' = c\<lparr>ws_open := True, bus_closed := False, recv_running := True\<rparr>" by (simp add: bus_connect_def)
  with cs_connect show ?case using fut_inv_cong [of c' c] by simp
next
  case (cs_close c)
  then show ?case by (simp add: bus_close_def receive_loop_ends_def Let_def fut_inv_fail_pending)
next
  case (cs_lost c)
  then show ?case
    using fut_inv_fail_pending [of c] fut_inv_cong [of "receive_loop_ends c" "fail_pending_futures c"]
    by (simp add: receive_loop_ends_def)
next
  case (cs_frame c m)
  then show ?case by (simp add: fut_inv_dispatch)
next
  case (cs_send c msg ok)
  then show ?case
    using fut_inv_new_ack fut_inv_cong [of "snd (send_begin ok msg c)" "new_ack (m_id msg) c"]
    by (simp add: send_begin_state)
next
  case (cs_subscribe c i ok ch)
  let ?c = "c\<lparr>channel_queues := dict_set ch (dict_default (channel_queues c) ch [] @ [(next_queue c, [])]) (channel_queues c),
        next_queue := Suc (next_queue c)\<rparr>"
  have "fut_inv (new_ack i ?c)"
    using cs_subscribe fut_inv_cong [of ?c c] by (intro fut_inv_new_ack) simp_all
  then show ?case
    using fut_inv_cong [of "snd (snd (subscribe_begin ok i ch c))" "new_ack i ?c"]
    by (simp add: subscribe_begin_state send_begin_state subscribe_msg_def)
next
  case (cs_request c i ok to ty p tmo)
  then show ?case
    using fut_inv_new_request fut_inv_cong [of "snd (client_request ok i to ty p tmo c)" "new_request i c"]
    by (simp add: client_request_state)
next
  case (cs_ack_timeout c msg f tstr)
  then show ?case by (simp add: ack_timed_out_def Let_def settle_pop_commute fut_inv_settle_ack)
next
  case (cs_request_timeout c i f)
  then show ?case by (simp add: request_timed_out_def Let_def settle_pop_commute fut_inv_settle_request)
next
  case (cs_reply c ok i m ty p)
  then show ?case using fut_inv_cong [of "snd (client_reply ok i m ty p c)" c] by (simp add: client_reply_def)
next
  case (cs_stream c to ty sid oks ids ps)
  then show ?case using fut_inv_cong [of "snd (client_stream to ty sid oks ids ps c)" c] by (simp add: client_stream_def)
next
  case (cs_sub_next c qid ch)
  then show ?case using fut_inv_cong [of "snd (subscribe_next qid ch c)" c]
    by (simp add: subscribe_next_def split: list.splits)
next
  case (cs_cleanup c ok i qid ch)
  then show ?case using fut_inv_cong [of "subscribe_cleanup ok i qid ch c" c] by (simp add: subscribe_cleanup_def Let_def)
next
  case (cs_listen c)
  then show ?case using fut_inv_cong [of "snd (listen_next c)" c] by (simp add: listen_next_def split: list.splits)
qed

section \<open>Queues\<close>

text \<open>
  The interface of a bounded buffer: putting one item never exceeds the capacity, and
  below the capacity it appends. The client's queues drop the oldest item when full.
\<close>

lemma length_put_or_drop: "0 < cap \<Longrightarrow> length q \<le> cap \<Longrightarrow> length (put_or_drop_oldest cap m q) \<le> cap"
  by (cases q) (auto simp: put_or_drop_oldest_def)

interpretation oldest: bounded_buffer "put_or_drop_oldest (Suc n)" "Suc n" for n
proof unfold_locales
  fix x :: 'a and q :: "'a list"
  show "length q \<le> Suc n \<Longrightarrow> length (put_or_drop_oldest (Suc n) x q) \<le> Suc n"
    by (rule length_put_or_drop) simp_all
  show "length q < Suc n \<Longrightarrow> put_or_drop_oldest (Suc n) x q = q @ [x]"
    by (simp add: put_or_drop_oldest_def)
qed

lemma queue_inv_get: "queue_inv c \<Longrightarrow> dict_get (channel_queues c) ch = Some qs \<Longrightarrow> qs_ok qs"
  by (simp add: queue_inv_def)

lemma queue_inv_member:
  "queue_inv c \<Longrightarrow> q \<in> set (dict_default (channel_queues c) ch []) \<Longrightarrow> length (snd q) \<le> CHANNEL_QUEUE_SIZE"
  by (cases "dict_get (channel_queues c) ch") (use queue_inv_get qs_ok_def in \<open>auto simp: dict_default_def\<close>)

lemma queue_inv_set: "queue_inv c \<Longrightarrow> qs_ok qs \<Longrightarrow> queue_inv (c\<lparr>channel_queues := dict_set ch qs (channel_queues c)\<rparr>)"
  by (simp add: queue_inv_def dict_simps)

lemma queue_inv_pop: "queue_inv c \<Longrightarrow> queue_inv (c\<lparr>channel_queues := dict_pop ch (channel_queues c)\<rparr>)"
  by (simp add: queue_inv_def dict_simps)

lemma queue_inv_flags [simp]:
  "queue_inv (c\<lparr>bus_closed := a\<rparr>) = queue_inv c" "queue_inv (c\<lparr>ws_open := a\<rparr>) = queue_inv c"
  "queue_inv (c\<lparr>recv_running := a\<rparr>) = queue_inv c" "queue_inv (c\<lparr>next_queue := n\<rparr>) = queue_inv c"
  "queue_inv (c\<lparr>pending_acks := x\<rparr>) = queue_inv c" "queue_inv (c\<lparr>pending_futures := x\<rparr>) = queue_inv c"
  "queue_inv (settle f st c) = queue_inv c" "queue_inv (snd (conn_send ok m c)) = queue_inv c"
  "queue_inv (fail_pending_futures c) = queue_inv c" "queue_inv (new_ack i c) = queue_inv c"
  "queue_inv (new_request i c) = queue_inv c" "queue_inv (snd (stream_loop to ty sid oks ids seq ps c)) = queue_inv c"
  by (simp_all add: queue_inv_def)

lemma queue_inv_deliver: "queue_inv c \<Longrightarrow> queue_inv (dispatch_deliver m c)"
proof -
  assume inv: "queue_inv c"
  have "qs_ok (map (\<lambda>(i, q). (i, put_or_drop_oldest CHANNEL_QUEUE_SIZE m q)) qs)" if "qs_ok qs" for qs
    using that length_put_or_drop [of CHANNEL_QUEUE_SIZE] by (fastforce simp: qs_ok_def CHANNEL_QUEUE_SIZE_def)
  moreover have "queue_inv (c\<lparr>listen_queue := put_or_drop_oldest LISTEN_QUEUE_SIZE m (listen_queue c)\<rparr>)"
    using inv length_put_or_drop [of LISTEN_QUEUE_SIZE "listen_queue c" m] by (simp add: queue_inv_def LISTEN_QUEUE_SIZE_def)
  ultimately show ?thesis
    using inv by (auto simp: dispatch_deliver_def Let_def dict_has_def intro!: queue_inv_set dest: queue_inv_get)
qed

lemma queue_inv_dispatch: "queue_inv c \<Longrightarrow> queue_inv (client_dispatch m c)"
  by (simp add: client_dispatch_def queue_inv_deliver dispatch_ack_def dispatch_error_def dispatch_timeout_def Let_def
      split: Op.splits option.splits)

lemma queue_inv_subscribe:
  "queue_inv c \<Longrightarrow> queue_inv (c\<lparr>channel_queues := dict_set ch (dict_default (channel_queues c) ch [] @ [(n, [])]) (channel_queues c)\<rparr>)"
  using queue_inv_member [of c] by (intro queue_inv_set) (auto simp: qs_ok_def)

lemma queue_inv_next: "queue_inv c \<Longrightarrow> queue_inv (snd (subscribe_next qid ch c))"
proof (cases "bus_closed c \<or> queue_of qid ch c = []")
  case True
  then show "queue_inv c \<Longrightarrow> ?thesis" by (auto simp: subscribe_next_def)
next
  case False
  assume inv: "queue_inv c"
  from False obtain m q where q: "queue_of qid ch c = m # q" "\<not> bus_closed c" by (cases "queue_of qid ch c") auto
  then obtain qs where qs: "dict_get (channel_queues c) ch = Some qs" "dict_default qs qid [] = m # q"
    by (auto simp: queue_of_def dict_default_def split: option.splits)
  from qs(2) have mem: "(qid, m # q) \<in> set qs"
    by (auto simp: dict_default_def dict_get_def split: option.splits dest: map_of_SomeD)
  have ok: "qs_ok qs" using queue_inv_get [OF inv qs(1)] .
  with mem have "length q \<le> CHANNEL_QUEUE_SIZE" by (force simp: qs_ok_def)
  with ok have "qs_ok (map (\<lambda>(i, q'). if i = qid then (i, q) else (i, q')) qs)"
    by (auto simp: qs_ok_def)
  from queue_inv_set [OF inv this, of ch] q qs(1) show ?thesis
    by (simp add: subscribe_next_def dict_default_def [of "channel_queues c"])
qed

lemma queue_inv_cleanup: "queue_inv c \<Longrightarrow> queue_inv (subscribe_cleanup ok i qid ch c)"
  using queue_inv_member [of c _ ch] by (auto simp: subscribe_cleanup_def Let_def queue_inv_pop qs_ok_def intro!: queue_inv_set)

lemma queue_inv_step: "client_step c c' \<Longrightarrow> queue_inv c \<Longrightarrow> queue_inv c'"
proof (induction rule: client_step.induct)
  case (cs_subscribe c i ok ch)
  then show ?case
    using queue_inv_subscribe [of c ch "next_queue c"] by (simp add: subscribe_begin_state send_begin_state)
next
  case (cs_listen c)
  then show ?case by (auto simp: listen_next_def queue_inv_def split: list.splits)
next
  case (cs_connect c c')
  then show ?case by (auto simp: bus_connect_def)
qed (simp_all add: queue_inv_dispatch queue_inv_next queue_inv_cleanup bus_close_def receive_loop_ends_def
      Let_def send_begin_state client_request_state ack_timed_out_def request_timed_out_def client_reply_def client_stream_def)

section \<open>Reachable clients\<close>

lemma client_init_inv: "fut_inv (bus_init name url suf hex)" "queue_inv (bus_init name url suf hex)"
  by (simp_all add: bus_init_def fut_inv_def queue_inv_def registered_def)

lemma client_reachable:
  assumes "client_step\<^sup>*\<^sup>* (bus_init name url suf hex) c"
  shows "fut_inv c" "queue_inv c"
  using assms by (induction rule: rtranclp_induct) (auto simp: client_init_inv intro: fut_inv_step queue_inv_step)

lemma settle_final: "dict_get (futures c) f = Some st \<Longrightarrow> st \<noteq> Pending \<Longrightarrow> dict_get (futures (settle g st' c)) f = Some st"
  by (auto simp: futures_settle)

lemma dispatch_final:
  "dict_get (futures c) f = Some st \<Longrightarrow> st \<noteq> Pending \<Longrightarrow> dict_get (futures (client_dispatch m c)) f = Some st"
  by (simp add: client_dispatch_def dispatch_deliver_def dispatch_ack_def dispatch_error_def dispatch_timeout_def Let_def
      settle_final split: Op.splits option.splits)


definition waiting_client :: MessageBus where
  "waiting_client = snd (client_request True ''r1'' ''b'' ''t'' [] 300
     ((bus_init ''a'' ''url'' False [])\<lparr>ws_open := True, bus_closed := False, recv_running := True\<rparr>))"

lemma waiting_client_run: "client_step\<^sup>*\<^sup>* (bus_init ''a'' ''url'' False []) waiting_client"
proof -
  let ?c = "(bus_init ''a'' ''url'' False [])\<lparr>ws_open := True, bus_closed := False, recv_running := True\<rparr>"
  have "client_step (bus_init ''a'' ''url'' False []) ?c" by (rule cs_connect) (simp add: bus_connect_def)
  moreover have "client_step ?c waiting_client"
    unfolding waiting_client_def by (rule cs_request) (simp add: bus_init_def)
  ultimately show ?thesis by (meson r_into_rtranclp rtranclp.rtrancl_into_rtrancl)
qed


text \<open>
  A future is settled once. Whatever the client does next and whatever frames, timeouts
  or disconnections arrive, in any order, the outcome a caller was given never changes.
\<close>

theorem settled_once:
  assumes "client_step\<^sup>*\<^sup>* (bus_init name url suf hex) c" and "client_step\<^sup>*\<^sup>* c c'"
    and "dict_get (futures c) f = Some st" and "st \<noteq> Pending"
  shows "dict_get (futures c') f = Some st"
  using assms(2)
proof (induction rule: rtranclp_induct)
  case (step d d')
  have inv: "fut_inv d" using client_reachable(1) assms(1) step.hyps(1) by (meson rtranclp_trans)
  have less: "f < next_fut d" using fut_invD(5) [OF inv] step.IH by simp
  have fail: "dict_get (futures (fail_pending_futures d2)) f = Some st"
    if "fut_inv d2" "dict_get (futures d2) f = Some st" for d2
    using that assms(4) by (simp add: futures_fail_pending)
  from step.hyps(2) show ?case
  proof (cases rule: client_step.cases)
    case cs_close
    with step.IH inv fail show ?thesis
      by (simp add: bus_close_def receive_loop_ends_def Let_def fut_inv_fail_pending)
  next
    case (cs_subscribe i ok ch)
    with step.IH less show ?thesis by (simp add: subscribe_begin_state send_begin_state dict_simps)
  qed (use step.IH less inv fail assms(4) in \<open>auto simp: bus_connect_def receive_loop_ends_def dispatch_final send_begin_state
      client_request_state ack_timed_out_def request_timed_out_def Let_def client_reply_def client_stream_def subscribe_next_def
      subscribe_cleanup_def listen_next_def settle_final dict_simps split: list.splits\<close>)
qed (rule assms(3))

theorem settled_once_witness:
  "dict_get (futures (bus_close waiting_client)) 0 = Some (Failed (NMBConnectionError ''Connection closed'')) \<and>
   dict_get (futures (bus_close (bus_close waiting_client))) 0 = Some (Failed (NMBConnectionError ''Connection closed''))"
proof -
  have r: "client_step\<^sup>*\<^sup>* (bus_init ''a'' ''url'' False []) (bus_close waiting_client)"
    by (rule rtranclp.rtrancl_into_rtrancl [OF waiting_client_run cs_close])
  have s: "client_step\<^sup>*\<^sup>* (bus_close waiting_client) (bus_close (bus_close waiting_client))"
    by (rule r_into_rtranclp) (rule cs_close)
  have "dict_get (futures waiting_client) 0 = Some Pending"
    by (simp add: waiting_client_def client_request_state dict_simps bus_init_def)
  then have "dict_get (futures (bus_close waiting_client)) 0 = Some (Failed (NMBConnectionError ''Connection closed''))"
    using client_reachable(1) [OF waiting_client_run]
    by (simp add: bus_close_def receive_loop_ends_def Let_def futures_fail_pending fut_inv_fail_pending)
  with settled_once [OF r s this] show ?thesis by simp
qed

lemma fold_put_or_drop:
  assumes "0 < cap" and "length q \<le> cap"
  shows "fold (put_or_drop_oldest cap) xs q = drop (length q + length xs - cap) (q @ xs)"
  using assms(2)
proof (induction xs arbitrary: q)
  case (Cons x xs)
  have len: "length (put_or_drop_oldest cap x q) \<le> cap" by (rule length_put_or_drop [OF assms(1) Cons.prems])
  show ?case
  proof (cases "length q < cap")
    case True
    then show ?thesis using Cons.IH [OF len] by (simp add: put_or_drop_oldest_def)
  next
    case False
    with Cons.prems assms(1) obtain y ys where q: "q = y # ys" "length q = cap" by (cases q) auto
    then show ?thesis using Cons.IH [OF len] by (simp add: put_or_drop_oldest_def Suc_diff_le)
  qed
qed simp

text \<open>A delivery that answers no pending request and belongs to no subscribed channel.\<close>

definition unmatched :: "MessageBus \<Rightarrow> NMBMessage \<Rightarrow> bool" where
  "unmatched c m = (m_op m = Op_DELIVER \<and>
     \<not> (truthy (m_reply_to m) \<and> dict_has (pending_futures c) (the (m_reply_to m))) \<and>
     \<not> (truthy (m_channel m) \<and> dict_has (channel_queues c) (the (m_channel m))))"

text \<open>
  The listen queue keeps the newest messages. In every state a client can reach, any
  sequence of unmatched deliveries leaves in the listen queue exactly the last 1000 of the
  messages that were waiting and those that arrived, in order of arrival.
\<close>

theorem listen_keeps_newest:
  assumes "client_step\<^sup>*\<^sup>* (bus_init name url suf hex) c" and "list_all (unmatched c) ms"
  shows "listen_queue (fold client_dispatch ms c) =
    drop (length (listen_queue c) + length ms - 1000) (listen_queue c @ ms)"
proof -
  have step: "client_dispatch m d = d\<lparr>listen_queue := put_or_drop_oldest LISTEN_QUEUE_SIZE m (listen_queue d)\<rparr>"
    if "unmatched d m" for m d
    using that by (auto simp: unmatched_def client_dispatch_def dispatch_deliver_def)
  have keep: "unmatched (d\<lparr>listen_queue := x\<rparr>) = unmatched d" for d x
    by (simp add: fun_eq_iff unmatched_def)
  have run: "list_all (unmatched d) xs \<Longrightarrow>
      listen_queue (fold client_dispatch xs d) = fold (put_or_drop_oldest LISTEN_QUEUE_SIZE) xs (listen_queue d)" for d xs
    by (induction xs arbitrary: d) (simp_all add: step keep)
  from client_reachable(2) [OF assms(1)] have "length (listen_queue c) \<le> LISTEN_QUEUE_SIZE"
    by (simp add: queue_inv_def)
  with run [OF assms(2)] show ?thesis
    by (simp add: fold_put_or_drop LISTEN_QUEUE_SIZE_def)
qed

theorem listen_keeps_newest_witness:
  "map m_id (listen_queue (client_dispatch (new_message Op_DELIVER ''d1'') waiting_client)) = [''d1'']"
proof -
  have "list_all (unmatched waiting_client) [new_message Op_DELIVER ''d1'']"
    by (simp add: unmatched_def)
  moreover have "listen_queue waiting_client = []"
    by (simp add: waiting_client_def client_request_state bus_init_def)
  ultimately show ?thesis
    using listen_keeps_newest [OF waiting_client_run, of "[new_message Op_DELIVER ''d1'']"] by simp
qed

definition stream_frames ::
  "string \<Rightarrow> string \<Rightarrow> string \<Rightarrow> (nat \<Rightarrow> string) \<Rightarrow> nat \<Rightarrow> payload list \<Rightarrow> NMBMessage list" where
  "stream_frames to ty sid ids seq ps =
     map (\<lambda>k. stream_msg (ids (seq + k)) to ty sid (int (seq + k)) (k = length ps) (if k < length ps then ps ! k else []))
       [0..<Suc (length ps)]"

lemma stream_frames_Cons:
  "stream_frames to ty sid ids seq (p # ps) =
     stream_msg (ids seq) to ty sid (int seq) False p # stream_frames to ty sid ids (Suc seq) ps"
proof -
  have split: "[0..<Suc (length (p # ps))] = 0 # map Suc [0..<Suc (length ps)]"
    by (metis length_Cons map_Suc_upt upt_conv_Cons zero_less_Suc)
  show ?thesis unfolding stream_frames_def split by (simp add: comp_def add_ac)
qed

lemma stream_loop_frames:
  assumes "ws_open c" and "\<forall>k \<le> length ps. oks (seq + k)"
  shows "stream_loop to ty sid oks ids seq ps c = (None, c\<lparr>outbox := outbox c @ stream_frames to ty sid ids seq ps\<rparr>)"
  using assms
proof (induction ps arbitrary: seq c)
  case Nil
  then show ?case by (simp add: conn_send_def stream_frames_def)
next
  case (Cons p ps)
  from Cons.prems(2) have "oks seq" "\<forall>k \<le> length ps. oks (Suc seq + k)" by (auto dest: spec [of _ "Suc _"])
  with Cons.prems(1) Cons.IH show ?case by (simp add: conn_send_def stream_frames_Cons)
qed

lemma stream_loop_refused:
  assumes "ws_open c" and "n \<le> length ps" and "\<forall>k < n. oks (seq + k)" and "\<not> oks (seq + n)"
  shows "stream_loop to ty sid oks ids seq ps c =
    (Some ConnectionClosed, c\<lparr>outbox := outbox c @ take n (stream_frames to ty sid ids seq ps)\<rparr>)"
  using assms
proof (induction ps arbitrary: seq c n)
  case Nil
  then show ?case by (simp add: conn_send_def)
next
  case (Cons p ps)
  show ?case
  proof (cases n)
    case 0
    then show ?thesis using Cons.prems by (simp add: conn_send_def)
  next
    case (Suc n')
    have "oks seq" using Cons.prems(3) Suc by auto
    moreover have "\<forall>k < n'. oks (Suc seq + k)" using Cons.prems(3) Suc by (auto dest: spec [of _ "Suc _"])
    ultimately show ?thesis
      using Cons.prems Suc Cons.IH [of "c\<lparr>outbox := outbox c @ [stream_msg (ids seq) to ty sid (int seq) False p]\<rparr>" n' "Suc seq"]
      by (simp add: conn_send_def stream_frames_Cons)
  qed
qed

text \<open>
  A stream is complete and ordered. On an open connection \<open>stream\<close> sends one frame per
  chunk, in order, numbered from 0 without gaps under one stream id, and then exactly one
  frame with \<open>done\<close> set, an empty payload and the next number. If a frame is refused the
  call raises, and exactly the frames before it were sent.
\<close>

theorem stream_complete:
  assumes "ws_open c"
  shows "((\<forall>k \<le> length ps. oks k) \<longrightarrow> client_stream to ty sid oks ids ps c = (None, c\<lparr>outbox := outbox c @
      map (\<lambda>k. stream_msg (ids k) to ty sid (int k) (k = length ps) (if k < length ps then ps ! k else []))
        [0..<Suc (length ps)]\<rparr>)) \<and>
    (n \<le> length ps \<and> (\<forall>k < n. oks k) \<and> \<not> oks n \<longrightarrow> client_stream to ty sid oks ids ps c =
      (Some ConnectionClosed, c\<lparr>outbox := outbox c @
        map (\<lambda>k. stream_msg (ids k) to ty sid (int k) (k = length ps) (ps ! k)) [0..<n]\<rparr>))"
proof -
  have "take n (stream_frames to ty sid ids 0 ps) = map (\<lambda>k. stream_msg (ids k) to ty sid (int k) (k = length ps) (ps ! k)) [0..<n]"
    if "n \<le> length ps"
    using that by (simp add: stream_frames_def take_map take_upt del: upt_Suc)
  then show ?thesis
    using stream_loop_frames [OF assms, of ps oks 0 to ty sid ids] stream_loop_refused [OF assms, of n ps oks 0 to ty sid ids]
    by (auto simp: client_stream_def stream_frames_def)
qed

theorem stream_complete_witness:
  "map (\<lambda>m. (m_seq m, m_done m)) (outbox (snd (client_stream ''b'' ''t'' ''s'' (\<lambda>k. True) nat_str [[], []]
     (waiting_client\<lparr>outbox := []\<rparr>)))) = [(Some 0, Some False), (Some 1, Some False), (Some 2, Some True)]"
proof -
  have "ws_open (waiting_client\<lparr>outbox := []\<rparr>)"
    by (simp add: waiting_client_def client_request_state conn_send_def bus_init_def)
  from stream_complete [OF this, of "[[], []]" "\<lambda>k. True" "''b''" "''t''" "''s''" nat_str] show ?thesis
    by (simp add: stream_msg_def)
qed

end
