(* ===== verification/EndToEnd.thy ===== *)
theory EndToEnd
  imports BrokerProps Client
begin

text \<open>
  Clients and broker together: the frames that the broker sends on a client's connection
  are the frames that the client's receive loop dispatches. The outcome that a caller of
  \<open>send\<close> or \<open>request\<close> sees is traced through both components.
\<close>

section \<open>Frames on one connection\<close>

definition new_frames :: "ws \<Rightarrow> NMBBroker \<Rightarrow> NMBBroker \<Rightarrow> NMBMessage list" where
  "new_frames w b b' = map snd (filter (\<lambda>f. fst f = w) (drop (length (sent b)) (sent b')))"

lemma new_frames_append: "sent b' = sent b @ fs \<Longrightarrow> new_frames w b b' = map snd (filter (\<lambda>f. fst f = w) fs)"
  by (simp add: new_frames_def)

definition receive_all :: "NMBMessage list \<Rightarrow> MessageBus \<Rightarrow> MessageBus" where
  "receive_all ms c = fold client_dispatch ms c"

section \<open>The broker's side\<close>

lemma dispatch_valid:
  "parse e raw = Inr m \<Longrightarrow> validate_frame (stamp e s m) = None \<Longrightarrow> dispatch e s w raw b = route e s w (stamp e s m) b"
  by (simp add: dispatch_def from_json_def Let_def)

lemma sent_send:
  assumes "m_to_sandbox msg = Some to" and "to \<noteq> []" and "\<forall>i. send_ok e w (ack_frame i)"
    and "\<forall>i c t. send_ok e w (error_frame i c t)"
  shows "sent (handle_send e s w msg b) = sent b @
    (case dict_get (connections b) to of
       Some tw \<Rightarrow> if send_ok e tw (make_deliver msg) then [(tw, make_deliver msg), (w, ack_frame (m_id msg))]
         else [(w, error_frame (m_id msg) TARGET_OFFLINE (to @ '' disconnected''))]
     | None \<Rightarrow> [(w, error_frame (m_id msg) TARGET_OFFLINE (to @ '' not connected''))])"
  using assms by (simp add: handle_send_def Let_def sent_simps frames_if_def split: option.splits)

section \<open>The client's side\<close>

lemma client_gets_ack:
  assumes "dict_get (pending_acks c) i = Some f" and "dict_get (futures c) f = Some Pending"
  shows "await_result f (client_dispatch (ack_frame i) c) = Some (Inr None)"
  using assms by (simp add: client_dispatch_def dispatch_ack_def await_result_def futures_settle ack_frame_def)

lemma client_gets_error:
  assumes "dict_get (pending_futures c) i = None" and "dict_get (pending_acks c) i = Some f"
    and "dict_get (futures c) f = Some Pending"
  shows "await_result f (client_dispatch (error_frame i code txt) c) =
    Some (Inl (NMBConnectionError (''Broker error '' @ code_value code @ '': '' @ txt)))"
  using assms
  by (simp add: client_dispatch_def dispatch_error_def await_result_def futures_settle error_frame_def Let_def fstr_def)

text \<open>A delivery that answers no pending request changes no future and no registration.\<close>

lemma client_gets_other_delivery:
  assumes "m_reply_to m = None"
  shows "futures (client_dispatch (make_deliver m) c) = futures c"
    "pending_acks (client_dispatch (make_deliver m) c) = pending_acks c"
    "pending_futures (client_dispatch (make_deliver m) c) = pending_futures c"
  using assms by (simp_all add: client_dispatch_def dispatch_deliver_def Let_def)

lemma send_begin_ok:
  assumes "ws_open c"
  shows "send_begin True msg c = (Inr (next_fut c), (new_ack (m_id msg) c)\<lparr>outbox := outbox c @ [msg]\<rparr>)"
  using assms by (simp add: send_begin_def new_ack_def create_future_def conn_send_def Let_def)

section \<open>Properties\<close>

text \<open>
  C11: The outcome of \<open>send\<close> is the truth about the delivery. Let a connected client send a
  message with a fresh id, and let the broker dispatch the frame it put on the wire and
  the client receive what the broker answers. If the target was connected and took the
  delivery, the call returns; otherwise it raises \<open>TARGET_OFFLINE\<close>. In no case does it
  keep waiting.
\<close>

theorem send_outcome:
  assumes "ws_open c" and "dict_get (pending_futures c) i = None" and "to \<noteq> []"
    and "client_send True i to ty p c = (Inr f, c')"
    and "parse e raw = Inr (last (outbox c'))" and "payload_bytes p \<le> DEFAULT_NMB_MAX_PAYLOAD_BYTES"
    and "\<forall>j. send_ok e w (ack_frame j)" and "\<forall>j cd t. send_ok e w (error_frame j cd t)"
  shows "let b' = dispatch e s w raw b; msg = stamp e s (send_msg i to ty p) in
    await_result f (receive_all (new_frames w b b') c') =
      (case dict_get (connections b) to of
         Some tw \<Rightarrow> if send_ok e tw (make_deliver msg) then Some (Inr None)
           else Some (Inl (NMBConnectionError (''Broker error TARGET_OFFLINE: '' @ to @ '' disconnected'')))
       | None \<Rightarrow> Some (Inl (NMBConnectionError (''Broker error TARGET_OFFLINE: '' @ to @ '' not connected''))))"
proof -
  let ?m = "send_msg i to ty p"
  let ?msg = "stamp e s ?m"
  have c': "f = next_fut c" "c' = (new_ack i c)\<lparr>outbox := outbox c @ [?m]\<rparr>"
    using assms(1,4) by (simp_all add: client_send_def send_begin_ok send_msg_def)
  have m: "m_op ?m = Op_SEND" "m_id ?m = i" "m_to_sandbox ?msg = Some to" "m_reply_to ?msg = None"
    by (simp_all add: send_msg_def stamp_def new_message_def)
  have v: "validate_frame ?msg = None"
    using assms(6) by (simp add: validate_frame_None_iff field_missing_def send_msg_def stamp_def)
  have raw: "parse e raw = Inr ?m" using assms(5) c' by simp
  have "dispatch e s w raw b = handle_send e s w ?msg b"
    using m(1) by (simp add: dispatch_valid [OF raw v] route_def)
  then have frames: "new_frames w b (dispatch e s w raw b) = map snd (filter (\<lambda>f. fst f = w)
    (case dict_get (connections b) to of
       Some tw \<Rightarrow> if send_ok e tw (make_deliver ?msg) then [(tw, make_deliver ?msg), (w, ack_frame i)]
         else [(w, error_frame i TARGET_OFFLINE (to @ '' disconnected''))]
     | None \<Rightarrow> [(w, error_frame i TARGET_OFFLINE (to @ '' not connected''))]))"
    using sent_send [OF m(3) assms(3,7,8), of s b, unfolded m_id_stamp m(2)] by (simp add: new_frames_append)
  have reg: "dict_get (pending_acks c') i = Some f" "dict_get (futures c') f = Some Pending"
    "dict_get (pending_futures c') i = None"
    using c' assms(2) by (simp_all add: dict_simps)
  have ack: "await_result f (client_dispatch (ack_frame i) d) = Some (Inr None)"
    if "pending_acks d = pending_acks c'" "futures d = futures c'" for d
    by (rule client_gets_ack) (simp_all add: that reg)
  show ?thesis
    unfolding Let_def frames receive_all_def
    using client_gets_error [OF reg(3,1,2), of TARGET_OFFLINE] client_gets_other_delivery [OF m(4), of c'] ack
    by (auto split: option.splits)
qed

theorem send_outcome_witness:
  "let c = (bus_init ''a'' ''url'' False [])\<lparr>ws_open := True\<rparr>;
       c' = snd (client_send True ''m1'' ''ghost'' ''t'' [] c);
       e = sample_env\<lparr>parse := (\<lambda>raw. Inr (last (outbox c')))\<rparr>;
       b = broker two_sandboxes in
   await_result 0 (receive_all (new_frames 1 b (dispatch e ''a'' 1 ''x'' b)) c') =
     Some (Inl (NMBConnectionError ''Broker error TARGET_OFFLINE: ghost not connected''))"
proof -
  let ?c = "(bus_init ''a'' ''url'' False [])\<lparr>ws_open := True\<rparr>"
  let ?c' = "snd (client_send True ''m1'' ''ghost'' ''t'' [] ?c)"
  let ?e = "sample_env\<lparr>parse := (\<lambda>raw. Inr (last (outbox ?c')))\<rparr>"
  have a: "ws_open ?c" "dict_get (pending_futures ?c) ''m1'' = None" "''ghost'' \<noteq> []"
    "client_send True ''m1'' ''ghost'' ''t'' [] ?c = (Inr 0, ?c')"
    "payload_bytes [] \<le> DEFAULT_NMB_MAX_PAYLOAD_BYTES"
    by (simp_all add: bus_init_def client_send_def send_begin_ok payload_bytes_def DEFAULT_NMB_MAX_PAYLOAD_BYTES_def)
  have e: "parse ?e ''x'' = Inr (last (outbox ?c'))" "\<forall>j. send_ok ?e 1 (ack_frame j)"
    "\<forall>j cd t. send_ok ?e 1 (error_frame j cd t)" by (simp_all add: sample_env_def)
  have "dict_get (connections (broker two_sandboxes)) ''ghost'' = None"
    by (simp add: two_sandboxes_def sample_defs broker_eval)
  with send_outcome [OF a(1-4) e(1) a(5) e(2,3), of "''a''" "broker two_sandboxes"] show ?thesis
    by (simp add: Let_def)
qed

lemma sent_request:
  assumes "m_to_sandbox msg = Some to" and "to \<noteq> []" and "dict_get (connections b) to = Some tw"
    and "dict_default (pending_counts b) s 0 < cfg_max_pending_per_sandbox (config b)" and "\<forall>w m. send_ok e w m"
  shows "handle_request e s w msg b = send_ack e w (m_id msg) (Some msg) (try_send e tw (make_deliver msg) (register_pending e s msg b))"
  using assms by (simp add: handle_request_def Let_def)

lemma sent_reply_to:
  assumes "m_reply_to msg = Some rid" and "rid \<noteq> []" and "dict_get (pendings b) rid = Some tr"
    and "dict_get (connections b) (pr_from_sandbox (tp_pending tr)) = Some rw" and "\<forall>w m. send_ok e w m"
  shows "sent (handle_reply e s w msg b) = sent b @ [(rw, make_deliver msg)]"
  using assms by (simp add: handle_reply_def Let_def sent_simps frames_if_def)

lemma client_gets_reply:
  assumes "m_reply_to m = Some i" and "i \<noteq> []" and "dict_get (pending_futures c) i = Some f"
    and "dict_get (futures c) f = Some Pending"
  shows "await_result f (client_dispatch (make_deliver m) c) = Some (Inr (Some (make_deliver m)))"
  using assms
  by (simp add: client_dispatch_def dispatch_deliver_def Let_def dict_has_def await_result_def futures_settle)

lemma client_ignores_ack: "dict_get (pending_acks c) i = None \<Longrightarrow> client_dispatch (ack_frame i) c = c"
  by (simp add: client_dispatch_def dispatch_ack_def ack_frame_def)

lemma client_request_ok:
  assumes "ws_open c"
  shows "client_request True i to ty p tmo c =
    (Inr (next_fut c), (new_request i c)\<lparr>outbox := outbox c @ [request_msg i to ty p tmo]\<rparr>)"
  using assms by (simp add: client_request_def new_request_def create_future_def conn_send_def Let_def request_msg_def)

text \<open>
  C12: A request is answered end to end. Let client \<open>a\<close> issue a request with a fresh id to a
  connected sandbox \<open>d\<close> while below its limit, let \<open>d\<close> reply to the message it was
  delivered, and let every send succeed. Then, after the broker has dispatched the two
  frames, the caller of \<open>request\<close> gets exactly the reply, with \<open>d\<close> as its sender.
\<close>

theorem request_answered:
  assumes "ws_open c" and "dict_get (pending_acks c) i = None" and "i \<noteq> []" and "d \<noteq> []"
    and "client_request True i d ty p tmo c = (Inr f, c')" and "parse e raw = Inr (last (outbox c'))"
    and "payload_bytes p \<le> DEFAULT_NMB_MAX_PAYLOAD_BYTES"
    and "dict_default (pending_counts b) a 0 < cfg_max_pending_per_sandbox (config b)"
    and "dict_get (connections b) a = Some w" and "dict_get (connections b) d = Some wd"
    and "ws_open cd" and "parse e' raw' = Inr (last (outbox (snd (client_reply True j (make_deliver (stamp e a (last (outbox c')))) ty' p' cd))))"
    and "payload_bytes p' \<le> DEFAULT_NMB_MAX_PAYLOAD_BYTES" and "\<forall>w m. send_ok e w m \<and> send_ok e' w m"
  shows "let b1 = dispatch e a w raw b; b2 = dispatch e' d wd raw' b1 in
    \<exists>reply. await_result f (receive_all (new_frames w b b2) c') = Some (Inr (Some reply)) \<and>
      m_from_sandbox reply = Some d \<and> m_reply_to reply = Some i \<and> m_type reply = Some ty' \<and> m_payload reply = Some p'"
proof -
  let ?q = "request_msg i d ty p tmo"
  let ?m = "stamp e a ?q"
  let ?r = "reply_msg j (make_deliver ?m) ty' p'"
  let ?s = "stamp e' d ?r"
  have c': "f = next_fut c" "c' = (new_request i c)\<lparr>outbox := outbox c @ [?q]\<rparr>"
    using assms(1,5) by (simp_all add: client_request_ok)
  have m: "m_op ?q = Op_REQUEST" "m_id ?m = i" "m_to_sandbox ?m = Some d" "m_reply_to ?m = None"
    by (simp_all add: request_msg_def stamp_def new_message_def)
  have r: "m_op ?r = Op_REPLY" "m_reply_to ?s = Some i" "m_from_sandbox ?s = Some d" "m_type ?s = Some ty'" "m_payload ?s = Some p'"
    using m(2) by (simp_all add: reply_msg_def stamp_def new_message_def)
  have v: "validate_frame ?m = None" "validate_frame ?s = None"
    using assms(7,13) by (simp_all add: validate_frame_None_iff field_missing_def request_msg_def reply_msg_def stamp_def)
  have raws: "parse e raw = Inr ?q" "parse e' raw' = Inr ?r"
    using assms(6,11,12) c' by (simp_all add: client_reply_def conn_send_def)
  let ?b1 = "send_ack e w i (Some ?m) (try_send e wd (make_deliver ?m) (register_pending e a ?m b))"
  have ok: "\<forall>w m. send_ok e w m" "\<forall>w m. send_ok e' w m" using assms(14) by auto
  have b1: "dispatch e a w raw b = ?b1"
    using sent_request [OF m(3) assms(4,10,8) ok(1), of w] m by (simp add: dispatch_valid [OF raws(1) v(1)] route_def)
  have p1: "dict_get (pendings ?b1) i = Some (new_tracked e a ?m b)" and c1: "connections ?b1 = connections b"
    using m(2) by (simp_all add: dict_simps)
  have s1: "sent ?b1 = sent b @ [(wd, make_deliver ?m), (w, ack_frame i)]"
    using ok(1) by (simp add: sent_simps frames_if_def)
  have "sent (dispatch e' d wd raw' ?b1) = sent ?b1 @ [(w, make_deliver ?s)]"
    using sent_reply_to [OF r(2) assms(3) p1 _ ok(2), of w] assms(9) c1 r(1)
    by (simp add: dispatch_valid [OF raws(2) v(2)] route_def)
  then have frames: "new_frames w b (dispatch e' d wd raw' ?b1) =
      map snd (filter (\<lambda>f. fst f = w) [(wd, make_deliver ?m), (w, ack_frame i), (w, make_deliver ?s)])"
    by (intro new_frames_append) (simp add: s1)
  have get: "await_result f (client_dispatch (make_deliver ?s) g) = Some (Inr (Some (make_deliver ?s)))"
    if "pending_futures g = pending_futures c'" "futures g = futures c'" for g
    by (rule client_gets_reply [OF r(2) assms(3)]) (simp_all add: that c' dict_simps)
  have pa: "dict_get (pending_acks c') i = None" using c' assms(2) by simp
  have "await_result f (receive_all (new_frames w b (dispatch e' d wd raw' ?b1)) c') = Some (Inr (Some (make_deliver ?s)))"
    using client_gets_other_delivery [OF m(4), of c'] get pa
    unfolding frames receive_all_def by (simp add: client_ignores_ack)
  with r show ?thesis unfolding Let_def b1 by simp
qed

definition asking_client :: MessageBus where
  "asking_client = (bus_init ''a'' ''url'' False [])\<lparr>ws_open := True\<rparr>"

definition asked_client :: MessageBus where
  "asked_client = snd (client_request True ''r1'' ''b'' ''t'' [] 300 asking_client)"

definition answering_env :: env where
  "answering_env = sample_env\<lparr>parse := (\<lambda>raw. if raw = ''req'' then Inr (last (outbox asked_client))
     else Inr (last (outbox (snd (client_reply True ''r2''
       (make_deliver (stamp sample_env ''a'' (last (outbox asked_client)))) ''done'' [] asking_client)))))\<rparr>"

theorem request_answered_witness:
  "let b = broker two_sandboxes; b2 = dispatch answering_env ''b'' 2 ''rep'' (dispatch answering_env ''a'' 1 ''req'' b) in
   \<exists>reply. await_result 0 (receive_all (new_frames 1 b b2) asked_client) = Some (Inr (Some reply)) \<and> m_from_sandbox reply = Some ''b''"
proof -
  let ?b = "broker two_sandboxes"
  have c: "ws_open asking_client" "dict_get (pending_acks asking_client) ''r1'' = None"
    "client_request True ''r1'' ''b'' ''t'' [] 300 asking_client = (Inr 0, asked_client)"
    by (simp_all add: asking_client_def asked_client_def bus_init_def client_request_ok)
  have b: "dict_default (pending_counts ?b) ''a'' 0 < cfg_max_pending_per_sandbox (config ?b)"
    "dict_get (connections ?b) ''a'' = Some 1" "dict_get (connections ?b) ''b'' = Some 2"
    by (simp_all add: two_sandboxes_def sample_defs broker_eval)
  have p: "payload_bytes [] \<le> DEFAULT_NMB_MAX_PAYLOAD_BYTES"
    by (simp add: payload_bytes_def DEFAULT_NMB_MAX_PAYLOAD_BYTES_def)
  have e: "parse answering_env ''req'' = Inr (last (outbox asked_client))"
    "stamp answering_env = stamp sample_env" "\<forall>w m. send_ok answering_env w m \<and> send_ok answering_env w m"
    by (simp_all add: answering_env_def sample_env_def stamp_def fun_eq_iff)
  have r: "parse answering_env ''rep'' = Inr (last (outbox (snd (client_reply True ''r2''
      (make_deliver (stamp answering_env ''a'' (last (outbox asked_client)))) ''done'' [] asking_client))))"
    unfolding e(2) by (simp add: answering_env_def)
  have n: "''r1'' \<noteq> []" "''b'' \<noteq> []" by simp_all
  show ?thesis
    using request_answered [OF c(1,2) n c(3) e(1) p b c(1) r p e(3)] by (auto simp: Let_def)
qed

end
