(* ===== verification/ToolRegistry.thy ===== *)
theory ToolRegistry
  imports Prelude
begin

text \<open>
  The tool registry (\<^verbatim>\<open>tools/registry.py\<close>): tool specifications, registration with the
  availability check, the surface of non-core tools that a task has discovered, the list of
  definitions offered to the model, and the execution of a tool with its output limit.

  A handler is a function of the keyword arguments and of a context: the outside world and
  the task's surface (the \<open>ContextVar\<close> of the source, which a handler such as
  \<open>tool_search\<close> changes through \<open>mark_surfaced\<close>). Its left result is the text of the
  exception it raised. \<open>json.loads\<close> of the model's argument string is an argument.
  The fuzzy search over tool descriptions is not modelled.
\<close>

section \<open>Values\<close>

text \<open>\<open>repr\<close> of a string, as \<open>KeyError\<close> prints its key.\<close>

definition repr_char :: "char \<Rightarrow> char \<Rightarrow> string" where
  "repr_char quote c =
     (if c = quote \<or> c = CHR 0x5C then [CHR 0x5C, c]
      else if c = CHR 0x0A then [CHR 0x5C, CHR ''n'']
      else if c = CHR 0x0D then [CHR 0x5C, CHR ''r'']
      else if c = CHR 0x09 then [CHR 0x5C, CHR ''t'']
      else let n = (of_char c :: nat) in
        if n < 32 \<or> (127 \<le> n \<and> n \<le> 160) \<or> n = 173 then [CHR 0x5C, CHR ''x'', hex_digit (n div 16), hex_digit (n mod 16)]
        else [c])"

definition py_repr :: "string \<Rightarrow> string" where
  "py_repr s =
     (let quote = (if CHR 0x27 \<in> set s \<and> CHR 0x22 \<notin> set s then CHR 0x22 else CHR 0x27)
      in [quote] @ concat (map (repr_char quote) s) @ [quote])"

text \<open>\<open>str\<close> and truth value of a decoded JSON value.\<close>

fun py_repr_json :: "json \<Rightarrow> string" where
  "py_repr_json JNull = ''None''"
| "py_repr_json (JBool b) = (if b then ''True'' else ''False'')"
| "py_repr_json (JInt i) = int_str i"
| "py_repr_json (JFloat r) = r"
| "py_repr_json (JStr s) = py_repr s"
| "py_repr_json (JList xs) = ''['' @ py_join '', '' (map py_repr_json xs) @ '']''"
| "py_repr_json (JObj kvs) = ''{'' @ py_join '', '' (map (\<lambda>kv. py_repr (fst kv) @ '': '' @ py_repr_json (snd kv)) kvs) @ ''}''"

definition py_str_json :: "json \<Rightarrow> string" where
  "py_str_json v = (case v of JStr s \<Rightarrow> s | _ \<Rightarrow> py_repr_json v)"

fun json_truthy :: "json \<Rightarrow> bool" where
  "json_truthy JNull = False"
| "json_truthy (JBool b) = b"
| "json_truthy (JInt i) = (i \<noteq> 0)"
| "json_truthy (JFloat r) = (r \<noteq> ''0.0'' \<and> r \<noteq> ''-0.0'')"
| "json_truthy (JStr s) = (s \<noteq> [])"
| "json_truthy (JList xs) = (xs \<noteq> [])"
| "json_truthy (JObj kvs) = (kvs \<noteq> [])"

type_synonym kwargs = "(string \<times> json) list"
type_synonym 'w tool_context = "'w \<times> string pyset"

record 'w ToolSpec =
  ts_name :: string
  ts_description :: string
  ts_input_schema :: json
  ts_handler :: "kwargs \<Rightarrow> 'w tool_context \<Rightarrow> (string + string) \<times> 'w tool_context"
  is_read_only :: bool
  is_concurrency_safe :: bool
  is_core :: bool
  ts_display_name :: string
  ts_toolset :: string
  check_fn :: "bool option"
  max_result_chars :: int

record FunctionDefinition =
  fd_name :: string
  fd_description :: string
  fd_parameters :: json

record ToolDefinition =
  td_function :: FunctionDefinition
  td_type :: string

definition to_definition :: "'w ToolSpec \<Rightarrow> ToolDefinition" where
  "to_definition spec = \<lparr>td_function = \<lparr>fd_name = ts_name spec, fd_description = ts_description spec,
     fd_parameters = ts_input_schema spec\<rparr>, td_type = ''function''\<rparr>"

text \<open>The \<open>@tool\<close> decorator: the defaults of its keyword arguments.\<close>

definition DEFAULT_MAX_RESULT_CHARS :: int where "DEFAULT_MAX_RESULT_CHARS = 8000"

definition tool ::
  "string \<Rightarrow> string \<Rightarrow> json \<Rightarrow> (kwargs \<Rightarrow> 'w tool_context \<Rightarrow> (string + string) \<times> 'w tool_context) \<Rightarrow> 'w ToolSpec" where
  "tool name description parameters fn = \<lparr>ts_name = name, ts_description = description,
     ts_input_schema = parameters, ts_handler = fn, is_read_only = True, is_concurrency_safe = True,
     is_core = True, ts_display_name = [], ts_toolset = [], check_fn = None,
     max_result_chars = DEFAULT_MAX_RESULT_CHARS\<rparr>"

text \<open>The shape of a JSON schema for parameters, and the names a call may pass.\<close>

definition object_schema :: "(string \<times> json) list \<Rightarrow> string list \<Rightarrow> json" where
  "object_schema props req = JObj ([(''type'', JStr ''object''), (''properties'', JObj props)] @
     (if req = [] then [] else [(''required'', JList (map JStr req))]))"

definition typed :: "string \<Rightarrow> (string \<times> json) list \<Rightarrow> json" where
  "typed ty kvs = JObj ((''type'', JStr ty) # kvs)"

definition only_keys :: "string list \<Rightarrow> kwargs \<Rightarrow> bool" where
  "only_keys ks kw = list_all (\<lambda>kv. fst kv \<in> set ks) kw"

section \<open>The registry\<close>

record 'w ToolRegistry =
  tools :: "(string, 'w ToolSpec) dict"
  skipped_toolsets :: "string pyset"

definition registry_init :: "'w ToolRegistry" where
  "registry_init = \<lparr>tools = [], skipped_toolsets = []\<rparr>"

datatype registry_error = ValueError string

definition register_tool :: "'w ToolSpec \<Rightarrow> 'w ToolRegistry \<Rightarrow> registry_error + 'w ToolRegistry" where
  "register_tool spec r =
     (if dict_has (tools r) (ts_name spec)
      then Inl (ValueError (''Tool '' @ py_repr (ts_name spec) @ '' already registered''))
      else if check_fn spec = Some False
      then if ts_toolset spec \<noteq> [] \<and> ts_toolset spec \<notin> set (skipped_toolsets r)
           then Inr (r\<lparr>skipped_toolsets := set_add (ts_toolset spec) (skipped_toolsets r)\<rparr>)
           else Inr r
      else Inr (r\<lparr>tools := dict_set (ts_name spec) spec (tools r)\<rparr>))"

definition get_tool :: "'w ToolRegistry \<Rightarrow> string \<Rightarrow> 'w ToolSpec option" where
  "get_tool r name = dict_get (tools r) name"

definition display_name :: "'w ToolRegistry \<Rightarrow> string \<Rightarrow> string" where
  "display_name r name = (case get_tool r name of
     Some spec \<Rightarrow> if ts_display_name spec \<noteq> [] then ts_display_name spec else ''Running '' @ name
   | None \<Rightarrow> ''Running '' @ name)"

definition tool_names_of :: "'w ToolRegistry \<Rightarrow> string list" where
  "tool_names_of r = dict_keys (tools r)"

definition toolsets :: "'w ToolRegistry \<Rightarrow> string pyset" where
  "toolsets r = remdups (filter (\<lambda>t. t \<noteq> []) (map ts_toolset (dict_values (tools r))))"

definition names_in_toolset :: "'w ToolRegistry \<Rightarrow> string \<Rightarrow> string list" where
  "names_in_toolset r ts = map ts_name (filter (\<lambda>s. ts_toolset s = ts) (dict_values (tools r)))"

definition core_names :: "'w ToolRegistry \<Rightarrow> string list" where
  "core_names r = map ts_name (filter is_core (dict_values (tools r)))"

definition non_core_names :: "'w ToolRegistry \<Rightarrow> string list" where
  "non_core_names r = map ts_name (filter (\<lambda>s. \<not> is_core s) (dict_values (tools r)))"

text \<open>The surface of a task, as a value: \<open>reset_tool_surface\<close> makes it empty.\<close>

definition reset_tool_surface :: "string pyset" where
  "reset_tool_surface = []"

definition mark_surfaced :: "'w ToolRegistry \<Rightarrow> string list \<Rightarrow> string pyset \<Rightarrow> string pyset" where
  "mark_surfaced r names sf =
     fold set_add (filter (\<lambda>n. case get_tool r n of Some spec \<Rightarrow> \<not> is_core spec | None \<Rightarrow> False) names) sf"

definition tool_definitions :: "'w ToolRegistry \<Rightarrow> string pyset \<Rightarrow> ToolDefinition list" where
  "tool_definitions r sf =
     map to_definition (filter (\<lambda>spec. is_core spec \<or> ts_name spec \<in> set sf) (dict_values (tools r)))"

definition all_tool_definitions :: "'w ToolRegistry \<Rightarrow> ToolDefinition list" where
  "all_tool_definitions r = map to_definition (dict_values (tools r))"

definition truncate :: "string \<Rightarrow> int \<Rightarrow> string" where
  "truncate text limit =
     (if int (length text) \<le> limit then text
      else let omitted = int (length text) - limit in
        slice_to limit text @ newline @ ''... (truncated, '' @ int_str omitted @ '' chars omitted)'')"

text \<open>\<open>execute\<close>: \<open>loads\<close> gives the keyword arguments or the text of the error it raises.\<close>

definition execute ::
  "(string \<Rightarrow> string + kwargs) \<Rightarrow> 'w ToolRegistry \<Rightarrow> string \<Rightarrow> string \<Rightarrow> 'w tool_context \<Rightarrow> (string + string) \<times> 'w tool_context" where
  "execute loads r name arguments_json ctx =
     (case get_tool r name of
        None \<Rightarrow> (Inl (py_repr name), ctx)
      | Some spec \<Rightarrow>
         (case (if arguments_json = [] then Inr [] else loads arguments_json) of
            Inl err \<Rightarrow> (Inl err, ctx)
          | Inr args \<Rightarrow>
             (case ts_handler spec args ctx of
                (Inl err, ctx') \<Rightarrow> (Inl err, ctx')
              | (Inr result, ctx') \<Rightarrow> (Inr (truncate result (max_result_chars spec)), ctx'))))"

text \<open>Registering a list of tools; an exception ends it.\<close>

fun register_all :: "'w ToolSpec list \<Rightarrow> 'w ToolRegistry \<Rightarrow> registry_error + 'w ToolRegistry" where
  "register_all [] r = Inr r"
| "register_all (s # ss) r = (case register_tool s r of Inl err \<Rightarrow> Inl err | Inr r' \<Rightarrow> register_all ss r')"

section \<open>Invariant\<close>

text \<open>Every entry is stored under its own name, and passed its availability check.\<close>

definition registry_inv :: "'w ToolRegistry \<Rightarrow> bool" where
  "registry_inv r =
     (dict_wf (tools r) \<and>
      (\<forall>n spec. dict_get (tools r) n = Some spec \<longrightarrow> ts_name spec = n \<and> check_fn spec \<noteq> Some False))"

inductive registry_step :: "'w ToolRegistry \<Rightarrow> 'w ToolRegistry \<Rightarrow> bool" where
  reg_ok: "register_tool spec r = Inr r' \<Longrightarrow> registry_step r r'"

lemma registry_init_inv: "registry_inv registry_init"
  by (simp add: registry_inv_def registry_init_def)

lemma register_tool_inv: "register_tool spec r = Inr r' \<Longrightarrow> registry_inv r \<Longrightarrow> registry_inv r'"
  by (auto simp: register_tool_def registry_inv_def dict_simps split: if_splits)

lemma registry_reachable_inv: "registry_step\<^sup>*\<^sup>* registry_init r \<Longrightarrow> registry_inv r"
  by (induction rule: rtranclp_induct) (auto simp: registry_init_inv registry_step.simps intro: register_tool_inv)

lemma dict_set_fresh: "k \<notin> fst ` set d \<Longrightarrow> dict_set k v d = d @ [(k, v)]"
  unfolding dict_set_def by (induction d) auto

lemma register_fresh:
  "check_fn s \<noteq> Some False \<Longrightarrow> ts_name s \<notin> fst ` set ts \<Longrightarrow>
     register_tool s \<lparr>tools = ts, skipped_toolsets = sk\<rparr> = Inr \<lparr>tools = ts @ [(ts_name s, s)], skipped_toolsets = sk\<rparr>"
  by (simp add: register_tool_def dict_has_def dict_get_def map_of_eq_None_iff dict_set_fresh)

lemma register_all_fresh:
  "list_all (\<lambda>s. check_fn s \<noteq> Some False) ss \<Longrightarrow> distinct (map ts_name ss) \<Longrightarrow> fst ` set ts \<inter> ts_name ` set ss = {} \<Longrightarrow>
     register_all ss \<lparr>tools = ts, skipped_toolsets = sk\<rparr> = Inr \<lparr>tools = ts @ map (\<lambda>s. (ts_name s, s)) ss, skipped_toolsets = sk\<rparr>"
  by (induction ss arbitrary: ts) (auto simp: register_fresh)

lemma register_all_skipped:
  "list_all (\<lambda>s. check_fn s = Some False) ss \<Longrightarrow> fst ` set ts \<inter> ts_name ` set ss = {} \<Longrightarrow>
     \<exists>sk'. register_all ss \<lparr>tools = ts, skipped_toolsets = sk\<rparr> = Inr \<lparr>tools = ts, skipped_toolsets = sk'\<rparr>"
proof (induction ss arbitrary: sk)
  case (Cons s ss)
  have "\<not> dict_has ts (ts_name s)" using Cons.prems(2) by (simp add: dict_has_def dict_get_def map_of_eq_None_iff)
  then obtain sk' where "register_tool s \<lparr>tools = ts, skipped_toolsets = sk\<rparr> = Inr \<lparr>tools = ts, skipped_toolsets = sk'\<rparr>"
    using Cons.prems(1) by (cases "ts_toolset s \<noteq> [] \<and> ts_toolset s \<notin> set sk") (auto simp: register_tool_def)
  with Cons show ?case by simp
qed simp

lemma set_fold_set_add: "set (fold set_add xs s) = set xs \<union> set s"
  by (induction xs arbitrary: s) (auto simp: set_add_def)

lemma mark_surfaced_iff:
  "n \<in> set (mark_surfaced r names sf) \<longleftrightarrow>
     n \<in> set sf \<or> n \<in> set names \<and> (\<exists>spec. get_tool r n = Some spec \<and> \<not> is_core spec)"
  by (auto simp: mark_surfaced_def set_fold_set_add split: option.splits)

lemma values_tools: "registry_inv r \<Longrightarrow> spec \<in> set (dict_values (tools r)) \<longleftrightarrow> get_tool r (ts_name spec) = Some spec"
proof -
  assume inv: "registry_inv r"
  then have "spec \<in> set (dict_values (tools r)) \<longleftrightarrow> (\<exists>n. dict_get (tools r) n = Some spec)"
    by (intro dict_values_iff) (simp add: registry_inv_def)
  with inv show ?thesis unfolding registry_inv_def get_tool_def by blast
qed

section \<open>Properties\<close>

text \<open>
  What the model can call. In a registry built by registrations, a definition is offered
  exactly for the registered tools that are core or whose name is on the task's surface;
  surfacing names adds exactly the named non-core tools to the offer; after a reset only
  core tools are offered. No name is offered twice.
\<close>

theorem tool_visibility:
  fixes r :: "'w ToolRegistry"
  assumes "registry_step\<^sup>*\<^sup>* registry_init r"
  shows "(d \<in> set (tool_definitions r sf) \<longleftrightarrow>
      (\<exists>n spec. get_tool r n = Some spec \<and> d = to_definition spec \<and> (is_core spec \<or> n \<in> set sf))) \<and>
    (d \<in> set (tool_definitions r (mark_surfaced r names sf)) \<longleftrightarrow>
      d \<in> set (tool_definitions r sf) \<or>
      (\<exists>n \<in> set names. \<exists>spec. get_tool r n = Some spec \<and> \<not> is_core spec \<and> d = to_definition spec)) \<and>
    (d \<in> set (tool_definitions r reset_tool_surface) \<longleftrightarrow>
      (\<exists>n spec. get_tool r n = Some spec \<and> is_core spec \<and> d = to_definition spec)) \<and>
    distinct (map (fd_name \<circ> td_function) (tool_definitions r sf))"
proof -
  note inv = registry_reachable_inv [OF assms]
  have name: "get_tool r n = Some spec \<Longrightarrow> ts_name spec = n" for n spec
    using inv by (simp add: registry_inv_def get_tool_def)
  have mem: "d \<in> set (tool_definitions r sf') \<longleftrightarrow>
      (\<exists>n spec. get_tool r n = Some spec \<and> d = to_definition spec \<and> (is_core spec \<or> n \<in> set sf'))" for sf'
  proof -
    have "d \<in> set (tool_definitions r sf') \<longleftrightarrow> (\<exists>spec. get_tool r (ts_name spec) = Some spec \<and> d = to_definition spec \<and>
        (is_core spec \<or> ts_name spec \<in> set sf'))"
      unfolding tool_definitions_def set_map set_filter image_iff mem_Collect_eq values_tools [OF inv] by blast
    also have "\<dots> \<longleftrightarrow> (\<exists>n spec. get_tool r n = Some spec \<and> d = to_definition spec \<and> (is_core spec \<or> n \<in> set sf'))"
    proof
      assume "\<exists>n spec. get_tool r n = Some spec \<and> d = to_definition spec \<and> (is_core spec \<or> n \<in> set sf')"
      then obtain n spec where h: "get_tool r n = Some spec" "d = to_definition spec" "is_core spec \<or> n \<in> set sf'" by blast
      with name [OF h(1)] show "\<exists>spec. get_tool r (ts_name spec) = Some spec \<and> d = to_definition spec \<and>
          (is_core spec \<or> ts_name spec \<in> set sf')" by auto
    qed blast
    finally show ?thesis .
  qed
  have "map ts_name (dict_values (tools r)) = dict_keys (tools r)"
    unfolding dict_values_def dict_keys_def map_map comp_def
  proof (rule map_cong [OF refl])
    fix x assume "x \<in> set (tools r)"
    then have "get_tool r (fst x) = Some (snd x)"
      using inv by (simp add: registry_inv_def get_tool_def dict_mem_get [symmetric])
    then show "ts_name (snd x) = fst x" by (rule name)
  qed
  then have "distinct (map ts_name (dict_values (tools r)))"
    using inv by (simp add: registry_inv_def dict_wf_def dict_keys_def)
  then have "distinct (map (fd_name \<circ> td_function) (tool_definitions r sf))"
    by (simp add: tool_definitions_def comp_def to_definition_def distinct_map_filter)
  then show ?thesis
    unfolding mem by (auto simp: mark_surfaced_iff reset_tool_surface_def dest: name)
qed

definition sample_tool :: "bool \<Rightarrow> string \<Rightarrow> unit ToolSpec" where
  "sample_tool core n = (tool n ''sample'' (JObj []) (\<lambda>args ctx. (Inr ''ok'', ctx)))\<lparr>is_core := core\<rparr>"

definition sample_registry :: "unit ToolRegistry" where
  "sample_registry = \<lparr>tools = [(''read_file'', sample_tool True ''read_file''), (''search_jira'', sample_tool False ''search_jira'')],
     skipped_toolsets = []\<rparr>"

lemma sample_registry_run: "registry_step\<^sup>*\<^sup>* registry_init sample_registry"
proof -
  let ?r = "\<lparr>tools = [(''read_file'', sample_tool True ''read_file'')], skipped_toolsets = []\<rparr>"
  have "registry_step registry_init ?r"
    by (rule reg_ok [of "sample_tool True ''read_file''"])
       (simp add: register_tool_def registry_init_def sample_tool_def tool_def dict_has_def dict_set_def)
  moreover have "registry_step ?r sample_registry"
    by (rule reg_ok [of "sample_tool False ''search_jira''"])
       (simp add: register_tool_def sample_registry_def sample_tool_def tool_def dict_has_def dict_set_def dict_get_def)
  ultimately show ?thesis by (meson r_into_rtranclp rtranclp.rtrancl_into_rtrancl)
qed

theorem tool_visibility_witness:
  "to_definition (sample_tool False ''search_jira'') \<in> set (tool_definitions sample_registry (mark_surfaced sample_registry [''search_jira''] [])) \<and>
   distinct (map (fd_name \<circ> td_function) (tool_definitions sample_registry []))"
proof -
  have "get_tool sample_registry ''search_jira'' = Some (sample_tool False ''search_jira'')"
    "\<not> is_core (sample_tool False ''search_jira'')"
    by (simp_all add: get_tool_def sample_registry_def dict_get_def sample_tool_def tool_def)
  then have "\<exists>n \<in> set [''search_jira'']. \<exists>spec. get_tool sample_registry n = Some spec \<and> \<not> is_core spec \<and>
      to_definition (sample_tool False ''search_jira'') = to_definition spec" by auto
  with tool_visibility [OF sample_registry_run, of "to_definition (sample_tool False ''search_jira'')" "[]" "[''search_jira'']"]
  show ?thesis by blast
qed

lemma nat_str_length: "n < 10 ^ k \<Longrightarrow> 0 < k \<Longrightarrow> length (nat_str n) \<le> k"
proof (induction k arbitrary: n)
  case (Suc k)
  show ?case
  proof (cases "n < 10")
    case False
    with Suc.prems have "n div 10 < 10 ^ k" "0 < k" by (auto simp: less_mult_imp_div_less) (cases k; auto)
    with Suc.IH [of "n div 10"] False show ?thesis by (simp add: nat_str_large)
  qed (simp add: nat_str_small)
qed simp

lemma length_truncate:
  assumes "0 \<le> limit" and "length text < 10 ^ 20"
  shows "int (length (truncate text limit)) \<le> limit + 53"
proof (cases "int (length text) \<le> limit")
  case False
  have "nat (int (length text) - limit) < 10 ^ 20" using assms False by linarith
  from nat_str_length [OF this] have "length (int_str (int (length text) - limit)) \<le> 20"
    using False by (simp add: int_str_def)
  moreover have "length (slice_to limit text) = nat limit"
    using assms(1) False by (simp add: length_slice_to_nonneg)
  ultimately show ?thesis using False assms(1) by (simp add: truncate_def Let_def newline_def)
qed (simp add: truncate_def)

text \<open>
  Tool output is bounded. Whatever a tool's handler returns, for a limit that is not
  negative the text that \<open>execute\<close> passes on is the handler's text if that fits, and
  otherwise its first \<open>max_result_chars\<close> characters followed by the omission notice,
  which is at most 53 characters longer than the limit for outputs below \<open>10^20\<close>
  characters. Nothing but the handler can make a registered tool with valid arguments fail.
\<close>

theorem execute_bounded:
  assumes "get_tool r name = Some spec" and "0 \<le> max_result_chars spec" and "loads args = Inr kw" and "args \<noteq> []"
    and "ts_handler spec kw ctx = (Inr result, ctx')" and "length result < 10 ^ 20"
  shows "\<exists>out. execute loads r name args ctx = (Inr out, ctx') \<and>
    int (length out) \<le> max_result_chars spec + 53 \<and>
    (if int (length result) \<le> max_result_chars spec then out = result
     else take (nat (max_result_chars spec)) out = take (nat (max_result_chars spec)) result)"
proof -
  have "take (nat m) (truncate result m) = take (nat m) result" if "0 \<le> m" "\<not> int (length result) \<le> m" for m
    using that by (simp add: truncate_def Let_def slice_to_nonneg)
  then show ?thesis
    using assms length_truncate [OF assms(2,6)] by (auto simp: execute_def truncate_def)
qed

theorem execute_bounded_witness:
  "\<exists>out. execute (\<lambda>s. Inr []) sample_registry ''read_file'' ''{}'' ((), []) = (Inr out, ((), [])) \<and> length out \<le> 8053"
proof -
  let ?s = "sample_tool True ''read_file''"
  have a: "get_tool sample_registry ''read_file'' = Some ?s" "0 \<le> max_result_chars ?s"
    "ts_handler ?s [] ((), []) = (Inr ''ok'', ((), []))" "max_result_chars ?s = 8000"
    by (simp_all add: get_tool_def sample_registry_def dict_get_def sample_tool_def tool_def DEFAULT_MAX_RESULT_CHARS_def)
  have n: "(\<lambda>s. Inr []) ''{}'' = Inr []" "''{}'' \<noteq> []" "length ''ok'' < 10 ^ 20" by simp_all
  from execute_bounded [OF a(1,2) n(1,2) a(3) n(3)] a(4) show ?thesis by auto
qed

end
