(* ===== verification/Compaction.thy ===== *)
theory Compaction
  imports ToolRegistry
begin

text \<open>
  Conversation messages (\<^verbatim>\<open>models/types.py\<close>), the two tiers of context compaction
  (\<^verbatim>\<open>agent/compaction.py\<close>) and the repair of a model response
  (\<^verbatim>\<open>orchestrator/transcript_repair.py\<close>).

  A message is a record of the keys the program puts in its message dictionaries; every
  message it builds has a string content. The inference backend is an argument: a function
  of the request and the outside world, whose left result is the exception it raises.
\<close>

section \<open>Messages and inference\<close>

datatype MessageRole = ROLE_SYSTEM | ROLE_USER | ROLE_ASSISTANT | ROLE_TOOL

text \<open>\<open>role.capitalize()\<close>.\<close>

fun role_title :: "MessageRole \<Rightarrow> string" where
  "role_title ROLE_SYSTEM = ''System''"
| "role_title ROLE_USER = ''User''"
| "role_title ROLE_ASSISTANT = ''Assistant''"
| "role_title ROLE_TOOL = ''Tool''"

record ToolCall =
  call_id :: string
  call_name :: string
  call_arguments :: string

record Message =
  role :: MessageRole
  content :: string
  msg_tool_calls :: "ToolCall list option"
  tool_call_id :: "string option"

definition text_message :: "MessageRole \<Rightarrow> string \<Rightarrow> Message" where
  "text_message r c = \<lparr>role = r, content = c, msg_tool_calls = None, tool_call_id = None\<rparr>"

definition tool_message :: "string \<Rightarrow> string \<Rightarrow> Message" where
  "tool_message i c = \<lparr>role = ROLE_TOOL, content = c, msg_tool_calls = None, tool_call_id = Some i\<rparr>"

record InferenceRequest =
  rq_messages :: "Message list"
  rq_model :: string
  rq_temperature :: pyfloat
  rq_max_tokens :: int
  rq_request_id :: string
  rq_tools :: "ToolDefinition list option"

record InferenceResponse =
  rs_content :: string
  finish_reason :: string
  rs_tool_calls :: "ToolCall list"

type_synonym 'w backend = "InferenceRequest \<Rightarrow> 'w \<Rightarrow> (string + InferenceResponse) \<times> 'w"

record AgentLoopConfig =
  cfg_model :: string
  cfg_temperature :: pyfloat
  cfg_max_tokens :: int
  max_tool_rounds :: int
  max_continuation_retries :: int
  micro_compaction_chars :: int
  compaction_threshold_chars :: int
  compaction_compress_ratio :: pyfloat
  compaction_min_keep :: int
  compaction_model :: string

section \<open>Micro-compaction\<close>

definition truncation_notice :: "nat \<Rightarrow> string" where
  "truncation_notice n = newline @ newline @ ''[Truncated '' @ em_dash @ '' original: '' @ nat_str n @ '' chars]''"

definition truncate_message :: "int \<Rightarrow> Message \<Rightarrow> Message" where
  "truncate_message limit m =
     (if role m = ROLE_TOOL \<and> int (length (content m)) > limit
      then m\<lparr>content := slice_to limit (content m) @ truncation_notice (length (content m))\<rparr> else m)"

definition truncate_tool_results :: "int \<Rightarrow> Message list \<Rightarrow> Message list" where
  "truncate_tool_results limit ms = map (truncate_message limit) ms"

definition should_compact :: "int \<Rightarrow> Message list \<Rightarrow> bool" where
  "should_compact threshold ms = (int (sum_list (map (\<lambda>m. length (content m)) ms)) > threshold)"

section \<open>Full compaction\<close>

definition MIN_MESSAGES_FOR_COMPACTION :: nat where "MIN_MESSAGES_FOR_COMPACTION = 2"
definition MIN_COMPRESS_COUNT :: int where "MIN_COMPRESS_COUNT = 2"
definition MAX_TOOL_RESULT_IN_SUMMARY :: nat where "MAX_TOOL_RESULT_IN_SUMMARY = 500"
definition SUMMARY_MAX_TOKENS :: int where "SUMMARY_MAX_TOKENS = 4096"

definition SUMMARY_SYSTEM_PROMPT :: string where
  "SUMMARY_SYSTEM_PROMPT = ''You are a concise summarizer. Summarize the following conversation '' @
     ''excerpt, preserving all key facts, decisions, tool results, and '' @
     ''action items. Do not add commentary '' @ em_dash @ '' just summarize.''"

definition register_tool_call :: "string \<Rightarrow> string \<Rightarrow> (string, string) dict \<Rightarrow> (string, string) dict" where
  "register_tool_call i n names = (if i \<noteq> [] then dict_set i n names else names)"

definition format_message :: "(string, string) dict \<Rightarrow> Message \<Rightarrow> string list" where
  "format_message names m =
     (if role m = ROLE_TOOL then
        let tc_id = (case tool_call_id m of Some i \<Rightarrow> i | None \<Rightarrow> []);
            tool_name = or_str (dict_get names tc_id) (if tc_id \<noteq> [] then tc_id else ''tool'');
            c = (if length (content m) > MAX_TOOL_RESULT_IN_SUMMARY
                 then take MAX_TOOL_RESULT_IN_SUMMARY (content m) @ ''...'' else content m)
        in [''[Tool result ('' @ tool_name @ '')]: '' @ c]
      else case (role m, msg_tool_calls m) of
        (ROLE_ASSISTANT, Some tcs) \<Rightarrow>
          [''Assistant: [called tools: '' @ py_join '', '' (map call_name tcs) @ '']''] @
          (if content m \<noteq> [] then [''Assistant: '' @ content m] else [])
      | _ \<Rightarrow> [role_title (role m) @ '': '' @ content m])"

definition format_for_summary :: "(string, string) dict \<Rightarrow> Message list \<Rightarrow> string" where
  "format_for_summary names ms = py_join newline (concat (map (format_message names) ms))"

definition summarize ::
  "'w backend \<Rightarrow> AgentLoopConfig \<Rightarrow> (string, string) dict \<Rightarrow> string \<Rightarrow> Message list \<Rightarrow> 'w \<Rightarrow> (string + string) \<times> 'w" where
  "summarize infer cfg names request_id ms w =
     (case infer \<lparr>rq_messages = [text_message ROLE_SYSTEM SUMMARY_SYSTEM_PROMPT,
                       text_message ROLE_USER (format_for_summary names ms)],
                     rq_model = (if compaction_model cfg \<noteq> [] then compaction_model cfg else cfg_model cfg),
                     rq_temperature = 0, rq_max_tokens = SUMMARY_MAX_TOKENS,
                     rq_request_id = request_id @ ''-compact'', rq_tools = None\<rparr> w of
        (Inl err, w') \<Rightarrow> (Inl err, w')
      | (Inr resp, w') \<Rightarrow> (Inr (rs_content resp), w'))"

text \<open>\<open>int(x)\<close> of a float: truncation towards zero.\<close>

definition py_int :: "pyfloat \<Rightarrow> int" where
  "py_int x = (if x < 0 then \<lceil>x\<rceil> else \<lfloor>x\<rfloor>)"

text \<open>How many of \<open>n\<close> conversation messages are summarised.\<close>

definition compress_count :: "AgentLoopConfig \<Rightarrow> nat \<Rightarrow> int" where
  "compress_count cfg n =
     (let c = max MIN_COMPRESS_COUNT (py_int (of_nat n * compaction_compress_ratio cfg));
          keep = max (compaction_min_keep cfg) (int n - c)
      in int n - keep)"

definition summary_pair :: "string \<Rightarrow> Message list" where
  "summary_pair summary = [text_message ROLE_USER (''[Previous conversation summary]'' @ newline @ summary),
     text_message ROLE_ASSISTANT ''Understood, I have the context from our previous conversation.'']"

definition split_system :: "Message list \<Rightarrow> Message list \<times> Message list" where
  "split_system ms = (case ms of
     m # rest \<Rightarrow> if role m = ROLE_SYSTEM then ([m], rest) else ([], ms)
   | [] \<Rightarrow> ([], []))"

definition compact_messages ::
  "'w backend \<Rightarrow> AgentLoopConfig \<Rightarrow> (string, string) dict \<Rightarrow> string \<Rightarrow> Message list \<Rightarrow> 'w \<Rightarrow> (string + Message list) \<times> 'w" where
  "compact_messages infer cfg names request_id ms w =
     (if length ms < MIN_MESSAGES_FOR_COMPACTION then (Inr ms, w)
      else let (sys, conv) = split_system ms in
        if int (length conv) < compaction_min_keep cfg + MIN_COMPRESS_COUNT then (Inr ms, w)
        else let k = compress_count cfg (length conv) in
          (case summarize infer cfg names request_id (slice_to k conv) w of
             (Inl err, w') \<Rightarrow> (Inl err, w')
           | (Inr summary, w') \<Rightarrow> (Inr (sys @ summary_pair summary @ slice_from k conv), w')))"

section \<open>Transcript repair\<close>

definition EMPTY_RESPONSE_FALLBACK :: string where
  "EMPTY_RESPONSE_FALLBACK = ''I wasn'' @ [CHR 0x27] @ ''t able to generate a response. Could you rephrase?''"

definition CONTINUATION_PROMPT :: string where
  "CONTINUATION_PROMPT = ''Resume directly, no apology, no recap. '' @
     ''Pick up mid-thought. Break remaining work into smaller pieces.''"

datatype RepairReason = EMPTY_RESPONSE | TRUNCATED | CONTENT_FILTER

record RepairResult =
  rr_content :: string
  was_repaired :: bool
  repair_reason :: "RepairReason option"
  needs_continuation :: bool

definition repair_response :: "InferenceResponse \<Rightarrow> RepairResult" where
  "repair_response resp =
     (if strip (rs_content resp) = []
      then \<lparr>rr_content = EMPTY_RESPONSE_FALLBACK, was_repaired = True, repair_reason = Some EMPTY_RESPONSE, needs_continuation = False\<rparr>
      else if finish_reason resp = ''length''
      then \<lparr>rr_content = rs_content resp, was_repaired = False, repair_reason = Some TRUNCATED, needs_continuation = True\<rparr>
      else if finish_reason resp = ''content_filter''
      then \<lparr>rr_content = ''My response was filtered. Could you rephrase your request?'', was_repaired = True,
            repair_reason = Some CONTENT_FILTER, needs_continuation = False\<rparr>
      else \<lparr>rr_content = rs_content resp, was_repaired = False, repair_reason = None, needs_continuation = False\<rparr>)"

section \<open>Lemmas\<close>

lemma truncate_message_fields [simp]:
  "role (truncate_message l m) = role m" "msg_tool_calls (truncate_message l m) = msg_tool_calls m"
  "tool_call_id (truncate_message l m) = tool_call_id m"
  by (simp_all add: truncate_message_def)

lemma split_system_append: "split_system ms = (sys, conv) \<Longrightarrow> ms = sys @ conv"
  by (auto simp: split_system_def split: list.splits if_splits)

lemma split_system_head: "split_system ms = (sys, conv) \<Longrightarrow> length sys \<le> 1 \<and> (\<forall>m \<in> set sys. role m = ROLE_SYSTEM)"
  by (auto simp: split_system_def split: list.splits if_splits)

lemma compress_count_bounds:
  assumes "0 \<le> compaction_min_keep cfg" and "int n \<ge> compaction_min_keep cfg + MIN_COMPRESS_COUNT"
  shows "MIN_COMPRESS_COUNT \<le> compress_count cfg n" "compress_count cfg n \<le> int n - compaction_min_keep cfg"
  using assms by (auto simp: compress_count_def Let_def MIN_COMPRESS_COUNT_def max_def)

lemma slice_from_nonneg: "0 \<le> i \<Longrightarrow> slice_from i xs = drop (nat i) xs"
  by (simp add: slice_from_def)

section \<open>Sample values\<close>

definition sample_config :: AgentLoopConfig where
  "sample_config = \<lparr>cfg_model = ''m'', cfg_temperature = 7 / 10, cfg_max_tokens = 2048, max_tool_rounds = 10,
     max_continuation_retries = 2, micro_compaction_chars = 10000, compaction_threshold_chars = 400000,
     compaction_compress_ratio = 1 / 2, compaction_min_keep = 4, compaction_model = []\<rparr>"

definition sample_backend :: "unit backend" where
  "sample_backend req w = (Inr \<lparr>rs_content = ''summary'', finish_reason = ''stop'', rs_tool_calls = []\<rparr>, w)"

definition sample_call :: "string \<Rightarrow> ToolCall" where
  "sample_call i = \<lparr>call_id = i, call_name = ''read_file'', call_arguments = ''{}''\<rparr>"

definition sample_conversation :: "Message list" where
  "sample_conversation =
     [text_message ROLE_SYSTEM ''prompt'', text_message ROLE_USER ''task'',
      (text_message ROLE_ASSISTANT [])\<lparr>msg_tool_calls := Some [sample_call ''c1'', sample_call ''c2'']\<rparr>,
      tool_message ''c1'' ''one'', tool_message ''c2'' ''two'',
      (text_message ROLE_ASSISTANT [])\<lparr>msg_tool_calls := Some [sample_call ''c3'']\<rparr>, tool_message ''c3'' ''three'']"

lemma sample_compress: "compress_count sample_config 6 = 2"
  by (simp add: compress_count_def sample_config_def Let_def MIN_COMPRESS_COUNT_def py_int_def)

lemma sample_compaction:
  "compact_messages sample_backend sample_config [] ''r'' sample_conversation () =
     (Inr ([text_message ROLE_SYSTEM ''prompt''] @ summary_pair ''summary'' @ drop 3 sample_conversation), ())"
proof -
  have s: "split_system sample_conversation = ([text_message ROLE_SYSTEM ''prompt''], tl sample_conversation)"
    by (simp add: split_system_def sample_conversation_def text_message_def)
  have l: "length sample_conversation = 7" "length (tl sample_conversation) = 6" by (simp_all add: sample_conversation_def)
  have d: "slice_from 2 (tl sample_conversation) = drop 3 sample_conversation"
    by (simp add: slice_from_def sample_conversation_def)
  show ?thesis
    unfolding compact_messages_def s
    by (simp add: l sample_compress d summarize_def sample_backend_def MIN_MESSAGES_FOR_COMPACTION_def
        MIN_COMPRESS_COUNT_def) (simp add: sample_config_def)
qed

section \<open>Properties\<close>

text \<open>
  Full compaction keeps the recent conversation. Whenever it returns, either the
  messages are unchanged or the message list splits into an optional system message, a
  head of at least two messages and a tail of at least \<open>compaction_min_keep\<close> messages, and
  the result is the same system message, the summary pair and the same tail.
\<close>

theorem compact_keeps_recent:
  assumes "0 \<le> compaction_min_keep cfg" and "compact_messages infer cfg names rid ms w = (Inr ms', w')"
  shows "ms' = ms \<or> (\<exists>sys head tail summary. ms = sys @ head @ tail \<and> ms' = sys @ summary_pair summary @ tail \<and>
    2 \<le> length head \<and> compaction_min_keep cfg \<le> int (length tail) \<and>
    length sys \<le> 1 \<and> list_all (\<lambda>m. role m = ROLE_SYSTEM) sys)"
proof (cases "ms' = ms")
  case False
  obtain sys conv where sc: "split_system ms = (sys, conv)" by fastforce
  let ?k = "compress_count cfg (length conv)"
  from assms(2) False sc have n: "int (length conv) \<ge> compaction_min_keep cfg + MIN_COMPRESS_COUNT"
    by (auto simp: compact_messages_def Let_def split: if_splits)
  note k = compress_count_bounds [OF assms(1) n]
  have k0: "0 \<le> ?k" using k(1) by (simp add: MIN_COMPRESS_COUNT_def)
  from assms(2) False sc n obtain summary where ms': "ms' = sys @ summary_pair summary @ slice_from ?k conv"
    by (auto simp: compact_messages_def Let_def split: if_splits sum.splits prod.splits)
  have "ms = sys @ slice_to ?k conv @ slice_from ?k conv"
    using split_system_append [OF sc] slice_split [OF k0, of conv] by simp
  moreover have "2 \<le> length (slice_to ?k conv)" "compaction_min_keep cfg \<le> int (length (slice_from ?k conv))"
    using k k0 n assms(1) by (simp_all add: length_slice_to_nonneg slice_from_nonneg MIN_COMPRESS_COUNT_def)
  ultimately show ?thesis
    using ms' split_system_head [OF sc]
    by (intro disjI2 exI [of _ sys] exI [of _ "slice_to ?k conv"] exI [of _ "slice_from ?k conv"] exI [of _ summary])
       (simp add: list_all_iff)
qed simp

theorem compact_keeps_recent_witness:
  "\<exists>ms'. compact_messages sample_backend sample_config [] ''r'' sample_conversation () = (Inr ms', ()) \<and>
     ms' \<noteq> sample_conversation \<and> (\<exists>sys head tail summary. sample_conversation = sys @ head @ tail \<and>
       ms' = sys @ summary_pair summary @ tail \<and> 4 \<le> length tail)"
proof -
  let ?ms = "[text_message ROLE_SYSTEM ''prompt''] @ summary_pair ''summary'' @ drop 3 sample_conversation"
  have k: "0 \<le> compaction_min_keep sample_config" "compaction_min_keep sample_config = 4" by (simp_all add: sample_config_def)
  have "?ms \<noteq> sample_conversation"
    by (simp add: sample_conversation_def summary_pair_def text_message_def)
  with compact_keeps_recent [OF k(1) sample_compaction] k(2) sample_compaction show ?thesis by fastforce
qed

text \<open>
  Micro-compaction keeps the protocol's structure and bounds what tools contribute.
  Every message keeps its role, its tool calls and its tool-call id, in the same order;
  only tool results longer than the limit change, and such a result becomes its first
  \<open>micro_limit\<close> characters followed by the notice of its length.
\<close>

theorem truncate_structure:
  assumes "0 \<le> limit"
  shows "map role (truncate_tool_results limit ms) = map role ms \<and>
    map tool_call_id (truncate_tool_results limit ms) = map tool_call_id ms \<and>
    map msg_tool_calls (truncate_tool_results limit ms) = map msg_tool_calls ms \<and>
    list_all2 (\<lambda>m m'. if role m = ROLE_TOOL \<and> limit < int (length (content m))
      then content m' = take (nat limit) (content m) @ truncation_notice (length (content m)) else m' = m)
      ms (truncate_tool_results limit ms)"
  using assms
  by (auto simp: truncate_tool_results_def list_all2_conv_all_nth truncate_message_def slice_to_nonneg)

theorem truncate_structure_witness:
  "map tool_call_id (truncate_tool_results 1 [tool_message ''c1'' ''one'']) = [Some ''c1''] \<and>
   map role (truncate_tool_results 1 [tool_message ''c1'' ''one'']) = [ROLE_TOOL]"
  using truncate_structure [of 1 "[tool_message ''c1'' ''one'']"] by (simp add: tool_message_def)

text \<open>
  A truncated tool result is itself over the limit: its notice makes it longer than
  \<open>micro_limit\<close>, so the next round truncates it again and replaces the notice, and from
  then on the message reports the length of the truncated text as the original size.
\<close>

theorem truncation_not_idempotent:
  assumes "0 \<le> limit" and "role m = ROLE_TOOL" and "limit < int (length (content m))"
  shows "limit < int (length (content (truncate_message limit m))) \<and>
    content (truncate_message limit (truncate_message limit m)) =
      take (nat limit) (content m) @
      truncation_notice (nat limit + length (truncation_notice (length (content m))))"
proof -
  let ?m = "truncate_message limit m"
  have c: "content ?m = take (nat limit) (content m) @ truncation_notice (length (content m))"
    using assms by (simp add: truncate_message_def slice_to_nonneg)
  have len: "length (content ?m) = nat limit + length (truncation_notice (length (content m)))"
    using assms c by simp
  have "0 < length (truncation_notice n)" for n by (simp add: truncation_notice_def newline_def)
  then have gt: "limit < int (length (content ?m))" using assms(1) len by simp
  have "nat limit \<le> length (content m)" using assms by linarith
  then have "take (nat limit) (content ?m) = take (nat limit) (content m)" using c by simp
  moreover have "content (truncate_message limit ?m) =
      take (nat limit) (content ?m) @ truncation_notice (length (content ?m))"
    using assms gt by (simp add: truncate_message_def [of limit ?m] slice_to_nonneg)
  ultimately show ?thesis using gt len by simp
qed

theorem truncation_not_idempotent_witness:
  "1 < length (content (truncate_message 1 (tool_message ''c1'' ''one''))) \<and>
   content (truncate_message 1 (truncate_message 1 (tool_message ''c1'' ''one''))) =
     ''o'' @ truncation_notice (1 + length (truncation_notice (length ''one'')))"
  using truncation_not_idempotent [of 1 "tool_message ''c1'' ''one''"]
  unfolding tool_message_def by simp

text \<open>
  Full compaction can separate tool results from the call they answer: in a concrete
  conversation with the default settings the kept tail starts with a tool result whose
  assistant message was summarised away, so that the next request carries a tool message
  without a preceding tool call.
\<close>

theorem compaction_orphans_tool_result:
  "\<exists>ms'. compact_messages sample_backend sample_config [] ''r'' sample_conversation () = (Inr ms', ()) \<and>
     map role (take 4 ms') = [ROLE_SYSTEM, ROLE_USER, ROLE_ASSISTANT, ROLE_TOOL] \<and>
     map msg_tool_calls (take 3 ms') = [None, None, None] \<and> tool_call_id (ms' ! 3) = Some ''c1''"
  by (rule exI, rule conjI, rule sample_compaction)
     (simp add: summary_pair_def sample_conversation_def text_message_def tool_message_def)

end
