(* ===== verification/AgentLoop.thy ===== *)
theory AgentLoop
  imports Compaction AuditDb "HOL-Library.Multiset"
begin

text \<open>
  The agent loop (\<^verbatim>\<open>agent/loop.py\<close>) with its approval gates (\<^verbatim>\<open>agent/approval.py\<close>): rounds of
  inference, the write-approval gate, concurrent and sequential tool execution, and the
  continuation of truncated responses.

  The record \<open>loop_env\<close> holds what is injected into the loop: backend, registry, settings,
  gate, audit sink, and the order in which gathered tool calls complete. \<open>asyncio.gather\<close>
  wraps every coroutine in a task of its own, which runs in a copy of the caller's context:
  what a gathered tool does to the surface (a \<open>ContextVar\<close>) is gone when it ends. The loop
  over rounds runs at most \<open>max_tool_rounds\<close> times, which is the fuel of \<open>run_rounds\<close>.
  The connector callbacks, whose exceptions are swallowed, are not modelled. The trace
  \<open>executed\<close> lists the tool calls handed to the registry.
\<close>

section \<open>Approval gates\<close>

record ApprovalResult =
  approved :: bool
  reason :: "string option"

datatype ApprovalGate = AutoApproval | WriteApproval

definition HIGH_RISK_TOOLS :: "string list" where
  "HIGH_RISK_TOOLS = [''jira_transition_issue'', ''jira_update_issue'']"

definition assess_risk :: "string \<Rightarrow> string" where
  "assess_risk name = (if name \<in> set HIGH_RISK_TOOLS then ''HIGH'' else ''LOW'')"

text \<open>\<open>check(action, context)\<close>; the context's keys that the gates read are arguments.\<close>

fun gate_check :: "ApprovalGate \<Rightarrow> string \<Rightarrow> string \<Rightarrow> bool \<Rightarrow> ApprovalResult" where
  "gate_check AutoApproval action tool_name read_only = \<lparr>approved = True, reason = Some ''auto_approved''\<rparr>"
| "gate_check WriteApproval action tool_name read_only =
     (if action = ''respond'' then \<lparr>approved = True, reason = Some ''auto_approved''\<rparr>
      else if action = ''tool_call'' then
        if read_only then \<lparr>approved = True, reason = Some ''read_auto_approved''\<rparr>
        else \<lparr>approved = False, reason = Some (''write_requires_approval (risk='' @ assess_risk tool_name @ '')'')\<rparr>
      else \<lparr>approved = True, reason = Some ''auto_approved''\<rparr>)"

section \<open>State and environment\<close>

record 'w loop_env =
  le_infer :: "'w backend"
  le_registry :: "'w ToolRegistry"
  le_config :: AgentLoopConfig
  le_gate :: ApprovalGate
  le_audit :: "(ToolCallEntry \<Rightarrow> 'w \<Rightarrow> 'w) option"
  le_loads :: "string \<Rightarrow> string + kwargs"
  le_schedule :: "nat list \<Rightarrow> nat list"
  le_duration :: "ToolCall \<Rightarrow> pyfloat"

record 'w loop_state =
  world :: 'w
  surface :: "string pyset"
  tool_names :: "(string, string) dict"
  executed :: "ToolCall list"

record AgentLoopResult =
  ar_content :: string
  tool_calls_made :: nat
  rounds :: int
  hit_safety_limit :: bool
  ar_working_messages :: "Message list"

record PendingApproval =
  pa_tool_calls :: "ToolCall list"
  pa_working_messages :: "Message list"
  pa_assistant_message :: Message
  pa_request_id :: string
  pa_description :: string
  pa_original_user_text :: string
  pa_surfaced_tools :: "string pyset"

datatype loop_outcome = Finished AgentLoopResult | NeedsApproval PendingApproval | InferenceFailed string

section \<open>Tool execution\<close>

definition missing_tool_result :: "ToolCall \<Rightarrow> Message" where
  "missing_tool_result tc = tool_message (call_id tc)
     (json_dumps (JObj [(''error'', JStr ''Internal error: tool dispatch produced no result''), (''tool'', JStr (call_name tc))]))"

text \<open>The keyword arguments of the audit entry of one call.\<close>

definition audit_entry ::
  "'w ToolSpec option \<Rightarrow> string \<Rightarrow> string option \<Rightarrow> ToolCall \<Rightarrow> pyfloat \<Rightarrow> bool \<Rightarrow> string option \<Rightarrow> string \<Rightarrow> ToolCallEntry" where
  "audit_entry spec req_id thread_ts tc duration ok err output =
     \<lparr>e_row_id = None, e_session_id = Some req_id, e_thread_ts = thread_ts,
      e_service = (case spec of Some s \<Rightarrow> ts_toolset s | None \<Rightarrow> []), e_command = call_name tc,
      e_args = call_arguments tc,
      e_operation_type = (case spec of Some s \<Rightarrow> if is_read_only s then ''READ'' else ''WRITE'' | None \<Rightarrow> ''WRITE''),
      e_approval_status = None, e_approved_by = None, e_approval_time_ms = None, e_exit_code = None,
      e_duration_ms = duration, e_success = ok, e_error_code = None, e_error_message = err,
      e_response_payload = output, e_workflow_id = None, e_parent_sandbox_id = None,
      e_agent_id = None, e_agent_role = None\<rparr>"

definition execute_one ::
  "'w loop_env \<Rightarrow> string \<Rightarrow> string option \<Rightarrow> ToolCall \<Rightarrow> 'w loop_state \<Rightarrow> Message \<times> 'w loop_state" where
  "execute_one e req_id thread_ts tc st =
     (let spec = get_tool (le_registry e) (call_name tc);
          (res, (w, sf)) = execute (le_loads e) (le_registry e) (call_name tc) (call_arguments tc) (world st, surface st);
          output = (case res of Inr out \<Rightarrow> out
            | Inl err \<Rightarrow> json_dumps (JObj [(''error'', JStr err), (''tool'', JStr (call_name tc))]));
          entry = audit_entry spec req_id thread_ts tc (le_duration e tc) (isl res = False)
            (case res of Inl err \<Rightarrow> Some err | Inr _ \<Rightarrow> None) output;
          w' = (case le_audit e of Some lg \<Rightarrow> lg entry w | None \<Rightarrow> w)
      in (tool_message (call_id tc) output,
          st\<lparr>world := w', surface := sf, tool_names := register_tool_call (call_id tc) (call_name tc) (tool_names st),
             executed := executed st @ [tc]\<rparr>))"

text \<open>The same call inside \<open>asyncio.gather\<close>: its task has its own copy of the surface.\<close>

definition execute_gathered ::
  "'w loop_env \<Rightarrow> string \<Rightarrow> string option \<Rightarrow> ToolCall \<Rightarrow> 'w loop_state \<Rightarrow> Message \<times> 'w loop_state" where
  "execute_gathered e req_id thread_ts tc st =
     (let (m, st') = execute_one e req_id thread_ts tc st in (m, st'\<lparr>surface := surface st\<rparr>))"

definition concurrency_safe :: "'w loop_env \<Rightarrow> ToolCall \<Rightarrow> bool" where
  "concurrency_safe e tc = (case get_tool (le_registry e) (call_name tc) of None \<Rightarrow> True | Some spec \<Rightarrow> is_concurrency_safe spec)"

text \<open>Running the calls at the given positions, each result going to its own slot.\<close>

fun fill_slots ::
  "(ToolCall \<Rightarrow> 'w loop_state \<Rightarrow> Message \<times> 'w loop_state) \<Rightarrow> ToolCall list \<Rightarrow> nat list \<Rightarrow>
   Message option list \<Rightarrow> 'w loop_state \<Rightarrow> Message option list \<times> 'w loop_state" where
  "fill_slots ex calls [] results st = (results, st)"
| "fill_slots ex calls (i # is) results st =
     (let (m, st') = ex (calls ! i) st in fill_slots ex calls is (results[i := Some m]) st')"

definition execute_tool_calls ::
  "'w loop_env \<Rightarrow> string \<Rightarrow> string option \<Rightarrow> ToolCall list \<Rightarrow> 'w loop_state \<Rightarrow> Message list \<times> 'w loop_state" where
  "execute_tool_calls e req_id thread_ts calls st =
     (let safe = filter (\<lambda>i. concurrency_safe e (calls ! i)) [0..<length calls];
          unsafe = filter (\<lambda>i. \<not> concurrency_safe e (calls ! i)) [0..<length calls];
          (results1, st1) = fill_slots (execute_gathered e req_id thread_ts) calls (le_schedule e safe)
            (replicate (length calls) None) st;
          (results2, st2) = fill_slots (execute_one e req_id thread_ts) calls unsafe results1 st1
      in (map (\<lambda>(tc, r). case r of Some m \<Rightarrow> m | None \<Rightarrow> missing_tool_result tc) (zip calls results2), st2))"

section \<open>Helpers of the loop\<close>

definition build_assistant_tool_message :: "InferenceResponse \<Rightarrow> Message" where
  "build_assistant_tool_message resp = \<lparr>role = ROLE_ASSISTANT, content = rs_content resp,
     msg_tool_calls = (if rs_tool_calls resp \<noteq> [] then Some (rs_tool_calls resp) else None), tool_call_id = None\<rparr>"

definition plain_request :: "'w loop_env \<Rightarrow> string \<Rightarrow> Message list \<Rightarrow> ToolDefinition list option \<Rightarrow> InferenceRequest" where
  "plain_request e req_id ms tds = \<lparr>rq_messages = ms, rq_model = cfg_model (le_config e),
     rq_temperature = cfg_temperature (le_config e), rq_max_tokens = cfg_max_tokens (le_config e),
     rq_request_id = req_id, rq_tools = tds\<rparr>"

text \<open>\<open>_continue_truncated\<close>: the chunks after the first, at most one per remaining attempt.\<close>

fun continue_chunks ::
  "'w loop_env \<Rightarrow> string \<Rightarrow> nat \<Rightarrow> Message list \<Rightarrow> 'w \<Rightarrow> (string + string list) \<times> 'w" where
  "continue_chunks e req_id 0 working w = (Inr [], w)"
| "continue_chunks e req_id (Suc n) working w =
     (let working1 = working @ [text_message ROLE_USER CONTINUATION_PROMPT] in
      case le_infer e (plain_request e req_id working1 None) w of
        (Inl err, w1) \<Rightarrow> (Inl err, w1)
      | (Inr resp, w1) \<Rightarrow>
          if finish_reason resp \<noteq> ''length'' then (Inr [rs_content resp], w1)
          else (case continue_chunks e req_id n (working1 @ [text_message ROLE_ASSISTANT (rs_content resp)]) w1 of
                  (Inl err, w2) \<Rightarrow> (Inl err, w2)
                | (Inr cs, w2) \<Rightarrow> (Inr (rs_content resp # cs), w2)))"

definition continue_truncated ::
  "'w loop_env \<Rightarrow> string \<Rightarrow> Message list \<Rightarrow> InferenceResponse \<Rightarrow> 'w \<Rightarrow> (string + string) \<times> 'w" where
  "continue_truncated e req_id ms resp w =
     (case continue_chunks e req_id (nat (max_continuation_retries (le_config e)))
        (ms @ [text_message ROLE_ASSISTANT (rs_content resp)]) w of
        (Inl err, w1) \<Rightarrow> (Inl err, w1)
      | (Inr cs, w1) \<Rightarrow> (Inr (rs_content resp @ concat cs), w1))"

definition get_write_tool_calls :: "'w loop_env \<Rightarrow> ToolCall list \<Rightarrow> ToolCall list" where
  "get_write_tool_calls e calls =
     filter (\<lambda>tc. case get_tool (le_registry e) (call_name tc) of Some spec \<Rightarrow> \<not> is_read_only spec | None \<Rightarrow> False) calls"

definition needs_write_approval :: "'w loop_env \<Rightarrow> ToolCall list \<Rightarrow> bool" where
  "needs_write_approval e writes = list_ex (\<lambda>tc. \<not> approved (gate_check (le_gate e) ''tool_call'' (call_name tc) False)) writes"

definition describe_argument :: "string \<times> json \<Rightarrow> string" where
  "describe_argument kv = (let v = py_str_json (snd kv) in
     ''  '' @ bullet @ '' '' @ fst kv @ '': '' @ (if length v > 200 then take 200 v @ ellipsis else v))"

definition format_write_description :: "'w loop_env \<Rightarrow> ToolCall list \<Rightarrow> string" where
  "format_write_description e writes =
     py_join (newline @ newline) (map (\<lambda>tc.
       let args = (if call_arguments tc = [] then [] else case le_loads e (call_arguments tc) of Inr kw \<Rightarrow> kw | Inl _ \<Rightarrow> [])
       in py_join newline ((''*'' @ display_name (le_registry e) (call_name tc) @ ''*'') #
            map describe_argument (filter (\<lambda>kv. json_truthy (snd kv)) args))) writes)"

section \<open>The loop\<close>

definition SAFETY_LIMIT_TEXT :: string where
  "SAFETY_LIMIT_TEXT = ''I'' @ [CHR 0x27] @ ''ve been working on your request but reached the maximum number '' @
     ''of tool calls. Here'' @ [CHR 0x27] @ ''s what I'' @ [CHR 0x27] @ ''ve gathered so far '' @ em_dash @ '' please ask a '' @
     ''follow-up question if you need more.''"

text \<open>Both tiers of compaction, before each inference call.\<close>

definition compaction_pass ::
  "'w loop_env \<Rightarrow> string \<Rightarrow> Message list \<Rightarrow> 'w loop_state \<Rightarrow> (string + Message list) \<times> 'w loop_state" where
  "compaction_pass e req_id ms st =
     (let ms1 = truncate_tool_results (micro_compaction_chars (le_config e)) ms in
      if should_compact (compaction_threshold_chars (le_config e)) ms1
      then (case compact_messages (le_infer e) (le_config e) (tool_names st) req_id ms1 (world st) of
              (r, w) \<Rightarrow> (r, st\<lparr>world := w\<rparr>))
      else (Inr ms1, st))"

definition final_content ::
  "'w loop_env \<Rightarrow> string \<Rightarrow> Message list \<Rightarrow> InferenceResponse \<Rightarrow> 'w \<Rightarrow> (string + string) \<times> 'w" where
  "final_content e req_id ms resp w =
     (if finish_reason resp = ''length'' then continue_truncated e req_id ms resp w
      else (Inr (rr_content (repair_response resp)), w))"

fun run_rounds ::
  "'w loop_env \<Rightarrow> string \<Rightarrow> string option \<Rightarrow> nat \<Rightarrow> nat \<Rightarrow> nat \<Rightarrow> Message list \<Rightarrow> 'w loop_state \<Rightarrow> loop_outcome \<times> 'w loop_state" where
  "run_rounds e req_id thread_ts 0 round_num made ms st =
     (Finished \<lparr>ar_content = SAFETY_LIMIT_TEXT, tool_calls_made = made, rounds = max_tool_rounds (le_config e),
        hit_safety_limit = True, ar_working_messages = ms\<rparr>, st)"
| "run_rounds e req_id thread_ts (Suc fuel) round_num made ms st =
     (case compaction_pass e req_id ms st of
        (Inl err, st1) \<Rightarrow> (InferenceFailed err, st1)
      | (Inr ms1, st1) \<Rightarrow>
         (let tds = tool_definitions (le_registry e) (surface st1) in
          case le_infer e (plain_request e req_id ms1 (if tds \<noteq> [] then Some tds else None)) (world st1) of
            (Inl err, w) \<Rightarrow> (InferenceFailed err, st1\<lparr>world := w\<rparr>)
          | (Inr resp, w) \<Rightarrow>
             (let st2 = st1\<lparr>world := w\<rparr>; calls = rs_tool_calls resp in
              if calls = [] then
                (case final_content e req_id ms1 resp w of
                   (Inl err, w') \<Rightarrow> (InferenceFailed err, st2\<lparr>world := w'\<rparr>)
                 | (Inr text, w') \<Rightarrow>
                     (Finished \<lparr>ar_content = text, tool_calls_made = made, rounds = int round_num + 1,
                        hit_safety_limit = False, ar_working_messages = ms1\<rparr>, st2\<lparr>world := w'\<rparr>))
              else
                (let writes = get_write_tool_calls e calls in
                 if writes \<noteq> [] \<and> needs_write_approval e writes then
                   (NeedsApproval \<lparr>pa_tool_calls = calls, pa_working_messages = ms1,
                      pa_assistant_message = build_assistant_tool_message resp, pa_request_id = req_id,
                      pa_description = format_write_description e writes, pa_original_user_text = [],
                      pa_surfaced_tools = surface st2\<rparr>, st2)
                 else
                   (case execute_tool_calls e req_id thread_ts calls st2 of
                      (results, st3) \<Rightarrow>
                        run_rounds e req_id thread_ts fuel (Suc round_num) (made + length calls)
                          (ms1 @ [build_assistant_tool_message resp] @ results) st3)))))"

definition run ::
  "'w loop_env \<Rightarrow> Message list \<Rightarrow> string \<Rightarrow> string option \<Rightarrow> string list \<Rightarrow> 'w loop_state \<Rightarrow> loop_outcome \<times> 'w loop_state" where
  "run e messages req_id thread_ts pre_surfaced_tools st =
     (let st1 = st\<lparr>surface := reset_tool_surface\<rparr>;
          st2 = (if pre_surfaced_tools \<noteq> []
                 then st1\<lparr>surface := mark_surfaced (le_registry e) pre_surfaced_tools (surface st1)\<rparr> else st1)
      in run_rounds e req_id thread_ts (nat (max_tool_rounds (le_config e))) 0 0 messages st2)"

section \<open>The protocol of tool calls\<close>

text \<open>
  Every assistant message with tool calls is followed by exactly one tool result per call,
  in the order of the calls, before any other message. The first argument lists the calls
  still to be answered.
\<close>

fun protocol_ok :: "string list \<Rightarrow> Message list \<Rightarrow> bool" where
  "protocol_ok [] [] = True"
| "protocol_ok (i # is) [] = False"
| "protocol_ok (i # is) (m # ms) = (role m = ROLE_TOOL \<and> tool_call_id m = Some i \<and> protocol_ok is ms)"
| "protocol_ok [] (m # ms) = (role m \<noteq> ROLE_TOOL \<and>
     protocol_ok (case msg_tool_calls m of Some tcs \<Rightarrow> map call_id tcs | None \<Rightarrow> []) ms)"

definition read_only_call :: "'w loop_env \<Rightarrow> ToolCall \<Rightarrow> bool" where
  "read_only_call e tc = (case get_tool (le_registry e) (call_name tc) of Some spec \<Rightarrow> is_read_only spec | None \<Rightarrow> True)"

lemma protocol_append: "protocol_ok is ms \<Longrightarrow> protocol_ok [] ms' \<Longrightarrow> protocol_ok is (ms @ ms')"
  by (induction "is" ms rule: protocol_ok.induct) auto

lemma protocol_truncate: "protocol_ok is (truncate_tool_results l ms) = protocol_ok is ms"
  by (induction "is" ms rule: protocol_ok.induct) (auto simp: truncate_tool_results_def split: option.splits)

lemma protocol_results:
  "map role rs = map (\<lambda>_. ROLE_TOOL) is \<Longrightarrow> map tool_call_id rs = map Some is \<Longrightarrow> protocol_ok is rs"
  by (induction "is" rs rule: protocol_ok.induct) auto

section \<open>Lemmas on tool execution\<close>

lemma execute_one_result:
  "role (fst (execute_one e rid ts tc st)) = ROLE_TOOL"
  "tool_call_id (fst (execute_one e rid ts tc st)) = Some (call_id tc)"
  "executed (snd (execute_one e rid ts tc st)) = executed st @ [tc]"
  by (simp_all add: execute_one_def Let_def tool_message_def split: prod.splits)

lemma execute_gathered_result:
  "role (fst (execute_gathered e rid ts tc st)) = ROLE_TOOL"
  "tool_call_id (fst (execute_gathered e rid ts tc st)) = Some (call_id tc)"
  "executed (snd (execute_gathered e rid ts tc st)) = executed st @ [tc]"
  "surface (snd (execute_gathered e rid ts tc st)) = surface st"
  using execute_one_result [of e rid ts tc st]
  by (cases "execute_one e rid ts tc st"; simp add: execute_gathered_def)+

text \<open>A slot holds nothing or the result of its own call.\<close>

definition slots_ok :: "ToolCall list \<Rightarrow> Message option list \<Rightarrow> bool" where
  "slots_ok calls rs = list_all2 (\<lambda>tc r. case r of None \<Rightarrow> True
     | Some m \<Rightarrow> role m = ROLE_TOOL \<and> tool_call_id m = Some (call_id tc)) calls rs"

lemma slots_ok_update:
  assumes "slots_ok calls rs" and "i < length calls"
    and "role m = ROLE_TOOL" and "tool_call_id m = Some (call_id (calls ! i))"
  shows "slots_ok calls (rs[i := Some m])"
  using assms by (auto simp: slots_ok_def list_all2_conv_all_nth nth_list_update)

text \<open>What \<open>fill_slots\<close> does, for any way of running one call that answers with its own id.\<close>

locale call_runner =
  fixes ex :: "ToolCall \<Rightarrow> 'w loop_state \<Rightarrow> Message \<times> 'w loop_state"
  assumes ex_role: "role (fst (ex tc st)) = ROLE_TOOL"
    and ex_id: "tool_call_id (fst (ex tc st)) = Some (call_id tc)"
    and ex_trace: "executed (snd (ex tc st)) = executed st @ [tc]"
begin

lemma fill_ok:
  "slots_ok calls rs \<Longrightarrow> \<forall>i \<in> set is. i < length calls \<Longrightarrow> slots_ok calls (fst (fill_slots ex calls is rs st))"
proof (induction "is" arbitrary: rs st)
  case (Cons i "is")
  obtain m st' where m: "ex (calls ! i) st = (m, st')" by fastforce
  have "role m = ROLE_TOOL" "tool_call_id m = Some (call_id (calls ! i))"
    using ex_role [of "calls ! i" st] ex_id [of "calls ! i" st] m by simp_all
  with Cons.prems have "slots_ok calls (rs[i := Some m])" by (simp add: slots_ok_update)
  with Cons.IH Cons.prems m show ?case by simp
qed simp

lemma fill_trace: "executed (snd (fill_slots ex calls is rs st)) = executed st @ map (\<lambda>i. calls ! i) is"
proof (induction "is" arbitrary: rs st)
  case (Cons i "is")
  obtain m st' where m: "ex (calls ! i) st = (m, st')" by fastforce
  with ex_trace [of "calls ! i" st] Cons.IH show ?case by simp
qed simp

lemma fill_length: "length (fst (fill_slots ex calls is rs st)) = length rs"
  by (induction "is" arbitrary: rs st) (simp_all split: prod.splits)

lemma fill_filled:
  "j < length rs \<Longrightarrow> j \<in> set is \<or> rs ! j \<noteq> None \<Longrightarrow> fst (fill_slots ex calls is rs st) ! j \<noteq> None"
proof (induction "is" arbitrary: rs st)
  case (Cons i "is")
  obtain m st' where m: "ex (calls ! i) st = (m, st')" by fastforce
  have "j \<in> set is \<or> rs[i := Some m] ! j \<noteq> None" using Cons.prems by (cases "i = j") auto
  with Cons.IH [of "rs[i := Some m]" st'] Cons.prems(1) m show ?case by simp
qed simp

end

interpretation sequential: call_runner "execute_one e rid ts" for e :: "'w loop_env" and rid ts
  by unfold_locales (rule execute_one_result)+

interpretation gathered: call_runner "execute_gathered e rid ts" for e :: "'w loop_env" and rid ts
  by unfold_locales (rule execute_gathered_result)+

lemma gathered_surface: "surface (snd (fill_slots (execute_gathered e rid ts) calls is rs st)) = surface st"
proof (induction "is" arbitrary: rs st)
  case (Cons i "is")
  obtain m st' where m: "execute_gathered e rid ts (calls ! i) st = (m, st')" by fastforce
  with execute_gathered_result(4) [of e rid ts "calls ! i" st] Cons.IH show ?case by simp
qed simp

text \<open>The completion order of gathered calls is some order of exactly those calls.\<close>

definition fair_schedule :: "'w loop_env \<Rightarrow> bool" where
  "fair_schedule e = (\<forall>xs. mset (le_schedule e xs) = mset xs)"

lemma fair_set: "fair_schedule e \<Longrightarrow> set (le_schedule e xs) = set xs"
  by (metis fair_schedule_def set_mset_mset)

abbreviation safe_positions :: "'w loop_env \<Rightarrow> ToolCall list \<Rightarrow> nat list" where
  "safe_positions e calls \<equiv> filter (\<lambda>i. concurrency_safe e (calls ! i)) [0..<length calls]"

abbreviation unsafe_positions :: "'w loop_env \<Rightarrow> ToolCall list \<Rightarrow> nat list" where
  "unsafe_positions e calls \<equiv> filter (\<lambda>i. \<not> concurrency_safe e (calls ! i)) [0..<length calls]"

lemma slots_messages:
  assumes "slots_ok calls rs"
  shows "map tool_call_id (map (\<lambda>(tc, r). case r of Some m \<Rightarrow> m | None \<Rightarrow> missing_tool_result tc) (zip calls rs)) =
      map (Some \<circ> call_id) calls"
    and "map role (map (\<lambda>(tc, r). case r of Some m \<Rightarrow> m | None \<Rightarrow> missing_tool_result tc) (zip calls rs)) =
      map (\<lambda>_. ROLE_TOOL) calls"
  using assms unfolding slots_ok_def
  by (induction calls rs rule: list_all2_induct)
     (auto simp: missing_tool_result_def tool_message_def split: option.splits)

lemma execute_tool_calls_trace:
  "executed (snd (execute_tool_calls e rid ts calls st)) = executed st @
     map (\<lambda>i. calls ! i) (le_schedule e (safe_positions e calls) @ unsafe_positions e calls)"
proof -
  obtain rs1 st1 where r1: "fill_slots (execute_gathered e rid ts) calls (le_schedule e (safe_positions e calls))
      (replicate (length calls) None) st = (rs1, st1)"
    by fastforce
  obtain rs2 st2 where r2: "fill_slots (execute_one e rid ts) calls (unsafe_positions e calls) rs1 st1 = (rs2, st2)"
    by fastforce
  have "executed st1 = executed st @ map (\<lambda>i. calls ! i) (le_schedule e (safe_positions e calls))"
    using gathered.fill_trace [of e rid ts calls "le_schedule e (safe_positions e calls)" "replicate (length calls) None" st] r1
    by simp
  moreover have "executed st2 = executed st1 @ map (\<lambda>i. calls ! i) (unsafe_positions e calls)"
    using sequential.fill_trace [of e rid ts calls "unsafe_positions e calls" rs1 st1] r2 by simp
  ultimately show ?thesis using r1 r2 by (simp add: execute_tool_calls_def Let_def)
qed

lemma execute_tool_calls_slots:
  assumes "fair_schedule e"
  obtains rs where "fst (execute_tool_calls e rid ts calls st) =
      map (\<lambda>(tc, r). case r of Some m \<Rightarrow> m | None \<Rightarrow> missing_tool_result tc) (zip calls rs)"
    and "slots_ok calls rs" and "list_all (\<lambda>r. r \<noteq> None) rs"
proof -
  let ?init = "replicate (length calls) None"
  obtain rs1 st1 where r1: "fill_slots (execute_gathered e rid ts) calls (le_schedule e (safe_positions e calls)) ?init st = (rs1, st1)"
    by fastforce
  obtain rs2 st2 where r2: "fill_slots (execute_one e rid ts) calls (unsafe_positions e calls) rs1 st1 = (rs2, st2)"
    by fastforce
  have s0: "slots_ok calls ?init" by (simp add: slots_ok_def list_all2_conv_all_nth)
  have b1: "\<forall>i \<in> set (le_schedule e (safe_positions e calls)). i < length calls"
    using fair_set [OF assms] by auto
  have s1: "slots_ok calls rs1" using gathered.fill_ok [OF s0 b1, of e rid ts st] r1 by simp
  have s2: "slots_ok calls rs2" using sequential.fill_ok [OF s1, of "unsafe_positions e calls" e rid ts st1] r2 by simp
  have l1: "length rs1 = length calls" using gathered.fill_length [of e rid ts calls _ ?init st] r1 by (metis fst_conv length_replicate)
  have l2: "length rs2 = length calls" using sequential.fill_length [of e rid ts calls _ rs1 st1] r2 l1 by (metis fst_conv)
  have "rs2 ! j \<noteq> None" if "j < length calls" for j
  proof (cases "concurrency_safe e (calls ! j)")
    case True
    then have "j \<in> set (le_schedule e (safe_positions e calls))" using that fair_set [OF assms] by auto
    then have "rs1 ! j \<noteq> None" using gathered.fill_filled [of j ?init] that r1 by (metis fst_conv length_replicate)
    then show ?thesis using sequential.fill_filled [of j rs1] that l1 r2 by (metis fst_conv)
  next
    case False
    then have "j \<in> set (unsafe_positions e calls)" using that by simp
    then show ?thesis using sequential.fill_filled [of j rs1] that l1 r2 by (metis fst_conv)
  qed
  then have "list_all (\<lambda>r. r \<noteq> None) rs2" using l2 by (simp add: list_all_length)
  then show thesis using that [of rs2] s2 r1 r2 by (simp add: execute_tool_calls_def Let_def)
qed


lemma surface_of_batch:
  "unsafe_positions e calls = [] \<Longrightarrow> surface (snd (execute_tool_calls e rid ts calls st)) = surface st"
  using gathered_surface [of e rid ts calls "le_schedule e (safe_positions e calls)" "replicate (length calls) None" st]
  by (simp add: execute_tool_calls_def Let_def case_prod_beta)

lemma map_nth_filter: "map (\<lambda>i. xs ! i) (filter (\<lambda>i. P (xs ! i)) [0..<length xs]) = filter P xs"
proof (induction xs rule: rev_induct)
  case (snoc x xs)
  have "filter (\<lambda>i. P ((xs @ [x]) ! i)) [0..<length xs] = filter (\<lambda>i. P (xs ! i)) [0..<length xs]"
    by (rule filter_cong) (simp_all add: nth_append)
  moreover have "map (\<lambda>i. (xs @ [x]) ! i) (filter (\<lambda>i. P (xs ! i)) [0..<length xs]) =
      map (\<lambda>i. xs ! i) (filter (\<lambda>i. P (xs ! i)) [0..<length xs])"
    by (rule map_cong) (auto simp: nth_append)
  ultimately show ?case using snoc.IH by simp
qed simp

text \<open>The calls of a batch as they run: the concurrency-safe ones first, in some order.\<close>

lemma execute_tool_calls_order:
  assumes "fair_schedule e"
  obtains safe where "mset safe = mset (filter (concurrency_safe e) calls)"
    and "executed (snd (execute_tool_calls e rid ts calls st)) = executed st @ safe @ filter (\<lambda>tc. \<not> concurrency_safe e tc) calls"
proof
  let ?safe = "map (\<lambda>i. calls ! i) (le_schedule e (safe_positions e calls))"
  have "mset ?safe = image_mset (\<lambda>i. calls ! i) (mset (safe_positions e calls))"
    using assms by (simp add: fair_schedule_def)
  also have "\<dots> = mset (map (\<lambda>i. calls ! i) (safe_positions e calls))" by simp
  finally show "mset ?safe = mset (filter (concurrency_safe e) calls)"
    by (simp only: map_nth_filter [where P = "concurrency_safe e"])
  show "executed (snd (execute_tool_calls e rid ts calls st)) =
      executed st @ ?safe @ filter (\<lambda>tc. \<not> concurrency_safe e tc) calls"
    by (simp only: execute_tool_calls_trace map_append map_nth_filter [where P = "\<lambda>tc. \<not> concurrency_safe e tc"])
qed

lemma execute_tool_calls_mset:
  assumes "fair_schedule e"
  obtains new where "executed (snd (execute_tool_calls e rid ts calls st)) = executed st @ new" and "mset new = mset calls"
proof -
  obtain safe where s: "mset safe = mset (filter (concurrency_safe e) calls)"
    "executed (snd (execute_tool_calls e rid ts calls st)) = executed st @ safe @ filter (\<lambda>tc. \<not> concurrency_safe e tc) calls"
    using execute_tool_calls_order [OF assms] by blast
  have "mset (safe @ filter (\<lambda>tc. \<not> concurrency_safe e tc) calls) = mset calls"
    using s(1) by (simp add: multiset_partition [symmetric])
  with s(2) that show thesis by simp
qed

lemma execute_tool_calls_messages:
  assumes "fair_schedule e"
  shows "map tool_call_id (fst (execute_tool_calls e rid ts calls st)) = map (Some \<circ> call_id) calls"
    and "map role (fst (execute_tool_calls e rid ts calls st)) = map (\<lambda>_. ROLE_TOOL) calls"
proof -
  obtain rs where "fst (execute_tool_calls e rid ts calls st) =
      map (\<lambda>(tc, r). case r of Some m \<Rightarrow> m | None \<Rightarrow> missing_tool_result tc) (zip calls rs)" and "slots_ok calls rs"
    using execute_tool_calls_slots [OF assms] by metis
  with slots_messages show "map tool_call_id (fst (execute_tool_calls e rid ts calls st)) = map (Some \<circ> call_id) calls"
    and "map role (fst (execute_tool_calls e rid ts calls st)) = map (\<lambda>_. ROLE_TOOL) calls"
    by metis+
qed

section \<open>Lemmas on the loop\<close>

lemma compaction_pass_frame:
  assumes "compaction_pass e rid ms st = (r, st1)"
  shows "executed st1 = executed st" "surface st1 = surface st" "tool_names st1 = tool_names st"
  using assms by (auto simp: compaction_pass_def Let_def split: if_splits prod.splits)

text \<open>The request of a round, and the ways a round ends.\<close>

abbreviation round_request :: "'w loop_env \<Rightarrow> string \<Rightarrow> Message list \<Rightarrow> 'w loop_state \<Rightarrow> InferenceRequest" where
  "round_request e rid ms st \<equiv> plain_request e rid ms (if tool_definitions (le_registry e) (surface st) \<noteq> []
     then Some (tool_definitions (le_registry e) (surface st)) else None)"

lemma run_rounds_cases:
  assumes "run_rounds e rid ts (Suc fuel) n made ms st = (out, st')"
  obtains (compaction_error) err where "compaction_pass e rid ms st = (Inl err, st')" "out = InferenceFailed err"
  | (inference_error) ms1 st1 err w where "compaction_pass e rid ms st = (Inr ms1, st1)"
      "out = InferenceFailed err" "st' = st1\<lparr>world := w\<rparr>"
      "le_infer e (round_request e rid ms1 st1) (world st1) = (Inl err, w)"
  | (answer) ms1 st1 resp w r w' where "compaction_pass e rid ms st = (Inr ms1, st1)" "rs_tool_calls resp = []"
      "le_infer e (round_request e rid ms1 st1) (world st1) = (Inr resp, w)"
      "final_content e rid ms1 resp w = (r, w')" "st' = st1\<lparr>world := w'\<rparr>"
      "out = (case r of Inl err \<Rightarrow> InferenceFailed err | Inr text \<Rightarrow>
         Finished \<lparr>ar_content = text, tool_calls_made = made, rounds = int n + 1, hit_safety_limit = False, ar_working_messages = ms1\<rparr>)"
  | (blocked) ms1 st1 resp w p where "compaction_pass e rid ms st = (Inr ms1, st1)"
      "le_infer e (round_request e rid ms1 st1) (world st1) = (Inr resp, w)"
      "get_write_tool_calls e (rs_tool_calls resp) \<noteq> []" "needs_write_approval e (get_write_tool_calls e (rs_tool_calls resp))"
      "out = NeedsApproval p" "pa_tool_calls p = rs_tool_calls resp" "pa_working_messages p = ms1"
      "pa_surfaced_tools p = surface st1" "st' = st1\<lparr>world := w\<rparr>"
  | (tools) ms1 st1 resp w results st3 where "compaction_pass e rid ms st = (Inr ms1, st1)" "rs_tool_calls resp \<noteq> []"
      "le_infer e (round_request e rid ms1 st1) (world st1) = (Inr resp, w)"
      "get_write_tool_calls e (rs_tool_calls resp) = [] \<or> \<not> needs_write_approval e (get_write_tool_calls e (rs_tool_calls resp))"
      "execute_tool_calls e rid ts (rs_tool_calls resp) (st1\<lparr>world := w\<rparr>) = (results, st3)"
      "run_rounds e rid ts fuel (Suc n) (made + length (rs_tool_calls resp))
         (ms1 @ [build_assistant_tool_message resp] @ results) st3 = (out, st')"
proof -
  obtain r st1 where c: "compaction_pass e rid ms st = (r, st1)" by fastforce
  show thesis
  proof (cases r)
    case (Inl err)
    then show thesis using assms c compaction_error by simp
  next
    case (Inr ms1)
    obtain q w where q: "le_infer e (round_request e rid ms1 st1) (world st1) = (q, w)" by fastforce
    note cc = c [unfolded Inr]
    show thesis
    proof (cases q)
      case (Inl err)
      then show thesis using assms cc q by (intro inference_error [OF cc, of err w]) (auto simp: Let_def)
    next
      case (Inr resp)
      note qq = q [unfolded Inr]
      let ?calls = "rs_tool_calls resp" and ?st2 = "st1\<lparr>world := w\<rparr>"
      show thesis
      proof (cases "?calls = []")
        case True
        obtain f w' where f: "final_content e rid ms1 resp w = (f, w')" by fastforce
        show thesis by (rule answer [OF cc True qq f]) (use assms cc qq True f in \<open>auto simp: Let_def split: sum.splits\<close>)
      next
        case False
        obtain results st3 where x: "execute_tool_calls e rid ts ?calls ?st2 = (results, st3)" by fastforce
        show thesis
        proof (cases "get_write_tool_calls e ?calls \<noteq> [] \<and> needs_write_approval e (get_write_tool_calls e ?calls)")
          case True
          then show thesis
            using assms cc qq False by (intro blocked [OF cc qq]) (simp_all add: Let_def, auto)
        next
          case no: False
          then show thesis using assms cc qq False x by (intro tools [OF cc False qq _ x]) (auto simp: Let_def)
        qed
      qed
    qed
  qed
qed


lemma round_trace:
  assumes "fair_schedule e" and "compaction_pass e rid ms st = (r, st1)"
    and "execute_tool_calls e rid ts calls (st1\<lparr>world := w\<rparr>) = (results, st3)"
  obtains new where "executed st3 = executed st @ new" and "mset new = mset calls"
  using execute_tool_calls_mset [OF assms(1), of rid ts calls "st1\<lparr>world := w\<rparr>"] assms(3)
    compaction_pass_frame(1) [OF assms(2)] by auto

subsection \<open>The write gate\<close>

lemma read_only_call_iff: "read_only_call e tc \<longleftrightarrow> tc \<notin> set (get_write_tool_calls e [tc])"
  by (auto simp: read_only_call_def get_write_tool_calls_def split: option.splits)

lemma write_calls_set: "set (get_write_tool_calls e calls) = {tc \<in> set calls. \<not> read_only_call e tc}"
  by (auto simp: get_write_tool_calls_def read_only_call_def split: option.splits)

lemma gate_open:
  assumes "le_gate e = WriteApproval"
    and "get_write_tool_calls e calls = [] \<or> \<not> needs_write_approval e (get_write_tool_calls e calls)"
  shows "list_all (read_only_call e) calls"
proof -
  have "get_write_tool_calls e calls = []"
    using assms by (cases "get_write_tool_calls e calls") (auto simp: needs_write_approval_def)
  then show ?thesis using write_calls_set [of e calls] by (auto simp: list_all_iff)
qed

lemma run_rounds_gate:
  assumes "le_gate e = WriteApproval" and "fair_schedule e" and "run_rounds e rid ts fuel n made ms st = (out, st')"
  shows "\<exists>new. executed st' = executed st @ new \<and> list_all (read_only_call e) new \<and>
    (\<forall>p. out = NeedsApproval p \<longrightarrow> list_ex (\<lambda>tc. \<not> read_only_call e tc) (pa_tool_calls p))"
  using assms(3)
proof (induction fuel arbitrary: n made ms st)
  case (Suc fuel)
  from Suc.prems show ?case
  proof (cases rule: run_rounds_cases)
    case (blocked ms1 st1 resp w p)
    have "list_ex (\<lambda>tc. \<not> read_only_call e tc) (rs_tool_calls resp)"
      using blocked(3) write_calls_set [of e "rs_tool_calls resp"] by (fastforce simp: list_ex_iff simp flip: set_empty)
    then show ?thesis using blocked compaction_pass_frame(1) [OF blocked(1)] by simp
  next
    case (tools ms1 st1 resp w results st3)
    obtain new where new: "executed st3 = executed st @ new" "mset new = mset (rs_tool_calls resp)"
      using round_trace [OF assms(2) tools(1,5)] .
    have "list_all (read_only_call e) new"
      using gate_open [OF assms(1) tools(4)] mset_eq_setD [OF new(2)] by (simp add: list_all_iff)
    with Suc.IH [OF tools(6)] new(1) show ?thesis by fastforce
  qed (auto dest: compaction_pass_frame(1) split: sum.splits)
qed auto

subsection \<open>Bounds\<close>

lemma run_rounds_counts:
  assumes "fair_schedule e" and "run_rounds e rid ts fuel n made ms st = (Finished r, st')"
  shows "made \<le> tool_calls_made r" "length (executed st') + made = length (executed st) + tool_calls_made r"
    and "\<not> hit_safety_limit r \<Longrightarrow> int n < rounds r \<and> rounds r \<le> int (n + fuel)"
    and "hit_safety_limit r \<Longrightarrow> rounds r = max_tool_rounds (le_config e)"
proof -
  have "made \<le> tool_calls_made r \<and> length (executed st') + made = length (executed st) + tool_calls_made r \<and>
      (\<not> hit_safety_limit r \<longrightarrow> int n < rounds r \<and> rounds r \<le> int (n + fuel)) \<and>
      (hit_safety_limit r \<longrightarrow> rounds r = max_tool_rounds (le_config e))"
    using assms(2)
  proof (induction fuel arbitrary: n made ms st)
    case (Suc fuel)
    from Suc.prems show ?case
    proof (cases rule: run_rounds_cases)
      case (tools ms1 st1 resp w results st3)
      obtain new where new: "executed st3 = executed st @ new" "mset new = mset (rs_tool_calls resp)"
        using round_trace [OF assms(1) tools(1,5)] .
      then have "length (executed st3) = length (executed st) + length (rs_tool_calls resp)"
        using mset_eq_length [OF new(2)] by simp
      with Suc.IH [OF tools(6)] show ?thesis by auto
    qed (auto dest: compaction_pass_frame(1) split: sum.splits)
  qed auto
  then show "made \<le> tool_calls_made r" "length (executed st') + made = length (executed st) + tool_calls_made r"
    "\<not> hit_safety_limit r \<Longrightarrow> int n < rounds r \<and> rounds r \<le> int (n + fuel)"
    "hit_safety_limit r \<Longrightarrow> rounds r = max_tool_rounds (le_config e)" by blast+
qed

text \<open>
  A meter is a count in the outside world that every inference call raises by one and that
  tools and the audit sink leave alone.
\<close>

definition metered :: "'w loop_env \<Rightarrow> ('w \<Rightarrow> nat) \<Rightarrow> bool" where
  "metered e cnt =
     ((\<forall>req w. cnt (snd (le_infer e req w)) = Suc (cnt w)) \<and>
      (\<forall>n spec kw w sf. get_tool (le_registry e) n = Some spec \<longrightarrow> cnt (fst (snd (ts_handler spec kw (w, sf)))) = cnt w) \<and>
      (\<forall>lg entry w. le_audit e = Some lg \<longrightarrow> cnt (lg entry w) = cnt w))"

lemma metered_infer: "metered e cnt \<Longrightarrow> le_infer e req w = (r, w') \<Longrightarrow> cnt w' = Suc (cnt w)"
  unfolding metered_def by (metis snd_conv)

lemma metered_audit: "metered e cnt \<Longrightarrow> cnt (case le_audit e of Some lg \<Rightarrow> lg entry w | None \<Rightarrow> w) = cnt w"
  by (simp add: metered_def split: option.splits)

lemma metered_execute:
  assumes "metered e cnt" and "execute (le_loads e) (le_registry e) n args (w, sf) = (r, (w', sf'))"
  shows "cnt w' = cnt w"
proof -
  have "cnt (fst (snd (ts_handler spec kw (w, sf)))) = cnt w" if "get_tool (le_registry e) n = Some spec" for spec kw
    using assms(1) that unfolding metered_def by blast
  then show ?thesis
    using assms(2) by (auto simp: execute_def split: option.splits sum.splits prod.splits if_splits) (metis fst_conv snd_conv)+
qed

lemma metered_one:
  assumes "metered e cnt"
  shows "cnt (world (snd (execute_one e rid ts tc st))) = cnt (world st)"
    and "cnt (world (snd (execute_gathered e rid ts tc st))) = cnt (world st)"
proof -
  obtain r w sf where x: "execute (le_loads e) (le_registry e) (call_name tc) (call_arguments tc) (world st, surface st) = (r, (w, sf))"
    using prod_cases3 by blast
  show one: "cnt (world (snd (execute_one e rid ts tc st))) = cnt (world st)"
    using metered_execute [OF assms x] x by (simp add: execute_one_def Let_def metered_audit [OF assms])
  then show "cnt (world (snd (execute_gathered e rid ts tc st))) = cnt (world st)"
    by (simp add: execute_gathered_def case_prod_beta)
qed

lemma metered_fill:
  assumes "\<And>tc st. cnt (world (snd (ex tc st))) = cnt (world st)"
  shows "cnt (world (snd (fill_slots ex calls is rs st))) = cnt (world st)"
proof (induction "is" arbitrary: rs st)
  case (Cons i "is")
  then show ?case using assms [of "calls ! i" st] by (simp add: case_prod_beta)
qed simp

lemma metered_batch:
  "metered e cnt \<Longrightarrow> cnt (world (snd (execute_tool_calls e rid ts calls st))) = cnt (world st)"
  by (simp add: execute_tool_calls_def Let_def case_prod_beta metered_fill metered_one)

lemma metered_compaction:
  assumes "metered e cnt" and "compaction_pass e rid ms st = (r, st1)"
  shows "cnt (world st1) \<le> Suc (cnt (world st))"
  using assms(2) metered_infer [OF assms(1)]
  by (auto simp: compaction_pass_def compact_messages_def summarize_def Let_def
      split: if_splits prod.splits sum.splits)

lemma metered_chunks:
  assumes "metered e cnt"
  shows "cnt (snd (continue_chunks e rid n working w)) \<le> cnt w + n"
proof (induction n arbitrary: working w)
  case (Suc n)
  let ?w = "working @ [text_message ROLE_USER CONTINUATION_PROMPT]"
  obtain r w1 where r: "le_infer e (plain_request e rid ?w None) w = (r, w1)" by fastforce
  then have c: "cnt w1 = Suc (cnt w)" by (rule metered_infer [OF assms])
  show ?case
  proof (cases r)
    case (Inr resp)
    let ?rest = "continue_chunks e rid n (?w @ [text_message ROLE_ASSISTANT (rs_content resp)]) w1"
    have "cnt (snd ?rest) \<le> cnt w1 + n" by (rule Suc.IH)
    then show ?thesis using r c Inr by (cases ?rest; cases "fst ?rest") (simp_all add: Let_def)
  qed (use r c in simp)
qed simp

lemma metered_final:
  assumes "metered e cnt" and "final_content e rid ms resp w = (r, w')"
  shows "cnt w' \<le> cnt w + nat (max_continuation_retries (le_config e))"
  using assms(2) metered_chunks [OF assms(1), of rid "nat (max_continuation_retries (le_config e))"
      "ms @ [text_message ROLE_ASSISTANT (rs_content resp)]" w]
  by (auto simp: final_content_def continue_truncated_def split: if_splits prod.splits sum.splits)

lemma run_rounds_budget:
  assumes "metered e cnt" and "run_rounds e rid ts fuel n made ms st = (out, st')"
  shows "cnt (world st') \<le> cnt (world st) + 2 * fuel + nat (max_continuation_retries (le_config e))"
  using assms(2)
proof (induction fuel arbitrary: n made ms st)
  case (Suc fuel)
  from Suc.prems show ?case
  proof (cases rule: run_rounds_cases)
    case (compaction_error err)
    then show ?thesis using metered_compaction [OF assms(1)] by fastforce
  next
    case (inference_error ms1 st1 err w)
    then show ?thesis
      using metered_compaction [OF assms(1) inference_error(1)] metered_infer [OF assms(1) inference_error(4)] by simp
  next
    case (answer ms1 st1 resp w r w')
    then show ?thesis
      using metered_compaction [OF assms(1) answer(1)] metered_infer [OF assms(1) answer(3)] metered_final [OF assms(1) answer(4)]
      by simp
  next
    case (blocked ms1 st1 resp w p)
    then show ?thesis
      using metered_compaction [OF assms(1) blocked(1)] metered_infer [OF assms(1) blocked(2)] by simp
  next
    case (tools ms1 st1 resp w results st3)
    have "cnt (world st3) = cnt w"
      using metered_batch [OF assms(1), of rid ts "rs_tool_calls resp" "st1\<lparr>world := w\<rparr>"] tools(5) by simp
    then show ?thesis
      using Suc.IH [OF tools(6)] metered_compaction [OF assms(1) tools(1)] metered_infer [OF assms(1) tools(3)] by simp
  qed
qed simp

subsection \<open>Invariants of the outside world\<close>

text \<open>
  What inference, the audit sink and every tool with \<open>Q\<close> keep, a run keeps that only calls such
  tools: any run when \<open>Q\<close> is true of all tools, and under the write-approval gate when \<open>Q\<close> says
  that a tool is read-only.
\<close>

definition keeps_for :: "'w loop_env \<Rightarrow> ('w ToolSpec \<Rightarrow> bool) \<Rightarrow> ('w \<Rightarrow> bool) \<Rightarrow> bool" where
  "keeps_for e Q P =
     ((\<forall>req w. P w \<longrightarrow> P (snd (le_infer e req w))) \<and>
      (\<forall>n spec kw w sf. get_tool (le_registry e) n = Some spec \<longrightarrow> Q spec \<longrightarrow> P w \<longrightarrow> P (fst (snd (ts_handler spec kw (w, sf))))) \<and>
      (\<forall>lg entry w. le_audit e = Some lg \<longrightarrow> P w \<longrightarrow> P (lg entry w)))"

abbreviation keeps :: "'w loop_env \<Rightarrow> ('w \<Rightarrow> bool) \<Rightarrow> bool" where
  "keeps e P \<equiv> keeps_for e (\<lambda>_. True) P"

definition allowed_call :: "'w loop_env \<Rightarrow> ('w ToolSpec \<Rightarrow> bool) \<Rightarrow> ToolCall \<Rightarrow> bool" where
  "allowed_call e Q tc = (\<forall>spec. get_tool (le_registry e) (call_name tc) = Some spec \<longrightarrow> Q spec)"

definition calls_only :: "'w loop_env \<Rightarrow> ('w ToolSpec \<Rightarrow> bool) \<Rightarrow> bool" where
  "calls_only e Q = ((\<forall>spec. Q spec) \<or> le_gate e = WriteApproval \<and> fair_schedule e \<and> (\<forall>spec. is_read_only spec \<longrightarrow> Q spec))"

lemma keeps_infer: "keeps_for e Q P \<Longrightarrow> le_infer e req w = (r, w') \<Longrightarrow> P w \<Longrightarrow> P w'"
  unfolding keeps_for_def by (metis snd_conv)

lemma keeps_execute:
  assumes "keeps_for e Q P" and "execute (le_loads e) (le_registry e) (call_name tc) args (w, sf) = (r, (w', sf'))" and "P w"
    and "allowed_call e Q tc"
  shows "P w'"
proof -
  have "P (fst (snd (ts_handler spec kw (w, sf))))" if "get_tool (le_registry e) (call_name tc) = Some spec" for spec kw
    using assms(1,3,4) that unfolding keeps_for_def allowed_call_def by blast
  then show ?thesis
    using assms(2,3) by (auto simp: execute_def split: option.splits sum.splits prod.splits if_splits) (metis fst_conv snd_conv)+
qed

lemma keeps_one:
  assumes "keeps_for e Q P" and "P (world st)" and "allowed_call e Q tc"
  shows "P (world (snd (execute_one e rid ts tc st)))" "P (world (snd (execute_gathered e rid ts tc st)))"
proof -
  obtain r w sf where x: "execute (le_loads e) (le_registry e) (call_name tc) (call_arguments tc) (world st, surface st) = (r, (w, sf))"
    using prod_cases3 by blast
  have a: "P (case le_audit e of Some lg \<Rightarrow> lg entry w | None \<Rightarrow> w)" for entry
    using assms(1) keeps_execute [OF assms(1) x assms(2,3)] unfolding keeps_for_def by (auto split: option.splits)
  show one: "P (world (snd (execute_one e rid ts tc st)))" using a x by (simp add: execute_one_def Let_def)
  then show "P (world (snd (execute_gathered e rid ts tc st)))" by (simp add: execute_gathered_def case_prod_beta)
qed

lemma keeps_fill:
  assumes "\<And>i st. i \<in> set is \<Longrightarrow> P (world st) \<Longrightarrow> P (world (snd (ex (calls ! i) st)))"
  shows "P (world st) \<Longrightarrow> P (world (snd (fill_slots ex calls is rs st)))"
  using assms by (induction "is" arbitrary: rs st) (simp_all add: case_prod_beta)

lemma keeps_batch:
  assumes "keeps_for e Q P" and "P (world st)"
    and "(\<forall>spec. Q spec) \<or> fair_schedule e \<and> list_all (allowed_call e Q) calls"
  shows "P (world (snd (execute_tool_calls e rid ts calls st)))"
proof -
  have a: "allowed_call e Q (calls ! i)"
    if "i \<in> set (le_schedule e (safe_positions e calls)) \<or> i \<in> set (filter (\<lambda>i. \<not> concurrency_safe e (calls ! i)) [0..<length calls])" for i
    using assms(3)
  proof
    assume f: "fair_schedule e \<and> list_all (allowed_call e Q) calls"
    then have "i < length calls" using that by (auto simp: fair_set)
    with f show ?thesis by (simp add: list_all_length)
  qed (simp add: allowed_call_def)
  let ?first = "fill_slots (execute_gathered e rid ts) calls (le_schedule e (safe_positions e calls)) (replicate (length calls) None) st"
  have "P (world (snd ?first))"
    by (rule keeps_fill) (use keeps_one(2) [OF assms(1)] a assms(2) in blast)+
  then have "P (world (snd (fill_slots (execute_one e rid ts) calls
      (filter (\<lambda>i. \<not> concurrency_safe e (calls ! i)) [0..<length calls]) (fst ?first) (snd ?first))))"
    by (rule keeps_fill [rotated]) (use keeps_one(1) [OF assms(1)] a in blast)
  then show ?thesis by (simp add: execute_tool_calls_def Let_def case_prod_beta)
qed

lemma keeps_compaction:
  assumes "keeps_for e Q P" and "compaction_pass e rid ms st = (r, st1)" and "P (world st)"
  shows "P (world st1)"
proof -
  have "P (snd (le_infer e req (world st)))" for req
    using assms(1,3) unfolding keeps_for_def by blast
  then have "P w'" if "le_infer e req (world st) = (x, w')" for req x w'
    using that by (metis snd_conv)
  then show ?thesis using assms(2,3)
    by (auto simp: compaction_pass_def compact_messages_def summarize_def Let_def
        split: if_splits prod.splits sum.splits)
qed

lemma keeps_chunks: "keeps_for e Q P \<Longrightarrow> P w \<Longrightarrow> P (snd (continue_chunks e rid n working w))"
proof (induction n arbitrary: working w)
  case (Suc n)
  let ?w = "working @ [text_message ROLE_USER CONTINUATION_PROMPT]"
  obtain r w1 where r: "le_infer e (plain_request e rid ?w None) w = (r, w1)" by fastforce
  then have p: "P w1" using keeps_infer [OF Suc.prems(1)] Suc.prems(2) by blast
  show ?case
  proof (cases r)
    case (Inr resp)
    let ?rest = "continue_chunks e rid n (?w @ [text_message ROLE_ASSISTANT (rs_content resp)]) w1"
    have "P (snd ?rest)" using Suc.IH [OF Suc.prems(1) p] .
    then show ?thesis using r p Inr by (cases ?rest; cases "fst ?rest") (simp_all add: Let_def)
  qed (use r p in simp)
qed simp

lemma keeps_final:
  assumes "keeps_for e Q P" and "final_content e rid ms resp w = (r, w')" and "P w"
  shows "P w'"
  using assms(2,3) keeps_chunks [OF assms(1,3), of rid "nat (max_continuation_retries (le_config e))"
      "ms @ [text_message ROLE_ASSISTANT (rs_content resp)]"]
  by (auto simp: final_content_def continue_truncated_def split: if_splits prod.splits sum.splits)

lemma run_rounds_keeps:
  assumes "keeps_for e Q P" and "calls_only e Q" and "run_rounds e rid ts fuel n made ms st = (out, st')" and "P (world st)"
  shows "P (world st')"
  using assms(3,4)
proof (induction fuel arbitrary: n made ms st)
  case (Suc fuel)
  note c = keeps_compaction [OF assms(1) _ Suc.prems(2)] and i = keeps_infer [OF assms(1)]
  from Suc.prems(1) show ?case
  proof (cases rule: run_rounds_cases)
    case (tools ms1 st1 resp w results st3)
    have "P w" using i [OF tools(3)] c [OF tools(1)] .
    moreover have "(\<forall>spec. Q spec) \<or> fair_schedule e \<and> list_all (allowed_call e Q) (rs_tool_calls resp)"
      using assms(2) unfolding calls_only_def
    proof
      assume g: "le_gate e = WriteApproval \<and> fair_schedule e \<and> (\<forall>spec. is_read_only spec \<longrightarrow> Q spec)"
      then have "list_all (read_only_call e) (rs_tool_calls resp)" using gate_open [OF _ tools(4)] by blast
      then have "list_all (allowed_call e Q) (rs_tool_calls resp)"
        by (rule list.pred_mono_strong) (use g in \<open>simp add: allowed_call_def read_only_call_def split: option.splits\<close>)
      with g show ?thesis by blast
    qed blast
    ultimately have "P (world st3)"
      using keeps_batch [OF assms(1), of "st1\<lparr>world := w\<rparr>" "rs_tool_calls resp" rid ts] tools(5) by simp
    with Suc.IH [OF tools(6)] show ?thesis .
  next
    case (answer ms1 st1 resp w r w')
    then show ?thesis using keeps_final [OF assms(1) answer(4)] i [OF answer(3)] c [OF answer(1)] by simp
  qed (use c i in \<open>auto\<close>)
qed simp

lemma run_keeps_for:
  "keeps_for e Q P \<Longrightarrow> calls_only e Q \<Longrightarrow> run e ms rid ts pre st = (out, st') \<Longrightarrow> P (world st) \<Longrightarrow> P (world st')"
  by (auto simp: run_def Let_def dest!: run_rounds_keeps split: if_splits)

lemma run_keeps: "keeps e P \<Longrightarrow> run e ms rid ts pre st = (out, st') \<Longrightarrow> P (world st) \<Longrightarrow> P (world st')"
  by (rule run_keeps_for [of _ "\<lambda>_. True"]) (simp_all only: calls_only_def simp_thms, blast?)

text \<open>Under the write-approval gate only what read-only tools do happens before the user decides.\<close>

lemma run_reads_keep:
  "le_gate e = WriteApproval \<Longrightarrow> fair_schedule e \<Longrightarrow> keeps_for e is_read_only P \<Longrightarrow>
     run e ms rid ts pre st = (out, st') \<Longrightarrow> P (world st) \<Longrightarrow> P (world st')"
  by (rule run_keeps_for [of _ is_read_only]) (assumption, unfold calls_only_def, blast+)

section \<open>Sample values\<close>

definition loop_tool :: "string \<Rightarrow> bool \<Rightarrow> nat ToolSpec" where
  "loop_tool n ro = (tool n ''sample'' (JObj []) (\<lambda>args ctx. (Inr ''ok'', (fst ctx,
      if n = ''tool_search'' then set_add ''search_jira'' (snd ctx) else snd ctx))))
     \<lparr>is_read_only := ro, is_concurrency_safe := ro, is_core := n \<noteq> ''search_jira''\<rparr>"

definition loop_registry :: "nat ToolRegistry" where
  "loop_registry = \<lparr>tools = map (\<lambda>(n, ro). (n, loop_tool n ro))
     [(''read_file'', True), (''tool_search'', True), (''search_jira'', True), (''write_file'', False)], skipped_toolsets = []\<rparr>"

definition named_call :: "string \<Rightarrow> string \<Rightarrow> ToolCall" where
  "named_call i n = \<lparr>call_id = i, call_name = n, call_arguments = []\<rparr>"

text \<open>A model that searches and reads, then asks for a write, then answers.\<close>

definition loop_backend :: "nat backend" where
  "loop_backend req w = (Inr \<lparr>rs_content = ''done'', finish_reason = ''stop'', rs_tool_calls =
     (if w = 0 then [named_call ''c1'' ''tool_search'', named_call ''c2'' ''read_file'']
      else if w = 1 then [named_call ''c3'' ''write_file''] else [])\<rparr>, Suc w)"

definition loop_sample :: "ApprovalGate \<Rightarrow> nat loop_env" where
  "loop_sample g = \<lparr>le_infer = loop_backend, le_registry = loop_registry, le_config = sample_config, le_gate = g,
     le_audit = None, le_loads = (\<lambda>s. Inr []), le_schedule = rev, le_duration = (\<lambda>tc. 0)\<rparr>"

definition loop_start :: "nat loop_state" where
  "loop_start = \<lparr>world = 0, surface = [], tool_names = [], executed = []\<rparr>"

lemma loop_sample_fields [simp]:
  "le_infer (loop_sample g) = loop_backend" "le_registry (loop_sample g) = loop_registry"
  "le_config (loop_sample g) = sample_config" "le_gate (loop_sample g) = g" "le_audit (loop_sample g) = None"
  "le_schedule (loop_sample g) = rev"
  by (simp_all add: loop_sample_def)

lemma loop_get_tool:
  "get_tool loop_registry ''read_file'' = Some (loop_tool ''read_file'' True)"
  "get_tool loop_registry ''tool_search'' = Some (loop_tool ''tool_search'' True)"
  "get_tool loop_registry ''write_file'' = Some (loop_tool ''write_file'' False)"
  by (simp_all add: get_tool_def loop_registry_def dict_get_def)

lemma loop_sample_fair: "fair_schedule (loop_sample g)"
  by (simp add: fair_schedule_def)

lemma loop_sample_metered: "metered (loop_sample g) (\<lambda>w. w)"
proof -
  have "fst (snd (ts_handler spec kw (w, sf))) = w" if "get_tool loop_registry n = Some spec" for n spec kw w sf
    using that by (auto simp: get_tool_def loop_registry_def loop_tool_def tool_def dict_get_def split: if_splits)
  then show ?thesis unfolding metered_def by (simp add: loop_backend_def)
qed

lemma sample_batch:
  "execute_tool_calls (loop_sample g) rid ts [named_call ''c1'' ''tool_search'', named_call ''c2'' ''read_file''] st =
     ([tool_message ''c1'' ''ok'', tool_message ''c2'' ''ok''],
      st\<lparr>tool_names := register_tool_call ''c1'' ''tool_search'' (register_tool_call ''c2'' ''read_file'' (tool_names st)),
         executed := executed st @ [named_call ''c2'' ''read_file'', named_call ''c1'' ''tool_search'']\<rparr>)"
  by (simp add: execute_tool_calls_def concurrency_safe_def named_call_def loop_get_tool execute_gathered_def
      execute_one_def execute_def loop_tool_def tool_def ToolRegistry.truncate_def DEFAULT_MAX_RESULT_CHARS_def Let_def)

lemma sample_write:
  "execute_tool_calls (loop_sample g) rid ts [named_call ''c3'' ''write_file''] st =
     ([tool_message ''c3'' ''ok''], st\<lparr>tool_names := register_tool_call ''c3'' ''write_file'' (tool_names st),
        executed := executed st @ [named_call ''c3'' ''write_file'']\<rparr>)"
  by (simp add: execute_tool_calls_def concurrency_safe_def named_call_def loop_get_tool
      execute_one_def execute_def loop_tool_def tool_def ToolRegistry.truncate_def DEFAULT_MAX_RESULT_CHARS_def Let_def)

lemma sample_pass:
  assumes "list_all (\<lambda>m. length (content m) \<le> 10) ms" and "length ms \<le> 10"
  shows "compaction_pass (loop_sample g) rid ms st = (Inr ms, st)"
proof -
  have "truncate_tool_results 10000 ms = ms"
    using assms(1) by (auto simp: truncate_tool_results_def truncate_message_def list_all_iff intro!: map_idI)
  moreover have "sum_list (map (\<lambda>m. length (content m)) ms) \<le> sum_list (map (\<lambda>m. 10) ms)"
    using assms(1) by (intro sum_list_mono) (auto simp: list_all_iff)
  then have "sum_list (map (\<lambda>m. length (content m)) ms) \<le> 100" using assms(2) by (simp add: sum_list_triv)
  then have "\<not> should_compact 400000 ms" by (simp add: should_compact_def)
  ultimately show ?thesis by (simp add: compaction_pass_def sample_config_def)
qed

text \<open>A short transcript is never compacted, whatever the model is.\<close>

lemma short_pass:
  assumes "le_config e = sample_config" and "list_all (\<lambda>m. role m \<noteq> ROLE_TOOL \<or> length (content m) \<le> 10000) ms" and "length ms \<le> 4"
  shows "compaction_pass e rid ms st = (Inr ms, st)"
proof -
  have t: "truncate_tool_results 10000 ms = ms"
    using assms(2) by (auto simp: truncate_tool_results_def truncate_message_def list_all_iff intro!: map_idI)
  obtain sys conv where s: "split_system ms = (sys, conv)" by fastforce
  then have "length conv \<le> 4" using split_system_append [OF s] assms(3) by simp
  with s have "compact_messages inf sample_config names rid ms w = (Inr ms, w)" for inf names and w :: 'a
    by (simp add: compact_messages_def sample_config_def MIN_COMPRESS_COUNT_def)
  with t show ?thesis by (simp add: compaction_pass_def assms(1) sample_config_def)
qed

lemma sample_fuel: obtains f where "nat (max_tool_rounds sample_config) = Suc (Suc (Suc f))"
proof
  show "nat (max_tool_rounds sample_config) = Suc (Suc (Suc 7))" by (simp add: sample_config_def)
qed

lemma sample_run_blocked:
  "\<exists>p st'. run (loop_sample WriteApproval) [text_message ROLE_USER ''hi''] ''r'' None [] loop_start = (NeedsApproval p, st') \<and>
     executed st' = [named_call ''c2'' ''read_file'', named_call ''c1'' ''tool_search''] \<and>
     pa_tool_calls p = [named_call ''c3'' ''write_file''] \<and> pa_surfaced_tools p = []"
proof -
  obtain f where fuel: "nat (max_tool_rounds sample_config) = Suc (Suc (Suc f))" by (rule sample_fuel)
  show ?thesis
    unfolding run_def loop_sample_fields fuel
    by (simp add: sample_pass loop_start_def loop_backend_def Let_def get_write_tool_calls_def needs_write_approval_def
        loop_get_tool sample_batch reset_tool_surface_def text_message_def tool_message_def build_assistant_tool_message_def)
      (simp add: named_call_def loop_get_tool loop_tool_def tool_def)
qed

lemma sample_run_finished:
  "\<exists>r st'. run (loop_sample AutoApproval) [text_message ROLE_USER ''hi''] ''r'' None [] loop_start = (Finished r, st') \<and>
     length (executed st') = 3 \<and> ar_content r = ''done'' \<and> rounds r = 3 \<and> \<not> hit_safety_limit r \<and> world st' = 3"
proof -
  obtain f where fuel: "nat (max_tool_rounds sample_config) = Suc (Suc (Suc f))" by (rule sample_fuel)
  show ?thesis
    unfolding run_def loop_sample_fields fuel
    by (simp add: sample_pass loop_start_def loop_backend_def Let_def needs_write_approval_def final_content_def repair_response_def
        sample_batch sample_write reset_tool_surface_def text_message_def tool_message_def build_assistant_tool_message_def
        strip_def rstrip_def is_space_def list_ex_iff)
qed

section \<open>Properties\<close>

lemma run_gate:
  assumes "le_gate e = WriteApproval" and "fair_schedule e" and "run e messages req_id thread_ts pre_surfaced st = (out, st')"
  shows "\<exists>new. executed st' = executed st @ new \<and> list_all (read_only_call e) new \<and>
    (\<forall>p. out = NeedsApproval p \<longrightarrow> list_ex (\<lambda>tc. \<not> read_only_call e tc) (pa_tool_calls p))"
  using run_rounds_gate [OF assms(1,2) assms(3) [unfolded run_def Let_def]] by (simp split: if_splits)

text \<open>What a paused run shows to the user describes exactly the write calls of its batch.\<close>

lemma run_rounds_description:
  assumes "run_rounds e rid ts fuel n made ms st = (NeedsApproval p, st')"
  shows "pa_description p = format_write_description e (get_write_tool_calls e (pa_tool_calls p))"
  using assms
proof (induction fuel arbitrary: n made ms st)
  case (Suc fuel)
  from Suc.prems show ?case
    by (auto simp: Let_def dest: Suc.IH split: prod.splits sum.splits if_splits)
qed simp

lemma run_description:
  "run e ms rid ts pre st = (NeedsApproval p, st') \<Longrightarrow>
     pa_description p = format_write_description e (get_write_tool_calls e (pa_tool_calls p))"
  by (auto simp: run_def Let_def dest: run_rounds_description split: if_splits)

lemma repair_not_blank: "strip (rr_content (repair_response resp)) \<noteq> []"
  by (auto simp: repair_response_def EMPTY_RESPONSE_FALLBACK_def strip_def rstrip_def is_space_def)

text \<open>
  C9: Under the write-approval gate no write tool runs without approval: whatever the
  model asks for and however a run ends, every tool call that reached the registry during
  the run was of a read-only tool or of a name that is not registered, and a run that stops
  for approval has a call of a write tool in the batch it presents.
\<close>

theorem write_gate_safe:
  assumes "le_gate e = WriteApproval" and "fair_schedule e"
    and "run e messages req_id thread_ts pre_surfaced st = (out, st')"
  shows "\<exists>new. executed st' = executed st @ new \<and> list_all (read_only_call e) new \<and>
    (\<forall>p. out = NeedsApproval p \<longrightarrow> list_ex (\<lambda>tc. \<not> read_only_call e tc) (pa_tool_calls p))"
  using assms by (rule run_gate)

theorem write_gate_safe_witness:
  "\<exists>p st'. run (loop_sample WriteApproval) [text_message ROLE_USER ''hi''] ''r'' None [] loop_start = (NeedsApproval p, st') \<and>
     list_all (read_only_call (loop_sample WriteApproval)) (executed st') \<and> length (executed st') = 2 \<and>
     list_ex (\<lambda>tc. \<not> read_only_call (loop_sample WriteApproval) tc) (pa_tool_calls p)"
proof -
  obtain p st' where r: "run (loop_sample WriteApproval) [text_message ROLE_USER ''hi''] ''r'' None [] loop_start = (NeedsApproval p, st')"
    and n: "executed st' = [named_call ''c2'' ''read_file'', named_call ''c1'' ''tool_search'']"
    using sample_run_blocked by blast
  have g: "le_gate (loop_sample WriteApproval) = WriteApproval" "executed loop_start = []" by (simp_all add: loop_start_def)
  from write_gate_safe [OF g(1) loop_sample_fair r] g(2) n r show ?thesis by auto
qed

text \<open>
  C10: A batch of tool calls is answered completely and in order. For every completion order
  of the gathered calls, each call runs exactly once, first the concurrency-safe ones and
  then the others one after the other in the model's order; the batch gives one tool message
  per call, in the order of the calls and with their ids; and appending the assistant
  message and the results to a conversation that answers all its tool calls gives such a
  conversation again, also after micro-compaction.
\<close>

theorem tool_batch_complete:
  assumes "fair_schedule e" and "execute_tool_calls e req_id thread_ts calls st = (results, st')"
  shows "map tool_call_id results = map (Some \<circ> call_id) calls \<and> map role results = map (\<lambda>_. ROLE_TOOL) calls \<and>
    (\<exists>safe. mset safe = mset (filter (concurrency_safe e) calls) \<and>
       executed st' = executed st @ safe @ filter (\<lambda>tc. \<not> concurrency_safe e tc) calls) \<and>
    (rs_tool_calls resp = calls \<longrightarrow> calls \<noteq> [] \<longrightarrow> protocol_ok [] ms \<longrightarrow>
       protocol_ok [] (truncate_tool_results limit (ms @ [build_assistant_tool_message resp] @ results)))"
proof -
  note m = execute_tool_calls_messages [OF assms(1), of req_id thread_ts calls st, unfolded assms(2) fst_conv]
  have "protocol_ok [] (truncate_tool_results limit (ms @ [build_assistant_tool_message resp] @ results))"
    if "rs_tool_calls resp = calls" "calls \<noteq> []" "protocol_ok [] ms"
  proof -
    have "protocol_ok (map call_id calls) results" using m by (intro protocol_results) (simp_all add: comp_def)
    then have "protocol_ok [] ([build_assistant_tool_message resp] @ results)"
      using that by (simp add: build_assistant_tool_message_def)
    with that(3) show ?thesis by (simp only: protocol_truncate protocol_append)
  qed
  moreover have "\<exists>safe. mset safe = mset (filter (concurrency_safe e) calls) \<and>
      executed st' = executed st @ safe @ filter (\<lambda>tc. \<not> concurrency_safe e tc) calls"
    using execute_tool_calls_order [OF assms(1), of calls req_id thread_ts st] assms(2) by (metis snd_conv)
  ultimately show ?thesis using m by blast
qed

theorem tool_batch_complete_witness:
  "\<exists>results st'. execute_tool_calls (loop_sample WriteApproval) ''r'' None
       [named_call ''c1'' ''tool_search'', named_call ''c2'' ''read_file''] loop_start = (results, st') \<and>
     map tool_call_id results = [Some ''c1'', Some ''c2''] \<and>
     protocol_ok [] ([text_message ROLE_USER ''hi'', (text_message ROLE_ASSISTANT [])
       \<lparr>msg_tool_calls := Some [named_call ''c1'' ''tool_search'', named_call ''c2'' ''read_file'']\<rparr>] @ results)"
proof -
  let ?calls = "[named_call ''c1'' ''tool_search'', named_call ''c2'' ''read_file'']"
  let ?resp = "\<lparr>rs_content = [], finish_reason = [], rs_tool_calls = ?calls\<rparr>"
  obtain results st' where r: "execute_tool_calls (loop_sample WriteApproval) ''r'' None ?calls loop_start = (results, st')"
    by fastforce
  from tool_batch_complete [OF loop_sample_fair r, of ?resp "[text_message ROLE_USER ''hi'']" 10000]
  have "map tool_call_id results = map (Some \<circ> call_id) ?calls"
    "protocol_ok [] ([text_message ROLE_USER ''hi'', build_assistant_tool_message ?resp] @ results)"
    by (simp_all add: protocol_truncate text_message_def)
  then show ?thesis using r by (simp add: named_call_def build_assistant_tool_message_def text_message_def)
qed

text \<open>
  C16: A run is bounded. It needs at most two inference calls per round (one of them for
  compaction) and \<open>max_continuation_retries\<close> more for a truncated answer, however it ends.
  A run that returns reports between one and \<open>max_tool_rounds\<close> rounds, or exactly
  \<open>max_tool_rounds\<close> with the safety flag, and \<open>tool_calls_made\<close> is the number of calls
  that ran.
\<close>

theorem run_bounded:
  assumes "fair_schedule e" and "metered e cnt" and "0 \<le> max_tool_rounds (le_config e)"
    and "run e messages req_id thread_ts pre_surfaced st = (out, st')"
  shows "cnt (world st') \<le> cnt (world st) + 2 * nat (max_tool_rounds (le_config e)) + nat (max_continuation_retries (le_config e)) \<and>
    (\<forall>r. out = Finished r \<longrightarrow>
       length (executed st') = length (executed st) + tool_calls_made r \<and>
       (if hit_safety_limit r then rounds r = max_tool_rounds (le_config e)
        else 1 \<le> rounds r \<and> rounds r \<le> max_tool_rounds (le_config e)))"
proof -
  note r = assms(4) [unfolded run_def Let_def]
  have "cnt (world st') \<le> cnt (world st) + 2 * nat (max_tool_rounds (le_config e)) + nat (max_continuation_retries (le_config e))"
    using run_rounds_budget [OF assms(2) r] by (simp split: if_splits)
  moreover have "length (executed st') = length (executed st) + tool_calls_made res \<and>
      (if hit_safety_limit res then rounds res = max_tool_rounds (le_config e)
       else 1 \<le> rounds res \<and> rounds res \<le> max_tool_rounds (le_config e))" if "out = Finished res" for res
    using run_rounds_counts [OF assms(1) r [unfolded that]] assms(3) by (auto split: if_splits)
  ultimately show ?thesis by blast
qed

theorem run_bounded_witness:
  "\<exists>r st'. run (loop_sample AutoApproval) [text_message ROLE_USER ''hi''] ''r'' None [] loop_start = (Finished r, st') \<and>
     tool_calls_made r = 3 \<and> rounds r \<le> 10 \<and> world st' \<le> 22"
proof -
  obtain r st' where r: "run (loop_sample AutoApproval) [text_message ROLE_USER ''hi''] ''r'' None [] loop_start = (Finished r, st')"
    and l: "length (executed st') = 3" using sample_run_finished by blast
  have c: "0 \<le> max_tool_rounds (le_config (loop_sample AutoApproval))" "max_tool_rounds sample_config = 10"
    "max_continuation_retries sample_config = 2" "world loop_start = 0" "executed loop_start = []"
    by (simp_all add: sample_config_def loop_start_def)
  from run_bounded [OF loop_sample_fair loop_sample_metered c(1) r] c l r show ?thesis by (auto split: if_splits)
qed

text \<open>
  What concurrency-safe tools surface is lost. A batch in which every tool is
  concurrency-safe leaves the task's surface as it was, whatever its handlers do, because
  each gathered call runs in a copy of the context. So a call of \<open>tool_search\<close>, which is
  concurrency-safe, never changes the definitions offered in the next round.
\<close>

theorem gathered_surface_lost:
  assumes "list_all (concurrency_safe e) calls" and "execute_tool_calls e req_id thread_ts calls st = (results, st')"
  shows "surface st' = surface st \<and>
    tool_definitions (le_registry e) (surface st') = tool_definitions (le_registry e) (surface st)"
proof -
  have "unsafe_positions e calls = []" using assms(1) by (simp add: filter_empty_conv list_all_length)
  from surface_of_batch [OF this, of req_id thread_ts st] show ?thesis using assms(2) by simp
qed

theorem gathered_surface_lost_witness:
  "\<exists>results st'. execute_tool_calls (loop_sample WriteApproval) ''r'' None [named_call ''c1'' ''tool_search''] loop_start = (results, st') \<and>
     surface st' = [] \<and> snd (snd (ts_handler (loop_tool ''tool_search'' True) [] (0, []))) = [''search_jira'']"
proof -
  have s: "list_all (concurrency_safe (loop_sample WriteApproval)) [named_call ''c1'' ''tool_search'']"
    by (simp add: concurrency_safe_def named_call_def loop_get_tool loop_tool_def tool_def)
  obtain results st' where r: "execute_tool_calls (loop_sample WriteApproval) ''r'' None [named_call ''c1'' ''tool_search''] loop_start = (results, st')"
    by fastforce
  from gathered_surface_lost [OF s r] r show ?thesis
    by (simp add: loop_start_def loop_tool_def tool_def set_add_def)
qed

text \<open>
  A reply that ends a run is never blank unless the model was cut off: when the answer's
  finish reason is not \<open>length\<close> the reply has a character that is not white space, the
  model's own text whenever that is not blank and was not filtered; a truncated answer
  is the concatenation of its chunks, beginning with the truncated text.
\<close>

theorem final_reply:
  assumes "final_content e req_id ms resp w = (Inr text, w')"
  shows "(finish_reason resp \<noteq> ''length'' \<longrightarrow> strip text \<noteq> [] \<and> w' = w \<and>
      (strip (rs_content resp) \<noteq> [] \<and> finish_reason resp \<noteq> ''content_filter'' \<longrightarrow> text = rs_content resp)) \<and>
    (finish_reason resp = ''length'' \<longrightarrow>
      (\<exists>chunks. text = rs_content resp @ concat chunks \<and>
        continue_chunks e req_id (nat (max_continuation_retries (le_config e)))
          (ms @ [text_message ROLE_ASSISTANT (rs_content resp)]) w = (Inr chunks, w')))"
  using assms repair_not_blank [of resp]
  by (auto simp: final_content_def continue_truncated_def repair_response_def split: if_splits prod.splits sum.splits)

theorem final_reply_witness:
  "final_content (loop_sample AutoApproval) ''r'' [] \<lparr>rs_content = '' '', finish_reason = ''stop'', rs_tool_calls = []\<rparr> 0 =
     (Inr EMPTY_RESPONSE_FALLBACK, 0) \<and> strip EMPTY_RESPONSE_FALLBACK \<noteq> []"
proof -
  let ?resp = "\<lparr>rs_content = '' '', finish_reason = ''stop'', rs_tool_calls = []\<rparr>"
  have f: "final_content (loop_sample AutoApproval) ''r'' [] ?resp 0 = (Inr EMPTY_RESPONSE_FALLBACK, 0)"
    by (simp add: final_content_def repair_response_def strip_def rstrip_def is_space_def)
  with final_reply [OF f] show ?thesis by simp
qed

end
