(* ===== verification/TaskProtocol.thy ===== *)
theory TaskProtocol
  imports AuditDb
begin

text \<open>
  The typed payloads between orchestrator and sub-agent (\<^verbatim>\<open>nmb/protocol.py\<close>) and the
  context of a workflow (\<^verbatim>\<open>orchestrator/workflow.py\<close>).

  A payload class is a record; \<open>assign_valid\<close> and its siblings are the field constraints
  the class declares. Constructing an invalid payload raises pydantic's validation error,
  whose text is an argument of the operations that can raise it. Parsing of a received
  payload is pydantic's and appears as an argument of the operations that receive.
\<close>

section \<open>Wire enums\<close>

datatype MessageType = TASK_ASSIGN | TASK_PROGRESS | TASK_COMPLETE | TASK_ERROR | AUDIT_FLUSH

fun type_value :: "MessageType \<Rightarrow> string" where
  "type_value TASK_ASSIGN = ''task.assign''"
| "type_value TASK_PROGRESS = ''task.progress''"
| "type_value TASK_COMPLETE = ''task.complete''"
| "type_value TASK_ERROR = ''task.error''"
| "type_value AUDIT_FLUSH = ''audit.flush''"

datatype TaskProgressStatus = STARTING | READING_WORKSPACE | WRITING_CODE | RUNNING_TESTS | FINALIZING

datatype TaskErrorKind = MAX_TURNS_EXCEEDED | TOOL_FAILURE | POLICY_DENIED | INFERENCE_ERROR | OTHER_ERROR

fun kind_value :: "TaskErrorKind \<Rightarrow> string" where
  "kind_value MAX_TURNS_EXCEEDED = ''max_turns_exceeded''"
| "kind_value TOOL_FAILURE = ''tool_failure''"
| "kind_value POLICY_DENIED = ''policy_denied''"
| "kind_value INFERENCE_ERROR = ''inference_error''"
| "kind_value OTHER_ERROR = ''other''"

lemma type_value_inj: "type_value a = type_value b \<Longrightarrow> a = b"
  by (cases a; cases b) simp_all

section \<open>Payloads\<close>

record WorkspaceBaseline =
  repo_url :: string
  wb_branch :: string
  base_sha :: string
  is_shallow :: bool

record ContextFile =
  cf_path :: string
  cf_content :: string
  cf_base64 :: bool

record TaskAssignPayload =
  ta_prompt :: string
  ta_workflow_id :: string
  ta_parent_sandbox_id :: string
  ta_agent_id :: string
  ta_workspace_root :: string
  ta_max_turns :: "int option"
  ta_model :: "string option"
  ta_tool_surface :: "string list option"
  ta_context_files :: "ContextFile list"
  ta_baseline :: "WorkspaceBaseline option"
  is_iteration :: bool
  iteration_number :: int

record TaskProgressPayload =
  pg_workflow_id :: string
  pg_status :: TaskProgressStatus
  pg_pct :: "int option"
  pg_current_round :: "int option"
  pg_tokens_used :: "int option"
  pg_note :: "string option"

record TaskCompletePayload =
  cp_workflow_id :: string
  cp_summary :: string
  cp_diff :: string
  cp_baseline :: "WorkspaceBaseline option"
  cp_files_changed :: "string list"
  cp_notes_path :: "string option"
  cp_git_commit_sha :: "string option"
  cp_tool_calls_made :: int
  cp_rounds_used :: int
  cp_model_used :: "string option"
  cp_suggested_next_step :: "string option"

record TaskErrorPayload =
  te_workflow_id :: string
  te_error :: string
  te_error_kind :: TaskErrorKind
  te_recoverable :: bool
  te_notes_path :: "string option"
  te_traceback :: "string option"

section \<open>Field constraints\<close>

definition baseline_valid :: "WorkspaceBaseline \<Rightarrow> bool" where
  "baseline_valid b = (repo_url b \<noteq> [] \<and> wb_branch b \<noteq> [] \<and> base_sha b \<noteq> [])"

definition opt_all :: "('a \<Rightarrow> bool) \<Rightarrow> 'a option \<Rightarrow> bool" where
  "opt_all P x = (case x of None \<Rightarrow> True | Some y \<Rightarrow> P y)"

definition assign_valid :: "TaskAssignPayload \<Rightarrow> bool" where
  "assign_valid t =
     (ta_prompt t \<noteq> [] \<and> ta_workflow_id t \<noteq> [] \<and> ta_parent_sandbox_id t \<noteq> [] \<and> ta_agent_id t \<noteq> [] \<and>
      ta_workspace_root t \<noteq> [] \<and> opt_all (\<lambda>n. 0 < n) (ta_max_turns t) \<and>
      list_all (\<lambda>f. cf_path f \<noteq> []) (ta_context_files t) \<and> opt_all baseline_valid (ta_baseline t) \<and>
      0 \<le> iteration_number t)"

definition progress_valid :: "TaskProgressPayload \<Rightarrow> bool" where
  "progress_valid p =
     (pg_workflow_id p \<noteq> [] \<and> opt_all (\<lambda>n. 0 \<le> n \<and> n \<le> 100) (pg_pct p) \<and>
      opt_all (\<lambda>n. 0 \<le> n) (pg_current_round p) \<and> opt_all (\<lambda>n. 0 \<le> n) (pg_tokens_used p))"

definition complete_valid :: "TaskCompletePayload \<Rightarrow> bool" where
  "complete_valid p =
     (cp_workflow_id p \<noteq> [] \<and> cp_summary p \<noteq> [] \<and> opt_all baseline_valid (cp_baseline p) \<and>
      0 \<le> cp_tool_calls_made p \<and> 0 \<le> cp_rounds_used p)"

definition error_valid :: "TaskErrorPayload \<Rightarrow> bool" where
  "error_valid p = (te_workflow_id p \<noteq> [] \<and> te_error p \<noteq> [])"

section \<open>Workflow context\<close>

record WorkflowContext =
  wf_id :: string
  wf_task :: TaskAssignPayload
  wf_channel_id :: "string option"
  wf_thread_ts :: "string option"
  wf_request_id :: string
  wf_started_at :: pyfloat

end
