(* ===== verification/Delegation.thy ===== *)
theory Delegation
  imports TaskProtocol Client
begin

text \<open>
  The delegation manager (\<^verbatim>\<open>orchestrator/delegation.py\<close>): the concurrency cap, the spawned
  sub-agents and the delivery of \<open>task.assign\<close>.

  Spawning a process and sending over the bus take time, so a call of \<open>delegate\<close> is cut at
  its awaits into the definitions of the second section; \<open>delegate\<close> composes them for a call
  that runs undisturbed, and \<open>deleg_step\<close> interleaves any number of calls with
  \<open>terminate\<close> and with cancellation. A sub-agent process is a number; two handles are the
  same object when their numbers agree. \<open>terminated\<close> lists the processes whose
  \<open>terminate()\<close> was called. The retries of tenacity are summarised by their outcome: no
  error, or the exception of the last attempt.
\<close>

section \<open>State\<close>

record DelegationConfig =
  max_concurrent :: int
  max_spawn_depth :: int
  spawn_ready_timeout_str :: string

record SpawnedAgent =
  sa_sandbox_id :: string
  sa_process :: nat

record DelegationManager =
  dm_config :: DelegationConfig
  permits :: int
  spawned :: "(string, SpawnedAgent) dict"
  next_process :: nat
  terminated :: "nat list"

definition manager_init :: "DelegationConfig \<Rightarrow> DelegationManager" where
  "manager_init cfg = \<lparr>dm_config = cfg, permits = max_concurrent cfg, spawned = [], next_process = 0, terminated = []\<rparr>"

section \<open>The pieces of a delegation\<close>

definition check_spawn_depth :: "DelegationManager \<Rightarrow> string option" where
  "check_spawn_depth m = (if max_spawn_depth (dm_config m) < 1
     then Some (''max_spawn_depth='' @ int_str (max_spawn_depth (dm_config m)) @ '' forbids any delegation'') else None)"

text \<open>Where a call of \<open>delegate\<close> stands when it awaits.\<close>

datatype phase = Waiting | Spawning | Sending SpawnedAgent | Failing

definition delegate_enter :: "string \<Rightarrow> DelegationManager \<Rightarrow> phase \<times> DelegationManager" where
  "delegate_enter wid m =
     (if dict_has (spawned m) wid then (Spawning, m)
      else if permits m > 0 then (Spawning, m\<lparr>permits := permits m - 1\<rparr>)
      else (Waiting, m))"

definition release_if_gone :: "string \<Rightarrow> DelegationManager \<Rightarrow> DelegationManager" where
  "release_if_gone wid m = (if dict_has (spawned m) wid then m else m\<lparr>permits := permits m + 1\<rparr>)"

definition spawn_agent :: "string \<Rightarrow> DelegationManager \<Rightarrow> SpawnedAgent \<times> DelegationManager" where
  "spawn_agent sid m =
     (\<lparr>sa_sandbox_id = sid, sa_process = next_process m\<rparr>, m\<lparr>next_process := Suc (next_process m)\<rparr>)"

definition install_agent :: "string \<Rightarrow> SpawnedAgent \<Rightarrow> DelegationManager \<Rightarrow> DelegationManager" where
  "install_agent wid agent m =
     (let previous = dict_get (spawned m) wid;
          m1 = m\<lparr>spawned := dict_set wid agent (spawned m)\<rparr>
      in case previous of None \<Rightarrow> m1 | Some p \<Rightarrow> m1\<lparr>terminated := terminated m1 @ [sa_process p]\<rparr>)"

definition evict_agent :: "string \<Rightarrow> SpawnedAgent \<Rightarrow> DelegationManager \<Rightarrow> DelegationManager" where
  "evict_agent wid agent m =
     (let m1 = (if dict_get (spawned m) wid = Some agent then m\<lparr>spawned := dict_pop wid (spawned m)\<rparr> else m)
      in m1\<lparr>terminated := terminated m1 @ [sa_process agent]\<rparr>)"

definition terminate_workflow :: "string \<Rightarrow> DelegationManager \<Rightarrow> DelegationManager" where
  "terminate_workflow wid m =
     (case dict_get (spawned m) wid of
        None \<Rightarrow> m
      | Some agent \<Rightarrow> m\<lparr>spawned := dict_pop wid (spawned m), permits := permits m + 1,
          terminated := terminated m @ [sa_process agent]\<rparr>)"

definition manager_close :: "DelegationManager \<Rightarrow> DelegationManager" where
  "manager_close m = fold terminate_workflow (dict_keys (spawned m)) m"

text \<open>\<open>_is_target_offline\<close>, and the error that a failed delivery is reported as.\<close>

definition is_target_offline :: "bus_error \<Rightarrow> bool" where
  "is_target_offline err = (case err of NMBConnectionError txt \<Rightarrow> contains_str txt ''TARGET_OFFLINE'' | _ \<Rightarrow> False)"

definition bus_error_str :: "bus_error \<Rightarrow> string" where
  "bus_error_str err = (case err of NMBConnectionError txt \<Rightarrow> txt | TimeoutError txt \<Rightarrow> txt | ConnectionClosed \<Rightarrow> [])"

definition assign_error :: "DelegationConfig \<Rightarrow> bus_error \<Rightarrow> string" where
  "assign_error cfg err =
     (if is_target_offline err
      then ''sub-agent never came online within spawn_ready_timeout_s='' @ spawn_ready_timeout_str cfg @
        ''s (last broker error: '' @ bus_error_str err @ '')''
      else ''task.assign delivery failed: '' @ bus_error_str err)"

section \<open>An undisturbed delegation\<close>

text \<open>
  What the environment contributes: whether the spawn callback fails, the outcome of the
  readiness retries, and whether stopping a process raises.
\<close>

record deleg_env =
  spawn_error :: "TaskAssignPayload \<Rightarrow> string option"
  assign_outcome :: "TaskAssignPayload \<Rightarrow> bus_error option"
  stop_error :: "SpawnedAgent \<Rightarrow> string option"

datatype delegate_outcome = Delegated string string | DelegationError string | OtherError string | Blocked

definition delegate :: "deleg_env \<Rightarrow> TaskAssignPayload \<Rightarrow> DelegationManager \<Rightarrow> delegate_outcome \<times> DelegationManager" where
  "delegate e task m =
     (case check_spawn_depth m of
        Some err \<Rightarrow> (DelegationError err, m)
      | None \<Rightarrow>
         (let wid = ta_workflow_id task in
          case delegate_enter wid m of
            (Waiting, m1) \<Rightarrow> (Blocked, m1)
          | (_, m1) \<Rightarrow>
             (case spawn_error e task of
                Some txt \<Rightarrow> (DelegationError (''failed to spawn sub-agent: '' @ txt), release_if_gone wid m1)
              | None \<Rightarrow>
                 (let (agent, m2) = spawn_agent (ta_agent_id task) m1;
                      m3 = install_agent wid agent m2
                  in case assign_outcome e task of
                       None \<Rightarrow> (Delegated wid (sa_sandbox_id agent), m3)
                     | Some err \<Rightarrow>
                        (let m4 = release_if_gone wid (evict_agent wid agent m3)
                         in case stop_error e agent of
                              Some txt \<Rightarrow> (OtherError txt, m4)
                            | None \<Rightarrow> (DelegationError (assign_error (dm_config m) err), m4))))))"

section \<open>Interleaved delegations\<close>

text \<open>The calls in progress, by a number for each call.\<close>

record delegation_system =
  manager :: DelegationManager
  calls :: "(nat, string \<times> phase) dict"

definition delegation_init :: "DelegationConfig \<Rightarrow> delegation_system" where
  "delegation_init cfg = \<lparr>manager = manager_init cfg, calls = []\<rparr>"

text \<open>
  One atomic step of a call in progress. A failed send evicts its agent and awaits its end
  (\<open>Failing\<close>) before the slot is released; a cancelled call releases its slot if its
  workflow has no agent.
\<close>

inductive call_step :: "delegation_system \<Rightarrow> delegation_system \<Rightarrow> bool" where
  cs_acquire: "\<lbrakk>dict_get (calls s) c = Some (wid, Waiting); permits (manager s) > 0\<rbrakk> \<Longrightarrow>
    call_step s \<lparr>manager = (manager s)\<lparr>permits := permits (manager s) - 1\<rparr>, calls = dict_set c (wid, Spawning) (calls s)\<rparr>"
| cs_spawn_fails: "dict_get (calls s) c = Some (wid, Spawning) \<Longrightarrow>
    call_step s \<lparr>manager = release_if_gone wid (manager s), calls = dict_pop c (calls s)\<rparr>"
| cs_spawned: "\<lbrakk>dict_get (calls s) c = Some (wid, Spawning); spawn_agent sid (manager s) = (agent, m)\<rbrakk> \<Longrightarrow>
    call_step s \<lparr>manager = install_agent wid agent m, calls = dict_set c (wid, Sending agent) (calls s)\<rparr>"
| cs_sent: "dict_get (calls s) c = Some (wid, Sending agent) \<Longrightarrow>
    call_step s \<lparr>manager = manager s, calls = dict_pop c (calls s)\<rparr>"
| cs_send_fails: "dict_get (calls s) c = Some (wid, Sending agent) \<Longrightarrow>
    call_step s \<lparr>manager = evict_agent wid agent (manager s), calls = dict_set c (wid, Failing) (calls s)\<rparr>"
| cs_failed: "dict_get (calls s) c = Some (wid, Failing) \<Longrightarrow>
    call_step s \<lparr>manager = release_if_gone wid (manager s), calls = dict_pop c (calls s)\<rparr>"
| cs_cancel: "dict_get (calls s) c = Some (wid, ph) \<Longrightarrow>
    call_step s \<lparr>manager = (if ph = Waiting then manager s else release_if_gone wid (manager s)), calls = dict_pop c (calls s)\<rparr>"

inductive deleg_step :: "delegation_system \<Rightarrow> delegation_system \<Rightarrow> bool" where
  ds_enter: "\<lbrakk>dict_get (calls s) c = None; check_spawn_depth (manager s) = None; delegate_enter wid (manager s) = (ph, m)\<rbrakk> \<Longrightarrow>
    deleg_step s \<lparr>manager = m, calls = dict_set c (wid, ph) (calls s)\<rparr>"
| ds_terminate: "deleg_step s (s\<lparr>manager := terminate_workflow wid (manager s)\<rparr>)"
| ds_call: "call_step s s' \<Longrightarrow> deleg_step s s'"

definition busy :: "delegation_system \<Rightarrow> string \<Rightarrow> bool" where
  "busy s wid = (\<exists>c ph. dict_get (calls s) c = Some (wid, ph))"

text \<open>
  The same steps when a workflow is neither delegated again nor terminated while one of
  its delegations is still in progress.
\<close>

inductive serial_step :: "delegation_system \<Rightarrow> delegation_system \<Rightarrow> bool" where
  ss_enter: "\<lbrakk>dict_get (calls s) c = None; \<not> busy s wid; check_spawn_depth (manager s) = None;
      delegate_enter wid (manager s) = (ph, m)\<rbrakk> \<Longrightarrow>
    serial_step s \<lparr>manager = m, calls = dict_set c (wid, ph) (calls s)\<rparr>"
| ss_terminate: "\<not> busy s wid \<Longrightarrow> serial_step s (s\<lparr>manager := terminate_workflow wid (manager s)\<rparr>)"
| ss_call: "call_step s s' \<Longrightarrow> serial_step s s'"

lemma serial_deleg: "serial_step s s' \<Longrightarrow> deleg_step s s'"
  by (induction rule: serial_step.induct) (auto intro: deleg_step.intros)

section \<open>No process is orphaned\<close>

definition accounted :: "DelegationManager \<Rightarrow> bool" where
  "accounted m = (\<forall>p < next_process m. p \<in> set (terminated m) \<or>
     (\<exists>wid agent. dict_get (spawned m) wid = Some agent \<and> sa_process agent = p))"

text \<open>A step keeps processes accounted for if it drops no agent without stopping it.\<close>

lemma accounted_step:
  assumes "accounted m" and "\<And>wid a. dict_get (spawned m) wid = Some a \<Longrightarrow>
      sa_process a \<in> set (terminated m') \<or> dict_get (spawned m') wid = Some a"
    and "set (terminated m) \<subseteq> set (terminated m')" and "next_process m' = next_process m"
  shows "accounted m'"
  unfolding accounted_def
proof (intro allI impI)
  fix p assume "p < next_process m'"
  then have "p \<in> set (terminated m) \<or> (\<exists>wid a. dict_get (spawned m) wid = Some a \<and> sa_process a = p)"
    using assms(1,4) unfolding accounted_def by simp
  then show "p \<in> set (terminated m') \<or> (\<exists>wid a. dict_get (spawned m') wid = Some a \<and> sa_process a = p)"
    using assms(2,3) by blast
qed

lemma accounted_frame:
  "accounted m \<Longrightarrow> accounted (m\<lparr>permits := n\<rparr>)"
  "accounted m \<Longrightarrow> accounted (release_if_gone wid m)"
  by (simp_all add: accounted_def release_if_gone_def)

lemma accounted_install:
  assumes "accounted m" and "spawn_agent sid m = (agent, m')"
  shows "accounted (install_agent wid agent m')"
proof -
  let ?m = "install_agent wid agent m'"
  have m': "m' = m\<lparr>next_process := Suc (next_process m)\<rparr>" "sa_process agent = next_process m"
    using assms(2) by (auto simp: spawn_agent_def)
  have "accounted (?m\<lparr>next_process := next_process m\<rparr>)"
    by (rule accounted_step [OF assms(1)])
       (auto simp: m' install_agent_def Let_def dict_get_set split: option.splits)
  moreover have "next_process ?m = Suc (next_process m)" "dict_get (spawned ?m) wid = Some agent"
    using m' by (auto simp: install_agent_def Let_def dict_get_set split: option.splits)
  ultimately show ?thesis using m'(2) by (auto simp: accounted_def less_Suc_eq)
qed

lemma accounted_evict: "accounted m \<Longrightarrow> accounted (evict_agent wid agent m)"
  by (rule accounted_step [of m]) (auto simp: evict_agent_def Let_def dict_get_pop)

lemma accounted_terminate: "accounted m \<Longrightarrow> accounted (terminate_workflow wid m)"
  by (rule accounted_step [of m]) (auto simp: terminate_workflow_def dict_get_pop split: option.splits)

lemma accounted_enter: "delegate_enter wid m = (ph, m') \<Longrightarrow> accounted m \<Longrightarrow> accounted m'"
  by (auto simp: delegate_enter_def split: if_splits intro: accounted_frame(1))

lemma call_step_accounted: "call_step s s' \<Longrightarrow> accounted (manager s) \<Longrightarrow> accounted (manager s')"
  by (induction rule: call_step.induct)
     (auto intro: accounted_frame accounted_install accounted_evict)

lemma deleg_step_accounted: "deleg_step s s' \<Longrightarrow> accounted (manager s) \<Longrightarrow> accounted (manager s')"
  by (induction rule: deleg_step.induct) (auto intro: accounted_terminate accounted_enter call_step_accounted)


section \<open>Slots\<close>

text \<open>The workflows that hold a slot: those with an agent, and the delegations past the semaphore.\<close>

definition past_semaphore :: "(nat, string \<times> phase) dict \<Rightarrow> string \<Rightarrow> bool" where
  "past_semaphore cs w = (\<exists>c ph. dict_get cs c = Some (w, ph) \<and> ph \<noteq> Waiting)"

definition holders :: "delegation_system \<Rightarrow> string set" where
  "holders s = {w. dict_has (spawned (manager s)) w \<or> past_semaphore (calls s) w}"

definition calls_inv :: "delegation_system \<Rightarrow> bool" where
  "calls_inv s =
     ((\<forall>c c' w ph ph'. dict_get (calls s) c = Some (w, ph) \<and> dict_get (calls s) c' = Some (w, ph') \<longrightarrow> c = c') \<and>
      (\<forall>c w. dict_get (calls s) c = Some (w, Waiting) \<or> dict_get (calls s) c = Some (w, Failing) \<longrightarrow>
         \<not> dict_has (spawned (manager s)) w) \<and>
      (\<forall>c w agent. dict_get (calls s) c = Some (w, Sending agent) \<longrightarrow> dict_get (spawned (manager s)) w = Some agent))"

definition slot_inv :: "delegation_system \<Rightarrow> bool" where
  "slot_inv s = (calls_inv s \<and> 0 \<le> permits (manager s) \<and>
     permits (manager s) + int (card (holders s)) = max_concurrent (dm_config (manager s)))"

lemma finite_dict_has: "finite {w. dict_has d w}"
proof -
  have "{w. dict_has d w} = set (dict_keys d)" by (auto simp: dict_has_def dict_keys_iff)
  then show ?thesis by simp
qed

lemma finite_holders: "finite (holders s)"
proof -
  have "{w. past_semaphore (calls s) w} \<subseteq> (fst \<circ> snd) ` set (calls s)"
    by (force simp: past_semaphore_def dict_get_def dest: map_of_SomeD)
  then have "finite {w. past_semaphore (calls s) w}" by (rule finite_subset) simp
  then show ?thesis using finite_dict_has by (simp add: holders_def Collect_disj_eq)
qed

lemma dict_has_simps [dict_simps]:
  "dict_has (dict_set k v d) k' \<longleftrightarrow> k' = k \<or> dict_has d k'"
  "dict_has (dict_pop k d) k' \<longleftrightarrow> k' \<noteq> k \<and> dict_has d k'"
  by (auto simp: dict_has_def dict_simps)

text \<open>Taking and returning one slot.\<close>

lemma slot_take:
  assumes "slot_inv s" and "calls_inv s'" and "holders s' = insert w (holders s)" and "w \<notin> holders s" and "permits (manager s) > 0"
    and "permits (manager s') = permits (manager s) - 1" and "dm_config (manager s') = dm_config (manager s)"
  shows "slot_inv s'"
  using assms finite_holders [of s] by (simp add: slot_inv_def)

lemma slot_return:
  assumes "slot_inv s" and "calls_inv s'" and "holders s' = holders s - {w}" and "w \<in> holders s"
    and "permits (manager s') = permits (manager s) + 1" and "dm_config (manager s') = dm_config (manager s)"
  shows "slot_inv s'"
proof -
  have "card (holders s) = Suc (card (holders s - {w}))" using card_Suc_Diff1 [OF finite_holders assms(4)] by simp
  with assms(1,2,5,6) show ?thesis unfolding slot_inv_def assms(3) by simp
qed

lemma slot_keep:
  assumes "slot_inv s" and "calls_inv s'" and "holders s' = holders s"
    and "permits (manager s') = permits (manager s)" and "dm_config (manager s') = dm_config (manager s)"
  shows "slot_inv s'"
  using assms by (simp add: slot_inv_def)

lemma calls_invD:
  assumes "calls_inv s"
  shows "dict_get (calls s) c = Some (w, ph) \<Longrightarrow> dict_get (calls s) c' = Some (w, ph') \<Longrightarrow> c = c'"
    and "dict_get (calls s) c = Some (w, Waiting) \<Longrightarrow> \<not> dict_has (spawned (manager s)) w"
    and "dict_get (calls s) c = Some (w, Failing) \<Longrightarrow> \<not> dict_has (spawned (manager s)) w"
    and "dict_get (calls s) c = Some (w, Sending agent) \<Longrightarrow> dict_get (spawned (manager s)) w = Some agent"
  using assms unfolding calls_inv_def by blast+

lemma slot_invD: "slot_inv s \<Longrightarrow> calls_inv s"
  by (simp add: slot_inv_def)

lemma calls_invI:
  assumes "\<And>c c' w ph ph'. dict_get (calls s) c = Some (w, ph) \<Longrightarrow> dict_get (calls s) c' = Some (w, ph') \<Longrightarrow> c = c'"
    and "\<And>c w. dict_get (calls s) c = Some (w, Waiting) \<Longrightarrow> \<not> dict_has (spawned (manager s)) w"
    and "\<And>c w. dict_get (calls s) c = Some (w, Failing) \<Longrightarrow> \<not> dict_has (spawned (manager s)) w"
    and "\<And>c w agent. dict_get (calls s) c = Some (w, Sending agent) \<Longrightarrow> dict_get (spawned (manager s)) w = Some agent"
  shows "calls_inv s"
  using assms unfolding calls_inv_def by blast

lemma drop_call_calls_inv:
  assumes "calls_inv s" and "spawned m = spawned (manager s)"
  shows "calls_inv \<lparr>manager = m, calls = dict_pop c (calls s)\<rparr>"
  by (rule calls_invI) (use calls_invD [OF assms(1)] assms(2) in \<open>auto simp: dict_get_pop split: if_splits\<close>)

text \<open>One call changes its phase, or ends; no other call is of its workflow.\<close>

lemma past_semaphore_set:
  assumes "\<And>c' ph'. dict_get cs c' = Some (w, ph') \<Longrightarrow> c' = c" and "dict_get cs c = None \<or> (\<exists>ph'. dict_get cs c = Some (w, ph'))"
  shows "past_semaphore (dict_set c (w, ph) cs) w' \<longleftrightarrow> (if w' = w then ph \<noteq> Waiting else past_semaphore cs w')"
proof (cases "w' = w")
  case True
  then show ?thesis using assms(1) unfolding past_semaphore_def dict_get_set by (metis option.inject prod.inject)
next
  case False
  then have "dict_get (dict_set c (w, ph) cs) c' = Some (w', ph') \<longleftrightarrow> dict_get cs c' = Some (w', ph')" for c' ph'
    using assms(2) by (auto simp: dict_get_set)
  with False show ?thesis by (simp add: past_semaphore_def)
qed

lemma past_semaphore_pop:
  assumes "\<And>c' ph'. dict_get cs c' = Some (w, ph') \<Longrightarrow> c' = c" and "dict_get cs c = Some (w, ph)"
  shows "past_semaphore (dict_pop c cs) w' \<longleftrightarrow> w' \<noteq> w \<and> past_semaphore cs w'"
proof (cases "w' = w")
  case True
  then show ?thesis using assms(1) unfolding past_semaphore_def dict_get_pop by (metis option.distinct(1))
next
  case False
  then have "dict_get (dict_pop c cs) c' = Some (w', ph') \<longleftrightarrow> dict_get cs c' = Some (w', ph')" for c' ph'
    using assms(2) by (auto simp: dict_get_pop)
  with False show ?thesis by (simp add: past_semaphore_def)
qed

lemma only_call: "slot_inv s \<Longrightarrow> dict_get (calls s) c = Some (w, ph) \<Longrightarrow> dict_get (calls s) c' = Some (w, ph') \<Longrightarrow> c' = c"
  using calls_invD(1) [OF slot_invD] by metis

lemma set_call_inv:
  assumes "calls_inv s" and only: "\<And>c' x. dict_get (calls s) c' = Some (w, x) \<Longrightarrow> c' = c"
    and same: "\<And>w'. w' \<noteq> w \<Longrightarrow> dict_get (spawned m) w' = dict_get (spawned (manager s)) w'"
    and none: "ph = Waiting \<or> ph = Failing \<Longrightarrow> \<not> dict_has (spawned m) w"
    and some: "\<And>agent. ph = Sending agent \<Longrightarrow> dict_get (spawned m) w = Some agent"
  shows "calls_inv \<lparr>manager = m, calls = dict_set c (w, ph) (calls s)\<rparr>" (is "calls_inv ?t")
proof -
  have old: "(c' = c \<and> w' = w \<and> x = ph) \<or> (c' \<noteq> c \<and> w' \<noteq> w \<and> dict_get (calls s) c' = Some (w', x))"
    if "dict_get (calls ?t) c' = Some (w', x)" for c' w' x
    using that only [of c' x] by (cases "c' = c") (auto simp: dict_get_set)
  have has: "w' \<noteq> w \<Longrightarrow> dict_has (spawned m) w' = dict_has (spawned (manager s)) w'" for w'
    by (simp add: dict_has_def same)
  show ?thesis
  proof (rule calls_invI)
    fix c1 c2 w' x y assume "dict_get (calls ?t) c1 = Some (w', x)" "dict_get (calls ?t) c2 = Some (w', y)"
    with old [of c1 w' x] old [of c2 w' y] calls_invD(1) [OF assms(1), of c1 w' x c2 y] show "c1 = c2" by blast
  next
    fix c1 w' assume "dict_get (calls ?t) c1 = Some (w', Waiting)"
    with old [of c1 w' Waiting] calls_invD(2) [OF assms(1), of c1 w'] has [of w'] none
    show "\<not> dict_has (spawned (manager ?t)) w'" by auto
  next
    fix c1 w' assume "dict_get (calls ?t) c1 = Some (w', Failing)"
    with old [of c1 w' Failing] calls_invD(3) [OF assms(1), of c1 w'] has [of w'] none
    show "\<not> dict_has (spawned (manager ?t)) w'" by auto
  next
    fix c1 w' agent assume "dict_get (calls ?t) c1 = Some (w', Sending agent)"
    with old [of c1 w' "Sending agent"] calls_invD(4) [OF assms(1), of c1 w' agent] same [of w'] some [of agent]
    show "dict_get (spawned (manager ?t)) w' = Some agent" by auto
  qed
qed

text \<open>A call ends: its slot goes back exactly if its workflow has no agent.\<close>

lemma call_ends:
  assumes "slot_inv s" and "dict_get (calls s) c = Some (w, ph)" and "ph \<noteq> Waiting"
  shows "slot_inv \<lparr>manager = release_if_gone w (manager s), calls = dict_pop c (calls s)\<rparr>" (is "slot_inv ?t")
proof -
  have inv: "calls_inv ?t"
    by (rule drop_call_calls_inv [OF slot_invD [OF assms(1)]]) (simp add: release_if_gone_def)
  have pop: "past_semaphore (dict_pop c (calls s)) w' \<longleftrightarrow> w' \<noteq> w \<and> past_semaphore (calls s) w'" for w'
    using past_semaphore_pop [of "calls s" w c ph] only_call [OF assms(1,2)] assms(2) by blast
  have "spawned (release_if_gone w (manager s)) = spawned (manager s)" by (simp add: release_if_gone_def)
  then have h: "w' \<in> holders ?t \<longleftrightarrow> dict_has (spawned (manager s)) w' \<or> (w' \<noteq> w \<and> past_semaphore (calls s) w')" for w'
    by (simp add: holders_def pop)
  have hs: "w' \<in> holders s \<longleftrightarrow> dict_has (spawned (manager s)) w' \<or> past_semaphore (calls s) w'" for w'
    by (simp add: holders_def)
  have w: "past_semaphore (calls s) w" using assms(2,3) by (auto simp: past_semaphore_def)
  show ?thesis
  proof (cases "dict_has (spawned (manager s)) w")
    case True
    have "holders ?t = holders s" by (rule set_eqI) (use True h hs in blast)
    from slot_keep [OF assms(1) inv this] show ?thesis using True by (simp add: release_if_gone_def)
  next
    case False
    have "holders ?t = holders s - {w}" by (rule set_eqI) (use False h hs in blast)
    moreover have "w \<in> holders s" using w by (simp add: holders_def)
    ultimately show ?thesis using slot_return [OF assms(1) inv] False by (simp add: release_if_gone_def)
  qed
qed

text \<open>A call moves on within its workflow, which still holds its slot.\<close>

lemma call_moves:
  assumes "slot_inv s" and "dict_get (calls s) c = Some (w, ph)" and "ph \<noteq> Waiting" and "ph' \<noteq> Waiting"
    and same: "\<And>w'. w' \<noteq> w \<Longrightarrow> dict_get (spawned m) w' = dict_get (spawned (manager s)) w'"
    and "ph' = Failing \<Longrightarrow> \<not> dict_has (spawned m) w" and "\<And>agent. ph' = Sending agent \<Longrightarrow> dict_get (spawned m) w = Some agent"
    and "permits m = permits (manager s)" and "dm_config m = dm_config (manager s)"
  shows "slot_inv \<lparr>manager = m, calls = dict_set c (w, ph') (calls s)\<rparr>" (is "slot_inv ?t")
proof -
  have "calls_inv ?t"
    by (rule set_call_inv [OF slot_invD [OF assms(1)]])
       (use only_call [OF assms(1,2)] same assms(4,6,7) in \<open>auto simp: dict_has_def\<close>)
  moreover have "w' \<in> holders ?t \<longleftrightarrow> w' \<in> holders s" for w'
  proof -
    have "past_semaphore (dict_set c (w, ph') (calls s)) w' \<longleftrightarrow> (if w' = w then ph' \<noteq> Waiting else past_semaphore (calls s) w')"
      using past_semaphore_set [of "calls s" w c ph'] only_call [OF assms(1,2)] assms(2) by blast
    moreover have "past_semaphore (calls s) w" using assms(2,3) by (auto simp: past_semaphore_def)
    ultimately show ?thesis using assms(4) same [of w'] by (auto simp: holders_def dict_has_def)
  qed
  ultimately show ?thesis using slot_keep [OF assms(1), of ?t] assms(8,9) by auto
qed

text \<open>A call passes the semaphore, or enters.\<close>

lemma call_acquires:
  assumes "slot_inv s" and only: "\<And>c' x. dict_get (calls s) c' = Some (w, x) \<Longrightarrow> c' = c \<and> x = Waiting"
    and "dict_get (calls s) c = None \<or> dict_get (calls s) c = Some (w, Waiting)"
    and "\<not> dict_has (spawned (manager s)) w" and "permits (manager s) > 0"
  shows "slot_inv \<lparr>manager = (manager s)\<lparr>permits := permits (manager s) - 1\<rparr>, calls = dict_set c (w, Spawning) (calls s)\<rparr>" (is "slot_inv ?t")
proof -
  have o1: "dict_get (calls s) c' = Some (w, x) \<Longrightarrow> c' = c" for c' x using only by blast
  have o2: "dict_get (calls s) c = None \<or> (\<exists>x. dict_get (calls s) c = Some (w, x))" using assms(3) by blast
  have "calls_inv ?t" by (rule set_call_inv [OF slot_invD [OF assms(1)] o1]) simp_all
  moreover have "w' \<in> holders ?t \<longleftrightarrow> w' \<in> insert w (holders s)" for w'
  proof -
    have "past_semaphore (dict_set c (w, Spawning) (calls s)) w' \<longleftrightarrow> (if w' = w then True else past_semaphore (calls s) w')"
      by (rule trans [OF past_semaphore_set [OF o1 o2]]) simp_all
    then show ?thesis by (auto simp: holders_def)
  qed
  then have "holders ?t = insert w (holders s)" by blast
  moreover have "w \<notin> holders s" using only assms(4) by (fastforce simp: holders_def past_semaphore_def)
  ultimately show ?thesis using slot_take [OF assms(1), of ?t w] assms(5) by simp
qed

lemma call_waits:
  assumes "slot_inv s" and "dict_get (calls s) c = None" and none: "\<not> busy s w" and "\<not> dict_has (spawned (manager s)) w"
  shows "slot_inv \<lparr>manager = manager s, calls = dict_set c (w, Waiting) (calls s)\<rparr>" (is "slot_inv ?t")
proof -
  have o1: "dict_get (calls s) c' = Some (w, x) \<Longrightarrow> c' = c" for c' x using none unfolding busy_def by blast
  have o2: "dict_get (calls s) c = None \<or> (\<exists>x. dict_get (calls s) c = Some (w, x))" using assms(2) by blast
  have inv: "calls_inv ?t" by (rule set_call_inv [OF slot_invD [OF assms(1)] o1]) (use assms(4) in simp_all)
  have "\<not> past_semaphore (calls s) w" using none by (auto simp: past_semaphore_def busy_def)
  then have "holders ?t = holders s"
    using past_semaphore_set [OF o1 o2] by (auto simp: holders_def split: if_splits)
  from slot_keep [OF assms(1) inv this] show ?thesis by simp
qed

lemma call_redelegates:
  assumes "slot_inv s" and "dict_get (calls s) c = None" and none: "\<not> busy s w" and has: "dict_has (spawned (manager s)) w"
  shows "slot_inv \<lparr>manager = manager s, calls = dict_set c (w, Spawning) (calls s)\<rparr>" (is "slot_inv ?t")
proof -
  have o1: "dict_get (calls s) c' = Some (w, x) \<Longrightarrow> c' = c" for c' x using none unfolding busy_def by blast
  have o2: "dict_get (calls s) c = None \<or> (\<exists>x. dict_get (calls s) c = Some (w, x))" using assms(2) by blast
  have inv: "calls_inv ?t" by (rule set_call_inv [OF slot_invD [OF assms(1)] o1]) simp_all
  have "holders ?t = holders s"
    using past_semaphore_set [OF o1 o2] has by (auto simp: holders_def split: if_splits)
  from slot_keep [OF assms(1) inv this] show ?thesis by simp
qed

lemma enter_slots:
  assumes "slot_inv s" and "dict_get (calls s) c = None" and "\<not> busy s w" and "delegate_enter w (manager s) = (ph, m)"
  shows "slot_inv \<lparr>manager = m, calls = dict_set c (w, ph) (calls s)\<rparr>"
proof -
  consider "dict_has (spawned (manager s)) w" "ph = Spawning" "m = manager s"
    | "\<not> dict_has (spawned (manager s)) w" "permits (manager s) > 0" "ph = Spawning"
        "m = (manager s)\<lparr>permits := permits (manager s) - 1\<rparr>"
    | "\<not> dict_has (spawned (manager s)) w" "ph = Waiting" "m = manager s"
    using assms(4) by (auto simp: delegate_enter_def split: if_splits)
  then show ?thesis
  proof cases
    case 2
    have "dict_get (calls s) c' = Some (w, x) \<Longrightarrow> c' = c \<and> x = Waiting" for c' x
      using assms(3) unfolding busy_def by blast
    with 2 assms(1,2) show ?thesis by (simp add: call_acquires)
  qed (use assms call_redelegates call_waits in simp_all)
qed

lemma terminate_slots:
  assumes "slot_inv s" and "\<not> busy s w"
  shows "slot_inv (s\<lparr>manager := terminate_workflow w (manager s)\<rparr>)" (is "slot_inv ?t")
proof (cases "dict_get (spawned (manager s)) w")
  case (Some agent)
  have free: "dict_get (calls s) c \<noteq> Some (w, ph)" for c ph using assms(2) unfolding busy_def by blast
  have t: "spawned (manager ?t) = dict_pop w (spawned (manager s))" "calls ?t = calls s"
    using Some by (simp_all add: terminate_workflow_def)
  note ci = calls_invD [OF slot_invD [OF assms(1)]]
  have inv: "calls_inv ?t"
  proof (rule calls_invI, unfold t)
    fix c w' agent' assume c: "dict_get (calls s) c = Some (w', Sending agent')"
    with free have "w' \<noteq> w" by blast
    with ci(4) [OF c] show "dict_get (dict_pop w (spawned (manager s))) w' = Some agent'" by (simp add: dict_get_pop)
  qed (use ci(1-3) in \<open>auto simp: dict_has_def dict_get_pop\<close>)
  have "\<not> past_semaphore (calls s) w" using free by (simp add: past_semaphore_def)
  then have "holders ?t = holders s - {w}" unfolding holders_def t by (auto simp: dict_has_def dict_get_pop)
  moreover have "w \<in> holders s" using Some by (simp add: holders_def dict_has_def)
  ultimately show ?thesis using slot_return [OF assms(1) inv] Some by (simp add: terminate_workflow_def)
next
  case None
  then have "?t = s" by (simp add: terminate_workflow_def)
  with assms(1) show ?thesis by simp
qed

lemma waiting_ends:
  assumes "slot_inv s" and "dict_get (calls s) c = Some (w, Waiting)"
  shows "slot_inv \<lparr>manager = manager s, calls = dict_pop c (calls s)\<rparr>" (is "slot_inv ?t")
proof -
  have inv: "calls_inv ?t" by (rule drop_call_calls_inv [OF slot_invD [OF assms(1)]]) simp
  have "\<not> past_semaphore (calls s) w"
    using only_call [OF assms(1,2)] assms(2) by (auto simp: past_semaphore_def)
  moreover have "past_semaphore (dict_pop c (calls s)) w' \<longleftrightarrow> w' \<noteq> w \<and> past_semaphore (calls s) w'" for w'
    using past_semaphore_pop [of "calls s" w c Waiting] only_call [OF assms(1,2)] assms(2) by blast
  ultimately have "holders ?t = holders s" by (auto simp: holders_def)
  from slot_keep [OF assms(1) inv this] show ?thesis by simp
qed

lemma call_step_slots: "call_step s s' \<Longrightarrow> slot_inv s \<Longrightarrow> slot_inv s'"
proof (induction rule: call_step.induct)
  case (cs_acquire s c wid)
  have "c' = c \<and> x = Waiting" if "dict_get (calls s) c' = Some (wid, x)" for c' x
    using only_call [OF cs_acquire.prems cs_acquire.hyps(1) that] that cs_acquire.hyps(1) by simp
  moreover have "\<not> dict_has (spawned (manager s)) wid"
    using calls_invD(2) [OF slot_invD [OF cs_acquire.prems] cs_acquire.hyps(1)] .
  ultimately show ?case using call_acquires [OF cs_acquire.prems] cs_acquire.hyps by blast
next
  case (cs_spawned s c wid sid agent m)
  then have m: "m = (manager s)\<lparr>next_process := Suc (next_process (manager s))\<rparr>" by (simp add: spawn_agent_def)
  show ?case
    by (rule call_moves [OF cs_spawned.prems cs_spawned.hyps(1)])
       (auto simp: m install_agent_def Let_def dict_get_set split: option.splits)
next
  case (cs_sent s c wid agent)
  then have "dict_has (spawned (manager s)) wid"
    using calls_invD(4) [OF slot_invD [OF cs_sent.prems] cs_sent.hyps] by (simp add: dict_has_def)
  then show ?case using call_ends [OF cs_sent.prems cs_sent.hyps] by (simp add: release_if_gone_def)
next
  case (cs_send_fails s c wid agent)
  have "dict_get (spawned (manager s)) wid = Some agent"
    using calls_invD(4) [OF slot_invD [OF cs_send_fails.prems] cs_send_fails.hyps] .
  then show ?case
    by (intro call_moves [OF cs_send_fails.prems cs_send_fails.hyps])
       (auto simp: evict_agent_def Let_def dict_get_pop dict_has_def)
next
  case (cs_cancel s c wid ph)
  then show ?case using waiting_ends call_ends by (cases "ph = Waiting") simp_all
qed (auto intro: call_ends)

lemma serial_step_slots: "serial_step s s' \<Longrightarrow> slot_inv s \<Longrightarrow> slot_inv s'"
  by (induction rule: serial_step.induct) (auto intro: enter_slots terminate_slots call_step_slots)

lemma deleg_step_config: "deleg_step s s' \<Longrightarrow> dm_config (manager s') = dm_config (manager s)"
  by (induction rule: deleg_step.induct)
     (auto simp: delegate_enter_def terminate_workflow_def call_step.simps release_if_gone_def spawn_agent_def
        install_agent_def evict_agent_def Let_def split: if_splits option.splits)

lemma slot_init: "0 \<le> max_concurrent cfg \<Longrightarrow> slot_inv (delegation_init cfg)"
  by (simp add: slot_inv_def calls_inv_def delegation_init_def manager_init_def holders_def dict_has_def past_semaphore_def)

lemma serial_reachable:
  assumes "serial_step\<^sup>*\<^sup>* (delegation_init cfg) s" and "0 \<le> max_concurrent cfg"
  shows "slot_inv s \<and> dm_config (manager s) = cfg"
  using assms(1)
proof (induction rule: rtranclp_induct)
  case base
  then show ?case using slot_init [OF assms(2)] by (simp add: delegation_init_def manager_init_def)
next
  case (step s s')
  then show ?case using serial_step_slots deleg_step_config serial_deleg by metis
qed

section \<open>Properties\<close>

definition one_slot :: DelegationConfig where
  "one_slot = \<lparr>max_concurrent = 1, max_spawn_depth = 1, spawn_ready_timeout_str = ''30.0''\<rparr>"

text \<open>
  C21: The concurrency cap holds. As long as a workflow is neither delegated again nor torn
  down while one of its delegations is in progress, every interleaving of delegations,
  failures, cancellations and teardowns keeps the free slots plus the workflows that hold
  one equal to \<open>max_concurrent\<close>: there are never more live sub-agents than that, and no
  slot is ever lost.
\<close>

theorem delegation_slots:
  assumes "0 \<le> max_concurrent cfg" and "serial_step\<^sup>*\<^sup>* (delegation_init cfg) s"
  shows "0 \<le> permits (manager s) \<and> permits (manager s) + int (card (holders s)) = max_concurrent cfg \<and>
    int (card {w. dict_has (spawned (manager s)) w}) \<le> max_concurrent cfg \<and>
    (calls s = [] \<longrightarrow> permits (manager s) = max_concurrent cfg - int (card {w. dict_has (spawned (manager s)) w}))"
proof -
  have inv: "slot_inv s" "dm_config (manager s) = cfg" using serial_reachable [OF assms(2,1)] by auto
  have "card {w. dict_has (spawned (manager s)) w} \<le> card (holders s)"
    by (rule card_mono [OF finite_holders]) (auto simp: holders_def)
  moreover have "calls s = [] \<Longrightarrow> holders s = {w. dict_has (spawned (manager s)) w}"
    by (simp add: holders_def past_semaphore_def)
  ultimately show ?thesis using inv by (auto simp: slot_inv_def)
qed

lemma one_slot_enter:
  "serial_step (delegation_init one_slot) \<lparr>manager = (manager_init one_slot)\<lparr>permits := 0\<rparr>, calls = [(0, ''wf'', Spawning)]\<rparr>"
  using ss_enter [of "delegation_init one_slot" 0 "''wf''" Spawning "(manager_init one_slot)\<lparr>permits := 0\<rparr>"]
  by (simp add: delegation_init_def manager_init_def one_slot_def busy_def check_spawn_depth_def delegate_enter_def
      dict_has_def dict_set_def)

theorem delegation_slots_witness:
  "permits (manager \<lparr>manager = (manager_init one_slot)\<lparr>permits := 0\<rparr>, calls = [(0, ''wf'', Spawning)]\<rparr>) +
     int (card (holders \<lparr>manager = (manager_init one_slot)\<lparr>permits := 0\<rparr>, calls = [(0, ''wf'', Spawning)]\<rparr>)) = 1"
  using delegation_slots [of one_slot, OF _ r_into_rtranclp [of serial_step, OF one_slot_enter]] by (simp add: one_slot_def)

text \<open>
  C22: No sub-agent process is orphaned, under any interleaving whatever: every process that
  was ever spawned is the current agent of a workflow, and will be stopped by
  \<open>terminate\<close> or \<open>close\<close>, or its \<open>terminate()\<close> has already been called.
\<close>

theorem no_orphan_process:
  assumes "deleg_step\<^sup>*\<^sup>* (delegation_init cfg) s" and "p < next_process (manager s)" and "p \<notin> set (terminated (manager s))"
  shows "\<exists>wid agent. dict_get (spawned (manager s)) wid = Some agent \<and> sa_process agent = p \<and>
    p \<in> set (terminated (terminate_workflow wid (manager s)))"
proof -
  have "accounted (manager (delegation_init cfg))" by (simp add: accounted_def delegation_init_def manager_init_def)
  with assms(1) have "accounted (manager s)"
    by (induction rule: rtranclp_induct) (auto intro: deleg_step_accounted)
  with assms(2,3) show ?thesis by (fastforce simp: accounted_def terminate_workflow_def)
qed

definition one_agent :: delegation_system where
  "one_agent = \<lparr>manager = \<lparr>dm_config = one_slot, permits = 0, spawned = [(''wf'', \<lparr>sa_sandbox_id = ''a'', sa_process = 0\<rparr>)],
     next_process = 1, terminated = []\<rparr>, calls = [(0, ''wf'', Sending \<lparr>sa_sandbox_id = ''a'', sa_process = 0\<rparr>)]\<rparr>"

lemma one_agent_reachable: "deleg_step\<^sup>*\<^sup>* (delegation_init one_slot) one_agent"
proof -
  let ?s = "\<lparr>manager = (manager_init one_slot)\<lparr>permits := 0\<rparr>, calls = [(0, ''wf'', Spawning)]\<rparr>"
  have "deleg_step ?s one_agent"
    using ds_call [OF cs_spawned [of ?s 0 "''wf''" "''a''"]]
    by (simp add: spawn_agent_def install_agent_def one_agent_def manager_init_def one_slot_def dict_get_def dict_set_def)
  with serial_deleg [OF one_slot_enter] show ?thesis by (meson converse_rtranclp_into_rtranclp r_into_rtranclp)
qed

theorem no_orphan_process_witness:
  "\<exists>wid agent. dict_get (spawned (manager one_agent)) wid = Some agent \<and> sa_process agent = 0"
  using no_orphan_process [OF one_agent_reachable, of 0] by (auto simp: one_agent_def)

text \<open>
  Without that discipline the cap can be exceeded: when a workflow is torn down while
  its \<open>task.assign\<close> is still being delivered, the teardown returns the slot, and the
  delivery, which now fails, returns it a second time. From a manager with one slot a
  reachable state with no call in progress has two free slots.
\<close>

theorem teardown_race_adds_slot:
  "\<exists>s. deleg_step\<^sup>*\<^sup>* (delegation_init one_slot) s \<and> max_concurrent one_slot = 1 \<and> calls s = [] \<and> permits (manager s) = 2"
proof -
  let ?a = "\<lparr>sa_sandbox_id = ''a'', sa_process = 0\<rparr>"
  let ?s1 = "one_agent\<lparr>manager := terminate_workflow ''wf'' (manager one_agent)\<rparr>"
  let ?s2 = "\<lparr>manager = evict_agent ''wf'' ?a (manager ?s1), calls = [(0, ''wf'', Failing)]\<rparr>"
  let ?s3 = "\<lparr>manager = release_if_gone ''wf'' (manager ?s2), calls = []\<rparr>"
  have "deleg_step one_agent ?s1" by (rule ds_terminate)
  moreover have "deleg_step ?s1 ?s2"
    using ds_call [OF cs_send_fails [of ?s1 0 "''wf''" ?a]] by (simp add: one_agent_def dict_get_def dict_set_def)
  moreover have "deleg_step ?s2 ?s3"
    using ds_call [OF cs_failed [of ?s2 0 "''wf''"]] by (simp add: dict_get_def dict_pop_def)
  ultimately have "deleg_step\<^sup>*\<^sup>* (delegation_init one_slot) ?s3"
    using one_agent_reachable by (meson rtranclp.rtrancl_into_rtrancl)
  moreover have "permits (manager ?s3) = 2"
    by (simp add: one_agent_def terminate_workflow_def evict_agent_def release_if_gone_def dict_get_def dict_pop_def dict_has_def Let_def)
  ultimately show ?thesis by (intro exI [of _ ?s3]) (simp add: one_slot_def)
qed

end
