(* ===== verification/GitOps.thy ===== *)
theory GitOps
  imports TaskProtocol
begin

text \<open>
  Git as the program uses it: the subprocess wrapper \<open>run_git\<close> (\<^verbatim>\<open>tools/git.py\<close>), the
  baseline helpers (\<^verbatim>\<open>agent/git_helpers.py\<close>), the pull request helper
  (\<^verbatim>\<open>agent/github_helpers.py\<close>) and the commit, checkout and push of the finalisation tools
  (\<^verbatim>\<open>tools/finalization.py\<close>).

  The outside world is the list of effects so far. What a subprocess answers is an argument:
  a function of the effects before it and of the command. \<open>Path(p).resolve()\<close> is an argument
  too.
\<close>

section \<open>Effects and environment\<close>

datatype render_item =
    PresentWork string string string
  | ActionResult string string string
  | ProgressItem string
  | WorkflowErrorItem string string
  | CompletionFailure string string

datatype effect = Git string "string list" | PullRequest string string string | RemoveTree string | Render render_item

text \<open>How a subprocess ends: killed after the timeout, no such program, or with exit code, stdout and stderr.\<close>

datatype proc_result = TimedOut | NotInstalled | Exited int string string

record git_env =
  ge_git :: "effect list \<Rightarrow> string \<Rightarrow> string list \<Rightarrow> proc_result"
  ge_gh :: "effect list \<Rightarrow> string \<Rightarrow> string \<Rightarrow> string \<Rightarrow> proc_result"
  ge_resolve :: "string \<Rightarrow> string"

section \<open>Running git\<close>

definition OUTPUT_MAX_BYTES :: nat where "OUTPUT_MAX_BYTES = 65536"

definition is_git_error :: "string \<Rightarrow> bool" where
  "is_git_error output = (starts_with output ''Exit code:'' \<or> starts_with output ''Error:'')"

definition git_output :: "int \<Rightarrow> proc_result \<Rightarrow> string" where
  "git_output timeout r = (case r of
     TimedOut \<Rightarrow> ''Error: git command timed out after '' @ int_str timeout @ ''s''
   | NotInstalled \<Rightarrow> ''Error: git is not installed''
   | Exited code out err \<Rightarrow>
       if code \<noteq> 0 then ''Exit code: '' @ int_str code @ newline @ strip err
       else let output = (if out \<noteq> [] then out else err) in
         if length output > OUTPUT_MAX_BYTES
         then take OUTPUT_MAX_BYTES output @ newline @ ''... (truncated at '' @ nat_str OUTPUT_MAX_BYTES @ '' bytes)''
         else output)"

definition GIT_TIMEOUT_S :: int where "GIT_TIMEOUT_S = 30"
definition PUSH_TIMEOUT_S :: int where "PUSH_TIMEOUT_S = 120"

definition run_git :: "git_env \<Rightarrow> int \<Rightarrow> string \<Rightarrow> string list \<Rightarrow> effect list \<Rightarrow> string \<times> effect list" where
  "run_git e timeout ws args fx = (git_output timeout (ge_git e fx ws args), fx @ [Git ws args])"

section \<open>Baseline helpers\<close>

datatype git_exn = NotAGitRepo string | GitDiffError string | GitRuntimeError string | GitValidationError

definition require_git_workspace_root :: "git_env \<Rightarrow> string \<Rightarrow> effect list \<Rightarrow> git_exn option \<times> effect list" where
  "require_git_workspace_root e ws fx =
     (let (out, fx1) = run_git e GIT_TIMEOUT_S ws [''rev-parse'', ''--show-toplevel''] fx; top_level = strip out in
      if is_git_error top_level then (Some (NotAGitRepo ws), fx1)
      else if ge_resolve e top_level \<noteq> ge_resolve e ws then (Some (NotAGitRepo ws), fx1)
      else (None, fx1))"

definition is_shallow_clone :: "git_env \<Rightarrow> string \<Rightarrow> effect list \<Rightarrow> bool \<times> effect list" where
  "is_shallow_clone e ws fx =
     (case require_git_workspace_root e ws fx of
        (Some _, fx1) \<Rightarrow> (True, fx1)
      | (None, fx1) \<Rightarrow>
         (let (out, fx2) = run_git e GIT_TIMEOUT_S ws [''rev-parse'', ''--is-shallow-repository''] fx1
          in (strip out \<noteq> ''false'', fx2)))"

definition resolve_baseline :: "git_env \<Rightarrow> string \<Rightarrow> string \<Rightarrow> effect list \<Rightarrow> (git_exn + WorkspaceBaseline) \<times> effect list" where
  "resolve_baseline e ws branch fx =
     (case require_git_workspace_root e ws fx of
        (Some exn, fx1) \<Rightarrow> (Inl exn, fx1)
      | (None, fx1) \<Rightarrow>
         (let (o1, fx2) = run_git e GIT_TIMEOUT_S ws [''rev-parse'', ''HEAD''] fx1; head_sha = strip o1 in
          if is_git_error head_sha then
            (if contains_str head_sha ''not a git repository'' \<or> contains_str head_sha ''Not a git repository''
             then (Inl (NotAGitRepo ws), fx2)
             else (Inl (GitRuntimeError (''git rev-parse HEAD failed: '' @ head_sha)), fx2))
          else
            let (o2, fx3) = run_git e GIT_TIMEOUT_S ws [''config'', ''--get'', ''remote.origin.url''] fx2;
                url = (if is_git_error (strip o2) then [] else strip o2);
                (shallow, fx4) = is_shallow_clone e ws fx3;
                b = \<lparr>repo_url = (if url \<noteq> [] then url else ''unknown''), wb_branch = branch, base_sha = head_sha, is_shallow = shallow\<rparr>
            in if baseline_valid b then (Inr b, fx4) else (Inl GitValidationError, fx4)))"

definition diff_against_baseline :: "git_env \<Rightarrow> string \<Rightarrow> string \<Rightarrow> effect list \<Rightarrow> (git_exn + string) \<times> effect list" where
  "diff_against_baseline e ws sha fx =
     (case require_git_workspace_root e ws fx of
        (Some exn, fx1) \<Rightarrow> (Inl exn, fx1)
      | (None, fx1) \<Rightarrow>
         (let (_, fx2) = run_git e GIT_TIMEOUT_S ws [''add'', ''--intent-to-add'', ''--all''] fx1;
              (diff, fx3) = run_git e GIT_TIMEOUT_S ws [''diff'', sha] fx2
          in if is_git_error diff
             then (Inl (GitDiffError (''git diff '' @ sha @ '' failed in '' @ ws @ '': '' @ diff)), fx3)
             else (Inr diff, fx3)))"

section \<open>Commit, checkout, push\<close>

text \<open>The text of a \<open>GitCommandError\<close>; these helpers raise nothing else.\<close>

definition git_command_error :: "string \<Rightarrow> string \<Rightarrow> string" where
  "git_command_error command output = ''git '' @ command @ '' failed: '' @ output"

definition ensure_git_workspace_root :: "git_env \<Rightarrow> string \<Rightarrow> effect list \<Rightarrow> string option \<times> effect list" where
  "ensure_git_workspace_root e ws fx =
     (let (out, fx1) = run_git e GIT_TIMEOUT_S ws [''rev-parse'', ''--show-toplevel''] fx; top_level = strip out in
      if is_git_error top_level then (Some (git_command_error ''rev-parse'' top_level), fx1)
      else if ge_resolve e top_level \<noteq> ge_resolve e ws
      then (Some (git_command_error ''rev-parse''
        (''workspace '' @ ws @ '' is inside git repo '' @ top_level @ '', not its root'')), fx1)
      else (None, fx1))"

definition commit_workspace :: "git_env \<Rightarrow> string \<Rightarrow> string \<Rightarrow> effect list \<Rightarrow> (string + string) \<times> effect list" where
  "commit_workspace e ws message fx =
     (case ensure_git_workspace_root e ws fx of
        (Some err, fx1) \<Rightarrow> (Inl err, fx1)
      | (None, fx1) \<Rightarrow>
         (let (add_result, fx2) = run_git e GIT_TIMEOUT_S ws [''add'', ''-A''] fx1 in
          if is_git_error add_result then (Inl (git_command_error ''add'' add_result), fx2)
          else let (commit_result, fx3) = run_git e GIT_TIMEOUT_S ws [''commit'', ''-m'', message] fx2 in
            if is_git_error commit_result \<and> \<not> contains_str commit_result ''nothing to commit''
            then (Inl (git_command_error ''commit'' commit_result), fx3)
            else (Inr commit_result, fx3)))"

definition checkout_branch :: "git_env \<Rightarrow> string \<Rightarrow> string \<Rightarrow> bool \<Rightarrow> effect list \<Rightarrow> (string + string) \<times> effect list" where
  "checkout_branch e ws branch create fx =
     (case ensure_git_workspace_root e ws fx of
        (Some err, fx1) \<Rightarrow> (Inl err, fx1)
      | (None, fx1) \<Rightarrow>
         (let (result, fx2) = run_git e GIT_TIMEOUT_S ws
            (if create then [''checkout'', ''-B'', branch] else [''checkout'', branch]) fx1
          in if is_git_error result then (Inl (git_command_error ''checkout'' result), fx2) else (Inr result, fx2)))"

definition git_push_branch :: "git_env \<Rightarrow> string \<Rightarrow> string \<Rightarrow> string \<Rightarrow> effect list \<Rightarrow> (string + string) \<times> effect list" where
  "git_push_branch e ws branch remote fx =
     (case ensure_git_workspace_root e ws fx of
        (Some err, fx1) \<Rightarrow> (Inl err, fx1)
      | (None, fx1) \<Rightarrow>
         (let (result, fx2) = run_git e PUSH_TIMEOUT_S ws [''push'', ''-u'', remote, branch] fx1
          in if is_git_error result then (Inl (git_command_error ''push'' result), fx2) else (Inr result, fx2)))"

text \<open>\<open>gh pr create\<close>: a non-zero exit is a \<open>GitHubCommandError\<close>, the rest escapes as it is.\<close>

datatype gh_exn = GitHubCommandError string | GhOther string

definition create_pull_request ::
  "git_env \<Rightarrow> string \<Rightarrow> string \<Rightarrow> string \<Rightarrow> effect list \<Rightarrow> (gh_exn + string) \<times> effect list" where
  "create_pull_request e ws title body fx =
     (let fx1 = fx @ [PullRequest ws title body] in
      case ge_gh e fx ws title body of
        TimedOut \<Rightarrow> (Inl (GhOther []), fx1)
      | NotInstalled \<Rightarrow> (Inl (GhOther (''[Errno 2] No such file or directory: '' @ [CHR 0x27] @ ''gh'' @ [CHR 0x27])), fx1)
      | Exited code out err \<Rightarrow>
          (let output = strip (if out \<noteq> [] then out else err) in
           if code \<noteq> 0 then (Inl (GitHubCommandError (''gh pr create failed: '' @ output)), fx1)
           else (Inr output, fx1)))"

section \<open>Lemmas\<close>

definition git_commands :: "effect list \<Rightarrow> (string \<times> string list) list" where
  "git_commands fx = List.map_filter (\<lambda>x. case x of Git ws args \<Rightarrow> Some (ws, args) | _ \<Rightarrow> None) fx"

lemma git_commands_simps [simp]:
  "git_commands [] = []" "git_commands (xs @ ys) = git_commands xs @ git_commands ys"
  "git_commands (Git ws args # fx) = (ws, args) # git_commands fx"
  "git_commands (PullRequest a b c # fx) = git_commands fx"
  "git_commands (RemoveTree d # fx) = git_commands fx" "git_commands (Render r # fx) = git_commands fx"
  by (simp_all add: git_commands_def List.map_filter_def)

lemma error_output: "r = TimedOut \<or> r = NotInstalled \<or> (\<exists>code out err. r = Exited code out err \<and> code \<noteq> 0) \<Longrightarrow> is_git_error (git_output t r)"
  by (auto simp: is_git_error_def git_output_def)

text \<open>The check that guards each git operation runs one command, and passes only at a repository's root.\<close>

lemma ensure_root_effects: "snd (ensure_git_workspace_root e ws fx) = fx @ [Git ws [''rev-parse'', ''--show-toplevel'']]"
  by (simp add: ensure_git_workspace_root_def run_git_def Let_def)

lemma ensure_root_cases:
  obtains (outside) err where "ensure_git_workspace_root e ws fx = (Some err, fx @ [Git ws [''rev-parse'', ''--show-toplevel'']])"
  | (root) "ensure_git_workspace_root e ws fx = (None, fx @ [Git ws [''rev-parse'', ''--show-toplevel'']])"
      "ge_resolve e (strip (git_output GIT_TIMEOUT_S (ge_git e fx ws [''rev-parse'', ''--show-toplevel'']))) = ge_resolve e ws"
proof -
  let ?out = "fx @ [Git ws [''rev-parse'', ''--show-toplevel'']]"
  obtain r where r: "ensure_git_workspace_root e ws fx = (r, ?out)" using ensure_root_effects [of e ws fx] by (metis prod.collapse)
  show thesis
  proof (cases r)
    case None
    then have "ge_resolve e (strip (git_output GIT_TIMEOUT_S (ge_git e fx ws [''rev-parse'', ''--show-toplevel'']))) = ge_resolve e ws"
      using r by (auto simp: ensure_git_workspace_root_def run_git_def Let_def split: if_splits)
    with root r None show thesis by simp
  qed (use outside r in simp)
qed

lemma checkout_effects: "\<exists>new. snd (checkout_branch e ws branch create fx) = fx @ map (Git ws) new"
  by (cases rule: ensure_root_cases [of e ws fx])
     (auto simp: checkout_branch_def run_git_def Let_def intro: exI [of _ "[_]"] exI [of _ "[_, _]"])

lemma commit_effects: "\<exists>new. snd (commit_workspace e ws message fx) = fx @ map (Git ws) new"
  by (cases rule: ensure_root_cases [of e ws fx])
     (auto simp: commit_workspace_def run_git_def Let_def intro: exI [of _ "[_]"] exI [of _ "[_, _]"] exI [of _ "[_, _, _]"])

lemma push_effects: "\<exists>new. snd (git_push_branch e ws branch remote fx) = fx @ map (Git ws) new"
  by (cases rule: ensure_root_cases [of e ws fx])
     (auto simp: git_push_branch_def run_git_def Let_def intro: exI [of _ "[_]"] exI [of _ "[_, _]"])

section \<open>Properties\<close>

definition clean_tree_env :: git_env where
  "clean_tree_env = \<lparr>ge_git = (\<lambda>fx ws args. if args ! 0 = ''commit''
       then Exited 1 ''nothing to commit, working tree clean'' [] else Exited 0 ws []),
     ge_gh = (\<lambda>fx ws t b. Exited 0 [] []), ge_resolve = (\<lambda>p. p)\<rparr>"

text \<open>
  A workspace with nothing left to commit cannot be pushed. Git reports a clean tree on
  standard output with exit code 1, and \<open>run_git\<close> keeps only standard error of a failed
  command, so the text \<open>commit_workspace\<close> looks for is not there: in a concrete run whose
  commit answers exactly that, the operation fails.
\<close>

theorem clean_tree_commit_fails:
  "ge_git clean_tree_env fx ''/ws'' [''commit'', ''-m'', msg] = Exited 1 ''nothing to commit, working tree clean'' [] \<and>
   (\<exists>fx'. commit_workspace clean_tree_env ''/ws'' msg fx = (Inl (''git commit failed: Exit code: 1'' @ newline), fx'))"
  by (simp add: clean_tree_env_def commit_workspace_def ensure_git_workspace_root_def run_git_def Let_def git_output_def
      OUTPUT_MAX_BYTES_def is_git_error_def strip_def rstrip_def is_space_def newline_def git_command_error_def int_str_def nat_str_small digit_def)

end
