(* ===== verification/Finalization.thy ===== *)
theory Finalization
  imports AgentLoop Delegation GitOps
begin

text \<open>
  Finalisation of delegated work: the finalisation tools and their registry
  (\<^verbatim>\<open>tools/finalization.py\<close>) and the coordinator that runs them in an agent loop
  (\<^verbatim>\<open>orchestrator/finalization.py\<close>).

  The world the tools act on is the record \<open>fin_world\<close>: the session, the delegation
  manager, the registered workflow contexts, the audit database and the effects outside
  the process. The context object of a session is the one registered with the dispatcher;
  it is named by its workflow id, and an update of a context that is no longer registered
  has no reader. An operation's left result is the text of the exception it raises.
  The registry's handlers bind the model's JSON arguments to the parameters; arguments
  that do not fit the declared parameters are an error whose text is an argument of the
  model. A re-delegation that would have to wait for a free slot is reported as an error.
\<close>

section \<open>Actions, session, environment\<close>

datatype FinalizationAction =
  PRESENT_WORK_TO_USER | PUSH_BRANCH | PUSH_AND_CREATE_PR | DISCARD_WORK | RE_DELEGATE | DESTROY_SANDBOX | MODEL_RESPONSE

fun action_value :: "FinalizationAction \<Rightarrow> string" where
  "action_value PRESENT_WORK_TO_USER = ''present_work_to_user''"
| "action_value PUSH_BRANCH = ''push_branch''"
| "action_value PUSH_AND_CREATE_PR = ''push_and_create_pr''"
| "action_value DISCARD_WORK = ''discard_work''"
| "action_value RE_DELEGATE = ''re_delegate''"
| "action_value DESTROY_SANDBOX = ''destroy_sandbox''"
| "action_value MODEL_RESPONSE = ''model_response''"

record FinalizationState =
  st_action :: "FinalizationAction option"
  st_message :: string
  st_terminal :: bool

record FinalizationSession =
  fs_task :: TaskAssignPayload
  fs_complete :: TaskCompletePayload
  fs_context :: "string option"
  fs_state :: FinalizationState

definition new_session :: "TaskAssignPayload \<Rightarrow> TaskCompletePayload \<Rightarrow> string option \<Rightarrow> FinalizationSession" where
  "new_session t c ctx = \<lparr>fs_task = t, fs_complete = c, fs_context = ctx,
     fs_state = \<lparr>st_action = None, st_message = [], st_terminal = False\<rparr>\<rparr>"

record fin_world =
  session :: FinalizationSession
  fw_manager :: DelegationManager
  fw_workflows :: "(string, WorkflowContext) dict"
  fw_audit :: "AuditDB option"
  effects :: "effect list"

record fin_env = git_env +
  fe_exists :: "effect list \<Rightarrow> string \<Rightarrow> bool"
  fe_rmtree_error :: "effect list \<Rightarrow> string \<Rightarrow> string option"
  fe_read_file :: "effect list \<Rightarrow> string \<Rightarrow> string option"
  fe_has_renderer :: bool
  fe_render_error :: "effect list \<Rightarrow> render_item \<Rightarrow> string option"
  fe_has_manager :: bool
  fe_deleg :: deleg_env
  fe_validation_text :: "TaskAssignPayload \<Rightarrow> string"
  fe_type_error :: "string \<Rightarrow> kwargs \<Rightarrow> string"
  fe_wait_text :: string

definition DIFF_PREVIEW_LIMIT :: nat where "DIFF_PREVIEW_LIMIT = 8000"
definition DEFAULT_COMMIT_MESSAGE :: string where "DEFAULT_COMMIT_MESSAGE = ''Finalize delegated work''"
definition DEFAULT_REMOTE :: string where "DEFAULT_REMOTE = ''origin''"
definition ERROR_PREFIX :: string where "ERROR_PREFIX = ''Error:''"

section \<open>The tools\<close>

definition render :: "'a fin_env_scheme \<Rightarrow> render_item \<Rightarrow> fin_world \<Rightarrow> string option \<times> fin_world" where
  "render e item w = (fe_render_error e (effects w) item, w\<lparr>effects := effects w @ [Render item]\<rparr>)"

definition record_state :: "FinalizationAction \<Rightarrow> string \<Rightarrow> (bool \<Rightarrow> bool) \<Rightarrow> fin_world \<Rightarrow> fin_world" where
  "record_state a msg f w = w\<lparr>session := (session w)\<lparr>fs_state :=
     \<lparr>st_action = Some a, st_message = msg, st_terminal = f (st_terminal (fs_state (session w)))\<rparr>\<rparr>\<rparr>"

definition render_action_result :: "'a fin_env_scheme \<Rightarrow> FinalizationAction \<Rightarrow> string \<Rightarrow> fin_world \<Rightarrow> fin_world" where
  "render_action_result e a result w = (case fs_context (session w) of
     Some wid \<Rightarrow> if fe_has_renderer e then snd (render e (ActionResult wid (action_value a) result) w) else w
   | None \<Rightarrow> w)"

definition present_work_to_user ::
  "'a fin_env_scheme \<Rightarrow> string option \<Rightarrow> bool \<Rightarrow> fin_world \<Rightarrow> (string + string) \<times> fin_world" where
  "present_work_to_user e summary include_diff w =
     (let complete = fs_complete (session w);
          rendered = or_str summary (cp_summary complete);
          diff_preview = (if include_diff \<and> cp_diff complete \<noteq> [] then take DIFF_PREVIEW_LIMIT (cp_diff complete) else []);
          (err, w1) = (case fs_context (session w) of
             Some wid \<Rightarrow> if fe_has_renderer e then render e (PresentWork wid rendered diff_preview) w else (None, w)
           | None \<Rightarrow> (None, w))
      in case err of
           Some txt \<Rightarrow> (Inl txt, w1)
         | None \<Rightarrow> (Inr rendered, record_state PRESENT_WORK_TO_USER rendered (\<lambda>t. t) w1))"

definition do_push_branch ::
  "'a fin_env_scheme \<Rightarrow> string \<Rightarrow> string \<Rightarrow> string \<Rightarrow> fin_world \<Rightarrow> string \<times> fin_world" where
  "do_push_branch e branch_name commit_message remote w =
     (let ge = git_env.truncate e; ws = ta_workspace_root (fs_task (session w));
          (r, fx) = (case checkout_branch ge ws branch_name True (effects w) of
             (Inl err, fx1) \<Rightarrow> (Inl err, fx1)
           | (Inr _, fx1) \<Rightarrow>
              (case commit_workspace ge ws commit_message fx1 of
                 (Inl err, fx2) \<Rightarrow> (Inl err, fx2)
               | (Inr _, fx2) \<Rightarrow> git_push_branch ge ws branch_name remote fx2))
      in (case r of Inl err \<Rightarrow> ERROR_PREFIX @ '' '' @ err | Inr out \<Rightarrow> out, w\<lparr>effects := fx\<rparr>))"

definition push_branch ::
  "'a fin_env_scheme \<Rightarrow> string \<Rightarrow> string \<Rightarrow> string \<Rightarrow> fin_world \<Rightarrow> (string + string) \<times> fin_world" where
  "push_branch e branch_name commit_message remote w =
     (let (message, w1) = do_push_branch e branch_name commit_message remote w;
          w2 = render_action_result e PUSH_BRANCH message w1
      in (Inr message, record_state PUSH_BRANCH message (\<lambda>_. \<not> starts_with message ERROR_PREFIX) w2))"

definition push_and_create_pr ::
  "'a fin_env_scheme \<Rightarrow> string \<Rightarrow> string \<Rightarrow> string \<Rightarrow> string \<Rightarrow> fin_world \<Rightarrow> (string + string) \<times> fin_world" where
  "push_and_create_pr e branch_name title body remote w =
     (let (push_output, w1) = do_push_branch e branch_name title remote w;
          (r, w2) =
            (if starts_with push_output ERROR_PREFIX then (Inr push_output, w1)
             else case create_pull_request (git_env.truncate e) (ta_workspace_root (fs_task (session w1))) title
                    (if body \<noteq> [] then body else cp_summary (fs_complete (session w1))) (effects w1) of
               (Inr out, fx) \<Rightarrow> (Inr out, w1\<lparr>effects := fx\<rparr>)
             | (Inl (GitHubCommandError err), fx) \<Rightarrow> (Inr (ERROR_PREFIX @ '' '' @ err), w1\<lparr>effects := fx\<rparr>)
             | (Inl (GhOther err), fx) \<Rightarrow> (Inl err, w1\<lparr>effects := fx\<rparr>))
      in case r of
           Inl err \<Rightarrow> (Inl err, w2)
         | Inr message \<Rightarrow>
             (Inr message, record_state PUSH_AND_CREATE_PR message (\<lambda>_. \<not> starts_with message ERROR_PREFIX)
                (render_action_result e PUSH_AND_CREATE_PR message w2)))"

text \<open>The last component of a resolved path.\<close>

definition path_name :: "string \<Rightarrow> string" where
  "path_name p = rev (takeWhile (\<lambda>c. c \<noteq> CHR ''/'') (rev p))"

definition looks_like_per_agent_workspace :: "string \<Rightarrow> string \<Rightarrow> bool" where
  "looks_like_per_agent_workspace path agent_id =
     (starts_with (path_name path) ''agent-'' \<or> (agent_id \<noteq> [] \<and> ends_with (path_name path) agent_id))"

definition discard_work :: "'a fin_env_scheme \<Rightarrow> string \<Rightarrow> fin_world \<Rightarrow> (string + string) \<times> fin_world" where
  "discard_work e reason_text w =
     (let path = ge_resolve e (ta_workspace_root (fs_task (session w))) in
      if \<not> looks_like_per_agent_workspace path (ta_agent_id (fs_task (session w))) then
        let error_text = ERROR_PREFIX @ '' refusing to discard non-agent path '' @ path
        in (Inr error_text, record_state DISCARD_WORK error_text (\<lambda>t. t) (render_action_result e DISCARD_WORK error_text w))
      else
        let (err, w1) = (if fe_exists e (effects w) path
               then (fe_rmtree_error e (effects w) path, w\<lparr>effects := effects w @ [RemoveTree path]\<rparr>) else (None, w))
        in case err of
             Some txt \<Rightarrow> (Inl txt, w1)
           | None \<Rightarrow>
              let message = (if reason_text \<noteq> [] then reason_text else ''Discarded delegated workspace at '' @ path @ ''.'')
              in (Inr message, record_state DISCARD_WORK message (\<lambda>_. True) (render_action_result e DISCARD_WORK message w1)))"

definition followup_task :: "string \<Rightarrow> int option \<Rightarrow> string option \<Rightarrow> TaskAssignPayload \<Rightarrow> TaskAssignPayload" where
  "followup_task prompt turns model_arg t = t\<lparr>ta_prompt := prompt, ta_max_turns := or_int turns (ta_max_turns t),
     ta_model := (if truthy model_arg then model_arg else ta_model t), is_iteration := True,
     iteration_number := iteration_number t + 1\<rparr>"

definition update_context :: "string option \<Rightarrow> TaskAssignPayload \<Rightarrow> (string, WorkflowContext) dict \<Rightarrow> (string, WorkflowContext) dict" where
  "update_context ctx t wfs = (case ctx of None \<Rightarrow> wfs | Some wid \<Rightarrow>
     (case dict_get wfs wid of None \<Rightarrow> wfs | Some c \<Rightarrow> dict_set wid (c\<lparr>wf_task := t\<rparr>) wfs))"

definition re_delegate ::
  "'a fin_env_scheme \<Rightarrow> string \<Rightarrow> int option \<Rightarrow> string option \<Rightarrow> fin_world \<Rightarrow> (string + string) \<times> fin_world" where
  "re_delegate e prompt turns model_arg w =
     (if \<not> fe_has_manager e then (Inr (ERROR_PREFIX @ '' delegation manager unavailable''), w)
      else let followup = followup_task prompt turns model_arg (fs_task (session w)) in
        if \<not> assign_valid followup then (Inl (fe_validation_text e followup), w)
        else
          let w1 = w\<lparr>fw_workflows := update_context (fs_context (session w)) followup (fw_workflows w),
                     session := (session w)\<lparr>fs_task := followup\<rparr>\<rparr>;
              (out, m) = delegate (fe_deleg e) followup (fw_manager w1);
              w2 = w1\<lparr>fw_manager := m\<rparr>
          in case out of
               DelegationError txt \<Rightarrow> (Inl txt, w2)
             | OtherError txt \<Rightarrow> (Inl txt, w2)
             | Blocked \<Rightarrow> (Inl (fe_wait_text e), w2)
             | Delegated _ _ \<Rightarrow>
                let message = ''Re-delegated workflow '' @ ta_workflow_id followup @ '' (iteration '' @
                      int_str (iteration_number followup) @ '').''
                in (Inr message, record_state RE_DELEGATE message (\<lambda>t. t) (render_action_result e RE_DELEGATE message w2)))"

definition destroy_sandbox :: "'a fin_env_scheme \<Rightarrow> fin_world \<Rightarrow> (string + string) \<times> fin_world" where
  "destroy_sandbox e w =
     (let message = ''Sub-agent process is already single-shot; no sandbox to destroy.''
      in (Inr message, record_state DESTROY_SANDBOX message (\<lambda>_. True) (render_action_result e DESTROY_SANDBOX message w)))"

section \<open>The tool registry\<close>

text \<open>Binding of keyword arguments: \<open>None\<close> when they do not fit the parameters.\<close>

definition arg_opt_str :: "string \<Rightarrow> kwargs \<Rightarrow> string option option" where
  "arg_opt_str k kw = (case map_of kw k of None \<Rightarrow> Some None | Some JNull \<Rightarrow> Some None | Some (JStr s) \<Rightarrow> Some (Some s) | _ \<Rightarrow> None)"

definition arg_opt_int :: "string \<Rightarrow> kwargs \<Rightarrow> int option option" where
  "arg_opt_int k kw = (case map_of kw k of None \<Rightarrow> Some None | Some JNull \<Rightarrow> Some None | Some (JInt i) \<Rightarrow> Some (Some i) | _ \<Rightarrow> None)"

definition arg_str :: "string \<Rightarrow> string option \<Rightarrow> kwargs \<Rightarrow> string option" where
  "arg_str k dflt kw = (case map_of kw k of None \<Rightarrow> dflt | Some (JStr s) \<Rightarrow> Some s | _ \<Rightarrow> None)"

definition arg_bool :: "string \<Rightarrow> bool \<Rightarrow> kwargs \<Rightarrow> bool option" where
  "arg_bool k dflt kw = (case map_of kw k of None \<Rightarrow> Some dflt | Some (JBool b) \<Rightarrow> Some b | _ \<Rightarrow> None)"

type_synonym fin_op = "fin_world \<Rightarrow> (string + string) \<times> fin_world"

text \<open>The body that a call of a tool binds to.\<close>

definition bind_tool :: "'a fin_env_scheme \<Rightarrow> FinalizationAction \<Rightarrow> kwargs \<Rightarrow> fin_op option" where
  "bind_tool e a kw = (case a of
     PRESENT_WORK_TO_USER \<Rightarrow>
       (case (only_keys [''summary'', ''include_diff''] kw, arg_opt_str ''summary'' kw, arg_bool ''include_diff'' True kw) of
          (True, Some summary, Some inc) \<Rightarrow> Some (present_work_to_user e summary inc) | _ \<Rightarrow> None)
   | PUSH_BRANCH \<Rightarrow>
       (case (only_keys [''branch_name'', ''commit_message'', ''remote''] kw, arg_str ''branch_name'' None kw,
              arg_str ''commit_message'' (Some DEFAULT_COMMIT_MESSAGE) kw, arg_str ''remote'' (Some DEFAULT_REMOTE) kw) of
          (True, Some b, Some m, Some r) \<Rightarrow> Some (push_branch e b m r) | _ \<Rightarrow> None)
   | PUSH_AND_CREATE_PR \<Rightarrow>
       (case (only_keys [''branch_name'', ''title'', ''body'', ''remote''] kw, arg_str ''branch_name'' None kw,
              arg_str ''title'' None kw, arg_str ''body'' (Some []) kw, arg_str ''remote'' (Some DEFAULT_REMOTE) kw) of
          (True, Some b, Some t, Some bd, Some r) \<Rightarrow> Some (push_and_create_pr e b t bd r) | _ \<Rightarrow> None)
   | DISCARD_WORK \<Rightarrow>
       (case (only_keys [''reason''] kw, arg_str ''reason'' (Some []) kw) of
          (True, Some r) \<Rightarrow> Some (discard_work e r) | _ \<Rightarrow> None)
   | RE_DELEGATE \<Rightarrow>
       (case (only_keys [''prompt'', ''max_turns'', ''model''] kw, arg_str ''prompt'' None kw,
              arg_opt_int ''max_turns'' kw, arg_opt_str ''model'' kw) of
          (True, Some p, Some n, Some m) \<Rightarrow> Some (re_delegate e p n m) | _ \<Rightarrow> None)
   | DESTROY_SANDBOX \<Rightarrow> (if kw = [] then Some (destroy_sandbox e) else None)
   | MODEL_RESPONSE \<Rightarrow> None)"

definition call_tool ::
  "'a fin_env_scheme \<Rightarrow> FinalizationAction \<Rightarrow> kwargs \<Rightarrow> fin_world tool_context \<Rightarrow> (string + string) \<times> fin_world tool_context" where
  "call_tool e a kw ctx = (case bind_tool e a kw of
     None \<Rightarrow> (Inl (fe_type_error e (action_value a) kw), ctx)
   | Some body \<Rightarrow> (case body (fst ctx) of (r, w) \<Rightarrow> (r, (w, snd ctx))))"

fun tool_description :: "FinalizationAction \<Rightarrow> string" where
  "tool_description PRESENT_WORK_TO_USER = ''Present synthesized sub-agent work to the user with review actions.''"
| "tool_description PUSH_BRANCH = ''Commit delegated work and push a branch without creating a PR.''"
| "tool_description PUSH_AND_CREATE_PR = ''Commit delegated work, push a branch, and create a GitHub PR.''"
| "tool_description DISCARD_WORK = ''Discard delegated workspace changes.''"
| "tool_description RE_DELEGATE = ''Send updated instructions to the same sub-agent baseline.''"
| "tool_description DESTROY_SANDBOX = ''Tear down the sub-agent sandbox or process.''"
| "tool_description MODEL_RESPONSE = []"

fun tool_schema :: "FinalizationAction \<Rightarrow> json" where
  "tool_schema PRESENT_WORK_TO_USER = object_schema
     [(''summary'', typed ''string'' []), (''include_diff'', typed ''boolean'' [(''default'', JBool True)])] []"
| "tool_schema PUSH_BRANCH = object_schema
     [(''branch_name'', typed ''string'' []), (''commit_message'', typed ''string'' [(''default'', JStr DEFAULT_COMMIT_MESSAGE)]),
      (''remote'', typed ''string'' [(''default'', JStr DEFAULT_REMOTE)])] [''branch_name'']"
| "tool_schema PUSH_AND_CREATE_PR = object_schema
     [(''branch_name'', typed ''string'' []), (''title'', typed ''string'' []), (''body'', typed ''string'' [(''default'', JStr [])]),
      (''remote'', typed ''string'' [(''default'', JStr DEFAULT_REMOTE)])] [''branch_name'', ''title'']"
| "tool_schema DISCARD_WORK = object_schema [(''reason'', typed ''string'' [(''default'', JStr [])])] []"
| "tool_schema RE_DELEGATE = object_schema
     [(''prompt'', typed ''string'' []), (''max_turns'', typed ''integer'' [(''minimum'', JInt 1)]), (''model'', typed ''string'' [])] [''prompt'']"
| "tool_schema DESTROY_SANDBOX = object_schema [] []"
| "tool_schema MODEL_RESPONSE = JNull"

definition fin_spec :: "'a fin_env_scheme \<Rightarrow> FinalizationAction \<Rightarrow> fin_world ToolSpec" where
  "fin_spec e a = (tool (action_value a) (tool_description a) (tool_schema a) (call_tool e a))
     \<lparr>ts_toolset := ''finalization'', is_read_only := False, is_concurrency_safe := False\<rparr>"

definition FINALIZATION_TOOLS :: "FinalizationAction list" where
  "FINALIZATION_TOOLS = [PRESENT_WORK_TO_USER, PUSH_BRANCH, PUSH_AND_CREATE_PR, DISCARD_WORK, RE_DELEGATE, DESTROY_SANDBOX]"

definition create_finalization_tool_registry :: "'a fin_env_scheme \<Rightarrow> registry_error + fin_world ToolRegistry" where
  "create_finalization_tool_registry e = register_all (map (fin_spec e) FINALIZATION_TOOLS) registry_init"

section \<open>The coordinator\<close>

definition baseline_key :: "WorkspaceBaseline \<Rightarrow> string \<times> string \<times> string \<times> bool" where
  "baseline_key b = (repo_url b, wb_branch b, base_sha b, is_shallow b)"

text \<open>How \<open>model_dump()\<close> of a baseline is printed.\<close>

definition baseline_dump :: "WorkspaceBaseline option \<Rightarrow> string" where
  "baseline_dump x = (case x of None \<Rightarrow> ''None'' | Some b \<Rightarrow>
     py_repr_json (JObj [(''repo_url'', JStr (repo_url b)), (''branch'', JStr (wb_branch b)),
       (''base_sha'', JStr (base_sha b)), (''is_shallow'', JBool (is_shallow b))]))"

definition verify_baseline :: "TaskAssignPayload \<Rightarrow> TaskCompletePayload \<Rightarrow> string option" where
  "verify_baseline t c =
     (case (ta_baseline t, cp_baseline c) of
        (None, None) \<Rightarrow> None
      | (Some x, Some y) \<Rightarrow> if baseline_key x \<noteq> baseline_key y
          then Some (''workspace baseline drift: assigned='' @ baseline_dump (Some x) @ '' completed='' @ baseline_dump (Some y)) else None
      | (x, y) \<Rightarrow> Some (''workspace baseline drift: assigned='' @ baseline_dump x @ '' completed='' @ baseline_dump y))"

definition NOTES_TRUNCATION_CHARS :: nat where "NOTES_TRUNCATION_CHARS = 20000"

definition path_join :: "string \<Rightarrow> string \<Rightarrow> string" where
  "path_join a b = (if starts_with b ''/'' then b else a @ ''/'' @ b)"

definition path_under :: "string \<Rightarrow> string \<Rightarrow> bool" where
  "path_under rt p = (p = rt \<or> starts_with p (if rt = ''/'' then rt else rt @ ''/''))"

definition read_notes :: "'a fin_env_scheme \<Rightarrow> string \<Rightarrow> string option \<Rightarrow> effect list \<Rightarrow> string" where
  "read_notes e wroot notes_path fx =
     (if \<not> truthy notes_path then []
      else let rt = ge_resolve e wroot; path = ge_resolve e (path_join rt (the notes_path)) in
        if \<not> path_under rt path then ''(notes path escaped workspace)''
        else case fe_read_file e fx path of
          None \<Rightarrow> []
        | Some text \<Rightarrow>
            if length text > NOTES_TRUNCATION_CHARS
            then take NOTES_TRUNCATION_CHARS text @ newline @ ''... (truncated, '' @
              nat_str (length text - NOTES_TRUNCATION_CHARS) @ '' chars omitted)''
            else text)"

definition build_finalization_prompt :: "'a fin_env_scheme \<Rightarrow> TaskAssignPayload \<Rightarrow> TaskCompletePayload \<Rightarrow> effect list \<Rightarrow> string" where
  "build_finalization_prompt e t c fx =
     (let notes = read_notes e (ta_workspace_root t) (cp_notes_path c) fx;
          files = py_join newline (map (\<lambda>p. ''- '' @ p) (cp_files_changed c)) in
      py_join newline
        [''A coding sub-agent completed a delegated task.'', [],
         ''Workflow: '' @ ta_workflow_id t, ''Agent: '' @ ta_agent_id t, ''Original prompt: '' @ ta_prompt t,
         ''Summary: '' @ cp_summary c, ''Rounds used: '' @ int_str (cp_rounds_used c),
         ''Tool calls made: '' @ int_str (cp_tool_calls_made c), ''Model used: '' @ or_str (cp_model_used c) ''(unknown)'',
         ''Suggested next step: '' @ or_str (cp_suggested_next_step c) ''(none)'', [],
         ''Files changed:'', if files \<noteq> [] then files else ''(not provided)'', [],
         ''Notes:'', if notes \<noteq> [] then notes else ''(none)'', [],
         ''Diff:'', if cp_diff c \<noteq> [] then cp_diff c else ''(empty)'', [],
         ''Choose exactly one finalization tool. Prefer present_work_to_user unless '' @
         ''the result is clearly incomplete and needs re_delegate, or unsafe '' @ ''and needs discard_work.''])"

record coordinator =
  co_infer :: "fin_world backend"
  co_config :: AgentLoopConfig
  co_system_prompt :: string
  co_loads :: "string \<Rightarrow> string + kwargs"
  co_schedule :: "nat list \<Rightarrow> nat list"
  co_duration :: "ToolCall \<Rightarrow> pyfloat"
  co_now :: pyfloat
  co_uuid :: "ToolCallEntry \<Rightarrow> string"

record FinalizationResult =
  fr_workflow_id :: string
  fr_action :: FinalizationAction
  fr_message :: string
  fr_terminal :: bool

text \<open>The cross-check of the diff only logs a disagreement: what it does is run git.\<close>

definition verify_diff :: "'a fin_env_scheme \<Rightarrow> TaskAssignPayload \<Rightarrow> fin_world \<Rightarrow> fin_world" where
  "verify_diff e t w = (case ta_baseline t of None \<Rightarrow> w | Some b \<Rightarrow>
     w\<lparr>effects := snd (diff_against_baseline (git_env.truncate e) (ta_workspace_root t) (base_sha b) (effects w))\<rparr>)"

definition record_completion :: "pyfloat \<Rightarrow> string \<Rightarrow> TaskCompletePayload \<Rightarrow> fin_world \<Rightarrow> fin_world" where
  "record_completion now wid c w = (case fw_audit w of None \<Rightarrow> w | Some db \<Rightarrow>
     (case log_delegation_complete now wid (cp_rounds_used c) (cp_tool_calls_made c) (cp_model_used c) (cp_summary c)
        (int (utf8_size (cp_diff c))) db of
        Inl _ \<Rightarrow> w | Inr db' \<Rightarrow> w\<lparr>fw_audit := Some db'\<rparr>))"

definition audit_tool_call :: "coordinator \<Rightarrow> ToolCallEntry \<Rightarrow> fin_world \<Rightarrow> fin_world" where
  "audit_tool_call co entry w = w\<lparr>fw_audit := map_option (\<lambda>db. fst (db_log (co_now co) (co_uuid co entry) entry db)) (fw_audit w)\<rparr>"

definition finalization_loop :: "coordinator \<Rightarrow> fin_world ToolRegistry \<Rightarrow> bool \<Rightarrow> fin_world loop_env" where
  "finalization_loop co reg audited = \<lparr>le_infer = co_infer co, le_registry = reg, le_config = co_config co, le_gate = AutoApproval,
     le_audit = (if audited then Some (audit_tool_call co) else None), le_loads = co_loads co,
     le_schedule = co_schedule co, le_duration = co_duration co\<rparr>"

text \<open>What happens between the baseline check and the loop: cross-check, audit row, fresh session.\<close>

definition fin_start :: "'a fin_env_scheme \<Rightarrow> coordinator \<Rightarrow> WorkflowContext \<Rightarrow> TaskCompletePayload \<Rightarrow> fin_world \<Rightarrow> fin_world" where
  "fin_start e co ctx c w = (record_completion (co_now co) (wf_id ctx) c (verify_diff e (wf_task ctx) w))
     \<lparr>session := new_session (wf_task ctx) c (Some (wf_id ctx))\<rparr>"

definition finalize ::
  "'a fin_env_scheme \<Rightarrow> coordinator \<Rightarrow> WorkflowContext \<Rightarrow> TaskCompletePayload \<Rightarrow> fin_world \<Rightarrow> (string + FinalizationResult) \<times> fin_world" where
  "finalize e co ctx c w =
     (case verify_baseline (wf_task ctx) c of
        Some err \<Rightarrow> (Inl err, w)
      | None \<Rightarrow>
         (let w2 = fin_start e co ctx c w in
          case create_finalization_tool_registry e of
               Inl _ \<Rightarrow> (Inl [], w2)
             | Inr reg \<Rightarrow>
                (case run (finalization_loop co reg (fw_audit w2 \<noteq> None))
                        [text_message ROLE_SYSTEM (co_system_prompt co),
                         text_message ROLE_USER (build_finalization_prompt e (wf_task ctx) c (effects w2))]
                        (''finalize-'' @ wf_id ctx) None []
                        \<lparr>world = w2, surface = [], tool_names = [], executed = []\<rparr> of
                   (InferenceFailed err, st) \<Rightarrow> (Inl err, world st)
                 | (NeedsApproval p, st) \<Rightarrow> (Inl [], world st)
                 | (Finished r, st) \<Rightarrow>
                    (let s = fs_state (session (world st)) in
                     (Inr \<lparr>fr_workflow_id = wf_id ctx, fr_action = (case st_action s of Some a \<Rightarrow> a | None \<Rightarrow> MODEL_RESPONSE),
                           fr_message = (if st_message s \<noteq> [] then st_message s else ar_content r),
                           fr_terminal = (if st_action s \<noteq> None then st_terminal s else True)\<rparr>, world st)))))"

section \<open>What a finalisation may touch\<close>

text \<open>Two assignments of one workflow: only prompt, limits, model and iteration may differ.\<close>

definition same_pins :: "TaskAssignPayload \<Rightarrow> TaskAssignPayload \<Rightarrow> bool" where
  "same_pins t u =
     (ta_workflow_id u = ta_workflow_id t \<and> ta_parent_sandbox_id u = ta_parent_sandbox_id t \<and> ta_agent_id u = ta_agent_id t \<and>
      ta_workspace_root u = ta_workspace_root t \<and> ta_tool_surface u = ta_tool_surface t \<and>
      ta_context_files u = ta_context_files t \<and> ta_baseline u = ta_baseline t \<and> iteration_number t \<le> iteration_number u)"

fun confined :: "'a fin_env_scheme \<Rightarrow> WorkflowContext \<Rightarrow> effect \<Rightarrow> bool" where
  "confined e ctx (Git ws args) = (ws = ta_workspace_root (wf_task ctx))"
| "confined e ctx (PullRequest ws title body) = (ws = ta_workspace_root (wf_task ctx))"
| "confined e ctx (RemoveTree p) =
     (p = ge_resolve e (ta_workspace_root (wf_task ctx)) \<and> looks_like_per_agent_workspace p (ta_agent_id (wf_task ctx)))"
| "confined e ctx (Render item) =
     (case item of PresentWork wid _ _ \<Rightarrow> wid = wf_id ctx | ActionResult wid _ _ \<Rightarrow> wid = wf_id ctx | _ \<Rightarrow> False)"

definition ext :: "'a fin_env_scheme \<Rightarrow> WorkflowContext \<Rightarrow> effect list \<Rightarrow> effect list \<Rightarrow> bool" where
  "ext e ctx fx fx' = (\<exists>new. fx' = fx @ new \<and> list_all (confined e ctx) new)"

lemma ext_refl [simp]: "ext e ctx fx fx"
  by (simp add: ext_def)

lemma ext_snoc: "ext e ctx fx fx' \<Longrightarrow> confined e ctx x \<Longrightarrow> ext e ctx fx (fx' @ [x])"
  unfolding ext_def by auto

lemma ext_gits: "ext e ctx fx fx' \<Longrightarrow> \<exists>new. fx'' = fx' @ map (Git (ta_workspace_root (wf_task ctx))) new \<Longrightarrow> ext e ctx fx fx''"
  unfolding ext_def by (force simp: list_all_iff)

text \<open>
  The invariant of one finalisation: the session still belongs to the workflow, its task
  keeps the pins, and everything done since the start is confined to the task's workspace
  and the workflow's thread.
\<close>

definition fin_inv :: "'a fin_env_scheme \<Rightarrow> WorkflowContext \<Rightarrow> effect list \<Rightarrow> fin_world \<Rightarrow> bool" where
  "fin_inv e ctx fx w = (same_pins (wf_task ctx) (fs_task (session w)) \<and> fs_context (session w) = Some (wf_id ctx) \<and> ext e ctx fx (effects w))"

lemma fin_inv_state [simp]: "fin_inv e ctx fx (record_state a msg f w) = fin_inv e ctx fx w"
  by (simp add: fin_inv_def record_state_def)

lemma fin_inv_render: "fin_inv e ctx fx w \<Longrightarrow> fin_inv e ctx fx (render_action_result e a msg w)"
  by (auto simp: fin_inv_def render_action_result_def render_def intro!: ext_snoc split: option.splits)

lemma fin_inv_effects:
  "fin_inv e ctx fx w \<Longrightarrow> ext e ctx fx fx' \<Longrightarrow> fin_inv e ctx fx (w\<lparr>effects := fx'\<rparr>)"
  by (simp add: fin_inv_def)

lemma fin_inv_root:
  "fin_inv e ctx fx w \<Longrightarrow> ta_workspace_root (fs_task (session w)) = ta_workspace_root (wf_task ctx)"
  "fin_inv e ctx fx w \<Longrightarrow> ta_agent_id (fs_task (session w)) = ta_agent_id (wf_task ctx)"
  "fin_inv e ctx fx w \<Longrightarrow> ext e ctx fx (effects w)"
  by (simp_all add: fin_inv_def same_pins_def)

lemma present_fin_inv:
  "fin_inv e ctx fx w \<Longrightarrow> present_work_to_user e summary inc w = (r, w') \<Longrightarrow> fin_inv e ctx fx w'"
  by (auto simp: present_work_to_user_def render_def Let_def fin_inv_def record_state_def intro!: ext_snoc
      split: option.splits prod.splits if_splits)

lemma do_push_fin_inv:
  assumes "fin_inv e ctx fx w" and "do_push_branch e b m r w = (out, w')"
  shows "fin_inv e ctx fx w' \<and> session w' = session w"
proof -
  let ?g = "git_env.truncate e" and ?ws = "ta_workspace_root (wf_task ctx)"
  have "ext e ctx fx (snd (checkout_branch ?g ?ws b True (effects w)))"
    using ext_gits [OF fin_inv_root(3) [OF assms(1)] checkout_effects] .
  then have c: "ext e ctx fx fx1" if "checkout_branch ?g ?ws b True (effects w) = (x, fx1)" for x fx1
    using that by simp
  have k: "ext e ctx fx fx2" if "ext e ctx fx fx1" "commit_workspace ?g ?ws m fx1 = (x, fx2)" for x fx1 fx2
    using ext_gits [OF that(1) commit_effects [of ?g ?ws m fx1]] that(2) by simp
  have p: "ext e ctx fx fx2" if "ext e ctx fx fx1" "git_push_branch ?g ?ws b r fx1 = (x, fx2)" for x fx1 fx2
    using ext_gits [OF that(1) push_effects [of ?g ?ws b r fx1]] that(2) by simp
  show ?thesis
    using assms(2) fin_inv_root(1) [OF assms(1)]
    by (auto simp: do_push_branch_def Let_def split: prod.splits sum.splits
        intro!: fin_inv_effects [OF assms(1)] dest: c k p)
qed

lemma push_fin_inv:
  assumes "fin_inv e ctx fx w" and "push_branch e b m r w = (out, w')"
  shows "fin_inv e ctx fx w'"
proof -
  obtain msg w1 where d: "do_push_branch e b m r w = (msg, w1)" by fastforce
  show ?thesis
    using assms(2) fin_inv_render [OF conjunct1 [OF do_push_fin_inv [OF assms(1) d]]] d by (auto simp: push_branch_def Let_def)
qed

lemma pr_fin_inv:
  assumes "fin_inv e ctx fx w" and "push_and_create_pr e b t bd r w = (out, w')"
  shows "fin_inv e ctx fx w'"
proof -
  obtain msg w1 where d: "do_push_branch e b t r w = (msg, w1)" by fastforce
  have i: "fin_inv e ctx fx w1" using do_push_fin_inv [OF assms(1) d] by simp
  let ?ws = "ta_workspace_root (fs_task (session w1))" and ?bd = "if bd \<noteq> [] then bd else cp_summary (fs_complete (session w1))"
  have "snd (create_pull_request (git_env.truncate e) ?ws t ?bd (effects w1)) = effects w1 @ [PullRequest ?ws t ?bd]"
    by (simp add: create_pull_request_def Let_def split: proc_result.split)
  then obtain x where x: "create_pull_request (git_env.truncate e) ?ws t ?bd (effects w1) = (x, effects w1 @ [PullRequest ?ws t ?bd])"
    by (metis prod.collapse)
  have j: "fin_inv e ctx fx (w1\<lparr>effects := effects w1 @ [PullRequest ?ws t ?bd]\<rparr>)"
    by (intro fin_inv_effects [OF i] ext_snoc fin_inv_root(3) [OF i]) (simp add: fin_inv_root(1) [OF i])
  show ?thesis
    using assms(2) d x fin_inv_render [OF i] fin_inv_render [OF j] j
    by (auto simp: push_and_create_pr_def Let_def split: if_splits sum.splits gh_exn.splits)
qed

lemma discard_fin_inv:
  assumes i: "fin_inv e ctx fx w" and "discard_work e reason_text w = (out, w')"
  shows "fin_inv e ctx fx w'"
proof -
  let ?p = "ge_resolve e (ta_workspace_root (fs_task (session w)))"
  have j: "fin_inv e ctx fx (w\<lparr>effects := effects w @ [RemoveTree ?p]\<rparr>)"
    if "looks_like_per_agent_workspace ?p (ta_agent_id (fs_task (session w)))"
    using that by (intro fin_inv_effects [OF i] ext_snoc fin_inv_root(3) [OF i]) (simp add: fin_inv_root(1,2) [OF i])
  show ?thesis
    using assms(2) fin_inv_render [OF i] fin_inv_render [OF j] j
    by (auto simp: discard_work_def Let_def split: if_splits option.splits)
qed

lemma same_pins_followup: "same_pins t u \<Longrightarrow> same_pins t (followup_task p n m u)"
  by (simp add: same_pins_def followup_task_def)

lemma redelegate_fin_inv:
  assumes i: "fin_inv e ctx fx w" and "re_delegate e p n m w = (out, w')"
  shows "fin_inv e ctx fx w'"
proof -
  have j: "fin_inv e ctx fx (w\<lparr>fw_workflows := wfs, session := (session w)\<lparr>fs_task := followup_task p n m (fs_task (session w))\<rparr>, fw_manager := mg\<rparr>)"
    for wfs mg
    using i by (simp add: fin_inv_def same_pins_followup)
  show ?thesis
    using assms(2) i j fin_inv_render [OF j]
    by (auto simp: re_delegate_def Let_def split: if_splits prod.splits delegate_outcome.splits)
qed

lemma destroy_fin_inv: "fin_inv e ctx fx w \<Longrightarrow> destroy_sandbox e w = (out, w') \<Longrightarrow> fin_inv e ctx fx w'"
  by (auto simp: destroy_sandbox_def Let_def fin_inv_render)

lemma call_tool_cases:
  assumes "call_tool e a kw (w, sf) = (r, (w', sf'))"
  obtains (refused) "w' = w" "r = Inl (fe_type_error e (action_value a) kw)"
  | (body) f where "bind_tool e a kw = Some f" "f w = (r, w')"
  using assms by (auto simp: call_tool_def split: option.splits prod.splits)

lemma bind_tool_cases:
  assumes "bind_tool e a kw = Some f"
  obtains (present) s b where "f = present_work_to_user e s b" "a = PRESENT_WORK_TO_USER"
  | (push) b m r where "f = push_branch e b m r" "a = PUSH_BRANCH"
  | (pr) b t bd r where "f = push_and_create_pr e b t bd r" "a = PUSH_AND_CREATE_PR"
  | (discard) r where "f = discard_work e r" "a = DISCARD_WORK"
  | (again) p n m where "f = re_delegate e p n m" "a = RE_DELEGATE"
  | (destroy) "f = destroy_sandbox e" "a = DESTROY_SANDBOX"
  using assms
  by (cases a) (simp_all add: bind_tool_def split: if_splits prod.splits bool.splits option.splits, blast+)

text \<open>A predicate every tool body keeps is kept by every call through the registry.\<close>

lemma call_tool_keeps:
  assumes "P w" and "call_tool e a kw (w, sf) = (r, (w', sf'))"
    and "\<And>s b w r w'. P w \<Longrightarrow> present_work_to_user e s b w = (r, w') \<Longrightarrow> P w'"
    and "\<And>b m rm w r w'. P w \<Longrightarrow> push_branch e b m rm w = (r, w') \<Longrightarrow> P w'"
    and "\<And>b t bd rm w r w'. P w \<Longrightarrow> push_and_create_pr e b t bd rm w = (r, w') \<Longrightarrow> P w'"
    and "\<And>why w r w'. P w \<Longrightarrow> discard_work e why w = (r, w') \<Longrightarrow> P w'"
    and "\<And>p n m w r w'. P w \<Longrightarrow> re_delegate e p n m w = (r, w') \<Longrightarrow> P w'"
    and "\<And>w r w'. P w \<Longrightarrow> destroy_sandbox e w = (r, w') \<Longrightarrow> P w'"
  shows "P w'"
  using assms(2)
proof (cases rule: call_tool_cases)
  case (body f)
  from body(1) show ?thesis
  proof (cases rule: bind_tool_cases)
    case present then show ?thesis using assms(3) [OF assms(1)] body(2) by blast
  next
    case push then show ?thesis using assms(4) [OF assms(1)] body(2) by blast
  next
    case pr then show ?thesis using assms(5) [OF assms(1)] body(2) by blast
  next
    case discard then show ?thesis using assms(6) [OF assms(1)] body(2) by blast
  next
    case again then show ?thesis using assms(7) [OF assms(1)] body(2) by blast
  next
    case destroy then show ?thesis using assms(8) [OF assms(1)] body(2) by blast
  qed
qed (use assms(1) in simp)

lemma call_tool_fin_inv: "fin_inv e ctx fx w \<Longrightarrow> call_tool e a kw (w, sf) = (r, (w', sf')) \<Longrightarrow> fin_inv e ctx fx w'"
  by (rule call_tool_keeps [where P = "fin_inv e ctx fx", OF _ _ present_fin_inv push_fin_inv pr_fin_inv
        discard_fin_inv redelegate_fin_inv destroy_fin_inv])

section \<open>The registry holds the six tools and nothing else\<close>

lemma action_value_inj: "action_value a = action_value b \<longleftrightarrow> a = b"
  by (cases a; cases b) simp_all

lemma fin_spec_fields [simp]:
  "ts_name (fin_spec e a) = action_value a" "check_fn (fin_spec e a) = None" "ts_handler (fin_spec e a) = call_tool e a"
  "is_read_only (fin_spec e a) = False" "is_concurrency_safe (fin_spec e a) = False"
  by (simp_all add: fin_spec_def tool_def)

lemma fin_registry:
  "create_finalization_tool_registry e =
     Inr \<lparr>tools = map (\<lambda>a. (action_value a, fin_spec e a)) FINALIZATION_TOOLS, skipped_toolsets = []\<rparr>"
proof -
  have "distinct (map action_value FINALIZATION_TOOLS)" by (simp add: FINALIZATION_TOOLS_def)
  then show ?thesis
    unfolding create_finalization_tool_registry_def registry_init_def
    by (subst register_all_fresh) (simp_all add: list_all_iff o_def)
qed

lemma fin_get_tool:
  assumes "create_finalization_tool_registry e = Inr reg" and "get_tool reg n = Some spec"
  obtains a where "a \<in> set FINALIZATION_TOOLS" "n = action_value a" "spec = fin_spec e a"
  using assms by (auto simp: fin_registry get_tool_def dict_get_def map_of_map_restrict dest!: map_of_SomeD)

section \<open>Finalisation as a whole\<close>

lemma fin_keeps:
  assumes "create_finalization_tool_registry e = Inr reg"
    and "\<And>req w. P w \<Longrightarrow> P (snd (co_infer co req w))"
    and "\<And>w db. P w \<Longrightarrow> P (w\<lparr>fw_audit := db\<rparr>)"
    and "\<And>a kw w sf r w' sf'. P w \<Longrightarrow> call_tool e a kw (w, sf) = (r, (w', sf')) \<Longrightarrow> P w'"
  shows "keeps (finalization_loop co reg aud) P"
proof -
  have "P (fst (snd (ts_handler spec kw (w, sf))))" if "get_tool reg n = Some spec" "P w" for n spec kw w sf
    using fin_get_tool [OF assms(1) that(1)] assms(4) [OF that(2)] by (metis fin_spec_fields(3) prod.collapse)
  then show ?thesis
    unfolding keeps_for_def by (auto simp: finalization_loop_def audit_tool_call_def assms(2,3))
qed

lemma finalize_cases:
  assumes "finalize e co ctx c w = (r, w')"
  obtains (drift) err where "verify_baseline (wf_task ctx) c = Some err" "r = Inl err" "w' = w"
  | (ran) reg aud ms rid out st where "verify_baseline (wf_task ctx) c = None" "create_finalization_tool_registry e = Inr reg"
      "run (finalization_loop co reg aud) ms rid None [] \<lparr>world = fin_start e co ctx c w, surface = [], tool_names = [], executed = []\<rparr> = (out, st)"
      "w' = world st"
  using assms
  by (auto simp: finalize_def fin_registry Let_def split: option.splits prod.splits loop_outcome.splits)

lemma diff_effects: "\<exists>new. snd (diff_against_baseline g ws sha fx) = fx @ map (Git ws) new"
proof -
  have "snd (require_git_workspace_root g ws fx) = fx @ [Git ws [''rev-parse'', ''--show-toplevel'']]"
    by (simp add: require_git_workspace_root_def run_git_def Let_def)
  then obtain x where "require_git_workspace_root g ws fx = (x, fx @ [Git ws [''rev-parse'', ''--show-toplevel'']])"
    by (metis prod.collapse)
  then show ?thesis
    by (auto simp: diff_against_baseline_def run_git_def Let_def intro: exI [of _ "[_]"] exI [of _ "[_, _, _]"] split: option.splits)
qed

lemma verify_diff_simps [simp]:
  "session (verify_diff e t w) = session w" "fw_workflows (verify_diff e t w) = fw_workflows w"
  "fw_manager (verify_diff e t w) = fw_manager w" "fw_audit (verify_diff e t w) = fw_audit w"
  by (simp_all add: verify_diff_def split: option.split)

lemma record_completion_simps [simp]:
  "session (record_completion now wid c w) = session w" "fw_workflows (record_completion now wid c w) = fw_workflows w"
  "fw_manager (record_completion now wid c w) = fw_manager w" "effects (record_completion now wid c w) = effects w"
  by (simp_all add: record_completion_def split: option.split sum.split)

lemma fin_start_inv: "fin_inv e ctx (effects w) (fin_start e co ctx c w)"
proof -
  have "ext e ctx (effects w) (effects (verify_diff e (wf_task ctx) w))"
    by (simp add: verify_diff_def ext_gits [OF ext_refl diff_effects] split: option.split)
  then show ?thesis by (simp add: fin_inv_def fin_start_def new_session_def same_pins_def)
qed

text \<open>The registered context of the workflow follows the session; the others stay as they are.\<close>

definition context_inv :: "WorkflowContext \<Rightarrow> (string, WorkflowContext) dict \<Rightarrow> fin_world \<Rightarrow> bool" where
  "context_inv ctx d w =
     (let t = fs_task (session w) in
      fs_context (session w) = Some (wf_id ctx) \<and> same_pins (wf_task ctx) t \<and> assign_valid t \<and>
      dict_get (fw_workflows w) (wf_id ctx) = map_option (\<lambda>_. ctx\<lparr>wf_task := t\<rparr>) (dict_get d (wf_id ctx)) \<and>
      (\<forall>k. k \<noteq> wf_id ctx \<longrightarrow> dict_get (fw_workflows w) k = dict_get d k))"

definition same_context :: "fin_world \<Rightarrow> fin_world \<Rightarrow> bool" where
  "same_context w w' = (fs_task (session w') = fs_task (session w) \<and> fs_context (session w') = fs_context (session w) \<and>
     fw_workflows w' = fw_workflows w)"

lemma context_inv_same: "same_context w w' \<Longrightarrow> context_inv ctx d w \<Longrightarrow> context_inv ctx d w'"
  by (simp add: same_context_def context_inv_def)

lemma same_context_refl [simp]: "same_context w w"
  by (simp add: same_context_def)

lemma same_context_steps [simp]:
  "same_context w (record_state a msg f w') = same_context w w'"
  "same_context w (render_action_result e a msg w') = same_context w w'"
  "same_context w (w'\<lparr>effects := fx\<rparr>) = same_context w w'"
  "same_context w (w'\<lparr>fw_manager := m\<rparr>) = same_context w w'"
  by (auto simp: same_context_def record_state_def render_action_result_def render_def split: option.splits)

lemma same_context_tools:
  "present_work_to_user e s b w = (r, w') \<Longrightarrow> same_context w w'"
  "do_push_branch e bn m rm w = (out, w') \<Longrightarrow> same_context w w'"
  "discard_work e why w = (r, w') \<Longrightarrow> same_context w w'"
  "destroy_sandbox e w = (r, w') \<Longrightarrow> same_context w w'"
  by (auto simp: present_work_to_user_def do_push_branch_def discard_work_def destroy_sandbox_def render_def Let_def
      split: option.splits prod.splits if_splits)

lemma same_context_push: "push_branch e b m rm w = (r, w') \<Longrightarrow> same_context w w'"
  by (auto simp: push_branch_def Let_def dest: same_context_tools(2) split: prod.splits)

lemma same_context_pr: "push_and_create_pr e b t bd rm w = (r, w') \<Longrightarrow> same_context w w'"
  by (auto simp: push_and_create_pr_def Let_def dest: same_context_tools(2)
      split: prod.splits if_splits sum.splits gh_exn.splits)

lemma redelegate_context_inv:
  assumes "context_inv ctx d w" and "re_delegate e p n m w = (r, w')"
  shows "context_inv ctx d w'"
proof -
  let ?f = "followup_task p n m (fs_task (session w))"
  let ?w = "w\<lparr>fw_workflows := update_context (fs_context (session w)) ?f (fw_workflows w), session := (session w)\<lparr>fs_task := ?f\<rparr>\<rparr>"
  have "context_inv ctx d ?w" if "assign_valid ?f"
    using assms(1) that by (simp add: context_inv_def Let_def update_context_def same_pins_followup dict_simps split: option.split)
  then have "context_inv ctx d w2" if "assign_valid ?f" "same_context ?w w2" for w2
    using that context_inv_same by blast
  then show ?thesis
    using assms
    by (auto simp: re_delegate_def Let_def split: if_splits prod.splits delegate_outcome.splits)
qed

lemma call_tool_context_inv:
  assumes "context_inv ctx d w" and "call_tool e a kw (w, sf) = (r, (w', sf'))"
  shows "context_inv ctx d w'"
  by (rule call_tool_keeps [where P = "context_inv ctx d", OF assms])
     (blast intro: context_inv_same redelegate_context_inv dest: same_context_tools same_context_push same_context_pr)+

lemma finalize_context_any:
  assumes "finalize e co ctx c w = (r, w')"
    and "\<forall>req u. session (snd (co_infer co req u)) = session u \<and> fw_workflows (snd (co_infer co req u)) = fw_workflows u"
    and "dict_get (fw_workflows w) (wf_id ctx) = None \<or> dict_get (fw_workflows w) (wf_id ctx) = Some ctx" and "assign_valid (wf_task ctx)"
  shows "\<exists>t. dict_get (fw_workflows w') (wf_id ctx) = map_option (\<lambda>_. ctx\<lparr>wf_task := t\<rparr>) (dict_get (fw_workflows w) (wf_id ctx)) \<and>
       assign_valid t \<and> same_pins (wf_task ctx) t \<and>
       (\<forall>k. k \<noteq> wf_id ctx \<longrightarrow> dict_get (fw_workflows w') k = dict_get (fw_workflows w) k)"
  using assms(1)
proof (cases rule: finalize_cases)
  case (drift err)
  then show ?thesis using assms(3,4) by (auto simp: same_pins_def intro!: exI [of _ "wf_task ctx"])
next
  case (ran reg aud ms rid out st)
  let ?P = "context_inv ctx (fw_workflows w)"
  have "keeps (finalization_loop co reg aud) ?P"
    by (rule fin_keeps [OF ran(2) _ _ call_tool_context_inv]) (use assms(2) in \<open>simp_all add: context_inv_def\<close>)
  moreover have "?P (fin_start e co ctx c w)"
    using assms(3,4) by (auto simp: context_inv_def fin_start_def new_session_def same_pins_def)
  ultimately have "?P w'" using run_keeps [OF _ ran(3)] ran(4) by simp
  then show ?thesis by (auto simp: context_inv_def Let_def)
qed

lemma finalize_context:
  assumes "finalize e co ctx c w = (r, w')"
    and "\<forall>req u. session (snd (co_infer co req u)) = session u \<and> fw_workflows (snd (co_infer co req u)) = fw_workflows u"
    and "dict_get (fw_workflows w) (wf_id ctx) = Some ctx" and "assign_valid (wf_task ctx)"
  shows "(\<exists>t. dict_get (fw_workflows w') (wf_id ctx) = Some (ctx\<lparr>wf_task := t\<rparr>) \<and> assign_valid t \<and> same_pins (wf_task ctx) t) \<and>
     (\<forall>k. k \<noteq> wf_id ctx \<longrightarrow> dict_get (fw_workflows w') k = dict_get (fw_workflows w) k)"
  using finalize_context_any [OF assms(1,2) disjI2 [OF assms(3)] assms(4)] assms(3) by auto

section \<open>Sample values\<close>

text \<open>A finished task whose model discards the workspace and then answers.\<close>

definition fin_task :: TaskAssignPayload where
  "fin_task = \<lparr>ta_prompt = ''p'', ta_workflow_id = ''wf-1'', ta_parent_sandbox_id = ''orch'', ta_agent_id = ''a1'',
     ta_workspace_root = ''/ws/agent-a1'', ta_max_turns = None, ta_model = None, ta_tool_surface = None, ta_context_files = [],
     ta_baseline = Some \<lparr>repo_url = ''u'', wb_branch = ''main'', base_sha = ''abc'', is_shallow = False\<rparr>,
     is_iteration = False, iteration_number = 0\<rparr>"

definition fin_complete :: TaskCompletePayload where
  "fin_complete = \<lparr>cp_workflow_id = ''wf-1'', cp_summary = ''s'', cp_diff = [],
     cp_baseline = Some \<lparr>repo_url = ''u'', wb_branch = ''main'', base_sha = ''abc'', is_shallow = False\<rparr>, cp_files_changed = [],
     cp_notes_path = None, cp_git_commit_sha = None, cp_tool_calls_made = 0, cp_rounds_used = 0, cp_model_used = None,
     cp_suggested_next_step = None\<rparr>"

definition fin_context :: WorkflowContext where
  "fin_context = \<lparr>wf_id = ''wf-1'', wf_task = fin_task, wf_channel_id = None, wf_thread_ts = None, wf_request_id = [], wf_started_at = 0\<rparr>"

definition fin_sample_env :: "unit fin_env_scheme" where
  "fin_sample_env = \<lparr>ge_git = (\<lambda>fx ws args. Exited 0 ws []), ge_gh = (\<lambda>fx ws t b. Exited 0 [] []), ge_resolve = (\<lambda>p. p),
     fe_exists = (\<lambda>fx p. True), fe_rmtree_error = (\<lambda>fx p. None), fe_read_file = (\<lambda>fx p. None), fe_has_renderer = True,
     fe_render_error = (\<lambda>fx i. None), fe_has_manager = False,
     fe_deleg = \<lparr>spawn_error = (\<lambda>t. None), assign_outcome = (\<lambda>t. None), stop_error = (\<lambda>a. None)\<rparr>,
     fe_validation_text = (\<lambda>t. []), fe_type_error = (\<lambda>n kw. []), fe_wait_text = []\<rparr>"

text \<open>A model that calls one tool and then answers.\<close>

definition one_tool_backend :: "ToolCall \<Rightarrow> fin_world backend" where
  "one_tool_backend tc req w = (Inr \<lparr>rs_content = ''done'', finish_reason = ''stop'',
     rs_tool_calls = (if st_action (fs_state (session w)) = None then [tc] else [])\<rparr>, w)"

definition one_tool_coordinator :: "ToolCall \<Rightarrow> kwargs \<Rightarrow> coordinator" where
  "one_tool_coordinator tc kw = \<lparr>co_infer = one_tool_backend tc, co_config = sample_config, co_system_prompt = ''sys'',
     co_loads = (\<lambda>s. Inr kw), co_schedule = rev, co_duration = (\<lambda>tc. 0), co_now = 0, co_uuid = (\<lambda>x. [])\<rparr>"

definition fin_coordinator :: coordinator where
  "fin_coordinator = one_tool_coordinator (named_call ''c1'' ''discard_work'') []"

definition fin_sample_world :: fin_world where
  "fin_sample_world = \<lparr>session = new_session fin_task fin_complete None,
     fw_manager = manager_init \<lparr>max_concurrent = 1, max_spawn_depth = 1, spawn_ready_timeout_str = []\<rparr>,
     fw_workflows = [(''wf-1'', fin_context), (''wf-2'', fin_context)], fw_audit = None, effects = []\<rparr>"

definition discarded_text :: string where
  "discarded_text = ''Discarded delegated workspace at /ws/agent-a1.''"

definition fin_discarded :: "fin_world \<Rightarrow> fin_world" where
  "fin_discarded w = record_state DISCARD_WORK discarded_text (\<lambda>_. True)
     (w\<lparr>effects := effects w @ [RemoveTree ''/ws/agent-a1'', Render (ActionResult ''wf-1'' ''discard_work'' discarded_text)]\<rparr>)"

lemma sample_discard:
  assumes "fs_task (session w) = fin_task" and "fs_context (session w) = Some ''wf-1''"
  shows "call_tool fin_sample_env DISCARD_WORK [] (w, sf) = (Inr discarded_text, (fin_discarded w, sf))"
proof -
  have "path_name ''/ws/agent-a1'' = ''agent-a1''" by (simp add: path_name_def)
  then show ?thesis
    using assms by (simp add: call_tool_def bind_tool_def only_keys_def arg_str_def discard_work_def fin_sample_env_def fin_task_def
        looks_like_per_agent_workspace_def render_action_result_def render_def fin_discarded_def discarded_text_def Let_def)
qed

definition fin_gits :: "effect list" where
  "fin_gits = map (Git ''/ws/agent-a1'') [[''rev-parse'', ''--show-toplevel''], [''add'', ''--intent-to-add'', ''--all''], [''diff'', ''abc'']]"

lemma sample_start:
  "effects (fin_start fin_sample_env fin_coordinator fin_context fin_complete fin_sample_world) = fin_gits"
  "fs_task (session (fin_start fin_sample_env fin_coordinator fin_context fin_complete fin_sample_world)) = fin_task"
  "fs_context (session (fin_start fin_sample_env fin_coordinator fin_context fin_complete fin_sample_world)) = Some ''wf-1''"
  "st_action (fs_state (session (fin_start fin_sample_env fin_coordinator fin_context fin_complete fin_sample_world))) = None"
  by (simp_all add: fin_start_def fin_context_def new_session_def verify_diff_def fin_task_def fin_sample_world_def fin_sample_env_def
      diff_against_baseline_def require_git_workspace_root_def run_git_def Let_def git_output_def OUTPUT_MAX_BYTES_def is_git_error_def
      strip_def rstrip_def is_space_def fin_gits_def git_env.defs)

lemma one_tool_fields [simp]:
  "co_infer (one_tool_coordinator tc kw) = one_tool_backend tc" "co_config (one_tool_coordinator tc kw) = sample_config"
  "co_schedule (one_tool_coordinator tc kw) = rev" "co_loads (one_tool_coordinator tc kw) = (\<lambda>s. Inr kw)"
  by (simp_all add: one_tool_coordinator_def)

lemma one_tool_batch:
  assumes "create_finalization_tool_registry e = Inr reg" and "a \<in> set FINALIZATION_TOOLS" and "call_name tc = action_value a"
    and "call_arguments tc = [] \<longrightarrow> kw = []" and "call_tool e a kw (w, sf) = (Inr txt, (w', sf))"
    and "length txt \<le> 8000"
  shows "execute_tool_calls (finalization_loop (one_tool_coordinator tc kw) reg False) rid ts [tc]
      \<lparr>world = w, surface = sf, tool_names = tn, executed = ex\<rparr> =
    ([tool_message (call_id tc) txt], \<lparr>world = w', surface = sf,
       tool_names = register_tool_call (call_id tc) (call_name tc) tn, executed = ex @ [tc]\<rparr>)"
proof -
  have g: "get_tool reg (action_value a) = Some (fin_spec e a)"
    using assms(1,2) by (auto simp: fin_registry get_tool_def dict_get_def FINALIZATION_TOOLS_def)
  have m: "max_result_chars (fin_spec e a) = DEFAULT_MAX_RESULT_CHARS" by (simp add: fin_spec_def tool_def)
  have x: "execute (\<lambda>s. Inr kw) reg (action_value a) (call_arguments tc) (w, sf) = (Inr txt, (w', sf))"
    using assms(4-6) by (cases "call_arguments tc = []") (simp_all add: execute_def g m ToolRegistry.truncate_def DEFAULT_MAX_RESULT_CHARS_def)
  show ?thesis
    by (simp add: execute_tool_calls_def concurrency_safe_def finalization_loop_def assms(3) g execute_one_def x Let_def)
qed

lemma finalize_one_tool:
  fixes e :: "'a fin_env_scheme" and tc kw ctx c w
  defines "w2 \<equiv> fin_start e (one_tool_coordinator tc kw) ctx c w"
  assumes "verify_baseline (wf_task ctx) c = None" and "fw_audit w2 = None"
    and "a \<in> set FINALIZATION_TOOLS" and "call_name tc = action_value a" and "call_arguments tc = [] \<longrightarrow> kw = []"
    and "call_tool e a kw (w2, []) = (Inr txt, (w', []))" and "length txt \<le> 8000"
    and "fs_state (session w') = \<lparr>st_action = Some b, st_message = m # msg, st_terminal = t\<rparr>"
  shows "finalize e (one_tool_coordinator tc kw) ctx c w =
    (Inr \<lparr>fr_workflow_id = wf_id ctx, fr_action = b, fr_message = m # msg, fr_terminal = t\<rparr>, w')"
proof -
  obtain f where fuel: "nat (max_tool_rounds sample_config) = Suc (Suc (Suc f))" by (rule sample_fuel)
  obtain reg where reg: "create_finalization_tool_registry e = Inr reg" using fin_registry by blast
  let ?co = "one_tool_coordinator tc kw"
  let ?e = "finalization_loop ?co reg False"
  have e: "le_config ?e = sample_config" "le_infer ?e = one_tool_backend tc" "le_gate ?e = AutoApproval"
    by (simp_all add: finalization_loop_def)
  have s: "st_action (fs_state (session w2)) = None" "st_action (fs_state (session w')) = Some b"
    by (simp_all add: w2_def fin_start_def new_session_def assms(9))
  have n: "needs_write_approval ?e ws = False" for ws by (simp add: needs_write_approval_def e list_ex_iff)
  have "\<exists>x y. run ?e [text_message ROLE_SYSTEM u, text_message ROLE_USER v] rid None []
      \<lparr>world = w2, surface = [], tool_names = [], executed = []\<rparr> = (Finished x, y) \<and> world y = w'" for u v rid
    unfolding run_def e fuel
    using assms(8)
    by (simp add: short_pass [OF e(1)] e one_tool_backend_def s n Let_def text_message_def tool_message_def build_assistant_tool_message_def
        one_tool_batch [OF reg assms(4-8)] reset_tool_surface_def final_content_def)
  then obtain x y where r: "run ?e [text_message ROLE_SYSTEM (co_system_prompt ?co),
        text_message ROLE_USER (build_finalization_prompt e (wf_task ctx) c (effects w2))]
      (''finalize-'' @ wf_id ctx) None []
      \<lparr>world = w2, surface = [], tool_names = [], executed = []\<rparr> = (Finished x, y)" "world y = w'"
    by blast
  from r show ?thesis
    by (simp add: finalize_def w2_def [symmetric] assms(2,3,9) reg Let_def)
qed

lemma sample_finalize:
  "finalize fin_sample_env fin_coordinator fin_context fin_complete fin_sample_world =
     (Inr \<lparr>fr_workflow_id = ''wf-1'', fr_action = DISCARD_WORK, fr_message = discarded_text, fr_terminal = True\<rparr>,
      fin_discarded (fin_start fin_sample_env fin_coordinator fin_context fin_complete fin_sample_world))"
proof -
  define w2 where "w2 = fin_start fin_sample_env fin_coordinator fin_context fin_complete fin_sample_world"
  note s = sample_start [folded w2_def]
  have v: "verify_baseline (wf_task fin_context) fin_complete = None"
    by (simp add: verify_baseline_def fin_context_def fin_task_def fin_complete_def)
  have a: "fw_audit w2 = None"
    by (simp add: w2_def fin_start_def record_completion_def fin_sample_world_def)
  have t: "discarded_text = CHR ''D'' # tl discarded_text" "length discarded_text \<le> 8000" by (simp_all add: discarded_text_def)
  then have d: "fs_state (session (fin_discarded w2)) = \<lparr>st_action = Some DISCARD_WORK, st_message = CHR ''D'' # tl discarded_text, st_terminal = True\<rparr>"
    by (simp add: fin_discarded_def record_state_def)
  have p: "DISCARD_WORK \<in> set FINALIZATION_TOOLS" by (simp add: FINALIZATION_TOOLS_def)
  have "wf_id fin_context = ''wf-1''" by (simp add: fin_context_def)
  with finalize_one_tool [OF v a [unfolded w2_def fin_coordinator_def] p _ _ sample_discard [OF s(2,3), unfolded w2_def fin_coordinator_def]
      t(2) d [unfolded w2_def fin_coordinator_def]]
  show ?thesis by (simp add: named_call_def t(1) [symmetric] fin_coordinator_def)
qed

section \<open>Properties\<close>

text \<open>
  C19: Whatever the finalisation model asks for, its effects stay in the workflow. If the
  baseline that the sub-agent reports is not the assigned one, the finalisation fails and
  nothing has happened. Otherwise every git command and pull request since the start ran in
  the task's workspace, a directory is removed only if it is the resolved workspace and
  looks like the workspace of the task's agent, and what is shown to the user goes to the
  workflow's own thread. The hypothesis is that the inference backend itself touches neither
  the session nor the outside world.
\<close>

theorem finalize_confined:
  assumes "finalize e co ctx c w = (r, w')"
    and "\<forall>req u. session (snd (co_infer co req u)) = session u \<and> effects (snd (co_infer co req u)) = effects u"
  shows "(\<exists>new. effects w' = effects w @ new \<and> list_all (confined e ctx) new) \<and>
     (if verify_baseline (wf_task ctx) c = None then same_pins (wf_task ctx) (fs_task (session w')) else isl r \<and> w' = w)"
  using assms(1)
proof (cases rule: finalize_cases)
  case (ran reg aud ms rid out st)
  have "keeps (finalization_loop co reg aud) (fin_inv e ctx (effects w))"
    by (rule fin_keeps [OF ran(2) _ _ call_tool_fin_inv]) (use assms(2) in \<open>simp_all add: fin_inv_def\<close>)
  from run_keeps [OF this ran(3)] have "fin_inv e ctx (effects w) w'" using ran(4) by (simp add: fin_start_inv)
  then show ?thesis using ran(1) by (simp add: fin_inv_def ext_def)
qed simp

theorem finalize_confined_witness:
  "\<exists>r w'. finalize fin_sample_env fin_coordinator fin_context fin_complete fin_sample_world = (Inr r, w') \<and>
     RemoveTree ''/ws/agent-a1'' \<in> set (effects w') \<and> length (effects w') = 5 \<and>
     list_all (confined fin_sample_env fin_context) (effects w')"
proof -
  have b: "\<forall>req u. session (snd (co_infer fin_coordinator req u)) = session u \<and> effects (snd (co_infer fin_coordinator req u)) = effects u"
    by (simp add: fin_coordinator_def one_tool_backend_def)
  have "effects fin_sample_world = []" by (simp add: fin_sample_world_def)
  then show ?thesis
    using finalize_confined [OF sample_finalize b] sample_finalize by (auto simp: fin_discarded_def record_state_def sample_start fin_gits_def)
qed

text \<open>
  C20: Finalisation keeps the types of the registered workflows. If the workflow is registered
  with a well-formed assignment, then after any finalisation it is still registered, its
  assignment is again well-formed (non-empty ids and prompt, positive turn limit, valid
  baseline, iteration at least 0) and differs from the original only in prompt, turn limit,
  model and a larger iteration number; no other workflow changes.
\<close>

theorem finalize_keeps_assignments:
  assumes "finalize e co ctx c w = (r, w')"
    and "\<forall>req u. session (snd (co_infer co req u)) = session u \<and> fw_workflows (snd (co_infer co req u)) = fw_workflows u"
    and "dict_get (fw_workflows w) (wf_id ctx) = Some ctx" and "assign_valid (wf_task ctx)"
  shows "(\<exists>t. dict_get (fw_workflows w') (wf_id ctx) = Some (ctx\<lparr>wf_task := t\<rparr>) \<and> assign_valid t \<and> same_pins (wf_task ctx) t) \<and>
     (\<forall>k. k \<noteq> wf_id ctx \<longrightarrow> dict_get (fw_workflows w') k = dict_get (fw_workflows w) k)"
  using assms by (rule finalize_context)

theorem finalize_keeps_assignments_witness:
  "\<exists>r w' t. finalize fin_sample_env fin_coordinator fin_context fin_complete fin_sample_world = (Inr r, w') \<and>
     dict_get (fw_workflows w') ''wf-1'' = Some (fin_context\<lparr>wf_task := t\<rparr>) \<and> assign_valid t \<and>
     dict_get (fw_workflows w') ''wf-2'' = Some fin_context"
proof -
  have h: "\<forall>req u. session (snd (co_infer fin_coordinator req u)) = session u \<and> fw_workflows (snd (co_infer fin_coordinator req u)) = fw_workflows u"
      "dict_get (fw_workflows fin_sample_world) (wf_id fin_context) = Some fin_context"
      "assign_valid (wf_task fin_context)" "wf_id fin_context = ''wf-1''"
      "dict_get (fw_workflows fin_sample_world) ''wf-2'' = Some fin_context"
    by (simp_all add: fin_coordinator_def one_tool_backend_def fin_sample_world_def fin_context_def fin_task_def assign_valid_def opt_all_def
        baseline_valid_def dict_get_def)
  note f = finalize_keeps_assignments [OF sample_finalize h(1-3)]
  have "dict_get (fw_workflows (fin_discarded (fin_start fin_sample_env fin_coordinator fin_context fin_complete fin_sample_world))) ''wf-2'' = Some fin_context"
    using spec [OF conjunct2 [OF f], of "''wf-2''"] h(4,5) by simp
  with conjunct1 [OF f] h(4) sample_finalize show ?thesis by auto
qed

end
