(* ===== verification/Dispatcher.thy ===== *)
theory Dispatcher
  imports Finalization
begin

text \<open>
  The workflow dispatcher (\<^verbatim>\<open>orchestrator/dispatcher.py\<close>): the registered workflows, the
  finalisation task of each workflow and the handlers of the four message types.

  The world is the record of the finalisation tools. A finalisation task is cut where the
  code gives way: it is scheduled; its run of the coordinator takes effect, after which it
  still has to report its outcome; then it is done. A task that is scheduled when its
  workflow leaves the registry keeps the context object it was given. Workflow ids are
  fresh when they are registered (\<^verbatim>\<open>tools/delegation.py\<close> draws a UUID), so registration is a
  step for an unused id. A payload is \<open>None\<close> when the JSON does not have the shape of
  the message's schema.
\<close>

section \<open>State\<close>

datatype fin_outcome = Failed string | Settled bool

datatype fin_task =
    Scheduled "WorkflowContext option" TaskCompletePayload
  | Concluding fin_outcome
  | TaskDone

record dispatcher =
  di_world :: fin_world
  di_tasks :: "(string, fin_task) dict"
  di_running :: bool

record disp_env =
  de_fin :: "unit fin_env_scheme"
  de_coordinator :: "coordinator option"
  de_now :: pyfloat
  de_uuid :: string

datatype inbound =
    TaskComplete "TaskCompletePayload option"
  | TaskError "TaskErrorPayload option"
  | TaskProgress "TaskProgressPayload option"
  | AuditFlush "AuditFlushPayload option"
  | OtherMessage

abbreviation workflows :: "dispatcher \<Rightarrow> (string, WorkflowContext) dict" where
  "workflows d \<equiv> fw_workflows (di_world d)"

definition load :: "('p \<Rightarrow> bool) \<Rightarrow> 'p option \<Rightarrow> 'p option" where
  "load ok x = (case x of Some p \<Rightarrow> if ok p then Some p else None | None \<Rightarrow> None)"

section \<open>Workflow registry\<close>

definition register_workflow :: "WorkflowContext \<Rightarrow> dispatcher \<Rightarrow> dispatcher" where
  "register_workflow ctx d = d\<lparr>di_world := (di_world d)\<lparr>fw_workflows := dict_set (wf_id ctx) ctx (workflows d)\<rparr>\<rparr>"

definition get_workflow :: "dispatcher \<Rightarrow> string \<Rightarrow> WorkflowContext option" where
  "get_workflow d wid = dict_get (workflows d) wid"

text \<open>A scheduled task keeps the context that leaves the registry.\<close>

definition keep_context :: "string \<Rightarrow> dispatcher \<Rightarrow> dispatcher" where
  "keep_context wid d = (case (dict_get (di_tasks d) wid, get_workflow d wid) of
     (Some (Scheduled None p), Some ctx) \<Rightarrow> d\<lparr>di_tasks := dict_set wid (Scheduled (Some ctx) p) (di_tasks d)\<rparr>
   | _ \<Rightarrow> d)"

definition deregister_workflow :: "disp_env \<Rightarrow> string \<Rightarrow> dispatcher \<Rightarrow> dispatcher" where
  "deregister_workflow e wid d =
     (let d1 = keep_context wid d; w = di_world d1; w1 = w\<lparr>fw_workflows := dict_pop wid (fw_workflows w)\<rparr>
      in d1\<lparr>di_world := (if fe_has_manager (de_fin e)
           then w1\<lparr>fw_manager := terminate_workflow wid (fw_manager w1)\<rparr> else w1)\<rparr>)"

section \<open>The finalisation task\<close>

definition live :: "dispatcher \<Rightarrow> string \<Rightarrow> bool" where
  "live d wid = (case dict_get (di_tasks d) wid of None \<Rightarrow> False | Some t \<Rightarrow> t \<noteq> TaskDone)"

text \<open>The body of \<open>_finalize\<close> up to its outcome, then what follows the outcome.\<close>

definition run_finalizer :: "disp_env \<Rightarrow> WorkflowContext \<Rightarrow> TaskCompletePayload \<Rightarrow> fin_world \<Rightarrow> fin_outcome \<times> fin_world" where
  "run_finalizer e ctx p w = (case de_coordinator e of
     None \<Rightarrow>
       (case (if fe_has_renderer (de_fin e)
              then render (de_fin e) (PresentWork (wf_id ctx) (cp_summary p) (cp_diff p)) w else (None, w)) of
          (None, w1) \<Rightarrow> (Settled False, w1) | (Some err, w1) \<Rightarrow> (Failed err, w1))
   | Some co \<Rightarrow>
       (case finalize (de_fin e) co ctx p w of
          (Inl err, w1) \<Rightarrow> (Failed err, w1) | (Inr r, w1) \<Rightarrow> (Settled (fr_terminal r), w1)))"

definition task_body :: "disp_env \<Rightarrow> string \<Rightarrow> dispatcher \<Rightarrow> dispatcher" where
  "task_body e wid d = (case dict_get (di_tasks d) wid of
     Some (Scheduled own p) \<Rightarrow>
       (case (case own of Some ctx \<Rightarrow> Some ctx | None \<Rightarrow> get_workflow d wid) of
          None \<Rightarrow> d
        | Some ctx \<Rightarrow> (case run_finalizer e ctx p (di_world d) of
            (out, w) \<Rightarrow> d\<lparr>di_world := w, di_tasks := dict_set wid (Concluding out) (di_tasks d)\<rparr>))
   | _ \<Rightarrow> d)"

definition task_conclude :: "disp_env \<Rightarrow> string \<Rightarrow> dispatcher \<Rightarrow> dispatcher" where
  "task_conclude e wid d = (case dict_get (di_tasks d) wid of
     Some (Concluding out) \<Rightarrow>
       (let d1 = d\<lparr>di_tasks := dict_set wid TaskDone (di_tasks d)\<rparr> in
        case out of
          Failed err \<Rightarrow> deregister_workflow e wid
            (if fe_has_renderer (de_fin e)
             then d1\<lparr>di_world := snd (render (de_fin e) (CompletionFailure wid err) (di_world d1))\<rparr> else d1)
        | Settled terminal \<Rightarrow> if terminal then deregister_workflow e wid d1 else d1)
   | _ \<Rightarrow> d)"

section \<open>Message handlers\<close>

definition handle_task_complete :: "TaskCompletePayload option \<Rightarrow> dispatcher \<Rightarrow> dispatcher" where
  "handle_task_complete x d = (case load complete_valid x of
     None \<Rightarrow> d
   | Some p \<Rightarrow>
       (case get_workflow d (cp_workflow_id p) of
          None \<Rightarrow> d
        | Some ctx \<Rightarrow>
            if live d (cp_workflow_id p) then d
            else d\<lparr>di_tasks := dict_set (cp_workflow_id p) (Scheduled None p) (di_tasks d)\<rparr>))"

definition stamp_error :: "pyfloat \<Rightarrow> TaskErrorPayload \<Rightarrow> fin_world \<Rightarrow> fin_world" where
  "stamp_error now p w = (case fw_audit w of None \<Rightarrow> w | Some db \<Rightarrow>
     (case log_delegation_error now (te_workflow_id p) (kind_value (te_error_kind p)) (te_error p) (te_recoverable p) db of
        Inl _ \<Rightarrow> w | Inr db' \<Rightarrow> w\<lparr>fw_audit := Some db'\<rparr>))"

definition handle_task_error :: "disp_env \<Rightarrow> TaskErrorPayload option \<Rightarrow> dispatcher \<Rightarrow> dispatcher" where
  "handle_task_error e x d = (case load error_valid x of
     None \<Rightarrow> d
   | Some p \<Rightarrow>
       (case get_workflow d (te_workflow_id p) of
          None \<Rightarrow> d
        | Some ctx \<Rightarrow>
           (let w = di_world d;
                w1 = (if fe_has_renderer (de_fin e)
                      then snd (render (de_fin e) (WorkflowErrorItem (te_workflow_id p) (te_error p)) w) else w)
            in deregister_workflow e (te_workflow_id p) (d\<lparr>di_world := stamp_error (de_now e) p w1\<rparr>))))"

definition handle_task_progress :: "disp_env \<Rightarrow> TaskProgressPayload option \<Rightarrow> dispatcher \<Rightarrow> dispatcher" where
  "handle_task_progress e x d = (case load progress_valid x of
     None \<Rightarrow> d
   | Some p \<Rightarrow>
       if get_workflow d (pg_workflow_id p) = None \<or> \<not> fe_has_renderer (de_fin e) then d
       else d\<lparr>di_world := snd (render (de_fin e) (ProgressItem (pg_workflow_id p)) (di_world d))\<rparr>)"

definition handle_audit_flush :: "disp_env \<Rightarrow> AuditFlushPayload option \<Rightarrow> dispatcher \<Rightarrow> dispatcher" where
  "handle_audit_flush e x d = (case (fw_audit (di_world d), x) of
     (Some db, Some p) \<Rightarrow>
       (case ingest_audit_flush (de_now e) (de_uuid e) p db of
          Inl _ \<Rightarrow> d | Inr (db', _) \<Rightarrow> d\<lparr>di_world := (di_world d)\<lparr>fw_audit := Some db'\<rparr>\<rparr>)
   | _ \<Rightarrow> d)"

fun dispatch :: "disp_env \<Rightarrow> inbound \<Rightarrow> dispatcher \<Rightarrow> dispatcher" where
  "dispatch e (TaskComplete x) d = handle_task_complete x d"
| "dispatch e (TaskError x) d = handle_task_error e x d"
| "dispatch e (TaskProgress x) d = handle_task_progress e x d"
| "dispatch e (AuditFlush x) d = handle_audit_flush e x d"
| "dispatch e OtherMessage d = d"

definition dispatch_loop :: "disp_env \<Rightarrow> inbound list \<Rightarrow> dispatcher \<Rightarrow> dispatcher" where
  "dispatch_loop e msgs d = fold (dispatch e) msgs d"

section \<open>Lifecycle\<close>

definition dispatcher_start :: "dispatcher \<Rightarrow> dispatcher" where
  "dispatcher_start d = d\<lparr>di_running := True\<rparr>"

text \<open>Cancellation is not an \<open>Exception\<close>: a cancelled finalisation reports nothing.\<close>

definition dispatcher_close :: "dispatcher \<Rightarrow> dispatcher" where
  "dispatcher_close d = d\<lparr>di_tasks := [], di_running := False\<rparr>"

definition in_flight_finalizations :: "dispatcher \<Rightarrow> nat" where
  "in_flight_finalizations d = length (filter (\<lambda>t. t \<noteq> TaskDone) (dict_values (di_tasks d)))"

definition dispatcher_init :: "fin_world \<Rightarrow> dispatcher" where
  "dispatcher_init w = \<lparr>di_world = w\<lparr>fw_workflows := []\<rparr>, di_tasks = [], di_running = False\<rparr>"

section \<open>The dispatcher as a system\<close>

inductive disp_step :: "disp_env \<Rightarrow> dispatcher \<Rightarrow> dispatcher \<Rightarrow> bool" for e where
  di_register: "\<lbrakk>get_workflow d (wf_id ctx) = None; dict_get (di_tasks d) (wf_id ctx) = None; assign_valid (wf_task ctx);
      ta_workflow_id (wf_task ctx) = wf_id ctx\<rbrakk> \<Longrightarrow> disp_step e d (register_workflow ctx d)"
| di_start: "disp_step e d (dispatcher_start d)"
| di_message: "di_running d \<Longrightarrow> disp_step e d (dispatch e msg d)"
| di_body: "disp_step e d (task_body e wid d)"
| di_conclude: "disp_step e d (task_conclude e wid d)"
| di_close: "disp_step e d (dispatcher_close d)"

inductive_simps disp_step_iff: "disp_step e d d'"

section \<open>Invariant\<close>

text \<open>The backend of the finalisation model touches neither the session nor the registry.\<close>

definition quiet :: "disp_env \<Rightarrow> bool" where
  "quiet e = (\<forall>co. de_coordinator e = Some co \<longrightarrow> (\<forall>req u. session (snd (co_infer co req u)) = session u \<and>
     fw_workflows (snd (co_infer co req u)) = fw_workflows u))"

definition context_ok :: "string \<Rightarrow> WorkflowContext \<Rightarrow> bool" where
  "context_ok wid c = (wf_id c = wid \<and> assign_valid (wf_task c) \<and> ta_workflow_id (wf_task c) = wid)"

text \<open>
  Every context is filed under its own id and holds a well-formed assignment; a scheduled
  task that shares the registered context finds it there, and one that keeps a context of
  its own belongs to a workflow that is no longer registered.
\<close>

definition task_ok :: "dispatcher \<Rightarrow> string \<Rightarrow> fin_task \<Rightarrow> bool" where
  "task_ok d wid t = (case t of
     Scheduled own p \<Rightarrow> cp_workflow_id p = wid \<and> complete_valid p \<and>
       (case own of None \<Rightarrow> get_workflow d wid \<noteq> None | Some c \<Rightarrow> context_ok wid c \<and> get_workflow d wid = None)
   | _ \<Rightarrow> True)"

definition disp_inv :: "dispatcher \<Rightarrow> bool" where
  "disp_inv d =
     ((\<forall>wid c. get_workflow d wid = Some c \<longrightarrow> context_ok wid c) \<and>
      (\<forall>wid t. dict_get (di_tasks d) wid = Some t \<longrightarrow> task_ok d wid t))"

lemma disp_inv_context: "disp_inv d \<Longrightarrow> get_workflow d wid = Some c \<Longrightarrow> context_ok wid c"
  by (simp add: disp_inv_def)

lemma disp_inv_task: "disp_inv d \<Longrightarrow> dict_get (di_tasks d) wid = Some t \<Longrightarrow> task_ok d wid t"
  by (simp add: disp_inv_def)

lemma disp_inv_init: "disp_inv (dispatcher_init w)"
  by (simp add: disp_inv_def dispatcher_init_def get_workflow_def dict_get_def)

text \<open>Only the workflows and the tasks matter.\<close>

lemma disp_inv_world:
  "fw_workflows w = workflows d \<Longrightarrow> disp_inv (d\<lparr>di_world := w\<rparr>) = disp_inv d"
  by (simp add: disp_inv_def task_ok_def get_workflow_def cong: fin_task.case_cong option.case_cong)

lemma get_workflow_world [simp]: "get_workflow (d\<lparr>di_world := w\<rparr>) wid = dict_get (fw_workflows w) wid"
  "get_workflow (d\<lparr>di_tasks := ts\<rparr>) wid = get_workflow d wid" "get_workflow (d\<lparr>di_running := b\<rparr>) wid = get_workflow d wid"
  by (simp_all add: get_workflow_def)

lemma live_world [simp]: "live (d\<lparr>di_world := w\<rparr>) wid = live d wid" "live (d\<lparr>di_running := b\<rparr>) wid = live d wid"
  by (simp_all add: live_def)

lemma keep_context_simps [simp]:
  "di_world (keep_context wid d) = di_world d" "di_running (keep_context wid d) = di_running d"
  "get_workflow (keep_context wid d) k = get_workflow d k"
  by (auto simp: keep_context_def get_workflow_def split: option.splits fin_task.splits)

lemma keep_context_tasks:
  "dict_get (di_tasks (keep_context wid d)) k =
     (case (dict_get (di_tasks d) k, get_workflow d k) of
        (Some (Scheduled None p), Some c) \<Rightarrow> Some (Scheduled (if k = wid then Some c else None) p)
      | (x, _) \<Rightarrow> x)"
  by (auto simp: keep_context_def dict_simps split: option.splits fin_task.splits)

lemma keep_context_live [simp]: "live (keep_context wid d) k = live d k"
  by (auto simp: live_def keep_context_tasks split: option.splits fin_task.splits)

lemma deregister_simps [simp]:
  "di_tasks (deregister_workflow e wid d) = di_tasks (keep_context wid d)"
  "live (deregister_workflow e wid d) k = live d k"
  "get_workflow (deregister_workflow e wid d) k = (if k = wid then None else get_workflow d k)"
  by (simp_all add: deregister_workflow_def Let_def dict_simps get_workflow_def)

lemma render_workflows [simp]: "fw_workflows (snd (render e item w)) = fw_workflows w"
  by (simp add: render_def)

lemma stamp_error_workflows [simp]: "fw_workflows (stamp_error now p w) = fw_workflows w"
  by (simp add: stamp_error_def split: option.split sum.split)

lemma deregister_inv:
  assumes "disp_inv d"
  shows "disp_inv (deregister_workflow e wid d)"
proof -
  have "task_ok (deregister_workflow e wid d) k t" if t: "dict_get (di_tasks (keep_context wid d)) k = Some t" for k t
  proof -
    obtain t0 where t0: "dict_get (di_tasks d) k = Some t0" using t by (cases "dict_get (di_tasks d) k") (simp_all add: keep_context_tasks)
    note ok = disp_inv_task [OF assms t0]
    show ?thesis
    proof (cases "\<exists>p. t0 = Scheduled None p")
      case True
      then obtain p c where p: "t0 = Scheduled None p" "get_workflow d k = Some c" using ok by (auto simp: task_ok_def)
      then have "t = Scheduled (if k = wid then Some c else None) p" using t t0 by (simp add: keep_context_tasks)
      then show ?thesis using ok p disp_inv_context [OF assms p(2)] by (auto simp: task_ok_def)
    next
      case False
      then have "t = t0" using t t0 by (simp add: keep_context_tasks split: fin_task.splits option.splits)
      then show ?thesis using ok False by (auto simp: task_ok_def split: fin_task.splits option.splits)
    qed
  qed
  moreover have "context_ok k c" if "get_workflow (deregister_workflow e wid d) k = Some c" for k c
    using that disp_inv_context [OF assms] by (simp split: if_splits)
  ultimately show ?thesis by (simp add: disp_inv_def)
qed

lemma task_ok_cong: "(get_workflow d' k = None) = (get_workflow d k = None) \<Longrightarrow> task_ok d' k t = task_ok d k t"
  by (simp add: task_ok_def split: fin_task.split option.split)

lemma task_ok_tasks [simp]: "task_ok (d\<lparr>di_tasks := ts\<rparr>) k t = task_ok d k t" "task_ok (d\<lparr>di_running := b\<rparr>) k t = task_ok d k t"
  by (rule task_ok_cong, simp add: get_workflow_def)+

lemma set_task_inv:
  "disp_inv d \<Longrightarrow> task_ok d wid t \<Longrightarrow> disp_inv (d\<lparr>di_tasks := dict_set wid t (di_tasks d)\<rparr>)"
  by (simp add: disp_inv_def dict_simps)

lemma register_inv:
  assumes "disp_inv d" and "get_workflow d (wf_id ctx) = None" and "dict_get (di_tasks d) (wf_id ctx) = None"
    and "context_ok (wf_id ctx) ctx"
  shows "disp_inv (register_workflow ctx d)"
proof -
  have "task_ok (register_workflow ctx d) k t" if "dict_get (di_tasks d) k = Some t" for k t
  proof -
    have "k \<noteq> wf_id ctx" using that assms(3) by auto
    then show ?thesis
      using disp_inv_task [OF assms(1) that] task_ok_cong [of "register_workflow ctx d" k d t]
      by (simp add: register_workflow_def get_workflow_def dict_simps)
  qed
  then show ?thesis
    using assms(1,4) by (simp add: disp_inv_def) (simp add: register_workflow_def get_workflow_def dict_simps)
qed

text \<open>A run of the finaliser keeps which workflows are registered, and their contexts well-formed.\<close>

lemma run_finalizer_workflows:
  assumes "quiet e" and "run_finalizer e ctx p w = (out, w')" and "context_ok (wf_id ctx) ctx"
    and "dict_get (fw_workflows w) (wf_id ctx) = None \<or> dict_get (fw_workflows w) (wf_id ctx) = Some ctx"
  shows "\<exists>c. dict_get (fw_workflows w') (wf_id ctx) = map_option (\<lambda>_. c) (dict_get (fw_workflows w) (wf_id ctx)) \<and> context_ok (wf_id ctx) c \<and>
    (\<forall>k. k \<noteq> wf_id ctx \<longrightarrow> dict_get (fw_workflows w') k = dict_get (fw_workflows w) k)"
proof (cases "de_coordinator e")
  case None
  then have "fw_workflows w' = fw_workflows w"
    using assms(2) by (auto simp: run_finalizer_def render_def split: option.splits if_splits)
  then show ?thesis using assms(3,4) by auto
next
  case (Some co)
  obtain r where r: "finalize (de_fin e) co ctx p w = (r, w')"
    using assms(2) Some by (auto simp: run_finalizer_def split: prod.splits sum.splits)
  have q: "\<forall>req u. session (snd (co_infer co req u)) = session u \<and> fw_workflows (snd (co_infer co req u)) = fw_workflows u"
    using assms(1) Some by (simp add: quiet_def)
  have v: "assign_valid (wf_task ctx)" using assms(3) by (simp add: context_ok_def)
  obtain t where t: "dict_get (fw_workflows w') (wf_id ctx) = map_option (\<lambda>_. ctx\<lparr>wf_task := t\<rparr>) (dict_get (fw_workflows w) (wf_id ctx))"
      "assign_valid t" "same_pins (wf_task ctx) t" "\<forall>k. k \<noteq> wf_id ctx \<longrightarrow> dict_get (fw_workflows w') k = dict_get (fw_workflows w) k"
    using finalize_context_any [OF r q assms(4) v] by blast
  then have "context_ok (wf_id ctx) (ctx\<lparr>wf_task := t\<rparr>)" using assms(3) by (simp add: context_ok_def same_pins_def)
  with t show ?thesis by blast
qed

text \<open>The steps of a task.\<close>

lemma task_body_cases:
  assumes "disp_inv d"
  obtains (idle) "task_body e wid d = d"
  | (ran) own p ctx out w where "dict_get (di_tasks d) wid = Some (Scheduled own p)" "context_ok wid ctx"
      "get_workflow d wid = None \<or> get_workflow d wid = Some ctx" "run_finalizer e ctx p (di_world d) = (out, w)"
      "task_body e wid d = d\<lparr>di_world := w, di_tasks := dict_set wid (Concluding out) (di_tasks d)\<rparr>"
proof (cases "\<exists>own p. dict_get (di_tasks d) wid = Some (Scheduled own p)")
  case True
  then obtain own p where t: "dict_get (di_tasks d) wid = Some (Scheduled own p)" by blast
  then have ok: "task_ok d wid (Scheduled own p)" by (rule disp_inv_task [OF assms])
  obtain ctx where c: "(case own of Some ctx \<Rightarrow> Some ctx | None \<Rightarrow> get_workflow d wid) = Some ctx" "context_ok wid ctx"
      "get_workflow d wid = None \<or> get_workflow d wid = Some ctx"
    using ok disp_inv_context [OF assms] by (cases own) (auto simp: task_ok_def)
  obtain out w where r: "run_finalizer e ctx p (di_world d) = (out, w)" by fastforce
  show thesis by (rule ran [OF t c(2,3) r]) (simp add: task_body_def t c(1) r)
next
  case False
  then have "task_body e wid d = d" by (simp add: task_body_def split: option.split fin_task.split)
  then show thesis by (rule idle)
qed

lemma task_body_inv:
  assumes "quiet e" and "disp_inv d"
  shows "disp_inv (task_body e wid d) \<and> (\<forall>k. (get_workflow (task_body e wid d) k = None) = (get_workflow d k = None)) \<and>
    (\<forall>k. k \<noteq> wid \<longrightarrow> get_workflow (task_body e wid d) k = get_workflow d k) \<and> (\<forall>k. live (task_body e wid d) k = live d k)"
  using assms(2)
proof (cases rule: task_body_cases [of _ e wid])
  case (ran own p ctx out w)
  have i: "wf_id ctx = wid" using ran(2) by (simp add: context_ok_def)
  obtain c where c: "dict_get (fw_workflows w) wid = map_option (\<lambda>_. c) (get_workflow d wid)" "context_ok wid c"
      "\<And>k. k \<noteq> wid \<Longrightarrow> dict_get (fw_workflows w) k = get_workflow d k"
    using run_finalizer_workflows [OF assms(1) ran(4)] ran(2,3) i by (auto simp: get_workflow_def)
  have g: "(dict_get (fw_workflows w) k = None) = (get_workflow d k = None)" for k
    using c(1,3) by (cases "k = wid") simp_all
  have "context_ok k x" if "dict_get (fw_workflows w) k = Some x" for k x
    using that c disp_inv_context [OF assms(2)] by (cases "k = wid") auto
  then have "disp_inv (task_body e wid d)"
    using assms(2) task_ok_cong [of "d\<lparr>di_world := w\<rparr>" _ d] g
    unfolding ran(5) disp_inv_def by (simp add: dict_simps) (simp add: task_ok_def)
  moreover have "live (task_body e wid d) k = live d k" for k
    using ran(1) unfolding ran(5) live_def by (simp add: dict_simps)
  ultimately show ?thesis using g c(3) unfolding ran(5) by simp
qed (use assms in simp)

lemma task_conclude_cases:
  obtains (idle) "task_conclude e wid d = d"
  | (stays) "dict_get (di_tasks d) wid = Some (Concluding (Settled False))"
      "task_conclude e wid d = d\<lparr>di_tasks := dict_set wid TaskDone (di_tasks d)\<rparr>"
  | (closes) out w where "dict_get (di_tasks d) wid = Some (Concluding out)" "out \<noteq> Settled False" "fw_workflows w = workflows d"
      "task_conclude e wid d = deregister_workflow e wid (d\<lparr>di_tasks := dict_set wid TaskDone (di_tasks d), di_world := w\<rparr>)"
proof (cases "\<exists>out. dict_get (di_tasks d) wid = Some (Concluding out)")
  case True
  then obtain out where t: "dict_get (di_tasks d) wid = Some (Concluding out)" by blast
  show thesis
  proof (cases out)
    case (Failed err)
    let ?w = "if fe_has_renderer (de_fin e) then snd (render (de_fin e) (CompletionFailure wid err) (di_world d)) else di_world d"
    show thesis by (rule closes [OF t, of ?w]) (simp_all add: Failed task_conclude_def t Let_def)
  next
    case (Settled b)
    show thesis
    proof (cases b)
      case True
      show thesis by (rule closes [OF t, of "di_world d"]) (simp_all add: Settled True task_conclude_def t Let_def)
    qed (use stays t Settled in \<open>simp add: task_conclude_def Let_def\<close>)
  qed
next
  case False
  then have "task_conclude e wid d = d" by (simp add: task_conclude_def split: option.split fin_task.split)
  then show thesis by (rule idle)
qed

lemma task_conclude_inv: "disp_inv d \<Longrightarrow> disp_inv (task_conclude e wid d)"
  by (cases rule: task_conclude_cases [of e wid d])
     (simp_all add: set_task_inv task_ok_def deregister_inv disp_inv_world)

lemma task_dispatch_cases:
  obtains (stays) w where "fw_workflows w = workflows d" "dispatch e msg d = d\<lparr>di_world := w\<rparr>"
  | (forks) p where "complete_valid p" "get_workflow d (cp_workflow_id p) \<noteq> None" "\<not> live d (cp_workflow_id p)"
      "dispatch e msg d = d\<lparr>di_tasks := dict_set (cp_workflow_id p) (Scheduled None p) (di_tasks d)\<rparr>"
  | (closes) wid w where "get_workflow d wid \<noteq> None" "fw_workflows w = workflows d"
      "dispatch e msg d = deregister_workflow e wid (d\<lparr>di_world := w\<rparr>)"
proof (cases msg)
  case (TaskComplete x)
  show thesis
  proof (cases "dispatch e msg d = d")
    case False
    then show thesis
      using TaskComplete forks by (auto simp: handle_task_complete_def load_def split: option.splits if_splits)
  qed (use stays [of "di_world d"] in simp)
next
  case (TaskError x)
  show thesis
  proof (cases "dispatch e msg d = d")
    case False
    then obtain p where p: "get_workflow d (te_workflow_id p) \<noteq> None"
        "dispatch e msg d = deregister_workflow e (te_workflow_id p) (d\<lparr>di_world := stamp_error (de_now e) p
           (if fe_has_renderer (de_fin e)
            then snd (render (de_fin e) (WorkflowErrorItem (te_workflow_id p) (te_error p)) (di_world d)) else di_world d)\<rparr>)"
      using TaskError by (auto simp: handle_task_error_def Let_def split: option.splits)
    show thesis by (rule closes [OF p(1) _ p(2)]) simp
  qed (use stays [of "di_world d"] in simp)
next
  case (TaskProgress x)
  show thesis
  proof (cases "dispatch e msg d = d")
    case False
    then obtain p where p: "load progress_valid x = Some p"
      using TaskProgress by (cases "load progress_valid x") (simp_all add: handle_task_progress_def)
    let ?w = "snd (render (de_fin e) (ProgressItem (pg_workflow_id p)) (di_world d))"
    have "dispatch e msg d = d\<lparr>di_world := ?w\<rparr>"
      using False TaskProgress p by (simp add: handle_task_progress_def split: if_splits)
    then show thesis by (rule stays [rotated]) simp
  qed (use stays [of "di_world d"] in simp)
next
  case (AuditFlush x)
  show thesis
  proof (cases "dispatch e msg d = d")
    case False
    then obtain db where "dispatch e msg d = d\<lparr>di_world := (di_world d)\<lparr>fw_audit := db\<rparr>\<rparr>"
      using AuditFlush by (auto simp: handle_audit_flush_def split: option.splits sum.splits prod.splits)
    then show thesis by (rule stays [rotated]) simp
  qed (use stays [of "di_world d"] in simp)
qed (use stays [of "di_world d"] in simp)

lemma dispatch_inv: "disp_inv d \<Longrightarrow> disp_inv (dispatch e msg d)"
  by (cases rule: task_dispatch_cases [of d e msg])
     (simp_all add: disp_inv_world deregister_inv set_task_inv task_ok_def)

lemma close_inv: "disp_inv d \<Longrightarrow> disp_inv (dispatcher_close d)"
  by (simp add: disp_inv_def dispatcher_close_def get_workflow_def dict_get_def)

lemma start_inv: "disp_inv d \<Longrightarrow> disp_inv (dispatcher_start d)"
  by (simp add: disp_inv_def dispatcher_start_def)

lemma disp_step_inv: "disp_step e d d' \<Longrightarrow> quiet e \<Longrightarrow> disp_inv d \<Longrightarrow> disp_inv d'"
  by (induction rule: disp_step.induct)
     (simp_all add: register_inv context_ok_def start_inv dispatch_inv task_body_inv task_conclude_inv close_inv)

lemma disp_reachable_inv:
  assumes "quiet e" and "(disp_step e)\<^sup>*\<^sup>* (dispatcher_init w) d"
  shows "disp_inv d"
  using assms(2) by (induction rule: rtranclp_induct) (simp_all add: disp_inv_init disp_step_inv [OF _ assms(1)])

section \<open>The lifecycle of a workflow\<close>

text \<open>
  The abstract view: a workflow is closed, active, being finalised, or closed while its
  finalisation still runs.
\<close>

datatype life = Closed | Active | Finalising | ClosedFinalising

definition life_of :: "dispatcher \<Rightarrow> string \<Rightarrow> life" where
  "life_of d wid =
     (if get_workflow d wid \<noteq> None then (if live d wid then Finalising else Active)
      else if live d wid then ClosedFinalising else Closed)"

inductive life_step :: "life \<Rightarrow> life \<Rightarrow> bool" where
  opens: "life_step Closed Active"
| completes: "life_step Active Finalising"
| errs: "life_step Active Closed"
| errs_late: "life_step Finalising ClosedFinalising"
| settles: "life_step Finalising Active"
| ends: "life_step Finalising Closed"
| drains: "life_step ClosedFinalising Closed"

inductive_simps life_step_simps [simp]:
  "life_step Closed x" "life_step Active x" "life_step Finalising x" "life_step ClosedFinalising x"

text \<open>A step that only concerns workflow \<open>wid\<close>, and moves it along an edge of the lifecycle or not at all.\<close>

definition life_edge :: "string \<Rightarrow> dispatcher \<Rightarrow> dispatcher \<Rightarrow> bool" where
  "life_edge wid d d' =
     ((life_of d' wid = life_of d wid \<or> life_step (life_of d wid) (life_of d' wid)) \<and>
      (\<forall>k. k \<noteq> wid \<longrightarrow> get_workflow d' k = get_workflow d k \<and> live d' k = live d k))"

lemma live_set [simp]: "live (d\<lparr>di_tasks := dict_set wid t ts\<rparr>) k = (if k = wid then t \<noteq> TaskDone else live (d\<lparr>di_tasks := ts\<rparr>) k)"
  by (simp add: live_def dict_simps)

lemma body_edge: "quiet e \<Longrightarrow> disp_inv d \<Longrightarrow> life_edge wid d (task_body e wid d)"
  using task_body_inv [of e d wid] by (simp add: life_edge_def life_of_def)

lemma conclude_edge: "life_edge wid d (task_conclude e wid d)"
proof (cases rule: task_conclude_cases [of e wid d])
  case stays
  then have "live d wid" by (simp add: live_def)
  with stays show ?thesis by (simp add: life_edge_def life_of_def)
next
  case (closes out w)
  then have "live d wid" by (simp add: live_def)
  moreover have "get_workflow (d\<lparr>di_tasks := ts, di_world := w\<rparr>) k = get_workflow d k" for ts k
    using closes(3) by (simp add: get_workflow_def)
  ultimately show ?thesis using closes(4) by (simp add: life_edge_def life_of_def)
qed (simp add: life_edge_def life_of_def)

lemma dispatch_edge: "\<exists>wid. life_edge wid d (dispatch e msg d)"
proof (cases rule: task_dispatch_cases [of d e msg])
  case (stays w)
  then show ?thesis by (simp add: life_edge_def life_of_def get_workflow_def)
next
  case (forks p)
  then have "life_edge (cp_workflow_id p) d (dispatch e msg d)" by (simp add: life_edge_def life_of_def)
  then show ?thesis by blast
next
  case (closes wid w)
  have "get_workflow (d\<lparr>di_world := w\<rparr>) k = get_workflow d k" for k using closes(2) by (simp add: get_workflow_def)
  then have "life_edge wid d (dispatch e msg d)" using closes(1,3) by (simp add: life_edge_def life_of_def)
  then show ?thesis by blast
qed

lemma register_edge:
  "get_workflow d (wf_id ctx) = None \<Longrightarrow> dict_get (di_tasks d) (wf_id ctx) = None \<Longrightarrow> life_edge (wf_id ctx) d (register_workflow ctx d)"
  by (simp add: life_edge_def life_of_def live_def register_workflow_def get_workflow_def dict_simps)

section \<open>Sample values\<close>

definition disp_sample_env :: disp_env where
  "disp_sample_env = \<lparr>de_fin = fin_sample_env, de_coordinator = None, de_now = 0, de_uuid = []\<rparr>"

definition disp_sample_start :: dispatcher where
  "disp_sample_start = dispatcher_start (register_workflow fin_context (dispatcher_init fin_sample_world))"

lemma disp_sample_reachable: "(disp_step disp_sample_env)\<^sup>*\<^sup>* (dispatcher_init fin_sample_world) disp_sample_start"
proof -
  have "disp_step disp_sample_env (dispatcher_init fin_sample_world) (register_workflow fin_context (dispatcher_init fin_sample_world))"
    by (rule di_register) (simp_all add: dispatcher_init_def get_workflow_def dict_get_def fin_context_def fin_task_def assign_valid_def
        opt_all_def baseline_valid_def)
  then show ?thesis
    unfolding disp_sample_start_def by (rule rtranclp.rtrancl_into_rtrancl [OF r_into_rtranclp [of "disp_step disp_sample_env"]]) (rule di_start)
qed

lemma disp_sample_get: "get_workflow disp_sample_start ''wf-1'' = Some fin_context" "\<not> live disp_sample_start ''wf-1''" "di_running disp_sample_start"
  by (simp_all add: disp_sample_start_def dispatcher_start_def register_workflow_def dispatcher_init_def get_workflow_def live_def
      fin_context_def dict_set_def dict_get_def)

lemma disp_sample_quiet: "quiet disp_sample_env"
  by (simp add: quiet_def disp_sample_env_def)

text \<open>A finalisation that sends the work back to the sub-agent.\<close>

definition redo_fin_env :: "unit fin_env_scheme" where
  "redo_fin_env = fin_sample_env\<lparr>fe_has_manager := True, fe_has_renderer := False\<rparr>"

definition redo_args :: kwargs where
  "redo_args = [(''prompt'', JStr ''again'')]"

definition redo_coordinator :: coordinator where
  "redo_coordinator = one_tool_coordinator \<lparr>call_id = ''c1'', call_name = ''re_delegate'', call_arguments = ''x''\<rparr> redo_args"

definition redo_env :: disp_env where
  "redo_env = \<lparr>de_fin = redo_fin_env, de_coordinator = Some redo_coordinator, de_now = 0, de_uuid = []\<rparr>"

definition redo_manager :: "nat \<Rightarrow> nat list \<Rightarrow> DelegationManager" where
  "redo_manager p ts = \<lparr>dm_config = \<lparr>max_concurrent = 1, max_spawn_depth = 1, spawn_ready_timeout_str = []\<rparr>, permits = 0,
     spawned = [(''wf-1'', \<lparr>sa_sandbox_id = ''a1'', sa_process = p\<rparr>)], next_process = Suc p, terminated = ts\<rparr>"

definition redo_world :: fin_world where
  "redo_world = fin_sample_world\<lparr>fw_manager := redo_manager 0 [], fw_workflows := [(''wf-1'', fin_context)]\<rparr>"

definition redo_start :: "fin_task option \<Rightarrow> dispatcher" where
  "redo_start t = \<lparr>di_world = redo_world, di_tasks = (case t of None \<Rightarrow> [] | Some t \<Rightarrow> [(''wf-1'', t)]), di_running = True\<rparr>"

definition redo_text :: string where
  "redo_text = ''Re-delegated workflow wf-1 (iteration 1).''"

definition redone :: "fin_world \<Rightarrow> fin_world" where
  "redone w = record_state RE_DELEGATE redo_text (\<lambda>t. t) (w\<lparr>fw_workflows := [(''wf-1'', fin_context\<lparr>wf_task := followup_task ''again'' None None fin_task\<rparr>)],
     session := (session w)\<lparr>fs_task := followup_task ''again'' None None fin_task\<rparr>, fw_manager := redo_manager 1 [0]\<rparr>)"

lemma redo_followup: "assign_valid (followup_task ''again'' None None fin_task)" "ta_workflow_id (followup_task ''again'' None None fin_task) = ''wf-1''"
  "iteration_number (followup_task ''again'' None None fin_task) = 1" "ta_agent_id (followup_task ''again'' None None fin_task) = ''a1''"
  by (simp_all add: followup_task_def fin_task_def assign_valid_def opt_all_def baseline_valid_def or_int_def)

lemma redo_delegate:
  "delegate (fe_deleg redo_fin_env) (followup_task ''again'' None None fin_task) (redo_manager 0 []) = (Delegated ''wf-1'' ''a1'', redo_manager 1 [0])"
  by (simp add: delegate_def redo_manager_def check_spawn_depth_def delegate_enter_def dict_has_def dict_get_def redo_followup
      redo_fin_env_def fin_sample_env_def spawn_agent_def install_agent_def dict_set_def Let_def)

lemma redo_call:
  assumes "fs_task (session w) = fin_task" and "fs_context (session w) = Some ''wf-1''"
    and "fw_workflows w = [(''wf-1'', fin_context)]" and "fw_manager w = redo_manager 0 []"
  shows "call_tool redo_fin_env RE_DELEGATE redo_args (w, sf) = (Inr redo_text, (redone w, sf))"
proof -
  have b: "bind_tool redo_fin_env RE_DELEGATE redo_args = Some (re_delegate redo_fin_env ''again'' None None)"
    by (simp add: bind_tool_def redo_args_def only_keys_def arg_str_def arg_opt_int_def arg_opt_str_def)
  have m: "fe_has_manager redo_fin_env" "fe_has_renderer redo_fin_env = False" by (simp_all add: redo_fin_env_def)
  have u: "update_context (Some ''wf-1'') (followup_task ''again'' None None fin_task) [(''wf-1'', fin_context)] =
      [(''wf-1'', fin_context\<lparr>wf_task := followup_task ''again'' None None fin_task\<rparr>)]"
    by (simp add: update_context_def dict_get_def dict_set_def)
  have r: "re_delegate redo_fin_env ''again'' None None w = (Inr redo_text, redone w)"
    using assms
    by (simp add: re_delegate_def m redo_followup u redo_delegate render_action_result_def redone_def redo_text_def record_state_def
        Let_def int_str_def nat_str_small digit_def)
  show ?thesis by (simp add: call_tool_def b r)
qed

lemma redo_finalize:
  "\<exists>w'. run_finalizer redo_env fin_context fin_complete redo_world = (Settled False, w') \<and>
     fw_workflows w' = [(''wf-1'', fin_context\<lparr>wf_task := followup_task ''again'' None None fin_task\<rparr>)] \<and> fw_manager w' = redo_manager 1 [0]"
proof -
  define w2 where "w2 = fin_start redo_fin_env redo_coordinator fin_context fin_complete redo_world"
  have s: "fs_task (session w2) = fin_task" "fs_context (session w2) = Some ''wf-1''" "st_terminal (fs_state (session w2)) = False"
      "fw_workflows w2 = [(''wf-1'', fin_context)]" "fw_manager w2 = redo_manager 0 []" "fw_audit w2 = None"
    by (simp_all add: w2_def fin_start_def new_session_def fin_context_def redo_world_def record_completion_def fin_sample_world_def)
  have v: "verify_baseline (wf_task fin_context) fin_complete = None"
    by (simp add: verify_baseline_def fin_context_def fin_task_def fin_complete_def)
  have t: "redo_text = CHR ''R'' # tl redo_text" "length redo_text \<le> 8000" by (simp_all add: redo_text_def)
  then have d: "fs_state (session (redone w2)) = \<lparr>st_action = Some RE_DELEGATE, st_message = CHR ''R'' # tl redo_text, st_terminal = False\<rparr>"
    using s(3) by (simp add: redone_def record_state_def)
  have p: "RE_DELEGATE \<in> set FINALIZATION_TOOLS" by (simp add: FINALIZATION_TOOLS_def)
  have "\<exists>r. finalize redo_fin_env redo_coordinator fin_context fin_complete redo_world = (Inr r, redone w2) \<and> \<not> fr_terminal r"
    using finalize_one_tool [OF v s(6) [unfolded w2_def redo_coordinator_def] p _ _ redo_call [OF s(1,2,4,5), unfolded w2_def redo_coordinator_def]
      t(2) d [unfolded w2_def redo_coordinator_def]]
    by (simp add: redo_coordinator_def w2_def)
  then show ?thesis
    by (auto simp: run_finalizer_def redo_env_def redone_def record_state_def)
qed

section \<open>Properties\<close>

text \<open>
  C18: The dispatcher implements the lifecycle of workflows. In every reachable state every
  registered context is filed under its own id with a well-formed assignment, and every
  further step either shuts the dispatcher down or concerns a single workflow, which it
  moves along one edge of the lifecycle (closed to active by registration, active to
  finalising by a completion, finalising to active or closed by the outcome, active to closed
  by an error, and through \<open>ClosedFinalising\<close> when an error arrives during a finalisation) or
  leaves where it is: a finalisation starts only for an active workflow, so no workflow ever
  has two. The hypothesis is that the model's backend does not touch session or registry.
\<close>

theorem dispatcher_refines_lifecycle:
  assumes "quiet e" and "(disp_step e)\<^sup>*\<^sup>* (dispatcher_init w) d" and "disp_step e d d'"
  shows "(\<forall>wid ctx. get_workflow d wid = Some ctx \<longrightarrow> context_ok wid ctx) \<and> (d' = dispatcher_close d \<or> (\<exists>wid. life_edge wid d d'))"
proof
  have i: "disp_inv d" by (rule disp_reachable_inv [OF assms(1,2)])
  then show "\<forall>wid ctx. get_workflow d wid = Some ctx \<longrightarrow> context_ok wid ctx" by (simp add: disp_inv_def)
  show "d' = dispatcher_close d \<or> (\<exists>wid. life_edge wid d d')"
    using assms(3)
  proof cases
    case (di_register ctx)
    then show ?thesis using register_edge by blast
  next
    case di_start
    then have "life_edge [] d d'" by (simp add: life_edge_def life_of_def dispatcher_start_def)
    then show ?thesis by blast
  next
    case (di_message msg)
    then show ?thesis using dispatch_edge by blast
  next
    case (di_body wid)
    then show ?thesis using body_edge [OF assms(1) i] by blast
  next
    case (di_conclude wid)
    then show ?thesis using conclude_edge by blast
  qed simp
qed

theorem dispatcher_refines_lifecycle_witness:
  "\<exists>wid. life_edge wid disp_sample_start (dispatch disp_sample_env (TaskComplete (Some fin_complete)) disp_sample_start) \<and>
     life_of (dispatch disp_sample_env (TaskComplete (Some fin_complete)) disp_sample_start) ''wf-1'' = Finalising"
proof -
  let ?d = "dispatch disp_sample_env (TaskComplete (Some fin_complete)) disp_sample_start"
  have v: "complete_valid fin_complete" "cp_workflow_id fin_complete = ''wf-1''"
    by (simp_all add: fin_complete_def complete_valid_def opt_all_def baseline_valid_def)
  have s: "disp_step disp_sample_env disp_sample_start ?d" by (rule di_message) (simp add: disp_sample_get)
  have l: "life_of ?d ''wf-1'' = Finalising"
    by (simp add: handle_task_complete_def load_def v disp_sample_get life_of_def)
  have r: "di_running ?d" "di_running (dispatcher_close disp_sample_start) = False"
    by (simp_all add: handle_task_complete_def load_def v disp_sample_get dispatcher_close_def)
  then have "?d \<noteq> dispatcher_close disp_sample_start" by metis
  then show ?thesis
    using dispatcher_refines_lifecycle [OF disp_sample_quiet disp_sample_reachable s] l by blast
qed

text \<open>Whom a message is about.\<close>

fun about :: "inbound \<Rightarrow> string option" where
  "about (TaskComplete x) = map_option cp_workflow_id x"
| "about (TaskError x) = map_option te_workflow_id x"
| "about (TaskProgress x) = map_option pg_workflow_id x"
| "about _ = None"

lemma late_message:
  assumes "get_workflow d wid = None" and "about msg = Some wid"
  shows "dispatch e msg d = d"
proof (cases msg)
  case (TaskComplete x)
  with assms show ?thesis by (auto simp: handle_task_complete_def load_def split: option.splits)
next
  case (TaskError x)
  with assms show ?thesis by (auto simp: handle_task_error_def load_def split: option.splits)
next
  case (TaskProgress x)
  with assms show ?thesis by (auto simp: handle_task_progress_def load_def split: option.splits)
qed (use assms in simp_all)

lemma terminate_gone: "dict_get (spawned (terminate_workflow wid m)) wid = None"
  by (simp add: terminate_workflow_def dict_simps split: option.split)

lemma stamp_error_rows:
  assumes "fw_audit w = Some db" and "session_open db"
  shows "\<exists>db'. fw_audit (stamp_error now p w) = Some db' \<and> delegations_table db' =
    map (\<lambda>r. if dr_workflow_id r = te_workflow_id p then r\<lparr>dr_completed_at := Some now, dr_status := ''error'',
       dr_error_kind := Some (kind_value (te_error_kind p)), dr_error_message := Some (te_error p),
       dr_recoverable := Some (if te_recoverable p then 1 else 0)\<rparr> else r) (delegations_table db)"
  using assms by (simp add: stamp_error_def log_delegation_error_def update_delegation_def maybe_checkpoint_def Let_def)


definition sample_task_error :: TaskErrorPayload where
  "sample_task_error = \<lparr>te_workflow_id = ''wf-1'', te_error = ''boom'', te_error_kind = TOOL_FAILURE, te_recoverable = False,
     te_notes_path = None, te_traceback = None\<rparr>"


text \<open>
  The result of an iteration can be lost. In this run the finalisation of the first
  result re-delegates the work, so iteration 1 is running; its completion arrives while the
  finalisation task is not done yet and is dropped as a duplicate. When the task ends, the
  workflow is still registered and its agent still has its slot, but no finalisation is in
  flight and nothing will start one.
\<close>

theorem iteration_result_lost:
  "\<exists>d1 d2 d3. d1 = dispatch redo_env (TaskComplete (Some fin_complete)) (redo_start None) \<and> d2 = task_body redo_env ''wf-1'' d1 \<and>
     map_option (\<lambda>c. iteration_number (wf_task c)) (get_workflow d2 ''wf-1'') = Some 1 \<and>
     dispatch redo_env (TaskComplete (Some fin_complete)) d2 = d2 \<and> d3 = task_conclude redo_env ''wf-1'' d2 \<and>
     life_of d3 ''wf-1'' = Active \<and> in_flight_finalizations d3 = 0 \<and>
     dict_get (spawned (fw_manager (di_world d3))) ''wf-1'' = Some \<lparr>sa_sandbox_id = ''a1'', sa_process = 1\<rparr>"
proof -
  have v: "complete_valid fin_complete" "cp_workflow_id fin_complete = ''wf-1''"
    by (simp_all add: fin_complete_def complete_valid_def opt_all_def baseline_valid_def)
  obtain w where w: "run_finalizer redo_env fin_context fin_complete redo_world = (Settled False, w)"
      "fw_workflows w = [(''wf-1'', fin_context\<lparr>wf_task := followup_task ''again'' None None fin_task\<rparr>)]" "fw_manager w = redo_manager 1 [0]"
    using redo_finalize by blast
  have g: "get_workflow (redo_start t) ''wf-1'' = Some fin_context" for t
    by (simp add: get_workflow_def redo_start_def redo_world_def dict_get_def)
  have d1: "dispatch redo_env (TaskComplete (Some fin_complete)) (redo_start None) = redo_start (Some (Scheduled None fin_complete))"
    by (simp add: handle_task_complete_def load_def v g live_def redo_start_def dict_get_def dict_set_def)
      (simp add: get_workflow_def redo_world_def dict_get_def dict_set_def v(2))
  let ?d2 = "\<lparr>di_world = w, di_tasks = [(''wf-1'', Concluding (Settled False))], di_running = True\<rparr>"
  have d2: "task_body redo_env ''wf-1'' (redo_start (Some (Scheduled None fin_complete))) = ?d2"
    using g [of "Some (Scheduled None fin_complete)"] w(1) by (simp add: task_body_def redo_start_def dict_get_def dict_set_def)
  have g2: "get_workflow \<lparr>di_world = w, di_tasks = ts, di_running = b\<rparr> ''wf-1'' = Some (fin_context\<lparr>wf_task := followup_task ''again'' None None fin_task\<rparr>)"
    for ts b using w(2) by (simp add: get_workflow_def dict_get_def)
  have dropped: "handle_task_complete (Some fin_complete) ?d2 = ?d2"
    by (simp add: handle_task_complete_def load_def v g2 live_def dict_get_def)
  have d3: "task_conclude redo_env ''wf-1'' ?d2 = \<lparr>di_world = w, di_tasks = [(''wf-1'', TaskDone)], di_running = True\<rparr>"
    by (simp add: task_conclude_def dict_get_def dict_set_def)
  show ?thesis
    unfolding d1 d2
    by (simp add: d2 d3 g2 redo_followup dropped life_of_def live_def in_flight_finalizations_def dict_get_def dict_values_def w(3) redo_manager_def)
qed

end
