(* ===== verification/Requests.thy ===== *)
theory Requests
  imports Prelude
begin

text \<open>
  The platform-neutral requests and responses between connectors and the orchestrator
  (\<^verbatim>\<open>models/types.py\<close>). Raw platform events and action metadata, which only connectors
  read, are left out of the request.
\<close>

datatype ErrorCategory = AUTH_ERROR | RATE_LIMIT | TIMEOUT | MODEL_ERROR | CONNECTOR_ERROR | UNKNOWN

fun category_value :: "ErrorCategory \<Rightarrow> string" where
  "category_value AUTH_ERROR = ''auth_error''"
| "category_value RATE_LIMIT = ''rate_limit''"
| "category_value TIMEOUT = ''timeout''"
| "category_value MODEL_ERROR = ''model_error''"
| "category_value CONNECTOR_ERROR = ''connector_error''"
| "category_value UNKNOWN = ''unknown''"

datatype ActionId = APPROVE_WRITE | DENY_WRITE | FINALIZATION_PUSH_PR | FINALIZATION_ITERATE | FINALIZATION_DISCARD

fun action_id_value :: "ActionId \<Rightarrow> string" where
  "action_id_value APPROVE_WRITE = ''approve_write''"
| "action_id_value DENY_WRITE = ''deny_write''"
| "action_id_value FINALIZATION_PUSH_PR = ''finalization_push_pr''"
| "action_id_value FINALIZATION_ITERATE = ''finalization_iterate''"
| "action_id_value FINALIZATION_DISCARD = ''finalization_discard''"

record ActionPayload =
  ap_action_id :: string
  ap_value :: string

record NormalizedRequest =
  nr_text :: string
  nr_user_id :: string
  nr_channel_id :: string
  nr_source :: string
  nr_request_id :: string
  nr_thread_ts :: "string option"
  nr_action :: "ActionPayload option"

record ActionButton =
  ab_label :: string
  ab_action_id :: string
  ab_value :: string
  ab_style :: "string option"

record FormField =
  ff_label :: string
  ff_field_id :: string
  ff_type :: string
  ff_options :: "string list option"
  ff_required :: bool

datatype ResponseBlock =
    TextBlock string string
  | ActionBlock "ActionButton list"
  | ConfirmBlock string string string string string
  | FormBlock string "FormField list" string

record RichResponse =
  ri_channel_id :: string
  ri_thread_ts :: "string option"
  ri_blocks :: "ResponseBlock list"
  ri_error_category :: "ErrorCategory option"
  suppress_post :: bool

text \<open>\<open>TextBlock(text)\<close> with its default style, and a response with the default flags.\<close>

definition markdown :: "string \<Rightarrow> ResponseBlock" where
  "markdown txt = TextBlock txt ''markdown''"

definition reply :: "NormalizedRequest \<Rightarrow> ResponseBlock list \<Rightarrow> RichResponse" where
  "reply req blocks = \<lparr>ri_channel_id = nr_channel_id req, ri_thread_ts = nr_thread_ts req, ri_blocks = blocks,
     ri_error_category = None, suppress_post = False\<rparr>"

text \<open>\<open>request.thread_ts or request.request_id\<close>.\<close>

definition thread_key :: "NormalizedRequest \<Rightarrow> string" where
  "thread_key req = or_str (nr_thread_ts req) (nr_request_id req)"

lemma action_id_value_inj: "action_id_value a = action_id_value b \<longleftrightarrow> a = b"
  by (cases a; cases b) simp_all

end
