(* ===== verification/FinalizationActions.thy ===== *)
theory FinalizationActions
  imports Dispatcher Requests
begin

text \<open>
  Buttons of finalised work (\<^verbatim>\<open>orchestrator/finalization_actions.py\<close>): Push & PR, Iterate and
  Discard, and the text reply that follows an Iterate click.

  A handler runs as one step on the dispatcher's state. A left result is an exception that
  escapes the handler: only the completion stub, validated before the handler's \<open>try\<close>,
  can raise one.
\<close>

section \<open>State\<close>

text \<open>The context of the request being handled (\<^verbatim>\<open>orchestrator/request_context.py\<close>).\<close>

record RequestContext =
  rc_request_id :: string
  rc_channel_id :: "string option"
  rc_thread_ts :: "string option"
  rc_source :: string

record action_state =
  ac_dispatcher :: dispatcher
  ac_pending :: "(string, string) dict"
  ac_request :: "RequestContext option"

definition set_request_context :: "RequestContext option \<Rightarrow> action_state \<Rightarrow> action_state" where
  "set_request_context c s = s\<lparr>ac_request := c\<rparr>"

definition COMPLETION_SUMMARY_PROMPT_LIMIT :: nat where "COMPLETION_SUMMARY_PROMPT_LIMIT = 120"
definition PR_TITLE_PROMPT_LIMIT :: nat where "PR_TITLE_PROMPT_LIMIT = 80"

definition is_finalization_action :: "NormalizedRequest \<Rightarrow> bool" where
  "is_finalization_action req = (case nr_action req of None \<Rightarrow> False
   | Some a \<Rightarrow> ap_action_id a \<in> set (map action_id_value [FINALIZATION_PUSH_PR, FINALIZATION_ITERATE, FINALIZATION_DISCARD]))"

definition text_reply :: "NormalizedRequest \<Rightarrow> string \<Rightarrow> RichResponse" where
  "text_reply req txt = reply req [markdown txt]"

definition completion_stub :: "WorkflowContext \<Rightarrow> string \<Rightarrow> TaskCompletePayload" where
  "completion_stub ctx summary = \<lparr>cp_workflow_id = wf_id ctx, cp_summary = summary, cp_diff = [],
     cp_baseline = ta_baseline (wf_task ctx), cp_files_changed = [], cp_notes_path = None, cp_git_commit_sha = None,
     cp_tool_calls_made = 0, cp_rounds_used = 0, cp_model_used = None, cp_suggested_next_step = None\<rparr>"

text \<open>A session made for a click; the operation runs on the dispatcher's world.\<close>

definition in_session ::
  "WorkflowContext \<Rightarrow> TaskCompletePayload \<Rightarrow> (fin_world \<Rightarrow> (string + string) \<times> fin_world) \<Rightarrow> dispatcher \<Rightarrow> (string + string) \<times> dispatcher" where
  "in_session ctx stub f d =
     (case f ((di_world d)\<lparr>session := new_session (wf_task ctx) stub (Some (wf_id ctx))\<rparr>) of
        (r, w) \<Rightarrow> (r, d\<lparr>di_world := w\<rparr>))"

definition session_terminal :: "dispatcher \<Rightarrow> bool" where
  "session_terminal d = st_terminal (fs_state (session (di_world d)))"

section \<open>The handlers\<close>

text \<open>Push & PR and Discard: run the tool, deregister when it ended the workflow.\<close>

definition finish_click ::
  "disp_env \<Rightarrow> string \<Rightarrow> NormalizedRequest \<Rightarrow> WorkflowContext \<Rightarrow> (string + string) \<times> dispatcher \<Rightarrow> RichResponse \<times> dispatcher" where
  "finish_click e failure req ctx x = (case x of
     (Inl err, d) \<Rightarrow> (text_reply req (failure @ err), d)
   | (Inr result, d) \<Rightarrow> (text_reply req result, if session_terminal d then deregister_workflow e (wf_id ctx) d else d))"

definition handle_push_pr :: "disp_env \<Rightarrow> NormalizedRequest \<Rightarrow> WorkflowContext \<Rightarrow> dispatcher \<Rightarrow> (string + RichResponse) \<times> dispatcher" where
  "handle_push_pr e req ctx d =
     (let stub = completion_stub ctx (''Finalize '' @ take COMPLETION_SUMMARY_PROMPT_LIMIT (ta_prompt (wf_task ctx))) in
      if \<not> complete_valid stub then (Inl [], d)
      else case finish_click e ''Push & PR failed: '' req ctx
          (in_session ctx stub (push_and_create_pr (de_fin e) (''finalize/'' @ wf_id ctx)
             (take PR_TITLE_PROMPT_LIMIT (ta_prompt (wf_task ctx))) [] DEFAULT_REMOTE) d) of
        (resp, d') \<Rightarrow> (Inr resp, d'))"

definition handle_discard :: "disp_env \<Rightarrow> NormalizedRequest \<Rightarrow> WorkflowContext \<Rightarrow> dispatcher \<Rightarrow> (string + RichResponse) \<times> dispatcher" where
  "handle_discard e req ctx d =
     (let stub = completion_stub ctx ''Discarding workflow per user request.'' in
      if \<not> complete_valid stub then (Inl [], d)
      else case finish_click e ''Discard failed: '' req ctx (in_session ctx stub (discard_work (de_fin e) ''Discarded by user'') d) of
        (resp, d') \<Rightarrow> (Inr resp, d'))"

definition handle_iterate :: "NormalizedRequest \<Rightarrow> WorkflowContext \<Rightarrow> action_state \<Rightarrow> RichResponse \<times> action_state" where
  "handle_iterate req ctx s =
     (text_reply req (''OK '' @ em_dash @ '' please reply in this thread with the changes you'' @ [CHR 0x27] @ ''d like the '' @
        ''sub-agent to make. Your next message becomes the iteration prompt.''),
      s\<lparr>ac_pending := dict_set (thread_key req) (wf_id ctx) (ac_pending s)\<rparr>)"

definition handle_action :: "disp_env \<Rightarrow> NormalizedRequest \<Rightarrow> action_state \<Rightarrow> (string + RichResponse) \<times> action_state" where
  "handle_action e req s = (case nr_action req of
     None \<Rightarrow> (Inr (text_reply req ''No finalisation action found.''), s)
   | Some a \<Rightarrow>
      (case get_workflow (ac_dispatcher s) (ap_value a) of
         None \<Rightarrow> (Inr (text_reply req (''Workflow `'' @ ap_value a @ ''` is no longer active '' @
             ''(probably already finalised or aged out).'')), s)
       | Some ctx \<Rightarrow>
          if ap_action_id a = action_id_value FINALIZATION_PUSH_PR then
            (case handle_push_pr e req ctx (ac_dispatcher s) of (r, d) \<Rightarrow> (r, s\<lparr>ac_dispatcher := d\<rparr>))
          else if ap_action_id a = action_id_value FINALIZATION_DISCARD then
            (case handle_discard e req ctx (ac_dispatcher s) of (r, d) \<Rightarrow> (r, s\<lparr>ac_dispatcher := d\<rparr>))
          else if ap_action_id a = action_id_value FINALIZATION_ITERATE then
            (case handle_iterate req ctx s of (r, s') \<Rightarrow> (Inr r, s'))
          else (Inr (text_reply req (''Unknown finalisation action `'' @ ap_action_id a @ ''`.'')), s)))"

definition is_pending_iteration :: "action_state \<Rightarrow> string \<Rightarrow> bool" where
  "is_pending_iteration s k = dict_has (ac_pending s) k"

definition consume_iteration_feedback :: "disp_env \<Rightarrow> NormalizedRequest \<Rightarrow> string \<Rightarrow> action_state \<Rightarrow> (string + RichResponse) \<times> action_state" where
  "consume_iteration_feedback e req k s = (case dict_get (ac_pending s) k of
     None \<Rightarrow> (Inr (text_reply req ''No pending iteration; treating this as a fresh request.''), s)
   | Some wid \<Rightarrow>
      (let s1 = s\<lparr>ac_pending := dict_pop k (ac_pending s)\<rparr> in
       case get_workflow (ac_dispatcher s1) wid of
         None \<Rightarrow> (Inr (text_reply req (''Workflow `'' @ wid @ ''` is no longer active.'')), s1)
       | Some ctx \<Rightarrow>
          (let stub = completion_stub ctx (''Iterating on workflow '' @ wf_id ctx @ '' per user feedback.'') in
           if \<not> complete_valid stub then (Inl [], s1)
           else case in_session ctx stub (re_delegate (de_fin e) (nr_text req) None None) (ac_dispatcher s1) of
                  (Inl err, d) \<Rightarrow> (Inr (text_reply req (''Re-delegation failed: '' @ err)), s1\<lparr>ac_dispatcher := d\<rparr>)
                | (Inr result, d) \<Rightarrow> (Inr (text_reply req result), s1\<lparr>ac_dispatcher := d\<rparr>))))"

section \<open>Lemmas\<close>

text \<open>A session opened for a click starts inside the workflow.\<close>

lemma click_fin_inv: "fin_inv e ctx (effects w) (w\<lparr>session := new_session (wf_task ctx) stub (Some (wf_id ctx))\<rparr>)"
  by (simp add: fin_inv_def new_session_def same_pins_def)

lemma click_context_inv:
  "assign_valid (wf_task ctx) \<Longrightarrow> dict_get (fw_workflows w) (wf_id ctx) = Some ctx \<Longrightarrow>
     context_inv ctx (fw_workflows w) (w\<lparr>session := new_session (wf_task ctx) stub (Some (wf_id ctx))\<rparr>)"
  by (simp add: context_inv_def new_session_def same_pins_def)

lemma deregister_effects [simp]: "effects (di_world (deregister_workflow e wid d)) = effects (di_world d)"
  by (simp add: deregister_workflow_def Let_def)

text \<open>What a click's session does to the dispatcher.\<close>

definition click_ok :: "disp_env \<Rightarrow> WorkflowContext \<Rightarrow> dispatcher \<Rightarrow> dispatcher \<Rightarrow> bool" where
  "click_ok e ctx d d' = (ext (de_fin e) ctx (effects (di_world d)) (effects (di_world d')) \<and> di_tasks d' = di_tasks d \<and>
     get_workflow d (wf_id ctx) = Some ctx \<and> (\<forall>k. k \<noteq> wf_id ctx \<longrightarrow> get_workflow d' k = get_workflow d k) \<and>
     (\<exists>t. get_workflow d' (wf_id ctx) = Some (ctx\<lparr>wf_task := t\<rparr>) \<and> assign_valid t \<and> same_pins (wf_task ctx) t))"

lemma in_session_ok:
  assumes "get_workflow d (wf_id ctx) = Some ctx" and "assign_valid (wf_task ctx)" and "in_session ctx stub f d = (r, d')"
    and "\<And>w r w'. fin_inv (de_fin e) ctx (effects (di_world d)) w \<Longrightarrow> f w = (r, w') \<Longrightarrow> fin_inv (de_fin e) ctx (effects (di_world d)) w'"
    and "\<And>w r w'. context_inv ctx (workflows d) w \<Longrightarrow> f w = (r, w') \<Longrightarrow> context_inv ctx (workflows d) w'"
  shows "click_ok e ctx d d'"
proof -
  let ?w = "(di_world d)\<lparr>session := new_session (wf_task ctx) stub (Some (wf_id ctx))\<rparr>"
  obtain w where w: "f ?w = (r, w)" "d' = d\<lparr>di_world := w\<rparr>"
    using assms(3) by (auto simp: in_session_def split: prod.splits)
  have "fin_inv (de_fin e) ctx (effects (di_world d)) w" using assms(4) [OF click_fin_inv w(1)] .
  moreover have "context_inv ctx (workflows d) w"
    using assms(5) [OF click_context_inv w(1)] assms(1,2) by (simp add: get_workflow_def)
  ultimately show ?thesis
    using assms(1) by (auto simp: click_ok_def w(2) fin_inv_def context_inv_def Let_def get_workflow_def)
qed

lemma context_inv_tools:
  "context_inv ctx d w \<Longrightarrow> push_and_create_pr e b t bd rm w = (r, w') \<Longrightarrow> context_inv ctx d w'"
  "context_inv ctx d w \<Longrightarrow> discard_work e why w = (r, w') \<Longrightarrow> context_inv ctx d w'"
  using context_inv_same same_context_pr same_context_tools(3) by blast+

lemma stub_valid:
  "context_ok wid ctx \<Longrightarrow> s \<noteq> [] \<Longrightarrow> complete_valid (completion_stub ctx s)"
  by (auto simp: context_ok_def complete_valid_def completion_stub_def assign_valid_def)

text \<open>A tool ends the workflow exactly when its message is not an error.\<close>

lemma pr_terminal:
  assumes "push_and_create_pr e b t bd rm w = (Inr msg, w')"
  shows "st_terminal (fs_state (session w')) = (\<not> starts_with msg ERROR_PREFIX)"
  using assms by (auto simp: push_and_create_pr_def record_state_def Let_def split: prod.splits if_splits sum.splits gh_exn.splits)

lemma discard_terminal:
  assumes "discard_work e why w = (Inr msg, w')" and "\<not> st_terminal (fs_state (session w))" and "\<not> starts_with why ERROR_PREFIX" and "why \<noteq> []"
  shows "st_terminal (fs_state (session w')) = (\<not> starts_with msg ERROR_PREFIX)"
proof -
  have s: "fs_state (session (render_action_result e DISCARD_WORK m w)) = fs_state (session w)" for m
    by (simp add: render_action_result_def render_def split: option.split)
  have "starts_with (ERROR_PREFIX @ x) ERROR_PREFIX" for x by (simp add: ERROR_PREFIX_def)
  then show ?thesis
    using assms s by (auto simp: discard_work_def record_state_def Let_def split: option.splits if_splits)
qed

text \<open>After a click the workflow is gone exactly when the tool succeeded; nothing else is.\<close>

definition closed_if :: "disp_env \<Rightarrow> WorkflowContext \<Rightarrow> bool \<Rightarrow> dispatcher \<Rightarrow> dispatcher \<Rightarrow> bool" where
  "closed_if e ctx done d d' = (ext (de_fin e) ctx (effects (di_world d)) (effects (di_world d')) \<and>
     (get_workflow d' (wf_id ctx) = None) = done \<and> (\<forall>k. k \<noteq> wf_id ctx \<longrightarrow> get_workflow d' k = get_workflow d k))"

lemma finish_click_closed:
  assumes "click_ok e ctx d d1"
  shows "closed_if e ctx (\<not> isl r \<and> session_terminal d1) d (snd (finish_click e failure req ctx (r, d1)))"
proof -
  from assms obtain t where "get_workflow d1 (wf_id ctx) = Some (ctx\<lparr>wf_task := t\<rparr>)" by (auto simp: click_ok_def)
  with assms show ?thesis by (cases r) (simp_all add: finish_click_def closed_if_def click_ok_def)
qed

lemma click_inv:
  assumes "click_ok e ctx d d1" and "disp_inv d"
  shows "disp_inv d1"
proof -
  obtain t where t: "get_workflow d1 (wf_id ctx) = Some (ctx\<lparr>wf_task := t\<rparr>)" "assign_valid t" "same_pins (wf_task ctx) t"
    using assms(1) by (auto simp: click_ok_def)
  have c: "get_workflow d (wf_id ctx) = Some ctx" "di_tasks d1 = di_tasks d"
      and o: "\<And>k. k \<noteq> wf_id ctx \<Longrightarrow> get_workflow d1 k = get_workflow d k"
    using assms(1) by (simp_all add: click_ok_def)
  have "context_ok (wf_id ctx) (ctx\<lparr>wf_task := t\<rparr>)"
    using disp_inv_context [OF assms(2) c(1)] t(2,3) by (simp add: context_ok_def same_pins_def)
  then have "context_ok k x" if "get_workflow d1 k = Some x" for k x
    using that t(1) o [of k] disp_inv_context [OF assms(2), of k x] by (cases "k = wf_id ctx") simp_all
  moreover have "(get_workflow d1 k = None) = (get_workflow d k = None)" for k
    using t(1) c(1) o [of k] by (cases "k = wf_id ctx") simp_all
  then have "task_ok d1 k x" if "dict_get (di_tasks d) k = Some x" for k x
    using task_ok_cong [of d1 k d x] disp_inv_task [OF assms(2) that] by simp
  ultimately show ?thesis by (simp add: disp_inv_def c(2))
qed

lemma finish_click_inv: "click_ok e ctx d d1 \<Longrightarrow> disp_inv d \<Longrightarrow> disp_inv (snd (finish_click e failure req ctx (r, d1)))"
  using click_inv by (cases r) (auto simp: finish_click_def deregister_inv)

definition failed_reply :: "string \<Rightarrow> (string + string) \<Rightarrow> string" where
  "failed_reply failure r = (case r of Inl err \<Rightarrow> failure @ err | Inr msg \<Rightarrow> msg)"

definition tool_succeeded :: "string + string \<Rightarrow> bool" where
  "tool_succeeded r = (case r of Inl err \<Rightarrow> False | Inr msg \<Rightarrow> \<not> starts_with msg ERROR_PREFIX)"

lemma push_click:
  assumes "context_ok (wf_id ctx) ctx" and "get_workflow d (wf_id ctx) = Some ctx" and "handle_push_pr e req ctx d = (r, d')"
  shows "\<exists>res. r = Inr (text_reply req (failed_reply ''Push & PR failed: '' res)) \<and> closed_if e ctx (tool_succeeded res) d d' \<and>
    (disp_inv d \<longrightarrow> disp_inv d')"
proof -
  let ?stub = "completion_stub ctx (''Finalize '' @ take COMPLETION_SUMMARY_PROMPT_LIMIT (ta_prompt (wf_task ctx)))"
  let ?f = "push_and_create_pr (de_fin e) (''finalize/'' @ wf_id ctx) (take PR_TITLE_PROMPT_LIMIT (ta_prompt (wf_task ctx))) [] DEFAULT_REMOTE"
  obtain res d1 where i: "in_session ctx ?stub ?f d = (res, d1)" by fastforce
  have v: "assign_valid (wf_task ctx)" using assms(1) by (simp add: context_ok_def)
  have ok: "click_ok e ctx d d1"
    by (rule in_session_ok [OF assms(2) v i]) (rule pr_fin_inv context_inv_tools(1), assumption+)+
  have t: "session_terminal d1 = (\<not> starts_with msg ERROR_PREFIX)" if "res = Inr msg" for msg
    using i that by (auto simp: in_session_def session_terminal_def pr_terminal split: prod.splits)
  have p: "(\<not> isl res \<and> session_terminal d1) = tool_succeeded res"
    using t by (cases res) (simp_all add: tool_succeeded_def)
  let ?c = "finish_click e ''Push & PR failed: '' req ctx (res, d1)"
  have f: "fst ?c = text_reply req (failed_reply ''Push & PR failed: '' res)"
    by (cases res) (simp_all add: finish_click_def failed_reply_def)
  have h: "handle_push_pr e req ctx d = (Inr (fst ?c), snd ?c)"
    unfolding handle_push_pr_def Let_def i by (cases ?c) (simp add: stub_valid [OF assms(1)])
  show ?thesis
    using assms(3) finish_click_closed [OF ok, of res "''Push & PR failed: ''" req] finish_click_inv [OF ok] f
    unfolding p h by auto
qed

lemma discard_click:
  assumes "context_ok (wf_id ctx) ctx" and "get_workflow d (wf_id ctx) = Some ctx" and "handle_discard e req ctx d = (r, d')"
  shows "\<exists>res. r = Inr (text_reply req (failed_reply ''Discard failed: '' res)) \<and> closed_if e ctx (tool_succeeded res) d d' \<and>
    (disp_inv d \<longrightarrow> disp_inv d')"
proof -
  let ?stub = "completion_stub ctx ''Discarding workflow per user request.''"
  let ?f = "discard_work (de_fin e) ''Discarded by user''"
  obtain res d1 where i: "in_session ctx ?stub ?f d = (res, d1)" by fastforce
  have v: "assign_valid (wf_task ctx)" using assms(1) by (simp add: context_ok_def)
  have ok: "click_ok e ctx d d1"
    by (rule in_session_ok [OF assms(2) v i]) (rule discard_fin_inv context_inv_tools(2), assumption+)+
  have n: "\<not> starts_with ''Discarded by user'' ERROR_PREFIX" by (simp add: ERROR_PREFIX_def)
  have t: "session_terminal d1 = (\<not> starts_with msg ERROR_PREFIX)" if "res = Inr msg" for msg
    using i that n by (auto simp: in_session_def session_terminal_def new_session_def discard_terminal split: prod.splits)
  have p: "(\<not> isl res \<and> session_terminal d1) = tool_succeeded res"
    using t by (cases res) (simp_all add: tool_succeeded_def)
  let ?c = "finish_click e ''Discard failed: '' req ctx (res, d1)"
  have f: "fst ?c = text_reply req (failed_reply ''Discard failed: '' res)"
    by (cases res) (simp_all add: finish_click_def failed_reply_def)
  have h: "handle_discard e req ctx d = (Inr (fst ?c), snd ?c)"
    unfolding handle_discard_def Let_def i by (cases ?c) (simp add: stub_valid [OF assms(1)])
  show ?thesis
    using assms(3) finish_click_closed [OF ok, of res "''Discard failed: ''" req] finish_click_inv [OF ok] f
    unfolding p h by auto
qed

section \<open>The dispatcher with its buttons\<close>

inductive act_step :: "disp_env \<Rightarrow> action_state \<Rightarrow> action_state \<Rightarrow> bool" for e where
  as_dispatch: "disp_step e (ac_dispatcher s) d \<Longrightarrow> act_step e s (s\<lparr>ac_dispatcher := d\<rparr>)"
| as_click: "handle_action e req s = (r, s') \<Longrightarrow> act_step e s s'"
| as_reply: "consume_iteration_feedback e req k s = (r, s') \<Longrightarrow> act_step e s s'"

definition action_init :: "fin_world \<Rightarrow> action_state" where
  "action_init w = \<lparr>ac_dispatcher = dispatcher_init w, ac_pending = [], ac_request = None\<rparr>"

lemma handle_action_cases:
  assumes "handle_action e req s = (r, s')"
  obtains (unchanged) "s' = s" "\<forall>a. nr_action req = Some a \<longrightarrow> get_workflow (ac_dispatcher s) (ap_value a) \<noteq> None \<longrightarrow>
      ap_action_id a \<notin> {''finalization_push_pr'', ''finalization_discard''}"
  | (push) a ctx d where "nr_action req = Some a" "ap_action_id a = ''finalization_push_pr''" "get_workflow (ac_dispatcher s) (ap_value a) = Some ctx"
      "handle_push_pr e req ctx (ac_dispatcher s) = (r, d)" "s' = s\<lparr>ac_dispatcher := d\<rparr>"
  | (discard) a ctx d where "nr_action req = Some a" "ap_action_id a = ''finalization_discard''" "get_workflow (ac_dispatcher s) (ap_value a) = Some ctx"
      "handle_discard e req ctx (ac_dispatcher s) = (r, d)" "s' = s\<lparr>ac_dispatcher := d\<rparr>"
  | (iterate) a ctx where "nr_action req = Some a" "ap_action_id a = ''finalization_iterate''" "get_workflow (ac_dispatcher s) (ap_value a) = Some ctx"
      "s' = s\<lparr>ac_pending := dict_set (thread_key req) (wf_id ctx) (ac_pending s)\<rparr>"
proof (cases "nr_action req")
  case None
  then show thesis using assms unchanged by (simp add: handle_action_def)
next
  case a: (Some a)
  show thesis
  proof (cases "get_workflow (ac_dispatcher s) (ap_value a)")
    case None
    then show thesis using assms a unchanged by (simp add: handle_action_def)
  next
    case ctx: (Some ctx)
    consider "ap_action_id a = ''finalization_push_pr''" | "ap_action_id a = ''finalization_discard''"
      | "ap_action_id a = ''finalization_iterate''"
      | "ap_action_id a \<noteq> ''finalization_push_pr''" "ap_action_id a \<noteq> ''finalization_discard''" "ap_action_id a \<noteq> ''finalization_iterate''"
      by blast
    then show thesis
    proof cases
      case 1
      obtain r1 d where "handle_push_pr e req ctx (ac_dispatcher s) = (r1, d)" by fastforce
      then show thesis using assms a ctx 1 push [OF a 1 ctx] by (simp add: handle_action_def)
    next
      case 2
      obtain r1 d where "handle_discard e req ctx (ac_dispatcher s) = (r1, d)" by fastforce
      then show thesis using assms a ctx 2 discard [OF a 2 ctx] by (simp add: handle_action_def)
    next
      case 3
      then show thesis using assms a ctx iterate [OF a 3 ctx] by (simp add: handle_action_def handle_iterate_def)
    next
      case 4
      then show thesis using assms a ctx unchanged by (simp add: handle_action_def)
    qed
  qed
qed

text \<open>Clicks and replies answer with one text block, unless the stub's validation raises.\<close>

definition replies :: "NormalizedRequest \<Rightarrow> string + RichResponse \<Rightarrow> bool" where
  "replies req r = (\<exists>txt. r = Inr (text_reply req txt) \<or> r = Inl txt)"

lemma repliesI [intro]: "replies req (Inr (text_reply req txt))" "replies req (Inl txt)"
  by (auto simp: replies_def)

lemma finish_click_reply: "replies req (Inr (fst (finish_click e failure req ctx x)))"
  by (cases x; cases "fst x") (auto simp: finish_click_def)

lemma click_replies: "replies req (fst (handle_push_pr e req ctx d))" "replies req (fst (handle_discard e req ctx d))"
  unfolding handle_push_pr_def handle_discard_def Let_def
  by (simp_all add: case_prod_beta finish_click_reply repliesI)

lemma handle_action_reply:
  assumes "handle_action e req s = (r, s')"
  shows "replies req r"
proof -
  have "replies req (fst (handle_action e req s))"
  proof (cases "nr_action req")
    case None
    then show ?thesis by (simp add: handle_action_def repliesI)
  next
    case (Some a)
    then show ?thesis
      by (cases "get_workflow (ac_dispatcher s) (ap_value a)")
         (simp_all only: handle_action_def option.case fst_conv repliesI if_distrib [of fst] case_prod_beta click_replies
           handle_iterate_def simp_thms if_split)
  qed
  then show ?thesis by (simp add: assms)
qed

lemma feedback_reply:
  assumes "consume_iteration_feedback e req k s = (r, s')"
  shows "replies req r"
  using assms unfolding consume_iteration_feedback_def Let_def
  by (auto split: option.splits prod.splits if_splits sum.splits)

lemma handle_action_inv:
  assumes "handle_action e req s = (r, s')" and "disp_inv (ac_dispatcher s)"
  shows "disp_inv (ac_dispatcher s')"
  using assms(1)
proof (cases rule: handle_action_cases)
  case (push a ctx d)
  have k: "context_ok (wf_id ctx) ctx" "get_workflow (ac_dispatcher s) (wf_id ctx) = Some ctx"
    using disp_inv_context [OF assms(2) push(3)] push(3) by (simp_all add: context_ok_def)
  show ?thesis using push_click [OF k push(4)] assms(2) push(5) by auto
next
  case (discard a ctx d)
  have k: "context_ok (wf_id ctx) ctx" "get_workflow (ac_dispatcher s) (wf_id ctx) = Some ctx"
    using disp_inv_context [OF assms(2) discard(3)] discard(3) by (simp_all add: context_ok_def)
  show ?thesis using discard_click [OF k discard(4)] assms(2) discard(5) by auto
qed (use assms(2) in simp_all)

lemma reply_ok:
  assumes "consume_iteration_feedback e req k s = (r, s')" and "disp_inv (ac_dispatcher s)"
  obtains (same) "ac_dispatcher s' = ac_dispatcher s"
  | (sent) ctx where "dict_get (ac_pending s) k = Some (wf_id ctx)" "click_ok e ctx (ac_dispatcher s) (ac_dispatcher s')"
proof (cases "ac_dispatcher s' = ac_dispatcher s")
  case False
  then obtain wid ctx where w: "dict_get (ac_pending s) k = Some wid" "get_workflow (ac_dispatcher s) wid = Some ctx"
    using assms(1) by (auto simp: consume_iteration_feedback_def Let_def split: option.splits)
  then have i: "wf_id ctx = wid" "assign_valid (wf_task ctx)" "get_workflow (ac_dispatcher s) (wf_id ctx) = Some ctx"
    using disp_inv_context [OF assms(2) w(2)] by (simp_all add: context_ok_def)
  obtain res d where x: "in_session ctx (completion_stub ctx (''Iterating on workflow '' @ wf_id ctx @ '' per user feedback.''))
      (re_delegate (de_fin e) (nr_text req) None None) (ac_dispatcher s) = (res, d)" by fastforce
  have "click_ok e ctx (ac_dispatcher s) d"
    by (rule in_session_ok [OF i(3,2) x]) (rule redelegate_fin_inv redelegate_context_inv, assumption+)+
  moreover have "ac_dispatcher s' = d"
    using False assms(1) w x unfolding consume_iteration_feedback_def
    by (auto simp: Let_def split: if_splits sum.splits)
  ultimately show thesis using sent [of ctx] w(1) i(1) by simp
qed (use same in blast)

lemma act_step_inv: "act_step e s s' \<Longrightarrow> quiet e \<Longrightarrow> disp_inv (ac_dispatcher s) \<Longrightarrow> disp_inv (ac_dispatcher s')"
proof (induction rule: act_step.induct)
  case (as_dispatch s d)
  then show ?case using disp_step_inv by simp
next
  case (as_click req s r s')
  then show ?case using handle_action_inv by blast
next
  case (as_reply req k s r s')
  show ?case using as_reply.hyps as_reply.prems(2)
    by (cases rule: reply_ok) (auto dest: click_inv simp: as_reply.prems)
qed

lemma act_reachable_inv:
  assumes "quiet e" and "(act_step e)\<^sup>*\<^sup>* (action_init w) s"
  shows "disp_inv (ac_dispatcher s)"
  using assms(2) by (induction rule: rtranclp_induct) (auto simp: action_init_def disp_inv_init intro: act_step_inv [OF _ assms(1)])

section \<open>Properties\<close>

text \<open>
  What a button does. In every state that messages, finalisations, clicks and replies
  can reach, a click whose workflow is not registered changes nothing; Push & PR and Discard
  on a registered one answer in the thread, act only inside that workflow (its workspace and
  its thread), leave every other workflow as it is, and take the workflow out of the registry
  exactly when the tool succeeded; Iterate touches no workflow.
\<close>

theorem finalization_click:
  assumes "quiet e" and "(act_step e)\<^sup>*\<^sup>* (action_init w) s" and "nr_action req = Some a" and "handle_action e req s = (r, s')"
  shows "case get_workflow (ac_dispatcher s) (ap_value a) of
      None \<Rightarrow> s' = s
    | Some ctx \<Rightarrow>
        if ap_action_id a \<in> {''finalization_push_pr'', ''finalization_discard''} then
          (\<exists>failure res. r = Inr (text_reply req (failed_reply failure res)) \<and>
             closed_if e ctx (tool_succeeded res) (ac_dispatcher s) (ac_dispatcher s'))
        else ac_dispatcher s' = ac_dispatcher s"
proof (cases "get_workflow (ac_dispatcher s) (ap_value a)")
  case None
  then show ?thesis using assms(3,4) by (simp add: handle_action_def)
next
  case (Some ctx)
  have k: "context_ok (wf_id ctx) ctx" "get_workflow (ac_dispatcher s) (wf_id ctx) = Some ctx"
    using disp_inv_context [OF act_reachable_inv [OF assms(1,2)] Some] Some by (simp_all add: context_ok_def)
  from assms(4) show ?thesis
  proof (cases rule: handle_action_cases)
    case (push b c d)
    then have "b = a" "c = ctx" using assms(3) Some by auto
    with push push_click [OF k push(4) [unfolded \<open>c = ctx\<close>]] Some show ?thesis by auto
  next
    case (discard b c d)
    then have "b = a" "c = ctx" using assms(3) Some by auto
    with discard discard_click [OF k discard(4) [unfolded \<open>c = ctx\<close>]] Some show ?thesis by auto
  next
    case (iterate b c)
    then have "b = a" using assms(3) by simp
    with iterate Some show ?thesis by simp
  next
    case unchanged
    then show ?thesis using assms(3) Some by simp
  qed
qed

definition discard_click_request :: NormalizedRequest where
  "discard_click_request = \<lparr>nr_text = [], nr_user_id = ''u'', nr_channel_id = ''c'', nr_source = ''slack'', nr_request_id = ''r1'',
     nr_thread_ts = Some ''t1'', nr_action = Some \<lparr>ap_action_id = ''finalization_discard'', ap_value = ''wf-1''\<rparr>\<rparr>"

theorem finalization_click_witness:
  "\<exists>r s'. handle_action disp_sample_env discard_click_request \<lparr>ac_dispatcher = disp_sample_start, ac_pending = [], ac_request = None\<rparr> = (r, s') \<and>
     (\<exists>failure res. r = Inr (text_reply discard_click_request (failed_reply failure res)) \<and>
       closed_if disp_sample_env fin_context (tool_succeeded res) disp_sample_start (ac_dispatcher s'))"
proof -
  let ?s = "\<lparr>ac_dispatcher = disp_sample_start, ac_pending = [], ac_request = None\<rparr>"
  have reach: "(act_step disp_sample_env)\<^sup>*\<^sup>* (action_init w) (\<lparr>ac_dispatcher = d, ac_pending = [], ac_request = None\<rparr>)"
    if "(disp_step disp_sample_env)\<^sup>*\<^sup>* (dispatcher_init w) d" for w d
    using that
  proof (induction rule: rtranclp_induct)
    case (step y z)
    have "act_step disp_sample_env \<lparr>ac_dispatcher = y, ac_pending = [], ac_request = None\<rparr> (\<lparr>ac_dispatcher = y, ac_pending = [], ac_request = None\<rparr>\<lparr>ac_dispatcher := z\<rparr>)"
      by (rule as_dispatch) (simp add: step)
    with step.IH show ?case by simp
  qed (simp add: action_init_def)
  have a: "nr_action discard_click_request = Some \<lparr>ap_action_id = ''finalization_discard'', ap_value = ''wf-1''\<rparr>"
    by (simp add: discard_click_request_def)
  obtain r s' where h: "handle_action disp_sample_env discard_click_request ?s = (r, s')" by fastforce
  from finalization_click [OF disp_sample_quiet reach [OF disp_sample_reachable] a h] h
  show ?thesis by (simp add: disp_sample_get)
qed

end
