(* ===== verification/PromptBuilder.thy ===== *)
theory PromptBuilder
  imports Compaction
begin

text \<open>
  The layered prompt builder (\<^verbatim>\<open>agent/prompt_builder.py\<close>): the system prompt of four
  layers and the conversation history of each thread.

  The history is a \<open>defaultdict(list)\<close>: reading the history of a new thread stores an empty
  one. The formatted time of day is an argument.
\<close>

section \<open>The builder\<close>

definition CACHE_BOUNDARY_MARKER :: string where
  "CACHE_BOUNDARY_MARKER = ''__SYSTEM_PROMPT_DYNAMIC_BOUNDARY__''"

definition SOURCE_USER :: string where "SOURCE_USER = ''user''"
definition SOURCE_AGENT :: string where "SOURCE_AGENT = ''agent''"
definition SOURCE_CRON :: string where "SOURCE_CRON = ''cron''"

definition DEFAULT_MAX_THREAD_HISTORY :: int where "DEFAULT_MAX_THREAD_HISTORY = 50"

record LayeredPromptBuilder =
  pb_identity :: string
  task_context :: string
  max_history :: int
  thread_history :: "(string, Message list) dict"

definition builder_init :: "string \<Rightarrow> string \<Rightarrow> int \<Rightarrow> LayeredPromptBuilder" where
  "builder_init i tc n = \<lparr>pb_identity = i, task_context = tc, max_history = n, thread_history = []\<rparr>"

section \<open>The system prompt\<close>

definition runtime_metadata :: "string \<Rightarrow> string \<Rightarrow> string \<Rightarrow> string" where
  "runtime_metadata now agent_id tools_summary = py_join newline
     ([''Current time: '' @ now] @ (if agent_id \<noteq> [] then [''Agent ID: '' @ agent_id] else []) @
      (if tools_summary \<noteq> [] then [''Available tools: '' @ tools_summary] else []))"

definition channel_hint :: "string \<Rightarrow> string" where
  "channel_hint source_type =
     (if source_type = SOURCE_CRON then ''You are running as a background cron job. '' @
        ''Your output will be logged, not shown to a user.''
      else if source_type = SOURCE_AGENT then ''You are running as a dispatched sub-agent. '' @
        ''Your response will be sent to the parent agent, not directly to a user.''
      else ''You are responding to a user via '' @ source_type @ ''.'')"

definition static_layers :: "LayeredPromptBuilder \<Rightarrow> string list" where
  "static_layers b = [pb_identity b] @ (if task_context b \<noteq> [] then [task_context b] else []) @ [CACHE_BOUNDARY_MARKER]"

definition static_prefix :: "LayeredPromptBuilder \<Rightarrow> string" where
  "static_prefix b = py_join (newline @ newline) (static_layers b)"

definition build :: "string \<Rightarrow> string \<Rightarrow> string \<Rightarrow> string \<Rightarrow> LayeredPromptBuilder \<Rightarrow> string" where
  "build now agent_id source_type tools_summary b = py_join (newline @ newline)
     (static_layers b @ [runtime_metadata now agent_id tools_summary, channel_hint source_type])"

section \<open>Thread history\<close>

definition cap_history :: "int \<Rightarrow> 'a list \<Rightarrow> 'a list" where
  "cap_history n hist = (if int (length hist) > n then slice_from (- n) hist else hist)"

definition touch_thread :: "string \<Rightarrow> LayeredPromptBuilder \<Rightarrow> LayeredPromptBuilder" where
  "touch_thread k b = (if dict_has (thread_history b) k then b
     else b\<lparr>thread_history := dict_set k [] (thread_history b)\<rparr>)"

definition history_with_user_message ::
  "string \<Rightarrow> string \<Rightarrow> LayeredPromptBuilder \<Rightarrow> Message list \<times> LayeredPromptBuilder" where
  "history_with_user_message k user_text b =
     (let b1 = touch_thread k b;
          hist = dict_default (thread_history b1) k [] @ [text_message ROLE_USER user_text]
      in (cap_history (max_history b1) hist, b1))"

definition messages_for_inference ::
  "string \<Rightarrow> string \<Rightarrow> string \<Rightarrow> string \<Rightarrow> string \<Rightarrow> string \<Rightarrow> LayeredPromptBuilder \<Rightarrow> Message list \<times> LayeredPromptBuilder" where
  "messages_for_inference now k user_text agent_id source_type tools_summary b =
     (let system_prompt = build now agent_id source_type tools_summary b;
          (hist, b1) = history_with_user_message k user_text b
      in (text_message ROLE_SYSTEM system_prompt # hist, b1))"

definition commit_turn :: "string \<Rightarrow> string \<Rightarrow> string \<Rightarrow> LayeredPromptBuilder \<Rightarrow> LayeredPromptBuilder" where
  "commit_turn k user_text assistant_content b =
     (let (hist, b1) = history_with_user_message k user_text b;
          hist1 = hist @ [text_message ROLE_ASSISTANT assistant_content]
      in b1\<lparr>thread_history := dict_set k (cap_history (max_history b1) hist1) (thread_history b1)\<rparr>)"

section \<open>Lemmas\<close>

text \<open>The last \<open>n\<close> elements; keeping them after every step is the same as keeping them at the end.\<close>

definition last_n :: "nat \<Rightarrow> 'a list \<Rightarrow> 'a list" where
  "last_n n xs = drop (length xs - n) xs"

lemma length_last_n [simp]: "length (last_n n xs) = min n (length xs)"
  by (simp add: last_n_def)

lemma last_n_append: "last_n n (last_n n xs @ ys) = last_n n (xs @ ys)"
proof (cases "length xs \<le> n")
  case False
  then show ?thesis by (simp add: last_n_def add.commute)
qed (simp add: last_n_def)

lemma last_n_short: "length xs \<le> n \<Longrightarrow> last_n n xs = xs"
  by (simp add: last_n_def)

lemma cap_history_last_n: "0 < n \<Longrightarrow> cap_history n xs = last_n (nat n) xs"
  by (auto simp: cap_history_def slice_from_def last_n_def nat_diff_distrib')

lemma cap_history_zero: "cap_history 0 xs = xs"
  by (simp add: cap_history_def slice_from_def)

lemma dict_default_set: "dict_default (dict_set k v d) k' w = (if k' = k then v else dict_default d k' w)"
  by (simp add: dict_default_def dict_simps)

lemma touch_thread_frame [simp]:
  "max_history (touch_thread k b) = max_history b" "pb_identity (touch_thread k b) = pb_identity b"
  "task_context (touch_thread k b) = task_context b"
  "dict_default (thread_history (touch_thread k b)) k' [] = dict_default (thread_history b) k' []"
  by (simp_all add: touch_thread_def dict_default_def dict_has_def dict_get_set)

lemma py_join_append:
  "xs \<noteq> [] \<Longrightarrow> ys \<noteq> [] \<Longrightarrow> py_join sep (xs @ ys) = py_join sep xs @ sep @ py_join sep ys"
proof (induction sep xs rule: py_join.induct)
  case (2 sep x)
  then show ?case by (cases ys) simp_all
qed simp_all

text \<open>The cacheable prefix is a prefix of every prompt and ends with the boundary marker.\<close>

lemma build_static_prefix:
  "build now agent_id source_type tools_summary b = static_prefix b @ newline @ newline @
     py_join (newline @ newline) [runtime_metadata now agent_id tools_summary, channel_hint source_type]"
  "\<exists>front. static_prefix b = front @ CACHE_BOUNDARY_MARKER"
proof -
  have "static_layers b \<noteq> []" by (simp add: static_layers_def)
  from py_join_append [OF this] show "build now agent_id source_type tools_summary b = static_prefix b @ newline @ newline @
     py_join (newline @ newline) [runtime_metadata now agent_id tools_summary, channel_hint source_type]"
    by (simp add: build_def static_prefix_def)
  show "\<exists>front. static_prefix b = front @ CACHE_BOUNDARY_MARKER"
    by (cases "task_context b = []") (auto simp: static_prefix_def static_layers_def intro: exI [of _ "pb_identity b @ newline @ newline"]
      exI [of _ "pb_identity b @ newline @ newline @ task_context b @ newline @ newline"])
qed

lemma commit_turn_frame [simp]:
  "max_history (commit_turn k u a b) = max_history b" "pb_identity (commit_turn k u a b) = pb_identity b"
  "task_context (commit_turn k u a b) = task_context b"
  by (simp_all add: commit_turn_def history_with_user_message_def Let_def)

lemma commit_turn_history:
  "dict_default (thread_history (commit_turn k u a b)) k' [] =
     (if k' = k then cap_history (max_history b) (cap_history (max_history b)
        (dict_default (thread_history b) k [] @ [text_message ROLE_USER u]) @ [text_message ROLE_ASSISTANT a])
      else dict_default (thread_history b) k' [])"
  by (simp add: commit_turn_def history_with_user_message_def Let_def dict_default_set)

section \<open>The conversation a builder stands for\<close>

type_synonym turn = "string \<times> string \<times> string"

definition turn_messages :: "turn \<Rightarrow> Message list" where
  "turn_messages t = (case t of (k, u, a) \<Rightarrow> [text_message ROLE_USER u, text_message ROLE_ASSISTANT a])"

definition transcript :: "turn list \<Rightarrow> string \<Rightarrow> Message list" where
  "transcript ts k = concat (map turn_messages (filter (\<lambda>t. fst t = k) ts))"

definition commit_turns :: "turn list \<Rightarrow> LayeredPromptBuilder \<Rightarrow> LayeredPromptBuilder" where
  "commit_turns ts b = fold (\<lambda>(k, u, a). commit_turn k u a) ts b"

lemma commit_turns_snoc: "commit_turns (ts @ [(k, u, a)]) b = commit_turn k u a (commit_turns ts b)"
  by (simp add: commit_turns_def)

lemma transcript_snoc:
  "transcript (ts @ [(k, u, a)]) k' = transcript ts k' @
     (if k = k' then [text_message ROLE_USER u] @ [text_message ROLE_ASSISTANT a] else [])"
  by (simp add: transcript_def turn_messages_def)

lemma commit_turns_frame [simp]: "max_history (commit_turns ts b) = max_history b"
proof (induction ts rule: rev_induct)
  case (snoc t ts)
  then show ?case by (cases t) (simp add: commit_turns_snoc)
qed (simp add: commit_turns_def)

lemma history_of_turns:
  assumes "0 < n"
  shows "dict_default (thread_history (commit_turns ts (builder_init i tc n))) k [] = last_n (nat n) (transcript ts k)"
proof (induction ts rule: rev_induct)
  case Nil
  then show ?case by (simp add: commit_turns_def builder_init_def transcript_def dict_default_def last_n_def)
next
  case (snoc t ts)
  obtain k' u a where t: "t = (k', u, a)" by (cases t)
  have m: "max_history (commit_turns ts (builder_init i tc n)) = n" by (simp add: builder_init_def)
  show ?case
    unfolding t commit_turns_snoc commit_turn_history m transcript_snoc cap_history_last_n [OF assms] snoc.IH
    using snoc.IH by (simp add: last_n_append) (metis append.assoc append_Cons append_Nil last_n_append)
qed

lemma history_of_turns_zero:
  "dict_default (thread_history (commit_turns ts (builder_init i tc 0))) k [] = transcript ts k"
proof (induction ts rule: rev_induct)
  case Nil
  then show ?case by (simp add: commit_turns_def builder_init_def transcript_def dict_default_def)
next
  case (snoc t ts)
  obtain k' u a where t: "t = (k', u, a)" by (cases t)
  have m: "max_history (commit_turns ts (builder_init i tc 0)) = 0" by (simp add: builder_init_def)
  show ?case
    unfolding t commit_turns_snoc commit_turn_history m transcript_snoc cap_history_zero using snoc.IH by auto
qed

section \<open>Properties\<close>

text \<open>
  C24: The stored history refines the full conversation. Whatever turns were committed, in
  whatever order of threads, the history of a thread is the last \<open>max_thread_history\<close>
  messages of that thread's own conversation, user and assistant texts only; the prompt
  of the next request is the system prompt followed by the last \<open>max_thread_history\<close>
  messages of that conversation with the new user message, and building it changes no
  thread's history. With a limit of zero nothing is ever dropped.
\<close>

theorem history_refines_conversation:
  assumes "0 < n" and "b = commit_turns turns (builder_init i tc n)"
  shows "dict_default (thread_history b) k [] = last_n (nat n) (transcript turns k) \<and>
    int (length (dict_default (thread_history b) k [])) \<le> n \<and>
    (\<forall>m \<in> set (dict_default (thread_history b) k []). role m \<in> {ROLE_USER, ROLE_ASSISTANT} \<and> msg_tool_calls m = None) \<and>
    (case messages_for_inference now k text agent_id src tsum b of (ms, b') \<Rightarrow>
       ms = text_message ROLE_SYSTEM (build now agent_id src tsum b) #
         last_n (nat n) (transcript turns k @ [text_message ROLE_USER text]) \<and>
       (\<forall>k'. dict_default (thread_history b') k' [] = dict_default (thread_history b) k' [])) \<and>
    dict_default (thread_history (commit_turns turns (builder_init i tc 0))) k [] = transcript turns k"
proof -
  have h: "dict_default (thread_history b) k' [] = last_n (nat n) (transcript turns k')" for k'
    using history_of_turns [OF assms(1)] assms(2) by simp
  have roles: "m \<in> set (transcript turns k) \<Longrightarrow> role m \<in> {ROLE_USER, ROLE_ASSISTANT} \<and> msg_tool_calls m = None" for m
    by (auto simp: transcript_def turn_messages_def text_message_def)
  have sub: "m \<in> set (transcript turns k)" if "m \<in> set (last_n (nat n) (transcript turns k))" for m
    using that by (auto simp: last_n_def dest: in_set_dropD)
  have m: "max_history b = n" using assms(2) by (simp add: builder_init_def)
  have "int (length (last_n (nat n) (transcript turns k))) \<le> n" using assms(1) by (simp add: min_def) linarith
  then show ?thesis
    using h roles sub m history_of_turns_zero
    by (simp add: messages_for_inference_def history_with_user_message_def Let_def cap_history_last_n [OF assms(1)] last_n_append)
qed

theorem history_refines_conversation_witness:
  "dict_default (thread_history (commit_turns [(''t'', ''a'', ''b''), (''t'', ''c'', ''d'')] (builder_init ''id'' [] 3))) ''t'' [] =
     [text_message ROLE_ASSISTANT ''b'', text_message ROLE_USER ''c'', text_message ROLE_ASSISTANT ''d'']"
  using history_refines_conversation [of 3 _ "[(''t'', ''a'', ''b''), (''t'', ''c'', ''d'')]" "''id''" "[]" "''t''", OF _ refl]
  by (simp add: transcript_def turn_messages_def last_n_def numeral_eq_Suc)

end
