(* ===== verification/Orchestrator.thy ===== *)
theory Orchestrator
  imports FinalizationActions PromptBuilder "HOL-Library.List_Lexorder" "HOL-Library.Char_ord"
begin

text \<open>
  The connector-facing request handler (\<^verbatim>\<open>orchestrator/orchestrator.py\<close>): routing of button
  clicks, prompt assembly, the agent loop or direct inference, write approvals and the
  commit of turns.

  A request is handled as one step on the record \<open>orchestrator\<close>. A left result of \<open>handle\<close>
  is an exception that reaches the connector. How the exception of a failed inference is
  classified is an argument, from its text; \<open>None\<close> stands for any exception that is not an
  \<open>InferenceError\<close>. Log records and the status callback are left out.
\<close>

section \<open>State\<close>

record OrchestratorConfig =
  oc_model :: string
  oc_temperature :: pyfloat
  oc_max_tokens :: int
  oc_max_thread_history :: int

record orch_env =
  oe_backend :: "action_state backend"
  oe_config :: OrchestratorConfig
  oe_agent_loop :: AgentLoopConfig
  oe_gate :: ApprovalGate
  oe_tools :: "action_state ToolRegistry option"
  oe_audit :: "(ToolCallEntry \<Rightarrow> action_state \<Rightarrow> action_state) option"
  oe_agent_id :: string
  oe_actions :: "disp_env option"
  oe_loads :: "string \<Rightarrow> string + kwargs"
  oe_schedule :: "nat list \<Rightarrow> nat list"
  oe_duration :: "ToolCall \<Rightarrow> pyfloat"
  oe_now :: string
  oe_category :: "string \<Rightarrow> ErrorCategory option"

record orchestrator =
  os_world :: action_state
  os_prompt :: LayeredPromptBuilder
  os_pending :: "(string, PendingApproval) dict"
  os_tool_names :: "(string, string) dict"
  os_executed :: "ToolCall list"

definition orchestrator_init :: "orch_env \<Rightarrow> string \<Rightarrow> action_state \<Rightarrow> orchestrator" where
  "orchestrator_init e identity w = \<lparr>os_world = w, os_prompt = builder_init identity [] (oc_max_thread_history (oe_config e)),
     os_pending = [], os_tool_names = [], os_executed = []\<rparr>"

definition tools_summary :: "orch_env \<Rightarrow> string" where
  "tools_summary e = (case oe_tools e of None \<Rightarrow> []
   | Some reg \<Rightarrow> if tools reg \<noteq> [] then py_join '', '' (sort (tool_names_of reg)) else [])"

definition merged_loop_config :: "orch_env \<Rightarrow> AgentLoopConfig" where
  "merged_loop_config e = (oe_agent_loop e)\<lparr>cfg_model := oc_model (oe_config e), cfg_temperature := oc_temperature (oe_config e),
     cfg_max_tokens := oc_max_tokens (oe_config e)\<rparr>"

definition agent_loop :: "orch_env \<Rightarrow> action_state loop_env option" where
  "agent_loop e = (case oe_tools e of None \<Rightarrow> None | Some reg \<Rightarrow>
     if tools reg = [] then None
     else Some \<lparr>le_infer = oe_backend e, le_registry = reg, le_config = merged_loop_config e, le_gate = oe_gate e,
       le_audit = oe_audit e, le_loads = oe_loads e, le_schedule = oe_schedule e, le_duration = oe_duration e\<rparr>)"

section \<open>Responses\<close>

definition shape_response :: "NormalizedRequest \<Rightarrow> string \<Rightarrow> RichResponse" where
  "shape_response req txt = reply req [markdown txt]"

definition suppressed :: "NormalizedRequest \<Rightarrow> RichResponse" where
  "suppressed req = (reply req [])\<lparr>suppress_post := True\<rparr>"

definition build_approval_response :: "NormalizedRequest \<Rightarrow> PendingApproval \<Rightarrow> RichResponse" where
  "build_approval_response req p = reply req
     [markdown ('':warning: *Write operation requires your approval*'' @ newline @ newline @ pa_description p @ newline @ newline @
        ''Click *Approve* to proceed or *Deny* to cancel.''),
      ActionBlock
        [\<lparr>ab_label = ''Approve'', ab_action_id = action_id_value APPROVE_WRITE, ab_value = thread_key req, ab_style = Some ''primary''\<rparr>,
         \<lparr>ab_label = ''Deny'', ab_action_id = action_id_value DENY_WRITE, ab_value = thread_key req, ab_style = Some ''danger''\<rparr>]]"

fun error_text :: "ErrorCategory \<Rightarrow> string" where
  "error_text AUTH_ERROR = ''I'' @ [CHR 0x27] @ ''m having a configuration issue and can'' @ [CHR 0x27] @ ''t reach the model right now. '' @
     ''Please let the admin know.''"
| "error_text RATE_LIMIT = ''I'' @ [CHR 0x27] @ ''m being rate-limited right now. Please try again in a moment.''"
| "error_text TIMEOUT = ''The model didn'' @ [CHR 0x27] @ ''t respond in time. Please try again.''"
| "error_text MODEL_ERROR = ''Something went wrong with the model. Please try again shortly.''"
| "error_text CONNECTOR_ERROR = ''I had trouble communicating. Please try again.''"
| "error_text UNKNOWN = ''Something unexpected happened. Please try again, and if the issue '' @ ''persists, let the admin know.''"

definition error_response :: "NormalizedRequest \<Rightarrow> ErrorCategory \<Rightarrow> RichResponse" where
  "error_response req c = (reply req [markdown (error_text c)])\<lparr>ri_error_category := Some c\<rparr>"

definition NOT_APPROVED_TEXT :: string where
  "NOT_APPROVED_TEXT = ''I generated a response but it was not approved. '' @ ''Please try rephrasing your request.''"

section \<open>Direct inference\<close>

text \<open>
  \<open>_inference_with_repair\<close>, with the number of attempts left and the chunks so far. Every
  attempt starts again from the original messages.
\<close>

definition call_messages :: "Message list \<Rightarrow> string list \<Rightarrow> Message list" where
  "call_messages base chunks = base @ concat (map (\<lambda>c. [text_message ROLE_ASSISTANT c, text_message ROLE_USER CONTINUATION_PROMPT]) chunks)"

fun repair_attempts ::
  "orch_env \<Rightarrow> string \<Rightarrow> Message list \<Rightarrow> nat \<Rightarrow> string list \<Rightarrow> action_state \<Rightarrow> (string + string) \<times> action_state" where
  "repair_attempts e rid base 0 chunks w = (Inr (concat chunks), w)"
| "repair_attempts e rid base (Suc n) chunks w =
     (case oe_backend e \<lparr>rq_messages = call_messages base chunks, rq_model = oc_model (oe_config e),
          rq_temperature = oc_temperature (oe_config e), rq_max_tokens = oc_max_tokens (oe_config e), rq_request_id = rid, rq_tools = None\<rparr> w of
        (Inl err, w1) \<Rightarrow> (Inl err, w1)
      | (Inr resp, w1) \<Rightarrow>
         (let repair = repair_response resp in
          if was_repaired repair \<and> \<not> needs_continuation repair then (Inr (rr_content repair), w1)
          else if \<not> needs_continuation repair then (Inr (concat chunks @ rr_content repair), w1)
          else repair_attempts e rid base n (chunks @ [rr_content repair]) w1))"

definition MAX_CONTINUATION_RETRIES :: nat where "MAX_CONTINUATION_RETRIES = 2"

definition inference_with_repair :: "orch_env \<Rightarrow> string \<Rightarrow> Message list \<Rightarrow> action_state \<Rightarrow> (string + string) \<times> action_state" where
  "inference_with_repair e rid ms w = repair_attempts e rid ms (1 + MAX_CONTINUATION_RETRIES) [] w"

section \<open>The agent loop\<close>

text \<open>A request runs in a task of its own: no tool is surfaced yet.\<close>

definition loop_state_of :: "orchestrator \<Rightarrow> action_state loop_state" where
  "loop_state_of s = \<lparr>world = os_world s, surface = reset_tool_surface, tool_names = os_tool_names s, executed = os_executed s\<rparr>"

definition after_loop :: "action_state loop_state \<Rightarrow> orchestrator \<Rightarrow> orchestrator" where
  "after_loop st s = s\<lparr>os_world := world st, os_tool_names := loop_state.tool_names st, os_executed := executed st\<rparr>"

datatype run_result = Answer string | Paused PendingApproval | Raised string

definition run_loop ::
  "action_state loop_env \<Rightarrow> Message list \<Rightarrow> string \<Rightarrow> string \<Rightarrow> string list \<Rightarrow> action_state loop_state \<Rightarrow> run_result \<times> action_state loop_state" where
  "run_loop l ms rid key pre st = (case run l ms rid (Some key) pre st of
     (Finished r, st') \<Rightarrow> (Answer (ar_content r), st')
   | (NeedsApproval p, st') \<Rightarrow> (Paused p, st')
   | (InferenceFailed err, st') \<Rightarrow> (Raised err, st'))"

section \<open>Write approvals\<close>

definition pause :: "NormalizedRequest \<Rightarrow> string \<Rightarrow> string \<Rightarrow> PendingApproval \<Rightarrow> orchestrator \<Rightarrow> RichResponse \<times> orchestrator" where
  "pause req key user_text p s = (let p' = p\<lparr>pa_original_user_text := user_text\<rparr> in
     (build_approval_response req p', s\<lparr>os_pending := dict_set key p' (os_pending s)\<rparr>))"

definition handle_write_approval ::
  "orch_env \<Rightarrow> NormalizedRequest \<Rightarrow> string \<Rightarrow> orchestrator \<Rightarrow> (string + RichResponse) \<times> orchestrator" where
  "handle_write_approval e req key s = (case dict_get (os_pending s) key of
     None \<Rightarrow> (Inr (suppressed req), s)
   | Some p \<Rightarrow>
      (let s1 = s\<lparr>os_pending := dict_pop key (os_pending s)\<rparr> in
       case agent_loop e of
         None \<Rightarrow> (Inr (shape_response req ''Tool execution is not available.''), s1)
       | Some l \<Rightarrow>
          (case execute_tool_calls l (pa_request_id p) (Some key) (pa_tool_calls p) (loop_state_of s1) of
             (results, st) \<Rightarrow>
              (case run_loop l (pa_working_messages p @ [pa_assistant_message p] @ results) (pa_request_id p) key (pa_surfaced_tools p) st of
                 (Answer txt, st') \<Rightarrow>
                   (Inr (shape_response req txt),
                    (after_loop st' s1)\<lparr>os_prompt := commit_turn key (pa_original_user_text p) txt (os_prompt s1)\<rparr>)
               | (Paused p2, st') \<Rightarrow>
                   (case pause req key (pa_original_user_text p) p2 (after_loop st' s1) of (resp, s2) \<Rightarrow> (Inr resp, s2))
               | (Raised err, st') \<Rightarrow> (Inl err, after_loop st' s1)))))"

definition handle_write_denial :: "NormalizedRequest \<Rightarrow> string \<Rightarrow> orchestrator \<Rightarrow> RichResponse \<times> orchestrator" where
  "handle_write_denial req key s = (case dict_get (os_pending s) key of
     None \<Rightarrow> (suppressed req, s)
   | Some p \<Rightarrow> (shape_response req (''Got it '' @ em_dash @ '' the write operation was cancelled.''),
                s\<lparr>os_pending := dict_pop key (os_pending s)\<rparr>))"

section \<open>Handling a request\<close>

text \<open>A fresh message: prompt, inference, response gate, commit.\<close>

definition handle_message :: "orch_env \<Rightarrow> NormalizedRequest \<Rightarrow> string \<Rightarrow> orchestrator \<Rightarrow> RichResponse \<times> orchestrator" where
  "handle_message e req key s =
     (let s1 = s\<lparr>os_pending := dict_pop key (os_pending s)\<rparr>;
          (ms, b) = messages_for_inference (oe_now e) key (nr_text req) (oe_agent_id e) (nr_source req) (tools_summary e) (os_prompt s1);
          s2 = s1\<lparr>os_prompt := b\<rparr>;
          (res, s3) = (case agent_loop e of
             Some l \<Rightarrow> (case run_loop l ms (nr_request_id req) key [] (loop_state_of s2) of (res, st) \<Rightarrow> (res, after_loop st s2))
           | None \<Rightarrow> (case inference_with_repair e (nr_request_id req) ms (os_world s2) of
               (Inl err, w) \<Rightarrow> (Raised err, s2\<lparr>os_world := w\<rparr>) | (Inr txt, w) \<Rightarrow> (Answer txt, s2\<lparr>os_world := w\<rparr>)))
      in case res of
           Answer txt \<Rightarrow>
             (let txt' = (if approved (gate_check (oe_gate e) ''respond'' [] True) then txt else NOT_APPROVED_TEXT)
              in (shape_response req txt', s3\<lparr>os_prompt := commit_turn key (nr_text req) txt' (os_prompt s3)\<rparr>))
         | Paused p \<Rightarrow> pause req key (nr_text req) p s3
         | Raised err \<Rightarrow> (error_response req (case oe_category e err of Some c \<Rightarrow> c | None \<Rightarrow> UNKNOWN), s3))"

definition request_context :: "NormalizedRequest \<Rightarrow> RequestContext" where
  "request_context req = \<lparr>rc_request_id = nr_request_id req, rc_channel_id = Some (nr_channel_id req),
     rc_thread_ts = nr_thread_ts req, rc_source = nr_source req\<rparr>"

definition is_action :: "NormalizedRequest \<Rightarrow> ActionId \<Rightarrow> bool" where
  "is_action req a = (case nr_action req of None \<Rightarrow> False | Some p \<Rightarrow> ap_action_id p = action_id_value a)"

definition handle :: "orch_env \<Rightarrow> NormalizedRequest \<Rightarrow> orchestrator \<Rightarrow> (string + RichResponse) \<times> orchestrator" where
  "handle e req s =
     (let key = thread_key req;
          s0 = s\<lparr>os_world := set_request_context (Some (request_context req)) (os_world s)\<rparr>
      in if is_action req APPROVE_WRITE then handle_write_approval e req key s0
         else if is_action req DENY_WRITE then (case handle_write_denial req key s0 of (r, s1) \<Rightarrow> (Inr r, s1))
         else case oe_actions e of
           Some de \<Rightarrow>
             if is_finalization_action req then
               (case handle_action de req (os_world s0) of (r, w) \<Rightarrow> (r, s0\<lparr>os_world := w\<rparr>))
             else if is_pending_iteration (os_world s0) key then
               (case consume_iteration_feedback de req key (os_world s0) of (r, w) \<Rightarrow> (r, s0\<lparr>os_world := w\<rparr>))
             else (case handle_message e req key s0 of (r, s1) \<Rightarrow> (Inr r, s1))
         | None \<Rightarrow> (case handle_message e req key s0 of (r, s1) \<Rightarrow> (Inr r, s1)))"

section \<open>Lemmas\<close>

lemma run_loop_run:
  assumes "run_loop l ms rid key pre st = (res, st')"
  obtains out where "run l ms rid (Some key) pre st = (out, st')" "\<And>p. res = Paused p \<longleftrightarrow> out = NeedsApproval p"
  using assms by (auto simp: run_loop_def split: prod.splits loop_outcome.splits)

lemma after_loop_simps [simp]:
  "os_executed (after_loop st s) = executed st" "os_pending (after_loop st s) = os_pending s" "os_prompt (after_loop st s) = os_prompt s"
  by (simp_all add: after_loop_def)

lemma agent_loop_fields:
  assumes "agent_loop e = Some l"
  shows "le_gate l = oe_gate e" "le_schedule l = oe_schedule e" "oe_tools e = Some (le_registry l)" "le_infer l = oe_backend e"
  using assms by (auto simp: agent_loop_def split: option.splits if_splits)

text \<open>A call of the orchestrator that only reads.\<close>

definition reads_only :: "orch_env \<Rightarrow> ToolCall \<Rightarrow> bool" where
  "reads_only e tc = (case oe_tools e of None \<Rightarrow> True | Some reg \<Rightarrow>
     (case get_tool reg (call_name tc) of Some spec \<Rightarrow> is_read_only spec | None \<Rightarrow> True))"

lemma reads_only_loop: "agent_loop e = Some l \<Longrightarrow> reads_only e tc = read_only_call l tc"
  by (simp add: reads_only_def read_only_call_def agent_loop_fields)

lemma run_loop_gate:
  assumes "agent_loop e = Some l" and "oe_gate e = WriteApproval" and "\<forall>xs. mset (oe_schedule e xs) = mset xs"
    and "run_loop l ms rid key pre st = (res, st')"
  shows "\<exists>new. executed st' = executed st @ new \<and> list_all (reads_only e) new"
proof -
  obtain out where "run l ms rid (Some key) pre st = (out, st')" using run_loop_run [OF assms(4)] by blast
  moreover have "le_gate l = WriteApproval" "fair_schedule l" using assms(2,3) agent_loop_fields [OF assms(1)] by (simp_all add: fair_schedule_def)
  ultimately show ?thesis using run_gate reads_only_loop [OF assms(1)] by (simp add: list_all_iff) blast
qed

text \<open>What one request may run: reads only, or the approved batch followed by reads.\<close>

definition approved_run :: "orch_env \<Rightarrow> NormalizedRequest \<Rightarrow> orchestrator \<Rightarrow> ToolCall list \<Rightarrow> bool" where
  "approved_run e req s new =
     (list_all (reads_only e) new \<or>
      (is_action req APPROVE_WRITE \<and>
       (\<exists>p batch rest. dict_get (os_pending s) (thread_key req) = Some p \<and> new = batch @ rest \<and>
          mset batch = mset (pa_tool_calls p) \<and> list_all (reads_only e) rest)))"

lemma message_runs:
  assumes "oe_gate e = WriteApproval" and "\<forall>xs. mset (oe_schedule e xs) = mset xs" and "handle_message e req key s = (r, s')"
  shows "\<exists>new. os_executed s' = os_executed s @ new \<and> list_all (reads_only e) new"
proof (cases "agent_loop e")
  case None
  then have "os_executed s' = os_executed s"
    using assms(3) by (auto simp: handle_message_def pause_def Let_def split: prod.splits sum.splits)
  then show ?thesis by simp
next
  case (Some l)
  then show ?thesis
    using assms(3) run_loop_gate [OF Some assms(1,2)]
    by (fastforce simp: handle_message_def pause_def loop_state_of_def Let_def split: prod.splits run_result.splits)
qed

lemma batch_runs:
  assumes "fair_schedule l" and "execute_tool_calls l rid k tcs st = (results, st')"
  shows "\<exists>batch. executed st' = executed st @ batch \<and> mset batch = mset tcs"
  using execute_tool_calls_mset [OF assms(1), of rid k tcs st] assms(2) by (metis snd_conv)

lemma pause_iff:
  "pause req key txt p s = (r, s') \<longleftrightarrow> r = build_approval_response req (p\<lparr>pa_original_user_text := txt\<rparr>) \<and>
     s' = s\<lparr>os_pending := dict_set key (p\<lparr>pa_original_user_text := txt\<rparr>) (os_pending s)\<rparr>"
  by (auto simp: pause_def Let_def)

lemma approval_response_text [simp]:
  "build_approval_response req (p\<lparr>pa_original_user_text := txt\<rparr>) = build_approval_response req p"
  by (simp add: build_approval_response_def)

text \<open>The description of a paused run is that of the write calls of its batch.\<close>

definition described :: "orch_env \<Rightarrow> PendingApproval \<Rightarrow> bool" where
  "described e p = (\<exists>l. agent_loop e = Some l \<and> pa_description p = format_write_description l (get_write_tool_calls l (pa_tool_calls p)))"

lemma run_loop_described:
  assumes "agent_loop e = Some l" and "run_loop l ms rid key pre st = (Paused p, st')"
  shows "described e (p\<lparr>pa_original_user_text := txt\<rparr>)"
proof -
  obtain out where "run l ms rid (Some key) pre st = (out, st')" "out = NeedsApproval p"
    using run_loop_run [OF assms(2)] by blast
  then show ?thesis using run_description assms(1) by (auto simp: described_def)
qed

text \<open>A prompt that one request leaves behind is the one its response shows.\<close>

definition prompted :: "orch_env \<Rightarrow> NormalizedRequest \<Rightarrow> string + RichResponse \<Rightarrow> PendingApproval \<Rightarrow> bool" where
  "prompted e req r p = (r = Inr (build_approval_response req p) \<and> described e p)"

lemma message_pending:
  assumes "handle_message e req key s = (r, s')"
  shows "k \<noteq> key \<Longrightarrow> dict_get (os_pending s') k = dict_get (os_pending s) k"
    and "dict_get (os_pending s') key = Some p \<Longrightarrow> prompted e req (Inr r) p"
proof -
  have "dict_get (os_pending s') k = dict_get (os_pending s) k" if "k \<noteq> key" for k
    using assms that
    by (auto simp: handle_message_def pause_def Let_def dict_simps split: prod.splits run_result.splits option.splits sum.splits)
  then show "k \<noteq> key \<Longrightarrow> dict_get (os_pending s') k = dict_get (os_pending s) k" .
  show "prompted e req (Inr r) p" if "dict_get (os_pending s') key = Some p"
  proof (cases "agent_loop e")
    case None
    then show ?thesis
      using assms that by (auto simp: handle_message_def Let_def dict_simps split: prod.splits sum.splits)
  next
    case (Some l)
    then show ?thesis
      using assms that run_loop_described [OF Some]
      by (auto simp: handle_message_def Let_def dict_simps prompted_def pause_iff split: prod.splits run_result.splits)
  qed
qed

lemma approval_step:
  assumes "handle_write_approval e req key s = (r, s')"
  shows "k \<noteq> key \<Longrightarrow> dict_get (os_pending s') k = dict_get (os_pending s) k"
    and "dict_get (os_pending s') key = Some p \<Longrightarrow> prompted e req r p"
proof -
  have "dict_get (os_pending s') k = dict_get (os_pending s) k" if "k \<noteq> key" for k
    using assms that
    by (auto simp: handle_write_approval_def pause_def Let_def dict_simps split: prod.splits run_result.splits option.splits)
  then show "k \<noteq> key \<Longrightarrow> dict_get (os_pending s') k = dict_get (os_pending s) k" .
  show "prompted e req r p" if "dict_get (os_pending s') key = Some p"
    using assms that run_loop_described [of e]
    by (auto simp: handle_write_approval_def Let_def dict_simps prompted_def pause_iff
        split: prod.splits run_result.splits option.splits)
qed

lemma approval_runs:
  assumes "oe_gate e = WriteApproval" and "\<forall>xs. mset (oe_schedule e xs) = mset xs"
    and "handle_write_approval e req key s = (r, s')"
  shows "\<exists>new. os_executed s' = os_executed s @ new \<and> (new = [] \<or> (\<exists>p batch rest. dict_get (os_pending s) key = Some p \<and>
    new = batch @ rest \<and> mset batch = mset (pa_tool_calls p) \<and> list_all (reads_only e) rest))"
proof (cases "\<exists>p l. dict_get (os_pending s) key = Some p \<and> agent_loop e = Some l")
  case False
  then have "os_executed s' = os_executed s"
    using assms(3) by (auto simp: handle_write_approval_def Let_def split: option.splits)
  then show ?thesis by simp
next
  case True
  then obtain p l where p: "dict_get (os_pending s) key = Some p" "agent_loop e = Some l" by blast
  let ?s1 = "s\<lparr>os_pending := dict_pop key (os_pending s)\<rparr>"
  obtain results st where x: "execute_tool_calls l (pa_request_id p) (Some key) (pa_tool_calls p) (loop_state_of ?s1) = (results, st)"
    by fastforce
  obtain res st' where y: "run_loop l (pa_working_messages p @ [pa_assistant_message p] @ results) (pa_request_id p) key (pa_surfaced_tools p) st = (res, st')"
    by fastforce
  have "fair_schedule l" using assms(2) agent_loop_fields [OF p(2)] by (simp add: fair_schedule_def)
  from batch_runs [OF this x] obtain batch where b: "executed st = os_executed s @ batch" "mset batch = mset (pa_tool_calls p)"
    by (auto simp: loop_state_of_def)
  obtain rest where c: "executed st' = executed st @ rest" "list_all (reads_only e) rest"
    using run_loop_gate [OF p(2) assms(1,2) y] by blast
  have "os_executed s' = executed st'"
    using assms(3) y by (auto simp: handle_write_approval_def p x Let_def pause_def split: run_result.splits)
  with b c p(1) show ?thesis by auto
qed

text \<open>The three kinds of a request.\<close>

lemma handle_cases:
  assumes "handle e req s = (r, s')"
  obtains (approve) "is_action req APPROVE_WRITE"
      "handle_write_approval e req (thread_key req) (s\<lparr>os_world := set_request_context (Some (request_context req)) (os_world s)\<rparr>) = (r, s')"
  | (deny) r' where "\<not> is_action req APPROVE_WRITE" "is_action req DENY_WRITE" "r = Inr r'"
      "handle_write_denial req (thread_key req) (s\<lparr>os_world := set_request_context (Some (request_context req)) (os_world s)\<rparr>) = (r', s')"
  | (button) w where "\<not> is_action req APPROVE_WRITE" "\<not> is_action req DENY_WRITE" "s' = s\<lparr>os_world := w\<rparr>"
      "replies req r"
  | (message) r' where "\<not> is_action req APPROVE_WRITE" "\<not> is_action req DENY_WRITE" "r = Inr r'"
      "handle_message e req (thread_key req) (s\<lparr>os_world := set_request_context (Some (request_context req)) (os_world s)\<rparr>) = (r', s')"
proof -
  show thesis
  proof (cases "is_action req APPROVE_WRITE \<or> is_action req DENY_WRITE")
    case True
    then show thesis using assms approve deny by (auto simp: handle_def Let_def split: prod.splits if_splits)
  next
    case False
    let ?s = "s\<lparr>os_world := set_request_context (Some (request_context req)) (os_world s)\<rparr>"
    consider w de where "handle_action de req (os_world ?s) = (r, w)" "s' = s\<lparr>os_world := w\<rparr>"
      | w de where "consume_iteration_feedback de req (thread_key req) (os_world ?s) = (r, w)" "s' = s\<lparr>os_world := w\<rparr>"
      | r' where "r = Inr r'" "handle_message e req (thread_key req) ?s = (r', s')"
      using assms False by (auto simp: handle_def Let_def split: option.splits if_splits prod.splits)
    then show thesis
    proof cases
      case 1
      then show thesis using False button handle_action_reply by blast
    next
      case 2
      then show thesis using False button feedback_reply by blast
    next
      case 3
      then show thesis using False message by blast
    qed
  qed
qed

section \<open>A sequence of requests\<close>

fun serve :: "orch_env \<Rightarrow> NormalizedRequest list \<Rightarrow> orchestrator \<Rightarrow> (NormalizedRequest \<times> (string + RichResponse)) list \<times> orchestrator" where
  "serve e [] s = ([], s)"
| "serve e (req # reqs) s = (case handle e req s of (r, s1) \<Rightarrow> (case serve e reqs s1 of (lg, s2) \<Rightarrow> ((req, r) # lg, s2)))"

text \<open>A prompt was shown in a thread; it was then answered with Approve.\<close>

definition shown :: "orch_env \<Rightarrow> (NormalizedRequest \<times> (string + RichResponse)) list \<Rightarrow> string \<Rightarrow> PendingApproval \<Rightarrow> bool" where
  "shown e lg k p = (\<exists>before req after. lg = before @ (req, Inr (build_approval_response req p)) # after \<and> thread_key req = k \<and> described e p)"

definition was_approved :: "orch_env \<Rightarrow> (NormalizedRequest \<times> (string + RichResponse)) list \<Rightarrow> ToolCall \<Rightarrow> bool" where
  "was_approved e lg tc = (\<exists>lg1 click r lg2 p. lg = lg1 @ (click, r) # lg2 \<and> is_action click APPROVE_WRITE \<and>
     shown e lg1 (thread_key click) p \<and> tc \<in> set (pa_tool_calls p))"

lemma shown_append: "shown e lg k p \<Longrightarrow> shown e (lg @ lg') k p"
  unfolding shown_def by fastforce

lemma was_approved_append: "was_approved e lg tc \<Longrightarrow> was_approved e (lg @ lg') tc"
  unfolding was_approved_def by fastforce

definition approvals_inv :: "orch_env \<Rightarrow> (NormalizedRequest \<times> (string + RichResponse)) list \<Rightarrow> orchestrator \<Rightarrow> bool" where
  "approvals_inv e lg s = ((\<forall>k p. dict_get (os_pending s) k = Some p \<longrightarrow> shown e lg k p) \<and>
     (\<forall>tc \<in> set (os_executed s). reads_only e tc \<or> was_approved e lg tc))"

text \<open>What one request does to the pending prompts and to the calls that were run.\<close>

lemma handle_pending:
  assumes "handle e req s = (r, s')" and "dict_get (os_pending s') k = Some p"
  shows "dict_get (os_pending s) k = Some p \<or> thread_key req = k \<and> prompted e req r p"
  using assms(1)
proof (cases rule: handle_cases)
  case approve
  then show ?thesis using assms(2) approval_step [OF approve(2)] by (cases "k = thread_key req") auto
next
  case (deny r')
  then show ?thesis using assms(2) by (auto simp: handle_write_denial_def dict_simps split: option.splits if_splits)
next
  case (button w)
  then show ?thesis using assms(2) by simp
next
  case (message r')
  then show ?thesis using assms(2) message_pending [OF message(4)] by (cases "k = thread_key req") auto
qed

lemma handle_runs:
  assumes "oe_gate e = WriteApproval" and "\<forall>xs. mset (oe_schedule e xs) = mset xs" and "handle e req s = (r, s')"
  shows "\<exists>new. os_executed s' = os_executed s @ new \<and> approved_run e req s new"
  using assms(3)
proof (cases rule: handle_cases)
  case approve
  obtain new where n: "os_executed s' = os_executed s @ new" and "new = [] \<or> (\<exists>p batch rest. dict_get (os_pending s) (thread_key req) = Some p \<and>
      new = batch @ rest \<and> mset batch = mset (pa_tool_calls p) \<and> list_all (reads_only e) rest)"
    using approval_runs [OF assms(1,2) approve(2)] by auto
  then have "approved_run e req s new" using approve(1) unfolding approved_run_def by fastforce
  with n show ?thesis by blast
next
  case (deny r')
  then have "os_executed s' = os_executed s" by (auto simp: handle_write_denial_def split: option.splits)
  then show ?thesis by (simp add: approved_run_def)
next
  case (button w)
  then show ?thesis by (simp add: approved_run_def)
next
  case (message r')
  then show ?thesis using message_runs [OF assms(1,2) message(4)] by (auto simp: approved_run_def)
qed

lemma handle_approvals_inv:
  assumes "oe_gate e = WriteApproval" and "\<forall>xs. mset (oe_schedule e xs) = mset xs" and "handle e req s = (r, s')"
    and i: "approvals_inv e lg s"
  shows "approvals_inv e (lg @ [(req, r)]) s'"
proof -
  have "shown e (lg @ [(req, r)]) k p" if "dict_get (os_pending s') k = Some p" for k p
  proof (cases "dict_get (os_pending s) k = Some p")
    case True
    then show ?thesis using i by (simp add: approvals_inv_def shown_append)
  next
    case False
    then have "thread_key req = k" "prompted e req r p" using handle_pending [OF assms(3) that] by auto
    then show ?thesis unfolding shown_def prompted_def by blast
  qed
  moreover have "reads_only e tc \<or> was_approved e (lg @ [(req, r)]) tc" if "tc \<in> set (os_executed s')" for tc
  proof -
    obtain new where n: "os_executed s' = os_executed s @ new" "approved_run e req s new"
      using handle_runs [OF assms(1-3)] by blast
    show ?thesis
    proof (cases "tc \<in> set (os_executed s) \<or> reads_only e tc")
      case True
      then show ?thesis using i by (auto simp: approvals_inv_def was_approved_append)
    next
      case False
      with n that obtain p batch rest where p: "is_action req APPROVE_WRITE" "dict_get (os_pending s) (thread_key req) = Some p"
          "mset batch = mset (pa_tool_calls p)" "tc \<in> set batch"
        by (auto simp: approved_run_def list_all_iff)
      then have "tc \<in> set (pa_tool_calls p)" by (metis set_mset_mset)
      moreover have "shown e lg (thread_key req) p" using i p(2) by (simp add: approvals_inv_def)
      ultimately have "was_approved e (lg @ [(req, r)]) tc" using p(1) unfolding was_approved_def by blast
      then show ?thesis ..
    qed
  qed
  ultimately show ?thesis by (simp add: approvals_inv_def)
qed

lemma serve_approvals_inv:
  assumes "oe_gate e = WriteApproval" and "\<forall>xs. mset (oe_schedule e xs) = mset xs"
  shows "serve e reqs s = (lg, s') \<Longrightarrow> approvals_inv e lg0 s \<Longrightarrow> approvals_inv e (lg0 @ lg) s'"
proof (induction reqs arbitrary: s lg0 lg)
  case (Cons req reqs)
  obtain r s1 where h: "handle e req s = (r, s1)" by fastforce
  obtain lg2 where l: "serve e reqs s1 = (lg2, s')" "lg = (req, r) # lg2"
    using Cons.prems(1) h by (auto split: prod.splits)
  from Cons.IH [OF l(1) handle_approvals_inv [OF assms h Cons.prems(2)]] l(2) show ?case by simp
qed simp

section \<open>History\<close>

text \<open>How one request changes the conversation of its thread.\<close>

lemma message_history:
  assumes "handle_message e req key s = (r, s')"
  shows "os_prompt s' = touch_thread key (os_prompt s) \<or>
    (\<exists>txt. r = shape_response req txt \<and> os_prompt s' = commit_turn key (nr_text req) txt (touch_thread key (os_prompt s)))"
proof -
  have m: "snd (messages_for_inference now key u a src ts b) = touch_thread key b" for now u a src ts b
    by (simp add: messages_for_inference_def history_with_user_message_def Let_def)
  obtain ms b where mb: "messages_for_inference (oe_now e) key (nr_text req) (oe_agent_id e) (nr_source req) (tools_summary e) (os_prompt s) = (ms, b)"
    by fastforce
  then have b: "b = touch_thread key (os_prompt s)" using m by (metis snd_conv)
  show ?thesis
    using assms mb
    by (auto simp: handle_message_def pause_iff Let_def b split: prod.splits run_result.splits option.splits sum.splits)
qed

lemma approval_history:
  assumes "handle_write_approval e req key s = (r, s')"
  shows "os_prompt s' = os_prompt s \<or> (\<exists>p txt. dict_get (os_pending s) key = Some p \<and> r = Inr (shape_response req txt) \<and>
    os_prompt s' = commit_turn key (pa_original_user_text p) txt (os_prompt s))"
  using assms
  by (auto simp: handle_write_approval_def pause_iff Let_def split: prod.splits run_result.splits option.splits)

section \<open>Sample values\<close>

definition orch_tool :: "action_state ToolSpec" where
  "orch_tool = (tool ''write_file'' ''sample'' (JObj []) (\<lambda>args ctx. (Inr ''ok'', ctx)))\<lparr>is_read_only := False, is_concurrency_safe := False\<rparr>"

definition orch_registry :: "action_state ToolRegistry" where
  "orch_registry = \<lparr>tools = [(''write_file'', orch_tool)], skipped_toolsets = []\<rparr>"

text \<open>A model that asks for a write, and answers once it has a tool result; \<open>fails\<close> says whether the answer fails.\<close>

definition write_backend :: "bool \<Rightarrow> action_state backend" where
  "write_backend fails req w =
     (if role (last (rq_messages req)) \<noteq> ROLE_TOOL
      then (Inr \<lparr>rs_content = [], finish_reason = ''tool_calls'', rs_tool_calls = [named_call ''c1'' ''write_file'']\<rparr>, w)
      else if fails then (Inl ''boom'', w)
      else (Inr \<lparr>rs_content = ''done'', finish_reason = ''stop'', rs_tool_calls = []\<rparr>, w))"

definition orch_sample :: "bool \<Rightarrow> orch_env" where
  "orch_sample fails = \<lparr>oe_backend = write_backend fails,
     oe_config = \<lparr>oc_model = ''m'', oc_temperature = 7 / 10, oc_max_tokens = 2048, oc_max_thread_history = 50\<rparr>,
     oe_agent_loop = sample_config, oe_gate = WriteApproval, oe_tools = Some orch_registry, oe_audit = None, oe_agent_id = [],
     oe_actions = None, oe_loads = (\<lambda>s. Inr []), oe_schedule = rev, oe_duration = (\<lambda>tc. 0), oe_now = ''now'', oe_category = (\<lambda>err. Some TIMEOUT)\<rparr>"

definition orch_world :: action_state where
  "orch_world = \<lparr>ac_dispatcher = dispatcher_init fin_sample_world, ac_pending = [], ac_request = None\<rparr>"

definition hello_message :: NormalizedRequest where
  "hello_message = \<lparr>nr_text = ''hi'', nr_user_id = ''u'', nr_channel_id = ''c'', nr_source = ''slack'', nr_request_id = ''r1'',
     nr_thread_ts = Some ''t1'', nr_action = None\<rparr>"

definition approve_click :: NormalizedRequest where
  "approve_click = hello_message\<lparr>nr_text := [], nr_request_id := ''r2'', nr_action := Some \<lparr>ap_action_id = ''approve_write'', ap_value = ''t1''\<rparr>\<rparr>"

definition orch_loop :: "bool \<Rightarrow> action_state loop_env" where
  "orch_loop fails = \<lparr>le_infer = write_backend fails, le_registry = orch_registry, le_config = sample_config, le_gate = WriteApproval,
     le_audit = None, le_loads = (\<lambda>s. Inr []), le_schedule = rev, le_duration = (\<lambda>tc. 0)\<rparr>"

lemma orch_sample_loop: "agent_loop (orch_sample fails) = Some (orch_loop fails)"
  by (simp add: agent_loop_def orch_sample_def orch_registry_def orch_loop_def merged_loop_config_def sample_config_def)

lemma orch_loop_fields [simp]:
  "le_infer (orch_loop f) = write_backend f" "le_registry (orch_loop f) = orch_registry" "le_config (orch_loop f) = sample_config"
  "le_gate (orch_loop f) = WriteApproval" "le_audit (orch_loop f) = None" "le_schedule (orch_loop f) = rev"
  by (simp_all add: orch_loop_def)

lemma orch_get_tool: "get_tool orch_registry ''write_file'' = Some orch_tool"
  by (simp add: get_tool_def orch_registry_def dict_get_def)

definition orch_assistant :: Message where
  "orch_assistant = \<lparr>role = ROLE_ASSISTANT, content = [], msg_tool_calls = Some [named_call ''c1'' ''write_file''], tool_call_id = None\<rparr>"

definition orch_pending :: "bool \<Rightarrow> Message list \<Rightarrow> string \<Rightarrow> PendingApproval" where
  "orch_pending fails ms rid = \<lparr>pa_tool_calls = [named_call ''c1'' ''write_file''], pa_working_messages = ms,
     pa_assistant_message = orch_assistant, pa_request_id = rid,
     pa_description = format_write_description (orch_loop fails) [named_call ''c1'' ''write_file''], pa_original_user_text = [], pa_surfaced_tools = []\<rparr>"

lemma orch_first_run:
  "run_loop (orch_loop fails) [text_message ROLE_SYSTEM a, text_message ROLE_USER b] rid key [] st =
     (Paused (orch_pending fails [text_message ROLE_SYSTEM a, text_message ROLE_USER b] rid), st\<lparr>surface := []\<rparr>)"
proof -
  obtain f where fuel: "nat (max_tool_rounds sample_config) = Suc (Suc (Suc f))" by (rule sample_fuel)
  have c: "le_config (orch_loop fails) = sample_config" by simp
  have g: "get_write_tool_calls (orch_loop fails) [named_call ''c1'' ''write_file''] = [named_call ''c1'' ''write_file'']"
    by (simp add: get_write_tool_calls_def named_call_def orch_get_tool orch_tool_def tool_def)
  show ?thesis
    unfolding run_loop_def run_def orch_loop_fields fuel
    by (simp add: short_pass [OF c] Let_def reset_tool_surface_def write_backend_def plain_request_def text_message_def
        g needs_write_approval_def build_assistant_tool_message_def orch_pending_def orch_assistant_def)
qed

lemma orch_batch:
  "execute_tool_calls (orch_loop fails) rid key [named_call ''c1'' ''write_file''] st = ([tool_message ''c1'' ''ok''],
     st\<lparr>tool_names := register_tool_call ''c1'' ''write_file'' (loop_state.tool_names st), executed := executed st @ [named_call ''c1'' ''write_file'']\<rparr>)"
  by (simp add: execute_tool_calls_def concurrency_safe_def named_call_def orch_get_tool execute_one_def execute_def
      orch_tool_def tool_def ToolRegistry.truncate_def DEFAULT_MAX_RESULT_CHARS_def orch_loop_def Let_def)

lemma orch_second_run:
  "run_loop (orch_loop fails) [text_message ROLE_SYSTEM a, text_message ROLE_USER b, orch_assistant, tool_message ''c1'' ''ok''] rid key [] st =
     (if fails then Raised ''boom'' else Answer ''done'', st\<lparr>surface := []\<rparr>)"
proof -
  obtain f where fuel: "nat (max_tool_rounds sample_config) = Suc (Suc (Suc f))" by (rule sample_fuel)
  have c: "le_config (orch_loop fails) = sample_config" by simp
  show ?thesis
    unfolding run_loop_def run_def orch_loop_fields fuel
    by (simp add: short_pass [OF c] Let_def reset_tool_surface_def write_backend_def plain_request_def text_message_def orch_assistant_def
        tool_message_def final_content_def repair_response_def strip_def rstrip_def is_space_def)
qed

definition orch_start :: orchestrator where
  "orch_start = orchestrator_init (orch_sample False) ''id'' orch_world"

definition orch_call :: ToolCall where "orch_call = named_call ''c1'' ''write_file''"

lemma sample_first:
  obtains p s1 where "handle (orch_sample fails) hello_message orch_start = (Inr (build_approval_response hello_message p), s1)"
    "dict_get (os_pending s1) ''t1'' = Some p" "pa_tool_calls p = [orch_call]" "os_executed s1 = []"
    "os_prompt s1 = touch_thread ''t1'' (os_prompt orch_start)" "pa_original_user_text p = ''hi''" "pa_surfaced_tools p = []"
    "pa_assistant_message p = orch_assistant" "\<exists>a b. pa_working_messages p = [text_message ROLE_SYSTEM a, text_message ROLE_USER b]"
    "described (orch_sample fails) p"
proof -
  have k: "thread_key hello_message = ''t1''" by (simp add: thread_key_def hello_message_def or_str_def)
  have a: "\<not> is_action hello_message x" for x by (simp add: is_action_def hello_message_def)
  let ?s = "orch_start\<lparr>os_world := set_request_context (Some (request_context hello_message)) (os_world orch_start)\<rparr>"
  obtain u v where m: "messages_for_inference ''now'' ''t1'' ''hi'' [] ''slack'' (tools_summary (orch_sample fails)) (os_prompt orch_start) =
      ([text_message ROLE_SYSTEM u, text_message ROLE_USER v], touch_thread ''t1'' (os_prompt orch_start))"
    by (simp add: messages_for_inference_def history_with_user_message_def Let_def orch_start_def orchestrator_init_def builder_init_def
        cap_history_def touch_thread_def dict_default_def dict_has_def dict_get_def orch_sample_def dict_simps dict_set_def)
  let ?p = "(orch_pending fails [text_message ROLE_SYSTEM u, text_message ROLE_USER v] ''r1'')\<lparr>pa_original_user_text := ''hi''\<rparr>"
  have f: "oe_now (orch_sample fails) = ''now''" "oe_agent_id (orch_sample fails) = []" "oe_actions (orch_sample fails) = None"
      "nr_text hello_message = ''hi''" "nr_source hello_message = ''slack''" "nr_request_id hello_message = ''r1''"
    by (simp_all add: orch_sample_def hello_message_def)
  have x0: "os_executed orch_start = []" by (simp add: orch_start_def orchestrator_init_def)
  have h: "\<exists>s1. handle_message (orch_sample fails) hello_message ''t1'' ?s = (build_approval_response hello_message ?p, s1) \<and>
      dict_get (os_pending s1) ''t1'' = Some ?p \<and> os_executed s1 = [] \<and> os_prompt s1 = touch_thread ''t1'' (os_prompt orch_start)"
    unfolding handle_message_def f
    by (simp add: m orch_sample_loop orch_first_run pause_def Let_def dict_simps loop_state_of_def x0
        del: approval_response_text)
  then obtain s1 where s1: "handle_message (orch_sample fails) hello_message ''t1'' ?s = (build_approval_response hello_message ?p, s1)"
      "dict_get (os_pending s1) ''t1'' = Some ?p" "os_executed s1 = []" "os_prompt s1 = touch_thread ''t1'' (os_prompt orch_start)" by blast
  have "handle (orch_sample fails) hello_message orch_start = (Inr (build_approval_response hello_message ?p), s1)"
    unfolding handle_def Let_def k f using s1(1) by (simp add: a del: approval_response_text)
  moreover have "described (orch_sample fails) ?p"
    by (simp add: described_def orch_sample_loop orch_pending_def get_write_tool_calls_def named_call_def orch_get_tool orch_tool_def tool_def)
  moreover have "\<exists>a b. pa_working_messages ?p = [text_message ROLE_SYSTEM a, text_message ROLE_USER b]" by (auto simp: orch_pending_def)
  moreover have "pa_tool_calls ?p = [orch_call]" "pa_original_user_text ?p = ''hi''" "pa_surfaced_tools ?p = []" "pa_assistant_message ?p = orch_assistant"
    by (simp_all add: orch_pending_def orch_call_def)
  ultimately show thesis using that [of ?p s1] s1(2-4) by blast
qed

lemma sample_second:
  assumes "dict_get (os_pending s1) ''t1'' = Some p" and "pa_tool_calls p = [orch_call]" and "os_executed s1 = []"
    and "pa_surfaced_tools p = []" and "pa_assistant_message p = orch_assistant"
    and "\<exists>a b. pa_working_messages p = [text_message ROLE_SYSTEM a, text_message ROLE_USER b]"
  shows "\<exists>s2. handle (orch_sample fails) approve_click s1 = (if fails then Inl ''boom'' else Inr (shape_response approve_click ''done''), s2) \<and>
    os_executed s2 = [orch_call] \<and> dict_get (os_pending s2) ''t1'' = None \<and>
    os_prompt s2 = (if fails then os_prompt s1 else commit_turn ''t1'' (pa_original_user_text p) ''done'' (os_prompt s1))"
proof -
  have k: "thread_key approve_click = ''t1''" "is_action approve_click APPROVE_WRITE"
    by (simp_all add: thread_key_def approve_click_def hello_message_def or_str_def is_action_def)
  obtain a b where w: "pa_working_messages p = [text_message ROLE_SYSTEM a, text_message ROLE_USER b]" using assms(6) by blast
  show ?thesis
    unfolding handle_def Let_def k(1)
    by (cases fails)
       (simp_all add: k(2) handle_write_approval_def assms(1-5) w orch_sample_loop orch_batch [folded orch_call_def] orch_second_run
         loop_state_of_def dict_simps)
qed

section \<open>Properties\<close>

text \<open>
  C17: No write without approval, over a whole sequence of requests. Under the write-approval
  gate, for every completion order of gathered calls, every tool call that the registry has
  run after serving any requests from the start is a call of a read-only tool (or of a name
  that is not registered), or a click on Approve in some thread came after a response in
  that same thread that showed a prompt with Approve and Deny buttons, the call is in the
  batch of that prompt, and the text of the prompt described exactly the batch's write calls.
\<close>

theorem writes_were_approved:
  assumes "oe_gate e = WriteApproval" and "\<forall>xs. mset (oe_schedule e xs) = mset xs"
    and "serve e reqs (orchestrator_init e identity w) = (lg, s)"
  shows "\<forall>tc \<in> set (os_executed s). reads_only e tc \<or> was_approved e lg tc"
proof -
  have "approvals_inv e [] (orchestrator_init e identity w)"
    by (simp add: approvals_inv_def orchestrator_init_def dict_get_def)
  from serve_approvals_inv [OF assms this] show ?thesis by (simp add: approvals_inv_def)
qed

theorem writes_were_approved_witness:
  "\<exists>lg s. serve (orch_sample False) [hello_message, approve_click] orch_start = (lg, s) \<and> os_executed s = [orch_call] \<and>
     \<not> reads_only (orch_sample False) orch_call \<and> was_approved (orch_sample False) lg orch_call"
proof -
  obtain p s1 where 1: "handle (orch_sample False) hello_message orch_start = (Inr (build_approval_response hello_message p), s1)"
    and 2: "dict_get (os_pending s1) ''t1'' = Some p" "pa_tool_calls p = [orch_call]" "os_executed s1 = []"
    "pa_surfaced_tools p = []" "pa_assistant_message p = orch_assistant"
    "\<exists>a b. pa_working_messages p = [text_message ROLE_SYSTEM a, text_message ROLE_USER b]"
    by (rule sample_first)
  obtain s2 where 3: "handle (orch_sample False) approve_click s1 = (Inr (shape_response approve_click ''done''), s2)" "os_executed s2 = [orch_call]"
    using sample_second [OF 2, of False] by auto
  obtain lg where l: "serve (orch_sample False) [hello_message, approve_click] orch_start = (lg, s2)"
    using 1 3(1) by simp
  have g: "oe_gate (orch_sample False) = WriteApproval" "\<forall>xs. mset (oe_schedule (orch_sample False) xs) = mset xs"
    by (simp_all add: orch_sample_def)
  have n: "\<not> reads_only (orch_sample False) orch_call"
    by (simp add: reads_only_def orch_sample_def orch_call_def named_call_def orch_get_tool orch_tool_def tool_def)
  from writes_were_approved [OF g l [unfolded orch_start_def]] 3(2) n l show ?thesis by auto
qed

text \<open>
  A prompt is used at most once. After a click on Approve or Deny that was not answered
  with a further prompt, another click on either button in that thread is answered with a
  response that is not posted, and changes nothing but the request context.
\<close>

theorem second_click_suppressed:
  assumes "handle e req s = (r, s1)" and "is_action req APPROVE_WRITE \<or> is_action req DENY_WRITE"
    and "\<forall>p. r \<noteq> Inr (build_approval_response req p)"
    and "is_action req2 APPROVE_WRITE \<or> is_action req2 DENY_WRITE" and "thread_key req2 = thread_key req"
  shows "handle e req2 s1 = (Inr (suppressed req2), s1\<lparr>os_world := set_request_context (Some (request_context req2)) (os_world s1)\<rparr>)"
proof -
  have "dict_get (os_pending s1) (thread_key req) = None"
    using assms(1)
  proof (cases rule: handle_cases)
    case approve
    show ?thesis
    proof (rule ccontr)
      assume "dict_get (os_pending s1) (thread_key req) \<noteq> None"
      then obtain p where "dict_get (os_pending s1) (thread_key req) = Some p" by blast
      from approval_step(2) [OF approve(2) this] assms(3) show False by (simp add: prompted_def)
    qed
  next
    case (deny r')
    then show ?thesis by (auto simp: handle_write_denial_def dict_simps split: option.splits)
  qed (use assms(2) in simp_all)
  then show ?thesis
    using assms(4,5) by (auto simp: handle_def Let_def handle_write_approval_def handle_write_denial_def)
qed

theorem second_click_suppressed_witness:
  "\<exists>p s1 s2. handle (orch_sample False) hello_message orch_start = (Inr (build_approval_response hello_message p), s1) \<and>
     handle (orch_sample False) approve_click s1 = (Inr (shape_response approve_click ''done''), s2) \<and>
     fst (handle (orch_sample False) approve_click s2) = Inr (suppressed approve_click)"
proof -
  obtain p s1 where 1: "handle (orch_sample False) hello_message orch_start = (Inr (build_approval_response hello_message p), s1)"
    and 2: "dict_get (os_pending s1) ''t1'' = Some p" "pa_tool_calls p = [orch_call]" "os_executed s1 = []"
    "pa_surfaced_tools p = []" "pa_assistant_message p = orch_assistant"
    "\<exists>a b. pa_working_messages p = [text_message ROLE_SYSTEM a, text_message ROLE_USER b]"
    by (rule sample_first)
  obtain s2 where 3: "handle (orch_sample False) approve_click s1 = (Inr (shape_response approve_click ''done''), s2)"
    using sample_second [OF 2, of False] by auto
  have a: "is_action approve_click APPROVE_WRITE \<or> is_action approve_click DENY_WRITE"
    by (simp add: is_action_def approve_click_def)
  have n: "\<forall>q. Inr (shape_response approve_click ''done'') \<noteq> (Inr (build_approval_response approve_click q) :: string + RichResponse)"
    by (simp add: shape_response_def build_approval_response_def reply_def)
  from second_click_suppressed [OF 3 a n a refl] 1 3 show ?thesis by auto
qed

text \<open>
  The conversation of a thread records exactly the answered turns. Whatever a request
  does, the stored history of every other thread is unchanged, and that of its own thread
  is unchanged too unless the response is a plain answer; then it is the old history with
  one turn committed: the request's text and the answer, or, after an approval, the text
  of the message that started the approved turn and the answer.
\<close>

theorem history_records_answers:
  assumes "handle e req s = (r, s')"
  shows "(\<forall>k. dict_default (thread_history (os_prompt s')) k [] = dict_default (thread_history (os_prompt s)) k []) \<or>
    (\<exists>user_text txt. r = Inr (shape_response req txt) \<and>
       (user_text = nr_text req \<or> (\<exists>p. is_action req APPROVE_WRITE \<and> dict_get (os_pending s) (thread_key req) = Some p \<and>
          user_text = pa_original_user_text p)) \<and>
       (\<forall>k. dict_default (thread_history (os_prompt s')) k [] =
          dict_default (thread_history (commit_turn (thread_key req) user_text txt (os_prompt s))) k []))"
  using assms
proof (cases rule: handle_cases)
  case approve
  from approval_history [OF approve(2)] consider (same) "os_prompt s' = os_prompt s"
    | (turn) p ans where "dict_get (os_pending s) (thread_key req) = Some p" "r = Inr (shape_response req ans)"
      "os_prompt s' = commit_turn (thread_key req) (pa_original_user_text p) ans (os_prompt s)" by auto
  then show ?thesis
  proof cases
    case turn
    then show ?thesis
      using approve(1) by (intro disjI2 exI [of _ "pa_original_user_text p"] exI [of _ ans]) auto
  qed simp
next
  case (deny r')
  then have "os_prompt s' = os_prompt s" by (auto simp: handle_write_denial_def split: option.splits)
  then show ?thesis by simp
next
  case (button w)
  then show ?thesis by simp
next
  case (message r')
  have "dict_default (thread_history (commit_turn key u a (touch_thread key b))) k [] = dict_default (thread_history (commit_turn key u a b)) k []"
    for key u a k and b by (simp add: commit_turn_history)
  note commit = this
  from message_history [OF message(4)] consider (same) "os_prompt s' = touch_thread (thread_key req) (os_prompt s)"
    | (turn) ans where "r' = shape_response req ans"
      "os_prompt s' = commit_turn (thread_key req) (nr_text req) ans (touch_thread (thread_key req) (os_prompt s))" by auto
  then show ?thesis
  proof cases
    case turn
    then show ?thesis
      using message(3) by (intro disjI2 exI [of _ "nr_text req"] exI [of _ ans]) (simp add: commit)
  qed simp
qed

theorem history_records_answers_witness:
  "\<exists>p s1 s2. handle (orch_sample False) hello_message orch_start = (Inr (build_approval_response hello_message p), s1) \<and>
     handle (orch_sample False) approve_click s1 = (Inr (shape_response approve_click ''done''), s2) \<and>
     (\<exists>u a. dict_default (thread_history (os_prompt s2)) ''t2'' [] = dict_default (thread_history (commit_turn ''t1'' u a (os_prompt s1))) ''t2'' [] \<or>
        dict_default (thread_history (os_prompt s2)) ''t2'' [] = dict_default (thread_history (os_prompt s1)) ''t2'' [])"
proof -
  obtain p s1 where 1: "handle (orch_sample False) hello_message orch_start = (Inr (build_approval_response hello_message p), s1)"
    and 2: "dict_get (os_pending s1) ''t1'' = Some p" "pa_tool_calls p = [orch_call]" "os_executed s1 = []"
    "pa_surfaced_tools p = []" "pa_assistant_message p = orch_assistant"
    "\<exists>a b. pa_working_messages p = [text_message ROLE_SYSTEM a, text_message ROLE_USER b]"
    by (rule sample_first)
  obtain s2 where 3: "handle (orch_sample False) approve_click s1 = (Inr (shape_response approve_click ''done''), s2)"
    using sample_second [OF 2, of False] by auto
  have k: "thread_key approve_click = ''t1''" by (simp add: thread_key_def approve_click_def hello_message_def or_str_def)
  from history_records_answers [OF 3] 1 3 show ?thesis unfolding k by blast
qed

text \<open>
  After a click on Approve the write runs, but a failure of the inference that follows is
  not turned into a response: in this run the approved write has been executed, the prompt
  is used up, the exception reaches the connector unclassified (the same failure of a fresh
  message would be answered as a timeout), and the thread's history holds nothing of the turn.
\<close>

theorem approved_failure_escapes:
  "\<exists>p s1 s2. handle (orch_sample True) hello_message orch_start = (Inr (build_approval_response hello_message p), s1) \<and>
     handle (orch_sample True) approve_click s1 = (Inl ''boom'', s2) \<and> os_executed s2 = [orch_call] \<and>
     dict_get (os_pending s2) ''t1'' = None \<and> dict_default (thread_history (os_prompt s2)) ''t1'' [] = [] \<and>
     oe_category (orch_sample True) ''boom'' = Some TIMEOUT"
proof -
  obtain p s1 where 1: "handle (orch_sample True) hello_message orch_start = (Inr (build_approval_response hello_message p), s1)"
    and 2: "dict_get (os_pending s1) ''t1'' = Some p" "pa_tool_calls p = [orch_call]" "os_executed s1 = []"
    and h: "os_prompt s1 = touch_thread ''t1'' (os_prompt orch_start)"
    and 3: "pa_surfaced_tools p = []" "pa_assistant_message p = orch_assistant"
    "\<exists>a b. pa_working_messages p = [text_message ROLE_SYSTEM a, text_message ROLE_USER b]"
    by (rule sample_first)
  obtain s2 where 4: "handle (orch_sample True) approve_click s1 = (Inl ''boom'', s2)" "os_executed s2 = [orch_call]"
      "dict_get (os_pending s2) ''t1'' = None" "os_prompt s2 = os_prompt s1"
    using sample_second [OF 2 3, of True] by auto
  have "dict_default (thread_history (os_prompt s2)) ''t1'' [] = []"
    by (simp only: 4(4) h touch_thread_frame) (simp add: orch_start_def orchestrator_init_def builder_init_def dict_default_def dict_get_def)
  moreover have "oe_category (orch_sample True) ''boom'' = Some TIMEOUT" by (simp add: orch_sample_def)
  ultimately show ?thesis using 1 4 by blast
qed

text \<open>A backend whose first answer is cut off and whose continuation is empty.\<close>

definition cut_env :: orch_env where
  "cut_env = (orch_sample False)\<lparr>oe_tools := None, oe_backend := (\<lambda>req w. (Inr
     (if length (rq_messages req) = 1 then \<lparr>rs_content = ''first half'', finish_reason = ''length'', rs_tool_calls = []\<rparr>
      else \<lparr>rs_content = [], finish_reason = ''stop'', rs_tool_calls = []\<rparr>), w))\<rparr>"

text \<open>
  Direct inference loses what it has when a continuation comes back empty. The first
  answer is cut off at the token limit and kept as a chunk; the continuation is blank, so
  the repaired fallback text is returned alone and the chunk is dropped, while a
  continuation that stays truncated would have returned it.
\<close>

theorem continuation_drops_chunks:
  "inference_with_repair cut_env ''r'' [text_message ROLE_USER ''hi''] w = (Inr EMPTY_RESPONSE_FALLBACK, w)"
  by (simp add: inference_with_repair_def MAX_CONTINUATION_RETRIES_def cut_env_def call_messages_def repair_response_def
      strip_def rstrip_def is_space_def numeral_3_eq_3 numeral_2_eq_2)

end
