(* ===== verification/Config.thy ===== *)
theory Config
  imports ToolRegistry
begin

text \<open>
  The configuration (\<^verbatim>\<open>config.py\<close>): one section per dataclass, the overlay of a YAML
  file, the secrets and overrides of the process environment, the fields that the agent loop
  takes from other sections, and the check of required values. \<open>setattr\<close> does not look at types, so
  a field holds any value YAML can write. A YAML mapping is an object with text keys.
\<close>

section \<open>Sections and defaults\<close>

type_synonym section_values = "(string, json) dict"
type_synonym AppConfig = "(string, section_values) dict"
type_synonym environ = "(string, string) dict"

definition DEFAULT_INFERENCE_BASE_URL :: string where "DEFAULT_INFERENCE_BASE_URL = ''https://inference.local/v1''"
definition DEFAULT_INFERENCE_MODEL :: string where "DEFAULT_INFERENCE_MODEL = ''azure/anthropic/claude-opus-4-6''"
definition DEFAULT_AUDIT_DB_PATH :: string where "DEFAULT_AUDIT_DB_PATH = ''~/.nemoclaw/audit.db''"

definition SlackConfig :: section_values where
  "SlackConfig = [(''bot_token'', JStr []), (''app_token'', JStr [])]"

definition InferenceConfig :: section_values where
  "InferenceConfig = [(''base_url'', JStr DEFAULT_INFERENCE_BASE_URL), (''api_key'', JStr []),
     (''model'', JStr DEFAULT_INFERENCE_MODEL), (''timeout_s'', JInt 60), (''max_retries'', JInt 3)]"

definition OrchestratorSection :: section_values where
  "OrchestratorSection = [(''model'', JStr DEFAULT_INFERENCE_MODEL), (''system_prompt_path'', JStr ''prompts/system_prompt.md''),
     (''max_thread_history'', JInt 50), (''temperature'', JFloat ''0.7''), (''max_tokens'', JInt 2048)]"

definition AgentLoopSection :: section_values where
  "AgentLoopSection = [(''model'', JStr DEFAULT_INFERENCE_MODEL), (''temperature'', JFloat ''0.7''), (''max_tokens'', JInt 2048),
     (''max_tool_rounds'', JInt 10), (''max_continuation_retries'', JInt 2), (''micro_compaction_chars'', JInt 10000),
     (''compaction_threshold_chars'', JInt 400000), (''compaction_compress_ratio'', JFloat ''0.5''),
     (''compaction_min_keep'', JInt 4), (''compaction_model'', JStr [])]"

definition DelegationSection :: section_values where
  "DelegationSection = [(''enabled'', JBool True), (''max_concurrent'', JInt 4), (''max_spawn_depth'', JInt 1),
     (''task_timeout_s'', JFloat ''300.0''), (''spawn_ready_timeout_s'', JFloat ''10.0''),
     (''spawn_ready_poll_interval_s'', JFloat ''0.1''), (''sub_agent_module'', JStr ''nemoclaw_escapades.agent'')]"

definition LogConfig :: section_values where
  "LogConfig = [(''level'', JStr ''INFO''), (''log_file'', JNull)]"

definition JiraConfig :: section_values where
  "JiraConfig = [(''enabled'', JBool True), (''url'', JStr ''https://jirasw.nvidia.com''), (''auth_header'', JStr [])]"

definition GitLabConfig :: section_values where
  "GitLabConfig = [(''enabled'', JBool True), (''url'', JStr []), (''token'', JStr [])]"

definition GerritConfig :: section_values where
  "GerritConfig = [(''enabled'', JBool True), (''url'', JStr []), (''username'', JStr []), (''http_password'', JStr [])]"

definition ConfluenceConfig :: section_values where
  "ConfluenceConfig = [(''enabled'', JBool True), (''url'', JStr ''https://nvidia.atlassian.net/wiki''), (''username'', JStr []),
     (''api_token'', JStr [])]"

definition SlackSearchConfig :: section_values where
  "SlackSearchConfig = [(''enabled'', JBool True), (''user_token'', JStr [])]"

definition WebSearchConfig :: section_values where
  "WebSearchConfig = [(''enabled'', JBool True), (''api_key'', JStr []), (''jina_api_key'', JStr []), (''default_limit'', JInt 5)]"

definition CodingAgentConfig :: section_values where
  "CodingAgentConfig = [(''enabled'', JBool True), (''workspace_root'', JStr ''~/.nemoclaw/workspace''),
     (''git_clone_allowed_hosts'', JStr [])]"

definition SkillsConfig :: section_values where
  "SkillsConfig = [(''enabled'', JBool True), (''skills_dir'', JStr ''skills'')]"

definition NmbClientConfig :: section_values where
  "NmbClientConfig = [(''broker_url'', JStr ''ws://messages.local:9876''), (''sandbox_id'', JStr [])]"

definition AuditConfig :: section_values where
  "AuditConfig = [(''enabled'', JBool True), (''db_path'', JStr DEFAULT_AUDIT_DB_PATH), (''persist_payloads'', JBool True)]"

definition app_config_init :: AppConfig where
  "app_config_init = [(''slack'', SlackConfig), (''inference'', InferenceConfig), (''orchestrator'', OrchestratorSection),
     (''agent_loop'', AgentLoopSection), (''delegation'', DelegationSection), (''nmb'', NmbClientConfig), (''log'', LogConfig),
     (''audit'', AuditConfig), (''jira'', JiraConfig), (''gitlab'', GitLabConfig), (''gerrit'', GerritConfig),
     (''confluence'', ConfluenceConfig), (''slack_search'', SlackSearchConfig), (''web_search'', WebSearchConfig),
     (''coding'', CodingAgentConfig), (''skills'', SkillsConfig)]"

lemmas section_defs = SlackConfig_def InferenceConfig_def OrchestratorSection_def AgentLoopSection_def DelegationSection_def
  LogConfig_def JiraConfig_def GitLabConfig_def GerritConfig_def ConfluenceConfig_def SlackSearchConfig_def WebSearchConfig_def
  CodingAgentConfig_def SkillsConfig_def NmbClientConfig_def AuditConfig_def

definition section_of :: "AppConfig \<Rightarrow> string \<Rightarrow> section_values" where
  "section_of c n = dict_default c n []"

definition field_of :: "AppConfig \<Rightarrow> string \<Rightarrow> string \<Rightarrow> json" where
  "field_of c n f = dict_default (section_of c n) f JNull"

definition set_field :: "string \<Rightarrow> string \<Rightarrow> json \<Rightarrow> AppConfig \<Rightarrow> AppConfig" where
  "set_field n f v c = dict_set n (dict_set f v (section_of c n)) c"

section \<open>The YAML overlay\<close>

datatype yaml_result = YamlError string | YamlRaise string | Yaml json
datatype config_error = ConfigValueError string | ConfigRaise string

record config_env =
  cv_environ :: environ
  cv_is_file :: "string \<Rightarrow> bool"
  cv_yaml :: "string \<Rightarrow> yaml_result"

definition DIRECT_SECTIONS :: "string list" where
  "DIRECT_SECTIONS = [''inference'', ''orchestrator'', ''agent_loop'', ''delegation'', ''nmb'', ''log'', ''audit'', ''coding'', ''skills'']"

definition TOOLSET_SECTIONS :: "string list" where
  "TOOLSET_SECTIONS = [''jira'', ''gitlab'', ''gerrit'', ''confluence'', ''slack_search'', ''web_search'']"

definition env_value :: "environ \<Rightarrow> string \<Rightarrow> string option" where
  "env_value env var = (case dict_get env var of Some v \<Rightarrow> if v \<noteq> [] then Some v else None | None \<Rightarrow> None)"

definition resolve_yaml_path :: "config_env \<Rightarrow> string option \<Rightarrow> string" where
  "resolve_yaml_path e path = (case path of Some p \<Rightarrow> p | None \<Rightarrow>
     (case env_value (cv_environ e) ''NEMOCLAW_CONFIG_PATH'' of Some p \<Rightarrow> p | None \<Rightarrow> ''/app/config.yaml''))"

text \<open>A section that is not a mapping, and a field the dataclass lacks, only give a warning.\<close>

definition apply_section :: "json \<Rightarrow> section_values \<Rightarrow> section_values" where
  "apply_section v s = (case v of
     JObj kvs \<Rightarrow> fold (\<lambda>(k, x) s'. if k \<in> fst ` set s then dict_set k x s' else s') kvs s
   | _ \<Rightarrow> s)"

definition apply_named :: "json \<Rightarrow> string \<Rightarrow> AppConfig \<Rightarrow> AppConfig" where
  "apply_named overlay n c = (case overlay of
     JObj kvs \<Rightarrow> (case dict_get kvs n of
         Some v \<Rightarrow> if v = JNull then c else dict_set n (apply_section v (section_of c n)) c
       | None \<Rightarrow> c)
   | _ \<Rightarrow> c)"

definition toolsets_of :: "json \<Rightarrow> json" where
  "toolsets_of overlay = (case overlay of JObj kvs \<Rightarrow> dict_default kvs ''toolsets'' JNull | _ \<Rightarrow> JNull)"

definition type_name :: "json \<Rightarrow> string" where
  "type_name v = (case v of JNull \<Rightarrow> ''NoneType'' | JBool _ \<Rightarrow> ''bool'' | JInt _ \<Rightarrow> ''int'' | JFloat _ \<Rightarrow> ''float'' | JStr _ \<Rightarrow> ''str''
     | JList _ \<Rightarrow> ''list'' | JObj _ \<Rightarrow> ''dict'')"

definition overlay_sections :: "json \<Rightarrow> AppConfig \<Rightarrow> AppConfig" where
  "overlay_sections overlay c =
     fold (apply_named (toolsets_of overlay)) TOOLSET_SECTIONS (fold (apply_named overlay) DIRECT_SECTIONS c)"

definition apply_yaml_overlay :: "config_env \<Rightarrow> string option \<Rightarrow> AppConfig \<Rightarrow> config_error + AppConfig" where
  "apply_yaml_overlay e path c =
     (let p = resolve_yaml_path e path in
      if \<not> cv_is_file e p then Inr c
      else case cv_yaml e p of
        YamlError t \<Rightarrow> Inl (ConfigValueError (''Invalid YAML in '' @ p @ '': '' @ t))
      | YamlRaise t \<Rightarrow> Inl (ConfigRaise t)
      | Yaml v \<Rightarrow>
          (let overlay = (if json_truthy v then v else JObj []) in
           case overlay of
             JObj _ \<Rightarrow> Inr (overlay_sections overlay c)
           | _ \<Rightarrow> Inl (ConfigValueError (''Top-level YAML in '' @ p @ '' must be a mapping, got '' @ type_name overlay))))"

section \<open>Environment, agreement of sections, required values\<close>

text \<open>Each secret and override: the variable, the section and the field it sets, in the order of the code.\<close>

definition ENV_SECRETS :: "(string \<times> string \<times> string) list" where
  "ENV_SECRETS =
     [(''SLACK_BOT_TOKEN'', ''slack'', ''bot_token''), (''SLACK_APP_TOKEN'', ''slack'', ''app_token''),
      (''INFERENCE_HUB_API_KEY'', ''inference'', ''api_key''), (''JIRA_AUTH'', ''jira'', ''auth_header''),
      (''GITLAB_TOKEN'', ''gitlab'', ''token''), (''GERRIT_USERNAME'', ''gerrit'', ''username''),
      (''GERRIT_HTTP_PASSWORD'', ''gerrit'', ''http_password''), (''CONFLUENCE_USERNAME'', ''confluence'', ''username''),
      (''CONFLUENCE_API_TOKEN'', ''confluence'', ''api_token''), (''SLACK_USER_TOKEN'', ''slack_search'', ''user_token''),
      (''BRAVE_SEARCH_API_KEY'', ''web_search'', ''api_key''), (''JINA_API_KEY'', ''web_search'', ''jina_api_key'')]"

definition RUNTIME_OVERRIDES :: "(string \<times> string \<times> string) list" where
  "RUNTIME_OVERRIDES = [(''NEMOCLAW_SANDBOX_ID'', ''nmb'', ''sandbox_id''), (''NEMOCLAW_WORKSPACE_ROOT'', ''coding'', ''workspace_root'')]"

definition from_env :: "environ \<Rightarrow> string \<times> string \<times> string \<Rightarrow> AppConfig \<Rightarrow> AppConfig" where
  "from_env env b c = (case b of (var, n, f) \<Rightarrow> (case env_value env var of Some v \<Rightarrow> set_field n f (JStr v) c | None \<Rightarrow> c))"

definition load_secrets_from_env :: "environ \<Rightarrow> AppConfig \<Rightarrow> AppConfig" where
  "load_secrets_from_env env c = fold (from_env env) ENV_SECRETS c"

definition apply_runtime_overrides :: "environ \<Rightarrow> AppConfig \<Rightarrow> AppConfig" where
  "apply_runtime_overrides env c = fold (from_env env) RUNTIME_OVERRIDES c"

text \<open>\<open>==\<close> with a default value, where a whole float equals the integer.\<close>

definition equals_default :: "json \<Rightarrow> json \<Rightarrow> bool" where
  "equals_default v d = (v = d \<or> (case d of JInt i \<Rightarrow> v = JFloat (int_str i @ ''.0'') | _ \<Rightarrow> False))"

definition sync_field :: "string \<times> string \<Rightarrow> AppConfig \<Rightarrow> AppConfig" where
  "sync_field b c = (case b of (f, n) \<Rightarrow>
     if equals_default (field_of c ''agent_loop'' f) (field_of app_config_init ''agent_loop'' f)
     then set_field ''agent_loop'' f (field_of c n f) c else c)"

definition SYNC_FIELDS :: "(string \<times> string) list" where
  "SYNC_FIELDS = [(''model'', ''inference''), (''temperature'', ''orchestrator''), (''max_tokens'', ''orchestrator'')]"

definition sync_agent_loop_prompting_fields :: "AppConfig \<Rightarrow> AppConfig" where
  "sync_agent_loop_prompting_fields c = fold sync_field SYNC_FIELDS c"

definition missing_config :: "AppConfig \<Rightarrow> bool \<Rightarrow> string list" where
  "missing_config c require_slack =
     (if require_slack \<and> \<not> json_truthy (field_of c ''slack'' ''bot_token'') then [''SLACK_BOT_TOKEN''] else []) @
     (if require_slack \<and> \<not> json_truthy (field_of c ''slack'' ''app_token'') then [''SLACK_APP_TOKEN''] else []) @
     (if \<not> json_truthy (field_of c ''inference'' ''base_url'') then [''inference.base_url (YAML)''] else [])"

definition check_required_config :: "AppConfig \<Rightarrow> bool \<Rightarrow> config_error option" where
  "check_required_config c require_slack =
     (let missing = missing_config c require_slack in
      if missing = [] then None
      else Some (ConfigValueError (''Missing required config values: '' @ py_join '', '' missing @ ''. '' @
        ''Set secrets in .env (copy from .env.example) and non-secret '' @
        ''knobs in config/defaults.yaml (or a per-deployment YAML).'')))"

definition load_config :: "config_env \<Rightarrow> string option \<Rightarrow> bool \<Rightarrow> config_error + AppConfig" where
  "load_config e path require_slack =
     (case apply_yaml_overlay e path app_config_init of
        Inl err \<Rightarrow> Inl err
      | Inr c1 \<Rightarrow>
          (let c = sync_agent_loop_prompting_fields
                 (apply_runtime_overrides (cv_environ e) (load_secrets_from_env (cv_environ e) c1)) in
           case check_required_config c require_slack of Some err \<Rightarrow> Inl err | None \<Rightarrow> Inr c))"

definition create_orchestrator_config :: "config_env \<Rightarrow> string option \<Rightarrow> config_error + AppConfig" where
  "create_orchestrator_config e path = load_config e path True"

definition create_coding_agent_config :: "config_env \<Rightarrow> string option \<Rightarrow> config_error + AppConfig" where
  "create_coding_agent_config e path = load_config e path False"

text \<open>\<open>dotenv\<close> is the library's loader: it reads the file into the environment.\<close>

definition load_dotenv_if_present :: "(string \<Rightarrow> bool) \<Rightarrow> (string \<Rightarrow> environ \<Rightarrow> environ) \<Rightarrow> string \<Rightarrow> environ \<Rightarrow> bool \<times> environ" where
  "load_dotenv_if_present is_file dotenv path env = (if \<not> is_file path then (False, env) else (True, dotenv path env))"

definition FALLBACK_SYSTEM_PROMPT :: string where
  "FALLBACK_SYSTEM_PROMPT = ''You are NemoClaw, a helpful AI assistant. '' @ ''Be concise and direct in your responses. '' @
     ''You do not yet have tools or persistent memory.''"

definition load_system_prompt :: "(string \<Rightarrow> bool) \<Rightarrow> (string \<Rightarrow> string + string) \<Rightarrow> string \<Rightarrow> string + string" where
  "load_system_prompt is_file read_text path =
     (if is_file path then (case read_text path of Inl t \<Rightarrow> Inl t | Inr s \<Rightarrow> Inr (strip s)) else Inr FALLBACK_SYSTEM_PROMPT)"

section \<open>The shape of a configuration\<close>

text \<open>The names of the sections with the names of their fields.\<close>

definition shape :: "AppConfig \<Rightarrow> (string \<times> string list) list" where
  "shape c = map (\<lambda>(n, s). (n, map fst s)) c"

definition known :: "AppConfig \<Rightarrow> string \<Rightarrow> string \<Rightarrow> bool" where
  "known c n f = (f \<in> fst ` set (section_of c n))"

lemma dict_set_keys: "k \<in> fst ` set d \<Longrightarrow> map fst (dict_set k v d) = map fst d"
  unfolding dict_set_def by (induction d) auto

lemma section_keys: "map fst (section_of c n) = (case map_of (shape c) n of Some ks \<Rightarrow> ks | None \<Rightarrow> [])"
  by (induction c) (auto simp: section_of_def shape_def dict_default_def dict_get_def)

lemma known_shape: "known c n f \<longleftrightarrow> f \<in> set (case map_of (shape c) n of Some ks \<Rightarrow> ks | None \<Rightarrow> [])"
  by (simp add: known_def section_keys [symmetric])

lemma shape_set: "n \<in> fst ` set c \<Longrightarrow> map fst s = map fst (section_of c n) \<Longrightarrow> shape (dict_set n s c) = shape c"
proof (induction c)
  case (Cons p c)
  then show ?case
    by (cases p; cases "fst p = n") (auto simp: shape_def dict_set_def section_of_def dict_default_def dict_get_def image_iff)
qed simp

lemma known_section: "known c n f \<Longrightarrow> n \<in> fst ` set c"
  by (cases "n \<in> fst ` set c") (auto simp: known_def section_of_def dict_default_def dict_get_def map_of_eq_None_iff [symmetric])

lemma shape_set_field: "known c n f \<Longrightarrow> shape (set_field n f v c) = shape c"
  by (simp add: set_field_def shape_set [OF known_section] dict_set_keys known_def)

lemma field_set_field: "field_of (set_field n f v c) n' f' = (if n' = n \<and> f' = f then v else field_of c n' f')"
  by (simp add: field_of_def set_field_def section_of_def dict_default_def dict_simps)

section \<open>Where a value comes from\<close>

text \<open>The value that an overlay, and the environment, give to a field, if any.\<close>

definition given_in :: "json \<Rightarrow> string \<Rightarrow> string \<Rightarrow> json option" where
  "given_in overlay n f = (case overlay of
     JObj kvs \<Rightarrow> (case dict_get kvs n of Some (JObj fs) \<Rightarrow> map_of (rev fs) f | _ \<Rightarrow> None)
   | _ \<Rightarrow> None)"

definition yaml_field :: "json \<Rightarrow> string \<Rightarrow> string \<Rightarrow> json option" where
  "yaml_field overlay n f =
     (if n \<in> set DIRECT_SECTIONS then given_in overlay n f
      else if n \<in> set TOOLSET_SECTIONS then given_in (toolsets_of overlay) n f else None)"

definition env_field :: "(string \<times> string \<times> string) list \<Rightarrow> environ \<Rightarrow> string \<Rightarrow> string \<Rightarrow> string option" where
  "env_field bs env n f = (case map_of (map (\<lambda>(var, t). (t, var)) bs) (n, f) of Some var \<Rightarrow> env_value env var | None \<Rightarrow> None)"

definition or_else :: "'a option \<Rightarrow> 'a \<Rightarrow> 'a" where
  "or_else x v = (case x of Some y \<Rightarrow> y | None \<Rightarrow> v)"

lemma apply_fields:
  fixes kvs :: "(string \<times> json) list"
  assumes "map fst s = ks"
  shows "map fst (fold (\<lambda>(k, x) s'. if k \<in> set ks then dict_set k x s' else s') kvs s) = ks \<and>
    (f \<in> set ks \<longrightarrow> dict_default (fold (\<lambda>(k, x) s'. if k \<in> set ks then dict_set k x s' else s') kvs s) f JNull =
      or_else (map_of (rev kvs) f) (dict_default s f JNull))"
  using assms
proof (induction kvs arbitrary: s)
  case (Cons kv kvs)
  obtain k x where kv: "kv = (k, x)" by (cases kv)
  show ?case
  proof (cases "k \<in> set ks")
    case True
    then have "map fst (dict_set k x s) = ks" using Cons.prems dict_set_keys [of k s x] by auto
    from Cons.IH [OF this] True show ?thesis
      by (auto simp: kv map_add_def or_else_def dict_default_def dict_simps split: option.splits)
  next
    case False
    with Cons.IH [OF Cons.prems] show ?thesis by (auto simp: kv map_add_def or_else_def split: option.splits)
  qed
qed (simp add: or_else_def)

lemma apply_section_fields:
  "map fst (apply_section v s) = map fst s"
  "f \<in> fst ` set s \<Longrightarrow> dict_default (apply_section v s) f JNull =
     or_else (case v of JObj fs \<Rightarrow> map_of (rev fs) f | _ \<Rightarrow> None) (dict_default s f JNull)"
  using apply_fields [OF refl, of s _ f] by (auto simp: apply_section_def or_else_def split: json.splits)

lemma apply_named_shape: "n \<in> fst ` set c \<Longrightarrow> shape (apply_named overlay n c) = shape c"
  by (auto simp: apply_named_def intro!: shape_set apply_section_fields(1) split: json.splits option.splits)

lemma apply_named_field:
  "known c n' f \<Longrightarrow> field_of (apply_named overlay n c) n' f =
     (if n' = n then or_else (given_in overlay n f) (field_of c n f) else field_of c n' f)"
proof (cases "\<exists>kvs v. overlay = JObj kvs \<and> dict_get kvs n = Some v \<and> v \<noteq> JNull")
  case True
  then obtain kvs v where o: "overlay = JObj kvs" "dict_get kvs n = Some v" "v \<noteq> JNull" by blast
  assume "known c n' f"
  then have k: "n' = n \<Longrightarrow> f \<in> fst ` set (section_of c n)" by (simp add: known_def)
  have "field_of (apply_named overlay n c) n' f = (if n' = n then dict_default (apply_section v (section_of c n)) f JNull else field_of c n' f)"
    using o by (simp add: apply_named_def field_of_def section_of_def dict_default_def dict_simps)
  moreover have "given_in overlay n f = (case v of JObj fs \<Rightarrow> map_of (rev fs) f | _ \<Rightarrow> None)" using o by (simp add: given_in_def)
  ultimately show ?thesis using apply_section_fields(2) [OF k, of v] by (simp add: field_of_def)
next
  case False
  then show ?thesis by (auto simp: apply_named_def given_in_def or_else_def split: json.splits option.splits)
qed

lemma fold_named:
  assumes "set ns \<subseteq> fst ` set (shape c)" and "distinct ns"
  shows "shape (fold (apply_named overlay) ns c) = shape c"
    and "known c n f \<Longrightarrow> field_of (fold (apply_named overlay) ns c) n f =
      (if n \<in> set ns then or_else (given_in overlay n f) (field_of c n f) else field_of c n f)"
proof -
  have keys: "fst ` set (shape d) = fst ` set d" for d by (force simp: shape_def)
  have sh: "shape (fold (apply_named overlay) ns d) = shape d" if "set ns \<subseteq> fst ` set (shape d)" for ns d
    using that
  proof (induction ns arbitrary: d)
    case (Cons m ns)
    then have m: "shape (apply_named overlay m d) = shape d" by (simp add: apply_named_shape keys)
    with Cons.prems have "set ns \<subseteq> fst ` set (shape (apply_named overlay m d))" by simp
    from Cons.IH [OF this] m show ?case by simp
  qed simp
  show "shape (fold (apply_named overlay) ns c) = shape c" using sh assms(1) .
  show "known c n f \<Longrightarrow> field_of (fold (apply_named overlay) ns c) n f =
      (if n \<in> set ns then or_else (given_in overlay n f) (field_of c n f) else field_of c n f)"
    using assms
  proof (induction ns arbitrary: c)
    case (Cons m ns)
    then have m: "shape (apply_named overlay m c) = shape c" by (simp add: apply_named_shape keys)
    then have "known (apply_named overlay m c) n f" using Cons.prems(1) by (simp add: known_shape)
    then show ?case using Cons m by (auto simp: apply_named_field)
  qed simp
qed

lemma fold_env_shape: "list_all (\<lambda>(var, n, f). known c n f) bs \<Longrightarrow> shape (fold (from_env env) bs c) = shape c"
proof (induction bs arbitrary: c)
  case (Cons b bs)
  obtain var n f where b: "b = (var, n, f)" by (cases b)
  with Cons.prems have "shape (from_env env b c) = shape c" by (simp add: from_env_def shape_set_field split: option.splits)
  with Cons show ?case by (simp add: known_shape)
qed simp

lemma fold_env_field:
  "distinct (map snd bs) \<Longrightarrow> field_of (fold (from_env env) bs c) n f = or_else (map_option JStr (env_field bs env n f)) (field_of c n f)"
proof (induction bs arbitrary: c)
  case (Cons b bs)
  obtain var n' f' where b: "b = (var, n', f')" by (cases b)
  have "(n', f') \<notin> fst ` set (map (\<lambda>(v, t). (t, v)) bs)" using Cons.prems by (force simp: b)
  then have "map_of (map (\<lambda>(v, t). (t, v)) bs) (n', f') = None" by (rule map_of_eq_None_iff [THEN iffD2])
  then have "env_field bs env n' f' = None" by (simp only: env_field_def option.case)
  with Cons show ?case
    by (auto simp: b from_env_def env_field_def field_set_field or_else_def split: option.splits)
qed (simp add: env_field_def or_else_def)

section \<open>Properties\<close>

text \<open>The overlay a load reads, and the value it should give to a field before the sections are made to agree.\<close>

definition overlay_read :: "config_env \<Rightarrow> string option \<Rightarrow> json" where
  "overlay_read e path = (if cv_is_file e (resolve_yaml_path e path)
     then (case cv_yaml e (resolve_yaml_path e path) of Yaml v \<Rightarrow> if json_truthy v then v else JObj [] | _ \<Rightarrow> JObj [])
     else JObj [])"

definition configured_value :: "config_env \<Rightarrow> string option \<Rightarrow> string \<Rightarrow> string \<Rightarrow> json" where
  "configured_value e path n f =
     or_else (map_option JStr (env_field (ENV_SECRETS @ RUNTIME_OVERRIDES) (cv_environ e) n f))
       (or_else (yaml_field (overlay_read e path) n f) (field_of app_config_init n f))"

lemma init_keys: "set DIRECT_SECTIONS \<subseteq> fst ` set (shape app_config_init)" "set TOOLSET_SECTIONS \<subseteq> fst ` set (shape app_config_init)"
  by (simp_all add: DIRECT_SECTIONS_def TOOLSET_SECTIONS_def shape_def app_config_init_def)

lemma init_known:
  "list_all (\<lambda>(var, n, f). known app_config_init n f) (ENV_SECRETS @ RUNTIME_OVERRIDES)"
  "list_all (\<lambda>(f, n). known app_config_init ''agent_loop'' f \<and> known app_config_init n f \<and> n \<noteq> ''agent_loop'') SYNC_FIELDS"
  by (simp_all add: ENV_SECRETS_def RUNTIME_OVERRIDES_def SYNC_FIELDS_def known_shape shape_def app_config_init_def section_defs)

lemma env_distinct: "distinct (map snd (ENV_SECRETS @ RUNTIME_OVERRIDES))"
  by (simp add: ENV_SECRETS_def RUNTIME_OVERRIDES_def)

lemma overlay_result:
  assumes "apply_yaml_overlay e path app_config_init = Inr c"
  shows "shape c = shape app_config_init" and "known app_config_init n f \<Longrightarrow>
    field_of c n f = or_else (yaml_field (overlay_read e path) n f) (field_of app_config_init n f)"
proof -
  let ?o = "overlay_read e path"
  let ?d = "fold (apply_named ?o) DIRECT_SECTIONS app_config_init"
  have none: "overlay_sections (JObj []) app_config_init = app_config_init"
    by (simp add: overlay_sections_def toolsets_of_def apply_named_def DIRECT_SECTIONS_def TOOLSET_SECTIONS_def dict_default_def)
  have c: "c = overlay_sections ?o app_config_init"
    using assms none by (auto simp: apply_yaml_overlay_def overlay_read_def Let_def split: if_splits yaml_result.splits json.splits)
  have dist: "distinct DIRECT_SECTIONS" "distinct TOOLSET_SECTIONS" "set DIRECT_SECTIONS \<inter> set TOOLSET_SECTIONS = {}"
    by (simp_all add: DIRECT_SECTIONS_def TOOLSET_SECTIONS_def)
  note d = fold_named [OF init_keys(1) dist(1), where overlay = ?o]
  note t = fold_named [OF init_keys(2) [folded d(1)] dist(2), where overlay = "toolsets_of ?o"]
  show "shape c = shape app_config_init" by (simp add: c overlay_sections_def t(1) d(1))
  assume k: "known app_config_init n f"
  then have "known ?d n f" using d(1) by (simp add: known_shape)
  then show "field_of c n f = or_else (yaml_field ?o n f) (field_of app_config_init n f)"
    using t(2) d(2) [OF k] dist(3) by (auto simp: c overlay_sections_def yaml_field_def or_else_def [of None])
qed

lemma sync_shape: "shape c = shape app_config_init \<Longrightarrow> shape (sync_agent_loop_prompting_fields c) = shape app_config_init"
proof -
  have "shape (fold sync_field bs c) = shape c" if "list_all (\<lambda>(f, n). known c ''agent_loop'' f) bs" for bs c
    using that
  proof (induction bs arbitrary: c)
    case (Cons b bs)
    then have "shape (sync_field b c) = shape c" by (auto simp: sync_field_def shape_set_field split: prod.splits)
    with Cons show ?case by (simp add: known_shape)
  qed simp
  moreover assume "shape c = shape app_config_init"
  ultimately show ?thesis
    using init_known(2) by (auto simp: sync_agent_loop_prompting_fields_def known_shape list_all_iff split: prod.splits)
qed

lemma sync_fields:
  "field_of (sync_agent_loop_prompting_fields c) n f =
     (case map_of SYNC_FIELDS f of
        Some src \<Rightarrow> if n = ''agent_loop'' \<and> equals_default (field_of c n f) (field_of app_config_init n f) then field_of c src f
                    else field_of c n f
      | None \<Rightarrow> field_of c n f)"
  by (auto simp: sync_agent_loop_prompting_fields_def SYNC_FIELDS_def sync_field_def field_set_field)

text \<open>The value a field has once the sections agree.\<close>

definition expected_value :: "config_env \<Rightarrow> string option \<Rightarrow> string \<Rightarrow> string \<Rightarrow> json" where
  "expected_value e path n f =
     (case map_of SYNC_FIELDS f of
        Some src \<Rightarrow> if n = ''agent_loop'' \<and> equals_default (configured_value e path n f) (field_of app_config_init n f)
                    then configured_value e path src f else configured_value e path n f
      | None \<Rightarrow> configured_value e path n f)"

lemma prepared_config:
  assumes c1: "apply_yaml_overlay e path app_config_init = Inr c1"
    and c: "c = sync_agent_loop_prompting_fields (apply_runtime_overrides (cv_environ e) (load_secrets_from_env (cv_environ e) c1))"
  shows "shape c = shape app_config_init" and "known app_config_init n f \<Longrightarrow> field_of c n f = expected_value e path n f"
proof -
  define d where "d = fold (from_env (cv_environ e)) (ENV_SECRETS @ RUNTIME_OVERRIDES) c1"
  have cd: "c = sync_agent_loop_prompting_fields d"
    by (simp add: c d_def apply_runtime_overrides_def load_secrets_from_env_def)
  note o = overlay_result [OF c1]
  have "shape d = shape c1"
    unfolding d_def by (rule fold_env_shape) (use init_known(1) o(1) in \<open>simp add: known_shape\<close>)
  with o(1) cd sync_shape show "shape c = shape app_config_init" by simp
  have v: "field_of d n f = configured_value e path n f" if "known app_config_init n f" for n f
    unfolding d_def fold_env_field [OF env_distinct] using o(2) [OF that] by (simp only: configured_value_def)
  have src: "map_of SYNC_FIELDS f = Some n' \<Longrightarrow> known app_config_init n' f" for n'
    using init_known(2) by (auto simp: list_all_iff dest!: map_of_SomeD)
  show "known app_config_init n f \<Longrightarrow> field_of c n f = expected_value e path n f"
    using v [of n f] v [OF src]
    by (cases "map_of SYNC_FIELDS f"; cases "n = ''agent_loop''") (simp_all add: cd sync_fields expected_value_def)
qed

text \<open>
  C28: Loading keeps the shape of the configuration and takes every value from the right
  place. A configuration that loads has exactly the sections and fields of the dataclasses,
  whatever the YAML file says. The value of a field is the non-empty environment variable that
  is bound to it, else the value in the YAML file (the last of a repeated key, in the section or under
  toolsets), else the default; and the model, temperature and token limit of the agent loop, when that
  value equals the default, are those of the inference and orchestrator sections.
\<close>

theorem config_sources:
  assumes "load_config e path slack = Inr c"
  shows "shape c = shape app_config_init \<and> (known app_config_init n f \<longrightarrow> field_of c n f = expected_value e path n f)"
proof -
  from assms obtain c1 where c1: "apply_yaml_overlay e path app_config_init = Inr c1"
    and c: "c = sync_agent_loop_prompting_fields (apply_runtime_overrides (cv_environ e) (load_secrets_from_env (cv_environ e) c1))"
    by (auto simp: load_config_def Let_def split: sum.splits option.splits)
  from prepared_config [OF this] show ?thesis by blast
qed

text \<open>What decides whether a configuration loads.\<close>

lemma load_succeeds:
  "(\<exists>c. load_config e path slack = Inr c) \<longleftrightarrow> (\<exists>c1. apply_yaml_overlay e path app_config_init = Inr c1) \<and>
     json_truthy (expected_value e path ''inference'' ''base_url'') \<and>
     (slack \<longrightarrow> (\<forall>f \<in> {''bot_token'', ''app_token''}. json_truthy (expected_value e path ''slack'' f)))"
proof (cases "apply_yaml_overlay e path app_config_init")
  case (Inr c1)
  have "known app_config_init ''inference'' ''base_url''" "known app_config_init ''slack'' ''bot_token''"
    "known app_config_init ''slack'' ''app_token''"
    by (simp_all add: known_shape shape_def app_config_init_def section_defs)
  note v = this [THEN prepared_config(2) [OF Inr refl]]
  have e: "(if c then [x] else []) = [] \<longleftrightarrow> \<not> c" for c and x :: string by simp
  show ?thesis unfolding load_config_def Inr sum.case Let_def check_required_config_def missing_config_def append_is_Nil_conv e v
    by simp
qed (simp add: load_config_def)

definition yaml_readable :: "config_env \<Rightarrow> string option \<Rightarrow> bool" where
  "yaml_readable e path = (let p = resolve_yaml_path e path in
     if cv_is_file e p then (case cv_yaml e p of
       Yaml v \<Rightarrow> if json_truthy v then (case v of JObj _ \<Rightarrow> True | _ \<Rightarrow> False) else True | _ \<Rightarrow> False) else True)"

text \<open>
  The secrets of the connector come from the environment alone. The orchestrator's
  configuration loads exactly when the YAML file (if there is one) is a mapping or empty, the
  inference URL is not blank, and both Slack variables are set and not empty; no YAML file
  can supply or remove them. A sub-agent's configuration needs only the first two.
\<close>

theorem config_required:
  "((\<exists>c. create_orchestrator_config e path = Inr c) \<longleftrightarrow>
      (\<exists>c. create_coding_agent_config e path = Inr c) \<and>
      env_value (cv_environ e) ''SLACK_BOT_TOKEN'' \<noteq> None \<and> env_value (cv_environ e) ''SLACK_APP_TOKEN'' \<noteq> None) \<and>
   ((\<exists>c. create_coding_agent_config e path = Inr c) \<longleftrightarrow>
      yaml_readable e path \<and>
      json_truthy (or_else (yaml_field (overlay_read e path) ''inference'' ''base_url'') (JStr DEFAULT_INFERENCE_BASE_URL)))"
proof -
  have sync: "map_of SYNC_FIELDS ''bot_token'' = None" "map_of SYNC_FIELDS ''app_token'' = None" "map_of SYNC_FIELDS ''base_url'' = None"
    by code_simp+
  have env: "env_field (ENV_SECRETS @ RUNTIME_OVERRIDES) v ''slack'' ''bot_token'' = env_value v ''SLACK_BOT_TOKEN''"
    "env_field (ENV_SECRETS @ RUNTIME_OVERRIDES) v ''slack'' ''app_token'' = env_value v ''SLACK_APP_TOKEN''"
    "env_field (ENV_SECRETS @ RUNTIME_OVERRIDES) v ''inference'' ''base_url'' = None" for v
    by (simp_all add: env_field_def ENV_SECRETS_def RUNTIME_OVERRIDES_def)
  have default: "field_of app_config_init ''slack'' ''bot_token'' = JStr []" "field_of app_config_init ''slack'' ''app_token'' = JStr []"
    "field_of app_config_init ''inference'' ''base_url'' = JStr DEFAULT_INFERENCE_BASE_URL"
    by (simp_all add: field_of_def section_of_def app_config_init_def SlackConfig_def InferenceConfig_def dict_default_def dict_get_def)
  have none: "yaml_field v ''slack'' f = None" for v f by (simp add: yaml_field_def DIRECT_SECTIONS_def TOOLSET_SECTIONS_def)
  have truthy: "json_truthy (or_else (map_option JStr (env_value v var)) (JStr [])) \<longleftrightarrow> env_value v var \<noteq> None" for v var
    by (auto simp: env_value_def or_else_def split: option.splits)
  have or_none: "or_else None x = x" for x :: json by (simp add: or_else_def)
  have slack: "json_truthy (expected_value e path ''slack'' ''bot_token'') \<longleftrightarrow> env_value (cv_environ e) ''SLACK_BOT_TOKEN'' \<noteq> None"
    "json_truthy (expected_value e path ''slack'' ''app_token'') \<longleftrightarrow> env_value (cv_environ e) ''SLACK_APP_TOKEN'' \<noteq> None"
    unfolding expected_value_def configured_value_def sync env default none or_none option.case truthy by (rule refl)+
  have url: "expected_value e path ''inference'' ''base_url'' =
      or_else (yaml_field (overlay_read e path) ''inference'' ''base_url'') (JStr DEFAULT_INFERENCE_BASE_URL)"
    unfolding expected_value_def configured_value_def sync env default option.case option.map or_none by (rule refl)
  have yaml: "(\<exists>c1. apply_yaml_overlay e path app_config_init = Inr c1) \<longleftrightarrow> yaml_readable e path"
    by (auto simp: apply_yaml_overlay_def yaml_readable_def Let_def split: yaml_result.splits json.splits if_splits)
  show ?thesis
    unfolding create_orchestrator_config_def create_coding_agent_config_def load_succeeds yaml url ball_simps slack by blast
qed

definition yaml_sample :: config_env where
  "yaml_sample = \<lparr>cv_environ = [(''JIRA_AUTH'', ''Basic x''), (''SLACK_BOT_TOKEN'', ''b''), (''SLACK_APP_TOKEN'', ''a'')],
     cv_is_file = (\<lambda>p. True), cv_yaml = (\<lambda>p. Yaml (JObj
       [(''inference'', JObj [(''model'', JStr ''small''), (''colour'', JStr ''red'')]), (''slack'', JObj [(''bot_token'', JStr ''y'')]),
        (''agent_loop'', JObj [(''model'', JStr DEFAULT_INFERENCE_MODEL), (''max_tokens'', JInt 100)]),
        (''toolsets'', JObj [(''jira'', JObj [(''auth_header'', JStr ''no''), (''enabled'', JBool False)])])]))\<rparr>"

text \<open>A model pinned to the default value is replaced; a secret in the file, or an unknown field, is not taken over.\<close>

theorem config_sources_witness:
  "\<exists>c. load_config yaml_sample None True = Inr c \<and> shape c = shape app_config_init \<and>
     field_of c ''jira'' ''auth_header'' = JStr ''Basic x'' \<and> field_of c ''jira'' ''enabled'' = JBool False \<and>
     field_of c ''slack'' ''bot_token'' = JStr ''b'' \<and> field_of c ''agent_loop'' ''max_tokens'' = JInt 100 \<and>
     field_of c ''agent_loop'' ''model'' = JStr ''small''"
proof -
  let ?v = "expected_value yaml_sample None"
  have v: "?v ''jira'' ''auth_header'' = JStr ''Basic x''" "?v ''jira'' ''enabled'' = JBool False" "?v ''slack'' ''bot_token'' = JStr ''b''"
    "?v ''agent_loop'' ''max_tokens'' = JInt 100" "?v ''agent_loop'' ''model'' = JStr ''small''"
    "?v ''slack'' ''app_token'' = JStr ''a''" "?v ''inference'' ''base_url'' = JStr ''https://inference.local/v1''"
    by code_simp+
  have k: "known app_config_init ''jira'' ''auth_header''" "known app_config_init ''jira'' ''enabled''"
    "known app_config_init ''slack'' ''bot_token''" "known app_config_init ''agent_loop'' ''max_tokens''"
    "known app_config_init ''agent_loop'' ''model''"
    by (simp_all add: known_shape shape_def app_config_init_def section_defs)
  have "\<exists>c1. apply_yaml_overlay yaml_sample None app_config_init = Inr c1" by (simp add: apply_yaml_overlay_def yaml_sample_def)
  then have "\<exists>c. load_config yaml_sample None True = Inr c" unfolding load_succeeds using v by simp
  then obtain c where c: "load_config yaml_sample None True = Inr c" ..
  have s: "shape c = shape app_config_init" "known app_config_init n f \<Longrightarrow> field_of c n f = ?v n f" for n f
    using config_sources [OF c] by blast+
  have "field_of c ''jira'' ''auth_header'' = JStr ''Basic x''"
    "field_of c ''jira'' ''enabled'' = JBool False" "field_of c ''slack'' ''bot_token'' = JStr ''b''"
    "field_of c ''agent_loop'' ''max_tokens'' = JInt 100" "field_of c ''agent_loop'' ''model'' = JStr ''small''"
    using k [THEN s(2)] unfolding v .
  with s(1) c show ?thesis by blast
qed

end
