(* ===== verification/ServiceCore.thy ===== *)
theory ServiceCore
  imports ToolRegistry
begin

text \<open>
  What the clients of the external services (\<^verbatim>\<open>tools/gitlab.py\<close>, \<^verbatim>\<open>tools/jira.py\<close>,
  \<^verbatim>\<open>tools/gerrit.py\<close>, \<^verbatim>\<open>tools/confluence.py\<close>, \<^verbatim>\<open>tools/slack_search.py\<close>,
  \<^verbatim>\<open>tools/web_search.py\<close>) share: Python's view of decoded JSON arguments, URL quoting,
  operations that send HTTP requests and may raise, and the shape of a tool.

  Arguments reach a tool as JSON values of any type, since Python does not check annotations;
  the model passes them on in the same way. An operation is a function of the world that
  returns the text of an exception or a value. The HTTP library, \<open>json.loads\<close>, the UTF-8
  decoder and the texts of the interpreter's own exceptions are fields of \<open>http_env\<close>. A client's
  lazily created connection pool and its \<open>close\<close> are left out: base address, headers and
  credentials are part of every request.
\<close>

text \<open>Quotes and the backslash, which the literals of the theories cannot hold.\<close>

definition SQ :: string where "SQ = [CHR 0x27]"
definition DQ :: string where "DQ = [CHR 0x22]"
definition BS :: string where "BS = [CHR 0x5C]"

section \<open>JSON values as Python values\<close>

text \<open>\<open>v or None\<close>, and \<open>if v: d[k] = x\<close> for a key that is not yet present.\<close>

definition or_none :: "json \<Rightarrow> json" where
  "or_none v = (if json_truthy v then v else JNull)"

definition field_if :: "bool \<Rightarrow> string \<Rightarrow> json \<Rightarrow> (string \<times> json) list" where
  "field_if c k v = (if c then [(k, v)] else [])"

text \<open>\<open>json.dumps(v, indent=2)\<close>, nested \<open>n\<close> levels deep.\<close>

definition line_break :: "nat \<Rightarrow> string" where
  "line_break n = newline @ replicate (2 * n) CHR '' ''"

fun dumps_indent :: "nat \<Rightarrow> json \<Rightarrow> string" where
  "dumps_indent n (JList xs) = (if xs = [] then ''[]'' else
     ''['' @ line_break (Suc n) @ py_join ('','' @ line_break (Suc n)) (map (dumps_indent (Suc n)) xs) @ line_break n @ '']'')"
| "dumps_indent n (JObj kvs) = (if kvs = [] then ''{}'' else
     ''{'' @ line_break (Suc n) @ py_join ('','' @ line_break (Suc n))
       (map (\<lambda>kv. json_quote (fst kv) @ '': '' @ dumps_indent (Suc n) (snd kv)) kvs) @ line_break n @ ''}'')"
| "dumps_indent n v = json_dumps v"

definition format_json :: "json \<Rightarrow> string" where
  "format_json v = dumps_indent 0 v"

text \<open>\<open>s.split(c)\<close> for a one-character separator, and \<open>s.rstrip(chars)\<close>.\<close>

fun split_on :: "char \<Rightarrow> string \<Rightarrow> string list" where
  "split_on c [] = [[]]"
| "split_on c (x # s) = (if x = c then [] # split_on c s
     else case split_on c s of [] \<Rightarrow> [[x]] | p # ps \<Rightarrow> (x # p) # ps)"

definition rstrip_chars :: "string \<Rightarrow> string \<Rightarrow> string" where
  "rstrip_chars chars s = rev (dropWhile (\<lambda>c. c \<in> set chars) (rev s))"

text \<open>\<open>s.split()\<close>: the words between white space.\<close>

fun words_from :: "string \<Rightarrow> string \<Rightarrow> string list" where
  "words_from acc [] = (if acc = [] then [] else [rev acc])"
| "words_from acc (c # s) =
     (if is_space c then (if acc = [] then [] else [rev acc]) @ words_from [] s else words_from (c # acc) s)"

definition py_words :: "string \<Rightarrow> string list" where
  "py_words s = words_from [] s"

section \<open>Requests and operations\<close>

record http_request =
  hq_method :: string
  hq_base :: string
  hq_endpoint :: string
  hq_params :: "(string \<times> json) list"
  hq_body :: "json option"
  hq_headers :: "(string \<times> string) list"
  hq_auth :: "(string \<times> string) option"

record http_response =
  hs_status :: int
  hs_text :: string
  hs_headers :: "(string \<times> string) list"

text \<open>\<open>he_raise n v\<close> is the text of the exception when the value \<open>v\<close> does not have the type that
  the expression named \<open>n\<close> needs; \<open>he_int\<close> is \<open>int(s)\<close>.\<close>

record 'w http_env =
  he_send :: "http_request \<Rightarrow> 'w \<Rightarrow> (string + http_response) \<times> 'w"
  he_loads :: "string \<Rightarrow> string + json"
  he_decode :: "string \<Rightarrow> string"
  he_int :: "string \<Rightarrow> string + int"
  he_raise :: "string \<Rightarrow> json \<Rightarrow> string"
  he_bind_error :: "string \<Rightarrow> kwargs \<Rightarrow> string"

type_synonym ('w, 'a) op = "'w \<Rightarrow> (string + 'a) \<times> 'w"

definition op_return :: "'a \<Rightarrow> ('w, 'a) op" where "op_return x w = (Inr x, w)"
definition op_raise :: "string \<Rightarrow> ('w, 'a) op" where "op_raise t w = (Inl t, w)"

definition op_bind :: "('w, 'a) op \<Rightarrow> ('a \<Rightarrow> ('w, 'b) op) \<Rightarrow> ('w, 'b) op" where
  "op_bind m k w = (case m w of (Inl t, w') \<Rightarrow> (Inl t, w') | (Inr x, w') \<Rightarrow> k x w')"

definition op_of :: "string + 'a \<Rightarrow> ('w, 'a) op" where
  "op_of r w = (r, w)"

text \<open>\<open>await client.request(...)\<close>, whose exceptions the clients do not catch.\<close>

definition op_send :: "'w http_env \<Rightarrow> http_request \<Rightarrow> ('w, http_response) op" where
  "op_send e rq w = he_send e rq w"

definition HTTP_ERROR_THRESHOLD :: int where "HTTP_ERROR_THRESHOLD = 400"
definition ERROR_BODY_MAX_CHARS :: int where "ERROR_BODY_MAX_CHARS = 500"

definition error_dict :: "string \<Rightarrow> json" where
  "error_dict t = JObj [(''error'', JStr t)]"

definition status_error :: "string \<Rightarrow> http_response \<Rightarrow> json" where
  "status_error name r = JObj [(''error'', JStr (name @ '' API returned '' @ int_str (hs_status r))),
     (''status_code'', JInt (hs_status r)), (''body'', JStr (slice_to ERROR_BODY_MAX_CHARS (hs_text r)))]"

text \<open>
  Requests that change nothing on the server: \<open>GET\<close>, and the one \<open>POST\<close> among the reading
  tools, Jira's query.
\<close>

definition read_request :: "http_request \<Rightarrow> bool" where
  "read_request rq = (hq_method rq = ''GET'' \<or> hq_method rq = ''POST'' \<and> hq_endpoint rq = ''/rest/api/2/search'')"

text \<open>What an operation may send: the world afterwards is reached by allowed requests only.\<close>

inductive http_step :: "'w http_env \<Rightarrow> (http_request \<Rightarrow> bool) \<Rightarrow> 'w \<Rightarrow> 'w \<Rightarrow> bool" for e A where
  sends: "A rq \<Longrightarrow> http_step e A w (snd (he_send e rq w))"

definition sends_only :: "'w http_env \<Rightarrow> (http_request \<Rightarrow> bool) \<Rightarrow> ('w, 'a) op \<Rightarrow> bool" where
  "sends_only e A m = (\<forall>w. (http_step e A)\<^sup>*\<^sup>* w (snd (m w)))"

named_theorems sends_rules \<open>which requests an operation may send\<close>

lemma sends_return [sends_rules]: "sends_only e A (op_return x)"
  by (simp add: sends_only_def op_return_def)

lemma sends_raise [sends_rules]: "sends_only e A (op_raise t)"
  by (simp add: sends_only_def op_raise_def)

lemma sends_of [sends_rules]: "sends_only e A (op_of r)"
  by (simp add: sends_only_def op_of_def)

lemma sends_send [sends_rules]: "A rq \<Longrightarrow> sends_only e A (op_send e rq)"
  by (auto simp: sends_only_def op_send_def intro: sends)

lemma sends_bind [sends_rules]:
  assumes "sends_only e A m" and "\<And>x. sends_only e A (k x)"
  shows "sends_only e A (op_bind m k)"
  unfolding sends_only_def
proof
  fix w
  show "(http_step e A)\<^sup>*\<^sup>* w (snd (op_bind m k w))"
  proof (cases "m w")
    case (Pair r w')
    with assms(1) have "(http_step e A)\<^sup>*\<^sup>* w w'" by (metis sends_only_def snd_conv)
    moreover have "(http_step e A)\<^sup>*\<^sup>* w' (snd (k x w'))" for x using assms(2) by (simp add: sends_only_def)
    ultimately show ?thesis using Pair by (cases r) (auto simp: op_bind_def intro: rtranclp_trans)
  qed
qed

lemma sends_if [sends_rules]:
  "(c \<Longrightarrow> sends_only e A m) \<Longrightarrow> (\<not> c \<Longrightarrow> sends_only e A m') \<Longrightarrow> sends_only e A (if c then m else m')"
  by simp

lemma sends_keeps: "sends_only e A m \<Longrightarrow> (\<And>rq w. A rq \<Longrightarrow> P w \<Longrightarrow> P (snd (he_send e rq w))) \<Longrightarrow> P w \<Longrightarrow> P (snd (m w))"
proof -
  assume "sends_only e A m" and step: "\<And>rq w. A rq \<Longrightarrow> P w \<Longrightarrow> P (snd (he_send e rq w))" and "P w"
  then have "(http_step e A)\<^sup>*\<^sup>* w (snd (m w))" by (simp add: sends_only_def)
  then show ?thesis using \<open>P w\<close> by (induction rule: rtranclp_induct) (auto elim!: http_step.cases intro: step)
qed

section \<open>URL quoting\<close>

text \<open>The UTF-8 bytes of a string of Latin-1 characters, each byte a character.\<close>

definition utf8_char :: "char \<Rightarrow> string" where
  "utf8_char c = (let n = (of_char c :: nat) in
     if n < 128 then [c] else [char_of (192 + n div 64), char_of (128 + n mod 64)])"

definition utf8 :: "string \<Rightarrow> string" where
  "utf8 s = concat (map utf8_char s)"

definition unreserved :: "char \<Rightarrow> bool" where
  "unreserved c = (c \<in> set (''ABCDEFGHIJKLMNOPQRSTUVWXYZabcdefghijklmnopqrstuvwxyz0123456789_.-~''))"

definition upper_hex :: "nat \<Rightarrow> char" where
  "upper_hex n = ''0123456789ABCDEF'' ! n"

definition quote_byte :: "char \<Rightarrow> string" where
  "quote_byte b = (if unreserved b then [b] else
     [CHR ''%'', upper_hex (of_char b div 16), upper_hex (of_char b mod 16)])"

text \<open>\<open>urllib.parse.quote(s, safe="")\<close>.\<close>

definition url_quote :: "string \<Rightarrow> string" where
  "url_quote s = concat (map quote_byte (utf8 s))"

definition hex_value :: "char \<Rightarrow> nat option" where
  "hex_value c = (let n = (of_char c :: nat) in
     if 48 \<le> n \<and> n \<le> 57 then Some (n - 48)
     else if 65 \<le> n \<and> n \<le> 70 then Some (n - 55)
     else if 97 \<le> n \<and> n \<le> 102 then Some (n - 87)
     else None)"

text \<open>\<open>unquote_to_bytes\<close>; a percent sign without two hexadecimal digits stays.\<close>

fun percent_bytes :: "string \<Rightarrow> string" where
  "percent_bytes (c # a # b # s) =
     (if c = CHR ''%'' then
        (case (hex_value a, hex_value b) of
           (Some x, Some y) \<Rightarrow> char_of (16 * x + y) # percent_bytes s
         | _ \<Rightarrow> c # percent_bytes (a # b # s))
      else c # percent_bytes (a # b # s))"
| "percent_bytes s = s"

definition is_ascii :: "char \<Rightarrow> bool" where
  "is_ascii c = ((of_char c :: nat) < 128)"

text \<open>\<open>unquote\<close>: each maximal run of ASCII characters is decoded on its own.\<close>

function unquote_runs :: "(string \<Rightarrow> string) \<Rightarrow> string \<Rightarrow> string" where
  "unquote_runs dec [] = []"
| "unquote_runs dec (c # s) =
     (if is_ascii c then dec (percent_bytes (c # takeWhile is_ascii s)) @ unquote_runs dec (dropWhile is_ascii s)
      else c # unquote_runs dec s)"
  by pat_completeness auto

termination
  by (relation "measure (length \<circ> snd)") (auto simp: less_Suc_eq_le length_dropWhile_le)

definition url_unquote :: "(string \<Rightarrow> string) \<Rightarrow> string \<Rightarrow> string" where
  "url_unquote dec s = (if CHR ''%'' \<in> set s then unquote_runs dec s else s)"

lemma below_16: "n < 16 \<Longrightarrow> n \<in> {0,1,2,3,4,5,6,7,8,9,10,11,12,13,14,15::nat}"
  by (simp add: numeral_eq_Suc less_Suc_eq)

lemma hex_roundtrip: "n < 16 \<Longrightarrow> hex_value (upper_hex n) = Some n"
proof -
  assume "n < 16"
  then have "n \<in> {0,1,2,3,4,5,6,7,8,9,10,11,12,13,14,15}" by (rule below_16)
  then show ?thesis by (auto simp: upper_hex_def hex_value_def)
qed

lemma percent_not_unreserved: "\<not> unreserved CHR ''%''"
  by (simp add: unreserved_def)

text \<open>A byte that is not a percent sign is copied.\<close>

lemma percent_bytes_plain: "c \<noteq> CHR ''%'' \<Longrightarrow> percent_bytes (c # s) = c # percent_bytes s"
proof (cases s)
  case (Cons a s')
  then show "c \<noteq> CHR ''%'' \<Longrightarrow> ?thesis" by (cases s') simp_all
qed simp

lemma byte_hex: "16 * ((of_char b :: nat) div 16) + of_char b mod 16 = of_char b"
  by simp

lemma percent_bytes_quote: "percent_bytes (quote_byte b @ s) = b # percent_bytes s"
proof (cases "unreserved b")
  case True
  then have "b \<noteq> CHR ''%''" using percent_not_unreserved by blast
  with True show ?thesis by (simp add: quote_byte_def percent_bytes_plain)
next
  case False
  have "of_char b div 16 < (16::nat)" using nat_of_char_less_256 [of b] by (simp add: less_mult_imp_div_less)
  then have "hex_value (upper_hex (of_char b div 16)) = Some (of_char b div 16)"
    "hex_value (upper_hex (of_char b mod 16)) = Some (of_char b mod 16)"
    by (simp_all add: hex_roundtrip)
  with False show ?thesis by (simp add: quote_byte_def)
qed

lemma percent_bytes_concat: "percent_bytes (concat (map quote_byte bs)) = bs"
  by (induction bs) (simp_all add: percent_bytes_quote)

lemma ascii_unreserved: "unreserved c \<Longrightarrow> is_ascii c"
  by (auto simp: unreserved_def is_ascii_def)

lemma ascii_upper_hex: "n < 16 \<Longrightarrow> is_ascii (upper_hex n)"
proof -
  assume "n < 16"
  then have "n \<in> {0,1,2,3,4,5,6,7,8,9,10,11,12,13,14,15}" by (rule below_16)
  then show ?thesis by (auto simp: upper_hex_def is_ascii_def)
qed

text \<open>What quoting leaves in a string: unreserved characters and percent signs.\<close>

lemma quoted_chars: "c \<in> set (url_quote s) \<Longrightarrow> unreserved c \<or> c = CHR ''%''"
proof -
  have hex: "unreserved (upper_hex n)" if "n < 16" for n
  proof -
    from that have "n \<in> {0,1,2,3,4,5,6,7,8,9,10,11,12,13,14,15}" by (rule below_16)
    then show ?thesis by (auto simp: upper_hex_def unreserved_def)
  qed
  have "c \<in> set (quote_byte b) \<Longrightarrow> unreserved c \<or> c = CHR ''%''" for b
    using nat_of_char_less_256 [of b] by (auto simp: quote_byte_def less_mult_imp_div_less intro: hex split: if_splits)
  then show "c \<in> set (url_quote s) \<Longrightarrow> unreserved c \<or> c = CHR ''%''" by (auto simp: url_quote_def)
qed

lemma ascii_quoted: "list_all is_ascii (url_quote s)"
  using quoted_chars ascii_unreserved by (fastforce simp: list_all_iff is_ascii_def)

lemma unquote_runs_ascii: "list_all is_ascii s \<Longrightarrow> s \<noteq> [] \<Longrightarrow> unquote_runs dec s = dec (percent_bytes s)"
  by (cases s) (auto simp: list_all_iff takeWhile_eq_all_conv [THEN iffD2] dropWhile_eq_Nil_conv [THEN iffD2])

lemma quote_byte_plain: "CHR ''%'' \<notin> set (quote_byte b) \<Longrightarrow> quote_byte b = [b] \<and> is_ascii b"
  by (auto simp: quote_byte_def ascii_unreserved split: if_splits)

lemma quote_unchanged: "CHR ''%'' \<notin> set (url_quote s) \<Longrightarrow> url_quote s = s"
proof (induction s)
  case (Cons c s)
  have n: "b \<in> set (utf8_char c) \<Longrightarrow> quote_byte b = [b] \<and> is_ascii b" for b
    using Cons.prems by (intro quote_byte_plain) (auto simp: url_quote_def utf8_def)
  have "of_char c < (128 :: nat)"
  proof (rule ccontr)
    assume "\<not> of_char c < (128 :: nat)"
    then have b: "is_ascii (char_of (192 + (of_char c :: nat) div 64))" using n by (simp add: utf8_char_def Let_def)
    have "(of_char c :: nat) div 64 < 4" using nat_of_char_less_256 [of c] by (simp add: less_mult_imp_div_less)
    with b show False by (simp add: is_ascii_def)
  qed
  then have "utf8_char c = [c]" by (simp add: utf8_char_def)
  with n Cons show ?case by (simp add: url_quote_def utf8_def)
qed (simp add: url_quote_def utf8_def)

text \<open>Unquoting inverts quoting, when the decoder decodes what \<^const>\<open>utf8\<close> encodes.\<close>

lemma unquote_quote: "(\<And>s. dec (utf8 s) = s) \<Longrightarrow> url_unquote dec (url_quote s) = s"
proof -
  assume dec: "\<And>s. dec (utf8 s) = s"
  show ?thesis
  proof (cases "CHR ''%'' \<in> set (url_quote s)")
    case True
    then have "url_quote s \<noteq> []" by auto
    then have "unquote_runs dec (url_quote s) = dec (percent_bytes (url_quote s))" by (rule unquote_runs_ascii [OF ascii_quoted])
    with True show ?thesis by (simp add: url_unquote_def url_quote_def percent_bytes_concat dec)
  qed (metis url_unquote_def quote_unchanged)
qed

text \<open>A decoder for one- and two-byte sequences, which meets that condition.\<close>

fun latin1_decode :: "string \<Rightarrow> string" where
  "latin1_decode [] = []"
| "latin1_decode [b] = [b]"
| "latin1_decode (b # c # s) = (if is_ascii b then b # latin1_decode (c # s)
     else char_of ((of_char b - 192) * 64 + (of_char c - 128) :: nat) # latin1_decode s)"

lemma latin1_utf8: "latin1_decode (utf8 s) = s"
proof (induction s)
  case (Cons c s)
  show ?case
  proof (cases "of_char c < (128 :: nat)")
    case True
    then have "is_ascii c" by (simp add: is_ascii_def)
    then have "latin1_decode (c # utf8 s) = c # latin1_decode (utf8 s)" by (cases "utf8 s") simp_all
    with True Cons show ?thesis by (simp add: utf8_def utf8_char_def)
  next
    case False
    have d: "(of_char c :: nat) div 64 < 4" using nat_of_char_less_256 [of c] by (simp add: less_mult_imp_div_less)
    have m: "(of_char c :: nat) mod 64 < 64" by simp
    have "\<not> is_ascii (char_of (192 + (of_char c :: nat) div 64))" using d by (simp add: is_ascii_def)
    moreover have "(of_char (char_of (192 + (of_char c :: nat) div 64)) :: nat) = 192 + of_char c div 64"
      "(of_char (char_of (128 + (of_char c :: nat) mod 64)) :: nat) = 128 + of_char c mod 64"
      using d m by simp_all
    moreover have "(of_char c :: nat) div 64 * 64 + of_char c mod 64 = of_char c" by simp
    ultimately show ?thesis using False Cons.IH by (simp add: utf8_def utf8_char_def Let_def del: of_char_of)
  qed
qed (simp add: utf8_def)

section \<open>Tools of a service\<close>

text \<open>Binding keyword arguments to parameters with their defaults.\<close>

type_synonym signature = "(string \<times> json option) list"

fun bind_args :: "signature \<Rightarrow> kwargs \<Rightarrow> (string \<times> json) list option" where
  "bind_args [] kw = Some []"
| "bind_args ((p, d) # ps) kw =
     (case (case map_of kw p of Some v \<Rightarrow> Some v | None \<Rightarrow> d) of
        None \<Rightarrow> None
      | Some v \<Rightarrow> (case bind_args ps kw of None \<Rightarrow> None | Some vs \<Rightarrow> Some ((p, v) # vs)))"

definition argument :: "(string \<times> json) list \<Rightarrow> string \<Rightarrow> json" where
  "argument vs p = (case map_of vs p of Some v \<Rightarrow> v | None \<Rightarrow> JNull)"


text \<open>The handler of a tool: an exception when the keyword arguments do not fit, else its body.\<close>

definition call_body ::
  "(string \<Rightarrow> kwargs \<Rightarrow> string) \<Rightarrow> string \<Rightarrow> signature \<Rightarrow> ((string \<Rightarrow> json) \<Rightarrow> ('w, string) op) \<Rightarrow> kwargs \<Rightarrow> 'w tool_context \<Rightarrow>
     (string + string) \<times> 'w tool_context" where
  "call_body bind_error name sig body kw ctx =
     (case (if only_keys (map fst sig) kw then bind_args sig kw else None) of
        None \<Rightarrow> (Inl (bind_error name kw), ctx)
      | Some vs \<Rightarrow> (case body (argument vs) (fst ctx) of (r, w) \<Rightarrow> (r, (w, snd ctx))))"

text \<open>A non-core tool of a service, with the availability check of its client.\<close>

definition service_tool ::
  "'w http_env \<Rightarrow> bool option \<Rightarrow> string \<Rightarrow> string \<Rightarrow> string \<Rightarrow> json \<Rightarrow> string \<Rightarrow> bool \<Rightarrow> signature \<Rightarrow>
     ((string \<Rightarrow> json) \<Rightarrow> ('w, string) op) \<Rightarrow> 'w ToolSpec" where
  "service_tool e check toolset name description schema display read_only sig body =
     (tool name description schema (call_body (he_bind_error e) name sig body))
       \<lparr>is_read_only := read_only, is_core := False, ts_display_name := display, ts_toolset := toolset, check_fn := check\<rparr>"

lemma service_tool_fields [simp]:
  "ts_name (service_tool e c ts n d s dn ro sig body) = n"
  "is_read_only (service_tool e c ts n d s dn ro sig body) = ro"
  "is_core (service_tool e c ts n d s dn ro sig body) = False"
  "check_fn (service_tool e c ts n d s dn ro sig body) = c"
  "ts_toolset (service_tool e c ts n d s dn ro sig body) = ts"
  "ts_handler (service_tool e c ts n d s dn ro sig body) = call_body (he_bind_error e) n sig body"
  "max_result_chars (service_tool e c ts n d s dn ro sig body) = DEFAULT_MAX_RESULT_CHARS"
  by (simp_all add: service_tool_def tool_def)

definition formatted :: "('w, json) op \<Rightarrow> ('w, string) op" where
  "formatted m = op_bind m (\<lambda>v. op_return (format_json v))"

lemma sends_formatted [sends_rules]: "sends_only e A m \<Longrightarrow> sends_only e A (formatted m)"
  unfolding formatted_def by (intro sends_rules)

text \<open>The handler sends what its body sends.\<close>

lemma call_body_sends:
  "(\<And>a. sends_only e A (body a)) \<Longrightarrow> (http_step e A)\<^sup>*\<^sup>* w (fst (snd (call_body be n sig body kw (w, sf))))"
proof -
  assume "\<And>a. sends_only e A (body a)"
  then have "(http_step e A)\<^sup>*\<^sup>* w (snd (body (argument vs) w))" for vs by (simp add: sends_only_def)
  then show ?thesis by (auto simp: call_body_def case_prod_beta split: option.splits)
qed

lemma call_body_keeps: "(\<And>a w. P w \<Longrightarrow> P (snd (body a w))) \<Longrightarrow> P w \<Longrightarrow> P (fst (snd (call_body be n sig body kw (w, sf))))"
  by (auto simp: call_body_def case_prod_beta split: option.splits)

text \<open>\<open>reads_ok\<close>: a tool that is declared read-only sends only requests that \<open>A\<close> accepts.\<close>

definition reads_ok :: "'w http_env \<Rightarrow> (http_request \<Rightarrow> bool) \<Rightarrow> 'w ToolSpec \<Rightarrow> bool" where
  "reads_ok e A s = (is_read_only s \<longrightarrow> (\<forall>kw w sf. (http_step e A)\<^sup>*\<^sup>* w (fst (snd (ts_handler s kw (w, sf))))))"

lemma reads_service:
  "(\<And>a. sends_only e A (body a)) \<Longrightarrow> reads_ok e A (service_tool e c ts n d s dn True sig body)"
  by (simp only: reads_ok_def service_tool_fields call_body_sends simp_thms)

lemma reads_write: "reads_ok e A (service_tool e c ts n d s dn False sig body)"
  by (simp only: reads_ok_def service_tool_fields simp_thms)

text \<open>What every accepted request keeps, a read-only tool keeps.\<close>

lemma reads_ok_keeps:
  assumes "reads_ok e A s" and "is_read_only s" and "\<And>rq w. A rq \<Longrightarrow> P w \<Longrightarrow> P (snd (he_send e rq w))" and "P w"
  shows "P (fst (snd (ts_handler s kw (w, sf))))"
proof -
  have "(http_step e A)\<^sup>*\<^sup>* w (fst (snd (ts_handler s kw (w, sf))))" using assms(1,2) by (simp add: reads_ok_def)
  then show ?thesis using assms(4) by (induction rule: rtranclp_induct) (auto elim!: http_step.cases intro: assms(3))
qed

section \<open>The contract of a service\<close>

text \<open>
  A service offers a list of tools, given whether its client is configured. Its contract: the
  check of every tool is that of the client, the names differ, and a tool that is declared
  read-only sends only requests that \<open>reads\<close> accepts. The write-approval gate lets such tools run
  without asking, so the last law is what makes the gate meaningful.
\<close>

locale service =
  fixes e :: "'w http_env" and configured :: bool and specs :: "'w ToolSpec list" and reads :: "http_request \<Rightarrow> bool"
  assumes checked: "list_all (\<lambda>s. check_fn s = Some configured) specs"
    and names_distinct: "distinct (map ts_name specs)"
    and reads_only: "list_all (reads_ok e reads) specs"
begin

lemma registered:
  assumes "configured" and "fst ` set ts \<inter> ts_name ` set specs = {}"
  shows "register_all specs \<lparr>tools = ts, skipped_toolsets = sk\<rparr> =
    Inr \<lparr>tools = ts @ map (\<lambda>s. (ts_name s, s)) specs, skipped_toolsets = sk\<rparr>"
  using assms names_distinct checked by (intro register_all_fresh) (auto simp: list_all_iff)

lemma skipped:
  assumes "\<not> configured" and "fst ` set ts \<inter> ts_name ` set specs = {}"
  shows "\<exists>sk'. register_all specs \<lparr>tools = ts, skipped_toolsets = sk\<rparr> = Inr \<lparr>tools = ts, skipped_toolsets = sk'\<rparr>"
  using assms checked by (intro register_all_skipped) (auto simp: list_all_iff)

lemma read_keeps:
  assumes "s \<in> set specs" and "is_read_only s" and "\<And>rq w. reads rq \<Longrightarrow> P w \<Longrightarrow> P (snd (he_send e rq w))" and "P w"
  shows "P (fst (snd (ts_handler s kw (w, sf))))"
  using reads_only assms by (intro reads_ok_keeps [where A = reads and P = P]) (auto simp: list_all_iff)

end

end
