(* ===== verification/GitLab.thy ===== *)
theory GitLab
  imports ServiceCore
begin

text \<open>
  The GitLab client and its tools (\<^verbatim>\<open>tools/gitlab.py\<close>): 18 reading and 10 writing tools,
  one operation of the client behind each. Project and file paths are unquoted and quoted
  again, so that plain and encoded paths name the same resource.
\<close>


section \<open>The client\<close>

definition GITLAB_SEARCH_LIMIT :: int where "GITLAB_SEARCH_LIMIT = 10"
definition GITLAB_PER_PAGE :: int where "GITLAB_PER_PAGE = 20"

record GitLabClient =
  gl_base_url :: string
  gl_token :: string

definition gitlab_client :: "string \<Rightarrow> string \<Rightarrow> GitLabClient" where
  "gitlab_client base_url token =
     \<lparr>gl_base_url = rstrip_chars ''/api/v4'' (rstrip_chars ''/'' base_url), gl_token = token\<rparr>"

definition gitlab_configured :: "GitLabClient \<Rightarrow> bool" where
  "gitlab_configured c = (gl_base_url c \<noteq> [] \<and> gl_token c \<noteq> [])"

definition gitlab_http :: "GitLabClient \<Rightarrow> string \<Rightarrow> string \<Rightarrow> (string \<times> json) list \<Rightarrow> json option \<Rightarrow> http_request" where
  "gitlab_http c meth endpoint params payload = \<lparr>hq_method = meth, hq_base = gl_base_url c @ ''/api/v4'',
     hq_endpoint = endpoint, hq_params = params, hq_body = payload,
     hq_headers = [(''Content-Type'', ''application/json''), (''Authorization'', ''Bearer '' @ gl_token c)], hq_auth = None\<rparr>"

definition gitlab_request ::
  "'w http_env \<Rightarrow> GitLabClient \<Rightarrow> string \<Rightarrow> string \<Rightarrow> (string \<times> json) list \<Rightarrow> json option \<Rightarrow> ('w, json) op" where
  "gitlab_request e c meth endpoint params payload =
     (if \<not> gitlab_configured c then op_return (error_dict ''GitLab not configured. Set GITLAB_TOKEN.'')
      else op_bind (op_send e (gitlab_http c meth endpoint params payload)) (\<lambda>r.
        if hs_status r \<ge> HTTP_ERROR_THRESHOLD then op_return (status_error ''GitLab'' r)
        else op_of (he_loads e (hs_text r))))"

definition gitlab_request_text :: "'w http_env \<Rightarrow> GitLabClient \<Rightarrow> string \<Rightarrow> ('w, string) op" where
  "gitlab_request_text e c endpoint =
     (if \<not> gitlab_configured c then op_return (json_dumps (error_dict ''GitLab not configured. Set GITLAB_TOKEN.''))
      else op_bind (op_send e (gitlab_http c ''GET'' endpoint [] None)) (\<lambda>r.
        if hs_status r \<ge> HTTP_ERROR_THRESHOLD then op_return (json_dumps (status_error ''GitLab'' r))
        else op_return (hs_text r)))"

text \<open>\<open>_encode_path\<close>; \<open>unquote\<close> raises for a value that is not a string.\<close>

definition encode_text :: "'w http_env \<Rightarrow> string \<Rightarrow> string" where
  "encode_text e s = url_quote (url_unquote (he_decode e) s)"

definition encode_path :: "'w http_env \<Rightarrow> json \<Rightarrow> ('w, string) op" where
  "encode_path e v = (case v of JStr s \<Rightarrow> op_return (encode_text e s) | _ \<Rightarrow> op_raise (he_raise e ''unquote'' v))"

definition gitlab_tool ::
  "'w http_env \<Rightarrow> GitLabClient \<Rightarrow> string \<Rightarrow> string \<Rightarrow> json \<Rightarrow> string \<Rightarrow> bool \<Rightarrow> signature \<Rightarrow>
     ((string \<Rightarrow> json) \<Rightarrow> ('w, string) op) \<Rightarrow> 'w ToolSpec" where
  "gitlab_tool e c = service_tool e (Some (gitlab_configured c)) ''gitlab''"

lemma gitlab_request_sends: "A (gitlab_http c m ep ps b) \<Longrightarrow> sends_only e A (gitlab_request e c m ep ps b)"
  unfolding gitlab_request_def by (intro sends_rules)

lemma gitlab_text_sends: "A (gitlab_http c ''GET'' ep [] None) \<Longrightarrow> sends_only e A (gitlab_request_text e c ep)"
  unfolding gitlab_request_text_def by (intro sends_rules)

lemma encode_path_sends [sends_rules]: "sends_only e A (encode_path e v)"
  by (cases v) (simp_all add: encode_path_def sends_rules)

lemma gitlab_get: "read_request (gitlab_http c ''GET'' ep ps b)"
  by (simp add: read_request_def gitlab_http_def)

section \<open>Operations of the client\<close>

definition gitlab_search_projects :: "'w http_env \<Rightarrow> GitLabClient \<Rightarrow> json \<Rightarrow> json \<Rightarrow> ('w, json) op" where
  "gitlab_search_projects e c q limit =
     gitlab_request e c ''GET'' (''/projects'') [(''search'', q), (''per_page'', limit)] None"

definition gitlab_get_project :: "'w http_env \<Rightarrow> GitLabClient \<Rightarrow> json \<Rightarrow> ('w, json) op" where
  "gitlab_get_project e c project_id =
     op_bind (encode_path e project_id) (\<lambda>encoded.
     gitlab_request e c ''GET'' (''/projects/'' @ encoded) [] None)"

definition gitlab_list_merge_requests :: "'w http_env \<Rightarrow> GitLabClient \<Rightarrow> json \<Rightarrow> json \<Rightarrow> json \<Rightarrow> ('w, json) op" where
  "gitlab_list_merge_requests e c project_id mr_state limit =
     op_bind (encode_path e project_id) (\<lambda>encoded.
     gitlab_request e c ''GET'' (''/projects/'' @ encoded @ ''/merge_requests'') [(''state'', mr_state), (''per_page'', limit)] None)"

definition gitlab_get_merge_request :: "'w http_env \<Rightarrow> GitLabClient \<Rightarrow> json \<Rightarrow> json \<Rightarrow> ('w, json) op" where
  "gitlab_get_merge_request e c project_id mr_iid =
     op_bind (encode_path e project_id) (\<lambda>encoded.
     gitlab_request e c ''GET'' (''/projects/'' @ encoded @ ''/merge_requests/'' @ py_str_json mr_iid) [] None)"

definition gitlab_get_merge_request_changes :: "'w http_env \<Rightarrow> GitLabClient \<Rightarrow> json \<Rightarrow> json \<Rightarrow> ('w, json) op" where
  "gitlab_get_merge_request_changes e c project_id mr_iid =
     op_bind (encode_path e project_id) (\<lambda>encoded.
     gitlab_request e c ''GET'' (''/projects/'' @ encoded @ ''/merge_requests/'' @ py_str_json mr_iid @ ''/diffs'') [] None)"

definition gitlab_list_pipelines :: "'w http_env \<Rightarrow> GitLabClient \<Rightarrow> json \<Rightarrow> json \<Rightarrow> ('w, json) op" where
  "gitlab_list_pipelines e c project_id limit =
     op_bind (encode_path e project_id) (\<lambda>encoded.
     gitlab_request e c ''GET'' (''/projects/'' @ encoded @ ''/pipelines'') [(''per_page'', limit)] None)"

definition gitlab_get_pipeline :: "'w http_env \<Rightarrow> GitLabClient \<Rightarrow> json \<Rightarrow> json \<Rightarrow> ('w, json) op" where
  "gitlab_get_pipeline e c project_id pipeline_id =
     op_bind (encode_path e project_id) (\<lambda>encoded.
     gitlab_request e c ''GET'' (''/projects/'' @ encoded @ ''/pipelines/'' @ py_str_json pipeline_id) [] None)"

definition gitlab_list_pipeline_jobs :: "'w http_env \<Rightarrow> GitLabClient \<Rightarrow> json \<Rightarrow> json \<Rightarrow> ('w, json) op" where
  "gitlab_list_pipeline_jobs e c project_id pipeline_id =
     op_bind (encode_path e project_id) (\<lambda>encoded.
     gitlab_request e c ''GET'' (''/projects/'' @ encoded @ ''/pipelines/'' @ py_str_json pipeline_id @ ''/jobs'') [] None)"

definition gitlab_get_job_log :: "'w http_env \<Rightarrow> GitLabClient \<Rightarrow> json \<Rightarrow> json \<Rightarrow> ('w, string) op" where
  "gitlab_get_job_log e c project_id job_id =
     op_bind (encode_path e project_id) (\<lambda>encoded.
     gitlab_request_text e c (''/projects/'' @ encoded @ ''/jobs/'' @ py_str_json job_id @ ''/trace''))"

definition gitlab_get_file :: "'w http_env \<Rightarrow> GitLabClient \<Rightarrow> json \<Rightarrow> json \<Rightarrow> json \<Rightarrow> ('w, json) op" where
  "gitlab_get_file e c project_id file_path ref =
     op_bind (encode_path e project_id) (\<lambda>proj.
     op_bind (encode_path e file_path) (\<lambda>fpath.
     gitlab_request e c ''GET'' (''/projects/'' @ proj @ ''/repository/files/'' @ fpath) [(''ref'', ref)] None))"

definition gitlab_list_mr_notes :: "'w http_env \<Rightarrow> GitLabClient \<Rightarrow> json \<Rightarrow> json \<Rightarrow> json \<Rightarrow> json \<Rightarrow> ('w, json) op" where
  "gitlab_list_mr_notes e c project_id mr_iid order_by limit =
     op_bind (encode_path e project_id) (\<lambda>encoded.
     gitlab_request e c ''GET'' (''/projects/'' @ encoded @ ''/merge_requests/'' @ py_str_json mr_iid @ ''/notes'') [(''sort'', order_by), (''per_page'', limit)] None)"

definition gitlab_list_mr_discussions :: "'w http_env \<Rightarrow> GitLabClient \<Rightarrow> json \<Rightarrow> json \<Rightarrow> json \<Rightarrow> ('w, json) op" where
  "gitlab_list_mr_discussions e c project_id mr_iid limit =
     op_bind (encode_path e project_id) (\<lambda>encoded.
     gitlab_request e c ''GET'' (''/projects/'' @ encoded @ ''/merge_requests/'' @ py_str_json mr_iid @ ''/discussions'') [(''per_page'', limit)] None)"

definition gitlab_get_mr_approvals :: "'w http_env \<Rightarrow> GitLabClient \<Rightarrow> json \<Rightarrow> json \<Rightarrow> ('w, json) op" where
  "gitlab_get_mr_approvals e c project_id mr_iid =
     op_bind (encode_path e project_id) (\<lambda>encoded.
     gitlab_request e c ''GET'' (''/projects/'' @ encoded @ ''/merge_requests/'' @ py_str_json mr_iid @ ''/approvals'') [] None)"

definition gitlab_list_branches :: "'w http_env \<Rightarrow> GitLabClient \<Rightarrow> json \<Rightarrow> json \<Rightarrow> json \<Rightarrow> ('w, json) op" where
  "gitlab_list_branches e c project_id search limit =
     op_bind (encode_path e project_id) (\<lambda>encoded.
     (let params = [(''per_page'', limit)] @
       field_if (json_truthy search) ''search'' search in
     gitlab_request e c ''GET'' (''/projects/'' @ encoded @ ''/repository/branches'') params None))"

definition gitlab_list_commits :: "'w http_env \<Rightarrow> GitLabClient \<Rightarrow> json \<Rightarrow> json \<Rightarrow> json \<Rightarrow> ('w, json) op" where
  "gitlab_list_commits e c project_id ref limit =
     op_bind (encode_path e project_id) (\<lambda>encoded.
     gitlab_request e c ''GET'' (''/projects/'' @ encoded @ ''/repository/commits'') [(''ref_name'', ref), (''per_page'', limit)] None)"

definition gitlab_get_commit :: "'w http_env \<Rightarrow> GitLabClient \<Rightarrow> json \<Rightarrow> json \<Rightarrow> ('w, json) op" where
  "gitlab_get_commit e c project_id sha =
     op_bind (encode_path e project_id) (\<lambda>encoded.
     gitlab_request e c ''GET'' (''/projects/'' @ encoded @ ''/repository/commits/'' @ py_str_json sha) [] None)"

definition gitlab_compare :: "'w http_env \<Rightarrow> GitLabClient \<Rightarrow> json \<Rightarrow> json \<Rightarrow> json \<Rightarrow> ('w, json) op" where
  "gitlab_compare e c project_id from_ref to_ref =
     op_bind (encode_path e project_id) (\<lambda>encoded.
     gitlab_request e c ''GET'' (''/projects/'' @ encoded @ ''/repository/compare'') [(''from'', from_ref), (''to'', to_ref)] None)"

definition gitlab_get_current_user :: "'w http_env \<Rightarrow> GitLabClient \<Rightarrow> ('w, json) op" where
  "gitlab_get_current_user e c =
     gitlab_request e c ''GET'' (''/user'') [] None"

definition gitlab_create_merge_request_note :: "'w http_env \<Rightarrow> GitLabClient \<Rightarrow> json \<Rightarrow> json \<Rightarrow> json \<Rightarrow> ('w, json) op" where
  "gitlab_create_merge_request_note e c project_id mr_iid bdy =
     op_bind (encode_path e project_id) (\<lambda>encoded.
     gitlab_request e c ''POST'' (''/projects/'' @ encoded @ ''/merge_requests/'' @ py_str_json mr_iid @ ''/notes'') [] (Some (JObj [(''body'', bdy)])))"

definition gitlab_update_merge_request_note :: "'w http_env \<Rightarrow> GitLabClient \<Rightarrow> json \<Rightarrow> json \<Rightarrow> json \<Rightarrow> json \<Rightarrow> ('w, json) op" where
  "gitlab_update_merge_request_note e c project_id mr_iid note_id bdy =
     op_bind (encode_path e project_id) (\<lambda>encoded.
     gitlab_request e c ''PUT'' (''/projects/'' @ encoded @ ''/merge_requests/'' @ py_str_json mr_iid @ ''/notes/'' @ py_str_json note_id) [] (Some (JObj [(''body'', bdy)])))"

definition gitlab_reply_to_discussion :: "'w http_env \<Rightarrow> GitLabClient \<Rightarrow> json \<Rightarrow> json \<Rightarrow> json \<Rightarrow> json \<Rightarrow> ('w, json) op" where
  "gitlab_reply_to_discussion e c project_id mr_iid discussion_id bdy =
     op_bind (encode_path e project_id) (\<lambda>encoded.
     gitlab_request e c ''POST'' (''/projects/'' @ encoded @ ''/merge_requests/'' @ py_str_json mr_iid @ ''/discussions/'' @ py_str_json discussion_id @ ''/notes'') [] (Some (JObj [(''body'', bdy)])))"

definition gitlab_resolve_discussion :: "'w http_env \<Rightarrow> GitLabClient \<Rightarrow> json \<Rightarrow> json \<Rightarrow> json \<Rightarrow> json \<Rightarrow> ('w, json) op" where
  "gitlab_resolve_discussion e c project_id mr_iid discussion_id resolved =
     op_bind (encode_path e project_id) (\<lambda>encoded.
     gitlab_request e c ''PUT'' (''/projects/'' @ encoded @ ''/merge_requests/'' @ py_str_json mr_iid @ ''/discussions/'' @ py_str_json discussion_id) [] (Some (JObj [(''resolved'', resolved)])))"

definition gitlab_approve_merge_request :: "'w http_env \<Rightarrow> GitLabClient \<Rightarrow> json \<Rightarrow> json \<Rightarrow> ('w, json) op" where
  "gitlab_approve_merge_request e c project_id mr_iid =
     op_bind (encode_path e project_id) (\<lambda>encoded.
     gitlab_request e c ''POST'' (''/projects/'' @ encoded @ ''/merge_requests/'' @ py_str_json mr_iid @ ''/approve'') [] None)"

definition gitlab_unapprove_merge_request :: "'w http_env \<Rightarrow> GitLabClient \<Rightarrow> json \<Rightarrow> json \<Rightarrow> ('w, json) op" where
  "gitlab_unapprove_merge_request e c project_id mr_iid =
     op_bind (encode_path e project_id) (\<lambda>encoded.
     gitlab_request e c ''POST'' (''/projects/'' @ encoded @ ''/merge_requests/'' @ py_str_json mr_iid @ ''/unapprove'') [] None)"

definition gitlab_merge_merge_request :: "'w http_env \<Rightarrow> GitLabClient \<Rightarrow> json \<Rightarrow> json \<Rightarrow> json \<Rightarrow> json \<Rightarrow> json \<Rightarrow> ('w, json) op" where
  "gitlab_merge_merge_request e c project_id mr_iid merge_commit_message squash should_remove_source_branch =
     op_bind (encode_path e project_id) (\<lambda>encoded.
     (let payload = field_if (json_truthy merge_commit_message) ''merge_commit_message'' merge_commit_message @
       field_if (json_truthy squash) ''squash'' (JBool True) @
       field_if (json_truthy should_remove_source_branch) ''should_remove_source_branch'' (JBool True) in
     gitlab_request e c ''PUT'' (''/projects/'' @ encoded @ ''/merge_requests/'' @ py_str_json mr_iid @ ''/merge'') [] (Some (JObj payload))))"

definition gitlab_rebase_merge_request :: "'w http_env \<Rightarrow> GitLabClient \<Rightarrow> json \<Rightarrow> json \<Rightarrow> ('w, json) op" where
  "gitlab_rebase_merge_request e c project_id mr_iid =
     op_bind (encode_path e project_id) (\<lambda>encoded.
     gitlab_request e c ''PUT'' (''/projects/'' @ encoded @ ''/merge_requests/'' @ py_str_json mr_iid @ ''/rebase'') [] None)"

definition gitlab_update_merge_request ::
  "'w http_env \<Rightarrow> GitLabClient \<Rightarrow> json \<Rightarrow> json \<Rightarrow> (string \<times> json) list \<Rightarrow> ('w, json) op" where
  "gitlab_update_merge_request e c project_id mr_iid flds =
     op_bind (encode_path e project_id) (\<lambda>encoded.
     gitlab_request e c ''PUT'' (''/projects/'' @ encoded @ ''/merge_requests/'' @ py_str_json mr_iid) [] (Some (JObj flds)))"

definition gitlab_create_merge_request :: "'w http_env \<Rightarrow> GitLabClient \<Rightarrow> json \<Rightarrow> json \<Rightarrow> json \<Rightarrow> json \<Rightarrow> json \<Rightarrow> ('w, json) op" where
  "gitlab_create_merge_request e c project_id source_branch target_branch ttl description =
     op_bind (encode_path e project_id) (\<lambda>encoded.
     (let payload = [(''source_branch'', source_branch), (''target_branch'', target_branch), (''title'', ttl)] @
       field_if (json_truthy description) ''description'' description in
     gitlab_request e c ''POST'' (''/projects/'' @ encoded @ ''/merge_requests'') [] (Some (JObj payload))))"

section \<open>Tools\<close>

definition make_gitlab_search_projects :: "'w http_env \<Rightarrow> GitLabClient \<Rightarrow> 'w ToolSpec" where
  "make_gitlab_search_projects e c = gitlab_tool e c ''gitlab_search_projects''
     ''Search GitLab projects by name or path.''
     (object_schema
       [(''query'', typed ''string'' [(''description'', JStr ''Search query'')]),
        (''limit'', typed ''integer'' [(''description'', JStr ''Max results''), (''default'', JInt 10)])]
       [''query''])
     ''Searching GitLab projects'' True
     [(''query'', None), (''limit'', Some (JInt GITLAB_SEARCH_LIMIT))]
     (\<lambda>a. formatted (gitlab_search_projects e c (a ''query'') (a ''limit'')))"

definition make_gitlab_get_project :: "'w http_env \<Rightarrow> GitLabClient \<Rightarrow> 'w ToolSpec" where
  "make_gitlab_get_project e c = gitlab_tool e c ''gitlab_get_project''
     (''Get a GitLab project by numeric ID or path (e.g. '' @ SQ @ ''group/project'' @ SQ @ '').'')
     (object_schema
       [(''project_id'', typed ''string'' [(''description'', JStr (''Project ID or path (e.g. '' @ SQ @ ''dpickem/nv_tools'' @ SQ @ '')''))])]
       [''project_id''])
     ''Getting GitLab project'' True
     [(''project_id'', None)]
     (\<lambda>a. formatted (gitlab_get_project e c (a ''project_id'')))"

definition make_gitlab_list_merge_requests :: "'w http_env \<Rightarrow> GitLabClient \<Rightarrow> 'w ToolSpec" where
  "make_gitlab_list_merge_requests e c = gitlab_tool e c ''gitlab_list_merge_requests''
     ''List merge requests for a GitLab project. Filterable by state.''
     (object_schema
       [(''project_id'', typed ''string'' [(''description'', JStr ''Project ID or path'')]),
        (''state'', typed ''string'' [(''description'', JStr ''MR state filter: opened, closed, merged, all''), (''default'', JStr ''opened'')]),
        (''limit'', typed ''integer'' [(''description'', JStr ''Max results''), (''default'', JInt 20)])]
       [''project_id''])
     ''Listing merge requests'' True
     [(''project_id'', None), (''state'', Some (JStr ''opened'')), (''limit'', Some (JInt GITLAB_PER_PAGE))]
     (\<lambda>a. formatted (gitlab_list_merge_requests e c (a ''project_id'') (a ''state'') (a ''limit'')))"

definition make_gitlab_get_merge_request :: "'w http_env \<Rightarrow> GitLabClient \<Rightarrow> 'w ToolSpec" where
  "make_gitlab_get_merge_request e c = gitlab_tool e c ''gitlab_get_merge_request''
     ''Get full details of a GitLab merge request by IID.''
     (object_schema
       [(''project_id'', typed ''string'' [(''description'', JStr ''Project ID or path'')]),
        (''mr_iid'', typed ''integer'' [(''description'', JStr ''Merge request IID'')])]
       [''project_id'', ''mr_iid''])
     ''Getting merge request'' True
     [(''project_id'', None), (''mr_iid'', None)]
     (\<lambda>a. formatted (gitlab_get_merge_request e c (a ''project_id'') (a ''mr_iid'')))"

definition make_gitlab_get_merge_request_changes :: "'w http_env \<Rightarrow> GitLabClient \<Rightarrow> 'w ToolSpec" where
  "make_gitlab_get_merge_request_changes e c = gitlab_tool e c ''gitlab_get_merge_request_changes''
     ''Get the diff/changes of a GitLab merge request.''
     (object_schema
       [(''project_id'', typed ''string'' [(''description'', JStr ''Project ID or path'')]),
        (''mr_iid'', typed ''integer'' [(''description'', JStr ''Merge request IID'')])]
       [''project_id'', ''mr_iid''])
     ''Getting MR changes'' True
     [(''project_id'', None), (''mr_iid'', None)]
     (\<lambda>a. formatted (gitlab_get_merge_request_changes e c (a ''project_id'') (a ''mr_iid'')))"

definition make_gitlab_list_pipelines :: "'w http_env \<Rightarrow> GitLabClient \<Rightarrow> 'w ToolSpec" where
  "make_gitlab_list_pipelines e c = gitlab_tool e c ''gitlab_list_pipelines''
     ''List CI/CD pipelines for a GitLab project.''
     (object_schema
       [(''project_id'', typed ''string'' [(''description'', JStr ''Project ID or path'')]),
        (''limit'', typed ''integer'' [(''description'', JStr ''Max results''), (''default'', JInt 20)])]
       [''project_id''])
     ''Listing pipelines'' True
     [(''project_id'', None), (''limit'', Some (JInt GITLAB_PER_PAGE))]
     (\<lambda>a. formatted (gitlab_list_pipelines e c (a ''project_id'') (a ''limit'')))"

definition make_gitlab_get_pipeline :: "'w http_env \<Rightarrow> GitLabClient \<Rightarrow> 'w ToolSpec" where
  "make_gitlab_get_pipeline e c = gitlab_tool e c ''gitlab_get_pipeline''
     ''Get details of a specific CI/CD pipeline.''
     (object_schema
       [(''project_id'', typed ''string'' [(''description'', JStr ''Project ID or path'')]),
        (''pipeline_id'', typed ''integer'' [(''description'', JStr ''Pipeline ID'')])]
       [''project_id'', ''pipeline_id''])
     ''Getting pipeline details'' True
     [(''project_id'', None), (''pipeline_id'', None)]
     (\<lambda>a. formatted (gitlab_get_pipeline e c (a ''project_id'') (a ''pipeline_id'')))"

definition make_gitlab_get_job_log :: "'w http_env \<Rightarrow> GitLabClient \<Rightarrow> 'w ToolSpec" where
  "make_gitlab_get_job_log e c = gitlab_tool e c ''gitlab_get_job_log''
     ''Get the log output of a CI/CD job. Returns raw text.''
     (object_schema
       [(''project_id'', typed ''string'' [(''description'', JStr ''Project ID or path'')]),
        (''job_id'', typed ''integer'' [(''description'', JStr ''Job ID'')])]
       [''project_id'', ''job_id''])
     ''Getting job log'' True
     [(''project_id'', None), (''job_id'', None)]
     (\<lambda>a. gitlab_get_job_log e c (a ''project_id'') (a ''job_id''))"

definition make_gitlab_list_pipeline_jobs :: "'w http_env \<Rightarrow> GitLabClient \<Rightarrow> 'w ToolSpec" where
  "make_gitlab_list_pipeline_jobs e c = gitlab_tool e c ''gitlab_list_pipeline_jobs''
     ''List jobs for a CI/CD pipeline.''
     (object_schema
       [(''project_id'', typed ''string'' [(''description'', JStr ''Project ID or path'')]),
        (''pipeline_id'', typed ''integer'' [(''description'', JStr ''Pipeline ID'')])]
       [''project_id'', ''pipeline_id''])
     ''Listing pipeline jobs'' True
     [(''project_id'', None), (''pipeline_id'', None)]
     (\<lambda>a. formatted (gitlab_list_pipeline_jobs e c (a ''project_id'') (a ''pipeline_id'')))"

definition make_gitlab_get_file :: "'w http_env \<Rightarrow> GitLabClient \<Rightarrow> 'w ToolSpec" where
  "make_gitlab_get_file e c = gitlab_tool e c ''gitlab_get_file''
     ''Get a file from a GitLab repository. Returns file metadata and base64-encoded content. Use for reading config files, READMEs, etc.''
     (object_schema
       [(''project_id'', typed ''string'' [(''description'', JStr ''Project ID or path'')]),
        (''file_path'', typed ''string'' [(''description'', JStr (''Path to the file in the repo (e.g. '' @ SQ @ ''src/main.py'' @ SQ @ '')''))]),
        (''ref'', typed ''string'' [(''description'', JStr ''Branch, tag, or commit SHA''), (''default'', JStr ''main'')])]
       [''project_id'', ''file_path''])
     ''Getting file from GitLab'' True
     [(''project_id'', None), (''file_path'', None), (''ref'', Some (JStr ''main''))]
     (\<lambda>a. formatted (gitlab_get_file e c (a ''project_id'') (a ''file_path'') (a ''ref'')))"

definition make_gitlab_list_mr_notes :: "'w http_env \<Rightarrow> GitLabClient \<Rightarrow> 'w ToolSpec" where
  "make_gitlab_list_mr_notes e c = gitlab_tool e c ''gitlab_list_mr_notes''
     ''List notes (comments) on a merge request. Includes both user comments and system notes (approvals, status changes).''
     (object_schema
       [(''project_id'', typed ''string'' [(''description'', JStr ''Project ID or path'')]),
        (''mr_iid'', typed ''integer'' [(''description'', JStr ''Merge request IID'')]),
        (''sort'', typed ''string'' [(''description'', JStr ''Sort order: asc or desc''), (''default'', JStr ''asc'')]),
        (''limit'', typed ''integer'' [(''description'', JStr ''Max results''), (''default'', JInt 20)])]
       [''project_id'', ''mr_iid''])
     ''Listing MR comments'' True
     [(''project_id'', None), (''mr_iid'', None), (''sort'', Some (JStr ''asc'')), (''limit'', Some (JInt GITLAB_PER_PAGE))]
     (\<lambda>a. formatted (gitlab_list_mr_notes e c (a ''project_id'') (a ''mr_iid'') (a ''sort'') (a ''limit'')))"

definition make_gitlab_list_mr_discussions :: "'w http_env \<Rightarrow> GitLabClient \<Rightarrow> 'w ToolSpec" where
  "make_gitlab_list_mr_discussions e c = gitlab_tool e c ''gitlab_list_mr_discussions''
     ''List threaded discussions on a merge request. Each discussion contains one or more notes grouped as a conversation thread, including whether the thread is resolved.''
     (object_schema
       [(''project_id'', typed ''string'' [(''description'', JStr ''Project ID or path'')]),
        (''mr_iid'', typed ''integer'' [(''description'', JStr ''Merge request IID'')]),
        (''limit'', typed ''integer'' [(''description'', JStr ''Max results''), (''default'', JInt 20)])]
       [''project_id'', ''mr_iid''])
     ''Listing MR discussions'' True
     [(''project_id'', None), (''mr_iid'', None), (''limit'', Some (JInt GITLAB_PER_PAGE))]
     (\<lambda>a. formatted (gitlab_list_mr_discussions e c (a ''project_id'') (a ''mr_iid'') (a ''limit'')))"

definition make_gitlab_get_mr_approvals :: "'w http_env \<Rightarrow> GitLabClient \<Rightarrow> 'w ToolSpec" where
  "make_gitlab_get_mr_approvals e c = gitlab_tool e c ''gitlab_get_mr_approvals''
     ''Get the approval state of a merge request (who approved, rules, etc.).''
     (object_schema
       [(''project_id'', typed ''string'' [(''description'', JStr ''Project ID or path'')]),
        (''mr_iid'', typed ''integer'' [(''description'', JStr ''Merge request IID'')])]
       [''project_id'', ''mr_iid''])
     ''Getting MR approvals'' True
     [(''project_id'', None), (''mr_iid'', None)]
     (\<lambda>a. formatted (gitlab_get_mr_approvals e c (a ''project_id'') (a ''mr_iid'')))"

definition make_gitlab_list_branches :: "'w http_env \<Rightarrow> GitLabClient \<Rightarrow> 'w ToolSpec" where
  "make_gitlab_list_branches e c = gitlab_tool e c ''gitlab_list_branches''
     ''List branches in a GitLab project. Optionally filter by name.''
     (object_schema
       [(''project_id'', typed ''string'' [(''description'', JStr ''Project ID or path'')]),
        (''search'', typed ''string'' [(''description'', JStr ''Filter branches by name substring''), (''default'', JStr [])]),
        (''limit'', typed ''integer'' [(''description'', JStr ''Max results''), (''default'', JInt 20)])]
       [''project_id''])
     ''Listing branches'' True
     [(''project_id'', None), (''search'', Some (JStr [])), (''limit'', Some (JInt GITLAB_PER_PAGE))]
     (\<lambda>a. formatted (gitlab_list_branches e c (a ''project_id'') (a ''search'') (a ''limit'')))"

definition make_gitlab_list_commits :: "'w http_env \<Rightarrow> GitLabClient \<Rightarrow> 'w ToolSpec" where
  "make_gitlab_list_commits e c = gitlab_tool e c ''gitlab_list_commits''
     ''List recent commits on a branch or ref.''
     (object_schema
       [(''project_id'', typed ''string'' [(''description'', JStr ''Project ID or path'')]),
        (''ref'', typed ''string'' [(''description'', JStr ''Branch name, tag, or commit SHA''), (''default'', JStr ''main'')]),
        (''limit'', typed ''integer'' [(''description'', JStr ''Max results''), (''default'', JInt 20)])]
       [''project_id''])
     ''Listing commits'' True
     [(''project_id'', None), (''ref'', Some (JStr ''main'')), (''limit'', Some (JInt GITLAB_PER_PAGE))]
     (\<lambda>a. formatted (gitlab_list_commits e c (a ''project_id'') (a ''ref'') (a ''limit'')))"

definition make_gitlab_get_commit :: "'w http_env \<Rightarrow> GitLabClient \<Rightarrow> 'w ToolSpec" where
  "make_gitlab_get_commit e c = gitlab_tool e c ''gitlab_get_commit''
     ''Get details of a specific commit (message, author, stats, parent SHAs).''
     (object_schema
       [(''project_id'', typed ''string'' [(''description'', JStr ''Project ID or path'')]),
        (''sha'', typed ''string'' [(''description'', JStr ''Commit SHA (full or short)'')])]
       [''project_id'', ''sha''])
     ''Getting commit details'' True
     [(''project_id'', None), (''sha'', None)]
     (\<lambda>a. formatted (gitlab_get_commit e c (a ''project_id'') (a ''sha'')))"

definition make_gitlab_compare :: "'w http_env \<Rightarrow> GitLabClient \<Rightarrow> 'w ToolSpec" where
  "make_gitlab_compare e c = gitlab_tool e c ''gitlab_compare''
     ''Compare two branches, tags, or commits. Returns the commits between them and the diff. Useful for understanding what changed between releases.''
     (object_schema
       [(''project_id'', typed ''string'' [(''description'', JStr ''Project ID or path'')]),
        (''from_ref'', typed ''string'' [(''description'', JStr ''Base ref (branch, tag, or SHA)'')]),
        (''to_ref'', typed ''string'' [(''description'', JStr ''Head ref (branch, tag, or SHA)'')])]
       [''project_id'', ''from_ref'', ''to_ref''])
     ''Comparing refs'' True
     [(''project_id'', None), (''from_ref'', None), (''to_ref'', None)]
     (\<lambda>a. formatted (gitlab_compare e c (a ''project_id'') (a ''from_ref'') (a ''to_ref'')))"

definition make_gitlab_me :: "'w http_env \<Rightarrow> GitLabClient \<Rightarrow> 'w ToolSpec" where
  "make_gitlab_me e c = gitlab_tool e c ''gitlab_me''
     (''Get the authenticated GitLab user'' @ SQ @ ''s profile.'')
     (object_schema
       []
       [])
     ''Checking GitLab profile'' True
     []
     (\<lambda>a. formatted (gitlab_get_current_user e c))"

definition make_gitlab_create_mr_note :: "'w http_env \<Rightarrow> GitLabClient \<Rightarrow> 'w ToolSpec" where
  "make_gitlab_create_mr_note e c = gitlab_tool e c ''gitlab_create_mr_note''
     ''Add a comment/note to a GitLab merge request. Requires approval.''
     (object_schema
       [(''project_id'', typed ''string'' [(''description'', JStr ''Project ID or path'')]),
        (''mr_iid'', typed ''integer'' [(''description'', JStr ''Merge request IID'')]),
        (''body'', typed ''string'' [(''description'', JStr ''Comment body (Markdown)'')])]
       [''project_id'', ''mr_iid'', ''body''])
     ''Commenting on merge request'' False
     [(''project_id'', None), (''mr_iid'', None), (''body'', None)]
     (\<lambda>a. formatted (gitlab_create_merge_request_note e c (a ''project_id'') (a ''mr_iid'') (a ''body'')))"

definition make_gitlab_update_mr_note :: "'w http_env \<Rightarrow> GitLabClient \<Rightarrow> 'w ToolSpec" where
  "make_gitlab_update_mr_note e c = gitlab_tool e c ''gitlab_update_mr_note''
     ''Edit an existing note/comment on a merge request. Requires approval.''
     (object_schema
       [(''project_id'', typed ''string'' [(''description'', JStr ''Project ID or path'')]),
        (''mr_iid'', typed ''integer'' [(''description'', JStr ''Merge request IID'')]),
        (''note_id'', typed ''integer'' [(''description'', JStr ''Note ID to edit'')]),
        (''body'', typed ''string'' [(''description'', JStr ''Updated comment body (Markdown)'')])]
       [''project_id'', ''mr_iid'', ''note_id'', ''body''])
     ''Editing MR comment'' False
     [(''project_id'', None), (''mr_iid'', None), (''note_id'', None), (''body'', None)]
     (\<lambda>a. formatted (gitlab_update_merge_request_note e c (a ''project_id'') (a ''mr_iid'') (a ''note_id'') (a ''body'')))"

definition make_gitlab_reply_to_discussion :: "'w http_env \<Rightarrow> GitLabClient \<Rightarrow> 'w ToolSpec" where
  "make_gitlab_reply_to_discussion e c = gitlab_tool e c ''gitlab_reply_to_discussion''
     ''Reply to an existing discussion thread on a merge request. Use gitlab_list_mr_discussions to get discussion IDs. Requires approval.''
     (object_schema
       [(''project_id'', typed ''string'' [(''description'', JStr ''Project ID or path'')]),
        (''mr_iid'', typed ''integer'' [(''description'', JStr ''Merge request IID'')]),
        (''discussion_id'', typed ''string'' [(''description'', JStr ''Discussion ID (from gitlab_list_mr_discussions)'')]),
        (''body'', typed ''string'' [(''description'', JStr ''Reply body (Markdown)'')])]
       [''project_id'', ''mr_iid'', ''discussion_id'', ''body''])
     ''Replying to MR discussion'' False
     [(''project_id'', None), (''mr_iid'', None), (''discussion_id'', None), (''body'', None)]
     (\<lambda>a. formatted (gitlab_reply_to_discussion e c (a ''project_id'') (a ''mr_iid'') (a ''discussion_id'') (a ''body'')))"

definition make_gitlab_resolve_discussion :: "'w http_env \<Rightarrow> GitLabClient \<Rightarrow> 'w ToolSpec" where
  "make_gitlab_resolve_discussion e c = gitlab_tool e c ''gitlab_resolve_discussion''
     ''Resolve or unresolve a discussion thread on a merge request. Use gitlab_list_mr_discussions to get discussion IDs. Requires approval.''
     (object_schema
       [(''project_id'', typed ''string'' [(''description'', JStr ''Project ID or path'')]),
        (''mr_iid'', typed ''integer'' [(''description'', JStr ''Merge request IID'')]),
        (''discussion_id'', typed ''string'' [(''description'', JStr ''Discussion ID (from gitlab_list_mr_discussions)'')]),
        (''resolved'', typed ''boolean'' [(''description'', JStr ''True to resolve, false to unresolve''), (''default'', JBool True)])]
       [''project_id'', ''mr_iid'', ''discussion_id''])
     ''Resolving MR discussion'' False
     [(''project_id'', None), (''mr_iid'', None), (''discussion_id'', None), (''resolved'', Some (JBool True))]
     (\<lambda>a. formatted (gitlab_resolve_discussion e c (a ''project_id'') (a ''mr_iid'') (a ''discussion_id'') (a ''resolved'')))"

definition make_gitlab_approve_mr :: "'w http_env \<Rightarrow> GitLabClient \<Rightarrow> 'w ToolSpec" where
  "make_gitlab_approve_mr e c = gitlab_tool e c ''gitlab_approve_mr''
     ''Approve a merge request. Requires approval.''
     (object_schema
       [(''project_id'', typed ''string'' [(''description'', JStr ''Project ID or path'')]),
        (''mr_iid'', typed ''integer'' [(''description'', JStr ''Merge request IID'')])]
       [''project_id'', ''mr_iid''])
     ''Approving merge request'' False
     [(''project_id'', None), (''mr_iid'', None)]
     (\<lambda>a. formatted (gitlab_approve_merge_request e c (a ''project_id'') (a ''mr_iid'')))"

definition make_gitlab_unapprove_mr :: "'w http_env \<Rightarrow> GitLabClient \<Rightarrow> 'w ToolSpec" where
  "make_gitlab_unapprove_mr e c = gitlab_tool e c ''gitlab_unapprove_mr''
     ''Remove your approval from a merge request. Requires approval.''
     (object_schema
       [(''project_id'', typed ''string'' [(''description'', JStr ''Project ID or path'')]),
        (''mr_iid'', typed ''integer'' [(''description'', JStr ''Merge request IID'')])]
       [''project_id'', ''mr_iid''])
     ''Removing MR approval'' False
     [(''project_id'', None), (''mr_iid'', None)]
     (\<lambda>a. formatted (gitlab_unapprove_merge_request e c (a ''project_id'') (a ''mr_iid'')))"

definition make_gitlab_merge_mr :: "'w http_env \<Rightarrow> GitLabClient \<Rightarrow> 'w ToolSpec" where
  "make_gitlab_merge_mr e c = gitlab_tool e c ''gitlab_merge_mr''
     ''Merge a merge request. Optionally squash commits and/or remove the source branch. Requires approval.''
     (object_schema
       [(''project_id'', typed ''string'' [(''description'', JStr ''Project ID or path'')]),
        (''mr_iid'', typed ''integer'' [(''description'', JStr ''Merge request IID'')]),
        (''merge_commit_message'', typed ''string'' [(''description'', JStr ''Custom merge commit message (optional)'')]),
        (''squash'', typed ''boolean'' [(''description'', JStr ''Squash commits into one before merging''), (''default'', JBool False)]),
        (''should_remove_source_branch'', typed ''boolean'' [(''description'', JStr ''Delete the source branch after merge''), (''default'', JBool False)])]
       [''project_id'', ''mr_iid''])
     ''Merging merge request'' False
     [(''project_id'', None), (''mr_iid'', None), (''merge_commit_message'', Some (JStr [])), (''squash'', Some (JBool False)), (''should_remove_source_branch'', Some (JBool False))]
     (\<lambda>a. formatted (gitlab_merge_merge_request e c (a ''project_id'') (a ''mr_iid'') (a ''merge_commit_message'') (a ''squash'') (a ''should_remove_source_branch'')))"

definition make_gitlab_rebase_mr :: "'w http_env \<Rightarrow> GitLabClient \<Rightarrow> 'w ToolSpec" where
  "make_gitlab_rebase_mr e c = gitlab_tool e c ''gitlab_rebase_mr''
     (''Rebase a merge request'' @ SQ @ ''s source branch onto the target branch. Requires approval.'')
     (object_schema
       [(''project_id'', typed ''string'' [(''description'', JStr ''Project ID or path'')]),
        (''mr_iid'', typed ''integer'' [(''description'', JStr ''Merge request IID'')])]
       [''project_id'', ''mr_iid''])
     ''Rebasing merge request'' False
     [(''project_id'', None), (''mr_iid'', None)]
     (\<lambda>a. formatted (gitlab_rebase_merge_request e c (a ''project_id'') (a ''mr_iid'')))"

text \<open>\<open>[int(i) for i in v.split(",")]\<close> when \<open>v\<close> is true.\<close>

fun all_ints :: "'w http_env \<Rightarrow> string list \<Rightarrow> string + json list" where
  "all_ints e [] = Inr []"
| "all_ints e (s # ss) = (case he_int e s of Inl t \<Rightarrow> Inl t | Inr i \<Rightarrow>
     (case all_ints e ss of Inl t \<Rightarrow> Inl t | Inr js \<Rightarrow> Inr (JInt i # js)))"

definition id_list :: "'w http_env \<Rightarrow> json \<Rightarrow> ('w, json list) op" where
  "id_list e v = (if \<not> json_truthy v then op_return [] else
     case v of JStr s \<Rightarrow> op_of (all_ints e (split_on CHR '','' s)) | _ \<Rightarrow> op_raise (he_raise e ''split'' v))"

definition update_mr_body :: "'w http_env \<Rightarrow> GitLabClient \<Rightarrow> (string \<Rightarrow> json) \<Rightarrow> ('w, string) op" where
  "update_mr_body e c a =
     op_bind (id_list e (a ''assignee_ids'')) (\<lambda>assignees.
     op_bind (id_list e (a ''reviewer_ids'')) (\<lambda>reviewers.
     let flds =
       field_if (json_truthy (a ''title'')) ''title'' (a ''title'') @
       field_if (json_truthy (a ''description'')) ''description'' (a ''description'') @
       field_if (json_truthy (a ''labels'')) ''labels'' (a ''labels'') @
       field_if (json_truthy (a ''assignee_ids'')) ''assignee_ids'' (JList assignees) @
       field_if (json_truthy (a ''reviewer_ids'')) ''reviewer_ids'' (JList reviewers) @
       field_if (json_truthy (a ''target_branch'')) ''target_branch'' (a ''target_branch'') @
       field_if (json_truthy (a ''state_event'')) ''state_event'' (a ''state_event'') in
     if flds = [] then op_return (format_json (error_dict ''No fields provided to update''))
     else formatted (gitlab_update_merge_request e c (a ''project_id'') (a ''mr_iid'') flds)))"

definition make_gitlab_update_mr :: "'w http_env \<Rightarrow> GitLabClient \<Rightarrow> 'w ToolSpec" where
  "make_gitlab_update_mr e c = gitlab_tool e c ''gitlab_update_mr''
     (''Update merge request fields: title, description, labels, assignees, reviewers, target branch. Use state_event='' @ SQ @ ''close'' @ SQ @ '' or '' @ SQ @ ''reopen'' @ SQ @ '' to change MR state. Requires approval.'')
     (object_schema
       [(''project_id'', typed ''string'' [(''description'', JStr ''Project ID or path'')]),
        (''mr_iid'', typed ''integer'' [(''description'', JStr ''Merge request IID'')]),
        (''title'', typed ''string'' [(''description'', JStr ''New title'')]),
        (''description'', typed ''string'' [(''description'', JStr ''New description (Markdown)'')]),
        (''labels'', typed ''string'' [(''description'', JStr ''Comma-separated labels (replaces all existing)'')]),
        (''assignee_ids'', typed ''string'' [(''description'', JStr ''Comma-separated user IDs to assign'')]),
        (''reviewer_ids'', typed ''string'' [(''description'', JStr ''Comma-separated user IDs to add as reviewers'')]),
        (''target_branch'', typed ''string'' [(''description'', JStr ''Change target branch'')]),
        (''state_event'', typed ''string'' [(''description'', JStr (''State transition: '' @ SQ @ ''close'' @ SQ @ '' or '' @ SQ @ ''reopen'' @ SQ))])]
       [''project_id'', ''mr_iid''])
     ''Updating merge request'' False
     [(''project_id'', None), (''mr_iid'', None), (''title'', Some (JStr [])), (''description'', Some (JStr [])), (''labels'', Some (JStr [])), (''assignee_ids'', Some (JStr [])), (''reviewer_ids'', Some (JStr [])), (''target_branch'', Some (JStr [])), (''state_event'', Some (JStr []))]
     (\<lambda>a. update_mr_body e c a)"

definition make_gitlab_create_mr :: "'w http_env \<Rightarrow> GitLabClient \<Rightarrow> 'w ToolSpec" where
  "make_gitlab_create_mr e c = gitlab_tool e c ''gitlab_create_mr''
     ''Create a new merge request. Requires approval.''
     (object_schema
       [(''project_id'', typed ''string'' [(''description'', JStr ''Project ID or path'')]),
        (''source_branch'', typed ''string'' [(''description'', JStr ''Branch with the changes'')]),
        (''target_branch'', typed ''string'' [(''description'', JStr ''Branch to merge into'')]),
        (''title'', typed ''string'' [(''description'', JStr ''MR title'')]),
        (''description'', typed ''string'' [(''description'', JStr ''MR description (Markdown)'')])]
       [''project_id'', ''source_branch'', ''target_branch'', ''title''])
     ''Creating merge request'' False
     [(''project_id'', None), (''source_branch'', None), (''target_branch'', None), (''title'', None), (''description'', Some (JStr []))]
     (\<lambda>a. formatted (gitlab_create_merge_request e c (a ''project_id'') (a ''source_branch'') (a ''target_branch'') (a ''title'') (a ''description'')))"

definition gitlab_tools :: "'w http_env \<Rightarrow> GitLabClient \<Rightarrow> 'w ToolSpec list" where
  "gitlab_tools e c = [make_gitlab_search_projects e c, make_gitlab_get_project e c,
     make_gitlab_list_merge_requests e c, make_gitlab_get_merge_request e c, make_gitlab_get_merge_request_changes e c,
     make_gitlab_list_pipelines e c, make_gitlab_get_pipeline e c, make_gitlab_get_job_log e c,
     make_gitlab_list_pipeline_jobs e c, make_gitlab_get_file e c, make_gitlab_list_mr_notes e c,
     make_gitlab_list_mr_discussions e c, make_gitlab_get_mr_approvals e c, make_gitlab_list_branches e c,
     make_gitlab_list_commits e c, make_gitlab_get_commit e c, make_gitlab_compare e c, make_gitlab_me e c,
     make_gitlab_create_mr_note e c, make_gitlab_update_mr_note e c, make_gitlab_reply_to_discussion e c,
     make_gitlab_resolve_discussion e c, make_gitlab_approve_mr e c, make_gitlab_unapprove_mr e c, make_gitlab_merge_mr
     e c, make_gitlab_rebase_mr e c, make_gitlab_update_mr e c, make_gitlab_create_mr e c]"

lemmas make_gitlab_defs = make_gitlab_search_projects_def make_gitlab_get_project_def
     make_gitlab_list_merge_requests_def make_gitlab_get_merge_request_def make_gitlab_get_merge_request_changes_def
     make_gitlab_list_pipelines_def make_gitlab_get_pipeline_def make_gitlab_get_job_log_def
     make_gitlab_list_pipeline_jobs_def make_gitlab_get_file_def make_gitlab_list_mr_notes_def
     make_gitlab_list_mr_discussions_def make_gitlab_get_mr_approvals_def make_gitlab_list_branches_def
     make_gitlab_list_commits_def make_gitlab_get_commit_def make_gitlab_compare_def make_gitlab_me_def
     make_gitlab_create_mr_note_def make_gitlab_update_mr_note_def make_gitlab_reply_to_discussion_def
     make_gitlab_resolve_discussion_def make_gitlab_approve_mr_def make_gitlab_unapprove_mr_def make_gitlab_merge_mr_def
     make_gitlab_rebase_mr_def make_gitlab_update_mr_def make_gitlab_create_mr_def

definition register_gitlab_tools :: "'w http_env \<Rightarrow> GitLabClient \<Rightarrow> 'w ToolRegistry \<Rightarrow> registry_error + 'w ToolRegistry" where
  "register_gitlab_tools e c r = register_all (gitlab_tools e c) r"

section \<open>Which requests the tools send\<close>

lemma gitlab_sends:
  "sends_only e read_request (gitlab_search_projects e c q n)"
  "sends_only e read_request (gitlab_get_project e c p)"
  "sends_only e read_request (gitlab_list_merge_requests e c p s n)"
  "sends_only e read_request (gitlab_get_merge_request e c p m)"
  "sends_only e read_request (gitlab_get_merge_request_changes e c p m)"
  "sends_only e read_request (gitlab_list_pipelines e c p n)"
  "sends_only e read_request (gitlab_get_pipeline e c p i)"
  "sends_only e read_request (gitlab_list_pipeline_jobs e c p i)"
  "sends_only e read_request (gitlab_get_job_log e c p i)"
  "sends_only e read_request (gitlab_get_file e c p f ref)"
  "sends_only e read_request (gitlab_list_mr_notes e c p m s n)"
  "sends_only e read_request (gitlab_list_mr_discussions e c p m n)"
  "sends_only e read_request (gitlab_get_mr_approvals e c p m)"
  "sends_only e read_request (gitlab_list_branches e c p s n)"
  "sends_only e read_request (gitlab_list_commits e c p ref n)"
  "sends_only e read_request (gitlab_get_commit e c p s)"
  "sends_only e read_request (gitlab_compare e c p f t)"
  "sends_only e read_request (gitlab_get_current_user e c)"
  unfolding gitlab_search_projects_def gitlab_get_project_def gitlab_list_merge_requests_def gitlab_get_merge_request_def gitlab_get_merge_request_changes_def gitlab_list_pipelines_def gitlab_get_pipeline_def gitlab_list_pipeline_jobs_def gitlab_get_job_log_def gitlab_get_file_def gitlab_list_mr_notes_def gitlab_list_mr_discussions_def gitlab_get_mr_approvals_def gitlab_list_branches_def gitlab_list_commits_def gitlab_get_commit_def gitlab_compare_def gitlab_get_current_user_def
  unfolding Let_def by (intro sends_rules gitlab_request_sends gitlab_text_sends gitlab_get)+

lemma make_gitlab_names:
  "ts_name (make_gitlab_search_projects e c) = ''gitlab_search_projects''"
  "ts_name (make_gitlab_get_project e c) = ''gitlab_get_project''"
  "ts_name (make_gitlab_list_merge_requests e c) = ''gitlab_list_merge_requests''"
  "ts_name (make_gitlab_get_merge_request e c) = ''gitlab_get_merge_request''"
  "ts_name (make_gitlab_get_merge_request_changes e c) = ''gitlab_get_merge_request_changes''"
  "ts_name (make_gitlab_list_pipelines e c) = ''gitlab_list_pipelines''"
  "ts_name (make_gitlab_get_pipeline e c) = ''gitlab_get_pipeline''"
  "ts_name (make_gitlab_get_job_log e c) = ''gitlab_get_job_log''"
  "ts_name (make_gitlab_list_pipeline_jobs e c) = ''gitlab_list_pipeline_jobs''"
  "ts_name (make_gitlab_get_file e c) = ''gitlab_get_file''"
  "ts_name (make_gitlab_list_mr_notes e c) = ''gitlab_list_mr_notes''"
  "ts_name (make_gitlab_list_mr_discussions e c) = ''gitlab_list_mr_discussions''"
  "ts_name (make_gitlab_get_mr_approvals e c) = ''gitlab_get_mr_approvals''"
  "ts_name (make_gitlab_list_branches e c) = ''gitlab_list_branches''"
  "ts_name (make_gitlab_list_commits e c) = ''gitlab_list_commits''"
  "ts_name (make_gitlab_get_commit e c) = ''gitlab_get_commit''"
  "ts_name (make_gitlab_compare e c) = ''gitlab_compare''"
  "ts_name (make_gitlab_me e c) = ''gitlab_me''"
  "ts_name (make_gitlab_create_mr_note e c) = ''gitlab_create_mr_note''"
  "ts_name (make_gitlab_update_mr_note e c) = ''gitlab_update_mr_note''"
  "ts_name (make_gitlab_reply_to_discussion e c) = ''gitlab_reply_to_discussion''"
  "ts_name (make_gitlab_resolve_discussion e c) = ''gitlab_resolve_discussion''"
  "ts_name (make_gitlab_approve_mr e c) = ''gitlab_approve_mr''"
  "ts_name (make_gitlab_unapprove_mr e c) = ''gitlab_unapprove_mr''"
  "ts_name (make_gitlab_merge_mr e c) = ''gitlab_merge_mr''"
  "ts_name (make_gitlab_rebase_mr e c) = ''gitlab_rebase_mr''"
  "ts_name (make_gitlab_update_mr e c) = ''gitlab_update_mr''"
  "ts_name (make_gitlab_create_mr e c) = ''gitlab_create_mr''"
  by (simp_all only: make_gitlab_defs gitlab_tool_def service_tool_fields)

lemma make_gitlab_checks:
  "check_fn (make_gitlab_search_projects e c) = Some (gitlab_configured c)"
  "check_fn (make_gitlab_get_project e c) = Some (gitlab_configured c)"
  "check_fn (make_gitlab_list_merge_requests e c) = Some (gitlab_configured c)"
  "check_fn (make_gitlab_get_merge_request e c) = Some (gitlab_configured c)"
  "check_fn (make_gitlab_get_merge_request_changes e c) = Some (gitlab_configured c)"
  "check_fn (make_gitlab_list_pipelines e c) = Some (gitlab_configured c)"
  "check_fn (make_gitlab_get_pipeline e c) = Some (gitlab_configured c)"
  "check_fn (make_gitlab_get_job_log e c) = Some (gitlab_configured c)"
  "check_fn (make_gitlab_list_pipeline_jobs e c) = Some (gitlab_configured c)"
  "check_fn (make_gitlab_get_file e c) = Some (gitlab_configured c)"
  "check_fn (make_gitlab_list_mr_notes e c) = Some (gitlab_configured c)"
  "check_fn (make_gitlab_list_mr_discussions e c) = Some (gitlab_configured c)"
  "check_fn (make_gitlab_get_mr_approvals e c) = Some (gitlab_configured c)"
  "check_fn (make_gitlab_list_branches e c) = Some (gitlab_configured c)"
  "check_fn (make_gitlab_list_commits e c) = Some (gitlab_configured c)"
  "check_fn (make_gitlab_get_commit e c) = Some (gitlab_configured c)"
  "check_fn (make_gitlab_compare e c) = Some (gitlab_configured c)"
  "check_fn (make_gitlab_me e c) = Some (gitlab_configured c)"
  "check_fn (make_gitlab_create_mr_note e c) = Some (gitlab_configured c)"
  "check_fn (make_gitlab_update_mr_note e c) = Some (gitlab_configured c)"
  "check_fn (make_gitlab_reply_to_discussion e c) = Some (gitlab_configured c)"
  "check_fn (make_gitlab_resolve_discussion e c) = Some (gitlab_configured c)"
  "check_fn (make_gitlab_approve_mr e c) = Some (gitlab_configured c)"
  "check_fn (make_gitlab_unapprove_mr e c) = Some (gitlab_configured c)"
  "check_fn (make_gitlab_merge_mr e c) = Some (gitlab_configured c)"
  "check_fn (make_gitlab_rebase_mr e c) = Some (gitlab_configured c)"
  "check_fn (make_gitlab_update_mr e c) = Some (gitlab_configured c)"
  "check_fn (make_gitlab_create_mr e c) = Some (gitlab_configured c)"
  by (simp_all only: make_gitlab_defs gitlab_tool_def service_tool_fields)

lemma gitlab_reads_ok:
  "reads_ok e read_request (make_gitlab_search_projects e c)"
  "reads_ok e read_request (make_gitlab_get_project e c)"
  "reads_ok e read_request (make_gitlab_list_merge_requests e c)"
  "reads_ok e read_request (make_gitlab_get_merge_request e c)"
  "reads_ok e read_request (make_gitlab_get_merge_request_changes e c)"
  "reads_ok e read_request (make_gitlab_list_pipelines e c)"
  "reads_ok e read_request (make_gitlab_get_pipeline e c)"
  "reads_ok e read_request (make_gitlab_get_job_log e c)"
  "reads_ok e read_request (make_gitlab_list_pipeline_jobs e c)"
  "reads_ok e read_request (make_gitlab_get_file e c)"
  "reads_ok e read_request (make_gitlab_list_mr_notes e c)"
  "reads_ok e read_request (make_gitlab_list_mr_discussions e c)"
  "reads_ok e read_request (make_gitlab_get_mr_approvals e c)"
  "reads_ok e read_request (make_gitlab_list_branches e c)"
  "reads_ok e read_request (make_gitlab_list_commits e c)"
  "reads_ok e read_request (make_gitlab_get_commit e c)"
  "reads_ok e read_request (make_gitlab_compare e c)"
  "reads_ok e read_request (make_gitlab_me e c)"
  "reads_ok e read_request (make_gitlab_create_mr_note e c)"
  "reads_ok e read_request (make_gitlab_update_mr_note e c)"
  "reads_ok e read_request (make_gitlab_reply_to_discussion e c)"
  "reads_ok e read_request (make_gitlab_resolve_discussion e c)"
  "reads_ok e read_request (make_gitlab_approve_mr e c)"
  "reads_ok e read_request (make_gitlab_unapprove_mr e c)"
  "reads_ok e read_request (make_gitlab_merge_mr e c)"
  "reads_ok e read_request (make_gitlab_rebase_mr e c)"
  "reads_ok e read_request (make_gitlab_update_mr e c)"
  "reads_ok e read_request (make_gitlab_create_mr e c)"
  unfolding make_gitlab_defs gitlab_tool_def by (rule reads_service reads_write, (intro sends_rules gitlab_sends)?)+

interpretation gitlab: service e "gitlab_configured c" "gitlab_tools e c" read_request for e c
proof
  show "list_all (\<lambda>s. check_fn s = Some (gitlab_configured c)) (gitlab_tools e c)"
    by (simp only: gitlab_tools_def list.pred_inject make_gitlab_checks simp_thms)
  show "distinct (map ts_name (gitlab_tools e c))"
    by (simp add: gitlab_tools_def make_gitlab_names)
  show "list_all (reads_ok e read_request) (gitlab_tools e c)"
    by (simp only: gitlab_tools_def list.pred_inject gitlab_reads_ok simp_thms)
qed

end
