(* ===== verification/Jira.thy ===== *)
theory Jira
  imports ServiceCore
begin

text \<open>
  The Jira client and its tools (\<^verbatim>\<open>tools/jira.py\<close>): four reading and four writing tools.
  The query is a \<open>POST\<close>, since its text can exceed the length of a URL; updates and transitions read the
  issue again after writing.
\<close>


section \<open>The client\<close>

definition JIRA_SEARCH_LIMIT :: int where "JIRA_SEARCH_LIMIT = 10"
definition EPIC_LINK_FIELD :: string where "EPIC_LINK_FIELD = ''customfield_10014''"

definition JIRA_DEFAULT_FIELDS :: string where
  "JIRA_DEFAULT_FIELDS = ''status,labels,assignee,updated,created,issuetype,description,'' @
     ''priority,summary,reporter,duedate,issuelinks,components''"

record JiraClient =
  jr_base_url :: string
  jr_auth_header :: string

definition jira_client :: "string \<Rightarrow> string \<Rightarrow> JiraClient" where
  "jira_client base_url auth_header = \<lparr>jr_base_url = rstrip_chars ''/'' base_url, jr_auth_header = auth_header\<rparr>"

definition jira_configured :: "JiraClient \<Rightarrow> bool" where
  "jira_configured c = (jr_base_url c \<noteq> [] \<and> jr_auth_header c \<noteq> [])"

definition jira_http :: "JiraClient \<Rightarrow> string \<Rightarrow> string \<Rightarrow> (string \<times> json) list \<Rightarrow> json option \<Rightarrow> http_request" where
  "jira_http c meth endpoint params payload = \<lparr>hq_method = meth, hq_base = jr_base_url c, hq_endpoint = endpoint,
     hq_params = params, hq_body = payload,
     hq_headers = [(''Content-Type'', ''application/json''), (''Authorization'', jr_auth_header c)], hq_auth = None\<rparr>"

definition jira_request ::
  "'w http_env \<Rightarrow> JiraClient \<Rightarrow> string \<Rightarrow> string \<Rightarrow> (string \<times> json) list \<Rightarrow> json option \<Rightarrow> ('w, json) op" where
  "jira_request e c meth endpoint params payload =
     (if \<not> jira_configured c then op_return (error_dict ''Jira not configured. Set JIRA_URL and JIRA_AUTH.'')
      else op_bind (op_send e (jira_http c meth endpoint params payload)) (\<lambda>r.
        if hs_status r \<ge> HTTP_ERROR_THRESHOLD then op_return (status_error ''Jira'' r)
        else if hs_status r \<in> {201, 204} \<and> strip (hs_text r) = [] then op_return (JObj [(''success'', JBool True)])
        else op_of (he_loads e (hs_text r))))"

definition jira_tool ::
  "'w http_env \<Rightarrow> JiraClient \<Rightarrow> string \<Rightarrow> string \<Rightarrow> json \<Rightarrow> string \<Rightarrow> bool \<Rightarrow> signature \<Rightarrow>
     ((string \<Rightarrow> json) \<Rightarrow> ('w, string) op) \<Rightarrow> 'w ToolSpec" where
  "jira_tool e c = service_tool e (Some (jira_configured c)) ''jira''"

lemma jira_request_sends: "A (jira_http c m ep ps b) \<Longrightarrow> sends_only e A (jira_request e c m ep ps b)"
  unfolding jira_request_def by (intro sends_rules)

lemma jira_get: "read_request (jira_http c ''GET'' ep ps b)" "read_request (jira_http c ''POST'' ''/rest/api/2/search'' ps b)"
  by (simp_all add: read_request_def jira_http_def)

text \<open>\<open>v.split(",") if v else None\<close>, and the objects that name the components.\<close>

definition split_arg :: "'w http_env \<Rightarrow> json \<Rightarrow> ('w, string list option) op" where
  "split_arg e v = (if \<not> json_truthy v then op_return None else
     case v of JStr s \<Rightarrow> op_return (Some (split_on CHR '','' s)) | _ \<Rightarrow> op_raise (he_raise e ''split'' v))"

definition named :: "json \<Rightarrow> json" where
  "named v = JObj [(''name'', v)]"

definition strings :: "string list option \<Rightarrow> json" where
  "strings x = (case x of None \<Rightarrow> JNull | Some xs \<Rightarrow> JList (map JStr xs))"

definition component_list :: "string list option \<Rightarrow> json" where
  "component_list x = (case x of None \<Rightarrow> JNull | Some xs \<Rightarrow> JList (map (named \<circ> JStr) xs))"

section \<open>Operations of the client\<close>

definition jira_get_issue :: "'w http_env \<Rightarrow> JiraClient \<Rightarrow> json \<Rightarrow> json \<Rightarrow> ('w, json) op" where
  "jira_get_issue e c issue_key flds =
     jira_request e c ''GET'' (''/rest/api/2/issue/'' @ py_str_json issue_key) [(''fields'', flds)] None"

definition jira_search :: "'w http_env \<Rightarrow> JiraClient \<Rightarrow> json \<Rightarrow> json \<Rightarrow> string \<Rightarrow> ('w, json) op" where
  "jira_search e c jql limit flds =
     jira_request e c ''POST'' (''/rest/api/2/search'') []
       (Some (JObj [(''jql'', jql),
         (''fields'', JList (map JStr (if flds \<noteq> ''*all'' then split_on CHR '','' flds else [''*all'']))),
         (''maxResults'', limit)]))"

definition jira_get_transitions :: "'w http_env \<Rightarrow> JiraClient \<Rightarrow> json \<Rightarrow> ('w, json) op" where
  "jira_get_transitions e c issue_key =
     jira_request e c ''GET'' (''/rest/api/2/issue/'' @ py_str_json issue_key @ ''/transitions'') [] None"

definition jira_me :: "'w http_env \<Rightarrow> JiraClient \<Rightarrow> ('w, json) op" where
  "jira_me e c =
     jira_request e c ''GET'' (''/rest/api/2/myself'') [] None"

definition jira_create_issue ::
  "'w http_env \<Rightarrow> JiraClient \<Rightarrow> json \<Rightarrow> json \<Rightarrow> json \<Rightarrow> json \<Rightarrow> json \<Rightarrow> json \<Rightarrow> json \<Rightarrow>
     string list option \<Rightarrow> string list option \<Rightarrow> json \<Rightarrow> ('w, json) op" where
  "jira_create_issue e c project_key summary issue_type description assignee priority due_date labels comps epic_key =
     (let flds = [(''project'', JObj [(''key'', project_key)]), (''summary'', summary), (''issuetype'', named issue_type)] @
       field_if (json_truthy description) ''description'' description @
       field_if (json_truthy assignee) ''assignee'' (named assignee) @
       field_if (json_truthy priority) ''priority'' (named priority) @
       field_if (json_truthy due_date) ''duedate'' due_date @
       field_if (json_truthy (strings labels)) ''labels'' (strings labels) @
       field_if (json_truthy (strings comps)) ''components'' (component_list comps) @
       field_if (json_truthy epic_key) EPIC_LINK_FIELD epic_key in
     jira_request e c ''POST'' (''/rest/api/2/issue'') [] (Some (JObj [(''fields'', JObj flds)])))"

definition jira_update_issue ::
  "'w http_env \<Rightarrow> JiraClient \<Rightarrow> json \<Rightarrow> json \<Rightarrow> json \<Rightarrow> json \<Rightarrow> json \<Rightarrow> json \<Rightarrow>
     string list option \<Rightarrow> string list option \<Rightarrow> json \<Rightarrow> ('w, json) op" where
  "jira_update_issue e c issue_key summary description assignee priority due_date labels comps epic_key =
     (let flds =
       field_if (summary \<noteq> JNull) ''summary'' summary @
       field_if (description \<noteq> JNull) ''description'' description @
       field_if (assignee \<noteq> JNull) ''assignee'' (named assignee) @
       field_if (priority \<noteq> JNull) ''priority'' (named priority) @
       field_if (due_date \<noteq> JNull) ''duedate'' due_date @
       field_if (labels \<noteq> None) ''labels'' (strings labels) @
       field_if (comps \<noteq> None) ''components'' (component_list comps) @
       field_if (epic_key \<noteq> JNull) EPIC_LINK_FIELD epic_key in
     if flds = [] then op_return (error_dict ''No fields to update'') else
     op_bind (jira_request e c ''PUT'' (''/rest/api/2/issue/'' @ py_str_json issue_key) [] (Some (JObj [(''fields'', JObj flds)])))
       (\<lambda>_. jira_get_issue e c issue_key (JStr JIRA_DEFAULT_FIELDS)))"

definition jira_add_comment :: "'w http_env \<Rightarrow> JiraClient \<Rightarrow> json \<Rightarrow> json \<Rightarrow> ('w, json) op" where
  "jira_add_comment e c issue_key bdy =
     jira_request e c ''POST'' (''/rest/api/2/issue/'' @ py_str_json issue_key @ ''/comment'') [] (Some (JObj [(''body'', bdy)]))"

definition jira_transition_issue :: "'w http_env \<Rightarrow> JiraClient \<Rightarrow> json \<Rightarrow> json \<Rightarrow> json \<Rightarrow> ('w, json) op" where
  "jira_transition_issue e c issue_key transition_id comment =
     (let payload = [(''transition'', JObj [(''id'', transition_id)])] @
       field_if (json_truthy comment) ''update'' (JObj [(''comment'', JList [JObj [(''add'', JObj [(''body'', comment)])]])]) in
     op_bind (jira_request e c ''POST'' (''/rest/api/2/issue/'' @ py_str_json issue_key @ ''/transitions'') [] (Some (JObj payload))) (\<lambda>_. jira_get_issue e c issue_key (JStr JIRA_DEFAULT_FIELDS)))"

section \<open>Tools\<close>

definition make_jira_get_issue :: "'w http_env \<Rightarrow> JiraClient \<Rightarrow> 'w ToolSpec" where
  "make_jira_get_issue e c = jira_tool e c ''jira_get_issue''
     ''Get details of a Jira issue by key (e.g. PROJ-123).''
     (object_schema
       [(''issue_key'', typed ''string'' [(''description'', JStr ''Issue key, e.g. PROJ-123'')])]
       [''issue_key''])
     ''Getting Jira issue'' True
     [(''issue_key'', None)]
     (\<lambda>a. formatted (jira_get_issue e c (a ''issue_key'') (JStr JIRA_DEFAULT_FIELDS)))"

definition make_jira_search :: "'w http_env \<Rightarrow> JiraClient \<Rightarrow> 'w ToolSpec" where
  "make_jira_search e c = jira_tool e c ''jira_search''
     (''Search Jira issues using JQL. Example: jira_search(jql='' @ DQ @ ''project = MYPROJ AND status = Open'' @ DQ @ '', limit=10)'')
     (object_schema
       [(''jql'', typed ''string'' [(''description'', JStr ''JQL query string'')]),
        (''limit'', typed ''integer'' [(''description'', JStr (''Max results (default '' @ int_str JIRA_SEARCH_LIMIT @ '')'')), (''default'', JInt JIRA_SEARCH_LIMIT)])]
       [''jql''])
     ''Searching Jira'' True
     [(''jql'', None), (''limit'', Some (JInt JIRA_SEARCH_LIMIT))]
     (\<lambda>a. formatted (jira_search e c (a ''jql'') (a ''limit'') JIRA_DEFAULT_FIELDS))"

definition make_jira_me :: "'w http_env \<Rightarrow> JiraClient \<Rightarrow> 'w ToolSpec" where
  "make_jira_me e c = jira_tool e c ''jira_me''
     (''Get the authenticated user'' @ SQ @ ''s Jira profile.'')
     (object_schema
       []
       [])
     ''Checking Jira profile'' True
     []
     (\<lambda>a. formatted (jira_me e c))"

definition make_jira_get_transitions :: "'w http_env \<Rightarrow> JiraClient \<Rightarrow> 'w ToolSpec" where
  "make_jira_get_transitions e c = jira_tool e c ''jira_get_transitions''
     ''Get available status transitions for a Jira issue.''
     (object_schema
       [(''issue_key'', typed ''string'' [(''description'', JStr ''Issue key'')])]
       [''issue_key''])
     ''Getting issue transitions'' True
     [(''issue_key'', None)]
     (\<lambda>a. formatted (jira_get_transitions e c (a ''issue_key'')))"

definition make_jira_create_issue :: "'w http_env \<Rightarrow> JiraClient \<Rightarrow> 'w ToolSpec" where
  "make_jira_create_issue e c = jira_tool e c ''jira_create_issue''
     ''Create a new Jira issue. Requires approval.''
     (object_schema
       [(''project_key'', typed ''string'' [(''description'', JStr ''Project key, e.g. MYPROJ'')]),
        (''summary'', typed ''string'' [(''description'', JStr ''Issue summary/title'')]),
        (''issue_type'', typed ''string'' [(''description'', JStr ''Issue type (default: Task)''), (''default'', JStr ''Task'')]),
        (''description'', typed ''string'' [(''description'', JStr ''Issue description'')]),
        (''assignee'', typed ''string'' [(''description'', JStr ''Assignee username'')]),
        (''priority'', typed ''string'' [(''description'', JStr ''Priority name (e.g. P1, Medium)'')]),
        (''due_date'', typed ''string'' [(''description'', JStr ''Due date in YYYY-MM-DD format'')]),
        (''labels'', typed ''string'' [(''description'', JStr ''Comma-separated labels'')]),
        (''components'', typed ''string'' [(''description'', JStr ''Comma-separated component names'')]),
        (''epic_key'', typed ''string'' [(''description'', JStr ''Epic issue key to link to (e.g. PROJ-100)'')])]
       [''project_key'', ''summary''])
     ''Creating Jira issue'' False
     [(''project_key'', None), (''summary'', None), (''issue_type'', Some (JStr ''Task'')), (''description'', Some (JStr [])), (''assignee'', Some (JStr [])), (''priority'', Some (JStr [])), (''due_date'', Some (JStr [])), (''labels'', Some (JStr [])), (''components'', Some (JStr [])), (''epic_key'', Some (JStr []))]
     (\<lambda>a. op_bind (split_arg e (a ''labels'')) (\<lambda>labels. op_bind (split_arg e (a ''components'')) (\<lambda>comps.
       formatted (jira_create_issue e c (a ''project_key'') (a ''summary'') (a ''issue_type'') (or_none (a ''description''))
         (or_none (a ''assignee'')) (or_none (a ''priority'')) (or_none (a ''due_date'')) labels comps (or_none (a ''epic_key''))))))"

definition make_jira_update_issue :: "'w http_env \<Rightarrow> JiraClient \<Rightarrow> 'w ToolSpec" where
  "make_jira_update_issue e c = jira_tool e c ''jira_update_issue''
     ''Update fields on an existing Jira issue. Pass only the fields you want to change. Requires approval.''
     (object_schema
       [(''issue_key'', typed ''string'' [(''description'', JStr ''Issue key'')]),
        (''summary'', typed ''string'' [(''description'', JStr ''New summary'')]),
        (''description'', typed ''string'' [(''description'', JStr ''New description'')]),
        (''assignee'', typed ''string'' [(''description'', JStr ''New assignee username'')]),
        (''priority'', typed ''string'' [(''description'', JStr ''New priority (e.g. P1, Medium)'')]),
        (''due_date'', typed ''string'' [(''description'', JStr ''New due date in YYYY-MM-DD format'')]),
        (''labels'', typed ''string'' [(''description'', JStr ''Comma-separated labels (replaces all)'')]),
        (''components'', typed ''string'' [(''description'', JStr ''Comma-separated component names (replaces all)'')]),
        (''epic_key'', typed ''string'' [(''description'', JStr ''Epic issue key to link to'')])]
       [''issue_key''])
     ''Updating Jira issue'' False
     [(''issue_key'', None), (''summary'', Some (JStr [])), (''description'', Some (JStr [])), (''assignee'', Some (JStr [])), (''priority'', Some (JStr [])), (''due_date'', Some (JStr [])), (''labels'', Some (JStr [])), (''components'', Some (JStr [])), (''epic_key'', Some (JStr []))]
     (\<lambda>a. op_bind (split_arg e (a ''labels'')) (\<lambda>labels. op_bind (split_arg e (a ''components'')) (\<lambda>comps.
       formatted (jira_update_issue e c (a ''issue_key'') (or_none (a ''summary'')) (or_none (a ''description''))
         (or_none (a ''assignee'')) (or_none (a ''priority'')) (or_none (a ''due_date'')) labels (map_option (map strip) comps)
         (or_none (a ''epic_key''))))))"

definition make_jira_add_comment :: "'w http_env \<Rightarrow> JiraClient \<Rightarrow> 'w ToolSpec" where
  "make_jira_add_comment e c = jira_tool e c ''jira_add_comment''
     ''Add a comment to a Jira issue. Requires approval.''
     (object_schema
       [(''issue_key'', typed ''string'' [(''description'', JStr ''Issue key'')]),
        (''body'', typed ''string'' [(''description'', JStr ''Comment text (Jira wiki markup)'')])]
       [''issue_key'', ''body''])
     ''Adding Jira comment'' False
     [(''issue_key'', None), (''body'', None)]
     (\<lambda>a. formatted (jira_add_comment e c (a ''issue_key'') (a ''body'')))"

definition make_jira_transition_issue :: "'w http_env \<Rightarrow> JiraClient \<Rightarrow> 'w ToolSpec" where
  "make_jira_transition_issue e c = jira_tool e c ''jira_transition_issue''
     ''Transition a Jira issue to a new status. Use jira_get_transitions first to find the transition_id. Requires approval.''
     (object_schema
       [(''issue_key'', typed ''string'' [(''description'', JStr ''Issue key'')]),
        (''transition_id'', typed ''string'' [(''description'', JStr ''Transition ID (from jira_get_transitions)'')]),
        (''comment'', typed ''string'' [(''description'', JStr ''Optional transition comment'')])]
       [''issue_key'', ''transition_id''])
     ''Transitioning Jira issue'' False
     [(''issue_key'', None), (''transition_id'', None), (''comment'', Some (JStr []))]
     (\<lambda>a. formatted (jira_transition_issue e c (a ''issue_key'') (a ''transition_id'') (or_none (a ''comment''))))"

definition jira_tools :: "'w http_env \<Rightarrow> JiraClient \<Rightarrow> 'w ToolSpec list" where
  "jira_tools e c = [make_jira_get_issue e c, make_jira_search e c, make_jira_me e c, make_jira_get_transitions e
     c, make_jira_create_issue e c, make_jira_update_issue e c, make_jira_add_comment e c, make_jira_transition_issue e
     c]"

lemmas make_jira_defs = make_jira_get_issue_def make_jira_search_def make_jira_me_def make_jira_get_transitions_def
     make_jira_create_issue_def make_jira_update_issue_def make_jira_add_comment_def make_jira_transition_issue_def

definition register_jira_tools :: "'w http_env \<Rightarrow> JiraClient \<Rightarrow> 'w ToolRegistry \<Rightarrow> registry_error + 'w ToolRegistry" where
  "register_jira_tools e c r = register_all (jira_tools e c) r"

section \<open>Which requests the tools send\<close>

lemma jira_sends:
  "sends_only e read_request (jira_get_issue e c k f)"
  "sends_only e read_request (jira_search e c j n fs)"
  "sends_only e read_request (jira_get_transitions e c k)"
  "sends_only e read_request (jira_me e c)"
  unfolding jira_get_issue_def jira_search_def jira_get_transitions_def jira_me_def
  by (intro sends_rules jira_request_sends jira_get)+

lemma make_jira_names:
  "ts_name (make_jira_get_issue e c) = ''jira_get_issue''"
  "ts_name (make_jira_search e c) = ''jira_search''"
  "ts_name (make_jira_me e c) = ''jira_me''"
  "ts_name (make_jira_get_transitions e c) = ''jira_get_transitions''"
  "ts_name (make_jira_create_issue e c) = ''jira_create_issue''"
  "ts_name (make_jira_update_issue e c) = ''jira_update_issue''"
  "ts_name (make_jira_add_comment e c) = ''jira_add_comment''"
  "ts_name (make_jira_transition_issue e c) = ''jira_transition_issue''"
  by (simp_all only: make_jira_defs jira_tool_def service_tool_fields)

lemma make_jira_checks:
  "check_fn (make_jira_get_issue e c) = Some (jira_configured c)"
  "check_fn (make_jira_search e c) = Some (jira_configured c)"
  "check_fn (make_jira_me e c) = Some (jira_configured c)"
  "check_fn (make_jira_get_transitions e c) = Some (jira_configured c)"
  "check_fn (make_jira_create_issue e c) = Some (jira_configured c)"
  "check_fn (make_jira_update_issue e c) = Some (jira_configured c)"
  "check_fn (make_jira_add_comment e c) = Some (jira_configured c)"
  "check_fn (make_jira_transition_issue e c) = Some (jira_configured c)"
  by (simp_all only: make_jira_defs jira_tool_def service_tool_fields)

lemma jira_reads_ok:
  "reads_ok e read_request (make_jira_get_issue e c)"
  "reads_ok e read_request (make_jira_search e c)"
  "reads_ok e read_request (make_jira_me e c)"
  "reads_ok e read_request (make_jira_get_transitions e c)"
  "reads_ok e read_request (make_jira_create_issue e c)"
  "reads_ok e read_request (make_jira_update_issue e c)"
  "reads_ok e read_request (make_jira_add_comment e c)"
  "reads_ok e read_request (make_jira_transition_issue e c)"
  unfolding make_jira_defs jira_tool_def by (rule reads_service reads_write, (intro sends_rules jira_sends)?)+

interpretation jira: service e "jira_configured c" "jira_tools e c" read_request for e c
proof
  show "list_all (\<lambda>s. check_fn s = Some (jira_configured c)) (jira_tools e c)"
    by (simp only: jira_tools_def list.pred_inject make_jira_checks simp_thms)
  show "distinct (map ts_name (jira_tools e c))"
    by (simp add: jira_tools_def make_jira_names)
  show "list_all (reads_ok e read_request) (jira_tools e c)"
    by (simp only: jira_tools_def list.pred_inject jira_reads_ok simp_thms)
qed

end
