(* ===== verification/Gerrit.thy ===== *)
theory Gerrit
  imports ServiceCore
begin

text \<open>
  The Gerrit client and its tools (\<^verbatim>\<open>tools/gerrit.py\<close>): seven reading and three writing
  tools. Responses start with a prefix against cross-site script inclusion, which is removed.
\<close>


section \<open>The client\<close>

definition GERRIT_SEARCH_LIMIT :: int where "GERRIT_SEARCH_LIMIT = 10"
definition GERRIT_XSSI_PREFIX :: string where "GERRIT_XSSI_PREFIX = '')]}'' @ SQ"

record GerritClient =
  ge_base_url :: string
  ge_username :: string
  ge_http_password :: string

definition gerrit_client :: "string \<Rightarrow> string \<Rightarrow> string \<Rightarrow> GerritClient" where
  "gerrit_client base_url username http_password =
     \<lparr>ge_base_url = rstrip_chars ''/'' base_url, ge_username = username, ge_http_password = http_password\<rparr>"

definition gerrit_configured :: "GerritClient \<Rightarrow> bool" where
  "gerrit_configured c = (ge_base_url c \<noteq> [] \<and> ge_username c \<noteq> [] \<and> ge_http_password c \<noteq> [])"

definition gerrit_http :: "GerritClient \<Rightarrow> string \<Rightarrow> string \<Rightarrow> (string \<times> json) list \<Rightarrow> json option \<Rightarrow> http_request" where
  "gerrit_http c meth endpoint params payload = \<lparr>hq_method = meth, hq_base = ge_base_url c, hq_endpoint = endpoint,
     hq_params = params, hq_body = payload,
     hq_headers = [(''Content-Type'', ''application/json''), (''Accept'', ''application/json'')],
     hq_auth = Some (ge_username c, ge_http_password c)\<rparr>"

definition strip_xssi :: "'w http_env \<Rightarrow> string \<Rightarrow> string + json" where
  "strip_xssi e txt = he_loads e (if starts_with txt GERRIT_XSSI_PREFIX then drop (length GERRIT_XSSI_PREFIX) txt else txt)"

definition gerrit_request ::
  "'w http_env \<Rightarrow> GerritClient \<Rightarrow> string \<Rightarrow> string \<Rightarrow> (string \<times> json) list \<Rightarrow> json option \<Rightarrow> ('w, json) op" where
  "gerrit_request e c meth endpoint params payload =
     (if \<not> gerrit_configured c
      then op_return (error_dict ''Gerrit not configured. Set GERRIT_URL, GERRIT_USERNAME, and GERRIT_HTTP_PASSWORD.'')
      else op_bind (op_send e (gerrit_http c meth endpoint params payload)) (\<lambda>r.
        if hs_status r \<ge> HTTP_ERROR_THRESHOLD then op_return (status_error ''Gerrit'' r)
        else op_of (strip_xssi e (hs_text r))))"

text \<open>\<open>quote(v, safe="")\<close>, which raises for a value that is not a string.\<close>

definition quote_arg :: "'w http_env \<Rightarrow> json \<Rightarrow> ('w, string) op" where
  "quote_arg e v = (case v of JStr s \<Rightarrow> op_return (url_quote s) | _ \<Rightarrow> op_raise (he_raise e ''quote'' v))"

definition gerrit_tool ::
  "'w http_env \<Rightarrow> GerritClient \<Rightarrow> string \<Rightarrow> string \<Rightarrow> json \<Rightarrow> string \<Rightarrow> bool \<Rightarrow> signature \<Rightarrow>
     ((string \<Rightarrow> json) \<Rightarrow> ('w, string) op) \<Rightarrow> 'w ToolSpec" where
  "gerrit_tool e c = service_tool e (Some (gerrit_configured c)) ''gerrit''"

lemma gerrit_request_sends: "A (gerrit_http c m ep ps b) \<Longrightarrow> sends_only e A (gerrit_request e c m ep ps b)"
  unfolding gerrit_request_def by (intro sends_rules)

lemma quote_arg_sends [sends_rules]: "sends_only e A (quote_arg e v)"
  by (cases v) (simp_all add: quote_arg_def sends_rules)

lemma gerrit_get: "read_request (gerrit_http c ''GET'' ep ps b)"
  by (simp add: read_request_def gerrit_http_def)

section \<open>Operations of the client\<close>

definition gerrit_get_change :: "'w http_env \<Rightarrow> GerritClient \<Rightarrow> json \<Rightarrow> ('w, json) op" where
  "gerrit_get_change e c change_id =
     gerrit_request e c ''GET'' (''/changes/'' @ py_str_json change_id) [(''o'', JList [JStr ''CURRENT_REVISION'', JStr ''LABELS'', JStr ''DETAILED_ACCOUNTS''])] None"

definition gerrit_list_changes :: "'w http_env \<Rightarrow> GerritClient \<Rightarrow> json \<Rightarrow> json \<Rightarrow> ('w, json) op" where
  "gerrit_list_changes e c q limit =
     gerrit_request e c ''GET'' (''/changes/'') [(''q'', q), (''n'', limit)] None"

definition gerrit_get_change_detail :: "'w http_env \<Rightarrow> GerritClient \<Rightarrow> json \<Rightarrow> ('w, json) op" where
  "gerrit_get_change_detail e c change_id =
     gerrit_request e c ''GET'' (''/changes/'' @ py_str_json change_id @ ''/detail'') [(''o'', JList [JStr ''CURRENT_REVISION'', JStr ''ALL_FILES'', JStr ''LABELS'', JStr ''DETAILED_ACCOUNTS''])] None"

definition gerrit_get_comments :: "'w http_env \<Rightarrow> GerritClient \<Rightarrow> json \<Rightarrow> ('w, json) op" where
  "gerrit_get_comments e c change_id =
     gerrit_request e c ''GET'' (''/changes/'' @ py_str_json change_id @ ''/comments'') [] None"

definition gerrit_list_files :: "'w http_env \<Rightarrow> GerritClient \<Rightarrow> json \<Rightarrow> json \<Rightarrow> ('w, json) op" where
  "gerrit_list_files e c change_id revision =
     gerrit_request e c ''GET'' (''/changes/'' @ py_str_json change_id @ ''/revisions/'' @ py_str_json revision @ ''/files'') [] None"

definition gerrit_get_diff :: "'w http_env \<Rightarrow> GerritClient \<Rightarrow> json \<Rightarrow> json \<Rightarrow> json \<Rightarrow> ('w, json) op" where
  "gerrit_get_diff e c change_id file_path revision =
     op_bind (quote_arg e file_path) (\<lambda>encoded_path.
     gerrit_request e c ''GET'' (''/changes/'' @ py_str_json change_id @ ''/revisions/'' @ py_str_json revision @ ''/files/'' @ encoded_path @ ''/diff'') [] None)"

definition gerrit_get_account :: "'w http_env \<Rightarrow> GerritClient \<Rightarrow> ('w, json) op" where
  "gerrit_get_account e c =
     gerrit_request e c ''GET'' (''/accounts/self'') [] None"

definition gerrit_set_review :: "'w http_env \<Rightarrow> GerritClient \<Rightarrow> json \<Rightarrow> json \<Rightarrow> json \<Rightarrow> json \<Rightarrow> ('w, json) op" where
  "gerrit_set_review e c change_id message labels revision =
     (let payload = field_if (json_truthy message) ''message'' message @
       field_if (json_truthy labels) ''labels'' labels in
     gerrit_request e c ''POST'' (''/changes/'' @ py_str_json change_id @ ''/revisions/'' @ py_str_json revision @ ''/review'') [] (Some (JObj payload)))"

definition gerrit_submit :: "'w http_env \<Rightarrow> GerritClient \<Rightarrow> json \<Rightarrow> ('w, json) op" where
  "gerrit_submit e c change_id =
     gerrit_request e c ''POST'' (''/changes/'' @ py_str_json change_id @ ''/submit'') [] None"

definition gerrit_abandon :: "'w http_env \<Rightarrow> GerritClient \<Rightarrow> json \<Rightarrow> json \<Rightarrow> ('w, json) op" where
  "gerrit_abandon e c change_id message =
     (let payload = field_if (json_truthy message) ''message'' message in
     gerrit_request e c ''POST'' (''/changes/'' @ py_str_json change_id @ ''/abandon'') [] (Some (JObj payload)))"

section \<open>Tools\<close>

definition make_gerrit_get_change :: "'w http_env \<Rightarrow> GerritClient \<Rightarrow> 'w ToolSpec" where
  "make_gerrit_get_change e c = gerrit_tool e c ''gerrit_get_change''
     ''Get details of a Gerrit change by numeric ID or change-id.''
     (object_schema
       [(''change_id'', typed ''string'' [(''description'', JStr ''Change ID (numeric or triplet)'')])]
       [''change_id''])
     ''Getting Gerrit change'' True
     [(''change_id'', None)]
     (\<lambda>a. formatted (gerrit_get_change e c (a ''change_id'')))"

definition make_gerrit_list_changes :: "'w http_env \<Rightarrow> GerritClient \<Rightarrow> 'w ToolSpec" where
  "make_gerrit_list_changes e c = gerrit_tool e c ''gerrit_list_changes''
     (''Search Gerrit changes using a query string. Example: '' @ DQ @ ''owner:self status:open'' @ DQ)
     (object_schema
       [(''query'', typed ''string'' [(''description'', JStr ''Gerrit search query'')]),
        (''limit'', typed ''integer'' [(''description'', JStr ''Max results''), (''default'', JInt 10)])]
       [''query''])
     ''Searching Gerrit changes'' True
     [(''query'', None), (''limit'', Some (JInt GERRIT_SEARCH_LIMIT))]
     (\<lambda>a. formatted (gerrit_list_changes e c (a ''query'') (a ''limit'')))"

definition make_gerrit_get_change_detail :: "'w http_env \<Rightarrow> GerritClient \<Rightarrow> 'w ToolSpec" where
  "make_gerrit_get_change_detail e c = gerrit_tool e c ''gerrit_get_change_detail''
     ''Get detailed info about a Gerrit change including all revisions and labels.''
     (object_schema
       [(''change_id'', typed ''string'' [(''description'', JStr ''Change ID'')])]
       [''change_id''])
     ''Getting change detail'' True
     [(''change_id'', None)]
     (\<lambda>a. formatted (gerrit_get_change_detail e c (a ''change_id'')))"

definition make_gerrit_get_comments :: "'w http_env \<Rightarrow> GerritClient \<Rightarrow> 'w ToolSpec" where
  "make_gerrit_get_comments e c = gerrit_tool e c ''gerrit_get_comments''
     ''Get all review comments on a Gerrit change.''
     (object_schema
       [(''change_id'', typed ''string'' [(''description'', JStr ''Change ID'')])]
       [''change_id''])
     ''Getting Gerrit comments'' True
     [(''change_id'', None)]
     (\<lambda>a. formatted (gerrit_get_comments e c (a ''change_id'')))"

definition make_gerrit_list_files :: "'w http_env \<Rightarrow> GerritClient \<Rightarrow> 'w ToolSpec" where
  "make_gerrit_list_files e c = gerrit_tool e c ''gerrit_list_files''
     ''List files modified in a Gerrit change.''
     (object_schema
       [(''change_id'', typed ''string'' [(''description'', JStr ''Change ID'')]),
        (''revision'', typed ''string'' [(''description'', JStr ''Revision (default: current)''), (''default'', JStr ''current'')])]
       [''change_id''])
     ''Listing changed files'' True
     [(''change_id'', None), (''revision'', Some (JStr ''current''))]
     (\<lambda>a. formatted (gerrit_list_files e c (a ''change_id'') (a ''revision'')))"

definition make_gerrit_get_diff :: "'w http_env \<Rightarrow> GerritClient \<Rightarrow> 'w ToolSpec" where
  "make_gerrit_get_diff e c = gerrit_tool e c ''gerrit_get_diff''
     ''Get the diff for a specific file in a Gerrit change.''
     (object_schema
       [(''change_id'', typed ''string'' [(''description'', JStr ''Change ID'')]),
        (''file_path'', typed ''string'' [(''description'', JStr ''File path in the change'')]),
        (''revision'', typed ''string'' [(''description'', JStr ''Revision (default: current)''), (''default'', JStr ''current'')])]
       [''change_id'', ''file_path''])
     ''Getting file diff'' True
     [(''change_id'', None), (''file_path'', None), (''revision'', Some (JStr ''current''))]
     (\<lambda>a. formatted (gerrit_get_diff e c (a ''change_id'') (a ''file_path'') (a ''revision'')))"

definition make_gerrit_me :: "'w http_env \<Rightarrow> GerritClient \<Rightarrow> 'w ToolSpec" where
  "make_gerrit_me e c = gerrit_tool e c ''gerrit_me''
     (''Get the authenticated Gerrit user'' @ SQ @ ''s account info.'')
     (object_schema
       []
       [])
     ''Checking Gerrit profile'' True
     []
     (\<lambda>a. formatted (gerrit_get_account e c))"

definition make_gerrit_set_review :: "'w http_env \<Rightarrow> GerritClient \<Rightarrow> 'w ToolSpec" where
  "make_gerrit_set_review e c = gerrit_tool e c ''gerrit_set_review''
     (''Post a review on a Gerrit change with a message and/or labels. Labels should be a JSON string like '' @ SQ @ ''{'' @ DQ @ ''Code-Review'' @ DQ @ '': 1}'' @ SQ @ ''. Requires approval.'')
     (object_schema
       [(''change_id'', typed ''string'' [(''description'', JStr ''Change ID'')]),
        (''message'', typed ''string'' [(''description'', JStr ''Review message'')]),
        (''labels'', typed ''string'' [(''description'', JStr (''JSON object of labels, e.g. {'' @ DQ @ ''Code-Review'' @ DQ @ '': 1}''))]),
        (''revision'', typed ''string'' [(''description'', JStr ''Revision (default: current)''), (''default'', JStr ''current'')])]
       [''change_id''])
     ''Posting Gerrit review'' False
     [(''change_id'', None), (''message'', Some (JStr [])), (''labels'', Some (JStr [])), (''revision'', Some (JStr ''current''))]
     (\<lambda>a. op_bind (if \<not> json_truthy (a ''labels'') then op_return JNull else
       case a ''labels'' of JStr s \<Rightarrow> op_of (he_loads e s) | v \<Rightarrow> op_raise (he_raise e ''loads'' v)) (\<lambda>parsed_labels.
       formatted (gerrit_set_review e c (a ''change_id'') (a ''message'') parsed_labels (a ''revision''))))"

definition make_gerrit_submit :: "'w http_env \<Rightarrow> GerritClient \<Rightarrow> 'w ToolSpec" where
  "make_gerrit_submit e c = gerrit_tool e c ''gerrit_submit''
     ''Submit (merge) a Gerrit change. Requires approval.''
     (object_schema
       [(''change_id'', typed ''string'' [(''description'', JStr ''Change ID'')])]
       [''change_id''])
     ''Submitting Gerrit change'' False
     [(''change_id'', None)]
     (\<lambda>a. formatted (gerrit_submit e c (a ''change_id'')))"

definition make_gerrit_abandon :: "'w http_env \<Rightarrow> GerritClient \<Rightarrow> 'w ToolSpec" where
  "make_gerrit_abandon e c = gerrit_tool e c ''gerrit_abandon''
     ''Abandon a Gerrit change. Requires approval.''
     (object_schema
       [(''change_id'', typed ''string'' [(''description'', JStr ''Change ID'')]),
        (''message'', typed ''string'' [(''description'', JStr ''Optional reason for abandoning'')])]
       [''change_id''])
     ''Abandoning Gerrit change'' False
     [(''change_id'', None), (''message'', Some (JStr []))]
     (\<lambda>a. formatted (gerrit_abandon e c (a ''change_id'') (a ''message'')))"

definition gerrit_tools :: "'w http_env \<Rightarrow> GerritClient \<Rightarrow> 'w ToolSpec list" where
  "gerrit_tools e c = [make_gerrit_get_change e c, make_gerrit_list_changes e c, make_gerrit_get_change_detail e c,
     make_gerrit_get_comments e c, make_gerrit_list_files e c, make_gerrit_get_diff e c, make_gerrit_me e c,
     make_gerrit_set_review e c, make_gerrit_submit e c, make_gerrit_abandon e c]"

lemmas make_gerrit_defs = make_gerrit_get_change_def make_gerrit_list_changes_def make_gerrit_get_change_detail_def
     make_gerrit_get_comments_def make_gerrit_list_files_def make_gerrit_get_diff_def make_gerrit_me_def
     make_gerrit_set_review_def make_gerrit_submit_def make_gerrit_abandon_def

definition register_gerrit_tools :: "'w http_env \<Rightarrow> GerritClient \<Rightarrow> 'w ToolRegistry \<Rightarrow> registry_error + 'w ToolRegistry" where
  "register_gerrit_tools e c r = register_all (gerrit_tools e c) r"

section \<open>Which requests the tools send\<close>

lemma gerrit_sends:
  "sends_only e read_request (gerrit_get_change e c i)"
  "sends_only e read_request (gerrit_list_changes e c q n)"
  "sends_only e read_request (gerrit_get_change_detail e c i)"
  "sends_only e read_request (gerrit_get_comments e c i)"
  "sends_only e read_request (gerrit_list_files e c i r)"
  "sends_only e read_request (gerrit_get_diff e c i f r)"
  "sends_only e read_request (gerrit_get_account e c)"
  unfolding gerrit_get_change_def gerrit_list_changes_def gerrit_get_change_detail_def gerrit_get_comments_def gerrit_list_files_def gerrit_get_diff_def gerrit_get_account_def
  by (intro sends_rules gerrit_request_sends gerrit_get)+

lemma make_gerrit_names:
  "ts_name (make_gerrit_get_change e c) = ''gerrit_get_change''"
  "ts_name (make_gerrit_list_changes e c) = ''gerrit_list_changes''"
  "ts_name (make_gerrit_get_change_detail e c) = ''gerrit_get_change_detail''"
  "ts_name (make_gerrit_get_comments e c) = ''gerrit_get_comments''"
  "ts_name (make_gerrit_list_files e c) = ''gerrit_list_files''"
  "ts_name (make_gerrit_get_diff e c) = ''gerrit_get_diff''"
  "ts_name (make_gerrit_me e c) = ''gerrit_me''"
  "ts_name (make_gerrit_set_review e c) = ''gerrit_set_review''"
  "ts_name (make_gerrit_submit e c) = ''gerrit_submit''"
  "ts_name (make_gerrit_abandon e c) = ''gerrit_abandon''"
  by (simp_all only: make_gerrit_defs gerrit_tool_def service_tool_fields)

lemma make_gerrit_checks:
  "check_fn (make_gerrit_get_change e c) = Some (gerrit_configured c)"
  "check_fn (make_gerrit_list_changes e c) = Some (gerrit_configured c)"
  "check_fn (make_gerrit_get_change_detail e c) = Some (gerrit_configured c)"
  "check_fn (make_gerrit_get_comments e c) = Some (gerrit_configured c)"
  "check_fn (make_gerrit_list_files e c) = Some (gerrit_configured c)"
  "check_fn (make_gerrit_get_diff e c) = Some (gerrit_configured c)"
  "check_fn (make_gerrit_me e c) = Some (gerrit_configured c)"
  "check_fn (make_gerrit_set_review e c) = Some (gerrit_configured c)"
  "check_fn (make_gerrit_submit e c) = Some (gerrit_configured c)"
  "check_fn (make_gerrit_abandon e c) = Some (gerrit_configured c)"
  by (simp_all only: make_gerrit_defs gerrit_tool_def service_tool_fields)

lemma gerrit_reads_ok:
  "reads_ok e read_request (make_gerrit_get_change e c)"
  "reads_ok e read_request (make_gerrit_list_changes e c)"
  "reads_ok e read_request (make_gerrit_get_change_detail e c)"
  "reads_ok e read_request (make_gerrit_get_comments e c)"
  "reads_ok e read_request (make_gerrit_list_files e c)"
  "reads_ok e read_request (make_gerrit_get_diff e c)"
  "reads_ok e read_request (make_gerrit_me e c)"
  "reads_ok e read_request (make_gerrit_set_review e c)"
  "reads_ok e read_request (make_gerrit_submit e c)"
  "reads_ok e read_request (make_gerrit_abandon e c)"
  unfolding make_gerrit_defs gerrit_tool_def by (rule reads_service reads_write, (intro sends_rules gerrit_sends)?)+

interpretation gerrit: service e "gerrit_configured c" "gerrit_tools e c" read_request for e c
proof
  show "list_all (\<lambda>s. check_fn s = Some (gerrit_configured c)) (gerrit_tools e c)"
    by (simp only: gerrit_tools_def list.pred_inject make_gerrit_checks simp_thms)
  show "distinct (map ts_name (gerrit_tools e c))"
    by (simp add: gerrit_tools_def make_gerrit_names)
  show "list_all (reads_ok e read_request) (gerrit_tools e c)"
    by (simp only: gerrit_tools_def list.pred_inject gerrit_reads_ok simp_thms)
qed

end
