(* ===== verification/Confluence.thy ===== *)
theory Confluence
  imports ServiceCore
begin

text \<open>The Confluence client and its tools (\<^verbatim>\<open>tools/confluence.py\<close>): five reading and four writing tools.\<close>


section \<open>The client\<close>

definition CONFLUENCE_SEARCH_LIMIT :: int where "CONFLUENCE_SEARCH_LIMIT = 10"

record ConfluenceClient =
  co_base_url :: string
  co_username :: string
  co_api_token :: string

definition confluence_client :: "string \<Rightarrow> string \<Rightarrow> string \<Rightarrow> ConfluenceClient" where
  "confluence_client base_url username api_token =
     \<lparr>co_base_url = rstrip_chars ''/'' base_url, co_username = username, co_api_token = api_token\<rparr>"

definition confluence_configured :: "ConfluenceClient \<Rightarrow> bool" where
  "confluence_configured c = (co_base_url c \<noteq> [] \<and> co_username c \<noteq> [] \<and> co_api_token c \<noteq> [])"

definition confluence_http :: "ConfluenceClient \<Rightarrow> string \<Rightarrow> string \<Rightarrow> (string \<times> json) list \<Rightarrow> json option \<Rightarrow> http_request" where
  "confluence_http c meth endpoint params payload = \<lparr>hq_method = meth, hq_base = co_base_url c, hq_endpoint = endpoint,
     hq_params = params, hq_body = payload, hq_headers = [(''Content-Type'', ''application/json'')],
     hq_auth = Some (co_username c, co_api_token c)\<rparr>"

definition confluence_request ::
  "'w http_env \<Rightarrow> ConfluenceClient \<Rightarrow> string \<Rightarrow> string \<Rightarrow> (string \<times> json) list \<Rightarrow> json option \<Rightarrow> ('w, json) op" where
  "confluence_request e c meth endpoint params payload =
     (if \<not> confluence_configured c
      then op_return (error_dict ''Confluence not configured. Set CONFLUENCE_URL, CONFLUENCE_USERNAME, and CONFLUENCE_API_TOKEN.'')
      else op_bind (op_send e (confluence_http c meth endpoint params payload)) (\<lambda>r.
        if hs_status r \<ge> HTTP_ERROR_THRESHOLD then op_return (status_error ''Confluence'' r)
        else if strip (hs_text r) = [] then op_return (JObj [(''success'', JBool True)])
        else op_of (he_loads e (hs_text r))))"

definition confluence_tool ::
  "'w http_env \<Rightarrow> ConfluenceClient \<Rightarrow> string \<Rightarrow> string \<Rightarrow> json \<Rightarrow> string \<Rightarrow> bool \<Rightarrow> signature \<Rightarrow>
     ((string \<Rightarrow> json) \<Rightarrow> ('w, string) op) \<Rightarrow> 'w ToolSpec" where
  "confluence_tool e c = service_tool e (Some (confluence_configured c)) ''confluence''"

lemma confluence_request_sends: "A (confluence_http c m ep ps b) \<Longrightarrow> sends_only e A (confluence_request e c m ep ps b)"
  unfolding confluence_request_def by (intro sends_rules)

lemma confluence_get: "read_request (confluence_http c ''GET'' ep ps b)"
  by (simp add: read_request_def confluence_http_def)

section \<open>Operations of the client\<close>

definition confluence_search :: "'w http_env \<Rightarrow> ConfluenceClient \<Rightarrow> json \<Rightarrow> json \<Rightarrow> ('w, json) op" where
  "confluence_search e c cql limit =
     confluence_request e c ''GET'' (''/rest/api/content/search'') [(''cql'', cql), (''limit'', limit), (''expand'', JStr ''space,version'')] None"

definition confluence_get_page :: "'w http_env \<Rightarrow> ConfluenceClient \<Rightarrow> json \<Rightarrow> json \<Rightarrow> ('w, json) op" where
  "confluence_get_page e c page_id expand =
     confluence_request e c ''GET'' (''/rest/api/content/'' @ py_str_json page_id) [(''expand'', expand)] None"

definition confluence_get_page_children :: "'w http_env \<Rightarrow> ConfluenceClient \<Rightarrow> json \<Rightarrow> json \<Rightarrow> ('w, json) op" where
  "confluence_get_page_children e c page_id limit =
     confluence_request e c ''GET'' (''/rest/api/content/'' @ py_str_json page_id @ ''/child/page'') [(''limit'', limit), (''expand'', JStr ''version'')] None"

definition confluence_get_comments :: "'w http_env \<Rightarrow> ConfluenceClient \<Rightarrow> json \<Rightarrow> json \<Rightarrow> ('w, json) op" where
  "confluence_get_comments e c page_id limit =
     confluence_request e c ''GET'' (''/rest/api/content/'' @ py_str_json page_id @ ''/child/comment'') [(''limit'', limit), (''expand'', JStr ''body.storage'')] None"

definition confluence_get_labels :: "'w http_env \<Rightarrow> ConfluenceClient \<Rightarrow> json \<Rightarrow> ('w, json) op" where
  "confluence_get_labels e c page_id =
     confluence_request e c ''GET'' (''/rest/api/content/'' @ py_str_json page_id @ ''/label'') [] None"

definition confluence_create_page :: "'w http_env \<Rightarrow> ConfluenceClient \<Rightarrow> json \<Rightarrow> json \<Rightarrow> json \<Rightarrow> json \<Rightarrow> ('w, json) op" where
  "confluence_create_page e c space_key ttl bdy parent_id =
     (let payload = [(''type'', JStr ''page''), (''title'', ttl), (''space'', JObj [(''key'', space_key)]), (''body'', JObj [(''storage'', JObj [(''value'', bdy), (''representation'', JStr ''storage'')])])] @
       field_if (json_truthy parent_id) ''ancestors'' (JList [JObj [(''id'', parent_id)]]) in
     confluence_request e c ''POST'' (''/rest/api/content'') [] (Some (JObj payload)))"

definition confluence_update_page :: "'w http_env \<Rightarrow> ConfluenceClient \<Rightarrow> json \<Rightarrow> json \<Rightarrow> json \<Rightarrow> json \<Rightarrow> ('w, json) op" where
  "confluence_update_page e c page_id ttl bdy version_number =
     (let payload = [(''version'', JObj [(''number'', version_number)]), (''title'', ttl), (''type'', JStr ''page''), (''body'', JObj [(''storage'', JObj [(''value'', bdy), (''representation'', JStr ''storage'')])])] in
     confluence_request e c ''PUT'' (''/rest/api/content/'' @ py_str_json page_id) [] (Some (JObj payload)))"

definition confluence_add_comment :: "'w http_env \<Rightarrow> ConfluenceClient \<Rightarrow> json \<Rightarrow> json \<Rightarrow> ('w, json) op" where
  "confluence_add_comment e c page_id bdy =
     (let payload = [(''type'', JStr ''comment''), (''container'', JObj [(''id'', page_id), (''type'', JStr ''page'')]), (''body'', JObj [(''storage'', JObj [(''value'', bdy), (''representation'', JStr ''storage'')])])] in
     confluence_request e c ''POST'' (''/rest/api/content'') [] (Some (JObj payload)))"

definition confluence_add_label :: "'w http_env \<Rightarrow> ConfluenceClient \<Rightarrow> json \<Rightarrow> json \<Rightarrow> ('w, json) op" where
  "confluence_add_label e c page_id label =
     confluence_request e c ''POST'' (''/rest/api/content/'' @ py_str_json page_id @ ''/label'') [] (Some (JList [JObj [(''prefix'', JStr ''global''), (''name'', label)]]))"

section \<open>Tools\<close>

definition make_confluence_search :: "'w http_env \<Rightarrow> ConfluenceClient \<Rightarrow> 'w ToolSpec" where
  "make_confluence_search e c = confluence_tool e c ''confluence_search''
     (''Search Confluence pages using CQL. Example: confluence_search(cql='' @ SQ @ ''type=page AND space=MYSPACE AND text~'' @ DQ @ ''deployment'' @ DQ @ SQ @ '')'')
     (object_schema
       [(''cql'', typed ''string'' [(''description'', JStr ''CQL query string.'')]),
        (''limit'', typed ''integer'' [(''description'', JStr ''Max results.''), (''default'', JInt CONFLUENCE_SEARCH_LIMIT)])]
       [''cql''])
     ''Searching Confluence'' True
     [(''cql'', None), (''limit'', Some (JInt CONFLUENCE_SEARCH_LIMIT))]
     (\<lambda>a. formatted (confluence_search e c (a ''cql'') (a ''limit'')))"

definition make_confluence_get_page :: "'w http_env \<Rightarrow> ConfluenceClient \<Rightarrow> 'w ToolSpec" where
  "make_confluence_get_page e c = confluence_tool e c ''confluence_get_page''
     ''Get a Confluence page by ID, including its body content.''
     (object_schema
       [(''page_id'', typed ''string'' [(''description'', JStr ''Confluence page ID.'')])]
       [''page_id''])
     ''Getting Confluence page'' True
     [(''page_id'', None)]
     (\<lambda>a. formatted (confluence_get_page e c (a ''page_id'') (JStr ''body.storage,version,space'')))"

definition make_confluence_get_page_children :: "'w http_env \<Rightarrow> ConfluenceClient \<Rightarrow> 'w ToolSpec" where
  "make_confluence_get_page_children e c = confluence_tool e c ''confluence_get_page_children''
     ''List child pages of a Confluence page.''
     (object_schema
       [(''page_id'', typed ''string'' [(''description'', JStr ''Parent page ID.'')]),
        (''limit'', typed ''integer'' [(''description'', JStr ''Max results.''), (''default'', JInt CONFLUENCE_SEARCH_LIMIT)])]
       [''page_id''])
     ''Listing child pages'' True
     [(''page_id'', None), (''limit'', Some (JInt CONFLUENCE_SEARCH_LIMIT))]
     (\<lambda>a. formatted (confluence_get_page_children e c (a ''page_id'') (a ''limit'')))"

definition make_confluence_get_comments :: "'w http_env \<Rightarrow> ConfluenceClient \<Rightarrow> 'w ToolSpec" where
  "make_confluence_get_comments e c = confluence_tool e c ''confluence_get_comments''
     ''Get comments on a Confluence page.''
     (object_schema
       [(''page_id'', typed ''string'' [(''description'', JStr ''Page ID.'')]),
        (''limit'', typed ''integer'' [(''description'', JStr ''Max results.''), (''default'', JInt CONFLUENCE_SEARCH_LIMIT)])]
       [''page_id''])
     ''Getting page comments'' True
     [(''page_id'', None), (''limit'', Some (JInt CONFLUENCE_SEARCH_LIMIT))]
     (\<lambda>a. formatted (confluence_get_comments e c (a ''page_id'') (a ''limit'')))"

definition make_confluence_get_labels :: "'w http_env \<Rightarrow> ConfluenceClient \<Rightarrow> 'w ToolSpec" where
  "make_confluence_get_labels e c = confluence_tool e c ''confluence_get_labels''
     ''Get labels on a Confluence page.''
     (object_schema
       [(''page_id'', typed ''string'' [(''description'', JStr ''Page ID.'')])]
       [''page_id''])
     ''Getting page labels'' True
     [(''page_id'', None)]
     (\<lambda>a. formatted (confluence_get_labels e c (a ''page_id'')))"

definition make_confluence_create_page :: "'w http_env \<Rightarrow> ConfluenceClient \<Rightarrow> 'w ToolSpec" where
  "make_confluence_create_page e c = confluence_tool e c ''confluence_create_page''
     ''Create a new Confluence page in a space. Requires approval.''
     (object_schema
       [(''space_key'', typed ''string'' [(''description'', JStr ''Space key (e.g. MYSPACE).'')]),
        (''title'', typed ''string'' [(''description'', JStr ''Page title.'')]),
        (''body'', typed ''string'' [(''description'', JStr ''Page body (Confluence storage format).'')]),
        (''parent_id'', typed ''string'' [(''description'', JStr ''Optional parent page ID.'')])]
       [''space_key'', ''title'', ''body''])
     ''Creating Confluence page'' False
     [(''space_key'', None), (''title'', None), (''body'', None), (''parent_id'', Some (JStr []))]
     (\<lambda>a. formatted (confluence_create_page e c (a ''space_key'') (a ''title'') (a ''body'') (or_none (a ''parent_id''))))"

definition make_confluence_update_page :: "'w http_env \<Rightarrow> ConfluenceClient \<Rightarrow> 'w ToolSpec" where
  "make_confluence_update_page e c = confluence_tool e c ''confluence_update_page''
     ''Update an existing Confluence page. Requires approval.''
     (object_schema
       [(''page_id'', typed ''string'' [(''description'', JStr ''Page ID to update.'')]),
        (''title'', typed ''string'' [(''description'', JStr ''New page title.'')]),
        (''body'', typed ''string'' [(''description'', JStr ''New page body (storage format).'')]),
        (''version_number'', typed ''integer'' [(''description'', JStr ''New version number (current version + 1).'')])]
       [''page_id'', ''title'', ''body'', ''version_number''])
     ''Updating Confluence page'' False
     [(''page_id'', None), (''title'', None), (''body'', None), (''version_number'', None)]
     (\<lambda>a. formatted (confluence_update_page e c (a ''page_id'') (a ''title'') (a ''body'') (a ''version_number'')))"

definition make_confluence_add_comment :: "'w http_env \<Rightarrow> ConfluenceClient \<Rightarrow> 'w ToolSpec" where
  "make_confluence_add_comment e c = confluence_tool e c ''confluence_add_comment''
     ''Add a comment to a Confluence page. Requires approval.''
     (object_schema
       [(''page_id'', typed ''string'' [(''description'', JStr ''Page ID.'')]),
        (''body'', typed ''string'' [(''description'', JStr ''Comment body (storage format).'')])]
       [''page_id'', ''body''])
     ''Adding Confluence comment'' False
     [(''page_id'', None), (''body'', None)]
     (\<lambda>a. formatted (confluence_add_comment e c (a ''page_id'') (a ''body'')))"

definition make_confluence_add_label :: "'w http_env \<Rightarrow> ConfluenceClient \<Rightarrow> 'w ToolSpec" where
  "make_confluence_add_label e c = confluence_tool e c ''confluence_add_label''
     ''Add a label to a Confluence page. Requires approval.''
     (object_schema
       [(''page_id'', typed ''string'' [(''description'', JStr ''Page ID.'')]),
        (''label'', typed ''string'' [(''description'', JStr ''Label name.'')])]
       [''page_id'', ''label''])
     ''Adding Confluence label'' False
     [(''page_id'', None), (''label'', None)]
     (\<lambda>a. formatted (confluence_add_label e c (a ''page_id'') (a ''label'')))"

definition confluence_tools :: "'w http_env \<Rightarrow> ConfluenceClient \<Rightarrow> 'w ToolSpec list" where
  "confluence_tools e c = [make_confluence_search e c, make_confluence_get_page e c,
     make_confluence_get_page_children e c, make_confluence_get_comments e c, make_confluence_get_labels e c,
     make_confluence_create_page e c, make_confluence_update_page e c, make_confluence_add_comment e c,
     make_confluence_add_label e c]"

lemmas make_confluence_defs = make_confluence_search_def make_confluence_get_page_def
     make_confluence_get_page_children_def make_confluence_get_comments_def make_confluence_get_labels_def
     make_confluence_create_page_def make_confluence_update_page_def make_confluence_add_comment_def
     make_confluence_add_label_def

definition register_confluence_tools :: "'w http_env \<Rightarrow> ConfluenceClient \<Rightarrow> 'w ToolRegistry \<Rightarrow> registry_error + 'w ToolRegistry" where
  "register_confluence_tools e c r = register_all (confluence_tools e c) r"

section \<open>Which requests the tools send\<close>

lemma confluence_sends:
  "sends_only e read_request (confluence_search e c q n)"
  "sends_only e read_request (confluence_get_page e c i x)"
  "sends_only e read_request (confluence_get_page_children e c i n)"
  "sends_only e read_request (confluence_get_comments e c i n)"
  "sends_only e read_request (confluence_get_labels e c i)"
  unfolding confluence_search_def confluence_get_page_def confluence_get_page_children_def confluence_get_comments_def confluence_get_labels_def
  by (intro sends_rules confluence_request_sends confluence_get)+

lemma make_confluence_names:
  "ts_name (make_confluence_search e c) = ''confluence_search''"
  "ts_name (make_confluence_get_page e c) = ''confluence_get_page''"
  "ts_name (make_confluence_get_page_children e c) = ''confluence_get_page_children''"
  "ts_name (make_confluence_get_comments e c) = ''confluence_get_comments''"
  "ts_name (make_confluence_get_labels e c) = ''confluence_get_labels''"
  "ts_name (make_confluence_create_page e c) = ''confluence_create_page''"
  "ts_name (make_confluence_update_page e c) = ''confluence_update_page''"
  "ts_name (make_confluence_add_comment e c) = ''confluence_add_comment''"
  "ts_name (make_confluence_add_label e c) = ''confluence_add_label''"
  by (simp_all only: make_confluence_defs confluence_tool_def service_tool_fields)

lemma make_confluence_checks:
  "check_fn (make_confluence_search e c) = Some (confluence_configured c)"
  "check_fn (make_confluence_get_page e c) = Some (confluence_configured c)"
  "check_fn (make_confluence_get_page_children e c) = Some (confluence_configured c)"
  "check_fn (make_confluence_get_comments e c) = Some (confluence_configured c)"
  "check_fn (make_confluence_get_labels e c) = Some (confluence_configured c)"
  "check_fn (make_confluence_create_page e c) = Some (confluence_configured c)"
  "check_fn (make_confluence_update_page e c) = Some (confluence_configured c)"
  "check_fn (make_confluence_add_comment e c) = Some (confluence_configured c)"
  "check_fn (make_confluence_add_label e c) = Some (confluence_configured c)"
  by (simp_all only: make_confluence_defs confluence_tool_def service_tool_fields)

lemma confluence_reads_ok:
  "reads_ok e read_request (make_confluence_search e c)"
  "reads_ok e read_request (make_confluence_get_page e c)"
  "reads_ok e read_request (make_confluence_get_page_children e c)"
  "reads_ok e read_request (make_confluence_get_comments e c)"
  "reads_ok e read_request (make_confluence_get_labels e c)"
  "reads_ok e read_request (make_confluence_create_page e c)"
  "reads_ok e read_request (make_confluence_update_page e c)"
  "reads_ok e read_request (make_confluence_add_comment e c)"
  "reads_ok e read_request (make_confluence_add_label e c)"
  unfolding make_confluence_defs confluence_tool_def by (rule reads_service reads_write, (intro sends_rules confluence_sends)?)+

interpretation confluence: service e "confluence_configured c" "confluence_tools e c" read_request for e c
proof
  show "list_all (\<lambda>s. check_fn s = Some (confluence_configured c)) (confluence_tools e c)"
    by (simp only: confluence_tools_def list.pred_inject make_confluence_checks simp_thms)
  show "distinct (map ts_name (confluence_tools e c))"
    by (simp add: confluence_tools_def make_confluence_names)
  show "list_all (reads_ok e read_request) (confluence_tools e c)"
    by (simp only: confluence_tools_def list.pred_inject confluence_reads_ok simp_thms)
qed

end
