(* ===== verification/SlackSearch.thy ===== *)
theory SlackSearch
  imports ServiceCore
begin

text \<open>The Slack tools with the user's token (\<^verbatim>\<open>tools/slack_search.py\<close>): five reading tools and one that posts.\<close>


section \<open>The client\<close>

definition SLACK_SEARCH_LIMIT :: int where "SLACK_SEARCH_LIMIT = 10"
definition SLACK_HISTORY_LIMIT :: int where "SLACK_HISTORY_LIMIT = 20"
definition SLACK_API_BASE :: string where "SLACK_API_BASE = ''https://slack.com/api''"

record SlackSearchClient =
  sk_user_token :: string

definition slack_configured :: "SlackSearchClient \<Rightarrow> bool" where
  "slack_configured c = (sk_user_token c \<noteq> [])"

definition slack_http :: "SlackSearchClient \<Rightarrow> string \<Rightarrow> string \<Rightarrow> (string \<times> json) list \<Rightarrow> json option \<Rightarrow> http_request" where
  "slack_http c meth endpoint params payload = \<lparr>hq_method = meth, hq_base = SLACK_API_BASE, hq_endpoint = endpoint,
     hq_params = params, hq_body = payload,
     hq_headers = [(''Content-Type'', ''application/json; charset=utf-8''), (''Authorization'', ''Bearer '' @ sk_user_token c)],
     hq_auth = None\<rparr>"

text \<open>Slack answers with status 200 and says in the body whether the call succeeded.\<close>

definition slack_answer :: "'w http_env \<Rightarrow> json \<Rightarrow> ('w, json) op" where
  "slack_answer e v = (case v of
     JObj kvs \<Rightarrow> (if (case map_of kvs ''ok'' of Some b \<Rightarrow> json_truthy b | None \<Rightarrow> False) then op_return v
       else op_return (JObj [(''error'', JStr (''Slack API error: '' @
           (case map_of kvs ''error'' of Some t \<Rightarrow> py_str_json t | None \<Rightarrow> ''unknown''))),
         (''details'', JObj (filter (\<lambda>kv. fst kv \<noteq> ''ok'') kvs))]))
   | _ \<Rightarrow> op_raise (he_raise e ''get'' v))"

definition slack_request ::
  "'w http_env \<Rightarrow> SlackSearchClient \<Rightarrow> string \<Rightarrow> string \<Rightarrow> (string \<times> json) list \<Rightarrow> json option \<Rightarrow> ('w, json) op" where
  "slack_request e c meth endpoint params payload =
     (if \<not> slack_configured c then op_return (error_dict ''Slack search not configured. Set SLACK_USER_TOKEN.'')
      else op_bind (op_send e (slack_http c meth endpoint params payload)) (\<lambda>r.
        op_bind (op_of (he_loads e (hs_text r))) (slack_answer e)))"

definition slack_tool ::
  "'w http_env \<Rightarrow> SlackSearchClient \<Rightarrow> string \<Rightarrow> string \<Rightarrow> json \<Rightarrow> string \<Rightarrow> bool \<Rightarrow> signature \<Rightarrow>
     ((string \<Rightarrow> json) \<Rightarrow> ('w, string) op) \<Rightarrow> 'w ToolSpec" where
  "slack_tool e c = service_tool e (Some (slack_configured c)) ''slack_search''"

lemma slack_answer_sends [sends_rules]: "sends_only e A (slack_answer e v)"
  by (cases v) (simp_all add: slack_answer_def sends_rules)

lemma slack_request_sends: "A (slack_http c m ep ps b) \<Longrightarrow> sends_only e A (slack_request e c m ep ps b)"
  unfolding slack_request_def by (intro sends_rules)

lemma slack_get: "read_request (slack_http c ''GET'' ep ps b)"
  by (simp add: read_request_def slack_http_def)

section \<open>Operations of the client\<close>

definition slack_search_messages :: "'w http_env \<Rightarrow> SlackSearchClient \<Rightarrow> json \<Rightarrow> json \<Rightarrow> ('w, json) op" where
  "slack_search_messages e c q count =
     slack_request e c ''GET'' (''/search.messages'') [(''query'', q), (''count'', count)] None"

definition slack_list_channels :: "'w http_env \<Rightarrow> SlackSearchClient \<Rightarrow> json \<Rightarrow> ('w, json) op" where
  "slack_list_channels e c limit =
     slack_request e c ''GET'' (''/conversations.list'') [(''limit'', limit), (''types'', JStr ''public_channel,private_channel'')] None"

definition slack_get_channel_history :: "'w http_env \<Rightarrow> SlackSearchClient \<Rightarrow> json \<Rightarrow> json \<Rightarrow> ('w, json) op" where
  "slack_get_channel_history e c channel_id limit =
     slack_request e c ''GET'' (''/conversations.history'') [(''channel'', channel_id), (''limit'', limit)] None"

definition slack_get_thread_replies :: "'w http_env \<Rightarrow> SlackSearchClient \<Rightarrow> json \<Rightarrow> json \<Rightarrow> json \<Rightarrow> ('w, json) op" where
  "slack_get_thread_replies e c channel_id thread_ts limit =
     slack_request e c ''GET'' (''/conversations.replies'') [(''channel'', channel_id), (''ts'', thread_ts), (''limit'', limit)] None"

definition slack_get_user_info :: "'w http_env \<Rightarrow> SlackSearchClient \<Rightarrow> json \<Rightarrow> ('w, json) op" where
  "slack_get_user_info e c user_id =
     slack_request e c ''GET'' (''/users.info'') [(''user'', user_id)] None"

definition slack_send_message :: "'w http_env \<Rightarrow> SlackSearchClient \<Rightarrow> json \<Rightarrow> json \<Rightarrow> json \<Rightarrow> ('w, json) op" where
  "slack_send_message e c channel_id txt thread_ts =
     (let payload = [(''channel'', channel_id), (''text'', txt)] @
       field_if (json_truthy thread_ts) ''thread_ts'' thread_ts in
     slack_request e c ''POST'' (''/chat.postMessage'') [] (Some (JObj payload)))"

section \<open>Tools\<close>

definition make_slack_search_messages :: "'w http_env \<Rightarrow> SlackSearchClient \<Rightarrow> 'w ToolSpec" where
  "make_slack_search_messages e c = slack_tool e c ''slack_search_messages''
     (''Search Slack messages across all channels. Example: slack_search_messages(query='' @ DQ @ ''deployment issue in:#ops'' @ DQ @ '')'')
     (object_schema
       [(''query'', typed ''string'' [(''description'', JStr ''Search query (Slack syntax)'')]),
        (''count'', typed ''integer'' [(''description'', JStr ''Max results''), (''default'', JInt 10)])]
       [''query''])
     ''Searching Slack'' True
     [(''query'', None), (''count'', Some (JInt SLACK_SEARCH_LIMIT))]
     (\<lambda>a. formatted (slack_search_messages e c (a ''query'') (a ''count'')))"

definition make_slack_list_channels :: "'w http_env \<Rightarrow> SlackSearchClient \<Rightarrow> 'w ToolSpec" where
  "make_slack_list_channels e c = slack_tool e c ''slack_list_channels''
     ''List Slack channels accessible to the user.''
     (object_schema
       [(''limit'', typed ''integer'' [(''description'', JStr ''Max results''), (''default'', JInt 10)])]
       [])
     ''Listing Slack channels'' True
     [(''limit'', Some (JInt SLACK_SEARCH_LIMIT))]
     (\<lambda>a. formatted (slack_list_channels e c (a ''limit'')))"

definition make_slack_get_channel_history :: "'w http_env \<Rightarrow> SlackSearchClient \<Rightarrow> 'w ToolSpec" where
  "make_slack_get_channel_history e c = slack_tool e c ''slack_get_channel_history''
     ''Get recent messages from a Slack channel.''
     (object_schema
       [(''channel_id'', typed ''string'' [(''description'', JStr ''Slack channel ID'')]),
        (''limit'', typed ''integer'' [(''description'', JStr ''Max messages''), (''default'', JInt 20)])]
       [''channel_id''])
     ''Getting channel history'' True
     [(''channel_id'', None), (''limit'', Some (JInt SLACK_HISTORY_LIMIT))]
     (\<lambda>a. formatted (slack_get_channel_history e c (a ''channel_id'') (a ''limit'')))"

definition make_slack_get_thread_replies :: "'w http_env \<Rightarrow> SlackSearchClient \<Rightarrow> 'w ToolSpec" where
  "make_slack_get_thread_replies e c = slack_tool e c ''slack_get_thread_replies''
     ''Get replies in a Slack thread.''
     (object_schema
       [(''channel_id'', typed ''string'' [(''description'', JStr ''Slack channel ID'')]),
        (''thread_ts'', typed ''string'' [(''description'', JStr ''Thread timestamp'')]),
        (''limit'', typed ''integer'' [(''description'', JStr ''Max replies''), (''default'', JInt 20)])]
       [''channel_id'', ''thread_ts''])
     ''Getting thread replies'' True
     [(''channel_id'', None), (''thread_ts'', None), (''limit'', Some (JInt SLACK_HISTORY_LIMIT))]
     (\<lambda>a. formatted (slack_get_thread_replies e c (a ''channel_id'') (a ''thread_ts'') (a ''limit'')))"

definition make_slack_get_user_info :: "'w http_env \<Rightarrow> SlackSearchClient \<Rightarrow> 'w ToolSpec" where
  "make_slack_get_user_info e c = slack_tool e c ''slack_get_user_info''
     ''Get profile information about a Slack user by user ID.''
     (object_schema
       [(''user_id'', typed ''string'' [(''description'', JStr ''Slack user ID (e.g. U12345)'')])]
       [''user_id''])
     ''Getting Slack user info'' True
     [(''user_id'', None)]
     (\<lambda>a. formatted (slack_get_user_info e c (a ''user_id'')))"

definition make_slack_send_message :: "'w http_env \<Rightarrow> SlackSearchClient \<Rightarrow> 'w ToolSpec" where
  "make_slack_send_message e c = slack_tool e c ''slack_send_message''
     ''Send a message to a Slack channel or thread using the user token. Requires approval.''
     (object_schema
       [(''channel_id'', typed ''string'' [(''description'', JStr ''Slack channel ID'')]),
        (''text'', typed ''string'' [(''description'', JStr ''Message text'')]),
        (''thread_ts'', typed ''string'' [(''description'', JStr ''Thread timestamp (optional)'')])]
       [''channel_id'', ''text''])
     ''Sending Slack message'' False
     [(''channel_id'', None), (''text'', None), (''thread_ts'', Some (JStr []))]
     (\<lambda>a. formatted (slack_send_message e c (a ''channel_id'') (a ''text'') (a ''thread_ts'')))"

definition slack_tools :: "'w http_env \<Rightarrow> SlackSearchClient \<Rightarrow> 'w ToolSpec list" where
  "slack_tools e c = [make_slack_search_messages e c, make_slack_list_channels e c, make_slack_get_channel_history
     e c, make_slack_get_thread_replies e c, make_slack_get_user_info e c, make_slack_send_message e c]"

lemmas make_slack_defs = make_slack_search_messages_def make_slack_list_channels_def
     make_slack_get_channel_history_def make_slack_get_thread_replies_def make_slack_get_user_info_def
     make_slack_send_message_def

definition register_slack_tools :: "'w http_env \<Rightarrow> SlackSearchClient \<Rightarrow> 'w ToolRegistry \<Rightarrow> registry_error + 'w ToolRegistry" where
  "register_slack_tools e c r = register_all (slack_tools e c) r"

section \<open>Which requests the tools send\<close>

lemma slack_sends:
  "sends_only e read_request (slack_search_messages e c q n)"
  "sends_only e read_request (slack_list_channels e c n)"
  "sends_only e read_request (slack_get_channel_history e c i n)"
  "sends_only e read_request (slack_get_thread_replies e c i t n)"
  "sends_only e read_request (slack_get_user_info e c u)"
  unfolding slack_search_messages_def slack_list_channels_def slack_get_channel_history_def slack_get_thread_replies_def slack_get_user_info_def
  by (intro sends_rules slack_request_sends slack_get)+

lemma make_slack_names:
  "ts_name (make_slack_search_messages e c) = ''slack_search_messages''"
  "ts_name (make_slack_list_channels e c) = ''slack_list_channels''"
  "ts_name (make_slack_get_channel_history e c) = ''slack_get_channel_history''"
  "ts_name (make_slack_get_thread_replies e c) = ''slack_get_thread_replies''"
  "ts_name (make_slack_get_user_info e c) = ''slack_get_user_info''"
  "ts_name (make_slack_send_message e c) = ''slack_send_message''"
  by (simp_all only: make_slack_defs slack_tool_def service_tool_fields)

lemma make_slack_checks:
  "check_fn (make_slack_search_messages e c) = Some (slack_configured c)"
  "check_fn (make_slack_list_channels e c) = Some (slack_configured c)"
  "check_fn (make_slack_get_channel_history e c) = Some (slack_configured c)"
  "check_fn (make_slack_get_thread_replies e c) = Some (slack_configured c)"
  "check_fn (make_slack_get_user_info e c) = Some (slack_configured c)"
  "check_fn (make_slack_send_message e c) = Some (slack_configured c)"
  by (simp_all only: make_slack_defs slack_tool_def service_tool_fields)

lemma slack_reads_ok:
  "reads_ok e read_request (make_slack_search_messages e c)"
  "reads_ok e read_request (make_slack_list_channels e c)"
  "reads_ok e read_request (make_slack_get_channel_history e c)"
  "reads_ok e read_request (make_slack_get_thread_replies e c)"
  "reads_ok e read_request (make_slack_get_user_info e c)"
  "reads_ok e read_request (make_slack_send_message e c)"
  unfolding make_slack_defs slack_tool_def by (rule reads_service reads_write, (intro sends_rules slack_sends)?)+

interpretation slack: service e "slack_configured c" "slack_tools e c" read_request for e c
proof
  show "list_all (\<lambda>s. check_fn s = Some (slack_configured c)) (slack_tools e c)"
    by (simp only: slack_tools_def list.pred_inject make_slack_checks simp_thms)
  show "distinct (map ts_name (slack_tools e c))"
    by (simp add: slack_tools_def make_slack_names)
  show "list_all (reads_ok e read_request) (slack_tools e c)"
    by (simp only: slack_tools_def list.pred_inject slack_reads_ok simp_thms)
qed

end
