(* ===== verification/WebSearch.thy ===== *)
theory WebSearch
  imports ServiceCore
begin

text \<open>
  Web search and page fetching (\<^verbatim>\<open>tools/web_search.py\<close>): the Brave client, the reader proxy
  with its direct fallback, and the removal of markup. \<open>html.unescape\<close>, a table lookup, is an
  argument of the definitions; a request that raises \<open>httpx.HTTPError\<close> is a left result.
\<close>

section \<open>Searching\<close>

definition BRAVE_SEARCH_URL :: string where "BRAVE_SEARCH_URL = ''https://api.search.brave.com/res/v1/web/search''"
definition JINA_READER_PREFIX :: string where "JINA_READER_PREFIX = ''https://r.jina.ai/''"
definition WEB_SEARCH_LIMIT :: int where "WEB_SEARCH_LIMIT = 5"
definition FETCH_MAX_CHARS :: int where "FETCH_MAX_CHARS = 32768"

record BraveSearchClient =
  br_api_key :: string

definition brave_configured :: "BraveSearchClient \<Rightarrow> bool" where
  "brave_configured c = (br_api_key c \<noteq> [])"

definition brave_http :: "BraveSearchClient \<Rightarrow> json \<Rightarrow> json \<Rightarrow> http_request" where
  "brave_http c q n = \<lparr>hq_method = ''GET'', hq_base = [], hq_endpoint = BRAVE_SEARCH_URL,
     hq_params = [(''q'', q), (''count'', n)], hq_body = None,
     hq_headers = [(''Accept'', ''application/json''), (''X-Subscription-Token'', br_api_key c)], hq_auth = None\<rparr>"

definition brave_search :: "'w http_env \<Rightarrow> BraveSearchClient \<Rightarrow> json \<Rightarrow> json \<Rightarrow> ('w, json) op" where
  "brave_search e c q n =
     (if \<not> brave_configured c then op_return (error_dict ''Web search not configured. Set BRAVE_SEARCH_API_KEY.'')
      else op_bind (op_send e (brave_http c q n)) (\<lambda>r.
        if hs_status r \<ge> HTTP_ERROR_THRESHOLD
        then op_return (JObj [(''error'', JStr (''Brave Search API returned '' @ int_str (hs_status r))),
               (''body'', JStr (slice_to ERROR_BODY_MAX_CHARS (hs_text r)))])
        else op_of (he_loads e (hs_text r))))"

text \<open>\<open>d.get(k, v)\<close>; a value that is not an object has no \<open>get\<close>.\<close>

definition json_get :: "'w http_env \<Rightarrow> json \<Rightarrow> string \<Rightarrow> json \<Rightarrow> string + json" where
  "json_get e d k v = (case d of JObj kvs \<Rightarrow> Inr (case map_of kvs k of Some x \<Rightarrow> x | None \<Rightarrow> v)
     | _ \<Rightarrow> Inl (he_raise e ''get'' d))"

definition search_hit :: "'w http_env \<Rightarrow> nat \<Rightarrow> json \<Rightarrow> string + string" where
  "search_hit e i r =
     (case json_get e r ''title'' (JStr ''(no title)'') of Inl t \<Rightarrow> Inl t
      | Inr ttl \<Rightarrow> (case (json_get e r ''url'' (JStr []), json_get e r ''description'' (JStr [])) of
          (Inr url, Inr snippet) \<Rightarrow> Inr (nat_str i @ ''. '' @ py_str_json ttl @ newline @ ''   '' @ py_str_json url @ newline @
            ''   '' @ py_str_json snippet)
        | _ \<Rightarrow> Inl (he_raise e ''get'' r)))"

fun search_hits :: "'w http_env \<Rightarrow> nat \<Rightarrow> json list \<Rightarrow> string + string list" where
  "search_hits e i [] = Inr []"
| "search_hits e i (r # rs) = (case search_hit e i r of Inl t \<Rightarrow> Inl t | Inr s \<Rightarrow>
     (case search_hits e (Suc i) rs of Inl t \<Rightarrow> Inl t | Inr ss \<Rightarrow> Inr (s # ss)))"

definition mentions_error :: "'w http_env \<Rightarrow> json \<Rightarrow> string + bool" where
  "mentions_error e d = (case d of
     JObj kvs \<Rightarrow> Inr (''error'' \<in> fst ` set kvs)
   | JStr s \<Rightarrow> Inr (contains_str s ''error'')
   | JList xs \<Rightarrow> Inr (JStr ''error'' \<in> set xs)
   | _ \<Rightarrow> Inl (he_raise e ''in'' d))"

text \<open>\<open>_format_search_results\<close>; iterating over a text or an object yields texts, which have no \<open>get\<close>.\<close>

definition format_search_results :: "'w http_env \<Rightarrow> json \<Rightarrow> string + string" where
  "format_search_results e d =
     (case mentions_error e d of
        Inl t \<Rightarrow> Inl t
      | Inr True \<Rightarrow> Inr (format_json d)
      | Inr False \<Rightarrow>
         (case json_get e d ''web'' (JObj []) of
            Inl t \<Rightarrow> Inl t
          | Inr web \<Rightarrow>
             (case json_get e web ''results'' (JList []) of
                Inl t \<Rightarrow> Inl t
              | Inr results \<Rightarrow>
                 if \<not> json_truthy results then Inr ''No results found.''
                 else (case results of
                    JList rs \<Rightarrow> (case search_hits e 1 rs of Inl t \<Rightarrow> Inl t
                      | Inr ls \<Rightarrow> Inr (py_join (newline @ newline) ls))
                  | _ \<Rightarrow> Inl (he_raise e ''get'' results)))))"

definition make_web_search :: "'w http_env \<Rightarrow> BraveSearchClient \<Rightarrow> int \<Rightarrow> 'w ToolSpec" where
  "make_web_search e c default_limit = service_tool e (Some (brave_configured c)) ''web_search'' ''web_search''
     (''Search the web for real-time information. Returns titles, URLs, '' @
      ''and snippets for the top results. Use for current events, '' @
      ''documentation lookups, or any question that needs up-to-date info.'')
     (object_schema
       [(''query'', typed ''string'' [(''description'', JStr ''Search query.'')]),
        (''count'', typed ''integer'' [(''description'', JStr ''Number of results to return.''), (''default'', JInt default_limit)])]
       [''query''])
     ''Searching the web'' True [(''query'', None), (''count'', Some (JInt default_limit))]
     (\<lambda>a. op_bind (brave_search e c (a ''query'') (a ''count'')) (\<lambda>d. op_of (format_search_results e d)))"

section \<open>Removing markup\<close>

text \<open>
  \<open>re.sub("<tag[^>]*>.*?</tag>", "", text, flags=re.DOTALL)\<close>: the shortest match from the
  leftmost opening tag that is closed later.
\<close>

fun after_first :: "string \<Rightarrow> string \<Rightarrow> string option" where
  "after_first p [] = (if p = [] then Some [] else None)"
| "after_first p (c # s) = (if starts_with (c # s) p then Some (drop (length p) (c # s)) else after_first p s)"

definition element_end :: "string \<Rightarrow> string \<Rightarrow> string option" where
  "element_end tag s =
     (if starts_with s (''<'' @ tag)
      then (case dropWhile (\<lambda>c. c \<noteq> CHR ''>'') (drop (Suc (length tag)) s) of
              [] \<Rightarrow> None
            | _ # rest \<Rightarrow> after_first (''</'' @ tag @ ''>'') rest)
      else None)"

lemma after_first_shorter: "after_first p s = Some r \<Longrightarrow> length r \<le> length s"
  by (induction p s rule: after_first.induct) (auto split: if_splits)

lemma element_end_shorter: "element_end tag s = Some r \<Longrightarrow> length r < length s"
proof -
  assume a: "element_end tag s = Some r"
  obtain c rest where d: "dropWhile (\<lambda>c. c \<noteq> CHR ''>'') (drop (Suc (length tag)) s) = c # rest"
    using a by (auto simp: element_end_def split: if_splits list.splits)
  then have "length r \<le> length rest" using a after_first_shorter by (auto simp: element_end_def split: if_splits)
  moreover have "length (c # rest) \<le> length (drop (Suc (length tag)) s)" unfolding d [symmetric] by (rule length_dropWhile_le)
  ultimately show ?thesis by simp
qed

function remove_elements :: "string \<Rightarrow> string \<Rightarrow> string" where
  "remove_elements tag [] = []"
| "remove_elements tag (c # s) =
     (case element_end tag (c # s) of
        Some rest \<Rightarrow> remove_elements tag rest
      | None \<Rightarrow> c # remove_elements tag s)"
  by pat_completeness auto

termination
  by (relation "measure (length \<circ> snd)") (auto dest: element_end_shorter)

lemma tag_rest_shorter: "dropWhile P s = x # rest \<Longrightarrow> length rest < Suc (length s)"
  by (metis length_Cons length_dropWhile_le less_Suc_eq_le Suc_leD)

text \<open>\<open>re.sub("<[^>]+>", " ", text)\<close>.\<close>

function replace_tags :: "string \<Rightarrow> string" where
  "replace_tags [] = []"
| "replace_tags (c # s) =
     (case (c = CHR ''<'' \<and> takeWhile (\<lambda>x. x \<noteq> CHR ''>'') s \<noteq> [], dropWhile (\<lambda>x. x \<noteq> CHR ''>'') s) of
        (True, _ # rest) \<Rightarrow> CHR '' '' # replace_tags rest
      | _ \<Rightarrow> c # replace_tags s)"
  by pat_completeness auto

termination
  by (relation "measure length") (auto dest: tag_rest_shorter [OF sym])

text \<open>\<open>re.sub("\s+", " ", text)\<close>.\<close>

fun collapse_spaces :: "bool \<Rightarrow> string \<Rightarrow> string" where
  "collapse_spaces inside [] = []"
| "collapse_spaces inside (c # s) =
     (if is_space c then (if inside then [] else '' '') @ collapse_spaces True s else c # collapse_spaces False s)"

definition strip_html :: "(string \<Rightarrow> string) \<Rightarrow> string \<Rightarrow> string" where
  "strip_html unescape s = strip (collapse_spaces False (unescape (replace_tags
     (remove_elements ''style'' (remove_elements ''script'' s)))))"

section \<open>Fetching\<close>

definition fetch_http :: "string \<Rightarrow> (string \<times> string) list \<Rightarrow> http_request" where
  "fetch_http url headers = \<lparr>hq_method = ''GET'', hq_base = [], hq_endpoint = url, hq_params = [], hq_body = None,
     hq_headers = headers, hq_auth = None\<rparr>"

definition fetch_via_jina :: "'w http_env \<Rightarrow> string \<Rightarrow> string \<Rightarrow> 'w \<Rightarrow> string option \<times> 'w" where
  "fetch_via_jina e url jina_api_key w =
     (let headers = [(''Accept'', ''text/markdown'')] @
        (if jina_api_key \<noteq> [] then [(''Authorization'', ''Bearer '' @ jina_api_key)] else [])
      in case op_send e (fetch_http (JINA_READER_PREFIX @ url) headers) w of
           (Inl err, w1) \<Rightarrow> (None, w1)
         | (Inr r, w1) \<Rightarrow> (if hs_status r \<ge> HTTP_ERROR_THRESHOLD then None else Some (hs_text r), w1))"

definition fetch_direct :: "'w http_env \<Rightarrow> (string \<Rightarrow> string) \<Rightarrow> string \<Rightarrow> 'w \<Rightarrow> string \<times> 'w" where
  "fetch_direct e unescape url w =
     (case op_send e (fetch_http url [(''User-Agent'', ''NemoClaw-Agent/1.0'')]) w of
        (Inl err, w1) \<Rightarrow> (''Error fetching '' @ url @ '': '' @ err, w1)
      | (Inr r, w1) \<Rightarrow>
          (if hs_status r \<ge> HTTP_ERROR_THRESHOLD
           then ''Error: HTTP '' @ int_str (hs_status r) @ '' fetching '' @ url
           else if contains_str (dict_default (hs_headers r) ''content-type'' []) ''html''
           then strip_html unescape (hs_text r) else hs_text r, w1))"

definition cut_page :: "string \<Rightarrow> string" where
  "cut_page page = (if int (length page) > FETCH_MAX_CHARS
     then slice_to FETCH_MAX_CHARS page @ newline @ ''... (truncated at '' @ int_str FETCH_MAX_CHARS @ '' chars)''
     else page)"

text \<open>The reader's address is built from any value; a direct request needs a text.\<close>

definition web_fetch :: "'w http_env \<Rightarrow> (string \<Rightarrow> string) \<Rightarrow> string \<Rightarrow> json \<Rightarrow> ('w, string) op" where
  "web_fetch e unescape jina_api_key url w =
     (case fetch_via_jina e (py_str_json url) jina_api_key w of
        (Some page, w1) \<Rightarrow> (Inr (cut_page page), w1)
      | (None, w1) \<Rightarrow> (case url of
          JStr u \<Rightarrow> (case fetch_direct e unescape u w1 of (page, w2) \<Rightarrow> (Inr (cut_page page), w2))
        | _ \<Rightarrow> (Inl (he_raise e ''url'' url), w1)))"

definition make_web_fetch :: "'w http_env \<Rightarrow> (string \<Rightarrow> string) \<Rightarrow> string \<Rightarrow> 'w ToolSpec" where
  "make_web_fetch e unescape jina_api_key = service_tool e None ''web_search'' ''web_fetch''
     (''Fetch a web page by URL and return its content as Markdown. '' @
      ''Use after web_search to read a specific page, or to fetch '' @
      ''documentation, README files, API references, etc.'')
     (object_schema [(''url'', typed ''string'' [(''description'', JStr ''Full URL to fetch (https://...).'')])] [''url''])
     ''Fetching web page'' True [(''url'', None)] (\<lambda>a. web_fetch e unescape jina_api_key (a ''url''))"

definition register_web_search_tools ::
  "'w http_env \<Rightarrow> (string \<Rightarrow> string) \<Rightarrow> string \<Rightarrow> string \<Rightarrow> int \<Rightarrow> 'w ToolRegistry \<Rightarrow> registry_error + 'w ToolRegistry" where
  "register_web_search_tools e unescape api_key jina_api_key default_limit r =
     register_all [make_web_search e \<lparr>br_api_key = api_key\<rparr> default_limit, make_web_fetch e unescape jina_api_key] r"

section \<open>Which requests the tools send\<close>

lemma fetch_get: "read_request (fetch_http url headers)" "read_request (brave_http c q n)"
  by (simp_all add: read_request_def fetch_http_def brave_http_def)

lemma web_fetch_sends: "sends_only e read_request (web_fetch e unescape key url)"
proof -
  let ?step = "(http_step e read_request)\<^sup>*\<^sup>*"
  have send: "he_send e (fetch_http u h) w = (r, w') \<Longrightarrow> ?step w w'" for u h w r w'
    using sends [of read_request "fetch_http u h" e w] fetch_get(1) by auto
  have jina: "fetch_via_jina e u key w = (p, w') \<Longrightarrow> ?step w w'" for u w p w'
    by (auto simp: fetch_via_jina_def op_send_def split: prod.splits sum.splits dest: send)
  have direct: "fetch_direct e unescape u w = (p, w') \<Longrightarrow> ?step w w'" for u w p w'
    by (auto simp: fetch_direct_def op_send_def split: prod.splits sum.splits dest: send)
  show ?thesis
    unfolding sends_only_def web_fetch_def
    by (auto split: prod.splits option.splits json.splits dest: jina direct intro: rtranclp_trans [OF jina direct])
qed

lemma brave_sends: "sends_only e read_request (brave_search e c q n)"
  unfolding brave_search_def by (intro sends_rules fetch_get)+

lemma web_reads_ok: "reads_ok e read_request (make_web_search e c n)" "reads_ok e read_request (make_web_fetch e u key)"
  unfolding make_web_search_def make_web_fetch_def
  by (rule reads_service, intro sends_rules brave_sends web_fetch_sends)+

lemma web_fields:
  "ts_name (make_web_search e c n) = ''web_search''" "ts_name (make_web_fetch e u key) = ''web_fetch''"
  "check_fn (make_web_search e c n) = Some (brave_configured c)" "check_fn (make_web_fetch e u key) = None"
  by (simp_all only: make_web_search_def make_web_fetch_def service_tool_fields)

text \<open>What a fetch returns is bounded, whatever the page holds.\<close>

lemma length_cut_page: "int (length (cut_page page)) \<le> FETCH_MAX_CHARS + 32"
proof -
  have "length (int_str 32768) = 5" by (simp add: int_str_def nat_str.simps)
  then show ?thesis by (simp add: cut_page_def FETCH_MAX_CHARS_def newline_def length_slice_to_nonneg)
qed

lemma web_fetch_bounded: "web_fetch e unescape key url w = (Inr page, w') \<Longrightarrow> int (length page) \<le> FETCH_MAX_CHARS + 32"
  by (auto simp: web_fetch_def length_cut_page split: prod.splits option.splits json.splits)

end
