(* ===== verification/ServiceTools.thy ===== *)
theory ServiceTools
  imports GitLab Jira Gerrit Confluence SlackSearch WebSearch
begin

text \<open>
  The external services together: the tools of all clients as one list, the contract that
  read-only tools only read, and the properties of single clients.
\<close>

record service_clients =
  sc_jira :: JiraClient
  sc_gitlab :: GitLabClient
  sc_gerrit :: GerritClient
  sc_confluence :: ConfluenceClient
  sc_slack :: SlackSearchClient
  sc_brave :: BraveSearchClient
  sc_jina_key :: string
  sc_web_limit :: int

definition web_tools :: "'w http_env \<Rightarrow> (string \<Rightarrow> string) \<Rightarrow> service_clients \<Rightarrow> 'w ToolSpec list" where
  "web_tools e unescape c = [make_web_search e (sc_brave c) (sc_web_limit c), make_web_fetch e unescape (sc_jina_key c)]"

definition service_specs :: "'w http_env \<Rightarrow> (string \<Rightarrow> string) \<Rightarrow> service_clients \<Rightarrow> 'w ToolSpec list" where
  "service_specs e unescape c = jira_tools e (sc_jira c) @ gitlab_tools e (sc_gitlab c) @ gerrit_tools e (sc_gerrit c) @
     confluence_tools e (sc_confluence c) @ slack_tools e (sc_slack c) @ web_tools e unescape c"

lemma service_reads: "list_all (reads_ok e read_request) (service_specs e unescape c)"
  unfolding service_specs_def web_tools_def list_all_append list.pred_inject
  by (intro conjI jira.reads_only gitlab.reads_only gerrit.reads_only confluence.reads_only slack.reads_only web_reads_ok) simp

lemma service_read_keeps:
  assumes "s \<in> set (service_specs e unescape c)" and "is_read_only s"
    and "\<And>rq w. read_request rq \<Longrightarrow> P w \<Longrightarrow> P (snd (he_send e rq w))" and "P w"
  shows "P (fst (snd (ts_handler s kw (w, sf))))"
  using service_reads [of e unescape c] assms
  by (intro reads_ok_keeps [where A = read_request and P = P]) (auto simp: list_all_iff)

text \<open>The names of all service tools.\<close>

lemmas service_tool_names = make_jira_names make_gitlab_names make_gerrit_names make_confluence_names make_slack_names web_fields(1,2)

lemma service_names:
  "map ts_name (service_specs e unescape c) =
     [''jira_get_issue'', ''jira_search'', ''jira_me'', ''jira_get_transitions'', ''jira_create_issue'', ''jira_update_issue'',
      ''jira_add_comment'', ''jira_transition_issue'', ''gitlab_search_projects'', ''gitlab_get_project'',
      ''gitlab_list_merge_requests'', ''gitlab_get_merge_request'', ''gitlab_get_merge_request_changes'', ''gitlab_list_pipelines'',
      ''gitlab_get_pipeline'', ''gitlab_get_job_log'', ''gitlab_list_pipeline_jobs'', ''gitlab_get_file'', ''gitlab_list_mr_notes'',
      ''gitlab_list_mr_discussions'', ''gitlab_get_mr_approvals'', ''gitlab_list_branches'', ''gitlab_list_commits'',
      ''gitlab_get_commit'', ''gitlab_compare'', ''gitlab_me'', ''gitlab_create_mr_note'', ''gitlab_update_mr_note'',
      ''gitlab_reply_to_discussion'', ''gitlab_resolve_discussion'', ''gitlab_approve_mr'', ''gitlab_unapprove_mr'',
      ''gitlab_merge_mr'', ''gitlab_rebase_mr'', ''gitlab_update_mr'', ''gitlab_create_mr'', ''gerrit_get_change'',
      ''gerrit_list_changes'', ''gerrit_get_change_detail'', ''gerrit_get_comments'', ''gerrit_list_files'', ''gerrit_get_diff'',
      ''gerrit_me'', ''gerrit_set_review'', ''gerrit_submit'', ''gerrit_abandon'', ''confluence_search'', ''confluence_get_page'',
      ''confluence_get_page_children'', ''confluence_get_comments'', ''confluence_get_labels'', ''confluence_create_page'',
      ''confluence_update_page'', ''confluence_add_comment'', ''confluence_add_label'', ''slack_search_messages'',
      ''slack_list_channels'', ''slack_get_channel_history'', ''slack_get_thread_replies'', ''slack_get_user_info'',
      ''slack_send_message'', ''web_search'', ''web_fetch'']"
  by (simp only: service_specs_def web_tools_def jira_tools_def gitlab_tools_def gerrit_tools_def confluence_tools_def
      slack_tools_def map_append append_Cons append_Nil list.map service_tool_names)

section \<open>Properties of single clients\<close>

text \<open>
  A GitLab path names one resource however it is written. When the decoder inverts
  UTF-8 encoding, encoding a path twice is encoding it once (a path that is already encoded is
  not encoded again), a plain path and its encoded form give the same text, decoding the
  result gives back the decoded path, and the result has no character that could
  leave its segment of the URL.
\<close>

theorem gitlab_paths:
  assumes "\<And>s. he_decode e (utf8 s) = s"
  shows "encode_text e (encode_text e s) = encode_text e s \<and> encode_text e (url_quote s) = url_quote s \<and>
    url_unquote (he_decode e) (encode_text e s) = url_unquote (he_decode e) s \<and>
    CHR ''/'' \<notin> set (encode_text e s) \<and> CHR ''?'' \<notin> set (encode_text e s) \<and> CHR ''#'' \<notin> set (encode_text e s)"
proof -
  have inv: "url_unquote (he_decode e) (url_quote s') = s'" for s' by (rule unquote_quote) (rule assms)
  have "c \<notin> set (encode_text e s)" if "\<not> unreserved c" "c \<noteq> CHR ''%''" for c
    using quoted_chars [of c "url_unquote (he_decode e) s"] that by (auto simp: encode_text_def)
  then show ?thesis by (simp add: encode_text_def inv unreserved_def)
qed

definition silent_env :: "unit http_env" where
  "silent_env = \<lparr>he_send = (\<lambda>rq w. (Inr \<lparr>hs_status = 500, hs_text = ''down'', hs_headers = []\<rparr>, w)), he_loads = (\<lambda>s. Inr JNull),
     he_decode = latin1_decode, he_int = (\<lambda>s. Inr 0), he_raise = (\<lambda>n v. n), he_bind_error = (\<lambda>n kw. n)\<rparr>"

theorem gitlab_paths_witness: "encode_text silent_env ''group/proj'' = ''group%2Fproj'' \<and>
  encode_text silent_env (encode_text silent_env ''group/proj'') = ''group%2Fproj''"
proof -
  have "encode_text silent_env ''group/proj'' = ''group%2Fproj''"
    by (simp add: encode_text_def url_unquote_def url_quote_def utf8_def utf8_char_def quote_byte_def unreserved_def upper_hex_def)
  moreover have "he_decode silent_env (utf8 s) = s" for s by (simp add: silent_env_def latin1_utf8)
  ultimately show ?thesis using gitlab_paths [of silent_env "''group/proj''"] by simp
qed

text \<open>
  A failed transition is reported as if it had happened. When the server refuses a Jira
  transition, or an update, with an error status, the client drops that answer and returns the
  issue as it is, which looks exactly like the answer to a successful write.
\<close>

theorem jira_write_failure_hidden:
  fixes e :: "'w http_env" and r :: http_response
  assumes "jira_configured c" and "hs_status r \<ge> HTTP_ERROR_THRESHOLD"
    and "\<And>payload. he_send e (jira_http c ''POST'' (''/rest/api/2/issue/'' @ py_str_json key @ ''/transitions'') [] (Some payload)) w = (Inr r, w')"
    and "\<And>payload. he_send e (jira_http c ''PUT'' (''/rest/api/2/issue/'' @ py_str_json key) [] (Some payload)) w = (Inr r, w')"
    and "summary \<noteq> JNull"
  shows "jira_transition_issue e c key tid comment w = jira_get_issue e c key (JStr JIRA_DEFAULT_FIELDS) w' \<and>
    jira_update_issue e c key summary description assignee priority due_date labels comps epic w =
      jira_get_issue e c key (JStr JIRA_DEFAULT_FIELDS) w'"
  using assms
  by (simp add: jira_transition_issue_def jira_update_issue_def jira_request_def op_bind_def op_send_def op_return_def
      field_if_def Let_def)

theorem jira_write_failure_hidden_witness:
  "jira_transition_issue silent_env (jira_client ''https://j/'' ''Basic x'') (JStr ''P-1'') (JStr ''5'') JNull () =
     jira_get_issue silent_env (jira_client ''https://j/'' ''Basic x'') (JStr ''P-1'') (JStr JIRA_DEFAULT_FIELDS) ()"
proof -
  have "jira_configured (jira_client ''https://j/'' ''Basic x'')"
    by (simp add: jira_configured_def jira_client_def rstrip_chars_def)
  from jira_write_failure_hidden [OF this, of "\<lparr>hs_status = 500, hs_text = ''down'', hs_headers = []\<rparr>" silent_env "JStr ''P-1''" "()" "()" "JStr ''s''"]
  show ?thesis by (simp add: HTTP_ERROR_THRESHOLD_def silent_env_def)
qed

text \<open>The suffix \<open>/api/v4\<close> is removed as a set of characters: a host that ends in one of them is cut.\<close>

lemma gitlab_base_url_cut:
  "gl_base_url (gitlab_client ''https://gitlab.example.com/api/v4/'' t) = ''https://gitlab.example.com''"
  "gl_base_url (gitlab_client ''https://gitlab.example.ai'' t) = ''https://gitlab.example.''"
  by (simp_all add: gitlab_client_def rstrip_chars_def)

text \<open>The two Jira tools split the same argument differently: only the update strips the names.\<close>

lemma jira_components_differ:
  "component_list (Some (split_on CHR '','' ''a, b'')) \<noteq> component_list (map_option (map strip) (Some (split_on CHR '','' ''a, b'')))"
  by (simp add: component_list_def named_def strip_def rstrip_def is_space_def)

end
