(* ===== verification/FileTools.thy ===== *)
theory FileTools
  imports ServiceCore "HOL-Library.List_Lexorder" "HOL-Library.Char_ord"
begin

text \<open>
  The workspace-rooted file and search tools of the coding agent (\<^verbatim>\<open>tools/files.py\<close>,
  \<^verbatim>\<open>tools/search.py\<close>) over an explicit file system: a map from resolved paths to contents
  and a list of directories.

  What the operating system decides is in the environment: how a path resolves through
  symbolic links, which operations fail, what a glob pattern matches, the regular expression
  engine and the \<^verbatim>\<open>rg\<close> program. A write that fails leaves the file as it was.
\<close>

section \<open>The file system\<close>

text \<open>A file that is not valid UTF-8 carries the text that decoding with replacement gives.\<close>

datatype file_content = Decodable string | Undecodable string

record file_system =
  fs_files :: "(string, file_content) dict"
  fs_dirs :: "string list"

datatype glob_result = GlobPaths "string list" | GlobError string | GlobRaise string
datatype rg_result = RgTimeout | RgExit int string string

record files_env =
  fe_root :: string
  fe_resolve :: "file_system \<Rightarrow> string \<Rightarrow> string"
  fe_fails :: "string \<Rightarrow> file_system \<Rightarrow> string \<Rightarrow> string option"
  fe_glob :: "file_system \<Rightarrow> string \<Rightarrow> string \<Rightarrow> glob_result"
  fe_regex :: "string \<Rightarrow> string + (string \<Rightarrow> bool)"
  fe_rg :: "(string list \<Rightarrow> file_system \<Rightarrow> rg_result) option"
  fe_decode_error :: "string \<Rightarrow> string"
  fe_raise :: "string \<Rightarrow> json \<Rightarrow> string"

definition READ_LINE_LIMIT :: int where "READ_LINE_LIMIT = 200"
definition READ_CHAR_LIMIT :: int where "READ_CHAR_LIMIT = 32768"
definition LIST_LIMIT :: int where "LIST_LIMIT = 200"
definition GREP_LIMIT :: int where "GREP_LIMIT = 50"
definition GLOB_LIMIT :: int where "GLOB_LIMIT = 200"
definition GREP_OUTPUT_MAX_BYTES :: int where "GREP_OUTPUT_MAX_BYTES = 32768"
definition GREP_TIMEOUT_S :: int where "GREP_TIMEOUT_S = 30"

section \<open>Paths\<close>

text \<open>\<open>os.path.isabs\<close>, \<open>Path(s).parts\<close> without the root, and \<open>Path(a) / b\<close> as a text.\<close>

definition is_abs :: "string \<Rightarrow> bool" where
  "is_abs s = starts_with s ''/''"

definition path_parts :: "string \<Rightarrow> string list" where
  "path_parts s = filter (\<lambda>p. p \<noteq> [] \<and> p \<noteq> ''.'') (split_on CHR ''/'' s)"

definition join_path :: "string \<Rightarrow> string \<Rightarrow> string" where
  "join_path a b = (if is_abs b then b else a @ ''/'' @ b)"

definition under :: "string \<Rightarrow> string \<Rightarrow> bool" where
  "under base p = (starts_with p (base @ ''/'') \<or> p = base)"

definition parent_path :: "string \<Rightarrow> string" where
  "parent_path p = ''/'' @ py_join ''/'' (butlast (path_parts p))"

definition path_prefixes :: "string \<Rightarrow> string list" where
  "path_prefixes p = map (\<lambda>k. ''/'' @ py_join ''/'' (take k (path_parts p))) [0..<Suc (length (path_parts p))]"

definition resolved_root :: "files_env \<Rightarrow> file_system \<Rightarrow> string" where
  "resolved_root e fs = fe_resolve e fs (fe_root e)"

definition safe_resolve :: "files_env \<Rightarrow> file_system \<Rightarrow> string \<Rightarrow> string + string" where
  "safe_resolve e fs rel =
     (if is_abs rel then Inl (''Absolute paths are not allowed: '' @ rel)
      else if ''..'' \<in> set (path_parts rel) then Inl (''Path traversal ('' @ SQ @ ''..'' @ SQ @ '') is not allowed: '' @ rel)
      else let resolved = fe_resolve e fs (join_path (fe_root e) rel) in
        if \<not> under (resolved_root e fs) resolved then Inl (''Path escapes workspace: '' @ rel)
        else Inr resolved)"

text \<open>\<open>resolved.is_file()\<close> and \<open>is_dir()\<close>.\<close>

definition is_file :: "file_system \<Rightarrow> string \<Rightarrow> bool" where
  "is_file fs p = dict_has (fs_files fs) p"

definition is_dir :: "file_system \<Rightarrow> string \<Rightarrow> bool" where
  "is_dir fs p = (p \<in> set (fs_dirs fs))"

section \<open>Text\<close>

text \<open>Reading a text file translates line endings; on POSIX systems writing does not.\<close>

fun universal_newlines :: "string \<Rightarrow> string" where
  "universal_newlines [] = []"
| "universal_newlines (c # s) =
     (if c = CHR 0x0D then CHR 0x0A # (case s of [] \<Rightarrow> [] | d # s' \<Rightarrow> universal_newlines (if d = CHR 0x0A then s' else s))
      else c # universal_newlines s)"

definition read_text :: "files_env \<Rightarrow> bool \<Rightarrow> file_content \<Rightarrow> string + string" where
  "read_text e replacing f = (case f of
     Decodable s \<Rightarrow> Inr (universal_newlines s)
   | Undecodable s \<Rightarrow> if replacing then Inr (universal_newlines s) else Inl (fe_decode_error e s))"

definition line_boundary :: "char \<Rightarrow> bool" where
  "line_boundary c = (c \<in> {CHR 0x0A, CHR 0x0B, CHR 0x0C, CHR 0x0D, CHR 0x1C, CHR 0x1D, CHR 0x1E, CHR 0x85})"

text \<open>\<open>s.splitlines(keepends=True)\<close>, with the reversed current line; and without the ends.\<close>

fun split_keep :: "string \<Rightarrow> string \<Rightarrow> string list" where
  "split_keep acc [] = (if acc = [] then [] else [rev acc])"
| "split_keep acc (c # s) =
     (if \<not> line_boundary c then split_keep (c # acc) s
      else if c = CHR 0x0D \<and> starts_with s [CHR 0x0A] then rev (CHR 0x0A # c # acc) # split_keep [] (tl s)
      else rev (c # acc) # split_keep [] s)"

definition splitlines_keep :: "string \<Rightarrow> string list" where
  "splitlines_keep s = split_keep [] s"

definition splitlines :: "string \<Rightarrow> string list" where
  "splitlines s = map (takeWhile (\<lambda>c. \<not> line_boundary c)) (splitlines_keep s)"

text \<open>\<open>s.count(p)\<close>, \<open>s.replace(p, n, 1)\<close> and \<open>s.replace(p, n)\<close>.\<close>

function count_from :: "string \<Rightarrow> string \<Rightarrow> nat" where
  "count_from p [] = 0"
| "count_from p (c # s) =
     (if p \<noteq> [] \<and> starts_with (c # s) p then Suc (count_from p (drop (length p) (c # s))) else count_from p s)"
  by pat_completeness auto

termination
  by (relation "measure (length \<circ> snd)") auto

definition count_str :: "string \<Rightarrow> string \<Rightarrow> nat" where
  "count_str s p = (if p = [] then Suc (length s) else count_from p s)"

fun replace_first :: "string \<Rightarrow> string \<Rightarrow> string \<Rightarrow> string" where
  "replace_first p n [] = (if p = [] then n else [])"
| "replace_first p n (c # s) =
     (if starts_with (c # s) p then n @ drop (length p) (c # s) else c # replace_first p n s)"

function replace_all :: "string \<Rightarrow> string \<Rightarrow> string \<Rightarrow> string" where
  "replace_all p n [] = []"
| "replace_all p n (c # s) =
     (if p \<noteq> [] \<and> starts_with (c # s) p then n @ replace_all p n (drop (length p) (c # s)) else c # replace_all p n s)"
  by pat_completeness auto

termination
  by (relation "measure (length \<circ> snd \<circ> snd)") auto

text \<open>Python's integers include the booleans.\<close>

definition json_int :: "json \<Rightarrow> int option" where
  "json_int v = (case v of JInt i \<Rightarrow> Some i | JBool b \<Rightarrow> Some (if b then 1 else 0) | _ \<Rightarrow> None)"

section \<open>The file tools\<close>

text \<open>A tool's body is a function of the file system.\<close>

type_synonym fs_op = "file_system \<Rightarrow> (string + string) \<times> file_system"

definition pad_left :: "nat \<Rightarrow> string \<Rightarrow> string" where
  "pad_left n s = replicate (n - length s) CHR '' '' @ s"

fun number_lines :: "nat \<Rightarrow> int \<Rightarrow> int \<Rightarrow> string list \<Rightarrow> string list" where
  "number_lines i used limit [] = []"
| "number_lines i used limit (l # ls) =
     (let numbered = pad_left 6 (nat_str i) @ ''|'' @ rstrip l; used' = used + int (length numbered) + 1
      in if used' > limit then [''... (truncated at '' @ int_str limit @ '' chars)'']
         else numbered # number_lines (Suc i) used' limit ls)"

definition number_and_truncate :: "string list \<Rightarrow> nat \<Rightarrow> nat \<Rightarrow> int \<Rightarrow> string" where
  "number_and_truncate ls start count limit =
     (let end_line = start + length ls;
          header = (if start > 0 \<or> end_line < count
            then ''(showing lines '' @ nat_str (start + 1) @ en_dash @ nat_str (min end_line count) @ '' of '' @ nat_str count @ '')''
            else ''('' @ nat_str count @ '' lines total)'')
      in header @ newline @ py_join newline (number_lines (Suc start) 0 limit ls))"

text \<open>\<open>(offset - 1) if offset and offset > 0 else 0\<close> and \<open>limit or default\<close>.\<close>

definition start_line :: "files_env \<Rightarrow> json \<Rightarrow> string + nat" where
  "start_line e offset =
     (if \<not> json_truthy offset then Inr 0
      else case json_int offset of Some i \<Rightarrow> Inr (if i > 0 then nat (i - 1) else 0)
      | None \<Rightarrow> (case offset of
          JFloat r \<Rightarrow> if starts_with r ''-'' then Inr 0 else Inl (fe_raise e ''slice'' offset)
        | _ \<Rightarrow> Inl (fe_raise e ''>'' offset)))"

definition line_limit :: "files_env \<Rightarrow> json \<Rightarrow> string + int" where
  "line_limit e limit =
     (if \<not> json_truthy limit then Inr READ_LINE_LIMIT
      else case json_int limit of Some i \<Rightarrow> Inr i | None \<Rightarrow> Inl (fe_raise e ''slice'' limit))"

definition read_window :: "files_env \<Rightarrow> json \<Rightarrow> json \<Rightarrow> string list \<Rightarrow> string + string" where
  "read_window e offset limit ls =
     (case start_line e offset of Inl t \<Rightarrow> Inl t | Inr start \<Rightarrow>
      (case line_limit e limit of Inl t \<Rightarrow> Inl t | Inr n \<Rightarrow>
        let end_line = int start + n; selected = drop start (slice_to end_line ls) in
        if selected = [] then Inr (if ls = [] then ''File is empty.''
          else ''No lines in range '' @ nat_str (start + 1) @ en_dash @ int_str end_line @ ''.'')
        else Inr (number_and_truncate selected start (length ls) READ_CHAR_LIMIT)))"

definition read_file :: "files_env \<Rightarrow> json \<Rightarrow> json \<Rightarrow> json \<Rightarrow> fs_op" where
  "read_file e path offset limit fs =
     (case path of
        JStr p \<Rightarrow>
          (case safe_resolve e fs p of
             Inl err \<Rightarrow> (Inr (''Error: '' @ err), fs)
           | Inr r \<Rightarrow>
              (case dict_get (fs_files fs) r of
                 None \<Rightarrow> (Inr (''Error: file not found: '' @ p), fs)
               | Some f \<Rightarrow>
                  (case fe_fails e ''read'' fs r of
                     Some err \<Rightarrow> (Inr (''Error reading '' @ p @ '': '' @ err), fs)
                   | None \<Rightarrow>
                      (case read_text e True f of
                         Inl t \<Rightarrow> (Inl t, fs)
                       | Inr t \<Rightarrow> (read_window e offset limit (splitlines_keep t), fs)))))
      | _ \<Rightarrow> (Inl (fe_raise e ''isabs'' path), fs))"

text \<open>\<open>resolved.parent.mkdir(parents=True, exist_ok=True)\<close>.\<close>

definition make_parents :: "files_env \<Rightarrow> string \<Rightarrow> file_system \<Rightarrow> string option \<times> file_system" where
  "make_parents e r fs =
     (case fe_fails e ''mkdir'' fs (parent_path r) of
        Some err \<Rightarrow> (Some err, fs)
      | None \<Rightarrow> (None, fs\<lparr>fs_dirs := fold set_add (path_prefixes (parent_path r)) (fs_dirs fs)\<rparr>))"

definition store_text :: "files_env \<Rightarrow> string \<Rightarrow> string \<Rightarrow> file_system \<Rightarrow> string option \<times> file_system" where
  "store_text e r t fs =
     (case fe_fails e ''write'' fs r of
        Some err \<Rightarrow> (Some err, fs)
      | None \<Rightarrow> (None, fs\<lparr>fs_files := dict_set r (Decodable t) (fs_files fs)\<rparr>))"

definition write_file :: "files_env \<Rightarrow> json \<Rightarrow> json \<Rightarrow> fs_op" where
  "write_file e path body fs =
     (case path of
        JStr p \<Rightarrow>
          (case safe_resolve e fs p of
             Inl err \<Rightarrow> (Inr (''Error: '' @ err), fs)
           | Inr r \<Rightarrow>
              (case make_parents e r fs of
                 (Some err, fs1) \<Rightarrow> (Inr (''Error writing '' @ p @ '': '' @ err), fs1)
               | (None, fs1) \<Rightarrow>
                  (case body of
                     JStr t \<Rightarrow>
                       (case store_text e r t fs1 of
                          (Some err, fs2) \<Rightarrow> (Inr (''Error writing '' @ p @ '': '' @ err), fs2)
                        | (None, fs2) \<Rightarrow> (Inr (''Wrote '' @ nat_str (length t) @ '' bytes to '' @ p), fs2))
                   | _ \<Rightarrow> (Inl (fe_raise e ''write_text'' body), fs1))))
      | _ \<Rightarrow> (Inl (fe_raise e ''isabs'' path), fs))"

definition edit_text :: "files_env \<Rightarrow> string \<Rightarrow> string \<Rightarrow> json \<Rightarrow> json \<Rightarrow> string \<Rightarrow> fs_op" where
  "edit_text e p r old_string new_string t fs =
     (case old_string of
        JStr old \<Rightarrow>
          (let n = count_str t old in
           if n = 0 then (Inr (''Error: old_string not found in '' @ p), fs)
           else if n > 1 then (Inr (''Error: old_string appears '' @ nat_str n @ '' times in '' @ p @ ''. '' @
             ''Provide more context to make it unique.''), fs)
           else (case new_string of
              JStr new \<Rightarrow>
                (case store_text e r (replace_first old new t) fs of
                   (Some err, fs1) \<Rightarrow> (Inr (''Error writing '' @ p @ '': '' @ err), fs1)
                 | (None, fs1) \<Rightarrow> (Inr (''Applied edit to '' @ p), fs1))
            | _ \<Rightarrow> (Inl (fe_raise e ''replace'' new_string), fs)))
      | _ \<Rightarrow> (Inl (fe_raise e ''count'' old_string), fs))"

definition edit_file :: "files_env \<Rightarrow> json \<Rightarrow> json \<Rightarrow> json \<Rightarrow> fs_op" where
  "edit_file e path old_string new_string fs =
     (case path of
        JStr p \<Rightarrow>
          (case safe_resolve e fs p of
             Inl err \<Rightarrow> (Inr (''Error: '' @ err), fs)
           | Inr r \<Rightarrow>
              (case dict_get (fs_files fs) r of
                 None \<Rightarrow> (Inr (''Error: file not found: '' @ p), fs)
               | Some f \<Rightarrow>
                  (case fe_fails e ''read'' fs r of
                     Some err \<Rightarrow> (Inr (''Error reading '' @ p @ '': '' @ err), fs)
                   | None \<Rightarrow>
                      (case read_text e False f of
                         Inl t \<Rightarrow> (Inl t, fs)
                       | Inr t \<Rightarrow> edit_text e p r old_string new_string t fs))))
      | _ \<Rightarrow> (Inl (fe_raise e ''isabs'' path), fs))"

text \<open>\<open>sorted(resolved.iterdir())\<close>, and a path relative to the root.\<close>

definition children :: "file_system \<Rightarrow> string \<Rightarrow> string list" where
  "children fs d = sort (remdups (filter (\<lambda>p. path_parts p \<noteq> [] \<and> parent_path p = d) (map fst (fs_files fs) @ fs_dirs fs)))"

definition relative_to :: "string \<Rightarrow> string \<Rightarrow> string" where
  "relative_to base p = (if p = base then ''.'' else drop (Suc (length base)) p)"

definition list_directory :: "files_env \<Rightarrow> json \<Rightarrow> json \<Rightarrow> fs_op" where
  "list_directory e path limit fs =
     (case path of
        JStr p \<Rightarrow>
          (case safe_resolve e fs p of
             Inl err \<Rightarrow> (Inr (''Error: '' @ err), fs)
           | Inr r \<Rightarrow>
              if \<not> is_dir fs r then (Inr (''Error: not a directory: '' @ p), fs)
              else (case fe_fails e ''list'' fs r of
                 Some err \<Rightarrow> (Inr (''Error listing '' @ p @ '': '' @ err), fs)
               | None \<Rightarrow>
                  (case json_int limit of
                     None \<Rightarrow> (Inl (fe_raise e ''slice'' limit), fs)
                   | Some n \<Rightarrow>
                      (let entries = children fs r; count = int (length entries);
                           ls = map (\<lambda>x. relative_to (resolved_root e fs) x @ (if is_dir fs x then ''/'' else [])) (slice_to n entries) @
                             (if count > n then [''... ('' @ int_str (count - n) @ '' more entries)''] else [])
                       in (Inr (if ls \<noteq> [] then py_join newline ls else ''(empty directory)''), fs)))))
      | _ \<Rightarrow> (Inl (fe_raise e ''isabs'' path), fs))"

section \<open>The search tools\<close>

definition rg_command :: "string \<Rightarrow> string \<Rightarrow> string \<Rightarrow> string \<Rightarrow> string list" where
  "rg_command pattern search_dir include limit =
     [''rg'', ''--no-heading'', ''--line-number'', ''--max-count'', limit] @
     (if include \<noteq> [] then [''--glob'', include] else []) @ [''--'', pattern, search_dir]"

definition grep_with_rg :: "files_env \<Rightarrow> (string list \<Rightarrow> file_system \<Rightarrow> rg_result) \<Rightarrow> string \<Rightarrow> string \<Rightarrow> string \<Rightarrow> string \<Rightarrow> file_system \<Rightarrow> string" where
  "grep_with_rg e rg pattern search_dir include limit fs =
     (case rg (rg_command pattern search_dir include limit) fs of
        RgTimeout \<Rightarrow> ''Error: grep timed out after '' @ int_str GREP_TIMEOUT_S @ ''s''
      | RgExit code out err \<Rightarrow>
          if code = 1 then ''No matches found.''
          else if code > 1 then ''Error: rg exited with code '' @ int_str code @ '': '' @ strip err
          else replace_all (resolved_root e fs @ ''/'') [] out)"

text \<open>The lines of one file that match, while the limit is not reached; the first match is always kept.\<close>

fun grep_lines :: "(string \<Rightarrow> bool) \<Rightarrow> string \<Rightarrow> int \<Rightarrow> nat \<Rightarrow> string list \<Rightarrow> string list \<Rightarrow> string list" where
  "grep_lines found rel limit i [] ms = ms"
| "grep_lines found rel limit i (l # ls) ms =
     (if found l then
        let ms' = ms @ [rel @ '':'' @ nat_str i @ '':'' @ rstrip l] in
        if int (length ms') \<ge> limit then ms' else grep_lines found rel limit (Suc i) ls ms'
      else grep_lines found rel limit (Suc i) ls ms)"

fun grep_files :: "files_env \<Rightarrow> (string \<Rightarrow> bool) \<Rightarrow> int \<Rightarrow> file_system \<Rightarrow> string list \<Rightarrow> string list \<Rightarrow> string list" where
  "grep_files e found limit fs [] ms = ms"
| "grep_files e found limit fs (p # ps) ms =
     (case dict_get (fs_files fs) (fe_resolve e fs p) of
        None \<Rightarrow> grep_files e found limit fs ps ms
      | Some f \<Rightarrow>
          if fe_fails e ''read'' fs (fe_resolve e fs p) \<noteq> None then grep_files e found limit fs ps ms
          else (case read_text e True f of
             Inl t \<Rightarrow> grep_files e found limit fs ps ms
           | Inr t \<Rightarrow>
              (let ms' = grep_lines found (relative_to (resolved_root e fs) p) limit 1 (splitlines t) ms in
               if int (length ms') \<ge> limit then ms' else grep_files e found limit fs ps ms')))"

definition grep_with_re :: "files_env \<Rightarrow> string \<Rightarrow> string \<Rightarrow> string \<Rightarrow> int \<Rightarrow> file_system \<Rightarrow> string + string" where
  "grep_with_re e pattern search_dir include limit fs =
     (case fe_regex e pattern of
        Inl err \<Rightarrow> Inr (''Error: invalid regex: '' @ err)
      | Inr found \<Rightarrow>
          (case fe_glob e fs (if is_dir fs search_dir then search_dir else parent_path search_dir)
                  (if include \<noteq> [] then include else ''**/*'') of
             GlobPaths ps \<Rightarrow>
               (let ms = grep_files e found limit fs (sort ps) []
                in Inr (if ms = [] then ''No matches found.'' else py_join newline ms))
           | GlobError t \<Rightarrow> Inl t
           | GlobRaise t \<Rightarrow> Inl t))"

definition cut_grep :: "string \<Rightarrow> string" where
  "cut_grep output = (if int (length output) > GREP_OUTPUT_MAX_BYTES
     then slice_to GREP_OUTPUT_MAX_BYTES output @ newline @ ''... (truncated)'' else output)"

definition grep :: "files_env \<Rightarrow> json \<Rightarrow> json \<Rightarrow> json \<Rightarrow> json \<Rightarrow> fs_op" where
  "grep e pattern path include limit fs =
     (case path of
        JStr p \<Rightarrow>
          (case safe_resolve e fs p of
             Inl err \<Rightarrow> (Inr (''Error: '' @ err), fs)
           | Inr r \<Rightarrow>
              (case (pattern, or_none include, json_int limit) of
                 (JStr pat, inc, Some n) \<Rightarrow>
                   (case (case inc of JNull \<Rightarrow> Some [] | JStr s \<Rightarrow> Some s | _ \<Rightarrow> None) of
                      None \<Rightarrow> (Inl (fe_raise e ''include'' include), fs)
                    | Some i \<Rightarrow>
                       (case fe_rg e of
                          Some rg \<Rightarrow> (Inr (cut_grep (grep_with_rg e rg pat r i (py_str_json limit) fs)), fs)
                        | None \<Rightarrow> (case grep_with_re e pat r i n fs of
                            Inl t \<Rightarrow> (Inl t, fs) | Inr out \<Rightarrow> (Inr (cut_grep out), fs))))
               | _ \<Rightarrow> (Inl (fe_raise e ''grep'' pattern), fs)))
      | _ \<Rightarrow> (Inl (fe_raise e ''isabs'' path), fs))"

text \<open>\<open>root.glob(pattern)\<close> with a pattern that no path check has seen.\<close>

definition glob_search :: "files_env \<Rightarrow> json \<Rightarrow> json \<Rightarrow> fs_op" where
  "glob_search e pattern limit fs =
     (case (pattern, json_int limit) of
        (JStr pat, Some n) \<Rightarrow>
          (case fe_glob e fs (resolved_root e fs) pat of
             GlobError t \<Rightarrow> (Inr (''Error: '' @ t), fs)
           | GlobRaise t \<Rightarrow> (Inl t, fs)
           | GlobPaths ps \<Rightarrow>
              (let found = filter (\<lambda>p. is_file fs (fe_resolve e fs p)) (sort ps); count = int (length found);
                   results = map (relative_to (resolved_root e fs)) (take (nat n) found)
               in (Inr (if results = [] then ''No files matched.''
                     else py_join newline results @
                       (if count > n then newline @ ''... ('' @ int_str (count - n) @ '' more files)'' else [])), fs)))
      | _ \<Rightarrow> (Inl (fe_raise e ''glob'' pattern), fs))"


section \<open>Lemmas\<close>

lemma safe_resolve_under: "safe_resolve e fs p = Inr r \<Longrightarrow> under (resolved_root e fs) r"
  by (auto simp: safe_resolve_def Let_def split: if_splits)

lemma split_keep_concat: "concat (split_keep acc s) = rev acc @ s"
proof (induction acc s rule: split_keep.induct)
  case (2 acc c s)
  show ?case
  proof (cases "line_boundary c")
    case True
    show ?thesis
    proof (cases "c = CHR 0x0D \<and> starts_with s [CHR 0x0A]")
      case cr: True
      then obtain s' where "s = CHR 0x0A # s'" by (auto simp: starts_with_iff)
      with True cr 2(2) show ?thesis by simp
    qed (use True 2(3) in auto)
  qed (use 2(1) in simp)
qed simp

lemma splitlines_concat: "concat (splitlines_keep s) = s"
  by (simp add: splitlines_keep_def split_keep_concat)

lemma newlines_unchanged: "CHR 0x0D \<notin> set s \<Longrightarrow> universal_newlines s = s"
  by (induction s) auto

lemma newlines_no_cr: "CHR 0x0D \<notin> set (universal_newlines s)"
  by (induction s rule: universal_newlines.induct) (auto split: list.splits)

text \<open>Counting and replacing the first occurrence.\<close>

lemma count_zero: "p \<noteq> [] \<Longrightarrow> count_from p s = 0 \<longleftrightarrow> \<not> contains_str s p"
  by (induction p s rule: count_from.induct) auto

lemma replace_first_split:
  "contains_str s p \<Longrightarrow> \<exists>a b. s = a @ p @ b \<and> replace_first p n s = a @ n @ b \<and> (\<forall>a' b'. s = a' @ p @ b' \<longrightarrow> length a \<le> length a')"
proof (induction s)
  case (Cons c s)
  show ?case
  proof (cases "starts_with (c # s) p")
    case True
    then obtain b where b: "c # s = p @ b" by (auto simp: starts_with_iff)
    have "replace_first p n (c # s) = n @ drop (length p) (c # s)" using True by simp
    then have "replace_first p n (c # s) = [] @ n @ b" unfolding b by simp
    with b show ?thesis by (intro exI [of _ "[]"] exI [of _ b]) simp
  next
    case False
    with Cons.prems have "contains_str s p" by simp
    with Cons.IH obtain a b where ab: "s = a @ p @ b" "replace_first p n s = a @ n @ b"
      "\<forall>a' b'. s = a' @ p @ b' \<longrightarrow> length a \<le> length a'" by blast
    have "length (c # a) \<le> length a'" if eq: "c # s = a' @ p @ b'" for a' b'
    proof (cases a')
      case Nil
      with eq False show ?thesis by (metis append_Nil starts_with_append)
    next
      case (Cons d a'')
      with eq ab(3) show ?thesis by simp
    qed
    with ab False show ?thesis by (intro exI [of _ "c # a"] exI [of _ b]) simp
  qed
qed simp

lemma count_contains: "count_str s p \<noteq> 0 \<Longrightarrow> contains_str s p"
  by (cases "p = []") (cases s, simp_all add: count_str_def count_zero)

text \<open>What a write may touch.\<close>

lemma store_text_files:
  "store_text e r t fs = (x, fs') \<Longrightarrow> q \<noteq> r \<Longrightarrow> dict_get (fs_files fs') q = dict_get (fs_files fs) q"
  by (auto simp: store_text_def dict_simps split: option.splits)

lemma make_parents_files: "make_parents e r fs = (x, fs') \<Longrightarrow> fs_files fs' = fs_files fs"
  by (auto simp: make_parents_def split: option.splits)

lemma read_only_ops:
  "snd (read_file e path offset limit fs) = fs" "snd (list_directory e path limit fs) = fs"
  "snd (grep e pattern path include limit fs) = fs" "snd (glob_search e pattern limit fs) = fs"
  by (auto simp: read_file_def list_directory_def grep_def glob_search_def Let_def
      split: json.splits sum.splits option.splits glob_result.splits)

lemma write_confined:
  assumes "\<not> under (resolved_root e fs) q"
  shows "dict_get (fs_files (snd (write_file e path body fs))) q = dict_get (fs_files fs) q"
proof (cases "\<exists>p r. path = JStr p \<and> safe_resolve e fs p = Inr r")
  case True
  then obtain p r where pr: "path = JStr p" "safe_resolve e fs p = Inr r" by blast
  then have "q \<noteq> r" using safe_resolve_under assms by blast
  with pr show ?thesis
    by (auto simp: write_file_def store_text_files make_parents_files split: prod.splits option.splits json.splits
        dest: make_parents_files store_text_files)
qed (auto simp: write_file_def split: json.splits sum.splits)

lemma edit_confined:
  assumes "\<not> under (resolved_root e fs) q"
  shows "dict_get (fs_files (snd (edit_file e path old new fs))) q = dict_get (fs_files fs) q"
proof (cases "\<exists>p r. path = JStr p \<and> safe_resolve e fs p = Inr r")
  case True
  then obtain p r where pr: "path = JStr p" "safe_resolve e fs p = Inr r" by blast
  then have "q \<noteq> r" using safe_resolve_under assms by blast
  then have "dict_get (fs_files (snd (edit_text e p r old new t fs))) q = dict_get (fs_files fs) q" for t
    by (auto simp: edit_text_def Let_def split: json.splits prod.splits option.splits dest: store_text_files)
  with pr show ?thesis by (simp add: edit_file_def split: option.splits sum.splits)
qed (auto simp: edit_file_def split: json.splits sum.splits)

section \<open>Properties\<close>

text \<open>
  C25: The file tools stay in the workspace. Whatever arguments the model passes and however
  links resolve, writing and editing leave every file outside the resolved root as it is, the
  four other tools change nothing, and what \<open>read_file\<close> answers depends only on files under the
  root: when two file systems resolve paths alike and agree there, the answers are equal.
\<close>

theorem file_tools_confined:
  assumes "\<not> under (resolved_root e fs) q"
    and "\<And>p. fe_resolve e fs' p = fe_resolve e fs p" and "\<And>op p. fe_fails e op fs' p = fe_fails e op fs p"
    and "\<And>p. under (resolved_root e fs) p \<Longrightarrow> dict_get (fs_files fs') p = dict_get (fs_files fs) p"
  shows "dict_get (fs_files (snd (write_file e path body fs))) q = dict_get (fs_files fs) q \<and>
    dict_get (fs_files (snd (edit_file e path old new fs))) q = dict_get (fs_files fs) q \<and>
    snd (read_file e path offset limit fs) = fs \<and> snd (list_directory e path limit fs) = fs \<and>
    snd (grep e pattern path include limit fs) = fs \<and> snd (glob_search e pattern limit fs) = fs \<and>
    fst (read_file e path offset limit fs') = fst (read_file e path offset limit fs)"
proof -
  have root: "resolved_root e fs' = resolved_root e fs" by (simp add: resolved_root_def assms(2))
  have safe: "safe_resolve e fs' p = safe_resolve e fs p" for p by (simp add: safe_resolve_def root assms(2))
  have "fst (read_file e path offset limit fs') = fst (read_file e path offset limit fs)"
  proof (cases "\<exists>p r. path = JStr p \<and> safe_resolve e fs p = Inr r")
    case True
    then obtain p r where pr: "path = JStr p" "safe_resolve e fs p = Inr r" by blast
    then have "dict_get (fs_files fs') r = dict_get (fs_files fs) r" using safe_resolve_under assms(4) by blast
    with pr safe show ?thesis by (simp add: read_file_def assms(3) split: option.splits sum.splits)
  qed (auto simp: read_file_def safe split: json.splits sum.splits)
  then show ?thesis using assms(1) by (simp add: write_confined edit_confined read_only_ops)
qed

text \<open>A workspace with one text file and one secret next to it, without links.\<close>

definition plain_resolve :: "file_system \<Rightarrow> string \<Rightarrow> string" where
  "plain_resolve fs p = ''/'' @ py_join ''/'' (rev (fold (\<lambda>x acc. if x = ''..'' then tl acc else x # acc) (path_parts p) []))"

definition files_sample :: files_env where
  "files_sample = \<lparr>fe_root = ''/w'', fe_resolve = plain_resolve, fe_fails = (\<lambda>op fs p. None),
     fe_glob = (\<lambda>fs d pat. GlobPaths [d @ ''/'' @ pat]), fe_regex = (\<lambda>p. Inr (\<lambda>l. contains_str l p)), fe_rg = None,
     fe_decode_error = (\<lambda>s. ''decode''), fe_raise = (\<lambda>n v. n)\<rparr>"

definition sample_fs :: file_system where
  "sample_fs = \<lparr>fs_files = [(''/w/a'', Decodable (''x'' @ [CHR 0x0D, CHR 0x0A] @ ''y'')), (''/s'', Decodable ''key'')],
     fs_dirs = [''/'', ''/w'']\<rparr>"

lemma sample_resolve: "resolved_root files_sample fs = ''/w''" "safe_resolve files_sample fs ''a'' = Inr ''/w/a''"
  by (simp_all add: resolved_root_def files_sample_def plain_resolve_def path_parts_def safe_resolve_def is_abs_def
      join_path_def under_def)

theorem file_tools_confined_witness:
  "\<not> under (resolved_root files_sample sample_fs) ''/s'' \<and>
   dict_get (fs_files (snd (write_file files_sample (JStr ''a'') (JStr ''z'') sample_fs))) ''/s'' = Some (Decodable ''key'')"
proof -
  have u: "\<not> under (resolved_root files_sample sample_fs) ''/s''" by (simp add: sample_resolve under_def)
  have "dict_get (fs_files sample_fs) ''/s'' = Some (Decodable ''key'')" by (simp add: sample_fs_def dict_get_def)
  with u file_tools_confined [OF u, of sample_fs "JStr ''a''" "JStr ''z''"] show ?thesis by simp
qed

text \<open>
  An edit replaces one place. When the path resolves to a readable text file, the old
  text is counted in the file with its line endings translated: if it is absent or counted more
  than once nothing changes and the answer is an error; otherwise the file becomes the text
  before the first occurrence, the new text, and the text after it, and no other file changes.
\<close>

theorem edit_file_replaces:
  assumes "safe_resolve e fs p = Inr r" and "dict_get (fs_files fs) r = Some (Decodable raw)"
    and "fe_fails e ''read'' fs r = None" and "fe_fails e ''write'' fs r = None"
  shows "(count_str (universal_newlines raw) old \<noteq> 1 \<longrightarrow>
      (\<exists>msg. edit_file e (JStr p) (JStr old) (JStr new) fs = (Inr (''Error: '' @ msg), fs))) \<and>
    (count_str (universal_newlines raw) old = 1 \<longrightarrow>
      (\<exists>a b fs'. universal_newlines raw = a @ old @ b \<and>
        (\<forall>a' b'. universal_newlines raw = a' @ old @ b' \<longrightarrow> length a \<le> length a') \<and>
        edit_file e (JStr p) (JStr old) (JStr new) fs = (Inr (''Applied edit to '' @ p), fs') \<and>
        dict_get (fs_files fs') r = Some (Decodable (a @ new @ b)) \<and>
        (\<forall>q. q \<noteq> r \<longrightarrow> dict_get (fs_files fs') q = dict_get (fs_files fs) q)))"
proof -
  let ?t = "universal_newlines raw"
  have edit: "edit_file e (JStr p) (JStr old) (JStr new) fs = edit_text e p r (JStr old) (JStr new) ?t fs"
    using assms(1-3) by (simp add: edit_file_def read_text_def)
  show ?thesis
  proof (intro conjI impI)
    assume "count_str ?t old \<noteq> 1"
    then consider "count_str ?t old = 0" | "count_str ?t old > 1" by linarith
    then show "\<exists>msg. edit_file e (JStr p) (JStr old) (JStr new) fs = (Inr (''Error: '' @ msg), fs)"
      unfolding edit by cases (simp_all add: edit_text_def)
  next
    assume one: "count_str ?t old = 1"
    then have "contains_str ?t old" using count_contains by simp
    then obtain a b where ab: "?t = a @ old @ b" "replace_first old new ?t = a @ new @ b"
      "\<forall>a' b'. ?t = a' @ old @ b' \<longrightarrow> length a \<le> length a'" using replace_first_split by blast
    let ?fs = "fs\<lparr>fs_files := dict_set r (Decodable (a @ new @ b)) (fs_files fs)\<rparr>"
    have "edit_text e p r (JStr old) (JStr new) ?t fs = (Inr (''Applied edit to '' @ p), ?fs)"
      using one ab(2) assms(4) by (simp add: edit_text_def store_text_def)
    then show "\<exists>a b fs'. ?t = a @ old @ b \<and> (\<forall>a' b'. ?t = a' @ old @ b' \<longrightarrow> length a \<le> length a') \<and>
        edit_file e (JStr p) (JStr old) (JStr new) fs = (Inr (''Applied edit to '' @ p), fs') \<and>
        dict_get (fs_files fs') r = Some (Decodable (a @ new @ b)) \<and>
        (\<forall>q. q \<noteq> r \<longrightarrow> dict_get (fs_files fs') q = dict_get (fs_files fs) q)"
      unfolding edit using ab(1,3) by (intro exI [of _ a] exI [of _ b] exI [of _ ?fs]) (simp add: dict_simps)
  qed
qed

text \<open>Editing a file with CRLF line endings rewrites all of them: only \<open>y\<close> was to change.\<close>

theorem edit_file_replaces_witness:
  "edit_file files_sample (JStr ''a'') (JStr ''y'') (JStr ''z'') sample_fs =
     (Inr ''Applied edit to a'', sample_fs\<lparr>fs_files := dict_set ''/w/a'' (Decodable (''x'' @ newline @ ''z'')) (fs_files sample_fs)\<rparr>) \<and>
   dict_get (fs_files (snd (edit_file files_sample (JStr ''a'') (JStr ''y'') (JStr ''z'') sample_fs))) ''/s'' = Some (Decodable ''key'')"
proof -
  let ?raw = "''x'' @ [CHR 0x0D, CHR 0x0A] @ ''y''"
  have g: "dict_get (fs_files sample_fs) ''/w/a'' = Some (Decodable ?raw)" "dict_get (fs_files sample_fs) ''/s'' = Some (Decodable ''key'')"
    by (simp_all add: sample_fs_def dict_get_def)
  have n: "universal_newlines ?raw = ''x'' @ newline @ ''y''" by (simp add: newline_def)
  have c: "count_str (''x'' @ newline @ ''y'') ''y'' = 1" by (simp add: count_str_def newline_def)
  have f: "fe_fails files_sample op fs p = None" for op fs p by (simp add: files_sample_def)
  have x: "edit_file files_sample (JStr ''a'') (JStr ''y'') (JStr ''z'') sample_fs =
     (Inr ''Applied edit to a'', sample_fs\<lparr>fs_files := dict_set ''/w/a'' (Decodable (''x'' @ newline @ ''z'')) (fs_files sample_fs)\<rparr>)"
    using g(1) n c f by (simp add: edit_file_def sample_resolve read_text_def edit_text_def store_text_def newline_def)
  have one: "count_str (universal_newlines ?raw) ''y'' = 1" unfolding n by (rule c)
  from edit_file_replaces [OF sample_resolve(2) g(1) f f, of "''y''" "''z''", THEN conjunct2, rule_format, OF one]
  obtain fs' where fs': "edit_file files_sample (JStr ''a'') (JStr ''y'') (JStr ''z'') sample_fs = (Inr (''Applied edit to '' @ ''a''), fs')"
    "\<forall>q. q \<noteq> ''/w/a'' \<longrightarrow> dict_get (fs_files fs') q = dict_get (fs_files sample_fs) q" by blast
  have "dict_get (fs_files fs') ''/s'' = Some (Decodable ''key'')" using fs'(2) g(2) by simp
  with x fs'(1) show ?thesis by (metis snd_conv)
qed

text \<open>
  What is written is what is read. After a successful write of a text without carriage
  returns the file holds exactly that text, and reading the path shows lines whose
  concatenation is the text, as long as the write does not change how the path resolves.
\<close>

theorem write_then_read:
  assumes "write_file e (JStr p) (JStr t) fs = (Inr (''Wrote '' @ nat_str (length t) @ '' bytes to '' @ p), fs')"
    and "safe_resolve e fs p = Inr r" and "safe_resolve e fs' p = Inr r" and "fe_fails e ''read'' fs' r = None"
    and "CHR 0x0D \<notin> set t"
  shows "dict_get (fs_files fs') r = Some (Decodable t) \<and>
    (\<exists>ls. concat ls = t \<and> read_file e (JStr p) offset limit fs' = (read_window e offset limit ls, fs'))"
proof -
  have stored: "dict_get (fs_files fs') r = Some (Decodable t)"
    using assms(1,2) by (auto simp: write_file_def store_text_def dict_simps split: prod.splits option.splits)
  then have "read_file e (JStr p) offset limit fs' = (read_window e offset limit (splitlines_keep t), fs')"
    using assms(3,4) by (simp add: read_file_def read_text_def newlines_unchanged [OF assms(5)])
  with stored splitlines_concat show ?thesis by blast
qed

theorem write_then_read_witness:
  "read_file files_sample (JStr ''a'') JNull JNull (snd (write_file files_sample (JStr ''a'') (JStr ''hi'') sample_fs)) =
     (read_window files_sample JNull JNull [''hi''], snd (write_file files_sample (JStr ''a'') (JStr ''hi'') sample_fs))"
proof -
  have f: "fe_fails files_sample op fs q = None" for op fs q by (simp add: files_sample_def)
  have w: "write_file files_sample (JStr ''a'') (JStr ''hi'') sample_fs = (Inr (''Wrote '' @ nat_str (length ''hi'') @ '' bytes to '' @ ''a''),
     sample_fs\<lparr>fs_dirs := fold set_add (path_prefixes (parent_path ''/w/a'')) (fs_dirs sample_fs),
       fs_files := dict_set ''/w/a'' (Decodable ''hi'') (fs_files sample_fs)\<rparr>)" (is "_ = (_, ?fs)")
    using f by (simp add: write_file_def sample_resolve make_parents_def store_text_def)
  have c: "CHR 0x0D \<notin> set ''hi''" by simp
  from write_then_read [OF w sample_resolve(2) sample_resolve(2) f c]
  have "dict_get (fs_files ?fs) ''/w/a'' = Some (Decodable ''hi'')" by blast
  then have "read_file files_sample (JStr ''a'') JNull JNull ?fs = (read_window files_sample JNull JNull [''hi''], ?fs)"
    by (simp add: read_file_def sample_resolve f read_text_def splitlines_keep_def line_boundary_def)
  with w show ?thesis by simp
qed

text \<open>The count does not see overlapping places: \<open>aa\<close> is counted once in \<open>aaa\<close>, where it begins twice.\<close>

lemma edit_ambiguous: "count_str ''aaa'' ''aa'' = 1 \<and> ''aaa'' = [] @ ''aa'' @ ''a'' \<and> ''aaa'' = ''a'' @ ''aa'' @ []"
  by (simp add: count_str_def)

text \<open>
  Searching by pattern leaves the workspace. With a glob that follows \<open>..\<close> as Python's
  does, \<open>glob_search\<close> reports a file outside the resolved root, for which \<open>read_file\<close> answers
  with an error; no path check is applied to the pattern.
\<close>

theorem glob_search_escapes:
  "fst (glob_search files_sample (JStr ''../s'') (JInt 5) sample_fs) = Inr ''../s'' \<and>
   \<not> under (resolved_root files_sample sample_fs) ''/s'' \<and>
   fst (read_file files_sample (JStr ''../s'') JNull JNull sample_fs) =
     Inr (''Error: Path traversal ('' @ SQ @ ''..'' @ SQ @ '') is not allowed: ../s'')"
proof -
  have r: "fe_resolve files_sample sample_fs ''/w/../s'' = ''/s''" by (simp add: files_sample_def plain_resolve_def path_parts_def)
  have g: "fe_glob files_sample sample_fs ''/w'' ''../s'' = GlobPaths [''/w/../s'']" by (simp add: files_sample_def)
  have f: "is_file sample_fs ''/s''" by (simp add: is_file_def dict_has_def dict_get_def sample_fs_def)
  have "fst (glob_search files_sample (JStr ''../s'') (JInt 5) sample_fs) = Inr ''../s''"
    by (simp add: glob_search_def json_int_def sample_resolve g r f relative_to_def)
  moreover have "fst (read_file files_sample (JStr ''../s'') JNull JNull sample_fs) =
     Inr (''Error: Path traversal ('' @ SQ @ ''..'' @ SQ @ '') is not allowed: ../s'')"
    by (simp add: read_file_def safe_resolve_def is_abs_def path_parts_def)
  ultimately show ?thesis by (simp add: sample_resolve under_def)
qed

end
