(* ===== verification/WorkspaceTools.thy ===== *)
theory WorkspaceTools
  imports FileTools GitOps
begin

text \<open>
  The remaining tools of the coding agent (\<^verbatim>\<open>tools/bash.py\<close>, the git tools of
  \<^verbatim>\<open>tools/git.py\<close>) and the tool specifications of all workspace tools. A world has a file
  system and a list of effects, each reached through a pair of functions; the shell is an
  argument, and so is \<open>urlparse(...).hostname\<close>.
\<close>

section \<open>Environment\<close>

datatype shell_result = ShellTimeout | ShellOSError string | ShellRaise string | ShellExit int string

record 'w workspace_env =
  we_files :: files_env
  we_fs :: "'w \<Rightarrow> file_system"
  we_set_fs :: "file_system \<Rightarrow> 'w \<Rightarrow> 'w"
  we_effects :: "'w \<Rightarrow> effect list"
  we_set_effects :: "effect list \<Rightarrow> 'w \<Rightarrow> 'w"
  we_git :: git_env
  we_shell :: "string \<Rightarrow> json \<Rightarrow> 'w \<Rightarrow> shell_result \<times> 'w"
  we_url_host :: "string \<Rightarrow> string + string option"
  we_bind_error :: "string \<Rightarrow> kwargs \<Rightarrow> string"

definition with_fs :: "'w workspace_env \<Rightarrow> fs_op \<Rightarrow> ('w, string) op" where
  "with_fs e f w = (case f (we_fs e w) of (r, fs) \<Rightarrow> (r, we_set_fs e fs w))"

definition git_command :: "'w workspace_env \<Rightarrow> int \<Rightarrow> string list \<Rightarrow> 'w \<Rightarrow> string \<times> 'w" where
  "git_command e timeout args w =
     (case run_git (we_git e) timeout (fe_root (we_files e)) args (we_effects e w) of (out, fx) \<Rightarrow> (out, we_set_effects e fx w))"

definition git_op :: "'w workspace_env \<Rightarrow> int \<Rightarrow> string list \<Rightarrow> ('w, string) op" where
  "git_op e timeout args w = (case git_command e timeout args w of (out, w1) \<Rightarrow> (Inr out, w1))"

text \<open>A subprocess argument must be a text.\<close>

definition text_arg :: "'w workspace_env \<Rightarrow> string \<Rightarrow> json \<Rightarrow> ('w, string) op" where
  "text_arg e n v = (case v of JStr s \<Rightarrow> op_return s | _ \<Rightarrow> op_raise (fe_raise (we_files e) n v))"

section \<open>The shell\<close>

definition BASH_TIMEOUT_S :: int where "BASH_TIMEOUT_S = 120"
definition BASH_OUTPUT_MAX :: int where "BASH_OUTPUT_MAX = 65536"

definition bash :: "'w workspace_env \<Rightarrow> json \<Rightarrow> json \<Rightarrow> ('w, string) op" where
  "bash e command timeout w =
     (case command of
        JStr cmd \<Rightarrow>
          (case we_shell e cmd timeout w of
             (ShellTimeout, w1) \<Rightarrow> (Inr (''Error: command timed out after '' @ py_str_json timeout @ ''s'' @ newline @ ''Command: '' @ cmd), w1)
           | (ShellOSError err, w1) \<Rightarrow> (Inr (''Error: failed to execute command: '' @ err), w1)
           | (ShellRaise t, w1) \<Rightarrow> (Inl t, w1)
           | (ShellExit code out, w1) \<Rightarrow>
               (Inr (''Exit code: '' @ int_str code @ newline @
                 (if int (length out) > BASH_OUTPUT_MAX
                  then slice_to BASH_OUTPUT_MAX out @ newline @ ''... (truncated at '' @ int_str BASH_OUTPUT_MAX @ '' bytes)''
                  else out)), w1))
      | _ \<Rightarrow> (Inl (fe_raise (we_files e) ''shell'' command), w))"

section \<open>The git tools\<close>

definition LOG_LIMIT :: int where "LOG_LIMIT = 20"
definition GIT_CLONE_TIMEOUT_S :: int where "GIT_CLONE_TIMEOUT_S = 300"

definition git_diff :: "'w workspace_env \<Rightarrow> json \<Rightarrow> ('w, string) op" where
  "git_diff e staged = op_bind (git_op e GIT_TIMEOUT_S (''diff'' # (if json_truthy staged then [''--cached''] else [])))
     (\<lambda>result. op_return (if strip result \<noteq> [] then result else ''No uncommitted changes.''))"

definition git_commit :: "'w workspace_env \<Rightarrow> json \<Rightarrow> json \<Rightarrow> ('w, string) op" where
  "git_commit e message add_all =
     op_bind (if json_truthy add_all then git_op e GIT_TIMEOUT_S [''add'', ''-A''] else op_return []) (\<lambda>add_result.
     if is_git_error add_result then op_return (''Failed to stage: '' @ add_result)
     else op_bind (text_arg e ''commit'' message) (\<lambda>m. git_op e GIT_TIMEOUT_S [''commit'', ''-m'', m]))"

definition git_log :: "'w workspace_env \<Rightarrow> json \<Rightarrow> ('w, string) op" where
  "git_log e limit = git_op e GIT_TIMEOUT_S [''log'', ''--max-count='' @ py_str_json limit, ''--oneline'', ''--no-decorate'']"

definition git_checkout :: "'w workspace_env \<Rightarrow> json \<Rightarrow> ('w, string) op" where
  "git_checkout e ref = op_bind (text_arg e ''checkout'' ref) (\<lambda>r. git_op e GIT_TIMEOUT_S [''checkout'', r])"

definition parse_allowed_hosts :: "string \<Rightarrow> string pyset" where
  "parse_allowed_hosts raw = remdups (py_words (map (\<lambda>c. if c = CHR '','' then CHR '' '' else c) raw))"

text \<open>The part after and before the first occurrence of a character, and after the last.\<close>

definition after_char :: "char \<Rightarrow> string \<Rightarrow> string" where
  "after_char c s = drop 1 (dropWhile (\<lambda>x. x \<noteq> c) s)"

definition before_char :: "char \<Rightarrow> string \<Rightarrow> string" where
  "before_char c s = takeWhile (\<lambda>x. x \<noteq> c) s"

definition after_last :: "char \<Rightarrow> string \<Rightarrow> string" where
  "after_last c s = rev (takeWhile (\<lambda>x. x \<noteq> c) (rev s))"

definition extract_git_url_host :: "'w workspace_env \<Rightarrow> string \<Rightarrow> string + string option" where
  "extract_git_url_host e url =
     (if CHR ''@'' \<in> set url \<and> CHR '':'' \<in> set url \<and> \<not> contains_str url ''://''
      then let host = before_char CHR '':'' (after_char CHR ''@'' url) in Inr (if host \<noteq> [] then Some host else None)
      else we_url_host e url)"

definition default_clone_dest :: "string \<Rightarrow> string" where
  "default_clone_dest url =
     (let last_part = after_last CHR '':'' (after_last CHR ''/'' (rstrip_chars ''/'' url));
          base = (if ends_with last_part ''.git'' then take (length last_part - 4) last_part else last_part)
      in if base \<noteq> [] then base else ''repo'')"

definition host_list :: "string pyset \<Rightarrow> string" where
  "host_list hosts = py_repr_json (JList (map JStr (sort hosts)))"

definition git_clone :: "'w workspace_env \<Rightarrow> string pyset \<Rightarrow> json \<Rightarrow> json \<Rightarrow> ('w, string) op" where
  "git_clone e hosts repo dest =
     (if hosts = [] then op_return (''Error: git_clone is disabled (GIT_CLONE_ALLOWED_HOSTS is empty). '' @
        ''Ask the operator to configure an allowlist.'')
      else op_bind (text_arg e ''in'' repo) (\<lambda>url.
        op_bind (op_of (extract_git_url_host e url)) (\<lambda>host.
        case host of
          None \<Rightarrow> op_return (''Error: could not parse host from URL '' @ py_repr url)
        | Some h \<Rightarrow>
            if h \<notin> set hosts then op_return (''Error: host '' @ py_repr h @ '' is not in GIT_CLONE_ALLOWED_HOSTS. Allowed: '' @ host_list hosts)
            else op_bind (if json_truthy dest then text_arg e ''/'' dest else op_return (default_clone_dest url)) (\<lambda>d w.
              let fs = we_fs e w; base = resolved_root (we_files e) fs;
                  dest_abs = fe_resolve (we_files e) fs (join_path base d) in
              if \<not> under base dest_abs then (Inr (''Error: destination '' @ py_repr d @ '' escapes the workspace root''), w)
              else if is_file fs dest_abs \<or> is_dir fs dest_abs then (Inr (''Error: destination '' @ py_repr d @ '' already exists''), w)
              else git_op e GIT_CLONE_TIMEOUT_S [''clone'', url, dest_abs] w))))"

section \<open>Tool specifications\<close>

definition core_tool ::
  "'w workspace_env \<Rightarrow> string \<Rightarrow> string \<Rightarrow> string \<Rightarrow> json \<Rightarrow> string \<Rightarrow> bool \<Rightarrow> bool \<Rightarrow> signature \<Rightarrow>
     ((string \<Rightarrow> json) \<Rightarrow> ('w, string) op) \<Rightarrow> 'w ToolSpec" where
  "core_tool e toolset name description schema display read_only safe sig body =
     (tool name description schema (call_body (we_bind_error e) name sig body))
       \<lparr>is_read_only := read_only, is_concurrency_safe := safe, ts_display_name := display, ts_toolset := toolset\<rparr>"

lemma core_tool_fields:
  "ts_name (core_tool e ts n d s dn ro safe sig body) = n"
  "is_read_only (core_tool e ts n d s dn ro safe sig body) = ro"
  "is_core (core_tool e ts n d s dn ro safe sig body) = True"
  "check_fn (core_tool e ts n d s dn ro safe sig body) = None"
  "ts_handler (core_tool e ts n d s dn ro safe sig body) = call_body (we_bind_error e) n sig body"
  by (simp_all add: core_tool_def tool_def)

definition make_read_file :: "'w workspace_env \<Rightarrow> 'w ToolSpec" where
  "make_read_file e = core_tool e ''files'' ''read_file''
     ''Read a text file from the workspace. Returns numbered lines. Use offset/limit for large files.''
     (object_schema
       [(''path'', typed ''string'' [(''description'', JStr ''Relative path from workspace root.'')]),
        (''offset'', typed ''integer'' [(''description'', JStr ''Start line (1-indexed, optional).'')]),
        (''limit'', typed ''integer'' [(''description'', JStr ''Max lines to return.''), (''default'', JInt READ_LINE_LIMIT)])]
       [''path''])
     ''Reading file'' True True
     [(''path'', None), (''offset'', Some JNull), (''limit'', Some JNull)]
     (\<lambda>a. with_fs e (read_file (we_files e) (a ''path'') (a ''offset'') (a ''limit'')))"

definition make_write_file :: "'w workspace_env \<Rightarrow> 'w ToolSpec" where
  "make_write_file e = core_tool e ''files'' ''write_file''
     ''Create or overwrite a file in the workspace.''
     (object_schema
       [(''path'', typed ''string'' [(''description'', JStr ''Relative path from workspace root.'')]),
        (''content'', typed ''string'' [(''description'', JStr ''Full file contents to write.'')])]
       [''path'', ''content''])
     ''Writing file'' False False
     [(''path'', None), (''content'', None)]
     (\<lambda>a. with_fs e (write_file (we_files e) (a ''path'') (a ''content'')))"

definition make_edit_file :: "'w workspace_env \<Rightarrow> 'w ToolSpec" where
  "make_edit_file e = core_tool e ''files'' ''edit_file''
     (''Apply a targeted edit to a file via old/new string replacement. The old_string must occur '' @
      ''exactly once. Preferred over write_file for surgical changes.'')
     (object_schema
       [(''path'', typed ''string'' [(''description'', JStr ''Relative path from workspace root.'')]),
        (''old_string'', typed ''string'' [(''description'', JStr ''Exact text to find (must be unique in the file).'')]),
        (''new_string'', typed ''string'' [(''description'', JStr ''Replacement text.'')])]
       [''path'', ''old_string'', ''new_string''])
     ''Editing file'' False False
     [(''path'', None), (''old_string'', None), (''new_string'', None)]
     (\<lambda>a. with_fs e (edit_file (we_files e) (a ''path'') (a ''old_string'') (a ''new_string'')))"

definition make_list_directory :: "'w workspace_env \<Rightarrow> 'w ToolSpec" where
  "make_list_directory e = core_tool e ''files'' ''list_directory''
     ''List files and directories at a given path in the workspace.''
     (object_schema
       [(''path'', typed ''string'' [(''description'', JStr ''Relative path (default: workspace root).''), (''default'', JStr ''.'')]),
        (''limit'', typed ''integer'' [(''description'', JStr ''Max entries to return.''), (''default'', JInt LIST_LIMIT)])]
       [])
     ''Listing directory'' True True
     [(''path'', Some (JStr ''.'')), (''limit'', Some (JInt LIST_LIMIT))]
     (\<lambda>a. with_fs e (list_directory (we_files e) (a ''path'') (a ''limit'')))"

definition make_grep :: "'w workspace_env \<Rightarrow> 'w ToolSpec" where
  "make_grep e = core_tool e ''search'' ''grep''
     (''Search file contents by regex pattern. Returns matching lines with file paths and line numbers. '' @
      ''Supports glob filtering.'')
     (object_schema
       [(''pattern'', typed ''string'' [(''description'', JStr ''Regex pattern to search for.'')]),
        (''path'', typed ''string'' [(''description'', JStr ''Relative directory or file to search (default: root).''), (''default'', JStr ''.'')]),
        (''include'', typed ''string'' [(''description'', JStr (''Glob filter for file names (e.g. '' @ SQ @ ''*.py'' @ SQ @ '').'')), (''default'', JStr [])]),
        (''limit'', typed ''integer'' [(''description'', JStr ''Max matching lines.''), (''default'', JInt GREP_LIMIT)])]
       [''pattern''])
     ''Searching file contents'' True True
     [(''pattern'', None), (''path'', Some (JStr ''.'')), (''include'', Some (JStr [])), (''limit'', Some (JInt GREP_LIMIT))]
     (\<lambda>a. with_fs e (grep (we_files e) (a ''pattern'') (a ''path'') (a ''include'') (a ''limit'')))"

definition make_glob :: "'w workspace_env \<Rightarrow> 'w ToolSpec" where
  "make_glob e = core_tool e ''search'' ''glob_search''
     (''Find files matching a glob pattern (e.g. '' @ SQ @ ''**/*.py'' @ SQ @ '').'')
     (object_schema
       [(''pattern'', typed ''string'' [(''description'', JStr (''Glob pattern (e.g. '' @ SQ @ ''**/*.py'' @ SQ @ '', '' @ SQ @ ''src/**/*.ts'' @ SQ @ '').''))]),
        (''limit'', typed ''integer'' [(''description'', JStr ''Max results.''), (''default'', JInt GLOB_LIMIT)])]
       [''pattern''])
     ''Finding files'' True True
     [(''pattern'', None), (''limit'', Some (JInt GLOB_LIMIT))]
     (\<lambda>a. with_fs e (glob_search (we_files e) (a ''pattern'') (a ''limit'')))"

definition make_bash :: "'w workspace_env \<Rightarrow> 'w ToolSpec" where
  "make_bash e = core_tool e ''bash'' ''bash''
     (''Execute a shell command in the workspace. Use for running tests, installing dependencies, build '' @
      ''tools, etc. Commands run in the workspace root with a configurable timeout (default: 120s).'')
     (object_schema
       [(''command'', typed ''string'' [(''description'', JStr ''Shell command to execute.'')]),
        (''timeout'', typed ''integer'' [(''description'', JStr ''Max seconds before kill.''), (''default'', JInt BASH_TIMEOUT_S)])]
       [''command''])
     ''Running command'' False False
     [(''command'', None), (''timeout'', Some (JInt BASH_TIMEOUT_S))]
     (\<lambda>a. bash e (a ''command'') (a ''timeout''))"

definition make_git_diff :: "'w workspace_env \<Rightarrow> 'w ToolSpec" where
  "make_git_diff e = core_tool e ''git'' ''git_diff''
     ''Show uncommitted changes in the workspace. Use staged=true for staged-only.''
     (object_schema
       [(''staged'', typed ''boolean'' [(''description'', JStr ''Show only staged changes.''), (''default'', JBool False)])]
       [])
     ''Checking git diff'' True True
     [(''staged'', Some (JBool False))]
     (\<lambda>a. git_diff e (a ''staged''))"

definition make_git_commit :: "'w workspace_env \<Rightarrow> 'w ToolSpec" where
  "make_git_commit e = core_tool e ''git'' ''git_commit''
     ''Stage all changes and commit with a message.''
     (object_schema
       [(''message'', typed ''string'' [(''description'', JStr ''Commit message.'')]),
        (''add_all'', typed ''boolean'' [(''description'', JStr ''Stage all changes first.''), (''default'', JBool True)])]
       [''message''])
     ''Committing changes'' False False
     [(''message'', None), (''add_all'', Some (JBool True))]
     (\<lambda>a. git_commit e (a ''message'') (a ''add_all''))"

definition make_git_log :: "'w workspace_env \<Rightarrow> 'w ToolSpec" where
  "make_git_log e = core_tool e ''git'' ''git_log''
     ''Show recent commit history (one line per commit).''
     (object_schema
       [(''limit'', typed ''integer'' [(''description'', JStr ''Max commits to show.''), (''default'', JInt LOG_LIMIT)])]
       [])
     ''Checking git log'' True True
     [(''limit'', Some (JInt LOG_LIMIT))]
     (\<lambda>a. git_log e (a ''limit''))"

definition make_git_checkout :: "'w workspace_env \<Rightarrow> 'w ToolSpec" where
  "make_git_checkout e = core_tool e ''git'' ''git_checkout''
     (''Switch to an existing branch or commit in the workspace.  Does NOT create new branches '' @ em_dash @ '' use ``bash`` with '' @
      ''``git checkout -b`` for that.  Requires the ref to already exist locally.'')
     (object_schema
       [(''ref'', typed ''string'' [(''description'', JStr ''Branch name or commit SHA to check out.'')])]
       [''ref''])
     ''Switching branch'' False False
     [(''ref'', None)]
     (\<lambda>a. git_checkout e (a ''ref''))"

text \<open>The arrow of the source's description is written with two characters.\<close>

definition make_git_clone :: "'w workspace_env \<Rightarrow> string pyset \<Rightarrow> 'w ToolSpec" where
  "make_git_clone e hosts = core_tool e ''git'' ''git_clone''
     (''Clone a remote git repository into a subdirectory of the workspace.  '' @
      (if hosts \<noteq> [] then ''Approved hosts: '' @ py_join '', '' (sort hosts) @ ''.  ''
       else ''This tool is DISABLED on this deployment (no hosts approved) '' @ em_dash @ '' any call will be rejected.  '') @
      ''Paths are rooted in the workspace; relative ``..`` in ``dest`` is rejected.'')
     (object_schema
       [(''repo_url'', typed ''string'' [(''description'', JStr ''HTTPS or SSH git URL to clone.'')]),
        (''dest'', typed ''string'' [(''description'', JStr (''Relative destination directory under workspace_root.  '' @
           ''Defaults to the repo'' @ SQ @ ''s basename (e.g. '' @ SQ @ ''myproj.git'' @ SQ @ '' -> '' @ SQ @ ''myproj'' @ SQ @ '').'')),
          (''default'', JStr [])])]
       [''repo_url''])
     ''Cloning repository'' False False [(''repo_url'', None), (''dest'', Some (JStr []))]
     (\<lambda>a. git_clone e hosts (a ''repo_url'') (a ''dest''))"

section \<open>Registration\<close>

definition file_tools :: "'w workspace_env \<Rightarrow> 'w ToolSpec list" where
  "file_tools e = [make_read_file e, make_write_file e, make_edit_file e, make_list_directory e]"

definition search_tools :: "'w workspace_env \<Rightarrow> 'w ToolSpec list" where
  "search_tools e = [make_grep e, make_glob e]"

definition git_tools :: "'w workspace_env \<Rightarrow> string \<Rightarrow> bool \<Rightarrow> 'w ToolSpec list" where
  "git_tools e raw_hosts include_commit = [make_git_diff e] @ (if include_commit then [make_git_commit e] else []) @
     [make_git_log e, make_git_checkout e, make_git_clone e (parse_allowed_hosts raw_hosts)]"

definition coding_tools :: "'w workspace_env \<Rightarrow> string \<Rightarrow> bool \<Rightarrow> 'w ToolSpec list" where
  "coding_tools e raw_hosts include_commit =
     file_tools e @ search_tools e @ [make_bash e] @ git_tools e raw_hosts include_commit"

lemmas make_workspace_defs = make_read_file_def make_write_file_def make_edit_file_def make_list_directory_def make_grep_def
  make_glob_def make_bash_def make_git_diff_def make_git_commit_def make_git_log_def make_git_checkout_def make_git_clone_def

lemma make_workspace_names:
  "ts_name (make_read_file e) = ''read_file''" "ts_name (make_write_file e) = ''write_file''"
  "ts_name (make_edit_file e) = ''edit_file''" "ts_name (make_list_directory e) = ''list_directory''"
  "ts_name (make_grep e) = ''grep''" "ts_name (make_glob e) = ''glob_search''" "ts_name (make_bash e) = ''bash''"
  "ts_name (make_git_diff e) = ''git_diff''" "ts_name (make_git_commit e) = ''git_commit''"
  "ts_name (make_git_log e) = ''git_log''" "ts_name (make_git_checkout e) = ''git_checkout''"
  "ts_name (make_git_clone e hosts) = ''git_clone''"
  by (simp_all only: make_workspace_defs core_tool_fields)

lemma make_workspace_checks:
  "check_fn (make_read_file e) = None" "check_fn (make_write_file e) = None" "check_fn (make_edit_file e) = None"
  "check_fn (make_list_directory e) = None" "check_fn (make_grep e) = None" "check_fn (make_glob e) = None"
  "check_fn (make_bash e) = None" "check_fn (make_git_diff e) = None" "check_fn (make_git_commit e) = None"
  "check_fn (make_git_log e) = None" "check_fn (make_git_checkout e) = None" "check_fn (make_git_clone e hosts) = None"
  by (simp_all only: make_workspace_defs core_tool_fields)

lemma make_workspace_read_only:
  "is_read_only (make_write_file e) = False" "is_read_only (make_edit_file e) = False" "is_read_only (make_bash e) = False"
  "is_read_only (make_git_commit e) = False" "is_read_only (make_git_checkout e) = False" "is_read_only (make_git_clone e hosts) = False"
  by (simp_all only: make_workspace_defs core_tool_fields)

section \<open>What the read-only tools do\<close>

text \<open>The git commands that only report.\<close>

definition git_report :: "string list \<Rightarrow> bool" where
  "git_report args = (args = [''diff''] \<or> args = [''diff'', ''--cached''] \<or>
     (case args of [c, n, o1, o2] \<Rightarrow> c = ''log'' \<and> starts_with n ''--max-count='' \<and> o1 = ''--oneline'' \<and> o2 = ''--no-decorate'' | _ \<Rightarrow> False))"

lemma git_diff_keeps:
  assumes "\<And>t args w. git_report args \<Longrightarrow> P w \<Longrightarrow> P (snd (git_command e t args w))" and "P w"
  shows "P (snd (git_diff e staged w))"
  using assms(2) assms(1) [of "''diff'' # (if json_truthy staged then [''--cached''] else [])" w GIT_TIMEOUT_S]
  by (auto simp: git_diff_def op_bind_def git_op_def op_return_def git_report_def split: prod.splits sum.splits)

lemma git_log_keeps:
  assumes "\<And>t args w. git_report args \<Longrightarrow> P w \<Longrightarrow> P (snd (git_command e t args w))" and "P w"
  shows "P (snd (git_log e limit w))"
  using assms(2) assms(1) [of "[''log'', ''--max-count='' @ py_str_json limit, ''--oneline'', ''--no-decorate'']" w GIT_TIMEOUT_S]
  by (auto simp: git_log_def git_op_def git_report_def starts_with_append split: prod.splits)

lemma with_fs_keeps: "(\<And>fs. snd (f fs) = fs) \<Longrightarrow> we_set_fs e (we_fs e w) w = w \<Longrightarrow> P w \<Longrightarrow> P (snd (with_fs e f w))"
proof -
  assume f: "\<And>fs. snd (f fs) = fs" and put: "we_set_fs e (we_fs e w) w = w" and "P w"
  from f [of "we_fs e w"] put have "snd (with_fs e f w) = w" by (cases "f (we_fs e w)") (simp add: with_fs_def)
  with \<open>P w\<close> show ?thesis by simp
qed

lemma workspace_read_keeps:
  assumes "s \<in> set (coding_tools e raw_hosts c)" and "is_read_only s" and "\<And>w. we_set_fs e (we_fs e w) w = w"
    and "\<And>t args w. git_report args \<Longrightarrow> P w \<Longrightarrow> P (snd (git_command e t args w))" and "P w"
  shows "P (fst (snd (ts_handler s kw (w, sf))))"
proof -
  consider "s = make_read_file e" | "s = make_list_directory e" | "s = make_grep e" | "s = make_glob e" | "s = make_git_diff e" | "s = make_git_log e"
    using assms(1,2)
    by (auto simp: coding_tools_def file_tools_def search_tools_def git_tools_def make_workspace_read_only split: if_splits)
  then show ?thesis
  proof cases
    case 1 show ?thesis unfolding 1 make_read_file_def core_tool_fields
      by (rule call_body_keeps [where P = P], rule with_fs_keeps [where P = P], rule read_only_ops, rule assms(3), assumption, rule assms(5))
  next
    case 2 show ?thesis unfolding 2 make_list_directory_def core_tool_fields
      by (rule call_body_keeps [where P = P], rule with_fs_keeps [where P = P], rule read_only_ops, rule assms(3), assumption, rule assms(5))
  next
    case 3 show ?thesis unfolding 3 make_grep_def core_tool_fields
      by (rule call_body_keeps [where P = P], rule with_fs_keeps [where P = P], rule read_only_ops, rule assms(3), assumption, rule assms(5))
  next
    case 4 show ?thesis unfolding 4 make_glob_def core_tool_fields
      by (rule call_body_keeps [where P = P], rule with_fs_keeps [where P = P], rule read_only_ops, rule assms(3), assumption, rule assms(5))
  next
    case 5 show ?thesis unfolding 5 make_git_diff_def core_tool_fields
      by (rule call_body_keeps [where P = P], rule git_diff_keeps [where P = P], rule assms(4), assumption+, rule assms(5))
  next
    case 6 show ?thesis unfolding 6 make_git_log_def core_tool_fields
      by (rule call_body_keeps [where P = P], rule git_log_keeps [where P = P], rule assms(4), assumption+, rule assms(5))
  qed
qed

section \<open>Properties\<close>


text \<open>The host check reads the text after the first \<open>@\<close>, so a URL that git takes for an option passes it.\<close>

lemma option_as_url:
  "extract_git_url_host e ''--upload-pack=x@github.com:r'' = Inr (Some ''github.com'')"
  by (simp add: extract_git_url_host_def after_char_def before_char_def)

end
