(* ===== verification/Skills.thy ===== *)
theory Skills
  imports ServiceCore "HOL-Library.List_Lexorder" "HOL-Library.Char_ord"
begin

text \<open>
  Skills and the discovery of tools: the skill loader (\<^verbatim>\<open>agent/skill_loader.py\<close>), the
  \<open>skill\<close> tool (\<^verbatim>\<open>tools/skill.py\<close>), the fuzzy search of the registry
  (\<^verbatim>\<open>tools/registry.py\<close>) and the \<open>tool_search\<close> tool (\<^verbatim>\<open>tools/tool_search.py\<close>).

  The directory scan is given as the sorted list of the \<^verbatim>\<open>SKILL.md\<close> files found, each with
  the parts of its directory relative to the root and its text, if it can be read. YAML
  decoding, reading a file on demand and the similarity ratio of \<open>difflib\<close> are arguments.
\<close>

section \<open>The skill loader\<close>

record skill_file =
  sf_path :: string
  sf_parts :: "string list"
  sf_text :: "string option"

record SkillInfo =
  skill_id :: string
  sk_name :: string
  sk_description :: string
  sk_path :: string

type_synonym skill_table = "(string, SkillInfo) dict"

definition derive_skill_id :: "string list \<Rightarrow> string" where
  "derive_skill_id parts = (if parts = [] then ''SKILL'' else py_join ''-'' parts)"

text \<open>\<open>_parse_frontmatter\<close>; \<open>yaml\<close> is \<open>None\<close> when the block is not valid YAML.\<close>

fun until_delimiter :: "string list \<Rightarrow> string list option" where
  "until_delimiter [] = None"
| "until_delimiter (l # ls) = (if strip l = ''---'' then Some [] else map_option ((#) l) (until_delimiter ls))"

definition parse_frontmatter :: "(string \<Rightarrow> json option) \<Rightarrow> string \<Rightarrow> string \<Rightarrow> string \<times> string" where
  "parse_frontmatter yaml raw fallback_name =
     (let stripped = strip raw in
      if \<not> starts_with stripped ''---'' then (fallback_name, [])
      else (case until_delimiter (tl (split_on CHR 0x0A stripped)) of
         None \<Rightarrow> (fallback_name, [])
       | Some block \<Rightarrow>
          (case yaml (py_join newline block) of
             Some (JObj kvs) \<Rightarrow>
               (case map_of kvs ''name'' of Some v \<Rightarrow> py_str_json v | None \<Rightarrow> fallback_name,
                case map_of kvs ''description'' of Some v \<Rightarrow> py_str_json v | None \<Rightarrow> [])
           | _ \<Rightarrow> (fallback_name, []))))"

definition scan_one :: "(string \<Rightarrow> json option) \<Rightarrow> skill_file \<Rightarrow> skill_table \<Rightarrow> skill_table" where
  "scan_one yaml f t =
     (let i = derive_skill_id (sf_parts f) in
      if dict_has t i then t
      else (case sf_text f of
         None \<Rightarrow> t
       | Some raw \<Rightarrow> (case parse_frontmatter yaml raw i of (n, d) \<Rightarrow>
           dict_set i \<lparr>skill_id = i, sk_name = n, sk_description = d, sk_path = sf_path f\<rparr> t)))"

text \<open>\<open>_scan\<close> of a directory that exists, \<open>None\<close> when it does not; \<open>rescan\<close> forgets everything first.\<close>

definition scan_skills :: "(string \<Rightarrow> json option) \<Rightarrow> skill_file list option \<Rightarrow> skill_table \<Rightarrow> skill_table" where
  "scan_skills yaml files t = (case files of None \<Rightarrow> t | Some fs \<Rightarrow> fold (scan_one yaml) fs t)"

definition rescan :: "(string \<Rightarrow> json option) \<Rightarrow> skill_file list option \<Rightarrow> skill_table \<Rightarrow> nat \<times> skill_table" where
  "rescan yaml files t = (let t' = scan_skills yaml files [] in (length t', t'))"

definition available_ids :: "skill_table \<Rightarrow> string list" where
  "available_ids t = sort (dict_keys t)"

datatype skill_error = SkillKeyError string | SkillOSError string

definition load_skill :: "('w \<Rightarrow> string \<Rightarrow> string + string) \<Rightarrow> skill_table \<Rightarrow> json \<Rightarrow> 'w \<Rightarrow> skill_error + string" where
  "load_skill reader t v w =
     (case (case v of JStr i \<Rightarrow> dict_get t i | _ \<Rightarrow> None) of
        None \<Rightarrow> Inl (SkillKeyError (''Unknown skill: '' @ py_repr_json v @ ''. Available: '' @
          py_repr_json (JList (map JStr (available_ids t)))))
      | Some info \<Rightarrow> (case reader w (sk_path info) of Inl err \<Rightarrow> Inl (SkillOSError err) | Inr txt \<Rightarrow> Inr txt))"

definition available_skills_summary :: "skill_table \<Rightarrow> string" where
  "available_skills_summary t =
     (if t = [] then ''No skills available.''
      else py_join newline (map (\<lambda>i. ''- '' @ i @ (case dict_get t i of
        Some info \<Rightarrow> if sk_description info \<noteq> [] then '' '' @ em_dash @ '' '' @ sk_description info else []
      | None \<Rightarrow> [])) (available_ids t)))"

section \<open>The skill tool\<close>

record 'w skill_env =
  se_read :: "'w \<Rightarrow> string \<Rightarrow> string + string"
  se_raise :: "string \<Rightarrow> json \<Rightarrow> string"
  se_bind_error :: "string \<Rightarrow> kwargs \<Rightarrow> string"

text \<open>A list or an object cannot be a key of a dictionary; the text of a \<open>KeyError\<close> is quoted.\<close>

definition run_skill :: "'w skill_env \<Rightarrow> skill_table \<Rightarrow> json \<Rightarrow> ('w, string) op" where
  "run_skill e t v w =
     (case v of
        JList _ \<Rightarrow> (Inl (se_raise e ''hash'' v), w)
      | JObj _ \<Rightarrow> (Inl (se_raise e ''hash'' v), w)
      | _ \<Rightarrow> (case load_skill (se_read e) t v w of
          Inr body \<Rightarrow> (Inr (''[Skill: '' @ py_str_json v @ '']'' @ newline @ body), w)
        | Inl (SkillKeyError m) \<Rightarrow> (Inr (''Error: '' @ py_repr m), w)
        | Inl (SkillOSError m) \<Rightarrow> (Inr (''Error loading skill '' @ py_repr_json v @ '': '' @ m), w)))"

definition make_skill :: "'w skill_env \<Rightarrow> skill_table \<Rightarrow> 'w ToolSpec" where
  "make_skill e t = (tool ''skill''
     (''Load a specialized skill to guide your approach to a task. '' @
      ''The skill content will provide detailed instructions.'')
     (object_schema [(''skill_name'', typed ''string'' [(''enum'', JList (map JStr (available_ids t))),
        (''description'', JStr ''The skill to load.'')])] [''skill_name''])
     (call_body (se_bind_error e) ''skill'' [(''skill_name'', None)] (\<lambda>a. run_skill e t (a ''skill_name''))))
       \<lparr>ts_display_name := ''Loading skill'', ts_toolset := ''skills''\<rparr>"

definition skill_tools :: "'w skill_env \<Rightarrow> skill_table option \<Rightarrow> 'w ToolSpec list" where
  "skill_tools e loader = (case loader of
     None \<Rightarrow> [] | Some t \<Rightarrow> if available_ids t = [] then [] else [make_skill e t])"

section \<open>Searching the registry\<close>

definition lower_char :: "char \<Rightarrow> char" where
  "lower_char c = (let n = (of_char c :: nat) in
     if 65 \<le> n \<and> n \<le> 90 \<or> 192 \<le> n \<and> n \<le> 222 \<and> n \<noteq> 215 then char_of (n + 32) else c)"

definition py_lower :: "string \<Rightarrow> string" where
  "py_lower s = map lower_char s"

definition MIN_FIELD_SCORE :: rat where "MIN_FIELD_SCORE = 7 / 10"

definition field_score :: "(string \<Rightarrow> string \<Rightarrow> rat) \<Rightarrow> string \<Rightarrow> string \<Rightarrow> rat" where
  "field_score ratio q field_value =
     (if field_value = [] then 0
      else let tokens = field_value # py_words (map (\<lambda>c. if c = CHR ''_'' then CHR '' '' else c) field_value);
               best = fold max (map (ratio q) (tl tokens)) (ratio q (hd tokens))
           in if best \<ge> MIN_FIELD_SCORE then best else 0)"

definition spec_score :: "(string \<Rightarrow> string \<Rightarrow> rat) \<Rightarrow> string list \<Rightarrow> 'w ToolSpec \<Rightarrow> rat" where
  "spec_score ratio terms spec = sum_list (map (\<lambda>t.
     field_score ratio t (py_lower (ts_name spec)) * 3 + field_score ratio t (py_lower (ts_toolset spec)) * 2 +
     field_score ratio t (py_lower (ts_description spec))) terms)"

definition search_tools_of :: "(string \<Rightarrow> string \<Rightarrow> rat) \<Rightarrow> 'w ToolRegistry \<Rightarrow> string \<Rightarrow> int \<Rightarrow> 'w ToolSpec list" where
  "search_tools_of ratio r q limit =
     (let terms = map py_lower (py_words q) in
      if terms = [] then []
      else let scored = filter (\<lambda>p. fst p > 0)
             (map (\<lambda>s. (spec_score ratio terms s, s)) (filter (\<lambda>s. \<not> is_core s) (dict_values (tools r))));
           ordered = sort_key (\<lambda>p. - fst p) (sort_key (\<lambda>p. ts_name (snd p)) scored)
        in map snd (slice_to limit ordered))"

definition SEARCH_DEFAULT_LIMIT :: int where "SEARCH_DEFAULT_LIMIT = 5"
definition SEARCH_MAX_LIMIT :: int where "SEARCH_MAX_LIMIT = 15"

definition summarise :: "'w ToolSpec \<Rightarrow> json" where
  "summarise s = JObj [(''name'', JStr (ts_name s)), (''toolset'', JStr (ts_toolset s)),
     (''description'', JStr (ts_description s)), (''input_schema'', ts_input_schema s)]"

definition requested_limit :: "(string \<Rightarrow> json \<Rightarrow> string + int) \<Rightarrow> json \<Rightarrow> string + int" where
  "requested_limit to_int v = (case v of
     JNull \<Rightarrow> Inr SEARCH_DEFAULT_LIMIT
   | JInt i \<Rightarrow> Inr i
   | JBool b \<Rightarrow> Inr (if b then 1 else 0)
   | _ \<Rightarrow> to_int ''int'' v)"

text \<open>\<open>tool_search\<close> on the registry it was registered on; it changes the surface, not the world.\<close>

definition tool_search ::
  "(string \<Rightarrow> string \<Rightarrow> rat) \<Rightarrow> (string \<Rightarrow> json \<Rightarrow> string + int) \<Rightarrow> (string \<Rightarrow> json \<Rightarrow> string) \<Rightarrow> 'w ToolRegistry \<Rightarrow> json \<Rightarrow> json \<Rightarrow>
     'w tool_context \<Rightarrow> (string + string) \<times> 'w tool_context" where
  "tool_search ratio to_int raises r q limit ctx =
     (case requested_limit to_int limit of
        Inl t \<Rightarrow> (Inl t, ctx)
      | Inr requested \<Rightarrow>
          (case q of
             JStr s \<Rightarrow>
               (let bounded = max 1 (min requested SEARCH_MAX_LIMIT); hits = search_tools_of ratio r s bounded in
                (Inr (format_json (JObj [(''query'', JStr s), (''limit'', JInt bounded), (''matches'', JList (map summarise hits))])),
                 (fst ctx, mark_surfaced r (map ts_name hits) (snd ctx))))
           | _ \<Rightarrow> (Inl (raises ''split'' q), ctx)))"

text \<open>
  The tool itself. Its handler reads the registry it is part of; as it is a core tool it never
  finds itself, so the registry before its registration gives the same answers.
\<close>

record search_env =
  sr_ratio :: "string \<Rightarrow> string \<Rightarrow> rat"
  sr_int :: "string \<Rightarrow> json \<Rightarrow> string + int"
  sr_raise :: "string \<Rightarrow> json \<Rightarrow> string"
  sr_bind_error :: "string \<Rightarrow> kwargs \<Rightarrow> string"

definition make_tool_search :: "search_env \<Rightarrow> 'w ToolRegistry \<Rightarrow> 'w ToolSpec" where
  "make_tool_search e r = (tool ''tool_search''
     (''Search the registry for tools that aren'' @ SQ @ ''t currently in your '' @
      ''tools list.  Returns a ranked list of matching tool names, '' @
      ''descriptions, and input schemas; the matches become callable '' @
      ''on your next turn.  Use this when the user'' @ SQ @ ''s request mentions '' @
      ''a system or service (Jira, GitLab, Confluence, the web, '' @ ellipsis @ '') you don'' @ SQ @ ''t already have a tool for.'')
     (object_schema
       [(''query'', typed ''string'' [(''description'', JStr (''Keywords describing the capability you need '' @
          ''(e.g. '' @ SQ @ ''jira issue'' @ SQ @ '', '' @ SQ @ ''gitlab merge request'' @ SQ @ '', '' @ SQ @ ''web search'' @ SQ @ '').''))]),
        (''limit'', typed ''integer'' [(''minimum'', JInt 1), (''maximum'', JInt SEARCH_MAX_LIMIT), (''default'', JInt SEARCH_DEFAULT_LIMIT),
          (''description'', JStr ''Maximum number of tools to surface this round.'')])]
       [''query''])
     (\<lambda>kw ctx. let sig = [(''query'', None), (''limit'', Some (JInt SEARCH_DEFAULT_LIMIT))] in
        (case (if only_keys (map fst sig) kw then bind_args sig kw else None) of
           None \<Rightarrow> (Inl (sr_bind_error e ''tool_search'' kw), ctx)
         | Some vs \<Rightarrow> tool_search (sr_ratio e) (sr_int e) (sr_raise e) r (argument vs ''query'') (argument vs ''limit'') ctx)))
       \<lparr>ts_display_name := ''Searching tools'', ts_toolset := ''meta''\<rparr>"

section \<open>Lemmas\<close>

lemma tool_search_world: "fst (snd (tool_search ratio to_int raises r q limit ctx)) = fst ctx"
  by (simp add: tool_search_def Let_def split: sum.split json.split)

lemma make_tool_search_fields:
  "ts_name (make_tool_search e r) = ''tool_search''" "check_fn (make_tool_search e r) = None"
  "fst (snd (ts_handler (make_tool_search e r) kw ctx)) = fst ctx"
  by (simp_all add: make_tool_search_def tool_def Let_def tool_search_world split: option.split)

lemma make_skill_fields:
  "ts_name (make_skill e t) = ''skill''" "check_fn (make_skill e t) = None"
  "ts_handler (make_skill e t) = call_body (se_bind_error e) ''skill'' [(''skill_name'', None)] (\<lambda>a. run_skill e t (a ''skill_name''))"
  by (simp_all add: make_skill_def tool_def)

lemma run_skill_world: "snd (run_skill e t v w) = w"
  by (auto simp: run_skill_def split: json.split sum.split skill_error.split)

lemma scan_one_wf: "dict_wf t \<Longrightarrow> dict_wf (scan_one yaml f t)"
  by (auto simp: scan_one_def Let_def split: option.splits prod.splits)

lemma scan_one_keeps: "dict_get t i = Some info \<Longrightarrow> dict_get (scan_one yaml f t) i = Some info"
  by (auto simp: scan_one_def Let_def dict_has_def dict_simps split: option.splits prod.splits)

text \<open>Two directories can have the same identifier; the later file is then never offered.\<close>

lemma skill_id_collision:
  "derive_skill_id [''coding'', ''review''] = derive_skill_id [''coding-review'']"
  by (simp add: derive_skill_id_def)

lemma search_subset: "set (search_tools_of ratio r q limit) \<subseteq> {s \<in> set (dict_values (tools r)). \<not> is_core s}"
  by (auto simp: search_tools_of_def Let_def slice_to_def dest!: in_set_takeD)

lemma search_bounded: "length (search_tools_of ratio r q limit) \<le> nat limit \<or> limit < 0"
  by (auto simp: search_tools_of_def Let_def slice_to_def)

section \<open>Properties\<close>

text \<open>
  Searching surfaces what it reports. A search over a registry whose entries are stored
  under their names answers with at most 15 tools, all registered and not core, and the
  surface afterwards is the old one plus exactly the names it reported, so that every reported
  tool is among the definitions offered next; the world is unchanged.
\<close>

theorem tool_search_surfaces:
  assumes "registry_inv r" and "tool_search ratio to_int raises r (JStr s) limit (w, sf) = (Inr out, (w', sf'))"
  shows "\<exists>hits. out = format_json (JObj [(''query'', JStr s), (''limit'', JInt (max 1 (min (case requested_limit to_int limit of
        Inr i \<Rightarrow> i | Inl _ \<Rightarrow> 0) SEARCH_MAX_LIMIT))), (''matches'', JList (map summarise hits))]) \<and>
    length hits \<le> 15 \<and> w' = w \<and> set sf' = set sf \<union> set (map ts_name hits) \<and>
    (\<forall>h \<in> set hits. get_tool r (ts_name h) = Some h \<and> \<not> is_core h \<and> to_definition h \<in> set (tool_definitions r sf'))"
proof -
  obtain i where i: "requested_limit to_int limit = Inr i" using assms(2) by (auto simp: tool_search_def split: sum.splits)
  let ?n = "max 1 (min i SEARCH_MAX_LIMIT)"
  let ?hits = "search_tools_of ratio r s ?n"
  from assms(2) i have res: "out = format_json (JObj [(''query'', JStr s), (''limit'', JInt ?n), (''matches'', JList (map summarise ?hits))])"
    "w' = w" "sf' = mark_surfaced r (map ts_name ?hits) sf"
    by (simp_all add: tool_search_def Let_def)
  have len: "length ?hits \<le> 15" using search_bounded [of ratio r s ?n] by (auto simp: SEARCH_MAX_LIMIT_def)
  have hit: "get_tool r (ts_name h) = Some h \<and> \<not> is_core h" if "h \<in> set ?hits" for h
    using that search_subset [of ratio r s ?n] values_tools [OF assms(1)] by blast
  have surf: "set sf' = set sf \<union> set (map ts_name ?hits)"
    unfolding res(3) using hit by (auto simp: mark_surfaced_iff)
  have "to_definition h \<in> set (tool_definitions r sf')" if "h \<in> set ?hits" for h
    using hit [OF that] that surf values_tools [OF assms(1), of h] by (auto simp: tool_definitions_def)
  with res len hit surf i show ?thesis by (intro exI [of _ ?hits]) auto
qed

definition search_sample :: "unit ToolRegistry" where
  "search_sample = \<lparr>tools = [(''jira_me'', (tool ''jira_me'' ''profile'' (JObj []) (\<lambda>kw ctx. (Inr ''ok'', ctx)))
     \<lparr>is_core := False, ts_toolset := ''jira''\<rparr>)], skipped_toolsets = []\<rparr>"

definition exact_ratio :: "string \<Rightarrow> string \<Rightarrow> rat" where
  "exact_ratio a b = (if a = b then 1 else 0)"

theorem tool_search_surfaces_witness:
  "\<exists>out sf' hits. tool_search exact_ratio (\<lambda>n v. Inl n) (\<lambda>n v. n) search_sample (JStr ''JIRA'') JNull ((), []) = (Inr out, ((), sf')) \<and>
     sf' = [''jira_me''] \<and> set sf' = set (map ts_name hits) \<and> (\<forall>h \<in> set hits. get_tool search_sample (ts_name h) = Some h)"
proof -
  let ?ctx = "tool_search exact_ratio (\<lambda>n v. Inl n) (\<lambda>n v. n) search_sample (JStr ''JIRA'') JNull ((), [])"
  have inv: "registry_inv search_sample"
    by (simp add: registry_inv_def search_sample_def dict_wf_def dict_get_def tool_def)
  have low: "py_lower ''JIRA'' = ''jira''" "py_lower ''jira_me'' = ''jira_me''" "py_lower ''jira'' = ''jira''" "py_lower ''profile'' = ''profile''"
    by code_simp+
  let ?spec = "snd (hd (tools search_sample))"
  have sc: "spec_score exact_ratio [''jira''] ?spec = 5"
    by (simp add: search_sample_def spec_score_def tool_def low field_score_def exact_ratio_def py_words_def is_space_def MIN_FIELD_SCORE_def)
  have "search_tools_of exact_ratio search_sample ''JIRA'' 5 = [?spec]"
    using sc by (simp add: search_tools_of_def py_words_def is_space_def low dict_values_def slice_to_def) (simp add: search_sample_def tool_def)
  then have x: "fst ?ctx \<noteq> Inl t" "snd (snd ?ctx) = [''jira_me'']" for t
    by (simp_all add: tool_search_def requested_limit_def SEARCH_DEFAULT_LIMIT_def SEARCH_MAX_LIMIT_def mark_surfaced_def Let_def)
       (simp add: search_sample_def get_tool_def dict_get_def tool_def set_add_def)
  obtain out sf' where o: "?ctx = (Inr out, ((), sf'))" using x(1) by (cases ?ctx; cases "fst ?ctx") auto
  from tool_search_surfaces [OF inv o] obtain hits where h: "set sf' = set [] \<union> set (map ts_name hits) \<and>
      (\<forall>h \<in> set hits. get_tool search_sample (ts_name h) = Some h)" by blast
  from o x(2) have sf: "sf' = [''jira_me'']" by simp
  from h have "set sf' = set (map ts_name hits) \<and> (\<forall>h \<in> set hits. get_tool search_sample (ts_name h) = Some h)" by simp
  with o sf show ?thesis by blast
qed

end
