(* ===== verification/DelegateTask.thy ===== *)
theory DelegateTask
  imports FinalizationActions ServiceCore
begin

text \<open>
  The tool that hands work to a sub-agent (\<^verbatim>\<open>tools/delegation.py\<close>), over the state of the
  dispatcher, whose world holds the delegation manager and the audit database.

  The UUIDs a call draws are a function of the state. Validation of the optional baseline and the
  conversion of a number that is not written as one are the data library's, hence arguments.
  A call that must wait for a slot ends with the text of the wait (\<open>fe_wait_text\<close>), as in
  the finalisation tools.
\<close>

section \<open>The tool\<close>

record delegate_env =
  dg_disp :: disp_env
  dg_has_dispatcher :: bool
  dg_parent_sandbox_id :: string
  dg_workspace_root :: string
  dg_default_max_turns :: "int option"
  dg_default_model :: "string option"
  dg_agent_hex :: "dispatcher \<Rightarrow> string"
  dg_workflow_hex :: "dispatcher \<Rightarrow> string"
  dg_baseline :: "json \<Rightarrow> string + WorkspaceBaseline"
  dg_number :: "json \<Rightarrow> int option"
  dg_type_error :: "string \<Rightarrow> json \<Rightarrow> string"
  dg_request :: "RequestContext option"
  dg_audit_error :: "audit_error \<Rightarrow> string"
  dg_bind_error :: "string \<Rightarrow> kwargs \<Rightarrow> string"

definition CODING_AGENT_PREFIX :: string where "CODING_AGENT_PREFIX = ''coding-''"

definition baseline_arg :: "delegate_env \<Rightarrow> json \<Rightarrow> string + WorkspaceBaseline option" where
  "baseline_arg e v = (if v = JNull then Inr None else case dg_baseline e v of Inl t \<Rightarrow> Inl t | Inr b \<Rightarrow> Inr (Some b))"

text \<open>\<open>max_turns or default_max_turns\<close> and \<open>model or default_model\<close>, with the field types.\<close>

definition turns_arg :: "delegate_env \<Rightarrow> json \<Rightarrow> string + int option" where
  "turns_arg e v =
     (if \<not> json_truthy v then Inr (dg_default_max_turns e)
      else case v of
        JInt n \<Rightarrow> Inr (Some n)
      | _ \<Rightarrow> (case dg_number e v of Some n \<Rightarrow> Inr (Some n) | None \<Rightarrow> Inl (dg_type_error e ''max_turns'' v)))"

definition model_arg :: "delegate_env \<Rightarrow> json \<Rightarrow> string + string option" where
  "model_arg e v =
     (if \<not> json_truthy v then Inr (dg_default_model e)
      else case v of JStr s \<Rightarrow> Inr (Some s) | _ \<Rightarrow> Inl (dg_type_error e ''model'' v))"

definition new_task ::
  "delegate_env \<Rightarrow> dispatcher \<Rightarrow> string \<Rightarrow> int option \<Rightarrow> string option \<Rightarrow> WorkspaceBaseline option \<Rightarrow> TaskAssignPayload" where
  "new_task e d prompt turns m base =
     \<lparr>ta_prompt = prompt, ta_workflow_id = ''wf-'' @ dg_workflow_hex e d, ta_parent_sandbox_id = dg_parent_sandbox_id e,
      ta_agent_id = CODING_AGENT_PREFIX @ dg_agent_hex e d, ta_workspace_root = dg_workspace_root e @ ''/agent-'' @ dg_agent_hex e d,
      ta_max_turns = turns, ta_model = m, ta_tool_surface = None, ta_context_files = [], ta_baseline = base,
      is_iteration = False, iteration_number = 0\<rparr>"

definition delegate_request ::
  "delegate_env \<Rightarrow> dispatcher \<Rightarrow> json \<Rightarrow> json \<Rightarrow> json \<Rightarrow> json \<Rightarrow> string + TaskAssignPayload" where
  "delegate_request e d prompt turns m base =
     (case baseline_arg e base of
        Inl t \<Rightarrow> Inl t
      | Inr b \<Rightarrow> (case (prompt, turns_arg e turns, model_arg e m) of
          (JStr p, Inr n, Inr mo) \<Rightarrow>
            (let task = new_task e d p n mo b in
             if assign_valid task then Inr task else Inl (fe_validation_text (de_fin (dg_disp e)) task))
        | (JStr _, Inl t, _) \<Rightarrow> Inl t
        | (JStr _, Inr _, Inl t) \<Rightarrow> Inl t
        | _ \<Rightarrow> Inl (dg_type_error e ''prompt'' prompt)))"

definition workflow_context :: "delegate_env \<Rightarrow> TaskAssignPayload \<Rightarrow> WorkflowContext" where
  "workflow_context e task =
     \<lparr>wf_id = ta_workflow_id task, wf_task = task, wf_channel_id = (case dg_request e of Some r \<Rightarrow> rc_channel_id r | None \<Rightarrow> None),
      wf_thread_ts = (case dg_request e of Some r \<Rightarrow> rc_thread_ts r | None \<Rightarrow> None),
      wf_request_id = (case dg_request e of Some r \<Rightarrow> rc_request_id r | None \<Rightarrow> []), wf_started_at = de_now (dg_disp e)\<rparr>"

text \<open>An audit write on the database, if there is one.\<close>

definition audited :: "(AuditDB \<Rightarrow> audit_error + AuditDB) \<Rightarrow> dispatcher \<Rightarrow> audit_error + dispatcher" where
  "audited f d = (case fw_audit (di_world d) of
     None \<Rightarrow> Inr d
   | Some db \<Rightarrow> (case f db of Inl err \<Rightarrow> Inl err | Inr db' \<Rightarrow> Inr (d\<lparr>di_world := (di_world d)\<lparr>fw_audit := Some db'\<rparr>\<rparr>)))"

definition audit_start :: "delegate_env \<Rightarrow> TaskAssignPayload \<Rightarrow> dispatcher \<Rightarrow> audit_error + dispatcher" where
  "audit_start e task = audited (log_delegation_started (de_now (dg_disp e)) (ta_workflow_id task) (ta_parent_sandbox_id task)
     (ta_agent_id task) (ta_workspace_root task) (ta_prompt task) (ta_model task) (ta_max_turns task)
     (map_option base_sha (ta_baseline task)) (map_option repo_url (ta_baseline task)) (map_option wb_branch (ta_baseline task)))"

text \<open>The errors of the manager carry no payload, so the kind is \<open>other\<close> and the error not recoverable.\<close>

definition audit_failure :: "delegate_env \<Rightarrow> TaskAssignPayload \<Rightarrow> string \<Rightarrow> dispatcher \<Rightarrow> audit_error + dispatcher" where
  "audit_failure e task t = audited (log_delegation_error (de_now (dg_disp e)) (ta_workflow_id task) ''other'' t False)"

definition delegate_task :: "delegate_env \<Rightarrow> json \<Rightarrow> json \<Rightarrow> json \<Rightarrow> json \<Rightarrow> dispatcher \<Rightarrow> (string + string) \<times> dispatcher" where
  "delegate_task e prompt turns m base d =
     (case delegate_request e d prompt turns m base of
        Inl t \<Rightarrow> (Inl t, d)
      | Inr task \<Rightarrow>
         (let d1 = (if dg_has_dispatcher e then register_workflow (workflow_context e task) d else d) in
          case audit_start e task d1 of
            Inl err \<Rightarrow> (Inl (dg_audit_error e err), d1)
          | Inr d2 \<Rightarrow>
             (let (out, mg) = delegate (fe_deleg (de_fin (dg_disp e))) task (fw_manager (di_world d2));
                  d3 = d2\<lparr>di_world := (di_world d2)\<lparr>fw_manager := mg\<rparr>\<rparr>
              in case out of
                   Delegated wid sid \<Rightarrow> (Inr (''Delegated. Workflow '' @ wid @ '' is running in sub-agent '' @
                     sid @ ''; I'' @ SQ @ ''ll post the results in this thread when it finishes.''), d3)
                 | DelegationError t \<Rightarrow>
                     (let d4 = (if dg_has_dispatcher e then deregister_workflow (dg_disp e) (ta_workflow_id task) d3 else d3) in
                      case audit_failure e task t d4 of
                        Inl err \<Rightarrow> (Inl (dg_audit_error e err), d4)
                      | Inr d5 \<Rightarrow> (Inr (''Delegation failed: '' @ t), d5))
                 | OtherError t \<Rightarrow> (Inl t, d3)
                 | Blocked \<Rightarrow> (Inl (fe_wait_text (de_fin (dg_disp e))), d3))))"

text \<open>The tool over a world that holds the state of the dispatcher.\<close>

definition make_delegate_task ::
  "delegate_env \<Rightarrow> ('w \<Rightarrow> dispatcher) \<Rightarrow> (dispatcher \<Rightarrow> 'w \<Rightarrow> 'w) \<Rightarrow> 'w ToolSpec" where
  "make_delegate_task e part put = (tool ''delegate_task''
     (''Delegate a coding task to a sub-agent. Use for multi-step coding '' @
      ''work, file edits, or test runs that benefit from a focused '' @
      ''sandbox. Returns immediately; the sub-agent'' @ SQ @ ''s work appears as a separate message in the thread when ready.'')
     (object_schema
       [(''prompt'', typed ''string'' [(''description'', JStr ''Natural-language description of the work the sub-agent should do.'')]),
        (''max_turns'', typed ''integer'' [(''description'', JStr (''Optional cap on the sub-agent'' @ SQ @ ''s tool-round budget for this '' @
           ''task. Pick ~3 for one-shot lookups, ~15 for routine bug fixes, ~30 for multi-file refactors. Leave unset for the default.'')),
           (''minimum'', JInt 1)]),
        (''model'', typed ''string'' [(''description'', JStr (''Optional model override for this delegation.  Operationally '' @
           ''a no-op in M2b but recorded in the audit DB.''))]),
        (''workspace_baseline'', typed ''object'' [(''description'', JStr (''Optional git baseline the diff in task.complete should be '' @
           ''computed against.  Pin this when the orchestrator already '' @
           ''knows the repo + branch + base SHA the workflow targets.'')),
          (''properties'', JObj [(''repo_url'', typed ''string'' []), (''branch'', typed ''string'' []), (''base_sha'', typed ''string'' []),
             (''is_shallow'', typed ''boolean'' [(''default'', JBool True)])]),
          (''required'', JList [JStr ''repo_url'', JStr ''branch'', JStr ''base_sha''])])]
       [''prompt''])
     (call_body (dg_bind_error e) ''delegate_task''
       [(''prompt'', None), (''max_turns'', Some JNull), (''model'', Some JNull), (''workspace_baseline'', Some JNull)]
       (\<lambda>a w. case delegate_task e (a ''prompt'') (a ''max_turns'') (a ''model'') (a ''workspace_baseline'') (part w) of
          (r, d) \<Rightarrow> (r, put d w))))
     \<lparr>is_read_only := False, is_concurrency_safe := False, ts_display_name := ''Delegating to sub-agent'', ts_toolset := ''delegation''\<rparr>"

lemma make_delegate_task_fields:
  "ts_name (make_delegate_task e part put) = ''delegate_task''" "is_read_only (make_delegate_task e part put) = False"
  "check_fn (make_delegate_task e part put) = None"
  by (simp_all add: make_delegate_task_def tool_def)

section \<open>Lemmas\<close>

text \<open>A delegation of a workflow that has no agent yet takes a slot or changes no slot at all.\<close>

lemma delegate_fresh:
  assumes "dict_get (spawned m) (ta_workflow_id task) = None" and "delegate e task m = (out, m')"
  shows "(\<exists>t. out = DelegationError t \<or> out = OtherError t) \<and> permits m' = permits m \<and> (\<forall>k. dict_get (spawned m') k = dict_get (spawned m) k) \<or>
    out = Delegated (ta_workflow_id task) (ta_agent_id task) \<and> permits m' = permits m - 1 \<and> permits m > 0 \<and>
      (\<forall>k. dict_get (spawned m') k = (if k = ta_workflow_id task
         then Some \<lparr>sa_sandbox_id = ta_agent_id task, sa_process = next_process m\<rparr> else dict_get (spawned m) k)) \<or>
    out = Blocked \<and> m' = m \<and> permits m \<le> 0"
  using assms
  by (auto simp: delegate_def delegate_enter_def spawn_agent_def install_agent_def evict_agent_def release_if_gone_def dict_has_def
      Let_def dict_simps split: option.splits if_splits prod.splits)

lemma delegate_blocks:
  assumes "check_spawn_depth m = None" and "dict_get (spawned m) (ta_workflow_id task) = None" and "permits m \<le> 0"
  shows "delegate e task m = (Blocked, m)"
  using assms by (simp add: delegate_def delegate_enter_def dict_has_def Let_def)

lemma delegate_request_task:
  "delegate_request e d prompt turns m base = Inr task \<Longrightarrow>
     assign_valid task \<and> ta_workflow_id task = ''wf-'' @ dg_workflow_hex e d \<and> ta_agent_id task = CODING_AGENT_PREFIX @ dg_agent_hex e d \<and>
     is_iteration task = False"
  by (auto simp: delegate_request_def new_task_def Let_def split: sum.splits json.splits if_splits)

lemma audited_frame:
  "audited f d = Inr d' \<Longrightarrow> fw_manager (di_world d') = fw_manager (di_world d) \<and> workflows d' = workflows d \<and> di_tasks d' = di_tasks d \<and>
     di_running d' = di_running d"
  by (auto simp: audited_def split: option.splits sum.splits)

lemma disp_inv_cong: "workflows d' = workflows d \<Longrightarrow> di_tasks d' = di_tasks d \<Longrightarrow> disp_inv d' = disp_inv d"
  by (simp add: disp_inv_def task_ok_def get_workflow_def cong: fin_task.case_cong option.case_cong)

text \<open>An exception of the first audit write escapes before anything cleans up: the workflow stays registered without an agent.\<close>

lemma audit_failure_strands:
  "delegate_request e d prompt turns m base = Inr task \<Longrightarrow> dg_has_dispatcher e \<Longrightarrow>
     audit_start e task (register_workflow (workflow_context e task) d) = Inl err \<Longrightarrow>
     delegate_task e prompt turns m base d = (Inl (dg_audit_error e err), register_workflow (workflow_context e task) d)"
  by (simp add: delegate_task_def)

section \<open>Properties\<close>

text \<open>
  C27: Delegating registers exactly what runs. When the drawn workflow id is fresh, a call that
  answers (no exception, and no wait for a slot) either started the sub-agent: the workflow is registered
  with the assignment, the conversation it came from and its own agent, and one slot is
  taken; or it failed: no workflow is registered under the id, no agent runs for it and
  no slot is lost. Other workflows, their agents and all finalisation tasks are as before, and
  the dispatcher's invariant holds.
\<close>

theorem delegate_task_registers:
  assumes inv: "disp_inv d" and fresh: "get_workflow d wid = None" "dict_get (di_tasks d) wid = None"
    "dict_get (spawned (fw_manager (di_world d))) wid = None"
    and wid: "wid = ''wf-'' @ dg_workflow_hex e d" and has: "dg_has_dispatcher e"
    and call: "delegate_task e prompt turns m base d = (Inr out, d')"
  shows "disp_inv d' \<and> di_tasks d' = di_tasks d \<and>
    (\<forall>k. k \<noteq> wid \<longrightarrow> get_workflow d' k = get_workflow d k \<and>
       dict_get (spawned (fw_manager (di_world d'))) k = dict_get (spawned (fw_manager (di_world d))) k) \<and>
    ((\<exists>task agent. delegate_request e d prompt turns m base = Inr task \<and> get_workflow d' wid = Some (workflow_context e task) \<and>
        dict_get (spawned (fw_manager (di_world d'))) wid = Some agent \<and> sa_sandbox_id agent = ta_agent_id task \<and>
        permits (fw_manager (di_world d')) = permits (fw_manager (di_world d)) - 1) \<or>
     get_workflow d' wid = None \<and> dict_get (spawned (fw_manager (di_world d'))) wid = None \<and>
        permits (fw_manager (di_world d')) = permits (fw_manager (di_world d)))"
proof -
  let ?dm = "\<lambda>d. fw_manager (di_world d)"
  obtain task where task: "delegate_request e d prompt turns m base = Inr task"
    using call by (auto simp: delegate_task_def split: sum.splits)
  note t = delegate_request_task [OF task]
  let ?ctx = "workflow_context e task"
  define d1 where "d1 = register_workflow ?ctx d"
  have ctx: "wf_id ?ctx = wid" "context_ok wid ?ctx" using t wid by (simp_all add: workflow_context_def context_ok_def)
  have inv1: "disp_inv d1" unfolding d1_def by (rule register_inv [OF inv]) (use ctx fresh in simp_all)
  have d1: "get_workflow d1 k = (if k = wid then Some ?ctx else get_workflow d k)" "di_tasks d1 = di_tasks d" "?dm d1 = ?dm d" for k
    using ctx(1) by (simp_all add: d1_def register_workflow_def get_workflow_def dict_simps)
  obtain d2 where d2: "audit_start e task d1 = Inr d2"
    using call task has by (auto simp: delegate_task_def d1_def Let_def split: sum.splits)
  have f2: "?dm d2 = ?dm d1" "workflows d2 = workflows d1" "di_tasks d2 = di_tasks d1"
    using audited_frame d2 unfolding audit_start_def by metis+
  obtain o1 mg where del: "delegate (fe_deleg (de_fin (dg_disp e))) task (?dm d2) = (o1, mg)" by fastforce
  define d3 where "d3 = d2\<lparr>di_world := (di_world d2)\<lparr>fw_manager := mg\<rparr>\<rparr>"
  have f3: "get_workflow d3 k = get_workflow d1 k" "di_tasks d3 = di_tasks d" "?dm d3 = mg" for k
    using f2(2,3) d1(2) by (simp_all add: d3_def get_workflow_def)
  have inv3: "disp_inv d3" using disp_inv_cong [of d3 d1] f2 inv1 by (simp add: d3_def)
  have rest: "(Inr out, d') = (case o1 of
       Delegated w sid \<Rightarrow> (Inr (''Delegated. Workflow '' @ w @ '' is running in sub-agent '' @
         sid @ ''; I'' @ SQ @ ''ll post the results in this thread when it finishes.''), d3)
     | DelegationError x \<Rightarrow> (case audit_failure e task x (deregister_workflow (dg_disp e) (ta_workflow_id task) d3) of
         Inl err \<Rightarrow> (Inl (dg_audit_error e err), deregister_workflow (dg_disp e) (ta_workflow_id task) d3)
       | Inr d5 \<Rightarrow> (Inr (''Delegation failed: '' @ x), d5))
     | OtherError x \<Rightarrow> (Inl x, d3)
     | Blocked \<Rightarrow> (Inl (fe_wait_text (de_fin (dg_disp e))), d3))"
    unfolding call [symmetric] delegate_task_def task sum.case Let_def if_P [OF has] d1_def [symmetric] d2 del prod.case d3_def [symmetric]
    by (rule refl)
  have w: "ta_workflow_id task = wid" using t wid by simp
  have df: "(\<exists>x. o1 = DelegationError x \<or> o1 = OtherError x) \<and> permits mg = permits (?dm d) \<and> (\<forall>k. dict_get (spawned mg) k = dict_get (spawned (?dm d)) k) \<or>
    o1 = Delegated wid (ta_agent_id task) \<and> permits mg = permits (?dm d) - 1 \<and>
      (\<forall>k. dict_get (spawned mg) k = (if k = wid
         then Some \<lparr>sa_sandbox_id = ta_agent_id task, sa_process = next_process (?dm d)\<rparr> else dict_get (spawned (?dm d)) k)) \<or> o1 = Blocked"
    using delegate_fresh [OF _ del] fresh(3) unfolding f2(1) d1(3) w by blast
  show ?thesis
  proof (cases o1)
    case (Delegated w' sid)
    then have "d' = d3" using rest by simp
    then show ?thesis using df Delegated inv3 f3 d1(1) task by (simp add: fresh)
  next
    case (DelegationError x)
    define d4 where "d4 = deregister_workflow (dg_disp e) wid d3"
    obtain d5 where d5: "audit_failure e task x d4 = Inr d5" "d' = d5"
      using rest DelegationError w by (auto simp: d4_def split: sum.splits)
    have s: "permits mg = permits (?dm d)" "\<And>k. dict_get (spawned mg) k = dict_get (spawned (?dm d)) k" using df DelegationError by auto
    have "dict_get (di_tasks d3) wid = None" using f3(2) fresh(2) by simp
    then have keep: "keep_context wid d3 = d3" by (simp add: keep_context_def)
    have m4: "?dm d4 = mg"
      using s(2) [of wid] fresh(3) f3(3) by (simp add: d4_def deregister_workflow_def keep Let_def terminate_workflow_def)
    have d4: "get_workflow d4 k = (if k = wid then None else get_workflow d k)" "di_tasks d4 = di_tasks d" "disp_inv d4" for k
      using deregister_inv [OF inv3] f3 d1(1) by (simp_all add: d4_def keep)
    have f5: "?dm d5 = mg" "workflows d5 = workflows d4" "di_tasks d5 = di_tasks d4"
      using audited_frame d5(1) m4 unfolding audit_failure_def by metis+
    then have "get_workflow d5 k = get_workflow d4 k" for k by (simp add: get_workflow_def)
    moreover have "disp_inv d5" using disp_inv_cong [OF f5(2,3)] d4(3) by simp
    ultimately show ?thesis using d4 f5 s fresh by (simp add: d5(2))
  qed (use rest in simp_all)
qed

definition delegate_sample :: delegate_env where
  "delegate_sample = \<lparr>dg_disp = disp_sample_env\<lparr>de_fin := redo_fin_env\<rparr>, dg_has_dispatcher = True, dg_parent_sandbox_id = ''orch'',
     dg_workspace_root = ''/ws'', dg_default_max_turns = None, dg_default_model = None, dg_agent_hex = (\<lambda>d. ''a7''),
     dg_workflow_hex = (\<lambda>d. ''7''), dg_baseline = (\<lambda>v. Inl []), dg_number = (\<lambda>v. None), dg_type_error = (\<lambda>n v. n),
     dg_request = Some \<lparr>rc_request_id = ''r1'', rc_channel_id = Some ''C1'', rc_thread_ts = Some ''17'', rc_source = ''slack''\<rparr>,
     dg_audit_error = (\<lambda>x. []), dg_bind_error = (\<lambda>n kw. n)\<rparr>"

theorem delegate_task_registers_witness:
  "\<exists>out d' agent ctx. delegate_task delegate_sample (JStr ''fix it'') JNull JNull JNull (dispatcher_init fin_sample_world) = (Inr out, d') \<and>
     disp_inv d' \<and> get_workflow d' ''wf-7'' = Some ctx \<and> wf_channel_id ctx = Some ''C1'' \<and> wf_thread_ts ctx = Some ''17'' \<and>
     dict_get (spawned (fw_manager (di_world d'))) ''wf-7'' = Some agent \<and> sa_sandbox_id agent = ''coding-a7'' \<and>
     permits (fw_manager (di_world d')) = 0"
proof -
  let ?d = "dispatcher_init fin_sample_world"
  let ?t = "new_task delegate_sample ?d ''fix it'' None None None"
  have t: "delegate_request delegate_sample ?d (JStr ''fix it'') JNull JNull JNull = Inr ?t"
    by (simp add: delegate_request_def baseline_arg_def turns_arg_def model_arg_def new_task_def assign_valid_def opt_all_def
        delegate_sample_def CODING_AGENT_PREFIX_def)
  have fields: "ta_workflow_id ?t = ''wf-7''" "ta_agent_id ?t = ''coding-a7''"
    by (simp_all add: new_task_def delegate_sample_def CODING_AGENT_PREFIX_def)
  have m: "fw_manager (di_world ?d) = manager_init \<lparr>max_concurrent = 1, max_spawn_depth = 1, spawn_ready_timeout_str = []\<rparr>" "fw_audit (di_world ?d) = None"
    "workflows ?d = []"
    by (simp_all add: dispatcher_init_def fin_sample_world_def)
  have sel: "dg_has_dispatcher delegate_sample" "de_fin (dg_disp delegate_sample) = redo_fin_env"
    by (simp_all add: delegate_sample_def)
  obtain mg where deleg: "delegate (fe_deleg redo_fin_env) ?t (fw_manager (di_world ?d)) = (Delegated ''wf-7'' ''coding-a7'', mg)" and "permits mg = 0"
    by (simp add: m(1) delegate_def manager_init_def check_spawn_depth_def delegate_enter_def dict_has_def redo_fin_env_def
        fin_sample_env_def spawn_agent_def install_agent_def Let_def fields)
  let ?r = "delegate_task delegate_sample (JStr ''fix it'') JNull JNull JNull ?d"
  have r0: "\<exists>out. fst ?r = Inr out" "fw_manager (di_world (snd ?r)) = mg"
    by (simp_all add: delegate_task_def t audit_start_def audited_def register_workflow_def m(2) sel deleg)
  then obtain out d' where r: "?r = (Inr out, d')" by (cases ?r) auto
  with r0(2) \<open>permits mg = 0\<close> have p: "permits (fw_manager (di_world d')) = 0" by simp
  have fresh: "get_workflow ?d ''wf-7'' = None" "dict_get (di_tasks ?d) ''wf-7'' = None" "dict_get (spawned (fw_manager (di_world ?d))) ''wf-7'' = None"
    by (simp_all add: m get_workflow_def) (simp_all add: dispatcher_init_def manager_init_def)
  have id: "''wf-7'' = ''wf-'' @ dg_workflow_hex delegate_sample ?d" "dg_has_dispatcher delegate_sample" by (simp_all add: delegate_sample_def)
  have "permits (fw_manager (di_world ?d)) = 1" by (simp add: m manager_init_def)
  with delegate_task_registers [OF disp_inv_init fresh id r] p t fields obtain agent where
    "disp_inv d'" "get_workflow d' ''wf-7'' = Some (workflow_context delegate_sample ?t)"
    "dict_get (spawned (fw_manager (di_world d'))) ''wf-7'' = Some agent" "sa_sandbox_id agent = ''coding-a7''" by auto
  with p r show ?thesis by (auto simp: workflow_context_def delegate_sample_def)
qed

end
