(* ===== verification/ToolFactory.thy ===== *)
theory ToolFactory
  imports Config AgentLoop ServiceTools WorkspaceTools Skills DelegateTask
begin

text \<open>
  The composition of the tool registries (\<^verbatim>\<open>tools/tool_registry_factory.py\<close>): the registry of a
  sub-agent and the full one of the orchestrator, from the configuration and the tools of all
  components.

  What a tool needs of its surroundings is gathered in one environment. The fields of a client
  are texts, as their dataclasses declare; a configuration whose YAML gives one another type is
  reported as an error of its own.
\<close>

section \<open>Environment\<close>

record 'w factory_env =
  fa_http :: "'w http_env"
  fa_unescape :: "string \<Rightarrow> string"
  fa_workspace :: "string \<Rightarrow> 'w workspace_env"
  fa_expanduser :: "string \<Rightarrow> string + string"
  fa_mkdir :: "string \<Rightarrow> 'w \<Rightarrow> string option \<times> 'w"
  fa_skill :: "'w skill_env"
  fa_search :: search_env
  fa_delegate :: "string \<Rightarrow> string \<Rightarrow> delegate_env"
  fa_part :: "'w \<Rightarrow> dispatcher"
  fa_put :: "dispatcher \<Rightarrow> 'w \<Rightarrow> 'w"

datatype factory_error = RegistryError registry_error | FieldType string string | PathError string

type_synonym 'w registration = "'w ToolRegistry \<Rightarrow> factory_error + 'w ToolRegistry"

definition register_specs :: "'w ToolSpec list \<Rightarrow> 'w registration" where
  "register_specs specs r = (case register_all specs r of Inl err \<Rightarrow> Inl (RegistryError err) | Inr r' \<Rightarrow> Inr r')"

definition enabled :: "AppConfig \<Rightarrow> string \<Rightarrow> bool" where
  "enabled c n = json_truthy (field_of c n ''enabled'')"

definition text_field :: "AppConfig \<Rightarrow> string \<Rightarrow> string \<Rightarrow> factory_error + string" where
  "text_field c n f = (case field_of c n f of JStr s \<Rightarrow> Inr s | _ \<Rightarrow> Inl (FieldType n f))"

definition int_field :: "AppConfig \<Rightarrow> string \<Rightarrow> string \<Rightarrow> factory_error + int" where
  "int_field c n f = (case field_of c n f of JInt i \<Rightarrow> Inr i | _ \<Rightarrow> Inl (FieldType n f))"

definition bind_error :: "'e + 'a \<Rightarrow> ('a \<Rightarrow> 'e + 'b) \<Rightarrow> 'e + 'b" where
  "bind_error m k = (case m of Inl err \<Rightarrow> Inl err | Inr x \<Rightarrow> k x)"

section \<open>The tools a configuration asks for\<close>

definition jira_specs :: "'w factory_env \<Rightarrow> AppConfig \<Rightarrow> factory_error + 'w ToolSpec list" where
  "jira_specs e c = bind_error (text_field c ''jira'' ''url'') (\<lambda>u. bind_error (text_field c ''jira'' ''auth_header'') (\<lambda>a.
     Inr (jira_tools (fa_http e) (jira_client u a))))"

definition gitlab_specs :: "'w factory_env \<Rightarrow> AppConfig \<Rightarrow> factory_error + 'w ToolSpec list" where
  "gitlab_specs e c = bind_error (text_field c ''gitlab'' ''url'') (\<lambda>u. bind_error (text_field c ''gitlab'' ''token'') (\<lambda>t.
     Inr (gitlab_tools (fa_http e) (gitlab_client u t))))"

definition gerrit_specs :: "'w factory_env \<Rightarrow> AppConfig \<Rightarrow> factory_error + 'w ToolSpec list" where
  "gerrit_specs e c = bind_error (text_field c ''gerrit'' ''url'') (\<lambda>u. bind_error (text_field c ''gerrit'' ''username'') (\<lambda>n.
     bind_error (text_field c ''gerrit'' ''http_password'') (\<lambda>p. Inr (gerrit_tools (fa_http e) (gerrit_client u n p)))))"

definition confluence_specs :: "'w factory_env \<Rightarrow> AppConfig \<Rightarrow> factory_error + 'w ToolSpec list" where
  "confluence_specs e c = bind_error (text_field c ''confluence'' ''url'') (\<lambda>u. bind_error (text_field c ''confluence'' ''username'') (\<lambda>n.
     bind_error (text_field c ''confluence'' ''api_token'') (\<lambda>t. Inr (confluence_tools (fa_http e) (confluence_client u n t)))))"

definition slack_specs :: "'w factory_env \<Rightarrow> AppConfig \<Rightarrow> factory_error + 'w ToolSpec list" where
  "slack_specs e c = bind_error (text_field c ''slack_search'' ''user_token'') (\<lambda>t. Inr (slack_tools (fa_http e) \<lparr>sk_user_token = t\<rparr>))"

definition web_specs :: "'w factory_env \<Rightarrow> AppConfig \<Rightarrow> factory_error + 'w ToolSpec list" where
  "web_specs e c = bind_error (text_field c ''web_search'' ''api_key'') (\<lambda>k. bind_error (int_field c ''web_search'' ''default_limit'') (\<lambda>n.
     bind_error (text_field c ''web_search'' ''jina_api_key'') (\<lambda>j.
     Inr [make_web_search (fa_http e) \<lparr>br_api_key = k\<rparr> n, make_web_fetch (fa_http e) (fa_unescape e) j])))"

definition register_when :: "bool \<Rightarrow> factory_error + 'w ToolSpec list \<Rightarrow> 'w registration" where
  "register_when b specs r = (if b then bind_error specs (\<lambda>ss. register_specs ss r) else Inr r)"

definition register_services :: "'w factory_env \<Rightarrow> AppConfig \<Rightarrow> 'w registration" where
  "register_services e c r =
     bind_error (register_when (enabled c ''jira'') (jira_specs e c) r) (\<lambda>r1.
     bind_error (register_when (enabled c ''gitlab'') (gitlab_specs e c) r1) (\<lambda>r2.
     bind_error (register_when (enabled c ''gerrit'') (gerrit_specs e c) r2) (\<lambda>r3.
     bind_error (register_when (enabled c ''confluence'') (confluence_specs e c) r3) (\<lambda>r4.
     bind_error (register_when (enabled c ''slack_search'') (slack_specs e c) r4) (\<lambda>r5.
     register_when (enabled c ''web_search'') (web_specs e c) r5)))))"

definition register_coding_tools :: "'w workspace_env \<Rightarrow> string \<Rightarrow> bool \<Rightarrow> 'w registration" where
  "register_coding_tools e raw_hosts include_commit = register_specs (coding_tools e raw_hosts include_commit)"

definition register_tool_search :: "search_env \<Rightarrow> 'w registration" where
  "register_tool_search e r = register_specs [make_tool_search e r] r"

definition workspace_root :: "'w factory_env \<Rightarrow> AppConfig \<Rightarrow> factory_error + string" where
  "workspace_root e c = bind_error (text_field c ''coding'' ''workspace_root'') (\<lambda>p.
     case fa_expanduser e p of Inl t \<Rightarrow> Inl (PathError t) | Inr s \<Rightarrow> Inr s)"

section \<open>The factories\<close>

definition create_coding_tool_registry ::
  "'w factory_env \<Rightarrow> string \<Rightarrow> string \<Rightarrow> skill_table option \<Rightarrow> factory_error + 'w ToolRegistry" where
  "create_coding_tool_registry e wroot raw_hosts loader =
     bind_error (register_coding_tools (fa_workspace e wroot) raw_hosts False registry_init) (\<lambda>r1.
     bind_error (register_specs (skill_tools (fa_skill e) loader) r1) (\<lambda>r2.
     register_tool_search (fa_search e) r2))"

text \<open>The directory of the workspace is made even when a later registration fails.\<close>

definition register_workspace :: "'w factory_env \<Rightarrow> AppConfig \<Rightarrow> 'w ToolRegistry \<Rightarrow> 'w \<Rightarrow> (factory_error + 'w ToolRegistry) \<times> 'w" where
  "register_workspace e c r w =
     (if \<not> enabled c ''coding'' then (Inr r, w)
      else case workspace_root e c of
        Inl err \<Rightarrow> (Inl err, w)
      | Inr wroot \<Rightarrow>
         (case fa_mkdir e wroot w of
            (Some t, w1) \<Rightarrow> (Inl (PathError t), w1)
          | (None, w1) \<Rightarrow> (bind_error (text_field c ''coding'' ''git_clone_allowed_hosts'') (\<lambda>hosts.
              register_coding_tools (fa_workspace e wroot) hosts True r), w1)))"

definition register_delegation :: "'w factory_env \<Rightarrow> AppConfig \<Rightarrow> bool \<Rightarrow> 'w registration" where
  "register_delegation e c has_manager r =
     (if \<not> has_manager then Inr r
      else bind_error (workspace_root e c) (\<lambda>wroot. bind_error (text_field c ''nmb'' ''sandbox_id'') (\<lambda>sid.
        register_specs [make_delegate_task (fa_delegate e (if sid \<noteq> [] then sid else ''orchestrator'') wroot) (fa_part e) (fa_put e)] r)))"

definition build_full_tool_registry ::
  "'w factory_env \<Rightarrow> AppConfig \<Rightarrow> skill_table option \<Rightarrow> bool \<Rightarrow> 'w \<Rightarrow> (factory_error + 'w ToolRegistry) \<times> 'w" where
  "build_full_tool_registry e c loader has_manager w =
     (case register_services e c registry_init of
        Inl err \<Rightarrow> (Inl err, w)
      | Inr r1 \<Rightarrow>
         (case register_workspace e c r1 w of
            (Inl err, w1) \<Rightarrow> (Inl err, w1)
          | (Inr r2, w1) \<Rightarrow>
             (bind_error (register_delegation e c has_manager r2) (\<lambda>r3.
              bind_error (register_specs (skill_tools (fa_skill e) loader) r3) (\<lambda>r4.
              register_tool_search (fa_search e) r4)), w1)))"

section \<open>The order of the registrations\<close>

text \<open>Every tool name belongs to one stage of the composition; a stage adds names of its own only.\<close>

definition stage :: "string \<Rightarrow> nat" where
  "stage n =
     (if starts_with n ''jira_'' then 0 else if starts_with n ''gitlab_'' then 1 else if starts_with n ''gerrit_'' then 2
      else if starts_with n ''confluence_'' then 3 else if starts_with n ''slack_'' then 4 else if starts_with n ''web_'' then 5
      else if n = ''delegate_task'' then 7 else if n = ''skill'' then 8 else if n = ''tool_search'' then 9 else 6)"

definition before_stage :: "nat \<Rightarrow> 'w ToolRegistry \<Rightarrow> bool" where
  "before_stage k r = list_all (\<lambda>p. stage (fst p) < k) (tools r)"

definition in_stage :: "nat \<Rightarrow> 'w ToolSpec list \<Rightarrow> bool" where
  "in_stage k ss = (list_all (\<lambda>s. stage (ts_name s) = k) ss \<and> distinct (map ts_name ss))"

lemma register_all_tools:
  "register_all ss r = Inr r' \<Longrightarrow> tools r' = tools r @ map (\<lambda>s. (ts_name s, s)) (filter (\<lambda>s. check_fn s \<noteq> Some False) ss)"
proof (induction ss arbitrary: r)
  case (Cons s ss)
  then obtain r1 where r1: "register_tool s r = Inr r1" "register_all ss r1 = Inr r'" by (auto split: sum.splits)
  then have "tools r1 = tools r @ (if check_fn s \<noteq> Some False then [(ts_name s, s)] else [])"
    by (auto simp: register_tool_def dict_has_def dict_get_def map_of_eq_None_iff dict_set_fresh split: if_splits)
  with Cons.IH [OF r1(2)] show ?case by simp
qed simp

lemma register_all_total:
  "distinct (map ts_name ss) \<Longrightarrow> fst ` set (tools r) \<inter> ts_name ` set ss = {} \<Longrightarrow> \<exists>r'. register_all ss r = Inr r'"
proof (induction ss arbitrary: r)
  case (Cons s ss)
  then have "\<not> dict_has (tools r) (ts_name s)" by (simp add: dict_has_def dict_get_def map_of_eq_None_iff)
  then have "\<exists>r1. register_tool s r = Inr r1" by (simp add: register_tool_def split: if_split)
  then obtain r1 where r1: "register_tool s r = Inr r1" ..
  then have "fst ` set (tools r1) \<subseteq> insert (ts_name s) (fst ` set (tools r))"
    using register_all_tools [of "[s]" r r1] by auto
  moreover have "insert (ts_name s) (fst ` set (tools r)) \<inter> ts_name ` set ss = {}" using Cons.prems by auto
  ultimately have "fst ` set (tools r1) \<inter> ts_name ` set ss = {}" by blast
  with Cons.IH [of r1] Cons.prems(1) have "\<exists>r'. register_all ss r1 = Inr r'" by simp
  with r1 show ?case by simp
qed simp

lemma register_stage:
  assumes "in_stage k ss" and "before_stage k r"
  obtains r' where "register_specs ss r = Inr r'" and "before_stage (Suc k) r'"
    and "tools r' = tools r @ map (\<lambda>s. (ts_name s, s)) (filter (\<lambda>s. check_fn s \<noteq> Some False) ss)"
proof -
  have "fst ` set (tools r) \<inter> ts_name ` set ss = {}"
    using assms by (fastforce simp: in_stage_def before_stage_def list_all_iff)
  with assms obtain r' where r': "register_all ss r = Inr r'" using register_all_total [of ss r] by (auto simp: in_stage_def)
  moreover have "before_stage (Suc k) r'"
    using assms by (auto simp: register_all_tools [OF r'] before_stage_def in_stage_def list_all_iff less_Suc_eq)
  ultimately show thesis using that register_all_tools [OF r'] by (simp add: register_specs_def)
qed

lemma before_later: "before_stage k r \<Longrightarrow> k \<le> k' \<Longrightarrow> before_stage k' r"
  by (auto simp: before_stage_def list_all_iff)

lemma service_stages:
  "in_stage 0 (jira_tools h c0)" "in_stage 1 (gitlab_tools h c1)" "in_stage 2 (gerrit_tools h c2)"
  "in_stage 3 (confluence_tools h c3)" "in_stage 4 (slack_tools h c4)" "in_stage 5 [make_web_search h c5 n, make_web_fetch h u j]"
  unfolding in_stage_def
  by (intro conjI jira.names_distinct gitlab.names_distinct gerrit.names_distinct confluence.names_distinct slack.names_distinct;
      simp add: jira_tools_def gitlab_tools_def gerrit_tools_def confluence_tools_def slack_tools_def service_tool_names stage_def)+

lemma coding_stage: "in_stage 6 (coding_tools w hosts commit)"
  by (simp add: in_stage_def coding_tools_def file_tools_def search_tools_def git_tools_def make_workspace_names stage_def)

lemma last_stages: "in_stage 7 [make_delegate_task d part put]" "in_stage 8 (skill_tools se loader)" "in_stage 9 [make_tool_search sr r]"
  by (simp_all add: in_stage_def make_delegate_task_fields skill_tools_def make_skill_fields make_tool_search_fields stage_def split: option.split)

text \<open>The outcome of the first \<open>k\<close> stages: names of those stages, or an error of the configuration.\<close>

definition reaches :: "nat \<Rightarrow> factory_error + 'w ToolRegistry \<Rightarrow> bool" where
  "reaches k x = (case x of Inr r \<Rightarrow> before_stage k r | Inl (RegistryError _) \<Rightarrow> False | Inl _ \<Rightarrow> True)"

lemma reaches_bind:
  "reaches k m \<Longrightarrow> (\<And>r. before_stage k r \<Longrightarrow> reaches k' (f r)) \<Longrightarrow> reaches k' (bind_error m f)"
  by (cases m) (simp_all add: reaches_def bind_error_def split: factory_error.splits)

lemma reaches_specs: "in_stage k ss \<Longrightarrow> before_stage k r \<Longrightarrow> reaches (Suc k) (register_specs ss r)"
  by (erule (1) register_stage) (simp add: reaches_def)

text \<open>A stage that may be left out.\<close>

lemma reaches_when:
  assumes "\<And>ss. specs = Inr ss \<Longrightarrow> in_stage k ss" and "\<And>x. specs \<noteq> Inl (RegistryError x)" and "before_stage k r"
  shows "reaches (Suc k) (register_when b specs r)"
proof (cases specs)
  case (Inr ss)
  with reaches_specs [OF assms(1) [OF Inr] assms(3)] before_later [OF assms(3)] show ?thesis
    by (simp add: register_when_def bind_error_def reaches_def)
next
  case (Inl err)
  moreover have "err \<noteq> RegistryError x" for x using assms(2) [of x] Inl by simp
  ultimately show ?thesis using before_later [OF assms(3)]
    by (cases err) (auto simp: register_when_def bind_error_def reaches_def)
qed

lemma service_spec_stages:
  "jira_specs e c = Inr ss \<Longrightarrow> in_stage 0 ss" "gitlab_specs e c = Inr ss \<Longrightarrow> in_stage 1 ss" "gerrit_specs e c = Inr ss \<Longrightarrow> in_stage 2 ss"
  "confluence_specs e c = Inr ss \<Longrightarrow> in_stage 3 ss" "slack_specs e c = Inr ss \<Longrightarrow> in_stage 4 ss" "web_specs e c = Inr ss \<Longrightarrow> in_stage 5 ss"
  by (auto simp: jira_specs_def gitlab_specs_def gerrit_specs_def confluence_specs_def slack_specs_def web_specs_def bind_error_def
      split: sum.splits intro: service_stages service_stages [simplified])

lemma field_errors:
  "text_field c n f \<noteq> Inl (RegistryError x)" "int_field c n f \<noteq> Inl (RegistryError x)" "workspace_root e c \<noteq> Inl (RegistryError x)"
  by (auto simp: text_field_def int_field_def workspace_root_def bind_error_def split: json.splits sum.splits)

lemma bind_no_registry_error:
  "m \<noteq> Inl (RegistryError x) \<Longrightarrow> (\<And>y. m = Inr y \<Longrightarrow> k y \<noteq> Inl (RegistryError x)) \<Longrightarrow> bind_error m k \<noteq> Inl (RegistryError x)"
  by (auto simp: bind_error_def split: sum.splits)

lemma service_spec_errors:
  "jira_specs e c \<noteq> Inl (RegistryError x)" "gitlab_specs e c \<noteq> Inl (RegistryError x)" "gerrit_specs e c \<noteq> Inl (RegistryError x)"
  "confluence_specs e c \<noteq> Inl (RegistryError x)" "slack_specs e c \<noteq> Inl (RegistryError x)" "web_specs e c \<noteq> Inl (RegistryError x)"
  unfolding jira_specs_def gitlab_specs_def gerrit_specs_def confluence_specs_def slack_specs_def web_specs_def
  by (intro bind_no_registry_error field_errors; simp)+

lemma services_stage: "reaches 6 (register_services e c registry_init)"
proof -
  have start: "before_stage 0 registry_init" by (simp add: before_stage_def registry_init_def)
  have w: "before_stage 0 r \<Longrightarrow> reaches 1 (register_when (enabled c ''jira'') (jira_specs e c) r)"
    "before_stage 1 r \<Longrightarrow> reaches 2 (register_when (enabled c ''gitlab'') (gitlab_specs e c) r)"
    "before_stage 2 r \<Longrightarrow> reaches 3 (register_when (enabled c ''gerrit'') (gerrit_specs e c) r)"
    "before_stage 3 r \<Longrightarrow> reaches 4 (register_when (enabled c ''confluence'') (confluence_specs e c) r)"
    "before_stage 4 r \<Longrightarrow> reaches 5 (register_when (enabled c ''slack_search'') (slack_specs e c) r)"
    "before_stage 5 r \<Longrightarrow> reaches 6 (register_when (enabled c ''web_search'') (web_specs e c) r)" for r
    using reaches_when [OF service_spec_stages(1) service_spec_errors(1), where r = r] reaches_when [OF service_spec_stages(2) service_spec_errors(2), where r = r]
      reaches_when [OF service_spec_stages(3) service_spec_errors(3), where r = r] reaches_when [OF service_spec_stages(4) service_spec_errors(4), where r = r]
      reaches_when [OF service_spec_stages(5) service_spec_errors(5), where r = r] reaches_when [OF service_spec_stages(6) service_spec_errors(6), where r = r]
    by (simp_all add: eval_nat_numeral)
  show ?thesis
    unfolding register_services_def
    by (rule reaches_bind [OF w(1) [OF start]], rule reaches_bind [OF w(2)], assumption, rule reaches_bind [OF w(3)], assumption,
        rule reaches_bind [OF w(4)], assumption, rule reaches_bind [OF w(5)], assumption, rule w(6))
qed

section \<open>What all tools of a registry satisfy\<close>

definition all_specs :: "('w ToolSpec \<Rightarrow> bool) \<Rightarrow> 'w ToolRegistry \<Rightarrow> bool" where
  "all_specs Q r = list_all (\<lambda>p. Q (snd p)) (tools r)"

lemma register_specs_all: "register_specs ss r = Inr r' \<Longrightarrow> list_all Q ss \<Longrightarrow> all_specs Q r \<Longrightarrow> all_specs Q r'"
  by (fastforce simp: register_specs_def all_specs_def list_all_iff dest!: register_all_tools split: sum.splits)

lemma register_when_keeps:
  "register_when b specs r = Inr r' \<Longrightarrow> (\<And>ss. specs = Inr ss \<Longrightarrow> list_all Q ss) \<Longrightarrow>
     (\<And>ss r r'. register_specs ss r = Inr r' \<Longrightarrow> list_all Q ss \<Longrightarrow> I r \<Longrightarrow> I r') \<Longrightarrow> I r \<Longrightarrow> I r'"
  by (auto simp: register_when_def bind_error_def split: if_splits sum.splits)

lemma register_all_inv: "register_all ss r = Inr r' \<Longrightarrow> registry_inv r \<Longrightarrow> registry_inv r'"
  by (induction ss arbitrary: r) (auto split: sum.splits intro: register_tool_inv)

lemma register_specs_inv: "register_specs ss r = Inr r' \<Longrightarrow> registry_inv r \<Longrightarrow> registry_inv r'"
  by (auto simp: register_specs_def split: sum.splits intro: register_all_inv)

lemma bind_error_Inr: "bind_error m k = Inr y \<longleftrightarrow> (\<exists>x. m = Inr x \<and> k x = Inr y)"
  by (simp add: bind_error_def split: sum.split)

text \<open>What every registration of acceptable tools keeps, the composition keeps.\<close>

lemma build_keeps:
  assumes "build_full_tool_registry e c loader mg w = (Inr r, w')" and "I registry_init"
    and step: "\<And>ss r r'. register_specs ss r = Inr r' \<Longrightarrow> list_all Q ss \<Longrightarrow> I r \<Longrightarrow> I r'"
    and "\<And>s. reads_ok (fa_http e) read_request s \<Longrightarrow> Q s"
    and "\<And>wroot hosts s. s \<in> set (coding_tools (fa_workspace e wroot) hosts True) \<Longrightarrow> Q s"
    and "\<And>d part put. Q (make_delegate_task d part put)" and "\<And>t. Q (make_skill (fa_skill e) t)"
    and "\<And>r. Q (make_tool_search (fa_search e) r)"
  shows "I r"
proof -
  have sv: "list_all (reads_ok (fa_http e) read_request) ss \<Longrightarrow> list_all Q ss" for ss
    using assms(4) by (auto simp: list_all_iff)
  have svc: "jira_specs e c = Inr ss \<Longrightarrow> list_all Q ss" "gitlab_specs e c = Inr ss \<Longrightarrow> list_all Q ss"
    "gerrit_specs e c = Inr ss \<Longrightarrow> list_all Q ss" "confluence_specs e c = Inr ss \<Longrightarrow> list_all Q ss"
    "slack_specs e c = Inr ss \<Longrightarrow> list_all Q ss" "web_specs e c = Inr ss \<Longrightarrow> list_all Q ss" for ss
    using sv [OF jira.reads_only] sv [OF gitlab.reads_only] sv [OF gerrit.reads_only] sv [OF confluence.reads_only] sv [OF slack.reads_only]
      assms(4) [OF web_reads_ok(1)] assms(4) [OF web_reads_ok(2)]
    by (auto simp: jira_specs_def gitlab_specs_def gerrit_specs_def confluence_specs_def slack_specs_def web_specs_def bind_error_Inr)
  obtain r1 r2 r3 r4 where r1: "register_services e c registry_init = Inr r1" and r2: "register_workspace e c r1 w = (Inr r2, w')"
    and r3: "register_delegation e c mg r2 = Inr r3" and r4: "register_specs (skill_tools (fa_skill e) loader) r3 = Inr r4"
    and r: "register_tool_search (fa_search e) r4 = Inr r"
    using assms(1) by (auto simp: build_full_tool_registry_def bind_error_Inr split: sum.splits prod.splits)
  obtain a1 a2 a3 a4 a5 where a: "register_when (enabled c ''jira'') (jira_specs e c) registry_init = Inr a1"
    "register_when (enabled c ''gitlab'') (gitlab_specs e c) a1 = Inr a2" "register_when (enabled c ''gerrit'') (gerrit_specs e c) a2 = Inr a3"
    "register_when (enabled c ''confluence'') (confluence_specs e c) a3 = Inr a4"
    "register_when (enabled c ''slack_search'') (slack_specs e c) a4 = Inr a5"
    "register_when (enabled c ''web_search'') (web_specs e c) a5 = Inr r1"
    using r1 unfolding register_services_def bind_error_Inr by blast
  have kept: "I r'" if "register_when b specs r = Inr r'" and "\<And>ss. specs = Inr ss \<Longrightarrow> list_all Q ss" and "I r" for b specs r r'
    by (rule register_when_keeps [where Q = Q and I = I, OF that(1,2) step that(3)])
  from kept [OF a(1) svc(1) assms(2)] have "I a1" by blast
  from kept [OF a(2) svc(2) this] have "I a2" by blast
  from kept [OF a(3) svc(3) this] have "I a3" by blast
  from kept [OF a(4) svc(4) this] have "I a4" by blast
  from kept [OF a(5) svc(5) this] have "I a5" by blast
  from kept [OF a(6) svc(6) this] have "I r1" by blast
  have "list_all Q (coding_tools (fa_workspace e wroot) hosts True)" for wroot hosts using assms(5) by (simp add: list_all_iff)
  with r2 \<open>I r1\<close> have "I r2"
    unfolding register_workspace_def register_coding_tools_def
    by (auto simp: bind_error_Inr split: if_splits sum.splits option.splits prod.splits intro: step)
  have "list_all Q [make_delegate_task d part put]" for d part put using assms(6) by simp
  with r3 \<open>I r2\<close> have "I r3" unfolding register_delegation_def by (auto simp: bind_error_Inr simp del: list.pred_inject split: if_splits intro: step)
  have "list_all Q (skill_tools (fa_skill e) loader)" using assms(7) by (auto simp: skill_tools_def split: option.split)
  from step [OF r4 this \<open>I r3\<close>] have "I r4" .
  have "list_all Q [make_tool_search (fa_search e) r4]" using assms(8) by simp
  from step [OF r [unfolded register_tool_search_def] this \<open>I r4\<close>] show ?thesis .
qed

lemma get_tool_names: "get_tool r n \<noteq> None \<longleftrightarrow> n \<in> fst ` set (tools r)"
  by (simp add: get_tool_def dict_get_def map_of_eq_None_iff)

lemma register_specs_tools:
  "register_specs ss r = Inr r' \<Longrightarrow> tools r' = tools r @ map (\<lambda>s. (ts_name s, s)) (filter (\<lambda>s. check_fn s \<noteq> Some False) ss)"
  by (auto simp: register_specs_def register_all_tools split: sum.splits)

lemma coding_tools_names:
  "map ts_name (coding_tools w hosts commit) = [''read_file'', ''write_file'', ''edit_file'', ''list_directory'', ''grep'', ''glob_search'', ''bash'',
     ''git_diff''] @ (if commit then [''git_commit''] else []) @ [''git_log'', ''git_checkout'', ''git_clone'']"
  "list_all (\<lambda>s. check_fn s = None \<and> is_core s) (coding_tools w hosts commit)"
  by (simp_all add: coding_tools_def file_tools_def search_tools_def git_tools_def make_workspace_names make_workspace_checks)
     (simp_all add: make_workspace_defs core_tool_fields)

text \<open>The names a stage adds.\<close>

abbreviation names_in :: "'w ToolRegistry \<Rightarrow> string set" where
  "names_in r \<equiv> fst ` set (tools r)"

lemma before_stage_names: "before_stage k r \<Longrightarrow> k \<le> stage n \<Longrightarrow> n \<notin> names_in r"
  by (auto simp: before_stage_def list_all_iff)

lemma register_open:
  assumes "in_stage k ss" and "before_stage k r" and "list_all (\<lambda>s. check_fn s = None) ss"
  obtains r' where "register_specs ss r = Inr r'" and "before_stage (Suc k) r'" and "names_in r' = names_in r \<union> ts_name ` set ss"
proof -
  obtain r' where r': "register_specs ss r = Inr r'" "before_stage (Suc k) r'" by (rule register_stage [OF assms(1,2)])
  moreover have "filter (\<lambda>s. check_fn s \<noteq> Some False) ss = ss" using assms(3) by (simp add: list_all_iff)
  then have "names_in r' = names_in r \<union> ts_name ` set ss"
    using register_specs_tools [OF r'(1)] by (simp add: image_Un image_image)
  ultimately show thesis by (rule that)
qed

lemma workspace_outcome:
  assumes "before_stage 6 r" and "register_workspace e c r w = (x, w')"
  shows "reaches 7 x" and "x = Inr r' \<Longrightarrow> (''git_commit'' \<in> names_in r') = enabled c ''coding''"
proof -
  have "reaches 7 x \<and> (\<forall>r'. x = Inr r' \<longrightarrow> (''git_commit'' \<in> names_in r') = enabled c ''coding'')"
  proof (cases "\<exists>wroot hosts. enabled c ''coding'' \<and> x = register_coding_tools (fa_workspace e wroot) hosts True r")
    case True
    then obtain wroot hosts where x: "enabled c ''coding''" "x = register_specs (coding_tools (fa_workspace e wroot) hosts True) r"
      by (auto simp: register_coding_tools_def)
    have "list_all (\<lambda>s. check_fn s = None) (coding_tools (fa_workspace e wroot) hosts True)"
      using coding_tools_names(2) [of "fa_workspace e wroot" hosts True] by (simp add: list_all_iff)
    from register_open [OF coding_stage assms(1) this] obtain r' where r': "x = Inr r'" "before_stage 7 r'"
        "names_in r' = names_in r \<union> ts_name ` set (coding_tools (fa_workspace e wroot) hosts True)"
      unfolding x(2) by auto
    moreover have "make_git_commit (fa_workspace e wroot) \<in> set (coding_tools (fa_workspace e wroot) hosts True)"
      by (simp add: coding_tools_def git_tools_def)
    then have "''git_commit'' \<in> ts_name ` set (coding_tools (fa_workspace e wroot) hosts True)"
      by (rule image_eqI [rotated]) (simp add: make_workspace_names)
    ultimately show ?thesis using x(1) by (simp add: reaches_def)
  next
    case False
    then consider (skipped) "x = Inr r" "\<not> enabled c ''coding''" | (failed) err where "x = Inl err" "\<And>y. err \<noteq> RegistryError y"
      using assms(2) field_errors(1) [of c "''coding''" "''git_clone_allowed_hosts''"] field_errors(3) [of e c]
      by (auto simp: register_workspace_def bind_error_def split: if_splits sum.splits option.splits prod.splits)
    then show ?thesis
    proof cases
      case skipped
      then show ?thesis using before_later [OF assms(1)] before_stage_names [OF assms(1), of "''git_commit''"] by (simp add: reaches_def stage_def)
    next
      case failed
      then show ?thesis by (cases err) (auto simp: reaches_def)
    qed
  qed
  then show "reaches 7 x" and "x = Inr r' \<Longrightarrow> (''git_commit'' \<in> names_in r') = enabled c ''coding''" by blast+
qed

lemma delegation_outcome:
  assumes "before_stage 7 r"
  shows "reaches 8 (register_delegation e c mg r)"
    and "register_delegation e c mg r = Inr r' \<Longrightarrow> (''delegate_task'' \<in> names_in r') = mg \<and> (''git_commit'' \<in> names_in r') = (''git_commit'' \<in> names_in r)"
proof -
  let ?add = "\<lambda>d. register_specs [make_delegate_task d (fa_part e) (fa_put e)] r"
  have add: "\<exists>r'. ?add d = Inr r' \<and> before_stage 8 r' \<and> names_in r' = insert ''delegate_task'' (names_in r)" for d
    by (rule register_open [OF last_stages(1) assms, of d "fa_part e" "fa_put e"]) (auto simp: make_delegate_task_fields)
  have no: "''delegate_task'' \<notin> names_in r" by (rule before_stage_names [OF assms]) (simp add: stage_def)
  show "reaches 8 (register_delegation e c mg r)"
  proof (cases "workspace_root e c")
    case (Inl err)
    then have "err \<noteq> RegistryError x" for x using field_errors(3) by metis
    with Inl before_later [OF assms, of 8] show ?thesis by (cases err) (auto simp: register_delegation_def bind_error_def reaches_def)
  next
    case (Inr wroot)
    show ?thesis
    proof (cases "text_field c ''nmb'' ''sandbox_id''")
      case (Inl err)
      then have "err \<noteq> RegistryError x" for x using field_errors(1) by metis
      with Inl Inr before_later [OF assms, of 8] show ?thesis by (cases err) (auto simp: register_delegation_def bind_error_def reaches_def)
    next
      case (Inr sid)
      with \<open>workspace_root e c = Inr wroot\<close> add [of "fa_delegate e (if sid \<noteq> [] then sid else ''orchestrator'') wroot"] before_later [OF assms, of 8]
      show ?thesis by (auto simp: register_delegation_def bind_error_def reaches_def)
    qed
  qed
  show "register_delegation e c mg r = Inr r' \<Longrightarrow> (''delegate_task'' \<in> names_in r') = mg \<and> (''git_commit'' \<in> names_in r') = (''git_commit'' \<in> names_in r)"
  proof (cases mg)
    case True
    assume "register_delegation e c mg r = Inr r'"
    then obtain d where "?add d = Inr r'" using True by (auto simp: register_delegation_def bind_error_Inr)
    then have "names_in r' = insert ''delegate_task'' (names_in r)" using add [of d] by auto
    with True show ?thesis by simp
  qed (use no in \<open>simp add: register_delegation_def\<close>)
qed

section \<open>Properties\<close>

text \<open>
  What a sub-agent can do. The registry of a sub-agent is always built, holds exactly the
  file, search, shell and git tools without \<open>git_commit\<close>, the skill tool when a skill was found, and
  \<open>tool_search\<close>, in this order; it can neither commit through a tool nor delegate further;
  and every tool is core, so what is offered does not depend on the surface.
\<close>

theorem sub_agent_registry:
  "\<exists>r. create_coding_tool_registry e wroot hosts loader = Inr r \<and> registry_inv r \<and>
     tool_names_of r = [''read_file'', ''write_file'', ''edit_file'', ''list_directory'', ''grep'', ''glob_search'', ''bash'', ''git_diff'', ''git_log'',
       ''git_checkout'', ''git_clone''] @ map ts_name (skill_tools (fa_skill e) loader) @ [''tool_search''] \<and>
     get_tool r ''git_commit'' = None \<and> get_tool r ''delegate_task'' = None \<and> tool_definitions r sf = all_tool_definitions r"
proof -
  let ?coding = "coding_tools (fa_workspace e wroot) hosts False" and ?skills = "skill_tools (fa_skill e) loader"
  have start: "before_stage 6 registry_init" by (simp add: before_stage_def registry_init_def)
  obtain r1 where r1: "register_specs ?coding registry_init = Inr r1" "before_stage 7 r1"
    by (rule register_stage [OF coding_stage start]) simp
  obtain r2 where r2: "register_specs ?skills r1 = Inr r2" "before_stage 9 r2"
    by (rule register_stage [OF last_stages(2) before_later [OF r1(2)]]) simp_all
  obtain r where r: "register_specs [make_tool_search (fa_search e) r2] r2 = Inr r" "before_stage 10 r"
    by (rule register_stage [OF last_stages(3) r2(2)]) simp
  have build: "create_coding_tool_registry e wroot hosts loader = Inr r"
    using r1 r2 r by (simp add: create_coding_tool_registry_def register_coding_tools_def register_tool_search_def bind_error_def)
  have sk: "list_all (\<lambda>s. check_fn s = None \<and> is_core s) ?skills"
    by (auto simp: skill_tools_def make_skill_def tool_def split: option.split)
  have ts: "check_fn (make_tool_search (fa_search e) r2) = None" "is_core (make_tool_search (fa_search e) r2)"
    by (simp_all add: make_tool_search_def tool_def)
  have open_tools: "filter (\<lambda>s. check_fn s \<noteq> Some False) ss = ss" if "list_all (\<lambda>s. check_fn s = None \<and> is_core s) ss" for ss :: "'a ToolSpec list"
    using that by (induction ss) simp_all
  have t: "tools r = map (\<lambda>s. (ts_name s, s)) (?coding @ ?skills @ [make_tool_search (fa_search e) r2])"
    using register_specs_tools [OF r1(1)] register_specs_tools [OF r2(1)] register_specs_tools [OF r(1)] ts(1)
    by (simp add: open_tools [OF coding_tools_names(2)] open_tools [OF sk] registry_init_def)
  have names: "tool_names_of r = map ts_name ?coding @ map ts_name ?skills @ [''tool_search'']"
    by (simp add: tool_names_of_def dict_keys_def t comp_def make_tool_search_fields)
  have "set (map ts_name ?skills) \<subseteq> {''skill''}" by (cases loader) (simp_all add: skill_tools_def make_skill_fields)
  then have "''git_commit'' \<notin> set (tool_names_of r)" "''delegate_task'' \<notin> set (tool_names_of r)"
    unfolding names by (auto simp: coding_tools_names(1))
  then have "get_tool r ''git_commit'' = None" "get_tool r ''delegate_task'' = None"
    using get_tool_names [of r "''git_commit''"] get_tool_names [of r "''delegate_task''"] by (auto simp: tool_names_of_def dict_keys_def)
  moreover have "registry_inv r"
    by (rule register_specs_inv [OF r(1) register_specs_inv [OF r2(1) register_specs_inv [OF r1(1) registry_init_inv]]])
  moreover have "list_all is_core (dict_values (tools r))"
    using coding_tools_names(2) [of "fa_workspace e wroot" hosts False] sk ts(2)
    by (auto simp: t dict_values_def comp_def list_all_iff)
  then have "tool_definitions r sf = all_tool_definitions r"
    by (simp add: tool_definitions_def all_tool_definitions_def list_all_iff)
  ultimately show ?thesis using build names by (simp add: coding_tools_names(1))
qed

text \<open>
  The composition of the full registry is consistent. Whatever the configuration, no
  registration fails for a name that is taken; when the registry is built, every entry is filed under its
  name, \<open>git_commit\<close> is there exactly when the coding tools are enabled, \<open>delegate_task\<close>
  exactly when there is a delegation manager, and \<open>tool_search\<close> always.
\<close>

theorem full_registry_consistent:
  "case fst (build_full_tool_registry e c loader mg w) of
     Inl (RegistryError _) \<Rightarrow> False
   | Inl _ \<Rightarrow> True
   | Inr r \<Rightarrow> registry_inv r \<and> (get_tool r ''git_commit'' \<noteq> None) = enabled c ''coding'' \<and>
       (get_tool r ''delegate_task'' \<noteq> None) = mg \<and> get_tool r ''tool_search'' \<noteq> None"
proof (cases "register_services e c registry_init")
  case (Inl err)
  then show ?thesis
    using services_stage [of e c] by (cases err) (simp_all add: build_full_tool_registry_def reaches_def)
next
  case (Inr r1)
  then have b1: "before_stage 6 r1" using services_stage [of e c] by (simp add: reaches_def)
  obtain x w1 where x: "register_workspace e c r1 w = (x, w1)" by fastforce
  note ws = workspace_outcome [OF b1 x]
  show ?thesis
  proof (cases x)
    case (Inl err)
    with ws(1) x \<open>register_services e c registry_init = Inr r1\<close> show ?thesis
      by (cases err) (simp_all add: build_full_tool_registry_def reaches_def)
  next
    case (Inr r2)
    with ws(1) have b2: "before_stage 7 r2" by (simp add: reaches_def)
    let ?rest = "\<lambda>r3. bind_error (register_specs (skill_tools (fa_skill e) loader) r3) (register_tool_search (fa_search e))"
    have build: "fst (build_full_tool_registry e c loader mg w) = bind_error (register_delegation e c mg r2) ?rest"
      using \<open>register_services e c registry_init = Inr r1\<close> x Inr by (simp add: build_full_tool_registry_def)
    show ?thesis
    proof (cases "register_delegation e c mg r2")
      case (Inl err)
      then show ?thesis using delegation_outcome(1) [OF b2, of e c mg] unfolding build by (cases err) (simp_all add: bind_error_def reaches_def)
    next
      case (Inr r3)
      then have b3: "before_stage 8 r3" using delegation_outcome(1) [OF b2, of e c mg] by (simp add: reaches_def)
      note d = delegation_outcome(2) [OF b2 Inr]
      have sk: "list_all (\<lambda>s. check_fn s = None) (skill_tools (fa_skill e) loader)" "ts_name ` set (skill_tools (fa_skill e) loader) \<subseteq> {''skill''}"
        by (cases loader; simp add: skill_tools_def make_skill_fields)+
      obtain r4 where r4: "register_specs (skill_tools (fa_skill e) loader) r3 = Inr r4" "before_stage 9 r4"
          "names_in r4 = names_in r3 \<union> ts_name ` set (skill_tools (fa_skill e) loader)"
        by (rule register_open [OF last_stages(2) b3 sk(1)]) simp
      obtain r where r: "register_specs [make_tool_search (fa_search e) r4] r4 = Inr r" "before_stage 10 r"
          "names_in r = names_in r4 \<union> ts_name ` set [make_tool_search (fa_search e) r4]"
        by (rule register_open [OF last_stages(3) r4(2)]) (simp_all add: make_tool_search_fields)
      have f: "fst (build_full_tool_registry e c loader mg w) = Inr r"
        unfolding build using Inr r4(1) r(1) by (simp add: bind_error_def register_tool_search_def)
      have "build_full_tool_registry e c loader mg w = (Inr r, snd (build_full_tool_registry e c loader mg w))" using f by (metis prod.collapse)
      from build_keeps [where Q = "\<lambda>_. True" and I = registry_inv, OF this registry_init_inv] register_specs_inv have "registry_inv r" by blast
      moreover have "(''git_commit'' \<in> names_in r) = enabled c ''coding''" "(''delegate_task'' \<in> names_in r) = mg" "''tool_search'' \<in> names_in r"
        using ws(2) [OF \<open>x = Inr r2\<close>] d sk(2) unfolding r(3) r4(3) by (auto simp: make_tool_search_fields)
      ultimately show ?thesis unfolding f get_tool_names by simp
    qed
  qed
qed

text \<open>
  C5: The write-approval gate protects every system behind the full registry. Let the loop run
  under the gate with the registry the factory built, over any schedule of concurrent calls.
  Then whatever the model asks for, a run of the loop keeps every predicate that is kept by
  reading requests to the services, by \<open>git diff\<close> and \<open>git log\<close>, by inference and by
  the audit log: no file, repository, remote service or sub-agent changes before the user decides.
\<close>

theorem full_registry_reads:
  assumes "build_full_tool_registry e c loader mg w0 = (Inr r, w1)"
    and "le_registry le = r" and "le_gate le = WriteApproval" and "fair_schedule le"
    and "\<And>wroot w. we_set_fs (fa_workspace e wroot) (we_fs (fa_workspace e wroot) w) w = w"
    and "\<And>rq w. read_request rq \<Longrightarrow> P w \<Longrightarrow> P (snd (he_send (fa_http e) rq w))"
    and "\<And>wroot t args w. git_report args \<Longrightarrow> P w \<Longrightarrow> P (snd (git_command (fa_workspace e wroot) t args w))"
    and "\<And>req w. P w \<Longrightarrow> P (snd (le_infer le req w))" and "\<And>lg entry w. le_audit le = Some lg \<Longrightarrow> P w \<Longrightarrow> P (lg entry w)"
    and "run le ms rid ts pre st = (out, st')" and "P (world st)"
  shows "P (world st')"
proof -
  define Q where "Q s = (is_read_only s \<longrightarrow> (\<forall>kw w sf. P w \<longrightarrow> P (fst (snd (ts_handler s kw (w, sf))))))" for s :: "'a ToolSpec"
  have "all_specs Q r"
  proof (rule build_keeps [where Q = Q and I = "all_specs Q", OF assms(1)])
    show "all_specs Q registry_init" by (simp add: all_specs_def registry_init_def)
    show "register_specs ss r = Inr r' \<Longrightarrow> list_all Q ss \<Longrightarrow> all_specs Q r \<Longrightarrow> all_specs Q r'" for ss r r' by (rule register_specs_all)
    show "Q s" if "reads_ok (fa_http e) read_request s" for s
      unfolding Q_def by (intro impI allI) (rule reads_ok_keeps [where P = P, OF that _ assms(6)])
    show "Q s" if "s \<in> set (coding_tools (fa_workspace e wroot) hosts True)" for wroot hosts s
      unfolding Q_def by (intro impI allI) (rule workspace_read_keeps [where P = P, OF that _ assms(5) assms(7)])
    show "Q (make_delegate_task d part put)" for d part put by (simp add: Q_def make_delegate_task_fields)
    show "Q (make_skill (fa_skill e) t)" for t
      unfolding Q_def make_skill_fields by (intro impI allI) (rule call_body_keeps [where P = P]; simp add: run_skill_world)
    show "Q (make_tool_search (fa_search e) r)" for r by (simp add: Q_def make_tool_search_fields)
  qed
  then have Q: "Q spec" if "get_tool r n = Some spec" for n spec
    using that by (auto simp: all_specs_def list_all_iff get_tool_def dict_get_def dest!: map_of_SomeD)
  have "keeps_for le is_read_only P"
    unfolding keeps_for_def
  proof (intro conjI allI impI)
    fix n spec kw w sf assume "get_tool (le_registry le) n = Some spec" "is_read_only spec" "P w"
    then show "P (fst (snd (ts_handler spec kw (w, sf))))" using Q [of n spec] by (simp add: Q_def assms(2))
  qed (use assms(8,9) in blast)+
  from run_reads_keep [OF assms(3,4) this assms(10,11)] show ?thesis .
qed

text \<open>A model that asks for a write, over the workspace \<open>/w\<close> with the external services switched off.\<close>

type_synonym small_world = "file_system \<times> effect list"

definition small_workspace :: "small_world workspace_env" where
  "small_workspace = \<lparr>we_files = files_sample, we_fs = fst, we_set_fs = (\<lambda>fs w. (fs, snd w)), we_effects = snd,
     we_set_effects = (\<lambda>fx w. (fst w, fx)), we_git = \<lparr>ge_git = (\<lambda>fx ws args. Exited 0 [] []), ge_gh = (\<lambda>fx ws t b. Exited 0 [] []),
       ge_resolve = (\<lambda>p. p)\<rparr>, we_shell = (\<lambda>cmd t w. (ShellExit 0 [], ((fst w)\<lparr>fs_files := []\<rparr>, snd w))),
     we_url_host = (\<lambda>u. Inr None), we_bind_error = (\<lambda>n kw. n)\<rparr>"

definition small_factory :: "small_world factory_env" where
  "small_factory = \<lparr>fa_http = \<lparr>he_send = (\<lambda>rq w. (Inl ''offline'', w)), he_loads = (\<lambda>s. Inr JNull), he_decode = latin1_decode,
       he_int = (\<lambda>s. Inr 0), he_raise = (\<lambda>n v. n), he_bind_error = (\<lambda>n kw. n)\<rparr>, fa_unescape = (\<lambda>s. s),
     fa_workspace = (\<lambda>p. small_workspace), fa_expanduser = Inr, fa_mkdir = (\<lambda>p w. (None, w)),
     fa_skill = \<lparr>se_read = (\<lambda>w p. Inr []), se_raise = (\<lambda>n v. n), se_bind_error = (\<lambda>n kw. n)\<rparr>,
     fa_search = \<lparr>sr_ratio = exact_ratio, sr_int = (\<lambda>n v. Inl n), sr_raise = (\<lambda>n v. n), sr_bind_error = (\<lambda>n kw. n)\<rparr>,
     fa_delegate = (\<lambda>p d. delegate_sample), fa_part = (\<lambda>w. dispatcher_init fin_sample_world), fa_put = (\<lambda>d w. w)\<rparr>"

definition small_config :: AppConfig where
  "small_config = fold (\<lambda>n. set_field n ''enabled'' (JBool False)) TOOLSET_SECTIONS app_config_init"

definition small_loop :: "small_world ToolRegistry \<Rightarrow> small_world loop_env" where
  "small_loop r = \<lparr>le_infer = (\<lambda>req w. (Inr \<lparr>rs_content = [], finish_reason = ''tool_calls'', rs_tool_calls = [named_call ''c1'' ''bash'']\<rparr>, w)),
     le_registry = r, le_config = sample_config, le_gate = WriteApproval, le_audit = None, le_loads = (\<lambda>s. Inr [(''command'', JStr ''rm a'')]),
     le_schedule = rev, le_duration = (\<lambda>tc. 0)\<rparr>"

lemma small_build: "\<exists>r w. build_full_tool_registry small_factory small_config None False (sample_fs, []) = (Inr r, w)"
proof -
  have off: "\<not> enabled small_config ''jira''" "\<not> enabled small_config ''gitlab''" "\<not> enabled small_config ''gerrit''"
    "\<not> enabled small_config ''confluence''" "\<not> enabled small_config ''slack_search''" "\<not> enabled small_config ''web_search''"
    by (simp_all add: enabled_def small_config_def TOOLSET_SECTIONS_def field_set_field)
  have coding: "field_of small_config ''coding'' f = field_of app_config_init ''coding'' f" for f
    by (simp add: small_config_def TOOLSET_SECTIONS_def field_set_field)
  have cfg: "enabled small_config ''coding''" "text_field small_config ''coding'' ''workspace_root'' = Inr ''~/.nemoclaw/workspace''"
    "text_field small_config ''coding'' ''git_clone_allowed_hosts'' = Inr []"
    unfolding enabled_def text_field_def coding
    by (simp_all add: field_of_def section_of_def app_config_init_def CodingAgentConfig_def dict_default_def dict_get_def)
  have services: "register_services small_factory small_config registry_init = Inr registry_init"
    using off by (simp add: register_services_def register_when_def bind_error_def)
  have sel: "fa_workspace small_factory p = small_workspace" "fa_expanduser small_factory = Inr" "fa_mkdir small_factory p v = (None, v)" for p v
    by (simp_all add: small_factory_def)
  have start: "before_stage 6 registry_init" by (simp add: before_stage_def registry_init_def)
  obtain r1 where r1: "register_specs (coding_tools small_workspace [] True) registry_init = Inr r1" "before_stage 7 r1"
    by (rule register_stage [OF coding_stage start]) simp
  obtain r where "register_specs [make_tool_search (fa_search small_factory) r1] r1 = Inr r"
    by (rule register_stage [OF last_stages(3) before_later [OF r1(2)]]) simp_all
  moreover have "register_specs [] r1 = Inr r1" by (simp add: register_specs_def)
  ultimately show ?thesis
    using r1(1) cfg by (simp add: build_full_tool_registry_def services register_workspace_def workspace_root_def register_coding_tools_def
        register_delegation_def skill_tools_def register_tool_search_def bind_error_def sel)
qed

theorem full_registry_reads_witness:
  "\<exists>r w out st'. build_full_tool_registry small_factory small_config None False (sample_fs, []) = (Inr r, w) \<and>
     run (small_loop r) [] [] None [] \<lparr>world = (sample_fs, []), surface = [], tool_names = [], executed = []\<rparr> = (out, st') \<and>
     fst (world st') = sample_fs"
proof -
  obtain r w where r: "build_full_tool_registry small_factory small_config None False (sample_fs, []) = (Inr r, w)" using small_build by blast
  let ?st = "\<lparr>world = (sample_fs, []), surface = [], tool_names = [], executed = []\<rparr>"
  obtain out st' where run: "run (small_loop r) [] [] None [] ?st = (out, st')" by (cases "run (small_loop r) [] [] None [] ?st")
  have "fst (world st') = sample_fs"
    by (rule full_registry_reads [where P = "\<lambda>w. fst w = sample_fs", OF r _ _ _ _ _ _ _ _ run])
       (simp_all add: small_loop_def fair_schedule_def small_factory_def small_workspace_def git_command_def case_prod_beta)
  with r run show ?thesis by blast
qed

end
