(* ===== verification/Retrying.thy ===== *)
theory Retrying
  imports Main
begin

text \<open>
  Retry loops. The program retries through a third-party package, which is an argument of the
  operations that retry. What they rely on is its documented contract, \<open>retry_contract\<close>: attempts
  are numbered from 1; an attempt is repeated after a pause while it fails with a retryable
  exception and the limit on attempts is not reached; the last exception is raised as it is. The
  loop \<open>retry_loop\<close> meets the contract, and nothing else does.
\<close>

text \<open>An attempt changes the world and ends with an exception or a result.\<close>

type_synonym ('w, 'e, 'a) try_op = "'w \<Rightarrow> ('e + 'a) \<times> 'w"

text \<open>\<open>rp_pause n x\<close> is the wait after attempt \<open>n\<close> failed with \<open>x\<close>; it can itself raise.\<close>

record ('e, 'w) retry_policy =
  rp_retryable :: "'e \<Rightarrow> bool"
  rp_limit :: int
  rp_pause :: "nat \<Rightarrow> 'e \<Rightarrow> 'w \<Rightarrow> 'e option \<times> 'w"

type_synonym ('w, 'e, 'a) retrier = "('e, 'w) retry_policy \<Rightarrow> ('w, 'e, 'a) try_op \<Rightarrow> ('w, 'e, 'a) try_op"

definition goes_on :: "('e, 'w) retry_policy \<Rightarrow> nat \<Rightarrow> 'e \<Rightarrow> bool" where
  "goes_on p n x = (rp_retryable p x \<and> int n < rp_limit p)"

text \<open>The world after \<open>k\<close> attempts, numbered from \<open>n\<close>, that were all repeated.\<close>

primrec repeated :: "('e, 'w) retry_policy \<Rightarrow> ('w, 'e, 'a) try_op \<Rightarrow> nat \<Rightarrow> nat \<Rightarrow> 'w \<Rightarrow> 'w option" where
  "repeated p m n 0 w = Some w"
| "repeated p m n (Suc k) w = (case m w of
     (Inl x, w1) \<Rightarrow> (if goes_on p n x then (case rp_pause p n x w1 of
         (None, w2) \<Rightarrow> repeated p m (Suc n) k w2 | (Some y, w2) \<Rightarrow> None) else None)
   | (Inr a, w1) \<Rightarrow> None)"

text \<open>The ways in which the loop can end with attempt \<open>n\<close>.\<close>

definition last_attempt :: "('e, 'w) retry_policy \<Rightarrow> ('w, 'e, 'a) try_op \<Rightarrow> nat \<Rightarrow> 'w \<Rightarrow> ('e + 'a) \<times> 'w \<Rightarrow> bool" where
  "last_attempt p m n w res = (case m w of
     (Inl x, w1) \<Rightarrow> (if goes_on p n x
       then (case rp_pause p n x w1 of (Some y, w2) \<Rightarrow> res = (Inl y, w2) | (None, w2) \<Rightarrow> False)
       else res = (Inl x, w1))
   | (Inr a, w1) \<Rightarrow> res = (Inr a, w1))"

definition retry_contract :: "('w, 'e, 'a) retrier \<Rightarrow> bool" where
  "retry_contract R = (\<forall>p m w. \<exists>k w1. repeated p m 1 k w = Some w1 \<and> last_attempt p m (Suc k) w1 (R p m w))"

lemma last_attempt_cases:
  assumes "last_attempt p m n w res"
  obtains (final) r w1 where "m w = (r, w1)" "res = (r, w1)" "\<And>x. r = Inl x \<Longrightarrow> \<not> goes_on p n x"
  | (pause) x w1 y w2 where "m w = (Inl x, w1)" "goes_on p n x" "rp_pause p n x w1 = (Some y, w2)" "res = (Inl y, w2)"
proof -
  obtain r w1 where m: "m w = (r, w1)" by fastforce
  show thesis
  proof (cases "\<exists>x. r = Inl x \<and> goes_on p n x")
    case True
    then obtain x where x: "r = Inl x" "goes_on p n x" by blast
    obtain y w2 where "rp_pause p n x w1 = (y, w2)" by fastforce
    then show thesis using assms m x pause [of x w1] by (cases y) (simp_all add: last_attempt_def)
  next
    case False
    then show thesis using assms m final [of r w1] by (auto simp: last_attempt_def split: sum.splits)
  qed
qed

section \<open>A loop that meets the contract\<close>

function retry_from :: "('e, 'w) retry_policy \<Rightarrow> nat \<Rightarrow> ('w, 'e, 'a) try_op \<Rightarrow> ('w, 'e, 'a) try_op" where
  "retry_from p n m w = (case m w of
     (Inl x, w1) \<Rightarrow> (if goes_on p n x
       then (case rp_pause p n x w1 of (Some y, w2) \<Rightarrow> (Inl y, w2) | (None, w2) \<Rightarrow> retry_from p (Suc n) m w2)
       else (Inl x, w1))
   | (Inr a, w1) \<Rightarrow> (Inr a, w1))"
  by pat_completeness auto

termination
  by (relation "measure (\<lambda>(p, n, m, w). nat (rp_limit p - int n))") (auto simp: goes_on_def)

declare retry_from.simps [simp del]

definition retry_loop :: "('w, 'e, 'a) retrier" where
  "retry_loop p m w = retry_from p 1 m w"

lemma retry_from_cases:
  fixes p :: "('e, 'w) retry_policy" and m :: "('w, 'e, 'a) try_op"
  obtains (again) x w1 w2 where "m w = (Inl x, w1)" "goes_on p n x" "rp_pause p n x w1 = (None, w2)"
      "retry_from p n m w = retry_from p (Suc n) m w2"
      "\<And>k. repeated p m n (Suc k) w = repeated p m (Suc n) k w2" "\<And>res. \<not> last_attempt p m n w res"
  | (ends) "\<And>res. last_attempt p m n w res = (res = retry_from p n m w)" "\<And>k. repeated p m n (Suc k) w = None"
proof -
  obtain r w1 where m: "m w = (r, w1)" by fastforce
  note f = retry_from.simps [of p n m w] last_attempt_def [of p m n w]
  show thesis
  proof (cases "\<exists>x w2. r = Inl x \<and> goes_on p n x \<and> rp_pause p n x w1 = (None, w2)")
    case True
    then obtain x w2 where "r = Inl x" "goes_on p n x" "rp_pause p n x w1 = (None, w2)" by blast
    then show thesis using m by (intro again) (simp_all add: f)
  next
    case False
    then show thesis using m
      by (intro ends) (auto simp: f split: sum.splits prod.splits option.splits)
  qed
qed

lemma retry_from_meets: "\<exists>k w1. repeated p m n k w = Some w1 \<and> last_attempt p m (n + k) w1 (retry_from p n m w)"
proof (induction "nat (rp_limit p - int n)" arbitrary: n w rule: less_induct)
  case less
  show ?case
  proof (cases rule: retry_from_cases [of m w p n])
    case (again x w1 w2)
    then have "nat (rp_limit p - int (Suc n)) < nat (rp_limit p - int n)" by (simp add: goes_on_def)
    from less [OF this, of w2] obtain k w3 where "repeated p m (Suc n) k w2 = Some w3"
      "last_attempt p m (Suc n + k) w3 (retry_from p (Suc n) m w2)" by blast
    then have "repeated p m n (Suc k) w = Some w3" "last_attempt p m (n + Suc k) w3 (retry_from p n m w)"
      using again(4,5) by simp_all
    then show ?thesis by blast
  next
    case ends
    then show ?thesis by (intro exI [of _ 0]) simp
  qed
qed

lemma retry_loop_meets: "retry_contract retry_loop"
  unfolding retry_contract_def retry_loop_def using retry_from_meets [where n = 1] by (simp only: plus_1_eq_Suc) blast

lemma repeated_unique:
  "repeated p m n k w = Some w1 \<Longrightarrow> last_attempt p m (n + k) w1 res \<Longrightarrow> res = retry_from p n m w"
proof (induction k arbitrary: n w)
  case 0
  then show ?case by (cases rule: retry_from_cases [of m w p n]) auto
next
  case (Suc k)
  show ?case
  proof (cases rule: retry_from_cases [of m w p n])
    case (again x w1 w2)
    then show ?thesis using Suc by simp
  next
    case ends
    then show ?thesis using Suc.prems(1) by simp
  qed
qed

lemma contract_unique: "retry_contract R \<Longrightarrow> R p m w = retry_loop p m w"
  unfolding retry_contract_def retry_loop_def using repeated_unique [of p m 1 _ w] by (fastforce simp only: plus_1_eq_Suc)

section \<open>The contract as an interface\<close>

text \<open>A meter counts the attempts; a pause leaves it alone.\<close>

definition try_metered :: "('e, 'w) retry_policy \<Rightarrow> ('w, 'e, 'a) try_op \<Rightarrow> ('w \<Rightarrow> nat) \<Rightarrow> bool" where
  "try_metered p m cnt = ((\<forall>w. cnt (snd (m w)) = Suc (cnt w)) \<and> (\<forall>n x w. cnt (snd (rp_pause p n x w)) = cnt w))"

lemma metered_try: "try_metered p m cnt \<Longrightarrow> m w = (r, w1) \<Longrightarrow> cnt w1 = Suc (cnt w)"
  "try_metered p m cnt \<Longrightarrow> rp_pause p n x w = (y, w1) \<Longrightarrow> cnt w1 = cnt w"
  unfolding try_metered_def by (metis snd_conv)+

lemma metered_repeated:
  assumes "try_metered p m cnt"
  shows "repeated p m n k w = Some w1 \<Longrightarrow> cnt w1 = cnt w + k \<and> (k = 0 \<or> int (n + k) \<le> rp_limit p)"
proof (induction k arbitrary: n w)
  case (Suc k)
  then obtain x w2 w3 where "m w = (Inl x, w2)" "goes_on p n x" "rp_pause p n x w2 = (None, w3)"
      "repeated p m (Suc n) k w3 = Some w1"
    by (auto split: sum.splits prod.splits option.splits if_splits)
  moreover from this have "cnt w3 = Suc (cnt w)" using metered_try [OF assms] by metis
  ultimately show ?case using Suc.IH [of "Suc n" w3] by (auto simp: goes_on_def)
qed simp

lemma metered_last:
  assumes "try_metered p m cnt" "last_attempt p m n w (r, w1)"
  shows "cnt w1 = Suc (cnt w)"
  using assms(2) by (cases rule: last_attempt_cases) (simp_all add: metered_try [OF assms(1)])

locale retrying =
  fixes R :: "('w, 'e, 'a) retrier"
  assumes contract: "retry_contract R"
begin

lemma is_loop: "R p m w = retry_loop p m w"
  using contract by (rule contract_unique)

lemma ending:
  obtains k w1 where "repeated p m 1 k w = Some w1" "last_attempt p m (Suc k) w1 (R p m w)"
  using contract unfolding retry_contract_def by blast

lemma attempts_bounded:
  assumes "try_metered p m cnt"
  shows "cnt w < cnt (snd (R p m w)) \<and> int (cnt (snd (R p m w))) \<le> int (cnt w) + max 1 (rp_limit p)"
proof -
  obtain k w1 where k: "repeated p m 1 k w = Some w1" "last_attempt p m (Suc k) w1 (R p m w)" by (rule ending)
  then have "cnt (snd (R p m w)) = Suc (cnt w1)" using metered_last [OF assms] by (metis prod.collapse)
  then show ?thesis using metered_repeated [OF assms k(1)] by auto
qed

lemma gives_up_only_exhausted:
  assumes "try_metered p m cnt" "R p m w = (Inl x, w')" "rp_retryable p x"
    and "\<And>n y w1 z w2. rp_pause p n y w1 = (Some z, w2) \<Longrightarrow> \<not> rp_retryable p z"
  shows "int (cnt w') = int (cnt w) + max 1 (rp_limit p)"
proof -
  obtain k w1 where k: "repeated p m 1 k w = Some w1" "last_attempt p m (Suc k) w1 (Inl x, w')"
    using ending [of p m w] assms(2) by metis
  have "\<not> goes_on p (Suc k) x"
    using k(2) by (cases rule: last_attempt_cases) (use assms(3,4) in auto)
  then have "rp_limit p \<le> int (Suc k)" using assms(3) by (simp add: goes_on_def)
  then show ?thesis using metered_repeated [OF assms(1) k(1)] metered_last [OF assms(1) k(2)] by auto
qed

end

interpretation loop_retrying: retrying retry_loop
  by unfold_locales (rule retry_loop_meets)

end
