(* ===== verification/InferenceHub.thy ===== *)
theory InferenceHub
  imports Retrying Compaction Requests ServiceCore
begin

text \<open>
  The inference backend (\<^verbatim>\<open>backends/inference_hub.py\<close>): one chat completion over HTTP, the
  classification of its failures, and its retries. The HTTP client, the JSON reader, \<open>float()\<close>,
  the retry loop of \<open>tenacity\<close> and its sleep are arguments; the loop is assumed to keep the contract
  of the theory \<open>Retrying\<close>. Latencies and log records are left out.
\<close>

section \<open>Requests\<close>

fun role_value :: "MessageRole \<Rightarrow> string" where
  "role_value ROLE_SYSTEM = ''system''"
| "role_value ROLE_USER = ''user''"
| "role_value ROLE_ASSISTANT = ''assistant''"
| "role_value ROLE_TOOL = ''tool''"

definition tool_call_json :: "ToolCall \<Rightarrow> json" where
  "tool_call_json tc = JObj [(''id'', JStr (call_id tc)), (''type'', JStr ''function''),
     (''function'', JObj [(''name'', JStr (call_name tc)), (''arguments'', JStr (call_arguments tc))])]"

text \<open>The dictionary a message is: a tool result names its call before its content.\<close>

definition message_json :: "Message \<Rightarrow> json" where
  "message_json m = JObj ([(''role'', JStr (role_value (role m)))] @
     (case tool_call_id m of Some i \<Rightarrow> [(''tool_call_id'', JStr i)] | None \<Rightarrow> []) @
     [(''content'', JStr (content m))] @
     (case msg_tool_calls m of Some tcs \<Rightarrow> [(''tool_calls'', JList (map tool_call_json tcs))] | None \<Rightarrow> []))"

definition definition_json :: "ToolDefinition \<Rightarrow> json" where
  "definition_json td = JObj [(''type'', JStr (td_type td)),
     (''function'', JObj [(''name'', JStr (fd_name (td_function td))),
        (''description'', JStr (fd_description (td_function td))),
        (''parameters'', fd_parameters (td_function td))])]"

text \<open>The part of \<open>InferenceConfig\<close> the backend reads.\<close>

record HubConfig =
  hc_base_url :: string
  hc_api_key :: string
  hc_max_retries :: int

definition client_headers :: "HubConfig \<Rightarrow> (string \<times> string) list" where
  "client_headers c = [(''Content-Type'', ''application/json'')] @
     (if hc_api_key c \<noteq> [] then [(''Authorization'', ''Bearer '' @ hc_api_key c)] else [])"

definition completion_payload :: "(pyfloat \<Rightarrow> string) \<Rightarrow> InferenceRequest \<Rightarrow> json" where
  "completion_payload float_str req = JObj ([(''model'', JStr (rq_model req)),
     (''messages'', JList (map message_json (rq_messages req))),
     (''temperature'', JFloat (float_str (rq_temperature req))),
     (''max_tokens'', JInt (rq_max_tokens req))] @
     (case rq_tools req of
        Some (td # tds) \<Rightarrow> [(''tools'', JList (map definition_json (td # tds)))]
      | _ \<Rightarrow> []))"

definition completion_http :: "HubConfig \<Rightarrow> json \<Rightarrow> http_request" where
  "completion_http c payload = \<lparr>hq_method = ''POST'', hq_base = hc_base_url c, hq_endpoint = ''/chat/completions'',
     hq_params = [], hq_body = Some payload, hq_headers = client_headers c, hq_auth = None\<rparr>"

section \<open>Failures\<close>

record InferenceError =
  ie_message :: string
  ie_category :: ErrorCategory
  ie_raw :: json

text \<open>\<open>_RetryableError\<close>; \<open>re_retry_after\<close> is the printed form of the float it carries.\<close>

record RetryableError =
  re_message :: string
  re_category :: ErrorCategory
  re_raw :: json
  re_retry_after :: "string option"

text \<open>The exceptions that leave one attempt; the last is one that no \<open>except Exception\<close> stops.\<close>

datatype hub_exn = Fatal InferenceError | Retryable RetryableError | Interrupted string

text \<open>The exceptions of \<open>client.post\<close>.\<close>

datatype post_error = PostTimeout string | PostFailed string | PostCancelled string

text \<open>The pause before the next attempt: the server's, or the default of attempt \<open>n\<close>.\<close>

datatype wait = RetryAfter string | DefaultWait nat

record 'w hub_env =
  hb_post :: "http_request \<Rightarrow> 'w \<Rightarrow> (post_error + http_response) \<times> 'w"
  hb_loads :: "string \<Rightarrow> string + json"
  hb_float :: "string \<Rightarrow> string option"
  hb_float_str :: "pyfloat \<Rightarrow> string"
  hb_sleep :: "wait \<Rightarrow> 'w \<Rightarrow> string option \<times> 'w"
  hb_raise :: "string \<Rightarrow> json \<Rightarrow> string"

definition categorize_status :: "int \<Rightarrow> ErrorCategory" where
  "categorize_status s =
     (if s = 401 \<or> s = 403 then AUTH_ERROR
      else if s = 429 then RATE_LIMIT
      else if s \<ge> 500 then MODEL_ERROR
      else UNKNOWN)"

definition parse_retry_after :: "'w hub_env \<Rightarrow> http_response \<Rightarrow> string option" where
  "parse_retry_after e r = (case map_of (hs_headers r) ''retry-after'' of
     Some h \<Rightarrow> (if h \<noteq> [] then hb_float e h else None)
   | None \<Rightarrow> None)"

section \<open>Parsing an answer\<close>

text \<open>
  A subscript or an attribute of a JSON value: a missing key or index, which the parser
  catches, or an exception of another class, which it does not. A string indexed by a number
  is a string; everything the parser does next with it fails.
\<close>

datatype lookup_error = Missing | WrongType string

definition key_of :: "'w hub_env \<Rightarrow> string \<Rightarrow> json \<Rightarrow> lookup_error + json" where
  "key_of e k v = (case v of
     JObj kvs \<Rightarrow> (case map_of kvs k of Some x \<Rightarrow> Inr x | None \<Rightarrow> Inl Missing)
   | _ \<Rightarrow> Inl (WrongType (hb_raise e k v)))"

definition first_of :: "'w hub_env \<Rightarrow> json \<Rightarrow> lookup_error + json" where
  "first_of e v = (case v of
     JList (x # xs) \<Rightarrow> Inr x
   | JList [] \<Rightarrow> Inl Missing
   | JStr (c # cs) \<Rightarrow> Inr (JStr [c])
   | JStr [] \<Rightarrow> Inl Missing
   | JObj kvs \<Rightarrow> Inl Missing
   | _ \<Rightarrow> Inl (WrongType (hb_raise e ''0'' v)))"

definition get_of :: "'w hub_env \<Rightarrow> string \<Rightarrow> json \<Rightarrow> json \<Rightarrow> lookup_error + json" where
  "get_of e k d v = (case v of
     JObj kvs \<Rightarrow> Inr (case map_of kvs k of Some x \<Rightarrow> x | None \<Rightarrow> d)
   | _ \<Rightarrow> Inl (WrongType (hb_raise e ''get'' v)))"

fun looked_up :: "lookup_error + 'a \<Rightarrow> ('a \<Rightarrow> lookup_error + 'b) \<Rightarrow> lookup_error + 'b" where
  "looked_up (Inl x) k = Inl x"
| "looked_up (Inr a) k = k a"

record ParsedCall =
  pc_id :: json
  pc_name :: json
  pc_arguments :: json

record ParsedResponse =
  pr_content :: json
  pr_model :: json
  pr_prompt_tokens :: json
  pr_completion_tokens :: json
  pr_total_tokens :: json
  pr_finish_reason :: json
  pr_tool_calls :: "ParsedCall list option"
  pr_raw :: json

definition or_json :: "json \<Rightarrow> json \<Rightarrow> json" where
  "or_json v d = (if json_truthy v then v else d)"

definition parse_call :: "'w hub_env \<Rightarrow> json \<Rightarrow> lookup_error + ParsedCall" where
  "parse_call e tc =
     looked_up (key_of e ''id'' tc) (\<lambda>i.
     looked_up (key_of e ''function'' tc) (\<lambda>f.
     looked_up (key_of e ''name'' f) (\<lambda>n.
     looked_up (get_of e ''arguments'' (JStr ''{}'') f) (\<lambda>a.
       Inr \<lparr>pc_id = i, pc_name = n, pc_arguments = a\<rparr>))))"

fun parse_calls :: "'w hub_env \<Rightarrow> json list \<Rightarrow> lookup_error + ParsedCall list" where
  "parse_calls e [] = Inr []"
| "parse_calls e (v # vs) = looked_up (parse_call e v) (\<lambda>c. looked_up (parse_calls e vs) (\<lambda>cs. Inr (c # cs)))"

text \<open>A non-empty string or object is iterated too, and its first element is a string without an \<open>id\<close>.\<close>

definition raw_tool_calls :: "'w hub_env \<Rightarrow> json \<Rightarrow> lookup_error + ParsedCall list option" where
  "raw_tool_calls e v =
     (if \<not> json_truthy v then Inr None
      else case v of
        JList vs \<Rightarrow> looked_up (parse_calls e vs) (\<lambda>cs. Inr (Some cs))
      | _ \<Rightarrow> Inl (WrongType (hb_raise e ''tool_calls'' v)))"

definition parse_data :: "'w hub_env \<Rightarrow> json \<Rightarrow> lookup_error + ParsedResponse" where
  "parse_data e v =
     looked_up (key_of e ''choices'' v) (\<lambda>choices.
     looked_up (first_of e choices) (\<lambda>choice.
     looked_up (key_of e ''message'' choice) (\<lambda>msg.
     looked_up (get_of e ''content'' JNull msg) (\<lambda>c.
     looked_up (get_of e ''finish_reason'' (JStr ''stop'') choice) (\<lambda>fin.
     looked_up (get_of e ''tool_calls'' JNull msg) (\<lambda>raw.
     looked_up (raw_tool_calls e raw) (\<lambda>tcs.
     looked_up (get_of e ''usage'' (JObj []) v) (\<lambda>u.
     looked_up (get_of e ''prompt_tokens'' (JInt 0) u) (\<lambda>pt.
     looked_up (get_of e ''completion_tokens'' (JInt 0) u) (\<lambda>ct.
     looked_up (get_of e ''total_tokens'' (JInt 0) u) (\<lambda>tt.
     looked_up (get_of e ''model'' (JStr ''unknown'') v) (\<lambda>mo.
       Inr \<lparr>pr_content = or_json c (JStr []), pr_model = mo, pr_prompt_tokens = pt, pr_completion_tokens = ct,
         pr_total_tokens = tt, pr_finish_reason = or_json fin (JStr ''stop''), pr_tool_calls = tcs, pr_raw = v\<rparr>))))))))))))"

text \<open>The \<open>except Exception\<close> of an attempt.\<close>

definition unexpected :: "string \<Rightarrow> InferenceError" where
  "unexpected t = \<lparr>ie_message = t, ie_category = UNKNOWN, ie_raw = JStr t\<rparr>"

definition parse_response :: "'w hub_env \<Rightarrow> http_response \<Rightarrow> hub_exn + ParsedResponse" where
  "parse_response e r = (case hb_loads e (hs_text r) of
     Inl t \<Rightarrow> Inl (Fatal (unexpected t))
   | Inr v \<Rightarrow> (case parse_data e v of
       Inr p \<Rightarrow> Inr p
     | Inl Missing \<Rightarrow> Inl (Fatal \<lparr>ie_message = ''Malformed response from model'', ie_category = MODEL_ERROR, ie_raw = v\<rparr>)
     | Inl (WrongType t) \<Rightarrow> Inl (Fatal (unexpected t))))"

section \<open>One attempt\<close>

definition hub_status_error :: "'w hub_env \<Rightarrow> http_response \<Rightarrow> hub_exn" where
  "hub_status_error e r =
     (let s = hs_status r; category = categorize_status s; raw = JStr (hs_text r) in
      if category = AUTH_ERROR then
        Fatal \<lparr>ie_message = ''Authentication failed ('' @ int_str s @ '')'', ie_category = category, ie_raw = raw\<rparr>
      else if category = RATE_LIMIT \<or> category = MODEL_ERROR then
        Retryable \<lparr>re_message = ''Server returned '' @ int_str s, re_category = category, re_raw = raw,
          re_retry_after = parse_retry_after e r\<rparr>
      else
        Fatal \<lparr>ie_message = ''Unexpected status '' @ int_str s, ie_category = UNKNOWN, ie_raw = raw\<rparr>)"

definition send_request :: "'w hub_env \<Rightarrow> http_request \<Rightarrow> ('w, hub_exn, ParsedResponse) try_op" where
  "send_request e rq w = (case hb_post e rq w of
     (Inr r, w1) \<Rightarrow> ((if hs_status r = 200 then parse_response e r else Inl (hub_status_error e r)), w1)
   | (Inl (PostTimeout t), w1) \<Rightarrow> (Inl (Retryable \<lparr>re_message = ''Request timed out'', re_category = TIMEOUT,
       re_raw = JStr t, re_retry_after = None\<rparr>), w1)
   | (Inl (PostFailed t), w1) \<Rightarrow> (Inl (Fatal (unexpected t)), w1)
   | (Inl (PostCancelled t), w1) \<Rightarrow> (Inl (Interrupted t), w1))"

section \<open>A completion\<close>

text \<open>
  The policy given to the retry loop: \<open>_RetryableError\<close> is retried, up to \<open>max_retries\<close> attempts, and
  the pause is the server's \<open>Retry-After\<close> or the default of the attempt. The last retryable error
  leaves \<open>complete\<close> as an \<open>InferenceError\<close>; an exception of the sleep is not caught.
\<close>

datatype completion = Completed ParsedResponse | HubError InferenceError | HubEscaped string

fun is_retryable :: "hub_exn \<Rightarrow> bool" where
  "is_retryable (Retryable x) = True"
| "is_retryable _ = False"

fun wait_for_retry :: "nat \<Rightarrow> hub_exn \<Rightarrow> wait" where
  "wait_for_retry n (Retryable x) = (case re_retry_after x of Some t \<Rightarrow> RetryAfter t | None \<Rightarrow> DefaultWait n)"
| "wait_for_retry n _ = DefaultWait n"

definition hub_policy :: "'w hub_env \<Rightarrow> HubConfig \<Rightarrow> (hub_exn, 'w) retry_policy" where
  "hub_policy e c = \<lparr>rp_retryable = is_retryable, rp_limit = hc_max_retries c,
     rp_pause = (\<lambda>n x w. case hb_sleep e (wait_for_retry n x) w of (t, w1) \<Rightarrow> (map_option Interrupted t, w1))\<rparr>"

definition as_inference_error :: "RetryableError \<Rightarrow> InferenceError" where
  "as_inference_error x = \<lparr>ie_message = re_message x, ie_category = re_category x, ie_raw = re_raw x\<rparr>"

fun conclude :: "hub_exn + ParsedResponse \<Rightarrow> completion" where
  "conclude (Inr p) = Completed p"
| "conclude (Inl (Fatal x)) = HubError x"
| "conclude (Inl (Retryable x)) = HubError (as_inference_error x)"
| "conclude (Inl (Interrupted t)) = HubEscaped t"

definition hub_request :: "'w hub_env \<Rightarrow> HubConfig \<Rightarrow> InferenceRequest \<Rightarrow> http_request" where
  "hub_request e c req = completion_http c (completion_payload (hb_float_str e) req)"

definition hub_complete ::
  "('w, hub_exn, ParsedResponse) retrier \<Rightarrow> 'w hub_env \<Rightarrow> HubConfig \<Rightarrow> InferenceRequest \<Rightarrow> 'w \<Rightarrow> completion \<times> 'w" where
  "hub_complete R e c req w = (case R (hub_policy e c) (send_request e (hub_request e c req)) w of
     (r, w1) \<Rightarrow> (conclude r, w1))"

section \<open>Counting the requests\<close>

text \<open>A meter counts the requests posted; a pause posts none.\<close>

definition hub_metered :: "'w hub_env \<Rightarrow> ('w \<Rightarrow> nat) \<Rightarrow> bool" where
  "hub_metered e cnt =
     ((\<forall>rq w. cnt (snd (hb_post e rq w)) = Suc (cnt w)) \<and> (\<forall>x w. cnt (snd (hb_sleep e x w)) = cnt w))"

lemma send_world: "snd (send_request e rq w) = snd (hb_post e rq w)"
  by (auto simp: send_request_def split: sum.splits prod.splits post_error.splits)

lemma hub_try_metered: "hub_metered e cnt \<Longrightarrow> try_metered (hub_policy e c) (send_request e rq) cnt"
  by (auto simp: hub_metered_def try_metered_def send_world hub_policy_def split: prod.splits) (metis snd_conv)

lemma pause_not_retried: "rp_pause (hub_policy e c) n y w = (Some z, w') \<Longrightarrow> \<not> rp_retryable (hub_policy e c) z"
  by (auto simp: hub_policy_def split: prod.splits)

lemma hub_policy_limit [simp]: "rp_limit (hub_policy e c) = hc_max_retries c" "rp_retryable (hub_policy e c) = is_retryable"
  by (simp_all add: hub_policy_def)

text \<open>What only a retryable error leaves as category.\<close>

definition fatal_category :: "InferenceError \<Rightarrow> bool" where
  "fatal_category x = (ie_category x \<in> {AUTH_ERROR, MODEL_ERROR, UNKNOWN})"

lemma send_fatal_category: "send_request e rq w = (Inl (Fatal x), w1) \<Longrightarrow> fatal_category x"
  by (auto simp: send_request_def hub_status_error_def parse_response_def unexpected_def Let_def fatal_category_def
      split: sum.splits prod.splits post_error.splits lookup_error.splits if_splits)

lemma retrier_fatal:
  assumes "retry_contract R" "R (hub_policy e c) (send_request e rq) w = (Inl (Fatal x), w')"
  shows "fatal_category x"
proof -
  obtain k w1 where "last_attempt (hub_policy e c) (send_request e rq) (Suc k) w1 (Inl (Fatal x), w')"
    using assms unfolding retry_contract_def by metis
  then show ?thesis
    by (cases rule: last_attempt_cases) (auto simp: hub_policy_def split: prod.splits dest: send_fatal_category)
qed

definition attempt_limit :: "HubConfig \<Rightarrow> int" where
  "attempt_limit c = max 1 (hc_max_retries c)"

text \<open>C32: Termination: a completion makes at least one request and at most as many as \<open>max_retries\<close>
  allows (a limit of zero or less still allows one), whatever the server answers.\<close>

theorem complete_bounded:
  assumes "retry_contract R" "hub_metered e cnt"
  shows "cnt w < cnt (snd (hub_complete R e c req w)) \<and>
    int (cnt (snd (hub_complete R e c req w))) \<le> int (cnt w) + attempt_limit c"
  using retrying.attempts_bounded [OF retrying.intro [OF assms(1)] hub_try_metered [OF assms(2)], of w c "hub_request e c req"]
  by (cases "R (hub_policy e c) (send_request e (hub_request e c req)) w") (simp add: hub_complete_def attempt_limit_def)


text \<open>An answer that a retry cannot help is reported at once: one request, and for a rejected
  credential the category \<open>AUTH_ERROR\<close>, for any other status under 500 \<open>UNKNOWN\<close>.\<close>

theorem fatal_status_not_retried:
  assumes "retry_contract R" "hb_post e (hub_request e c req) w = (Inr r, w')"
    "hs_status r \<noteq> 200" "hs_status r \<noteq> 429" "hs_status r < 500"
  shows "\<exists>x. hub_complete R e c req w = (HubError x, w') \<and> ie_raw x = JStr (hs_text r) \<and>
    ie_category x = (if hs_status r \<in> {401, 403} then AUTH_ERROR else UNKNOWN)"
proof -
  have c: "categorize_status (hs_status r) = (if hs_status r \<in> {401, 403} then AUTH_ERROR else UNKNOWN)"
    using assms(4,5) by (simp add: categorize_status_def)
  obtain x where x: "hub_status_error e r = Fatal x" "ie_raw x = JStr (hs_text r)"
      "ie_category x = (if hs_status r \<in> {401, 403} then AUTH_ERROR else UNKNOWN)"
    by (cases "hs_status r \<in> {401, 403}") (auto simp: hub_status_error_def c Let_def)
  have "send_request e (hub_request e c req) w = (Inl (Fatal x), w')"
    using assms(2,3) x(1) by (simp add: send_request_def)
  then have "retry_loop (hub_policy e c) (send_request e (hub_request e c req)) w = (Inl (Fatal x), w')"
    by (simp add: retry_loop_def retry_from.simps [of _ _ "send_request e (hub_request e c req)"] goes_on_def)
  then show ?thesis using x(2,3) contract_unique [OF assms(1)] by (simp add: hub_complete_def)
qed

section \<open>Well-formed answers\<close>

text \<open>The answer of a server that follows the chat-completions format, and what the parser reads of it.\<close>

definition chat_answer :: "string \<Rightarrow> InferenceResponse \<Rightarrow> json" where
  "chat_answer mo r = JObj [(''model'', JStr mo),
     (''choices'', JList [JObj [(''message'', JObj ([(''role'', JStr ''assistant''), (''content'', JStr (rs_content r))] @
        (if rs_tool_calls r = [] then [] else [(''tool_calls'', JList (map tool_call_json (rs_tool_calls r)))]))),
      (''finish_reason'', JStr (finish_reason r))]])]"

definition parsed_call :: "ToolCall \<Rightarrow> ParsedCall" where
  "parsed_call tc = \<lparr>pc_id = JStr (call_id tc), pc_name = JStr (call_name tc), pc_arguments = JStr (call_arguments tc)\<rparr>"

lemma parse_call_json: "parse_call e (tool_call_json tc) = Inr (parsed_call tc)"
  by (simp add: parse_call_def tool_call_json_def parsed_call_def key_of_def get_of_def)

lemma parse_calls_json: "parse_calls e (map tool_call_json tcs) = Inr (map parsed_call tcs)"
  by (induction tcs) (simp_all add: parse_call_json)

text \<open>Round trip: a well-formed answer is read back with its content, finish reason and tool calls;
  the calls are read in the very form in which the loop sends them back with the conversation.\<close>

theorem chat_answer_read:
  assumes "finish_reason r \<noteq> []"
  shows "\<exists>p. parse_data e (chat_answer mo r) = Inr p \<and> pr_content p = JStr (rs_content r) \<and>
    pr_finish_reason p = JStr (finish_reason r) \<and> pr_model p = JStr mo \<and>
    pr_tool_calls p = (if rs_tool_calls r = [] then None else Some (map parsed_call (rs_tool_calls r)))"
  using assms
  by (auto simp: parse_data_def chat_answer_def key_of_def get_of_def first_of_def raw_tool_calls_def or_json_def
      parse_calls_json)

section \<open>A server that is busy\<close>

text \<open>The world counts the requests; the server answers 429 to the first two, and then a completion.\<close>

definition busy_hub :: "nat hub_env" where
  "busy_hub = \<lparr>hb_post = (\<lambda>rq n. (Inr \<lparr>hs_status = (if n < 2 then 429 else 200), hs_text = [],
       hs_headers = [(''retry-after'', ''1'')]\<rparr>, Suc n)),
     hb_loads = (\<lambda>t. Inr (chat_answer ''m'' \<lparr>rs_content = ''hi'', finish_reason = ''stop'', rs_tool_calls = []\<rparr>)),
     hb_float = (\<lambda>t. Some t), hb_float_str = (\<lambda>f. ''0.7''), hb_sleep = (\<lambda>x n. (None, n)), hb_raise = (\<lambda>t v. t)\<rparr>"

definition forbidden_hub :: "nat hub_env" where
  "forbidden_hub = busy_hub\<lparr>hb_post := (\<lambda>rq n. (Inr \<lparr>hs_status = 403, hs_text = ''no'', hs_headers = []\<rparr>, Suc n))\<rparr>"

definition hub_config :: "int \<Rightarrow> HubConfig" where
  "hub_config m = \<lparr>hc_base_url = ''u'', hc_api_key = [], hc_max_retries = m\<rparr>"

definition sample_inference :: InferenceRequest where
  "sample_inference = \<lparr>rq_messages = [text_message ROLE_USER ''hello''], rq_model = ''m'', rq_temperature = 0,
     rq_max_tokens = 16, rq_request_id = [], rq_tools = None\<rparr>"

lemma busy_metered: "hub_metered busy_hub (\<lambda>n. n)"
  by (simp add: hub_metered_def busy_hub_def)

lemma hub_config_fields [simp]: "hc_max_retries (hub_config m) = m" "attempt_limit (hub_config m) = max 1 m"
  by (simp_all add: hub_config_def attempt_limit_def)

lemma busy_exhausted: "\<exists>x. hub_complete retry_loop busy_hub (hub_config 2) q 0 = (HubError x, 2) \<and> ie_category x = RATE_LIMIT"
proof -
  have s: "send_request busy_hub rq n = (Inl (Retryable \<lparr>re_message = ''Server returned '' @ int_str 429, re_category = RATE_LIMIT,
      re_raw = JStr [], re_retry_after = Some ''1''\<rparr>), Suc n)" if "n < 2" for rq n
    using that by (simp add: send_request_def busy_hub_def hub_status_error_def categorize_status_def parse_retry_after_def Let_def)
  have z: "rp_pause (hub_policy busy_hub c) i x n = (None, n)" for c i x n by (simp add: hub_policy_def busy_hub_def)
  show ?thesis
    by (simp add: hub_complete_def retry_loop_def retry_from.simps [of _ _ "send_request busy_hub _"] s z goes_on_def as_inference_error_def)
qed

lemma complete_bounded_witness:
  "0 < snd (hub_complete retry_loop busy_hub (hub_config 3) sample_inference 0) \<and>
     snd (hub_complete retry_loop busy_hub (hub_config 3) sample_inference 0) \<le> 3"
  using complete_bounded [OF retry_loop_meets busy_metered, of 0 "hub_config 3" sample_inference] by simp


lemma fatal_status_not_retried_witness:
  "\<exists>x. hub_complete retry_loop forbidden_hub (hub_config 5) sample_inference 0 = (HubError x, 1) \<and> ie_category x = AUTH_ERROR"
  using fatal_status_not_retried [OF retry_loop_meets, of forbidden_hub "hub_config 5" sample_inference 0
      "\<lparr>hs_status = 403, hs_text = ''no'', hs_headers = []\<rparr>" 1]
  by (auto simp: forbidden_hub_def)

lemma chat_answer_read_witness:
  "\<exists>p. parse_data busy_hub (chat_answer ''m'' \<lparr>rs_content = ''hi'', finish_reason = ''stop'',
     rs_tool_calls = [\<lparr>call_id = ''1'', call_name = ''t'', call_arguments = ''{}''\<rparr>]\<rparr>) = Inr p \<and> pr_content p = JStr ''hi''"
  using chat_answer_read [of "\<lparr>rs_content = ''hi'', finish_reason = ''stop'',
     rs_tool_calls = [\<lparr>call_id = ''1'', call_name = ''t'', call_arguments = ''{}''\<rparr>]\<rparr>" busy_hub "''m''"]
  by auto

end
