(* ===== verification/SlackRender.thy ===== *)
theory SlackRender
  imports ServiceCore Requests Skills
begin

text \<open>
  Rendering of responses for Slack (\<^verbatim>\<open>connectors/slack/connector.py\<close>): the conversion of Markdown
  to Slack's own markup, the splitting of long texts, and the Block Kit JSON of every response
  block. The three regular expressions are written out as scanners.
\<close>

section \<open>Limits\<close>

definition SLACK_SECTION_TEXT_LIMIT :: nat where "SLACK_SECTION_TEXT_LIMIT = 2900"
definition SLACK_MAX_TEXTBLOCK_CHUNKS :: nat where "SLACK_MAX_TEXTBLOCK_CHUNKS = 40"
definition SLACK_FALLBACK_TEXT_LIMIT :: nat where "SLACK_FALLBACK_TEXT_LIMIT = 3000"

section \<open>Markdown\<close>

text \<open>
  \<open>^#{1,6}\s+(.+)$\<close> at the start of a line. The white space is greedy and may cross line ends; if
  nothing is left after it, it gives back characters until the group can start. A match
  yields the group and the text after it.
\<close>

definition is_newline :: "char \<Rightarrow> bool" where
  "is_newline c = (c = CHR 0x0A)"

definition line_of :: "string \<Rightarrow> string" where
  "line_of s = takeWhile (\<lambda>c. \<not> is_newline c) s"

definition heading_group :: "string \<Rightarrow> (string \<times> string) option" where
  "heading_group s = (if line_of s = [] then None else Some (line_of s, drop (length (line_of s)) s))"

fun give_back :: "string \<Rightarrow> nat \<Rightarrow> (string \<times> string) option" where
  "give_back s 0 = None"
| "give_back s (Suc n) = (case heading_group (drop (Suc n) s) of Some m \<Rightarrow> Some m | None \<Rightarrow> give_back s n)"

definition heading_match :: "string \<Rightarrow> (string \<times> string) option" where
  "heading_match s =
     (let h = length (takeWhile (\<lambda>c. c = CHR ''#'') s); r = drop h s in
      if 1 \<le> h \<and> h \<le> 6 then give_back r (length (takeWhile is_space r)) else None)"

text \<open>\<open>\*\*(.+?)\*\*\<close>: the shortest non-empty run within a line that another pair of asterisks ends.\<close>

fun shortest_bold :: "string \<Rightarrow> string \<Rightarrow> (string \<times> string) option" where
  "shortest_bold acc [] = None"
| "shortest_bold acc (c # s) =
     (if acc \<noteq> [] \<and> starts_with (c # s) ''**'' then Some (rev acc, drop 2 (c # s))
      else if is_newline c then None
      else shortest_bold (c # acc) s)"

definition bold_match :: "string \<Rightarrow> (string \<times> string) option" where
  "bold_match s = (if starts_with s ''**'' then shortest_bold [] (drop 2 s) else None)"

text \<open>\<open>\[([^\]]+)\]\(([^)]+)\)\<close>: both groups end at the first closing character.\<close>

definition link_match :: "string \<Rightarrow> ((string \<times> string) \<times> string) option" where
  "link_match s = (case s of
     [] \<Rightarrow> None
   | c # r \<Rightarrow>
       (let label = takeWhile (\<lambda>x. x \<noteq> CHR '']'') r; r1 = drop (length label) r;
            url = takeWhile (\<lambda>x. x \<noteq> CHR '')'') (drop 2 r1); r2 = drop (length url) (drop 2 r1)
        in if c = CHR ''['' \<and> label \<noteq> [] \<and> starts_with r1 ''](''  \<and> url \<noteq> [] \<and> r2 \<noteq> []
           then Some ((label, url), drop 1 r2) else None))"

text \<open>\<open>pattern.sub\<close>: \<open>m\<close> matches at a position and \<open>line_start\<close> says whether the position starts a line.
  Every match is at least two characters long, so that no match is empty.\<close>

function sub_all :: "(bool \<Rightarrow> string \<Rightarrow> ('g \<times> string) option) \<Rightarrow> ('g \<Rightarrow> string) \<Rightarrow> bool \<Rightarrow> string \<Rightarrow> string" where
  "sub_all m f line_start [] = []"
| "sub_all m f line_start (c # s) = (case m line_start (c # s) of
     Some (g, r) \<Rightarrow> f g @ sub_all m f False (drop (length s - length r) s)
   | None \<Rightarrow> c # sub_all m f (is_newline c) s)"
  by pat_completeness auto

termination
  by (relation "measure (\<lambda>(m, f, l, s). length s)") auto

definition heading_sub :: "string \<Rightarrow> string" where
  "heading_sub = sub_all (\<lambda>l s. if l then heading_match s else None) (\<lambda>g. ''*'' @ g @ ''*'') True"

definition bold_sub :: "string \<Rightarrow> string" where
  "bold_sub = sub_all (\<lambda>l. bold_match) (\<lambda>g. ''*'' @ g @ ''*'') True"

definition link_sub :: "string \<Rightarrow> string" where
  "link_sub = sub_all (\<lambda>l. link_match) (\<lambda>(label, url). ''<'' @ url @ ''|'' @ label @ ''>'') True"

definition to_slack_markdown :: "string \<Rightarrow> string" where
  "to_slack_markdown t = link_sub (bold_sub (heading_sub t))"

section \<open>Splitting\<close>

text \<open>\<open>s.rfind(p)\<close> as a position, and \<open>None\<close> for -1.\<close>

fun rfind :: "string \<Rightarrow> string \<Rightarrow> nat option" where
  "rfind [] p = (if p = [] then Some 0 else None)"
| "rfind (c # s) p = (case rfind s p of
     Some i \<Rightarrow> Some (Suc i)
   | None \<Rightarrow> (if starts_with (c # s) p then Some 0 else None))"

definition boundary :: "string \<Rightarrow> string \<Rightarrow> nat option" where
  "boundary window p = (case rfind window p of Some (Suc i) \<Rightarrow> Some (Suc i) | _ \<Rightarrow> None)"

definition split_point :: "nat \<Rightarrow> string \<Rightarrow> nat" where
  "split_point limit window = (case boundary window (newline @ newline) of
     Some i \<Rightarrow> i
   | None \<Rightarrow> (case boundary window newline of
       Some i \<Rightarrow> i
     | None \<Rightarrow> (case boundary window '' '' of Some i \<Rightarrow> i | None \<Rightarrow> limit)))"

definition lstrip :: "string \<Rightarrow> string" where
  "lstrip s = dropWhile is_space s"

text \<open>The loop and the remainder after it. With a limit of 0 the code would not return on a text that is not blank;
  it is called with positive limits only, and the guard on the limit stands for that.\<close>

function split_loop :: "nat \<Rightarrow> string \<Rightarrow> string list" where
  "split_loop limit s =
     (if 0 < limit \<and> length s > limit then
        (let i = split_point limit (take limit s); chunk = rstrip (take i s)
         in (if chunk \<noteq> [] then [chunk] else []) @ split_loop limit (lstrip (drop i s)))
      else if s \<noteq> [] then [s] else [])"
  by pat_completeness auto

lemma split_point_pos: "0 < limit \<Longrightarrow> 0 < split_point limit w"
  by (auto simp: split_point_def boundary_def split: option.splits nat.splits)

lemma length_lstrip: "length (lstrip s) \<le> length s"
  by (simp add: lstrip_def length_dropWhile_le)

termination split_loop
proof (relation "measure (\<lambda>(limit, s). length s)")
  fix limit i and s chunk :: string
  assume "0 < limit \<and> length s > limit" "i = split_point limit (take limit s)"
  then have "0 < i" "0 < length s" using split_point_pos by auto
  then have "length (drop i s) < length s" by simp
  then show "((limit, lstrip (drop i s)), limit, s) \<in> measure (\<lambda>(limit, s). length s)"
    using length_lstrip [of "drop i s"] by simp
qed simp

declare split_loop.simps [simp del]

definition split_text_for_slack :: "string \<Rightarrow> nat \<Rightarrow> string list" where
  "split_text_for_slack t limit = (if length t \<le> limit then [t] else split_loop limit t)"

section \<open>Block Kit\<close>

definition mrkdwn :: "string \<Rightarrow> json" where
  "mrkdwn t = JObj [(''type'', JStr ''mrkdwn''), (''text'', JStr t)]"

definition plain_text :: "string \<Rightarrow> json" where
  "plain_text t = JObj [(''type'', JStr ''plain_text''), (''text'', JStr t)]"

definition section_block :: "string \<Rightarrow> json" where
  "section_block t = JObj [(''type'', JStr ''section''), (''text'', mrkdwn t)]"

definition plain_section :: "string \<Rightarrow> json" where
  "plain_section t = JObj [(''type'', JStr ''section''), (''text'', plain_text t)]"

definition context_block :: "string list \<Rightarrow> json" where
  "context_block ts = JObj [(''type'', JStr ''context''), (''elements'', JList (map mrkdwn ts))]"

definition header_block :: "string \<Rightarrow> json" where
  "header_block t = JObj [(''type'', JStr ''header''), (''text'', plain_text t)]"

definition button_json :: "ActionButton \<Rightarrow> json" where
  "button_json b = JObj ([(''type'', JStr ''button''), (''text'', plain_text (ab_label b)),
     (''action_id'', JStr (ab_action_id b)), (''value'', JStr (ab_value b))] @
     (if truthy (ab_style b) then [(''style'', JStr (the (ab_style b)))] else []))"

definition button_actions :: "ActionButton list \<Rightarrow> json" where
  "button_actions bs = JObj [(''type'', JStr ''actions''), (''elements'', JList (map button_json bs))]"

definition DIVIDER :: json where
  "DIVIDER = JObj [(''type'', JStr ''divider'')]"

definition thinking_blocks :: "json list" where
  "thinking_blocks = [section_block ('':hourglass_flowing_sand: *Thinking'' @ ellipsis @ ''*'')]"

section \<open>Rendering\<close>

definition TRUNCATED_CHUNK :: string where
  "TRUNCATED_CHUNK = '':warning: _Response truncated '' @ em_dash @ '' too long to display in full._''"

definition text_chunks :: "string \<Rightarrow> string list" where
  "text_chunks t =
     (let chunks = split_text_for_slack t SLACK_SECTION_TEXT_LIMIT in
      if length chunks > SLACK_MAX_TEXTBLOCK_CHUNKS
      then take (SLACK_MAX_TEXTBLOCK_CHUNKS - 1) chunks @ [TRUNCATED_CHUNK] else chunks)"

definition render_field :: "FormField \<Rightarrow> json" where
  "render_field f =
     (let marker = (if ff_required f then '' '' @ BS @ ''*'' else []);
          label = ''*'' @ ff_label f @ ''*'' @ marker in
      case (ff_type f = ''select'', ff_options f) of
        (True, Some (opt # opts)) \<Rightarrow>
          JObj [(''type'', JStr ''section''), (''text'', mrkdwn label),
            (''accessory'', JObj [(''type'', JStr ''static_select''),
               (''placeholder'', plain_text (''Choose '' @ py_lower (ff_label f) @ ellipsis)),
               (''action_id'', JStr (ff_field_id f)),
               (''options'', JList (map (\<lambda>x. JObj [(''text'', plain_text x), (''value'', JStr x)]) (opt # opts)))])]
      | _ \<Rightarrow> section_block (label @ newline @
          (if ff_type f = ''text'' \<or> ff_type f = ''multiline'' then ''Reply in this thread with your response.''
           else ''_'' @ ff_type f @ ''_'')))"

definition submit_button :: "string \<Rightarrow> ActionButton" where
  "submit_button i = \<lparr>ab_label = ''Submit'', ab_action_id = i, ab_value = [], ab_style = Some ''primary''\<rparr>"

definition render_form :: "string \<Rightarrow> FormField list \<Rightarrow> string \<Rightarrow> json list" where
  "render_form title fs submit =
     (if title \<noteq> [] then [header_block title] else []) @ map render_field fs @
     (if submit \<noteq> [] then [button_actions [submit_button submit]] else [])"

definition confirm_json :: "string \<Rightarrow> string \<Rightarrow> string \<Rightarrow> string \<Rightarrow> string \<Rightarrow> json" where
  "confirm_json title t confirm deny action_id =
     JObj [(''type'', JStr ''section''), (''text'', mrkdwn t),
       (''accessory'', JObj [(''type'', JStr ''button''), (''text'', plain_text confirm),
          (''action_id'', JStr action_id), (''style'', JStr ''danger''),
          (''confirm'', JObj [(''title'', plain_text title), (''text'', mrkdwn t),
             (''confirm'', plain_text confirm), (''deny'', plain_text deny)])])]"

fun render_block :: "ResponseBlock \<Rightarrow> json list" where
  "render_block (TextBlock t style) =
     (if style = ''markdown'' then map section_block (text_chunks (to_slack_markdown t))
      else map plain_section (text_chunks t))"
| "render_block (ActionBlock bs) = [button_actions bs]"
| "render_block (ConfirmBlock title t confirm deny action_id) = [confirm_json title t confirm deny action_id]"
| "render_block (FormBlock title fs submit) = render_form title fs submit"

definition slack_render :: "RichResponse \<Rightarrow> json list" where
  "slack_render r = concat (map render_block (ri_blocks r))"

fun first_text :: "ResponseBlock list \<Rightarrow> string option" where
  "first_text [] = None"
| "first_text (TextBlock t style # bs) = Some t"
| "first_text (b # bs) = first_text bs"

definition extract_fallback_text :: "RichResponse \<Rightarrow> string" where
  "extract_fallback_text r = (case first_text (ri_blocks r) of
     Some t \<Rightarrow> (if length t > SLACK_FALLBACK_TEXT_LIMIT then take (SLACK_FALLBACK_TEXT_LIMIT - 1) t @ ellipsis else t)
   | None \<Rightarrow> ellipsis)"

text \<open>The App Home tab.\<close>

definition quoted_example :: "string \<Rightarrow> string" where
  "quoted_example t = newline @ ''_'' @ DQ @ t @ DQ @ ''_''"

definition build_home_blocks :: "json list" where
  "build_home_blocks = [
     header_block '':robot_face: dbot'',
     section_block (''Your AI-powered assistant for developer services '' @ em_dash @
       '' Jira, Confluence, Slack, GitLab, Gerrit, and more.''),
     DIVIDER,
     header_block '':sparkles: What can I do?'',
     section_block ('':mag: *Search & lookup*'' @ quoted_example ''What are my open Jira tickets?'' @
       quoted_example ''Show me AVPC-61317'' @ quoted_example ''Find Confluence pages about deployment''),
     section_block ('':hammer_and_wrench: *Take action*'' @ quoted_example ''Create a Jira ticket for ...'' @
       quoted_example ''Transition AVPC-12345 to In Review'' @ quoted_example ''Post a summary to #my-channel''),
     section_block ('':brain: *Analyze & summarize*'' @ quoted_example (''Summarize the last sprint'' @ SQ @ ''s tickets'') @
       quoted_example ''What changed in CL 12345?''),
     DIVIDER,
     header_block '':rocket: Getting started'',
     section_block (''Just send me a DM or mention *@dbot* in any channel. I'' @ SQ @ ''ll figure out which tools to use and ask for '' @
       ''approval before taking any write actions.''),
     DIVIDER,
     context_block [''Built with NemoClaw Escapades  :zap:  Powered by nv-tools'']]"

section \<open>What splitting keeps\<close>

definition visible :: "string \<Rightarrow> string" where
  "visible s = filter (\<lambda>c. \<not> is_space c) s"

lemma visible_append [simp]: "visible (a @ b) = visible a @ visible b"
  by (simp add: visible_def)

lemma visible_lstrip [simp]: "visible (lstrip s) = visible s"
  by (induction s) (simp_all add: lstrip_def visible_def)

lemma visible_rev: "visible (rev s) = rev (visible s)"
  by (simp add: visible_def rev_filter)

lemma visible_rstrip [simp]: "visible (rstrip s) = visible s"
proof -
  have "rstrip s = rev (lstrip (rev s))" by (simp add: rstrip_def lstrip_def)
  then show ?thesis by (simp add: visible_rev)
qed

lemma length_rstrip: "length (rstrip s) \<le> length s"
  using length_lstrip [of "rev s"] by (simp add: rstrip_def lstrip_def)

lemma rfind_less: "rfind s p = Some i \<Longrightarrow> i \<le> length s"
  by (induction s arbitrary: i) (auto split: option.splits if_splits)

lemma split_point_le: "length w = limit \<Longrightarrow> split_point limit w \<le> limit"
  by (auto simp: split_point_def boundary_def split: option.splits nat.splits dest: rfind_less)

lemma split_loop_chunk:
  "x \<in> set (split_loop limit s) \<Longrightarrow> 0 < limit \<Longrightarrow> x \<noteq> [] \<and> length x \<le> limit"
proof (induction limit s rule: split_loop.induct)
  case (1 limit s)
  show ?case
  proof (cases "0 < limit \<and> length s > limit")
    case True
    define i where "i = split_point limit (take limit s)"
    have "i \<le> limit" unfolding i_def by (rule split_point_le) (use True in simp)
    then have "length (rstrip (take i s)) \<le> limit"
      using length_rstrip [of "take i s"] by simp
    moreover have "x = rstrip (take i s) \<and> x \<noteq> [] \<or> x \<in> set (split_loop limit (lstrip (drop i s)))"
      using 1(2) True unfolding split_loop.simps [of limit s] by (auto simp: Let_def i_def split: if_splits)
    ultimately show ?thesis using 1(1) [OF True i_def refl] 1(3) by blast
  next
    case False
    then show ?thesis using 1(2,3) by (subst (asm) split_loop.simps) (auto split: if_splits)
  qed
qed

lemma split_loop_visible: "0 < limit \<Longrightarrow> visible (concat (split_loop limit s)) = visible s"
proof (induction limit s rule: split_loop.induct)
  case (1 limit s)
  show ?case
  proof (cases "length s > limit")
    case True
    define i where "i = split_point limit (take limit s)"
    have "visible (concat (split_loop limit s)) = visible (rstrip (take i s)) @ visible (drop i s)"
      using 1(1) [OF _ i_def refl] 1(2) True
      by (subst split_loop.simps) (auto simp: Let_def i_def [symmetric] simp del: visible_rstrip)
    then show ?thesis using visible_append [of "take i s" "drop i s"] by (simp del: visible_append)
  next
    case False
    then show ?thesis by (subst split_loop.simps) (simp add: visible_def)
  qed
qed

lemma split_text_chunk: "x \<in> set (split_text_for_slack t limit) \<Longrightarrow> 0 < limit \<Longrightarrow> length x \<le> limit"
  by (auto simp: split_text_for_slack_def split: if_splits dest: split_loop_chunk)

lemma split_text_visible: "0 < limit \<Longrightarrow> visible (concat (split_text_for_slack t limit)) = visible t"
  by (simp add: split_text_for_slack_def split_loop_visible)

text \<open>C36: Splitting a text for Slack keeps it: the chunks, put together, have exactly its visible characters
  in order, and none is longer than the limit.\<close>

theorem split_text_faithful:
  "0 < limit \<Longrightarrow> visible (concat (split_text_for_slack t limit)) = visible t \<and>
     (\<forall>x\<in>set (split_text_for_slack t limit). length x \<le> limit)"
  using split_text_visible split_text_chunk by blast

lemma split_text_faithful_witness:
  "visible (concat (split_text_for_slack ''one two'' 4)) = ''onetwo'' \<and>
     list_all (\<lambda>x. length x \<le> 4) (split_text_for_slack ''one two'' 4)"
  using split_text_faithful [of 4 "''one two''"] by (simp add: visible_def is_space_def list_all_iff)

lemma text_chunk_bound: "x \<in> set (text_chunks t) \<Longrightarrow> length x \<le> SLACK_SECTION_TEXT_LIMIT"
proof -
  assume x: "x \<in> set (text_chunks t)"
  have "length TRUNCATED_CHUNK \<le> SLACK_SECTION_TEXT_LIMIT"
    by (simp add: TRUNCATED_CHUNK_def SLACK_SECTION_TEXT_LIMIT_def em_dash_def)
  moreover have "length y \<le> SLACK_SECTION_TEXT_LIMIT" if "y \<in> set (split_text_for_slack t SLACK_SECTION_TEXT_LIMIT)" for y
    using split_text_chunk [OF that] by (simp add: SLACK_SECTION_TEXT_LIMIT_def)
  ultimately show ?thesis using x
    by (auto simp: text_chunks_def Let_def split: if_splits dest: in_set_takeD)
qed

lemma text_chunks_count: "length (text_chunks t) \<le> SLACK_MAX_TEXTBLOCK_CHUNKS"
  by (simp add: text_chunks_def Let_def SLACK_MAX_TEXTBLOCK_CHUNKS_def)

text \<open>The text of a section block.\<close>

definition section_text :: "json \<Rightarrow> string option" where
  "section_text b = (case b of
     JObj [(k, JStr s), (k', JObj [(k1, t), (k2, JStr x)])] \<Rightarrow> Some x
   | _ \<Rightarrow> None)"

lemma section_text_block [simp]: "section_text (section_block t) = Some t" "section_text (plain_section t) = Some t"
  by (simp_all add: section_text_def section_block_def plain_section_def mrkdwn_def plain_text_def)

text \<open>Bounds: whatever a text block holds, it is rendered as at most 40 sections of at most 2900 characters
  each, and the plain-text fallback of a response has at most 3000; Slack rejects the whole message beyond its limits.\<close>

theorem rendered_text_bounded:
  "length (render_block (TextBlock t style)) \<le> 40 \<and>
   list_all (\<lambda>b. \<exists>x. section_text b = Some x \<and> length x \<le> 2900) (render_block (TextBlock t style)) \<and>
   length (extract_fallback_text r) \<le> 3000"
  using text_chunks_count [of t] text_chunks_count [of "to_slack_markdown t"]
    text_chunk_bound [of _ t] text_chunk_bound [of _ "to_slack_markdown t"]
  by (auto simp: list_all_iff extract_fallback_text_def SLACK_FALLBACK_TEXT_LIMIT_def SLACK_MAX_TEXTBLOCK_CHUNKS_def
      SLACK_SECTION_TEXT_LIMIT_def ellipsis_def split: option.splits)

lemma rstrip_blank: "visible s = [] \<Longrightarrow> rstrip s = []"
  by (auto simp: rstrip_def visible_def filter_empty_conv)

lemma lstrip_blank: "visible s = [] \<Longrightarrow> lstrip s = []"
  by (auto simp: lstrip_def visible_def filter_empty_conv)

text \<open>A long blank text is split into nothing at all, and its block is rendered as no block.\<close>

theorem blank_text_vanishes:
  assumes "visible t = []" "0 < limit" "limit < length t"
  shows "split_text_for_slack t limit = []"
proof -
  have "visible (take i t) = []" "visible (drop i t) = []" for i
    using assms(1) visible_append [of "take i t" "drop i t"] by auto
  then have "rstrip (take i t) = []" "lstrip (drop i t) = []" for i
    by (auto intro: rstrip_blank lstrip_blank)
  moreover have "split_loop limit [] = []" by (subst split_loop.simps) simp
  ultimately show ?thesis using assms(2,3) by (simp add: split_text_for_slack_def split_loop.simps [of limit t] Let_def)
qed

lemma markdown_sample:
  "to_slack_markdown (''# Title'' @ newline @ ''**b** [l](u)'') = ''*Title*'' @ newline @ ''*b* <u|l>''"
  by code_simp

text \<open>A bold heading is converted twice, and Slack is shown its asterisks.\<close>

theorem bold_heading_doubled:
  "to_slack_markdown ''# **Summary**'' = ''**Summary**'' \<and> to_slack_markdown ''**Summary**'' = ''*Summary*''"
  by code_simp

lemma sub_all_id: "(\<And>l c r. c \<in> set s \<Longrightarrow> m l (c # r) = None) \<Longrightarrow> sub_all m f l s = s"
  by (induction s arbitrary: l) auto

lemma plain_text_kept:
  "CHR ''#'' \<notin> set s \<Longrightarrow> CHR ''*'' \<notin> set s \<Longrightarrow> CHR ''['' \<notin> set s \<Longrightarrow> to_slack_markdown s = s"
  unfolding to_slack_markdown_def heading_sub_def bold_sub_def link_sub_def
  by (subst sub_all_id, fastforce simp: heading_match_def)
    (subst sub_all_id, fastforce simp: bold_match_def, subst sub_all_id, auto simp: link_match_def Let_def)

end
