(* ===== verification/SlackConnector.thy ===== *)
theory SlackConnector
  imports SlackRender
begin

text \<open>
  The Slack connector (\<^verbatim>\<open>connectors/slack/connector.py\<close>): normalisation of events and clicks,
  the thinking placeholder, the delivery of responses, the limit on error replies and the life of
  approval buttons.

  \<open>_handle_with_thinking\<close> is a coroutine. It is modelled by the segments between its awaits:
  \<open>start_handling\<close> runs to the first await, \<open>resume_call\<close> and \<open>resume_handler\<close> from the answer of
  one await to the next, so that the handlings of several events can be interleaved. \<open>drive\<close> runs one
  handling to its end. Slack, the clock and the orchestrator are arguments; the fields of an event
  are those the connector reads, \<open>None\<close> for one that is absent. Log records are left out.
\<close>

section \<open>Slack\<close>

datatype slack_call =
    PostMessage string "string option" string "json list option"
  | UpdateMessage string string string "json list option"
  | DeleteMessage string string
  | PublishHome string "json list"

text \<open>A left result is the exception of a call; a right one is the \<open>ts\<close> of its answer.\<close>

type_synonym slack_result = "string + string option"

record slack_event =
  ev_subtype :: "string option"
  ev_bot_id :: "string option"
  ev_user :: "string option"
  ev_text :: "string option"
  ev_channel :: "string option"
  ev_ts :: "string option"
  ev_thread_ts :: "string option"

record slack_action =
  sa_action_id :: "string option"
  sa_value :: "string option"

datatype channel_field = ChannelObject "string option" | ChannelName string

record action_body =
  bd_actions :: "slack_action list"
  bd_channel :: channel_field
  bd_user_id :: "string option"
  bd_message_ts :: "string option"
  bd_message_thread_ts :: "string option"

text \<open>A request with the \<open>ts\<close> of the message its raw event carries.\<close>

record slack_request =
  sq_request :: NormalizedRequest
  sq_message_ts :: "string option"

section \<open>State\<close>

record connector =
  bot_user_id :: "string option"
  error_timestamps :: "(string, pyfloat list) dict"
  thread_approval_msg :: "(string, string \<times> string) dict"
  approval_in_flight :: "string pyset"

definition connector_init :: connector where
  "connector_init = \<lparr>bot_user_id = None, error_timestamps = [], thread_approval_msg = [], approval_in_flight = []\<rparr>"

definition ERROR_WINDOW_S :: pyfloat where "ERROR_WINDOW_S = 60"
definition ERROR_MAX_PER_WINDOW :: nat where "ERROR_MAX_PER_WINDOW = 3"

definition IGNORED_MESSAGE_SUBTYPES :: "string list" where
  "IGNORED_MESSAGE_SUBTYPES = [''bot_message'', ''message_changed'', ''message_deleted'', ''channel_join'',
     ''channel_leave'', ''group_join'', ''group_leave'', ''channel_topic'', ''channel_purpose'', ''channel_name'',
     ''channel_archive'', ''channel_unarchive'']"

text \<open>\<open>start\<close> learns the bot's own user id.\<close>

definition connector_start :: "string option \<Rightarrow> connector \<Rightarrow> connector" where
  "connector_start user_id c = c\<lparr>bot_user_id := user_id\<rparr>"

section \<open>Normalisation\<close>

definition should_ignore :: "connector \<Rightarrow> slack_event \<Rightarrow> bool" where
  "should_ignore c ev =
     (if (case ev_subtype ev of Some s \<Rightarrow> s \<in> set IGNORED_MESSAGE_SUBTYPES | None \<Rightarrow> False) then True
      else if truthy (ev_bot_id ev) then True
      else truthy (bot_user_id c) \<and> ev_user ev = bot_user_id c)"

definition or_opt :: "string option \<Rightarrow> string option \<Rightarrow> string option" where
  "or_opt x y = (if truthy x then x else y)"

definition opt_str :: "string option \<Rightarrow> string" where
  "opt_str x = (case x of Some s \<Rightarrow> s | None \<Rightarrow> [])"

definition normalize :: "string \<Rightarrow> slack_event \<Rightarrow> slack_request" where
  "normalize rid ev = \<lparr>sq_request = \<lparr>nr_text = opt_str (ev_text ev), nr_user_id = opt_str (ev_user ev),
     nr_channel_id = opt_str (ev_channel ev), nr_source = ''slack'', nr_request_id = rid,
     nr_thread_ts = or_opt (ev_thread_ts ev) (ev_ts ev), nr_action = None\<rparr>, sq_message_ts = None\<rparr>"

definition normalize_action :: "string \<Rightarrow> action_body \<Rightarrow> slack_request" where
  "normalize_action rid b =
     (let a = (case bd_actions b of x # xs \<Rightarrow> x | [] \<Rightarrow> \<lparr>sa_action_id = None, sa_value = None\<rparr>) in
      \<lparr>sq_request = \<lparr>nr_text = opt_str (sa_value a), nr_user_id = opt_str (bd_user_id b),
         nr_channel_id = (case bd_channel b of ChannelObject i \<Rightarrow> opt_str i | ChannelName s \<Rightarrow> s),
         nr_source = ''slack'', nr_request_id = rid, nr_thread_ts = or_opt (bd_message_thread_ts b) (bd_message_ts b),
         nr_action = Some \<lparr>ap_action_id = opt_str (sa_action_id a), ap_value = opt_str (sa_value a)\<rparr>\<rparr>,
       sq_message_ts = bd_message_ts b\<rparr>)"

section \<open>Error replies and approval prompts\<close>

definition is_error_rate_limited :: "pyfloat \<Rightarrow> string \<Rightarrow> connector \<Rightarrow> bool \<times> connector" where
  "is_error_rate_limited now ch c =
     (let ts = filter (\<lambda>t. now - t < ERROR_WINDOW_S) (dict_default (error_timestamps c) ch []) @ [now]
      in (length ts > ERROR_MAX_PER_WINDOW, c\<lparr>error_timestamps := dict_set ch ts (error_timestamps c)\<rparr>))"

fun approval_block :: "ResponseBlock \<Rightarrow> bool" where
  "approval_block (ActionBlock bs) = list_ex (\<lambda>b. ab_action_id b = action_id_value APPROVE_WRITE) bs"
| "approval_block _ = False"

definition is_approval_prompt :: "RichResponse \<Rightarrow> bool" where
  "is_approval_prompt r = list_ex approval_block (ri_blocks r)"

definition APPROVAL_CLICK_UI :: "(string, string \<times> string) dict" where
  "APPROVAL_CLICK_UI = [(action_id_value APPROVE_WRITE, ('':white_check_mark:'', ''Approved '' @ em_dash @ '' executing'')),
     (action_id_value DENY_WRITE, ('':x:'', ''Denied''))]"

definition approval_click_ui :: "NormalizedRequest \<Rightarrow> (string \<times> string) option" where
  "approval_click_ui req = (case nr_action req of None \<Rightarrow> None | Some a \<Rightarrow> dict_get APPROVAL_CLICK_UI (ap_action_id a))"

definition approval_click_outcome :: "NormalizedRequest \<Rightarrow> string" where
  "approval_click_outcome req = (case approval_click_ui req of Some ui \<Rightarrow> snd ui | None \<Rightarrow> [])"

definition is_approval_click :: "NormalizedRequest \<Rightarrow> bool" where
  "is_approval_click req = (case nr_action req of
     Some a \<Rightarrow> ap_action_id a \<in> {action_id_value APPROVE_WRITE, action_id_value DENY_WRITE} | None \<Rightarrow> False)"

definition click_key :: "NormalizedRequest \<Rightarrow> string" where
  "click_key req = or_str (nr_thread_ts req) (nr_channel_id req @ '':'' @ nr_request_id req)"

section \<open>The segments of a handling\<close>

datatype site =
    ClickUpdate
  | Thinking
  | Cleanup
  | Supersede "string option" RichResponse
  | Replace string RichResponse
  | Post RichResponse

datatype handling =
    Calling site slack_call
  | Handling "string option"
  | Returned
  | Escaped string

definition or_ellipsis :: "string \<Rightarrow> string" where
  "or_ellipsis t = (if t \<noteq> [] then t else ellipsis)"

definition blocks_arg :: "json list \<Rightarrow> json list option" where
  "blocks_arg bs = (if bs \<noteq> [] then Some bs else None)"

definition post_thinking :: "NormalizedRequest \<Rightarrow> handling" where
  "post_thinking req = Calling Thinking
     (PostMessage (nr_channel_id req) (nr_thread_ts req) (''Thinking'' @ ellipsis) (Some thinking_blocks))"

text \<open>The \<open>finally\<close> clause releases the slot of an approval click.\<close>

definition finish :: "NormalizedRequest \<Rightarrow> handling \<Rightarrow> connector \<Rightarrow> handling \<times> connector" where
  "finish req h c =
     (h, if is_approval_click req then c\<lparr>approval_in_flight := set_discard (click_key req) (approval_in_flight c)\<rparr> else c)"

definition update_clicked_approval :: "slack_request \<Rightarrow> slack_call option" where
  "update_clicked_approval sq = (case approval_click_ui (sq_request sq) of
     None \<Rightarrow> None
   | Some (icon, outcome) \<Rightarrow>
      if truthy (sq_message_ts sq)
      then Some (UpdateMessage (nr_channel_id (sq_request sq)) (the (sq_message_ts sq)) (icon @ '' '' @ outcome)
        (Some [section_block (icon @ '' _'' @ outcome @ ''_'')]))
      else None)"

definition consume_click :: "NormalizedRequest \<Rightarrow> connector \<Rightarrow> connector" where
  "consume_click req c = c\<lparr>thread_approval_msg := dict_pop (click_key req) (thread_approval_msg c)\<rparr>"

definition start_handling :: "slack_request \<Rightarrow> connector \<Rightarrow> handling \<times> connector" where
  "start_handling sq c =
     (let req = sq_request sq; k = click_key req in
      if is_approval_click req then
        if k \<in> set (approval_in_flight c) then (Returned, c)
        else (let c1 = c\<lparr>approval_in_flight := set_add k (approval_in_flight c)\<rparr> in
          case update_clicked_approval sq of
            Some call \<Rightarrow> (Calling ClickUpdate call, c1)
          | None \<Rightarrow> (post_thinking req, consume_click req c1))
      else (post_thinking req, c))"

text \<open>Steps 5 and 6: replace the placeholder, or post a new message.\<close>

definition post_response :: "NormalizedRequest \<Rightarrow> string option \<Rightarrow> RichResponse \<Rightarrow> handling" where
  "post_response req th r = Calling (Post r)
     (PostMessage (nr_channel_id req) th (or_ellipsis (extract_fallback_text r)) (blocks_arg (slack_render r)))"

definition deliver :: "NormalizedRequest \<Rightarrow> string option \<Rightarrow> RichResponse \<Rightarrow> handling" where
  "deliver req ts r =
     (if truthy ts then Calling (Replace (the ts) r) (UpdateMessage (nr_channel_id req) (the ts)
        (or_ellipsis (extract_fallback_text r)) (blocks_arg (slack_render r)))
      else post_response req (nr_thread_ts req) r)"

definition SUPERSEDED :: string where
  "SUPERSEDED = ''Superseded '' @ em_dash @ '' see newer approval prompt below''"

definition supersede_call :: "string \<times> string \<Rightarrow> slack_call" where
  "supersede_call prior = UpdateMessage (fst prior) (snd prior) SUPERSEDED
     (Some [section_block ('':arrow_down: _'' @ SUPERSEDED @ ''._'')])"

definition clean_placeholder :: "NormalizedRequest \<Rightarrow> string option \<Rightarrow> connector \<Rightarrow> handling \<times> connector" where
  "clean_placeholder req ts c =
     (if truthy ts then (Calling Cleanup (DeleteMessage (nr_channel_id req) (the ts)), c) else finish req Returned c)"

text \<open>Step 7: remember a posted approval prompt.\<close>

definition record_prompt :: "NormalizedRequest \<Rightarrow> RichResponse \<Rightarrow> string option \<Rightarrow> connector \<Rightarrow> connector" where
  "record_prompt req r ts c =
     (if is_approval_prompt r \<and> truthy ts
      then c\<lparr>thread_approval_msg := dict_set (click_key req) (nr_channel_id req, the ts) (thread_approval_msg c)\<rparr> else c)"

definition apply_approval_lifecycle :: "NormalizedRequest \<Rightarrow> string option \<Rightarrow> RichResponse \<Rightarrow> connector \<Rightarrow> handling \<times> connector" where
  "apply_approval_lifecycle req ts r c =
     (if suppress_post r then clean_placeholder req ts c
      else if is_approval_prompt r then
        (let c1 = consume_click req c in
         case dict_get (thread_approval_msg c) (click_key req) of
           Some prior \<Rightarrow> (Calling (Supersede ts r) (supersede_call prior), c1)
         | None \<Rightarrow> (deliver req ts r, c1))
      else (deliver req ts r, c))"

fun resume_handler ::
  "pyfloat \<Rightarrow> NormalizedRequest \<Rightarrow> string option \<Rightarrow> string + RichResponse \<Rightarrow> connector \<Rightarrow> handling \<times> connector" where
  "resume_handler now req ts (Inl t) c = finish req (Escaped t) c"
| "resume_handler now req ts (Inr r) c =
     (if ri_error_category r \<noteq> None then
        (case is_error_rate_limited now (nr_channel_id req) c of
           (True, c1) \<Rightarrow> clean_placeholder req ts c1
         | (False, c1) \<Rightarrow> apply_approval_lifecycle req ts r c1)
      else apply_approval_lifecycle req ts r c)"

text \<open>A failed update posts a new message, without the thread.\<close>

fun resume_call :: "NormalizedRequest \<Rightarrow> site \<Rightarrow> slack_result \<Rightarrow> connector \<Rightarrow> handling \<times> connector" where
  "resume_call req ClickUpdate res c = (post_thinking req, consume_click req c)"
| "resume_call req Thinking res c = (Handling (case res of Inr ts \<Rightarrow> ts | Inl t \<Rightarrow> None), c)"
| "resume_call req Cleanup res c = finish req Returned c"
| "resume_call req (Supersede ts r) res c = (deliver req ts r, c)"
| "resume_call req (Replace ts r) res c = (case res of
     Inr _ \<Rightarrow> finish req Returned (record_prompt req r (Some ts) c)
   | Inl _ \<Rightarrow> (post_response req None r, c))"
| "resume_call req (Post r) res c =
     finish req Returned (record_prompt req r (case res of Inr ts \<Rightarrow> ts | Inl t \<Rightarrow> None) c)"

text \<open>The status callback passed to the orchestrator.\<close>

definition on_status :: "NormalizedRequest \<Rightarrow> string option \<Rightarrow> string \<Rightarrow> slack_call option" where
  "on_status req ts status =
     (if truthy ts then Some (UpdateMessage (nr_channel_id req) (the ts) status
        (Some [section_block ('':hourglass_flowing_sand: *'' @ status @ ''*'')])) else None)"

section \<open>One handling from start to end\<close>

record 'w slack_env =
  sl_call :: "slack_call \<Rightarrow> 'w \<Rightarrow> slack_result \<times> 'w"
  sl_handler :: "NormalizedRequest \<Rightarrow> 'w \<Rightarrow> (string + RichResponse) \<times> 'w"
  sl_now :: "'w \<Rightarrow> pyfloat"

fun rank :: "handling \<Rightarrow> nat" where
  "rank (Calling ClickUpdate call) = 7"
| "rank (Calling Thinking call) = 6"
| "rank (Handling ts) = 5"
| "rank (Calling (Supersede ts r) call) = 4"
| "rank (Calling (Replace ts r) call) = 3"
| "rank (Calling (Post r) call) = 2"
| "rank (Calling Cleanup call) = 1"
| "rank Returned = 0"
| "rank (Escaped t) = 0"

lemma rank_deliver [simp]: "rank (deliver req ts r) \<le> 3" "rank (post_response req th r) = 2"
  by (simp_all add: deliver_def post_response_def)

lemma rank_lifecycle [simp]: "rank (fst (apply_approval_lifecycle req ts r c)) < 5"
  by (auto simp: apply_approval_lifecycle_def clean_placeholder_def finish_def Let_def split: option.split
      intro: le_less_trans [OF rank_deliver(1)])

lemma rank_resume_handler: "rank (fst (resume_handler now req ts res c)) < 5"
  by (cases res) (auto simp: finish_def clean_placeholder_def split: prod.split bool.split)

lemma rank_resume_call: "rank (fst (resume_call req site res c)) < rank (Calling site call)"
  by (cases site) (auto simp: finish_def post_thinking_def le_imp_less_Suc less_Suc_eq_le numeral_eq_Suc
      split: sum.split intro: order_trans [OF rank_deliver(1)])

lemma rank_resumed:
  "(h, c1) = resume_call req site res c \<Longrightarrow> rank h < rank (Calling site call)"
  "(h, c1) = resume_handler now req ts res' c \<Longrightarrow> rank h < 5"
  using rank_resume_call [of req site res c call] rank_resume_handler [of now req ts res' c] by (metis fst_conv)+

text \<open>Every await of a handling brings it nearer its end.\<close>

function drive :: "'w slack_env \<Rightarrow> slack_request \<Rightarrow> handling \<Rightarrow> connector \<Rightarrow> 'w \<Rightarrow> handling \<times> connector \<times> 'w" where
  "drive e sq (Calling site call) c w = (case sl_call e call w of
     (res, w1) \<Rightarrow> (case resume_call (sq_request sq) site res c of (h, c1) \<Rightarrow> drive e sq h c1 w1))"
| "drive e sq (Handling ts) c w = (case sl_handler e (sq_request sq) w of
     (res, w1) \<Rightarrow> (case resume_handler (sl_now e w1) (sq_request sq) ts res c of (h, c1) \<Rightarrow> drive e sq h c1 w1))"
| "drive e sq Returned c w = (Returned, c, w)"
| "drive e sq (Escaped t) c w = (Escaped t, c, w)"
  by pat_completeness auto

termination
  by (relation "measure (\<lambda>(e, sq, h, c, w). rank h)") (auto dest: rank_resumed)

definition handle_with_thinking :: "'w slack_env \<Rightarrow> slack_request \<Rightarrow> connector \<Rightarrow> 'w \<Rightarrow> handling \<times> connector \<times> 'w" where
  "handle_with_thinking e sq c w = (case start_handling sq c of (h, c1) \<Rightarrow> drive e sq h c1 w)"

text \<open>The listeners: messages and mentions, clicks, and the App Home tab, whose failure is ignored.\<close>

definition on_event :: "'w slack_env \<Rightarrow> string \<Rightarrow> slack_event \<Rightarrow> connector \<Rightarrow> 'w \<Rightarrow> handling \<times> connector \<times> 'w" where
  "on_event e rid ev c w = (if should_ignore c ev then (Returned, c, w) else handle_with_thinking e (normalize rid ev) c w)"

definition on_action :: "'w slack_env \<Rightarrow> string \<Rightarrow> action_body \<Rightarrow> connector \<Rightarrow> 'w \<Rightarrow> handling \<times> connector \<times> 'w" where
  "on_action e rid b c w = handle_with_thinking e (normalize_action rid b) c w"

definition on_app_home :: "'w slack_env \<Rightarrow> string \<Rightarrow> 'w \<Rightarrow> 'w" where
  "on_app_home e user_id w = snd (sl_call e (PublishHome user_id build_home_blocks) w)"

section \<open>Interleaved handlings\<close>

text \<open>
  The connector with the handlings that wait for an answer. A handling arrives, or one of the
  waiting ones is resumed with any answer; it stays in the list only while it waits.
\<close>

record slack_system =
  sy_connector :: connector
  sy_tasks :: "(slack_request \<times> handling) list"

fun waits :: "handling \<Rightarrow> bool" where
  "waits (Calling site call) = True"
| "waits (Handling ts) = True"
| "waits Returned = False"
| "waits (Escaped t) = False"

definition put_task :: "slack_request \<Rightarrow> handling \<times> connector \<Rightarrow> (slack_request \<times> handling) list \<Rightarrow> slack_system" where
  "put_task sq hc ts = \<lparr>sy_connector = snd hc, sy_tasks = (if waits (fst hc) then (sq, fst hc) # ts else ts)\<rparr>"

inductive slack_step :: "slack_system \<Rightarrow> slack_system \<Rightarrow> bool" where
  arrive: "slack_step s (put_task sq (start_handling sq (sy_connector s)) (sy_tasks s))"
| call_answered: "sy_tasks s = xs @ (sq, Calling site call) # ys \<Longrightarrow>
    slack_step s (put_task sq (resume_call (sq_request sq) site res (sy_connector s)) (xs @ ys))"
| handler_answered: "sy_tasks s = xs @ (sq, Handling ts) # ys \<Longrightarrow>
    slack_step s (put_task sq (resume_handler now (sq_request sq) ts res (sy_connector s)) (xs @ ys))"

definition slack_init :: slack_system where
  "slack_init = \<lparr>sy_connector = connector_init, sy_tasks = []\<rparr>"

definition slack_reachable :: "slack_system \<Rightarrow> bool" where
  "slack_reachable s = slack_step\<^sup>*\<^sup>* slack_init s"

text \<open>The threads of the approval clicks that are being handled.\<close>

definition clicks_of :: "(slack_request \<times> handling) list \<Rightarrow> string list" where
  "clicks_of ts = map (click_key \<circ> sq_request \<circ> fst) (filter (is_approval_click \<circ> sq_request \<circ> fst) ts)"

abbreviation live_clicks :: "slack_system \<Rightarrow> string list" where
  "live_clicks s \<equiv> clicks_of (sy_tasks s)"

definition slots_ok :: "slack_system \<Rightarrow> bool" where
  "slots_ok s = (distinct (approval_in_flight (sy_connector s)) \<and> distinct (live_clicks s) \<and>
     set (live_clicks s) = set (approval_in_flight (sy_connector s)))"

text \<open>What one segment does to the slots: nothing while the handling goes on, its release at the end.\<close>

definition slots_after :: "NormalizedRequest \<Rightarrow> connector \<Rightarrow> handling \<times> connector \<Rightarrow> bool" where
  "slots_after req c hc = (approval_in_flight (snd hc) =
     (if waits (fst hc) \<or> \<not> is_approval_click req then approval_in_flight c
      else set_discard (click_key req) (approval_in_flight c)))"

lemma in_flight_simps [simp]:
  "approval_in_flight (consume_click req c) = approval_in_flight c"
  "approval_in_flight (record_prompt req r ts c) = approval_in_flight c"
  "waits (deliver req ts r)" "waits (post_response req th r)" "waits (post_thinking req)"
  by (simp_all add: consume_click_def record_prompt_def deliver_def post_response_def post_thinking_def)

lemma in_flight_limited: "is_error_rate_limited now ch c = (b, c1) \<Longrightarrow> approval_in_flight c1 = approval_in_flight c"
  by (auto simp: is_error_rate_limited_def Let_def)

lemma slots_finish: "\<not> waits h \<Longrightarrow> approval_in_flight c' = approval_in_flight c \<Longrightarrow> slots_after req c (finish req h c')"
  by (simp add: slots_after_def finish_def)

lemma slots_clean: "approval_in_flight c' = approval_in_flight c \<Longrightarrow> slots_after req c (clean_placeholder req ts c')"
  using slots_finish [of Returned c' c req] by (simp add: clean_placeholder_def slots_after_def)

lemma slots_lifecycle:
  "approval_in_flight c' = approval_in_flight c \<Longrightarrow> slots_after req c (apply_approval_lifecycle req ts r c')"
  using slots_clean [of c' c req ts]
  by (auto simp: apply_approval_lifecycle_def Let_def slots_after_def split: option.split)

lemma slots_resume_handler: "slots_after req c (resume_handler now req ts res c)"
  by (cases res) (auto intro!: slots_finish slots_clean slots_lifecycle in_flight_limited split: prod.split bool.split)

lemma slots_resume_call: "slots_after req c (resume_call req site res c)"
  by (cases site) (auto simp: slots_after_def finish_def split: sum.split)

lemma slots_start:
  "waits (fst (start_handling sq c)) \<and> is_approval_click (sq_request sq) \<Longrightarrow>
     click_key (sq_request sq) \<notin> set (approval_in_flight c) \<and>
     approval_in_flight (snd (start_handling sq c)) = set_add (click_key (sq_request sq)) (approval_in_flight c)"
  "\<not> (waits (fst (start_handling sq c)) \<and> is_approval_click (sq_request sq)) \<Longrightarrow> snd (start_handling sq c) = c"
  by (auto simp: start_handling_def Let_def split: if_splits option.splits)

lemma clicks_of_simps [simp]:
  "clicks_of [] = []" "clicks_of (xs @ ys) = clicks_of xs @ clicks_of ys"
  "clicks_of (t # ts) = (if is_approval_click (sq_request (fst t)) then [click_key (sq_request (fst t))] else []) @ clicks_of ts"
  by (simp_all add: clicks_of_def)

lemma put_task_simps [simp]:
  "live_clicks (put_task sq hc ts) =
     (if waits (fst hc) \<and> is_approval_click (sq_request sq) then [click_key (sq_request sq)] else []) @ clicks_of ts"
  "sy_connector (put_task sq hc ts) = snd hc"
  by (simp_all add: put_task_def)

lemma slots_resumed:
  assumes "slots_ok s" "sy_tasks s = xs @ (sq, h) # ys" "slots_after (sq_request sq) (sy_connector s) hc"
  shows "slots_ok (put_task sq hc (xs @ ys))"
  using assms unfolding slots_ok_def slots_after_def
  by (auto simp: pyset_simps set_discard_def distinct_removeAll split: if_splits)

lemma slack_step_slots: "slack_step s s' \<Longrightarrow> slots_ok s \<Longrightarrow> slots_ok s'"
proof (induction rule: slack_step.induct)
  case (arrive s sq)
  then show ?case
  proof (cases "waits (fst (start_handling sq (sy_connector s))) \<and> is_approval_click (sq_request sq)")
    case True
    then show ?thesis using slots_start(1) [OF True] arrive by (auto simp: slots_ok_def set_add_def)
  next
    case False
    then show ?thesis using slots_start(2) [OF False] arrive by (auto simp: slots_ok_def)
  qed
next
  case (call_answered s xs sq site call ys res)
  then show ?case using slots_resumed [OF _ _ slots_resume_call] by blast
next
  case (handler_answered s xs sq ts ys now res)
  then show ?case using slots_resumed [OF _ _ slots_resume_handler] by blast
qed

lemma slack_reachable_slots: "slack_reachable s \<Longrightarrow> slots_ok s"
  unfolding slack_reachable_def
proof (induction rule: rtranclp_induct)
  case base
  then show ?case by (simp add: slots_ok_def slack_init_def connector_init_def)
next
  case (step y z)
  then show ?case using slack_step_slots by blast
qed

text \<open>C34: Whatever way the handlings of events interleave, at most one approval click per thread is being
  handled, the slots in use are exactly those of the clicks being handled, and when nothing is
  handled every slot is free: no failure leaves the buttons of a thread dead.\<close>

theorem one_click_per_thread:
  assumes "slack_reachable s"
  shows "distinct (clicks_of (sy_tasks s)) \<and> set (approval_in_flight (sy_connector s)) = set (clicks_of (sy_tasks s)) \<and>
    (sy_tasks s = [] \<longrightarrow> approval_in_flight (sy_connector s) = [])"
  using slack_reachable_slots [OF assms] by (auto simp: slots_ok_def)

section \<open>Failures of Slack\<close>

definition handler_returns :: "'w slack_env \<Rightarrow> bool" where
  "handler_returns e = (\<forall>req w. \<not> isl (fst (sl_handler e req w)))"

lemma escaped_resume_call: "fst (resume_call req site res c) \<noteq> Escaped t"
  by (cases site) (auto simp: finish_def post_thinking_def post_response_def deliver_def split: sum.split)

lemma escaped_resume_handler: "fst (resume_handler now req ts (Inr r) c) \<noteq> Escaped t"
  by (auto simp: finish_def clean_placeholder_def apply_approval_lifecycle_def deliver_def post_response_def Let_def
      split: prod.split bool.split option.split)

lemma drive_returns: "handler_returns e \<Longrightarrow> (\<And>t. h \<noteq> Escaped t) \<Longrightarrow> fst (drive e sq h c w) = Returned"
proof (induction e sq h c w rule: drive.induct)
  case (1 e sq site call c w)
  obtain res w1 where r: "sl_call e call w = (res, w1)" by fastforce
  obtain h c1 where h: "resume_call (sq_request sq) site res c = (h, c1)" by fastforce
  have "h \<noteq> Escaped t" for t using escaped_resume_call [of "sq_request sq" site res c t] h by auto
  then show ?case using 1(1) [OF r [symmetric] h [symmetric]] 1(2) r h by simp
next
  case (2 e sq ts c w)
  obtain res w1 where r: "sl_handler e (sq_request sq) w = (res, w1)" by fastforce
  obtain h c1 where h: "resume_handler (sl_now e w1) (sq_request sq) ts res c = (h, c1)" by fastforce
  obtain resp where "res = Inr resp" using 2(2) r unfolding handler_returns_def by (metis fst_conv isl_def sum.collapse)
  then have "h \<noteq> Escaped t" for t using escaped_resume_handler [of _ "sq_request sq" ts resp c t] h by (metis fst_conv)
  then show ?case using 2(1) [OF r [symmetric] h [symmetric]] 2(2) r h by simp
qed auto

lemma start_not_escaped: "fst (start_handling sq c) \<noteq> Escaped t"
  by (auto simp: start_handling_def post_thinking_def Let_def split: option.split)

text \<open>C35: Errors: no failure of Slack leaves the handling of an event: whichever posts, updates and deletions
  fail, it returns, as long as the orchestrator's handler does.\<close>

theorem slack_failures_contained:
  assumes "handler_returns e"
  shows "fst (handle_with_thinking e sq c w) = Returned"
  using drive_returns [OF assms] start_not_escaped [of sq c]
  by (auto simp: handle_with_thinking_def split: prod.splits)

section \<open>One call of the orchestrator\<close>

text \<open>A meter counts the calls of the orchestrator's handler.\<close>

definition handler_metered :: "'w slack_env \<Rightarrow> ('w \<Rightarrow> nat) \<Rightarrow> bool" where
  "handler_metered e cnt = ((\<forall>req w. cnt (snd (sl_handler e req w)) = Suc (cnt w)) \<and>
     (\<forall>call w. cnt (snd (sl_call e call w)) = cnt w))"

fun handler_ahead :: "handling \<Rightarrow> nat" where
  "handler_ahead (Handling ts) = 1"
| "handler_ahead (Calling site call) = (if site = ClickUpdate \<or> site = Thinking then 1 else 0)"
| "handler_ahead Returned = 0"
| "handler_ahead (Escaped t) = 0"

lemma ahead_deliver [simp]: "handler_ahead (deliver req ts r) = 0" "handler_ahead (post_response req th r) = 0"
  "handler_ahead (post_thinking req) = 1"
  by (simp_all add: deliver_def post_response_def post_thinking_def)

lemma ahead_resume_call: "handler_ahead (fst (resume_call req site res c)) = handler_ahead (Calling site call)"
  by (cases site) (auto simp: finish_def split: sum.split)

lemma ahead_resume_handler: "handler_ahead (fst (resume_handler now req ts res c)) = 0"
  by (cases res) (auto simp: finish_def clean_placeholder_def apply_approval_lifecycle_def Let_def
      split: prod.split bool.split option.split)

lemma drive_metered: "handler_metered e cnt \<Longrightarrow> cnt (snd (snd (drive e sq h c w))) = cnt w + handler_ahead h"
proof (induction e sq h c w rule: drive.induct)
  case (1 e sq site call c w)
  obtain res w1 where r: "sl_call e call w = (res, w1)" by fastforce
  obtain h c1 where h: "resume_call (sq_request sq) site res c = (h, c1)" by fastforce
  have "cnt w1 = cnt w" using 1(2) r unfolding handler_metered_def by (metis snd_conv)
  then show ?case
    using 1(1) [OF r [symmetric] h [symmetric] 1(2)] ahead_resume_call [of "sq_request sq" site res c call] r h by simp
next
  case (2 e sq ts c w)
  obtain res w1 where r: "sl_handler e (sq_request sq) w = (res, w1)" by fastforce
  obtain h c1 where h: "resume_handler (sl_now e w1) (sq_request sq) ts res c = (h, c1)" by fastforce
  have "cnt w1 = Suc (cnt w)" using 2(2) r unfolding handler_metered_def by (metis snd_conv)
  then show ?case
    using 2(1) [OF r [symmetric] h [symmetric] 2(2)]
      ahead_resume_handler [of "sl_now e w1" "sq_request sq" ts res c] r h by simp
qed simp_all

text \<open>The orchestrator is called exactly once for every request, and not at all for a second click on the
  buttons of a thread whose first click is still being handled.\<close>

theorem handler_called_once:
  assumes "handler_metered e cnt"
  shows "cnt (snd (snd (handle_with_thinking e sq c w))) = cnt w +
    (if is_approval_click (sq_request sq) \<and> click_key (sq_request sq) \<in> set (approval_in_flight c) then 0 else 1)"
proof -
  have "handler_ahead (fst (start_handling sq c)) =
    (if is_approval_click (sq_request sq) \<and> click_key (sq_request sq) \<in> set (approval_in_flight c) then 0 else 1)"
    by (auto simp: start_handling_def Let_def split: option.split)
  then show ?thesis
    using drive_metered [OF assms] by (cases "start_handling sq c") (simp add: handle_with_thinking_def)
qed

section \<open>The limit on error replies\<close>

text \<open>Errors of one channel at the times \<open>ts\<close>: the times of those that are shown.\<close>

fun shown_errors :: "string \<Rightarrow> pyfloat list \<Rightarrow> connector \<Rightarrow> pyfloat list" where
  "shown_errors ch [] c = []"
| "shown_errors ch (t # ts) c = (case is_error_rate_limited t ch c of
     (limited, c1) \<Rightarrow> (if limited then [] else [t]) @ shown_errors ch ts c1)"

definition recent :: "pyfloat \<Rightarrow> pyfloat list \<Rightarrow> pyfloat list" where
  "recent t ts = filter (\<lambda>x. t - x < ERROR_WINDOW_S) ts"

lemma recent_recent: "t \<le> t' \<Longrightarrow> recent t' (recent t ts) = recent t' ts"
  by (auto simp: recent_def ERROR_WINDOW_S_def intro!: filter_cong)

lemma recent_self [simp]: "recent t (ts @ [t]) = recent t ts @ [t]" "recent t (t # ts) = t # recent t ts"
  by (simp_all add: recent_def ERROR_WINDOW_S_def)

lemma limited_step:
  "is_error_rate_limited t ch c = (length (recent t (dict_default (error_timestamps c) ch []) @ [t]) > ERROR_MAX_PER_WINDOW,
     c\<lparr>error_timestamps := dict_set ch (recent t (dict_default (error_timestamps c) ch []) @ [t]) (error_timestamps c)\<rparr>)"
  by (simp add: is_error_rate_limited_def recent_def Let_def)

text \<open>The errors shown in the window of \<open>T\<close>, when \<open>old\<close> are the stored times and they include all shown before.\<close>

lemma shown_errors_window:
  "\<lbrakk>sorted_wrt (\<le>) ts; \<forall>x\<in>set old. \<forall>y\<in>set ts. x \<le> y; dict_default (error_timestamps c) ch [] = old;
    length (filter (\<lambda>x. T - ERROR_WINDOW_S < x \<and> x \<le> T) shown) \<le> ERROR_MAX_PER_WINDOW;
    \<And>t. t \<in> set ts \<Longrightarrow> t \<le> T \<Longrightarrow> length (filter (\<lambda>x. T - ERROR_WINDOW_S < x \<and> x \<le> T) shown) \<le> length (recent t old)\<rbrakk>
   \<Longrightarrow> length (filter (\<lambda>x. T - ERROR_WINDOW_S < x \<and> x \<le> T) (shown @ shown_errors ch ts c)) \<le> ERROR_MAX_PER_WINDOW"
proof (induction ts arbitrary: c old shown)
  case (Cons t ts)
  let ?P = "\<lambda>x. T - ERROR_WINDOW_S < x \<and> x \<le> T"
  let ?new = "recent t old @ [t]"
  define lim where "lim = (length ?new > ERROR_MAX_PER_WINDOW)"
  define c1 where "c1 = c\<lparr>error_timestamps := dict_set ch ?new (error_timestamps c)\<rparr>"
  define shown' where "shown' = (if lim then shown else shown @ [t])"
  have step: "is_error_rate_limited t ch c = (lim, c1)"
    using limited_step [of t ch c] unfolding Cons.prems(3) lim_def c1_def by blast
  have d: "dict_default (error_timestamps c1) ch [] = ?new" by (simp add: c1_def dict_default_def dict_simps)
  have later: "t \<le> y" if "y \<in> set ts" for y using Cons.prems(1) that by simp
  have bound: "length (filter ?P shown') \<le> length (recent t old) + (if ?P t then 1 else 0)" if "t \<le> T"
    using Cons.prems(5) [of t] that by (auto simp: shown'_def)
  have "length (filter ?P shown') \<le> ERROR_MAX_PER_WINDOW"
  proof (cases "lim \<or> \<not> ?P t")
    case True
    then show ?thesis using Cons.prems(4) by (auto simp: shown'_def)
  next
    case False
    then show ?thesis using bound by (auto simp: lim_def)
  qed
  moreover have "length (filter ?P shown') \<le> length (recent t' ?new)" if "t' \<in> set ts" "t' \<le> T" for t'
  proof -
    have tt: "t \<le> t'" "t \<le> T" using later [OF that(1)] that(2) by auto
    have old: "length (filter ?P shown) \<le> length (recent t' old)" using Cons.prems(5) [of t'] that by simp
    have "recent t' ?new = recent t' old @ (if t' - t < ERROR_WINDOW_S then [t] else [])"
      using recent_recent [OF tt(1), of old] by (simp add: recent_def)
    moreover have "?P t \<Longrightarrow> t' - t < ERROR_WINDOW_S" using that(2) by (simp add: ERROR_WINDOW_S_def)
    ultimately show ?thesis using old by (auto simp: shown'_def)
  qed
  moreover have "\<forall>x\<in>set ?new. \<forall>y\<in>set ts. x \<le> y" using Cons.prems(2) later by (auto simp: recent_def)
  moreover have "sorted_wrt (\<le>) ts" using Cons.prems(1) by simp
  ultimately have "length (filter ?P (shown' @ shown_errors ch ts c1)) \<le> ERROR_MAX_PER_WINDOW"
    using Cons.IH [of ?new c1 shown'] d by blast
  then show ?case by (cases lim) (auto simp: step shown'_def)
qed simp

text \<open>Bounds: however often the backend fails, a channel is shown at most three errors in any window of 60
  seconds.\<close>

theorem error_replies_bounded:
  assumes "sorted_wrt (\<le>) ts" "dict_get (error_timestamps c) ch = None"
  shows "length (filter (\<lambda>x. T - 60 < x \<and> x \<le> T) (shown_errors ch ts c)) \<le> 3"
  using shown_errors_window [OF assms(1), of "[]" c ch T "[]"] assms(2)
  by (simp add: dict_default_def ERROR_MAX_PER_WINDOW_def ERROR_WINDOW_S_def)

section \<open>Approval prompts\<close>

text \<open>
  A click on a message of Slack: the body names the button, the channel and the message; a
  message posted in a thread carries that thread.
\<close>

definition click_body :: "ActionButton \<Rightarrow> string \<Rightarrow> string \<Rightarrow> string option \<Rightarrow> string \<Rightarrow> action_body" where
  "click_body b user_id ch thread ts = \<lparr>bd_actions = [\<lparr>sa_action_id = Some (ab_action_id b), sa_value = Some (ab_value b)\<rparr>],
     bd_channel = ChannelObject (Some ch), bd_user_id = Some user_id, bd_message_ts = Some ts, bd_message_thread_ts = thread\<rparr>"

text \<open>A click on a button in the thread of an event comes back as the button's action and value, under the
  very key of the conversation, both for the orchestrator and for the connector.\<close>

theorem click_normalized:
  assumes "nr_thread_ts (sq_request (normalize rid ev)) = Some th" "th \<noteq> []"
  shows "nr_action (sq_request (normalize_action rid' (click_body b u ch (Some th) ts))) =
      Some \<lparr>ap_action_id = ab_action_id b, ap_value = ab_value b\<rparr> \<and>
    thread_key (sq_request (normalize_action rid' (click_body b u ch (Some th) ts))) = thread_key (sq_request (normalize rid ev)) \<and>
    click_key (sq_request (normalize_action rid' (click_body b u ch (Some th) ts))) = click_key (sq_request (normalize rid ev))"
  using assms
  by (simp add: normalize_action_def click_body_def thread_key_def click_key_def or_opt_def or_str_def truthy_def opt_str_def)

text \<open>
  When the placeholder cannot be replaced, the response is posted outside the thread. If it is an
  approval prompt, a click on it carries the prompt's own \<open>ts\<close> as its thread, a key under which
  the orchestrator has nothing pending.
\<close>

theorem failed_update_leaves_thread:
  "resume_call req (Replace ts r) (Inl t) c = (post_response req None r, c)"
  "ts' \<noteq> [] \<Longrightarrow> thread_key (sq_request (normalize_action rid (click_body b u ch None ts'))) = ts'"
  by (simp_all add: normalize_action_def click_body_def thread_key_def or_opt_def or_str_def truthy_def)

text \<open>Slack answers every call with the same \<open>ts\<close>.\<close>

definition slack_works :: "'w slack_env \<Rightarrow> string \<Rightarrow> bool" where
  "slack_works e ts = (ts \<noteq> [] \<and> (\<forall>call w. fst (sl_call e call w) = Inr (Some ts)))"

lemma works_call:
  assumes "slack_works e ts"
  shows "sl_call e call w = (Inr (Some ts), snd (sl_call e call w))"
  using assms unfolding slack_works_def by (metis prod.collapse)

lemma drive_placeholder:
  assumes "slack_works e ts"
  shows "\<exists>w'. drive e sq (post_thinking req) c w = drive e sq (Handling (Some ts)) c w'"
  unfolding post_thinking_def drive.simps(1) by (subst works_call [OF assms]) auto

lemma drive_deliver:
  assumes "slack_works e ts"
  shows "\<exists>w'. drive e sq (deliver (sq_request sq) (Some ts) r) c w =
    (fst (finish (sq_request sq) Returned (record_prompt (sq_request sq) r (Some ts) c)),
     snd (finish (sq_request sq) Returned (record_prompt (sq_request sq) r (Some ts) c)), w')"
proof -
  have t: "truthy (Some ts)" using assms by (simp add: truthy_def slack_works_def)
  show ?thesis unfolding deliver_def if_P [OF t] drive.simps(1)
    by (subst works_call [OF assms]) (simp add: finish_def)
qed

lemma drive_lifecycle:
  assumes "slack_works e ts" "is_approval_prompt r" "\<not> suppress_post r"
    "apply_approval_lifecycle (sq_request sq) (Some ts) r c = (h, c1)"
  shows "\<exists>c' w'. drive e sq h c1 w = (Returned, c', w') \<and>
    dict_get (thread_approval_msg c') (click_key (sq_request sq)) = Some (nr_channel_id (sq_request sq), ts)"
proof -
  let ?c = "snd (finish (sq_request sq) Returned (record_prompt (sq_request sq) r (Some ts) c1))"
  have c: "dict_get (thread_approval_msg ?c) (click_key (sq_request sq)) = Some (nr_channel_id (sq_request sq), ts)"
    using assms(1,2) by (simp add: finish_def record_prompt_def truthy_def slack_works_def dict_simps)
  consider "h = deliver (sq_request sq) (Some ts) r" | prior where "h = Calling (Supersede (Some ts) r) (supersede_call prior)"
    using assms(2-4) by (auto simp: apply_approval_lifecycle_def Let_def split: option.splits)
  then show ?thesis
  proof cases
    case 1
    then show ?thesis using drive_deliver [OF assms(1), of sq r c1 w] c by (auto simp: finish_def)
  next
    case 2
    obtain res w1 where "sl_call e (supersede_call prior) w = (res, w1)" by fastforce
    then show ?thesis using 2 drive_deliver [OF assms(1), of sq r c1 w1] c by (auto simp: finish_def)
  qed
qed

text \<open>Once an approval prompt is answered to a message, and Slack does what it is asked, the prompt the
  connector remembers for the thread is that very message; the prompt before it, if any, has been
  marked as superseded and forgotten.\<close>

theorem prompt_remembered:
  assumes "slack_works e ts" "nr_action (sq_request sq) = None"
    and "\<And>w. fst (sl_handler e (sq_request sq) w) = Inr r"
    and "is_approval_prompt r" "\<not> suppress_post r" "ri_error_category r = None"
  shows "\<exists>c' w'. handle_with_thinking e sq c w = (Returned, c', w') \<and>
    dict_get (thread_approval_msg c') (click_key (sq_request sq)) = Some (nr_channel_id (sq_request sq), ts)"
proof -
  have "start_handling sq c = (post_thinking (sq_request sq), c)"
    using assms(2) by (simp add: start_handling_def is_approval_click_def)
  then obtain w1 where w1: "handle_with_thinking e sq c w = drive e sq (Handling (Some ts)) c w1"
    using drive_placeholder [OF assms(1)] by (metis (no_types, lifting) handle_with_thinking_def case_prod_conv)
  obtain w2 where w2: "sl_handler e (sq_request sq) w1 = (Inr r, w2)" using assms(3) by (metis prod.collapse)
  obtain h c1 where h: "apply_approval_lifecycle (sq_request sq) (Some ts) r c = (h, c1)" by fastforce
  have "handle_with_thinking e sq c w = drive e sq h c1 w2" using w1 w2 h assms(6) by simp
  then show ?thesis using drive_lifecycle [OF assms(1,4,5) h] by simp
qed

section \<open>Sample runs\<close>

definition approve_button :: ActionButton where
  "approve_button = \<lparr>ab_label = ''Approve'', ab_action_id = action_id_value APPROVE_WRITE, ab_value = ''v'', ab_style = None\<rparr>"

definition sample_prompt :: RichResponse where
  "sample_prompt = \<lparr>ri_channel_id = ''C1'', ri_thread_ts = None, ri_blocks = [ActionBlock [approve_button]],
     ri_error_category = None, suppress_post = False\<rparr>"

text \<open>The world counts the calls of the handler; \<open>up\<close> says whether Slack answers.\<close>

definition slack_sample :: "bool \<Rightarrow> nat slack_env" where
  "slack_sample up = \<lparr>sl_call = (\<lambda>call n. (if up then Inr (Some ''9'') else Inl ''down'', n)),
     sl_handler = (\<lambda>req n. (Inr sample_prompt, Suc n)), sl_now = (\<lambda>n. 0)\<rparr>"

definition sample_event :: slack_event where
  "sample_event = \<lparr>ev_subtype = None, ev_bot_id = None, ev_user = Some ''U1'', ev_text = Some ''hi'', ev_channel = Some ''C1'',
     ev_ts = Some ''7'', ev_thread_ts = None\<rparr>"

definition sample_click :: slack_request where
  "sample_click = normalize_action ''r2'' (click_body approve_button ''U1'' ''C1'' (Some ''7'') ''9'')"

lemma sample_click_simps [simp]:
  "is_approval_click (sq_request sample_click)" "click_key (sq_request sample_click) = ''7''"
  "nr_action (sq_request (normalize r ev)) = None" "click_key (sq_request (normalize ''r1'' sample_event)) = ''7''"
  "nr_channel_id (sq_request (normalize ''r1'' sample_event)) = ''C1''"
  by (simp_all add: sample_click_def normalize_action_def normalize_def click_body_def approve_button_def is_approval_click_def
      click_key_def or_opt_def or_str_def truthy_def opt_str_def sample_event_def)

lemma slack_sample_simps [simp]:
  "sl_call (slack_sample up) call n = (if up then Inr (Some ''9'') else Inl ''down'', n)"
  "sl_handler (slack_sample up) req n = (Inr sample_prompt, Suc n)"
  "is_approval_prompt sample_prompt" "suppress_post sample_prompt = False" "ri_error_category sample_prompt = None"
  by (simp_all add: slack_sample_def sample_prompt_def is_approval_prompt_def approve_button_def)

lemma one_click_per_thread_witness:
  "distinct (clicks_of (sy_tasks (put_task sample_click (start_handling sample_click connector_init) []))) \<and>
     set (approval_in_flight (sy_connector (put_task sample_click (start_handling sample_click connector_init) []))) =
     set (clicks_of (sy_tasks (put_task sample_click (start_handling sample_click connector_init) [])))"
proof -
  have "slack_step slack_init (put_task sample_click (start_handling sample_click connector_init) [])"
    using slack_step.arrive [of slack_init sample_click] by (simp add: slack_init_def)
  then have "slack_reachable (put_task sample_click (start_handling sample_click connector_init) [])"
    unfolding slack_reachable_def by blast
  from one_click_per_thread [OF this] show ?thesis by blast
qed

lemma slack_failures_contained_witness:
  "fst (handle_with_thinking (slack_sample False) sample_click connector_init 0) = Returned"
  by (rule slack_failures_contained) (simp add: handler_returns_def)

lemma handler_called_once_witness:
  "snd (snd (handle_with_thinking (slack_sample True) sample_click connector_init 0)) = 1"
  using handler_called_once [of "slack_sample True" "\<lambda>n. n" sample_click connector_init 0]
  by (simp add: handler_metered_def connector_init_def)

lemma error_replies_bounded_witness:
  "length (filter (\<lambda>x. 61 - 60 < x \<and> x \<le> 61) (shown_errors ''C1'' [0, 10, 20, 30, 61] connector_init)) \<le> 3"
  by (rule error_replies_bounded) (simp_all add: connector_init_def dict_get_def)

lemma click_normalized_witness:
  "thread_key (sq_request sample_click) = thread_key (sq_request (normalize ''r1'' sample_event))"
  using click_normalized [of "''r1''" sample_event "''7''" "''r2''" approve_button "''U1''" "''C1''" "''9''"]
  by (simp add: sample_click_def normalize_def sample_event_def or_opt_def truthy_def)

lemma prompt_remembered_witness:
  "\<exists>c' w'. handle_with_thinking (slack_sample True) (normalize ''r1'' sample_event) connector_init 0 = (Returned, c', w') \<and>
     dict_get (thread_approval_msg c') ''7'' = Some (''C1'', ''9'')"
  using prompt_remembered [of "slack_sample True" "''9''" "normalize ''r1'' sample_event" sample_prompt connector_init 0]
  by (simp add: slack_works_def)

end
