(* ===== verification/SlackFinalization.thy ===== *)
theory SlackFinalization
  imports SlackConnector FinalizationActions
begin

text \<open>
  Slack notices about finalised work (\<^verbatim>\<open>connectors/slack/finalization.py\<close>): the review message
  with its buttons, results of actions, progress and failures. A renderer posts at most one
  message and swallows its failure; a notice without a channel posts none.
\<close>

section \<open>The review message of the orchestrator\<close>

definition FENCE_OVERHEAD :: nat where "FENCE_OVERHEAD = 16"
definition BUILD_PREVIEW_SECTION_COUNT :: nat where "BUILD_PREVIEW_SECTION_COUNT = 4"
definition BUILD_PREVIEW_LIMIT :: nat where "BUILD_PREVIEW_LIMIT = SLACK_SECTION_TEXT_LIMIT * BUILD_PREVIEW_SECTION_COUNT"
definition ACTION_FALLBACK_TEXT_LIMIT :: nat where "ACTION_FALLBACK_TEXT_LIMIT = 200"

definition FENCE :: string where "FENCE = ''```''"

definition review_buttons :: "string \<Rightarrow> ActionButton list" where
  "review_buttons wid = [
     \<lparr>ab_label = ''Push & PR'', ab_action_id = action_id_value FINALIZATION_PUSH_PR, ab_value = wid, ab_style = Some ''primary''\<rparr>,
     \<lparr>ab_label = ''Iterate'', ab_action_id = action_id_value FINALIZATION_ITERATE, ab_value = wid, ab_style = None\<rparr>,
     \<lparr>ab_label = ''Discard'', ab_action_id = action_id_value FINALIZATION_DISCARD, ab_value = wid, ab_style = Some ''danger''\<rparr>]"

definition build_present_work_response :: "string \<Rightarrow> string option \<Rightarrow> string \<Rightarrow> string \<Rightarrow> string \<Rightarrow> RichResponse" where
  "build_present_work_response ch thread wid summary diff =
     \<lparr>ri_channel_id = ch, ri_thread_ts = thread,
      ri_blocks = [markdown (''*Sub-agent work ready for review*'' @ newline @ newline @ summary @
          (if diff \<noteq> [] then newline @ newline @ FENCE @ ''diff'' @ newline @ take BUILD_PREVIEW_LIMIT diff @ newline @ FENCE else [])),
        ActionBlock (review_buttons wid)],
      ri_error_category = None, suppress_post = False\<rparr>"

section \<open>Blocks\<close>

definition text_section_blocks :: "string \<Rightarrow> json list" where
  "text_section_blocks t = (if t = [] then []
     else map section_block (take SLACK_MAX_TEXTBLOCK_CHUNKS (split_text_for_slack t SLACK_SECTION_TEXT_LIMIT)))"

definition code_fence_section_blocks :: "string \<Rightarrow> string \<Rightarrow> json list" where
  "code_fence_section_blocks body language = (if body = [] then []
     else map (\<lambda>chunk. section_block (FENCE @ language @ newline @ chunk @ newline @ FENCE))
       (take SLACK_MAX_TEXTBLOCK_CHUNKS (split_text_for_slack body (SLACK_SECTION_TEXT_LIMIT - FENCE_OVERHEAD))))"

definition ACTION_ICONS :: "(string, string) dict" where
  "ACTION_ICONS = [(''push_branch'', '':arrow_up:''), (''push_and_create_pr'', '':arrows_counterclockwise:''),
     (''discard_work'', '':wastebasket:''), (''re_delegate'', '':repeat:''), (''destroy_sandbox'', '':boom:'')]"

section \<open>The renderer\<close>

definition notice :: "WorkflowContext \<Rightarrow> string \<Rightarrow> json list option \<Rightarrow> slack_call option" where
  "notice ctx t bs = (case wf_channel_id ctx of
     None \<Rightarrow> None | Some ch \<Rightarrow> Some (PostMessage ch (wf_thread_ts ctx) (or_ellipsis t) bs))"

definition work_notice :: "WorkflowContext \<Rightarrow> string \<Rightarrow> string \<Rightarrow> slack_call option" where
  "work_notice ctx summary diff = notice ctx summary
     (Some (text_section_blocks ('':robot_face: *Sub-agent work ready for review*'' @ newline @ newline @ summary) @
        (if diff \<noteq> [] then code_fence_section_blocks diff ''diff'' else []) @
        [button_actions (review_buttons (wf_id ctx))]))"

definition action_notice :: "WorkflowContext \<Rightarrow> string \<Rightarrow> string \<Rightarrow> slack_call option" where
  "action_notice ctx action result = notice ctx (action @ '': '' @ take ACTION_FALLBACK_TEXT_LIMIT result)
     (Some (text_section_blocks (dict_default ACTION_ICONS action '':information_source:'' @ '' *'' @ action @ ''*'') @
        code_fence_section_blocks result []))"

definition progress_notice :: "WorkflowContext \<Rightarrow> TaskProgressPayload \<Rightarrow> slack_call option" where
  "progress_notice ctx p = (case pg_note p of
     None \<Rightarrow> None | Some note \<Rightarrow> notice ctx ('':hourglass_flowing_sand: '' @ note) None)"

definition error_notice :: "WorkflowContext \<Rightarrow> TaskErrorPayload \<Rightarrow> slack_call option" where
  "error_notice ctx p = notice ctx (te_error p)
     (Some (text_section_blocks ('':warning: *Sub-agent reported an error* (`'' @ kind_value (te_error_kind p) @
          ''`, recoverable='' @ py_repr_json (JBool (te_recoverable p)) @ '')'') @
        code_fence_section_blocks (te_error p) []))"

definition failure_notice :: "WorkflowContext \<Rightarrow> string \<Rightarrow> slack_call option" where
  "failure_notice ctx err = notice ctx err
     (Some (text_section_blocks ('':x: *Finalisation failed for workflow '' @ wf_id ctx @ ''*'') @
        code_fence_section_blocks err [] @
        text_section_blocks (''_The sub-agent'' @ SQ @ ''s diff is on disk; you can inspect the workspace manually._'')))"

definition post_notice :: "'w slack_env \<Rightarrow> slack_call option \<Rightarrow> 'w \<Rightarrow> 'w" where
  "post_notice e n w = (case n of None \<Rightarrow> w | Some call \<Rightarrow> snd (sl_call e call w))"

section \<open>Sizes\<close>

definition fits :: "json \<Rightarrow> bool" where
  "fits b = (case section_text b of Some x \<Rightarrow> length x \<le> SLACK_SECTION_TEXT_LIMIT | None \<Rightarrow> True)"

lemma text_sections_fit: "b \<in> set (text_section_blocks t) \<Longrightarrow> fits b"
  using split_text_chunk [of _ t SLACK_SECTION_TEXT_LIMIT]
  by (auto simp: text_section_blocks_def fits_def SLACK_SECTION_TEXT_LIMIT_def split: if_splits dest: in_set_takeD)

lemma fence_sections_fit: "length language \<le> 8 \<Longrightarrow> b \<in> set (code_fence_section_blocks body language) \<Longrightarrow> fits b"
proof -
  assume l: "length language \<le> 8" and b: "b \<in> set (code_fence_section_blocks body language)"
  then obtain chunk where c: "chunk \<in> set (split_text_for_slack body 2884)"
    "b = section_block (FENCE @ language @ newline @ chunk @ newline @ FENCE)"
    by (auto simp: code_fence_section_blocks_def SLACK_SECTION_TEXT_LIMIT_def FENCE_OVERHEAD_def split: if_splits dest: in_set_takeD)
  then have "length chunk \<le> 2884" using split_text_chunk [of chunk body 2884] by simp
  then show "fits b" using l c(2) by (simp add: fits_def SLACK_SECTION_TEXT_LIMIT_def FENCE_def newline_def)
qed

lemma actions_fit: "fits (button_actions bs)"
  by (simp add: fits_def section_text_def button_actions_def)

lemma section_counts:
  "length (text_section_blocks t) \<le> 40" "length (code_fence_section_blocks body language) \<le> 40"
  by (simp_all add: text_section_blocks_def code_fence_section_blocks_def SLACK_MAX_TEXTBLOCK_CHUNKS_def)

definition notice_blocks :: "slack_call option \<Rightarrow> json list" where
  "notice_blocks n = (case n of Some (PostMessage ch th t (Some bs)) \<Rightarrow> bs | _ \<Rightarrow> [])"

text \<open>Bounds: in every notice about a workflow, whatever the summary, diff, result or error holds, no section
  is longer than Slack accepts, code fences included.\<close>

theorem notices_fit:
  "list_all fits (notice_blocks (work_notice ctx summary diff)) \<and>
   list_all fits (notice_blocks (action_notice ctx action result)) \<and>
   list_all fits (notice_blocks (error_notice ctx p)) \<and>
   list_all fits (notice_blocks (failure_notice ctx err))"
  using text_sections_fit fence_sections_fit [of "''diff''"] fence_sections_fit [of "[]"] actions_fit
  by (auto simp: list_all_iff notice_blocks_def notice_def work_notice_def action_notice_def error_notice_def failure_notice_def
      split: option.splits if_splits)

text \<open>The number of blocks is not bounded by Slack's limit of 50: a long summary and a long diff give 81.\<close>

lemma length_visible_concat: "(\<And>x. x \<in> set xs \<Longrightarrow> length x \<le> n) \<Longrightarrow> length (visible (concat xs)) \<le> n * length xs"
proof (induction xs)
  case (Cons x xs)
  have "length (visible x) \<le> length x" by (simp add: visible_def)
  also have "length x \<le> n" using Cons.prems by simp
  finally show ?case using Cons by simp
qed (simp add: visible_def)

lemma split_count: "0 < limit \<Longrightarrow> length (visible t) \<le> limit * length (split_text_for_slack t limit)"
  using length_visible_concat [of "split_text_for_slack t limit" limit] split_text_chunk [of _ t limit] split_text_visible [of limit t]
  by fastforce

theorem work_notice_oversized:
  assumes "wf_channel_id ctx = Some ch" "length (visible summary) > 39 * 2900" "length (visible diff) > 39 * 2884"
  shows "length (notice_blocks (work_notice ctx summary diff)) = 81"
proof -
  let ?h = "'':robot_face: *Sub-agent work ready for review*'' @ newline @ newline @ summary"
  have "length (visible summary) \<le> length (visible ?h)" unfolding visible_append length_append by linarith
  then have "40 \<le> length (split_text_for_slack ?h 2900)"
    using split_count [of 2900 ?h] assms(2) by linarith
  moreover have "40 \<le> length (split_text_for_slack diff 2884)"
    using split_count [of 2884 diff] assms(3) by linarith
  moreover have "diff \<noteq> []" using assms(3) by (auto simp: visible_def)
  ultimately show ?thesis
    by (simp add: notice_blocks_def work_notice_def notice_def assms(1) text_section_blocks_def code_fence_section_blocks_def
        SLACK_SECTION_TEXT_LIMIT_def FENCE_OVERHEAD_def SLACK_MAX_TEXTBLOCK_CHUNKS_def)
qed

section \<open>From the button to the workflow\<close>

lemma click_request:
  assumes "sq = normalize_action rid (click_body b u ch th ts)"
  shows "nr_action (sq_request sq) = Some \<lparr>ap_action_id = ab_action_id b, ap_value = ab_value b\<rparr>"
  using assms by (simp add: normalize_action_def click_body_def opt_str_def)

text \<open>C37: The buttons of a review message reach their workflow: a click on any of them, as Slack reports it and
  the connector normalises it, is a finalisation action of that workflow; Push & PR and Discard run their
  operation on it, Iterate makes the next message of the thread its feedback.\<close>

theorem review_click_dispatched:
  assumes "b \<in> set (review_buttons wid)" "get_workflow (ac_dispatcher s) wid = Some ctx"
    and "wf_id ctx = wid" "req = sq_request (normalize_action rid (click_body b u ch th ts))"
  shows "is_finalization_action req \<and> \<not> is_approval_click req \<and>
    handle_action e req s =
      (if ab_action_id b = action_id_value FINALIZATION_PUSH_PR then
         (case handle_push_pr e req ctx (ac_dispatcher s) of (r, d) \<Rightarrow> (r, s\<lparr>ac_dispatcher := d\<rparr>))
       else if ab_action_id b = action_id_value FINALIZATION_DISCARD then
         (case handle_discard e req ctx (ac_dispatcher s) of (r, d) \<Rightarrow> (r, s\<lparr>ac_dispatcher := d\<rparr>))
       else (Inr (fst (handle_iterate req ctx s)), s\<lparr>ac_pending := dict_set (thread_key req) wid (ac_pending s)\<rparr>))"
proof -
  have a: "nr_action req = Some \<lparr>ap_action_id = ab_action_id b, ap_value = wid\<rparr>"
    using assms(1) click_request [OF refl, of rid b u ch th ts] by (auto simp: assms(4) review_buttons_def)
  consider "ab_action_id b = ''finalization_push_pr''" | "ab_action_id b = ''finalization_discard''" | "ab_action_id b = ''finalization_iterate''"
    using assms(1) by (auto simp: review_buttons_def)
  then show ?thesis
    using a assms(2,3)
    by cases (simp_all add: is_finalization_action_def is_approval_click_def handle_action_def handle_iterate_def)
qed

section \<open>A sample\<close>

definition iterate_request :: NormalizedRequest where
  "iterate_request = sq_request (normalize_action ''r'' (click_body (review_buttons ''wf-1'' ! 1) ''U1'' ''C1'' None ''9''))"

lemma review_click_dispatched_witness:
  "is_finalization_action iterate_request \<and>
   ac_pending (snd (handle_action disp_sample_env iterate_request \<lparr>ac_dispatcher = disp_sample_start, ac_pending = [], ac_request = None\<rparr>)) =
     dict_set (thread_key iterate_request) ''wf-1'' []"
proof -
  have i: "wf_id fin_context = ''wf-1''" by (simp add: fin_context_def)
  have b: "review_buttons ''wf-1'' ! 1 \<in> set (review_buttons ''wf-1'')"
    "ab_action_id (review_buttons ''wf-1'' ! 1) = ''finalization_iterate''" by (simp_all add: review_buttons_def)
  show ?thesis
    using review_click_dispatched [OF b(1), of "\<lparr>ac_dispatcher = disp_sample_start, ac_pending = [], ac_request = None\<rparr>"
        fin_context, OF _ i iterate_request_def, of disp_sample_env] b(2)
    by (simp add: disp_sample_get)
qed

end
