(* ===== verification/SubAgent.thy ===== *)
theory SubAgent
  imports ToolFactory Dispatcher PromptBuilder
begin

text \<open>
  The coding sub-agent's process (\<^verbatim>\<open>agent/__main__.py\<close>): one task from the command line or from a
  \<open>task.assign\<close> message, run by the agent loop with the coding tools, answered by one
  \<open>task.complete\<close> or \<open>task.error\<close>.

  The tools and the model act on \<open>sub_world\<close>: the audit buffer the loop writes to, the git
  effects, and the rest of the outside world. An exception carries what the process reads of it: its
  class name, whether it is a timeout, and its text. Log records are left out.
\<close>

section \<open>Exceptions\<close>

datatype agent_exn =
    MaxTurnsExceeded int int nat string
  | OtherExn string bool string

fun exn_class :: "agent_exn \<Rightarrow> string" where
  "exn_class (MaxTurnsExceeded m r k s) = ''MaxTurnsExceededError''"
| "exn_class (OtherExn c t s) = c"

fun exn_text :: "agent_exn \<Rightarrow> string" where
  "exn_text (MaxTurnsExceeded m r k s) = ''max_tool_rounds='' @ int_str m @ '' exceeded after '' @ int_str r @
     '' rounds, '' @ nat_str k @ '' tool calls''"
| "exn_text (OtherExn c t s) = s"

fun classify_error :: "agent_exn \<Rightarrow> TaskErrorKind" where
  "classify_error (MaxTurnsExceeded m r k s) = MAX_TURNS_EXCEEDED"
| "classify_error (OtherExn c timeout s) =
     (if timeout then TOOL_FAILURE
      else if contains_str c ''Inference'' \<or> contains_str c ''Backend'' then INFERENCE_ERROR
      else if contains_str c ''Approval'' \<or> contains_str c ''Policy'' then POLICY_DENIED
      else OTHER_ERROR)"

fun is_recoverable :: "agent_exn \<Rightarrow> bool" where
  "is_recoverable (MaxTurnsExceeded m r k s) = True"
| "is_recoverable (OtherExn c t s) = False"

section \<open>State and environment\<close>

record 'w sub_world =
  sw_buffer :: AuditBuffer
  sw_fx :: "effect list"
  sw_rest :: 'w

record sub_config =
  sc_workspace_root :: string
  sc_git_hosts :: string
  sc_skills_enabled :: bool
  sc_skills_dir :: string
  sc_loop :: AgentLoopConfig
  sc_sandbox_id :: string

datatype outgoing = SendError TaskErrorPayload | SendComplete TaskCompletePayload | SendAudit string AuditFlushPayload

record 'w sub_env =
  sb_infer :: "'w sub_world backend"
  sb_factory :: "'w sub_world factory_env"
  sb_git :: git_env
  sb_expand :: "string \<Rightarrow> agent_exn + string"
  sb_mkdir :: "string \<Rightarrow> 'w sub_world \<Rightarrow> agent_exn option \<times> 'w sub_world"
  sb_yaml :: "string \<Rightarrow> json option"
  sb_skill_files :: "string \<Rightarrow> skill_file list option"
  sb_is_file :: "string \<Rightarrow> bool"
  sb_read_text :: "string \<Rightarrow> string + string"
  sb_exn :: "string \<Rightarrow> agent_exn"
  sb_factory_exn :: "factory_error \<Rightarrow> agent_exn"
  sb_traceback :: "agent_exn \<Rightarrow> string"
  sb_now :: string
  sb_loads :: "string \<Rightarrow> string + kwargs"
  sb_schedule :: "nat list \<Rightarrow> nat list"
  sb_duration :: "ToolCall \<Rightarrow> pyfloat"
  sb_row_id :: "'w sub_world \<Rightarrow> string"
  sb_float_str :: "pyfloat \<Rightarrow> string"
  sb_write_file :: "string \<Rightarrow> string \<Rightarrow> 'w sub_world \<Rightarrow> 'w sub_world"
  sb_send :: "outgoing \<Rightarrow> 'w sub_world \<Rightarrow> agent_exn option \<times> 'w sub_world"
  sb_connect :: "'w sub_world \<Rightarrow> agent_exn option \<times> 'w sub_world"
  sb_close :: "'w sub_world \<Rightarrow> agent_exn option \<times> 'w sub_world"

record AgentSetupBundle =
  bu_task_id :: string
  bu_agent_id :: string
  bu_parent_agent_id :: string
  bu_task_description :: string
  bu_workspace_root :: string
  bu_source_type :: string

type_synonym ('w, 'a) sub_op = "'w sub_world \<Rightarrow> (agent_exn + 'a) \<times> 'w sub_world"

definition sub_return :: "'a \<Rightarrow> ('w, 'a) sub_op" where "sub_return x w = (Inr x, w)"
definition sub_of :: "agent_exn + 'a \<Rightarrow> ('w, 'a) sub_op" where "sub_of r w = (r, w)"

definition sub_bind :: "('w, 'a) sub_op \<Rightarrow> ('a \<Rightarrow> ('w, 'b) sub_op) \<Rightarrow> ('w, 'b) sub_op" where
  "sub_bind m k w = (case m w of (Inl x, w1) \<Rightarrow> (Inl x, w1) | (Inr a, w1) \<Rightarrow> k a w1)"

section \<open>Assembling the stack\<close>

definition DEFAULT_CODING_PROMPT :: string where "DEFAULT_CODING_PROMPT = ''prompts/coding_agent.md''"

definition load_coding_prompt :: "'w sub_env \<Rightarrow> agent_exn + string" where
  "load_coding_prompt e = (case sb_expand e DEFAULT_CODING_PROMPT of
     Inl x \<Rightarrow> Inl x
   | Inr p \<Rightarrow> (case load_system_prompt (sb_is_file e) (sb_read_text e) p of Inl t \<Rightarrow> Inl (sb_exn e t) | Inr s \<Rightarrow> Inr s))"

definition make_workspace :: "'w sub_env \<Rightarrow> string \<Rightarrow> ('w, string) sub_op" where
  "make_workspace e p w = (case sb_expand e p of
     Inl x \<Rightarrow> (Inl x, w)
   | Inr r \<Rightarrow> (case sb_mkdir e r w of (Some x, w1) \<Rightarrow> (Inl x, w1) | (None, w1) \<Rightarrow> (Inr r, w1)))"

definition coding_skills :: "'w sub_env \<Rightarrow> sub_config \<Rightarrow> agent_exn + skill_table option" where
  "coding_skills e c = (if sc_skills_enabled c then
       (case sb_expand e (sc_skills_dir c) of
          Inl x \<Rightarrow> Inl x | Inr d \<Rightarrow> Inr (Some (scan_skills (sb_yaml e) (sb_skill_files e d) [])))
     else Inr None)"

definition build_tool_registry :: "'w sub_env \<Rightarrow> sub_config \<Rightarrow> AgentSetupBundle \<Rightarrow> ('w, 'w sub_world ToolRegistry) sub_op" where
  "build_tool_registry e c b =
     sub_bind (make_workspace e (bu_workspace_root b)) (\<lambda>wroot.
     sub_bind (sub_of (coding_skills e c)) (\<lambda>loader.
       sub_of (case create_coding_tool_registry (sb_factory e) wroot (sc_git_hosts c) loader of
         Inl err \<Rightarrow> Inl (sb_factory_exn e err) | Inr r \<Rightarrow> Inr r)))"

section \<open>Running one task\<close>

text \<open>The loop's audit sink is the buffer of the process, when it has one.\<close>

definition buffer_sink :: "'w sub_env \<Rightarrow> ToolCallEntry \<Rightarrow> 'w sub_world \<Rightarrow> 'w sub_world" where
  "buffer_sink e entry w = w\<lparr>sw_buffer := fst (buffer_log_tool_call (sb_row_id e w) entry (sw_buffer w))\<rparr>"

definition task_loop :: "'w sub_env \<Rightarrow> 'w sub_world ToolRegistry \<Rightarrow> AgentLoopConfig \<Rightarrow> bool \<Rightarrow> 'w sub_world loop_env" where
  "task_loop e r lc logged = \<lparr>le_infer = sb_infer e, le_registry = r, le_config = lc, le_gate = AutoApproval,
     le_audit = (if logged then Some (buffer_sink e) else None), le_loads = sb_loads e, le_schedule = sb_schedule e,
     le_duration = sb_duration e\<rparr>"

definition task_messages :: "'w sub_env \<Rightarrow> string \<Rightarrow> AgentSetupBundle \<Rightarrow> Message list" where
  "task_messages e identity b = fst (messages_for_inference (sb_now e) (bu_task_id b) (bu_task_description b) (bu_agent_id b)
     (bu_source_type b) []
     (builder_init identity (''Workspace root: '' @ bu_workspace_root b @ newline @ ''Task: '' @ bu_task_description b)
        DEFAULT_MAX_THREAD_HISTORY))"

definition task_start :: "'w \<Rightarrow> 'w loop_state" where
  "task_start w = \<lparr>world = w, surface = [], tool_names = [], executed = []\<rparr>"

text \<open>\<open>AutoApproval\<close> never pauses a run; a pause would be the loop's \<open>WriteApprovalError\<close>.\<close>

definition run_task ::
  "'w sub_env \<Rightarrow> 'w sub_world ToolRegistry \<Rightarrow> string \<Rightarrow> AgentSetupBundle \<Rightarrow> AgentLoopConfig \<Rightarrow> bool \<Rightarrow> ('w, AgentLoopResult) sub_op" where
  "run_task e r identity b lc logged w =
     (case run (task_loop e r lc logged) (task_messages e identity b) (bu_task_id b) None [] (task_start w) of
        (Finished res, st) \<Rightarrow> (Inr res, world st)
      | (NeedsApproval p, st) \<Rightarrow> (Inl (OtherExn ''WriteApprovalError'' False []), world st)
      | (InferenceFailed t, st) \<Rightarrow> (Inl (sb_exn e t), world st))"

section \<open>An assigned task\<close>

definition assigned_bundle :: "TaskAssignPayload \<Rightarrow> AgentSetupBundle" where
  "assigned_bundle t = \<lparr>bu_task_id = ta_workflow_id t, bu_agent_id = ta_agent_id t, bu_parent_agent_id = ta_parent_sandbox_id t,
     bu_task_description = ta_prompt t, bu_workspace_root = ta_workspace_root t, bu_source_type = SOURCE_AGENT\<rparr>"

text \<open>\<open>dataclasses.replace\<close> with the fields the task pins.\<close>

definition task_loop_config :: "TaskAssignPayload \<Rightarrow> AgentLoopConfig \<Rightarrow> AgentLoopConfig" where
  "task_loop_config t lc =
     (let lc1 = (case ta_max_turns t of Some n \<Rightarrow> lc\<lparr>max_tool_rounds := n\<rparr> | None \<Rightarrow> lc)
      in (case ta_model t of Some m \<Rightarrow> lc1\<lparr>cfg_model := m\<rparr> | None \<Rightarrow> lc1))"

definition compute_baseline_diff :: "'w sub_env \<Rightarrow> TaskAssignPayload \<Rightarrow> ('w, string) sub_op" where
  "compute_baseline_diff e t w = (case ta_baseline t of
     None \<Rightarrow> (Inr [], w)
   | Some b \<Rightarrow> (case diff_against_baseline (sb_git e) (ta_workspace_root t) (base_sha b) (sw_fx w) of
       (Inr diff, fx) \<Rightarrow> (Inr diff, w\<lparr>sw_fx := fx\<rparr>)
     | (Inl (NotAGitRepo p), fx) \<Rightarrow> (Inr [], w\<lparr>sw_fx := fx\<rparr>)
     | (Inl (GitDiffError m), fx) \<Rightarrow> (Inr [], w\<lparr>sw_fx := fx\<rparr>)
     | (Inl (GitRuntimeError m), fx) \<Rightarrow> (Inl (OtherExn ''RuntimeError'' False m), w\<lparr>sw_fx := fx\<rparr>)
     | (Inl GitValidationError, fx) \<Rightarrow> (Inl (OtherExn ''ValidationError'' False []), w\<lparr>sw_fx := fx\<rparr>)))"

definition complete_of :: "TaskAssignPayload \<Rightarrow> AgentLoopConfig \<Rightarrow> AgentLoopResult \<Rightarrow> string \<Rightarrow> TaskCompletePayload" where
  "complete_of t lc res diff = \<lparr>cp_workflow_id = ta_workflow_id t,
     cp_summary = (if ar_content res \<noteq> [] then ar_content res else ''(empty response)''), cp_diff = diff,
     cp_baseline = ta_baseline t, cp_files_changed = [], cp_notes_path = None, cp_git_commit_sha = None,
     cp_tool_calls_made = int (tool_calls_made res), cp_rounds_used = rounds res, cp_model_used = Some (cfg_model lc),
     cp_suggested_next_step = None\<rparr>"

text \<open>A completion that breaks its field constraints would be pydantic's error.\<close>

definition finish_task :: "'w sub_env \<Rightarrow> TaskAssignPayload \<Rightarrow> AgentLoopConfig \<Rightarrow> AgentLoopResult \<Rightarrow> ('w, TaskCompletePayload) sub_op" where
  "finish_task e t lc res =
     (if hit_safety_limit res
      then sub_of (Inl (MaxTurnsExceeded (max_tool_rounds lc) (rounds res) (tool_calls_made res) (ar_content res)))
      else sub_bind (compute_baseline_diff e t) (\<lambda>diff.
        sub_of (if complete_valid (complete_of t lc res diff) then Inr (complete_of t lc res diff)
          else Inl (OtherExn ''ValidationError'' False []))))"

definition run_assigned_task :: "'w sub_env \<Rightarrow> sub_config \<Rightarrow> TaskAssignPayload \<Rightarrow> ('w, TaskCompletePayload) sub_op" where
  "run_assigned_task e c t =
     (let b = assigned_bundle t; lc = task_loop_config t (sc_loop c) in
      sub_bind (make_workspace e (ta_workspace_root t)) (\<lambda>_.
      sub_bind (build_tool_registry e c b) (\<lambda>r.
      sub_bind (sub_of (load_coding_prompt e)) (\<lambda>identity.
      sub_bind (run_task e r identity b lc True) (finish_task e t lc)))))"

section \<open>Replies\<close>

definition validation_error :: "string \<Rightarrow> string \<Rightarrow> TaskErrorPayload" where
  "validation_error message_id problem = \<lparr>te_workflow_id = message_id,
     te_error = ''task.assign payload validation failed: '' @ problem, te_error_kind = OTHER_ERROR, te_recoverable = False,
     te_notes_path = None, te_traceback = None\<rparr>"

definition error_of :: "'w sub_env \<Rightarrow> TaskAssignPayload \<Rightarrow> agent_exn \<Rightarrow> TaskErrorPayload" where
  "error_of e t x = \<lparr>te_workflow_id = ta_workflow_id t, te_error = exn_class x @ '': '' @ exn_text x,
     te_error_kind = classify_error x, te_recoverable = is_recoverable x, te_notes_path = None,
     te_traceback = Some (sb_traceback e x)\<rparr>"

text \<open>The lines of the JSONL fallback, their keys sorted.\<close>

definition opt_json :: "('a \<Rightarrow> json) \<Rightarrow> 'a option \<Rightarrow> json" where
  "opt_json f x = (case x of Some y \<Rightarrow> f y | None \<Rightarrow> JNull)"

definition call_json :: "(pyfloat \<Rightarrow> string) \<Rightarrow> AuditToolCallPayload \<Rightarrow> json" where
  "call_json fs p = JObj [(''approval_status'', opt_json JStr (p_approval_status p)),
     (''approval_time_ms'', opt_json (JFloat \<circ> fs) (p_approval_time_ms p)), (''approved_by'', opt_json JStr (p_approved_by p)),
     (''args'', JStr (p_args p)), (''command'', JStr (p_command p)), (''duration_ms'', JFloat (fs (p_duration_ms p))),
     (''error_code'', opt_json JStr (p_error_code p)), (''error_message'', opt_json JStr (p_error_message p)),
     (''exit_code'', opt_json JInt (p_exit_code p)), (''id'', JStr (p_id p)), (''operation_type'', JStr (p_operation_type p)),
     (''response_payload'', JStr (p_response_payload p)), (''service'', JStr (p_service p)), (''success'', JBool (p_success p))]"

definition jsonl_row :: "(pyfloat \<Rightarrow> string) \<Rightarrow> AuditBuffer \<Rightarrow> AuditToolCallPayload \<Rightarrow> json" where
  "jsonl_row fs b p = JObj [(''agent_id'', JStr (ab_agent_id b)), (''agent_role'', JStr (ab_agent_role b)),
     (''parent_sandbox_id'', JStr (ab_parent_sandbox_id b)), (''tool_call'', call_json fs p), (''workflow_id'', JStr (ab_workflow_id b))]"

definition jsonl_text :: "(pyfloat \<Rightarrow> string) \<Rightarrow> AuditBuffer \<Rightarrow> string" where
  "jsonl_text fs b = concat (map (\<lambda>p. json_dumps (jsonl_row fs b p) @ newline) (ab_tool_calls b))"

definition fallback_path :: "TaskAssignPayload \<Rightarrow> string" where
  "fallback_path t = ta_workspace_root t @ ''/.nemoclaw/audit-'' @ ta_workflow_id t @ ''.jsonl''"

text \<open>What was sent, in order, is the second component; a failure of the flush is only logged.\<close>

definition flush_audit_buffer :: "'w sub_env \<Rightarrow> TaskAssignPayload \<Rightarrow> 'w sub_world \<Rightarrow> outgoing list \<times> 'w sub_world" where
  "flush_audit_buffer e t w =
     (if buffer_is_empty (sw_buffer w) then ([], w)
      else (let msg = SendAudit (ta_parent_sandbox_id t) (to_payload (sw_buffer w));
                w1 = sb_write_file e (fallback_path t) (jsonl_text (sb_float_str e) (sw_buffer w)) w
            in ([msg], snd (sb_send e msg w1))))"

text \<open>The exit code of the process, or the exception that leaves it.\<close>

type_synonym 'w sub_exit = "(agent_exn + int) \<times> outgoing list \<times> 'w sub_world"

definition reply_invalid :: "'w sub_env \<Rightarrow> string \<Rightarrow> string \<Rightarrow> 'w sub_world \<Rightarrow> 'w sub_exit" where
  "reply_invalid e message_id problem w =
     (let msg = SendError (validation_error message_id problem) in
      case sb_send e msg w of
        (Some x, w1) \<Rightarrow> (Inl x, [msg], w1)
      | (None, w1) \<Rightarrow> (Inr 0, [msg], w1))"

definition handle_one_task :: "'w sub_env \<Rightarrow> sub_config \<Rightarrow> TaskAssignPayload \<Rightarrow> 'w sub_world \<Rightarrow> 'w sub_exit" where
  "handle_one_task e c t w =
     (let w0 = w\<lparr>sw_buffer := buffer_init (ta_workflow_id t) (ta_parent_sandbox_id t) (ta_agent_id t) ''coding''\<rparr> in
      case run_assigned_task e c t w0 of
        (Inl x, w1) \<Rightarrow>
          (let msg = SendError (error_of e t x) in
           case flush_audit_buffer e t w1 of
             (flushed, w2) \<Rightarrow> (case sb_send e msg w2 of
               (Some y, w3) \<Rightarrow> (Inl y, flushed @ [msg], w3)
             | (None, w3) \<Rightarrow> (Inr 0, flushed @ [msg], w3)))
      | (Inr p, w1) \<Rightarrow>
          (case flush_audit_buffer e t w1 of
             (flushed, w2) \<Rightarrow> (case sb_send e (SendComplete p) w2 of
               (Some y, w3) \<Rightarrow> (Inr 1, flushed @ [SendComplete p], w3)
             | (None, w3) \<Rightarrow> (Inr 0, flushed @ [SendComplete p], w3))))"

section \<open>Waiting for the task\<close>

text \<open>A message with the result of parsing its payload as \<open>task.assign\<close>.\<close>

record assign_msg =
  as_id :: string
  as_type :: string
  as_task :: "string + TaskAssignPayload"

definition listen_ended :: agent_exn where
  "listen_ended = OtherExn ''RuntimeError'' False ''NMB listen() ended without delivering a task.assign''"

fun first_assign :: "assign_msg list \<Rightarrow> agent_exn + assign_msg" where
  "first_assign [] = Inl listen_ended"
| "first_assign (m # ms) = (if as_type m = type_value TASK_ASSIGN then Inr m else first_assign ms)"

text \<open>\<open>shutdown\<close> says whether the shutdown task is among those that are done; it wins a tie.\<close>

definition wait_for_assign :: "bool \<Rightarrow> assign_msg list \<Rightarrow> agent_exn + assign_msg option" where
  "wait_for_assign shutdown ms =
     (if shutdown then Inr None else case first_assign ms of Inl x \<Rightarrow> Inl x | Inr m \<Rightarrow> Inr (Some m))"

definition await_and_handle :: "'w sub_env \<Rightarrow> sub_config \<Rightarrow> bool \<Rightarrow> assign_msg list \<Rightarrow> 'w sub_world \<Rightarrow> 'w sub_exit" where
  "await_and_handle e c shutdown ms w = (case wait_for_assign shutdown ms of
     Inl x \<Rightarrow> (Inl x, [], w)
   | Inr None \<Rightarrow> (Inr 0, [], w)
   | Inr (Some m) \<Rightarrow> (case as_task m of
       Inl problem \<Rightarrow> reply_invalid e (as_id m) problem w
     | Inr t \<Rightarrow> handle_one_task e c t w))"

text \<open>The \<open>finally\<close> clause closes the bus; its own exception replaces the result.\<close>

definition run_nmb_mode :: "'w sub_env \<Rightarrow> sub_config \<Rightarrow> bool \<Rightarrow> assign_msg list \<Rightarrow> 'w sub_world \<Rightarrow> 'w sub_exit" where
  "run_nmb_mode e c shutdown ms w = (case sb_connect e w of
     (Some x, w1) \<Rightarrow> (Inr 1, [], w1)
   | (None, w1) \<Rightarrow> (case await_and_handle e c shutdown ms w1 of
       (r, sent, w2) \<Rightarrow> (case sb_close e w2 of
         (Some x, w3) \<Rightarrow> (Inl x, sent, w3) | (None, w3) \<Rightarrow> (r, sent, w3))))"

section \<open>Command-line mode\<close>

definition cli_bundle :: "string \<Rightarrow> string \<Rightarrow> string \<Rightarrow> string \<Rightarrow> AgentSetupBundle" where
  "cli_bundle agent_id task_id task wroot = \<lparr>bu_task_id = ''cli-'' @ task_id, bu_agent_id = agent_id, bu_parent_agent_id = ''cli'',
     bu_task_description = task, bu_workspace_root = wroot @ ''/agent-'' @ agent_id, bu_source_type = SOURCE_AGENT\<rparr>"

text \<open>
  The exit code and what is printed. Only the run itself is inside the \<open>try\<close>; making the
  workspace, the tools and the prompt are not.
\<close>

definition run_cli_mode ::
  "'w sub_env \<Rightarrow> sub_config \<Rightarrow> string \<Rightarrow> string \<Rightarrow> string \<Rightarrow> string option \<Rightarrow> ('w, int \<times> string option) sub_op" where
  "run_cli_mode e c agent_id task_id task wroot =
     sub_bind (sub_of (sb_expand e (or_str wroot (sc_workspace_root c)))) (\<lambda>base.
     let b = cli_bundle agent_id task_id task base in
     sub_bind (build_tool_registry e c b) (\<lambda>r.
     sub_bind (sub_of (load_coding_prompt e)) (\<lambda>identity w.
       case run_task e r identity b (sc_loop c) False w of
         (Inl x, w1) \<Rightarrow> (Inr (1, None), w1)
       | (Inr res, w1) \<Rightarrow> (Inr (0, Some (ar_content res)), w1))))"

section \<open>Lemmas\<close>

lemma sub_bind_Inr:
  assumes "sub_bind m k w = (Inr b, w')"
  obtains a w1 where "m w = (Inr a, w1)" "k a w1 = (Inr b, w')"
  using assms by (auto simp: sub_bind_def split: prod.splits sum.splits)

lemma task_loop_config_fields [simp]:
  "max_tool_rounds (task_loop_config t lc) = (case ta_max_turns t of Some n \<Rightarrow> n | None \<Rightarrow> max_tool_rounds lc)"
  "cfg_model (task_loop_config t lc) = (case ta_model t of Some m \<Rightarrow> m | None \<Rightarrow> cfg_model lc)"
  by (simp_all add: task_loop_config_def Let_def split: option.split)

lemma assigned_result:
  assumes "run_assigned_task e c t w = (Inr p, w')"
  obtains r identity res w1 w2 w3 where
    "run_task e r identity (assigned_bundle t) (task_loop_config t (sc_loop c)) True w1 = (Inr res, w2)"
    "\<not> hit_safety_limit res" "complete_valid p" "p = complete_of t (task_loop_config t (sc_loop c)) res (cp_diff p)"
proof -
  obtain r identity res w1 w2 where
    a: "run_task e r identity (assigned_bundle t) (task_loop_config t (sc_loop c)) True w1 = (Inr res, w2)"
    "finish_task e t (task_loop_config t (sc_loop c)) res w2 = (Inr p, w')"
    using assms unfolding run_assigned_task_def Let_def by (elim sub_bind_Inr)
  have "\<not> hit_safety_limit res" using a(2) by (auto simp: finish_task_def sub_of_def)
  with a(2) have f: "sub_bind (compute_baseline_diff e t) (\<lambda>diff. sub_of
      (if complete_valid (complete_of t (task_loop_config t (sc_loop c)) res diff)
       then Inr (complete_of t (task_loop_config t (sc_loop c)) res diff) else Inl (OtherExn ''ValidationError'' False []))) w2 = (Inr p, w')"
    by (simp add: finish_task_def)
  obtain diff w3 where "sub_of (if complete_valid (complete_of t (task_loop_config t (sc_loop c)) res diff)
       then Inr (complete_of t (task_loop_config t (sc_loop c)) res diff) else Inl (OtherExn ''ValidationError'' False [])) w3 = (Inr p, w')"
    using f by (elim sub_bind_Inr)
  then have "complete_valid p" "p = complete_of t (task_loop_config t (sc_loop c)) res diff"
    by (auto simp: sub_of_def split: if_splits)
  moreover from this(2) have "cp_diff p = diff" by (simp add: complete_of_def)
  ultimately show thesis using that a(1) \<open>\<not> hit_safety_limit res\<close> by metis
qed

lemma error_of_valid: "assign_valid t \<Longrightarrow> error_valid (error_of e t x)"
  by (simp add: error_valid_def error_of_def assign_valid_def)

text \<open>The two kinds of reply to a task, as the orchestrator receives them.\<close>

definition is_reply :: "outgoing \<Rightarrow> bool" where
  "is_reply m = (case m of SendAudit to p \<Rightarrow> False | _ \<Rightarrow> True)"

definition as_inbound :: "outgoing \<Rightarrow> inbound" where
  "as_inbound m = (case m of SendError p \<Rightarrow> TaskError (Some p) | SendComplete p \<Rightarrow> TaskComplete (Some p)
     | SendAudit to p \<Rightarrow> AuditFlush (Some p))"

definition answers :: "TaskAssignPayload \<Rightarrow> outgoing \<Rightarrow> bool" where
  "answers t m = (case m of
     SendError p \<Rightarrow> te_workflow_id p = ta_workflow_id t \<and> error_valid p
   | SendComplete p \<Rightarrow> cp_workflow_id p = ta_workflow_id t \<and> complete_valid p
   | SendAudit to p \<Rightarrow> False)"

lemma flush_sends_no_reply: "flush_audit_buffer e t w = (flushed, w') \<Longrightarrow> filter is_reply flushed = []"
  by (auto simp: flush_audit_buffer_def is_reply_def Let_def split: if_splits)

lemma handle_one_task_reply:
  assumes "assign_valid t" "handle_one_task e c t w = (r, sent, w')"
  obtains flushed m where "sent = flushed @ [m]" "filter is_reply flushed = []" "answers t m"
proof -
  let ?w0 = "w\<lparr>sw_buffer := buffer_init (ta_workflow_id t) (ta_parent_sandbox_id t) (ta_agent_id t) ''coding''\<rparr>"
  obtain q w1 where q: "run_assigned_task e c t ?w0 = (q, w1)" by fastforce
  obtain flushed w2 where f: "flush_audit_buffer e t w1 = (flushed, w2)" by fastforce
  note n = flush_sends_no_reply [OF f]
  show thesis
  proof (cases q)
    case (Inl x)
    then have "sent = flushed @ [SendError (error_of e t x)]"
      using assms(2) q f by (auto simp: handle_one_task_def Let_def split: prod.splits option.splits)
    moreover have "answers t (SendError (error_of e t x))"
      using error_of_valid [OF assms(1)] by (simp add: answers_def error_of_def)
    ultimately show thesis using that n by blast
  next
    case (Inr p)
    then have "sent = flushed @ [SendComplete p]"
      using assms(2) q f by (auto simp: handle_one_task_def Let_def split: prod.splits option.splits)
    moreover have "answers t (SendComplete p)"
    proof -
      obtain res where "complete_valid p" "p = complete_of t (task_loop_config t (sc_loop c)) res (cp_diff p)"
        using q Inr by (auto elim: assigned_result)
      then show ?thesis by (simp add: answers_def complete_of_def) (metis TaskCompletePayload.select_convs(1))
    qed
    ultimately show thesis using that n by blast
  qed
qed

text \<open>Every assigned task gets exactly one reply, whatever the run does and whether or not sending succeeds: a
  valid \<open>task.complete\<close> or a valid \<open>task.error\<close> of that workflow, sent after the audit rows.\<close>

theorem one_reply_per_task:
  assumes "assign_valid t"
  shows "\<exists>m. filter is_reply (fst (snd (handle_one_task e c t w))) = [m] \<and> last (fst (snd (handle_one_task e c t w))) = m \<and> answers t m"
proof -
  obtain r sent w' where h: "handle_one_task e c t w = (r, sent, w')" by (metis prod.collapse)
  obtain flushed m where m: "sent = flushed @ [m]" "filter is_reply flushed = []" "answers t m"
    using handle_one_task_reply [OF assms h] .
  moreover have "is_reply m" using m(3) by (auto simp: answers_def is_reply_def split: outgoing.splits)
  ultimately show ?thesis by (simp add: h)
qed


text \<open>A completed task kept to what it was assigned: with \<open>max_turns\<close> pinned it used between one and that
  many rounds, it reports the model that was pinned, and a run that hit the limit is never reported as
  complete.\<close>

theorem assigned_limits_kept:
  assumes "run_assigned_task e c t w = (Inr p, w')" "\<forall>xs. mset (sb_schedule e xs) = mset xs"
  shows "(\<forall>n. ta_max_turns t = Some n \<longrightarrow> 1 \<le> cp_rounds_used p \<and> cp_rounds_used p \<le> n) \<and>
    (\<forall>m. ta_model t = Some m \<longrightarrow> cp_model_used p = Some m) \<and> cp_workflow_id p = ta_workflow_id t"
proof -
  let ?lc = "task_loop_config t (sc_loop c)"
  obtain r identity res w1 w2 where
    run: "run_task e r identity (assigned_bundle t) ?lc True w1 = (Inr res, w2)" and h: "\<not> hit_safety_limit res"
    and p: "p = complete_of t ?lc res (cp_diff p)"
    using assigned_result [OF assms(1)] by metis
  obtain st where st: "run (task_loop e r ?lc True) (task_messages e identity (assigned_bundle t)) (bu_task_id (assigned_bundle t)) None []
      (task_start w1) = (Finished res, st)"
    using run by (auto simp: run_task_def split: prod.splits loop_outcome.splits)
  have f: "fair_schedule (task_loop e r ?lc True)" using assms(2) by (simp add: fair_schedule_def task_loop_def)
  have "0 < rounds res \<and> rounds res \<le> int (nat (max_tool_rounds ?lc))"
    using run_rounds_counts(3) [OF f st [unfolded run_def Let_def] h] by (simp add: task_loop_def)
  moreover have "cp_rounds_used p = rounds res" "cp_model_used p = Some (cfg_model ?lc)" "cp_workflow_id p = ta_workflow_id t"
    by (subst p, simp add: complete_of_def)+
  ultimately show ?thesis by (auto split: if_splits)
qed

text \<open>
  The reply to a malformed \<open>task.assign\<close> names the message, not the workflow: the dispatcher drops it,
  and the workflow stays open.
\<close>

theorem invalid_reply_dropped:
  assumes "as_task m = Inl why" "as_type m = type_value TASK_ASSIGN" "get_workflow d (as_id m) = None"
  shows "\<exists>x. fst (snd (await_and_handle e c False [m] w)) = [x] \<and> dispatch de (as_inbound x) d = d"
  using assms
  by (auto simp: await_and_handle_def wait_for_assign_def reply_invalid_def as_inbound_def handle_task_error_def load_def
      validation_error_def Let_def split: prod.splits option.splits)

text \<open>A task that has arrived when the process is told to stop is dropped without a reply.\<close>

theorem shutdown_drops_task: "await_and_handle e c True ms w = (Inr 0, [], w)"
  by (simp add: await_and_handle_def wait_for_assign_def)

section \<open>Sample processes\<close>

definition quick_infer :: "unit sub_world backend" where
  "quick_infer req w = (Inr \<lparr>rs_content = ''done'', finish_reason = ''stop'', rs_tool_calls = []\<rparr>, w)"

text \<open>A process whose model answers at once; \<open>broken\<close> says whether its workspace can be made.\<close>

definition sub_sample :: "bool \<Rightarrow> unit sub_world factory_env \<Rightarrow> git_env \<Rightarrow> unit sub_env" where
  "sub_sample broken fac g = \<lparr>sb_infer = quick_infer, sb_factory = fac, sb_git = g, sb_expand = Inr,
     sb_mkdir = (\<lambda>p w. (if broken then Some (OtherExn ''OSError'' False ''read-only'') else None, w)),
     sb_yaml = (\<lambda>s. None), sb_skill_files = (\<lambda>d. None), sb_is_file = (\<lambda>p. False), sb_read_text = Inl,
     sb_exn = OtherExn ''InferenceError'' False, sb_factory_exn = (\<lambda>x. OtherExn ''ValueError'' False []), sb_traceback = (\<lambda>x. []),
     sb_now = [], sb_loads = (\<lambda>s. Inr []), sb_schedule = rev, sb_duration = (\<lambda>tc. 0), sb_row_id = (\<lambda>w. ''row''),
     sb_float_str = (\<lambda>f. ''0.0''), sb_write_file = (\<lambda>p t w. w), sb_send = (\<lambda>m w. (None, w)),
     sb_connect = (\<lambda>w. (None, w)), sb_close = (\<lambda>w. (None, w))\<rparr>"

definition sub_sample_config :: sub_config where
  "sub_sample_config = \<lparr>sc_workspace_root = ''/w'', sc_git_hosts = [], sc_skills_enabled = False, sc_skills_dir = [],
     sc_loop = sample_config, sc_sandbox_id = []\<rparr>"

definition sub_task :: TaskAssignPayload where
  "sub_task = \<lparr>ta_prompt = ''p'', ta_workflow_id = ''wf-1'', ta_parent_sandbox_id = ''o'', ta_agent_id = ''a'', ta_workspace_root = ''/w'',
     ta_max_turns = Some 10, ta_model = None, ta_tool_surface = None, ta_context_files = [], ta_baseline = None,
     is_iteration = False, iteration_number = 0\<rparr>"

definition sub_start :: "unit sub_world" where
  "sub_start = \<lparr>sw_buffer = buffer_init [] [] [] [], sw_fx = [], sw_rest = ()\<rparr>"

lemma sub_task_valid: "assign_valid sub_task"
  by (simp add: assign_valid_def sub_task_def opt_all_def)

lemma sub_task_fields [simp]:
  "ta_workflow_id sub_task = ''wf-1''" "ta_max_turns sub_task = Some 10" "ta_model sub_task = None" "ta_baseline sub_task = None"
  by (simp_all add: sub_task_def)

lemma sub_task_config: "task_loop_config sub_task sample_config = sample_config"
  by (simp add: task_loop_config_def sample_config_def)

lemma quick_run:
  assumes "le_infer l = quick_infer" "le_config l = sample_config" "length ms = 2" "list_all (\<lambda>m. role m \<noteq> ROLE_TOOL) ms"
  shows "\<exists>res st'. run l ms rid None [] st = (Finished res, st') \<and> \<not> hit_safety_limit res \<and> ar_content res = ''done'' \<and> rounds res = 1"
proof -
  obtain f where fuel: "nat (max_tool_rounds sample_config) = Suc (Suc (Suc f))" by (rule sample_fuel)
  have "compaction_pass l rid ms st' = (Inr ms, st')" for st'
    using assms by (intro short_pass) (auto simp: list_all_iff)
  then show ?thesis
    unfolding run_def assms(2) fuel
    by (simp add: assms(1) quick_infer_def Let_def final_content_def repair_response_def strip_def rstrip_def is_space_def)
qed

lemma sub_sample_fields [simp]:
  "sb_infer (sub_sample b fac g) = quick_infer" "sb_factory (sub_sample b fac g) = fac" "sb_expand (sub_sample b fac g) p = Inr p"
  "sb_mkdir (sub_sample b fac g) p w = (if b then Some (OtherExn ''OSError'' False ''read-only'') else None, w)"
  "sb_is_file (sub_sample b fac g) p = False" "sb_schedule (sub_sample b fac g) = rev" "sb_send (sub_sample b fac g) m w = (None, w)"
  "sc_loop sub_sample_config = sample_config" "sc_git_hosts sub_sample_config = []" "sc_skills_enabled sub_sample_config = False"
  by (simp_all add: sub_sample_def sub_sample_config_def)

lemma sub_sample_completes: "\<exists>p w'. run_assigned_task (sub_sample False fac g) sub_sample_config sub_task sub_start = (Inr p, w')"
proof -
  let ?e = "sub_sample False fac g"
  have root: "bu_workspace_root (assigned_bundle sub_task) = ''/w''" "ta_workspace_root sub_task = ''/w''"
    "bu_task_id (assigned_bundle sub_task) = ''wf-1''"
    by (simp_all add: assigned_bundle_def sub_task_def)
  obtain r where r: "create_coding_tool_registry fac ''/w'' [] None = Inr r" using sub_agent_registry by blast
  have m: "make_workspace ?e p w = (Inr p, w)" for p w by (simp add: make_workspace_def)
  have b: "build_tool_registry ?e sub_sample_config (assigned_bundle sub_task) w = (Inr r, w)" for w
    using r by (simp add: build_tool_registry_def sub_bind_def m coding_skills_def sub_of_def root)
  have i: "load_coding_prompt ?e = Inr FALLBACK_SYSTEM_PROMPT"
    by (simp add: load_coding_prompt_def load_system_prompt_def)
  define l where "l = task_loop ?e r sample_config True"
  define ms where "ms = task_messages ?e FALLBACK_SYSTEM_PROMPT (assigned_bundle sub_task)"
  have "length ms = 2 \<and> list_all (\<lambda>m. role m \<noteq> ROLE_TOOL) ms"
    by (simp add: ms_def task_messages_def messages_for_inference_def history_with_user_message_def Let_def builder_init_def
        touch_thread_def dict_simps dict_default_def dict_has_def cap_history_def DEFAULT_MAX_THREAD_HISTORY_def text_message_def)
  then obtain res st where run: "run l ms ''wf-1'' None [] (task_start sub_start) = (Finished res, st)" "\<not> hit_safety_limit res"
      "ar_content res = ''done''" "rounds res = 1"
    using quick_run [of l ms "''wf-1''" "task_start sub_start"] by (auto simp: l_def task_loop_def)
  have t: "run_task ?e r FALLBACK_SYSTEM_PROMPT (assigned_bundle sub_task) sample_config True sub_start = (Inr res, world st)"
    using run(1) by (simp add: run_task_def l_def ms_def root)
  have "complete_valid (complete_of sub_task sample_config res [])"
    using run(3,4) by (simp add: complete_valid_def complete_of_def opt_all_def)
  then have "finish_task ?e sub_task sample_config res (world st) = (Inr (complete_of sub_task sample_config res []), world st)"
    using run(2) by (simp add: finish_task_def sub_bind_def sub_of_def compute_baseline_diff_def)
  then show ?thesis
    by (simp add: run_assigned_task_def Let_def sub_bind_def m b i t sub_of_def sub_task_config root)
qed

lemma one_reply_per_task_witness:
  "\<forall>fac g. \<exists>m. filter is_reply (fst (snd (handle_one_task (sub_sample True fac g) sub_sample_config sub_task sub_start))) = [m] \<and> answers sub_task m"
  using one_reply_per_task [OF sub_task_valid] by blast


lemma assigned_limits_kept_witness:
  "\<forall>fac g. \<exists>p w'. run_assigned_task (sub_sample False fac g) sub_sample_config sub_task sub_start = (Inr p, w') \<and>
     1 \<le> cp_rounds_used p \<and> cp_rounds_used p \<le> 10"
proof (intro allI)
  fix fac g
  obtain p w' where p: "run_assigned_task (sub_sample False fac g) sub_sample_config sub_task sub_start = (Inr p, w')"
    using sub_sample_completes by blast
  from assigned_limits_kept [OF this] show "\<exists>p w'. run_assigned_task (sub_sample False fac g) sub_sample_config sub_task sub_start = (Inr p, w') \<and>
     1 \<le> cp_rounds_used p \<and> cp_rounds_used p \<le> 10"
    using p by simp
qed

end
