(* ===== verification/StartUp.thy ===== *)
theory StartUp
  imports Config SubAgent
begin

text \<open>
  Start and shutdown: the detection of the sandbox (\<^verbatim>\<open>runtime.py\<close>), the entry point of the
  orchestrator (\<^verbatim>\<open>main.py\<close>) as the sequence of the operations it awaits on its resources, and the
  entry point of the sub-agent (\<^verbatim>\<open>agent/__main__.py\<close>). Which of the operations raise is an
  argument; what they do is modelled in the theories of the components.
\<close>

section \<open>Detecting the sandbox\<close>

datatype signal = OPENSHELL_ENV | SANDBOX_DIR | APP_SRC_PRESENT | HTTPS_PROXY | SSL_CERT_BUNDLE | INFERENCE_DNS

fun signal_name :: "signal \<Rightarrow> string" where
  "signal_name OPENSHELL_ENV = ''OPENSHELL_SANDBOX''"
| "signal_name SANDBOX_DIR = ''sandbox_dir_writable''"
| "signal_name APP_SRC_PRESENT = ''app_src_present''"
| "signal_name HTTPS_PROXY = ''https_proxy_env''"
| "signal_name SSL_CERT_BUNDLE = ''ssl_cert_bundle_env''"
| "signal_name INFERENCE_DNS = ''inference_local_resolves''"

definition ALL_SIGNALS :: "signal list" where
  "ALL_SIGNALS = [OPENSHELL_ENV, SANDBOX_DIR, APP_SRC_PRESENT, HTTPS_PROXY, SSL_CERT_BUNDLE, INFERENCE_DNS]"

definition DEFAULT_SANDBOX_SIGNAL_THRESHOLD :: int where "DEFAULT_SANDBOX_SIGNAL_THRESHOLD = 4"

datatype RuntimeEnvironment = SANDBOX | INCONSISTENT

text \<open>What the process can observe; \<open>rt_int\<close> is \<open>int()\<close>.\<close>

record runtime_env =
  rt_environ :: environ
  rt_int :: "string \<Rightarrow> int option"
  rt_sandbox_dir_writable :: bool
  rt_app_src_present :: bool
  rt_dns_resolves :: bool

record RuntimeReport =
  rr_classification :: RuntimeEnvironment
  signals_present :: "signal list"
  signals_missing :: "signal list"
  likely_cause :: string

definition sandbox_signal_threshold :: "runtime_env \<Rightarrow> int" where
  "sandbox_signal_threshold e = (case dict_get (rt_environ e) ''NEMOCLAW_SANDBOX_SIGNAL_THRESHOLD'' of
     None \<Rightarrow> DEFAULT_SANDBOX_SIGNAL_THRESHOLD
   | Some raw \<Rightarrow> (case rt_int e raw of Some i \<Rightarrow> i | None \<Rightarrow> DEFAULT_SANDBOX_SIGNAL_THRESHOLD))"

definition env_set :: "runtime_env \<Rightarrow> string \<Rightarrow> bool" where
  "env_set e n = truthy (dict_get (rt_environ e) n)"

fun evaluate_signal :: "runtime_env \<Rightarrow> signal \<Rightarrow> bool" where
  "evaluate_signal e OPENSHELL_ENV = env_set e ''OPENSHELL_SANDBOX''"
| "evaluate_signal e SANDBOX_DIR = rt_sandbox_dir_writable e"
| "evaluate_signal e APP_SRC_PRESENT = rt_app_src_present e"
| "evaluate_signal e HTTPS_PROXY = (env_set e ''HTTPS_PROXY'' \<or> env_set e ''https_proxy'')"
| "evaluate_signal e SSL_CERT_BUNDLE = (env_set e ''SSL_CERT_FILE'' \<or> env_set e ''REQUESTS_CA_BUNDLE'')"
| "evaluate_signal e INFERENCE_DNS = rt_dns_resolves e"

definition classify :: "runtime_env \<Rightarrow> signal list \<Rightarrow> RuntimeEnvironment \<times> string" where
  "classify e present =
     (if int (length present) \<ge> sandbox_signal_threshold e then (SANDBOX, [])
      else
        (let has_env = OPENSHELL_ENV \<in> set present \<or> HTTPS_PROXY \<in> set present \<or> SSL_CERT_BUNDLE \<in> set present;
             has_path = SANDBOX_DIR \<in> set present \<or> APP_SRC_PRESENT \<in> set present
         in (INCONSISTENT,
           if has_env \<and> \<not> has_path then ''sandbox env vars present but paths missing (not inside a sandbox)''
           else if has_path \<and> \<not> has_env then
             ''image built correctly but gateway didn'' @ SQ @ ''t inject env (recreate with `make run-local-sandbox`)''
           else if present = [] then ''no sandbox signals present '' @ em_dash @ '' run via `make run-local-sandbox`''
           else ''OpenShell version drift or gateway misconfigured'')))"

definition detect_runtime_environment :: "runtime_env \<Rightarrow> RuntimeReport" where
  "detect_runtime_environment e =
     (let present = filter (evaluate_signal e) ALL_SIGNALS; (cl, cause) = classify e present
      in \<lparr>rr_classification = cl, signals_present = present,
          signals_missing = filter (\<lambda>s. \<not> evaluate_signal e s) ALL_SIGNALS, likely_cause = cause\<rparr>)"

definition configuration_error :: "RuntimeReport \<Rightarrow> string" where
  "configuration_error r =
     (let names = (\<lambda>ss. or_str (Some (py_join '', '' (map signal_name ss))) ''none'') in
      ''Sandbox detection inconsistent '' @ em_dash @ '' '' @ nat_str (length (signals_present r)) @ ''/'' @
      nat_str (length ALL_SIGNALS) @ '' signals present; refusing to start.  Missing: '' @ names (signals_missing r) @
      ''.  Present: '' @ names (signals_present r) @
      ''.  Run `make status` to inspect providers; recreate sandbox with `make run-local-sandbox`.'')"

section \<open>The orchestrator's process\<close>

datatype action =
    OpenAudit | StartWriter | ConnectBus | StartDispatcher | BuildRegistry | StartConnector | WaitShutdown
  | StopConnector | CloseDispatcher | CloseManager | CloseBus | StopWriter | CloseAudit | CloseBackend

datatype process_end = Refused string | BadConfig config_error | Stopped | ExitCode int | RaisedIn action

record main_env =
  me_runtime :: runtime_env
  me_config :: "config_error + AppConfig"
  me_raises :: "action \<Rightarrow> bool"

text \<open>The actions performed so far; a sequence ends with the first that raises.\<close>

type_synonym performed = "action list"

fun perform :: "main_env \<Rightarrow> action list \<Rightarrow> performed \<Rightarrow> action option \<times> performed" where
  "perform e [] tr = (None, tr)"
| "perform e (a # acts) tr = (if me_raises e a then (Some a, tr @ [a]) else perform e acts (tr @ [a]))"

text \<open>An action whose exception is only logged.\<close>

definition guarded :: "action list \<Rightarrow> performed \<Rightarrow> performed" where
  "guarded acts tr = tr @ acts"

text \<open>
  The \<open>finally\<close> clause. Only the dispatcher, the delegation manager and the bus are closed under a
  \<open>try\<close> of their own.
\<close>

definition teardown :: "main_env \<Rightarrow> bool \<Rightarrow> bool \<Rightarrow> performed \<Rightarrow> action option \<times> performed" where
  "teardown e delegating auditing tr = (case perform e [StopConnector] tr of
     (Some a, tr1) \<Rightarrow> (Some a, tr1)
   | (None, tr1) \<Rightarrow>
       perform e ((if auditing then [StopWriter, CloseAudit] else []) @ [CloseBackend])
         (guarded (if delegating then [CloseDispatcher, CloseManager, CloseBus] else []) tr1))"

definition serve_until_shutdown :: "main_env \<Rightarrow> bool \<Rightarrow> bool \<Rightarrow> performed \<Rightarrow> process_end \<times> performed" where
  "serve_until_shutdown e delegating auditing tr =
     (case perform e [StartConnector, WaitShutdown] tr of (failed, tr1) \<Rightarrow>
      (case teardown e delegating auditing tr1 of
         (Some a, tr2) \<Rightarrow> (RaisedIn a, tr2)
       | (None, tr2) \<Rightarrow> ((case failed of Some a \<Rightarrow> ExitCode 1 | None \<Rightarrow> Stopped), tr2)))"

text \<open>Step 5: a broker that cannot be reached leaves the process without delegation.\<close>

definition connect_delegation :: "main_env \<Rightarrow> bool \<Rightarrow> performed \<Rightarrow> bool \<times> performed" where
  "connect_delegation e wanted tr =
     (if \<not> wanted then (False, tr)
      else if me_raises e ConnectBus then (False, guarded [CloseBus] (tr @ [ConnectBus]))
      else (True, tr @ [ConnectBus]))"

definition main :: "main_env \<Rightarrow> process_end \<times> performed" where
  "main e =
     (let r = detect_runtime_environment (me_runtime e) in
      if rr_classification r = INCONSISTENT then (Refused (configuration_error r), [])
      else case me_config e of
        Inl err \<Rightarrow> (BadConfig err, [])
      | Inr c \<Rightarrow>
         (let auditing = enabled c ''audit'' in
          case perform e (if auditing then [OpenAudit, StartWriter] else []) [] of
            (Some a, tr) \<Rightarrow> (RaisedIn a, tr)
          | (None, tr) \<Rightarrow>
             (case connect_delegation e (enabled c ''delegation'') tr of (delegating, tr1) \<Rightarrow>
              (case perform e ((if delegating then [StartDispatcher] else []) @ [BuildRegistry]) tr1 of
                 (Some a, tr2) \<Rightarrow> (RaisedIn a, tr2)
               | (None, tr2) \<Rightarrow> serve_until_shutdown e delegating auditing tr2))))"

text \<open>The handler of a signal: the first sets the event, the second leaves with code 130.\<close>

definition on_signal :: "bool \<Rightarrow> int option \<times> bool" where
  "on_signal shutting_down = (if shutting_down then (Some 130, shutting_down) else (None, True))"

section \<open>The sub-agent's process\<close>

datatype run_mode = CliTask string "string option" | NmbMode

datatype agent_end = AgentRefused string | AgentBadConfig config_error | AgentRaised agent_exn | AgentExit int

definition nmb_end :: "agent_exn + int \<Rightarrow> agent_end" where
  "nmb_end r = (case r of Inl x \<Rightarrow> AgentRaised x | Inr n \<Rightarrow> AgentExit n)"

text \<open>\<open>close_exn\<close> is the exception of \<open>backend.close()\<close>, which replaces the result.\<close>

definition agent_main ::
  "runtime_env \<Rightarrow> config_error + sub_config \<Rightarrow> 'w sub_env \<Rightarrow> string \<Rightarrow> string \<Rightarrow> run_mode \<Rightarrow> bool \<Rightarrow> assign_msg list \<Rightarrow>
     agent_exn option \<Rightarrow> 'w sub_world \<Rightarrow> agent_end" where
  "agent_main re cfg e agent_id task_id mode shutdown ms close_exn w =
     (let r = detect_runtime_environment re in
      if rr_classification r = INCONSISTENT then AgentRefused (configuration_error r)
      else case cfg of
        Inl err \<Rightarrow> AgentBadConfig err
      | Inr c \<Rightarrow>
         (let result = (case mode of
              CliTask task wroot \<Rightarrow> (case fst (run_cli_mode e c agent_id task_id task wroot w) of
                  Inl x \<Rightarrow> AgentRaised x | Inr (code, out) \<Rightarrow> AgentExit code)
            | NmbMode \<Rightarrow> nmb_end (fst (run_nmb_mode e c shutdown ms w)))
          in case close_exn of Some x \<Rightarrow> AgentRaised x | None \<Rightarrow> result))"

section \<open>Lemmas\<close>

lemma detect_sandbox:
  "rr_classification (detect_runtime_environment e) = SANDBOX \<longleftrightarrow>
     sandbox_signal_threshold e \<le> int (length (filter (evaluate_signal e) ALL_SIGNALS))"
  by (simp add: detect_runtime_environment_def classify_def Let_def)

lemma detect_partition:
  "mset (signals_present (detect_runtime_environment e)) + mset (signals_missing (detect_runtime_environment e)) = mset ALL_SIGNALS"
  by (simp add: detect_runtime_environment_def classify_def Let_def)

text \<open>Outside a sandbox the program refuses to start: unless its threshold is overridden, a process that has
  neither the sandbox directories nor the proxy's name is never taken for a sandboxed one, whatever its
  environment variables claim, and it performs no action at all.\<close>

theorem refuses_outside_sandbox:
  assumes "\<not> rt_sandbox_dir_writable (me_runtime e)" "\<not> rt_app_src_present (me_runtime e)" "\<not> rt_dns_resolves (me_runtime e)"
    and "dict_get (rt_environ (me_runtime e)) ''NEMOCLAW_SANDBOX_SIGNAL_THRESHOLD'' = None"
  shows "\<exists>t. main e = (Refused t, [])"
proof -
  have "length (filter (evaluate_signal (me_runtime e)) ALL_SIGNALS) < 4" using assms(1-3) by (simp add: ALL_SIGNALS_def)
  then have "rr_classification (detect_runtime_environment (me_runtime e)) \<noteq> SANDBOX"
    using assms(4) by (simp add: detect_sandbox sandbox_signal_threshold_def DEFAULT_SANDBOX_SIGNAL_THRESHOLD_def)
  then have "rr_classification (detect_runtime_environment (me_runtime e)) = INCONSISTENT"
    using RuntimeEnvironment.exhaust by blast
  then show ?thesis by (simp add: main_def Let_def)
qed

text \<open>What closes a resource that an action opens.\<close>

fun closer :: "action \<Rightarrow> action option" where
  "closer OpenAudit = Some CloseAudit"
| "closer StartWriter = Some StopWriter"
| "closer ConnectBus = Some CloseBus"
| "closer StartDispatcher = Some CloseDispatcher"
| "closer StartConnector = Some StopConnector"
| "closer _ = None"

definition released :: "performed \<Rightarrow> bool" where
  "released tr = (\<forall>a\<in>set tr. case closer a of Some b \<Rightarrow> b \<in> set tr | None \<Rightarrow> True)"

definition unguarded_ok :: "main_env \<Rightarrow> bool" where
  "unguarded_ok e = list_all (\<lambda>a. \<not> me_raises e a) [OpenAudit, StartWriter, StartDispatcher, BuildRegistry, StopConnector, StopWriter, CloseAudit]"

lemma released_Nil: "released []"
  by (simp add: released_def)

lemma released_from_config:
  assumes "unguarded_ok e" "rr_classification (detect_runtime_environment (me_runtime e)) \<noteq> INCONSISTENT" "me_config e = Inr c"
  shows "released (snd (main e)) \<and> CloseBackend \<in> set (snd (main e))"
  using assms(1)
  by (cases "enabled c ''audit''"; cases "enabled c ''delegation''"; cases "me_raises e ConnectBus";
      cases "me_raises e StartConnector"; cases "me_raises e WaitShutdown"; cases "me_raises e CloseBackend")
    (simp_all add: main_def assms(2,3) Let_def connect_delegation_def guarded_def serve_until_shutdown_def teardown_def
      unguarded_ok_def released_def)

text \<open>When the operations outside a \<open>try\<close> succeed, the process leaves nothing open, whether the broker is
  unreachable, the connector cannot start, or the dispatcher, the manager or the bus fail to close:
  every resource opened is closed.\<close>

theorem shutdown_releases_all:
  assumes "unguarded_ok e"
  shows "released (snd (main e))"
proof (cases "rr_classification (detect_runtime_environment (me_runtime e)) = INCONSISTENT \<or> isl (me_config e)")
  case True
  then have "snd (main e) = []" by (auto simp: main_def Let_def isl_def split: sum.split)
  then show ?thesis by (simp add: released_Nil)
next
  case False
  then obtain c where "me_config e = Inr c" "rr_classification (detect_runtime_environment (me_runtime e)) \<noteq> INCONSISTENT"
    by (cases "me_config e") auto
  then show ?thesis using released_from_config [OF assms] by blast
qed

text \<open>The connector's \<open>stop\<close> is not guarded: when it raises, nothing after it is closed, and the audit rows
  still queued are lost. Nor is anything closed when a step between the audit database and the connector raises.\<close>

theorem unguarded_steps_leak:
  assumes "rr_classification (detect_runtime_environment (me_runtime e)) \<noteq> INCONSISTENT" "me_config e = Inr c"
    and "enabled c ''audit''" "\<not> enabled c ''delegation''" "\<not> me_raises e OpenAudit" "\<not> me_raises e StartWriter"
  shows "me_raises e BuildRegistry \<Longrightarrow> main e = (RaisedIn BuildRegistry, [OpenAudit, StartWriter, BuildRegistry])"
    and "me_raises e StopConnector \<Longrightarrow> \<not> me_raises e BuildRegistry \<Longrightarrow> \<not> me_raises e StartConnector \<Longrightarrow> \<not> me_raises e WaitShutdown \<Longrightarrow>
      main e = (RaisedIn StopConnector, [OpenAudit, StartWriter, BuildRegistry, StartConnector, WaitShutdown, StopConnector])"
  using assms
  by (simp_all add: main_def Let_def connect_delegation_def guarded_def serve_until_shutdown_def teardown_def)

section \<open>Sample processes\<close>

definition sandbox_runtime :: "bool \<Rightarrow> runtime_env" where
  "sandbox_runtime inside = \<lparr>rt_environ = [(''OPENSHELL_SANDBOX'', ''1''), (''HTTPS_PROXY'', ''p''), (''SSL_CERT_FILE'', ''c'')],
     rt_int = (\<lambda>s. None), rt_sandbox_dir_writable = inside, rt_app_src_present = inside, rt_dns_resolves = False\<rparr>"

definition main_sample :: "bool \<Rightarrow> main_env" where
  "main_sample inside = \<lparr>me_runtime = sandbox_runtime inside, me_config = Inr app_config_init, me_raises = (\<lambda>a. a = StartConnector)\<rparr>"

lemma refuses_outside_sandbox_witness: "\<exists>t. main (main_sample False) = (Refused t, [])"
  by (rule refuses_outside_sandbox) (simp_all add: main_sample_def sandbox_runtime_def dict_get_def)

lemma shutdown_releases_all_witness:
  "rr_classification (detect_runtime_environment (sandbox_runtime True)) = SANDBOX \<and> released (snd (main (main_sample True)))"
  using shutdown_releases_all [of "main_sample True"]
  by (simp add: unguarded_ok_def main_sample_def detect_sandbox sandbox_runtime_def ALL_SIGNALS_def env_set_def truthy_def
      dict_get_def sandbox_signal_threshold_def DEFAULT_SANDBOX_SIGNAL_THRESHOLD_def)

end
