(* ===== verification/SyncBus.thy ===== *)
theory SyncBus
  imports Client Retrying
begin

text \<open>
  Connecting to the broker with retries (\<open>connect_with_retry\<close> of \<^verbatim>\<open>nmb/client.py\<close>) and the
  blocking wrapper of the client (\<^verbatim>\<open>nmb/sync.py\<close>): a client whose event loop runs in a thread of
  its own, and iterators that read the asynchronous ones through a queue.
\<close>

section \<open>Connecting with retries\<close>

text \<open>\<open>net\<close> tries to open the transport, \<open>sleep n\<close> is the pause after attempt \<open>n\<close>; the state is the client and the network.\<close>

definition connect_attempt ::
  "('n \<Rightarrow> string option \<times> 'n) \<Rightarrow> (MessageBus \<times> 'n, bus_error, unit) try_op" where
  "connect_attempt net s = (case net (snd s) of (failure, w1) \<Rightarrow>
     (case bus_connect failure (fst s) of
        Inl err \<Rightarrow> (Inl err, (fst s, w1))
      | Inr c \<Rightarrow> (Inr (), (c, w1))))"

fun is_connection_error :: "bus_error \<Rightarrow> bool" where
  "is_connection_error (NMBConnectionError t) = True"
| "is_connection_error _ = False"

definition connect_policy :: "(nat \<Rightarrow> 'n \<Rightarrow> 'n) \<Rightarrow> int \<Rightarrow> (bus_error, MessageBus \<times> 'n) retry_policy" where
  "connect_policy sleep max_retries = \<lparr>rp_retryable = is_connection_error, rp_limit = max_retries,
     rp_pause = (\<lambda>n x s. (None, (fst s, sleep n (snd s))))\<rparr>"

definition connect_with_retry ::
  "(MessageBus \<times> 'n, bus_error, unit) retrier \<Rightarrow> ('n \<Rightarrow> string option \<times> 'n) \<Rightarrow> (nat \<Rightarrow> 'n \<Rightarrow> 'n) \<Rightarrow> int \<Rightarrow>
     MessageBus \<times> 'n \<Rightarrow> (bus_error + unit) \<times> (MessageBus \<times> 'n)" where
  "connect_with_retry R net sleep max_retries s = R (connect_policy sleep max_retries) (connect_attempt net) s"

section \<open>The blocking client\<close>

text \<open>
  Event loops are numbered; \<open>sy_loops\<close> lists those whose thread runs. \<open>close\<close> joins only the
  thread of the current one.
\<close>

record sync_bus =
  sy_bus :: "MessageBus option"
  sy_loop :: "nat option"
  sy_loops :: "nat list"
  sy_next :: nat

definition sync_init :: sync_bus where
  "sync_init = \<lparr>sy_bus = None, sy_loop = None, sy_loops = [], sy_next = 0\<rparr>"

definition not_connected :: bus_error where
  "not_connected = NMBConnectionError (''Not connected '' @ em_dash @ '' call connect() first'')"

text \<open>\<open>_run\<close> of an operation of the asynchronous client, which blocks until it is done.\<close>

definition sync_run :: "(MessageBus \<Rightarrow> (bus_error + 'a) \<times> MessageBus) \<Rightarrow> sync_bus \<Rightarrow> (bus_error + 'a) \<times> sync_bus" where
  "sync_run f s = (case sy_bus s of
     None \<Rightarrow> (Inl not_connected, s)
   | Some c \<Rightarrow> (case sy_loop s of
       None \<Rightarrow> (Inl not_connected, s)
     | Some l \<Rightarrow> (case f c of (r, c1) \<Rightarrow> (r, s\<lparr>sy_bus := Some c1\<rparr>))))"

text \<open>\<open>new\<close> is the asynchronous client made for the connection.\<close>

definition sync_connect :: "MessageBus \<Rightarrow> string option \<Rightarrow> sync_bus \<Rightarrow> (bus_error + unit) \<times> sync_bus" where
  "sync_connect new failure s =
     (let s1 = s\<lparr>sy_loop := Some (sy_next s), sy_loops := sy_loops s @ [sy_next s], sy_next := Suc (sy_next s),
                 sy_bus := Some new\<rparr>
      in sync_run (\<lambda>c. case bus_connect failure c of Inl err \<Rightarrow> (Inl err, c) | Inr c1 \<Rightarrow> (Inr (), c1)) s1)"

definition sync_close :: "sync_bus \<Rightarrow> sync_bus" where
  "sync_close s =
     (let s1 = (if sy_bus s = None then s else (snd (sync_run (\<lambda>c. (Inr (), bus_close c)) s))\<lparr>sy_bus := None\<rparr>)
      in case sy_loop s1 of
        None \<Rightarrow> s1
      | Some l \<Rightarrow> s1\<lparr>sy_loops := filter (\<lambda>x. x \<noteq> l) (sy_loops s1), sy_loop := None\<rparr>)"

section \<open>The blocking iterators\<close>

text \<open>
  \<open>listen\<close> and \<open>subscribe\<close>: a pump in the event loop puts the messages of the asynchronous iterator into
  a queue and a sentinel after the last; the caller's thread takes them out and stops at the
  sentinel. \<open>br_running\<close> says whether the event loop still runs.
\<close>

record 'm bridge =
  br_source :: "'m list"
  br_pumping :: bool
  br_queue :: "'m option list"
  br_taken :: "'m list"
  br_done :: bool
  br_running :: bool

definition bridge_init :: "'m list \<Rightarrow> 'm bridge" where
  "bridge_init ms = \<lparr>br_source = ms, br_pumping = True, br_queue = [], br_taken = [], br_done = False, br_running = True\<rparr>"

inductive bridge_step :: "'m bridge \<Rightarrow> 'm bridge \<Rightarrow> bool" where
  pump_put: "br_running b \<Longrightarrow> br_pumping b \<Longrightarrow> br_source b = m # ms \<Longrightarrow>
    bridge_step b (b\<lparr>br_source := ms, br_queue := br_queue b @ [Some m]\<rparr>)"
| pump_end: "br_running b \<Longrightarrow> br_pumping b \<Longrightarrow> br_source b = [] \<Longrightarrow>
    bridge_step b (b\<lparr>br_pumping := False, br_queue := br_queue b @ [None]\<rparr>)"
| take_item: "\<not> br_done b \<Longrightarrow> br_queue b = Some m # q \<Longrightarrow>
    bridge_step b (b\<lparr>br_queue := q, br_taken := br_taken b @ [m]\<rparr>)"
| take_end: "\<not> br_done b \<Longrightarrow> br_queue b = None # q \<Longrightarrow> bridge_step b (b\<lparr>br_queue := q, br_done := True\<rparr>)"
| loop_stop: "bridge_step b (b\<lparr>br_running := False\<rparr>)"

section \<open>Properties\<close>

lemma connect_attempt_state:
  "connect_attempt net s = (Inl x, s') \<Longrightarrow> fst s' = fst s \<and> is_connection_error x"
  "connect_attempt net s = (Inr u, s') \<Longrightarrow>
     fst s' = (fst s)\<lparr>ws_open := True, bus_closed := False, recv_running := True\<rparr>"
  by (auto simp: connect_attempt_def bus_connect_def split: prod.splits option.splits)

lemma repeated_connect: "repeated (connect_policy sleep n) (connect_attempt net) i k s = Some s' \<Longrightarrow> fst s' = fst s"
proof (induction k arbitrary: i s)
  case (Suc k)
  then show ?case
    by (auto simp: connect_policy_def dest!: Suc.IH [unfolded connect_policy_def] connect_attempt_state(1) split: sum.splits prod.splits if_splits)
qed simp

text \<open>Connecting with retries ends in one of two ways: the client is connected and reads frames, or it is
  exactly as it was and the caller gets the connection error. An unreachable broker is never
  reported as another exception.\<close>

theorem connect_with_retry_outcome:
  assumes "retry_contract R" "connect_with_retry R net sleep max_retries (c, w) = (r, (c', w'))"
  shows "(r = Inr () \<and> c' = c\<lparr>ws_open := True, bus_closed := False, recv_running := True\<rparr>) \<or>
    (\<exists>t. r = Inl (NMBConnectionError t) \<and> c' = c)"
proof -
  obtain k s where k: "repeated (connect_policy sleep max_retries) (connect_attempt net) 1 k (c, w) = Some s"
      "last_attempt (connect_policy sleep max_retries) (connect_attempt net) (Suc k) s (r, (c', w'))"
    using assms unfolding retry_contract_def connect_with_retry_def by metis
  have "fst s = c" using repeated_connect [OF k(1)] by simp
  with k(2) show ?thesis
  proof (cases rule: last_attempt_cases)
    case (final q s1)
    then show ?thesis
      using connect_attempt_state [of net s] \<open>fst s = c\<close>
      by (cases r) (auto elim!: is_connection_error.elims(2))
  next
    case (pause x w1 y w2)
    then show ?thesis by (simp add: connect_policy_def)
  qed
qed

definition queued :: "'m option list \<Rightarrow> 'm list" where
  "queued q = concat (map (\<lambda>x. case x of Some m \<Rightarrow> [m] | None \<Rightarrow> []) q)"

text \<open>What the bridge has taken, queued and not yet read; a sentinel comes last, after everything.\<close>

definition bridge_inv :: "'m list \<Rightarrow> 'm bridge \<Rightarrow> bool" where
  "bridge_inv ms b = (br_taken b @ queued (br_queue b) @ br_source b = ms \<and>
     (br_pumping b \<longrightarrow> None \<notin> set (br_queue b) \<and> \<not> br_done b) \<and>
     (\<not> br_pumping b \<longrightarrow> br_source b = [] \<and>
        (if br_done b then br_queue b = [] else \<exists>q. br_queue b = map Some q @ [None])))"

lemma queued_simps [simp]:
  "queued [] = []" "queued (a @ b) = queued a @ queued b" "queued (Some m # q) = m # queued q" "queued (None # q) = queued q"
  "queued (map Some xs) = xs"
  by (simp_all add: queued_def comp_def)

lemma no_sentinel: "None \<notin> set q \<Longrightarrow> \<exists>xs. q = map Some xs"
proof (induction q)
  case (Cons a q)
  then obtain x where "a = Some x" by (cases a) auto
  moreover obtain xs where "q = map Some xs" using Cons by auto
  ultimately have "a # q = map Some (x # xs)" by simp
  then show ?case by (rule exI)
qed simp

lemma bridge_step_inv: "bridge_step b b' \<Longrightarrow> bridge_inv ms b \<Longrightarrow> bridge_inv ms b'"
proof (induction rule: bridge_step.induct)
  case (pump_end b)
  then show ?case using no_sentinel [of "br_queue b"] by (auto simp: bridge_inv_def)
next
  case (take_item b m q)
  then show ?case by (auto simp: bridge_inv_def Cons_eq_append_conv map_eq_Cons_conv)
next
  case (take_end b q)
  then show ?case by (auto simp: bridge_inv_def Cons_eq_append_conv)
qed (auto simp: bridge_inv_def)

lemma bridge_reach: "bridge_step\<^sup>*\<^sup>* (bridge_init ms) b \<Longrightarrow> bridge_inv ms b"
proof (induction rule: rtranclp_induct)
  case base
  then show ?case by (simp add: bridge_inv_def bridge_init_def)
next
  case (step y z)
  then show ?case using bridge_step_inv by blast
qed

text \<open>C39: Refinement: the blocking iterator is the asynchronous one: however the two threads are scheduled, it
  yields its messages in order, each once, and when it ends it has yielded them all.\<close>

theorem blocking_iterator_refines:
  assumes "bridge_step\<^sup>*\<^sup>* (bridge_init ms) b"
  shows "\<exists>rest. ms = br_taken b @ rest \<and> (br_done b \<longrightarrow> rest = [])"
  using bridge_reach [OF assms] by (cases "br_pumping b") (auto simp: bridge_inv_def)

text \<open>Once the event loop has stopped, an iterator that waits for a message waits for ever.\<close>

lemma stopped_step:
  "bridge_step b b' \<Longrightarrow> \<not> br_running b \<Longrightarrow> br_queue b = [] \<Longrightarrow>
     \<not> br_running b' \<and> br_queue b' = [] \<and> br_done b' = br_done b \<and> br_taken b' = br_taken b"
  by (induction rule: bridge_step.induct) simp_all

theorem stopped_iterator_blocks:
  assumes "bridge_step\<^sup>*\<^sup>* b b'" "\<not> br_running b" "br_queue b = []"
  shows "\<not> br_running b' \<and> br_queue b' = [] \<and> br_done b' = br_done b \<and> br_taken b' = br_taken b"
  using assms
proof (induction rule: rtranclp_induct)
  case (step y z)
  then show ?case using stopped_step [of y z] by simp
qed simp

text \<open>A connection that fails leaves its thread behind: connecting again starts another, and \<open>close\<close> ends only that one.\<close>

theorem failed_connect_leaks_thread:
  "sy_loops (sync_close (snd (sync_connect new None (snd (sync_connect new (Some t) sync_init))))) = [0]"
  by (simp add: sync_connect_def sync_run_def sync_close_def sync_init_def bus_connect_def Let_def)

definition fresh_bus :: MessageBus where
  "fresh_bus = bus_init ''s'' ''u'' False []"

lemma connect_with_retry_outcome_witness:
  "\<exists>n. connect_with_retry retry_loop (\<lambda>n. (if n < 2 then Some ''refused'' else None, Suc n)) (\<lambda>i n. n) 5 (fresh_bus, 0) =
     (Inr (), (fresh_bus\<lparr>ws_open := True, bus_closed := False, recv_running := True\<rparr>, n :: nat))"
proof -
  let ?R = "retry_loop :: (MessageBus \<times> nat, bus_error, unit) retrier"
  let ?net = "\<lambda>n :: nat. (if n < 2 then Some ''refused'' else None, Suc n)"
  obtain r c' w' where r: "connect_with_retry ?R ?net (\<lambda>i n. n) 5 (fresh_bus, 0) = (r, (c', w'))"
    by (cases "connect_with_retry ?R ?net (\<lambda>i n. n) 5 (fresh_bus, 0)") auto
  have "\<not> isl (fst (connect_with_retry ?R ?net (\<lambda>i n. n) 5 (fresh_bus, 0)))" by code_simp
  with connect_with_retry_outcome [OF retry_loop_meets r] r show ?thesis by auto
qed

lemma blocking_iterator_refines_witness:
  "\<exists>b rest. bridge_step\<^sup>*\<^sup>* (bridge_init [''a'', ''b'']) b \<and> br_taken b = [''a''] \<and> [''a'', ''b''] = br_taken b @ rest"
proof -
  let ?b = "\<lparr>br_source = [''b''], br_pumping = True, br_queue = [Some ''a''], br_taken = [], br_done = False, br_running = True\<rparr>"
  have "bridge_step (bridge_init [''a'', ''b'']) ?b"
    using pump_put [of "bridge_init [''a'', ''b'']" "''a''" "[''b'']"] by (simp add: bridge_init_def)
  moreover have "bridge_step ?b (?b\<lparr>br_queue := [], br_taken := [''a'']\<rparr>)" using take_item [of ?b "''a''" "[]"] by simp
  ultimately have "bridge_step\<^sup>*\<^sup>* (bridge_init [''a'', ''b'']) (?b\<lparr>br_queue := [], br_taken := [''a'']\<rparr>)"
    by (rule converse_rtranclp_into_rtranclp [OF _ r_into_rtranclp])
  from this blocking_iterator_refines [OF this] show ?thesis by (intro exI [of _ "?b\<lparr>br_queue := [], br_taken := [''a'']\<rparr>"]) auto
qed

end
