(* ===== verification/PolicyBroker.thy ===== *)
theory PolicyBroker
  imports BrokerProps
begin

text \<open>
  The policy layer over the broker (\<^verbatim>\<open>nmb/testing/policy.py\<close>) and the topology of its harness
  (\<^verbatim>\<open>nmb/testing/harness.py\<close>): which sandbox may connect, which operations, targets, sources and
  channels it may use, and the translation of the policies from display names to the unique
  ids of the sandboxes. A policy object lives in the table of policies only; a rule is \<open>None\<close> when
  it does not restrict.
\<close>

section \<open>Policies\<close>

record SandboxPolicy =
  po_sandbox_id :: string
  can_connect :: bool
  allowed_egress_targets :: "string pyset option"
  allowed_ingress_sources :: "string pyset option"
  allowed_channels :: "string list option"
  allowed_ops :: "Op list option"

definition sandbox_policy :: "string \<Rightarrow> SandboxPolicy" where
  "sandbox_policy s = \<lparr>po_sandbox_id = s, can_connect = True, allowed_egress_targets = None,
     allowed_ingress_sources = None, allowed_channels = None, allowed_ops = None\<rparr>"

fun channel_matches :: "string \<Rightarrow> string list \<Rightarrow> bool" where
  "channel_matches ch [] = False"
| "channel_matches ch (p # ps) =
     (if p = ''*'' \<or> p = ch then True
      else if ends_with p ''.*'' \<and> starts_with ch (butlast p) then True
      else channel_matches ch ps)"

section \<open>State\<close>

record PolicyBroker =
  pb_policies :: "(string, SandboxPolicy) dict"
  pb_renames :: "(string, string) dict"
  pb_broker :: NMBBroker

definition policies_of :: "SandboxPolicy list \<Rightarrow> (string, SandboxPolicy) dict" where
  "policies_of ps = fold (\<lambda>p. dict_set (po_sandbox_id p) p) ps []"

definition policy_init :: "BrokerConfig \<Rightarrow> AuditDB option \<Rightarrow> SandboxPolicy list \<Rightarrow> PolicyBroker" where
  "policy_init cfg aud ps = \<lparr>pb_policies = policies_of ps, pb_renames = [], pb_broker = broker_init cfg aud\<rparr>"

definition add_policy :: "SandboxPolicy \<Rightarrow> PolicyBroker \<Rightarrow> PolicyBroker" where
  "add_policy p pb = pb\<lparr>pb_policies := dict_set (po_sandbox_id p) p (pb_policies pb)\<rparr>"

definition rename_in :: "string \<Rightarrow> string \<Rightarrow> string pyset option \<Rightarrow> string pyset option" where
  "rename_in old new rule = (case rule of
     None \<Rightarrow> None
   | Some xs \<Rightarrow> Some (if old \<in> set xs then set_add new (set_discard old xs) else xs))"

definition apply_rename :: "string \<Rightarrow> string \<Rightarrow> SandboxPolicy \<Rightarrow> SandboxPolicy" where
  "apply_rename old new p = p\<lparr>allowed_egress_targets := rename_in old new (allowed_egress_targets p),
     allowed_ingress_sources := rename_in old new (allowed_ingress_sources p)\<rparr>"

text \<open>All earlier renames, applied to the policy of \<open>self\<close>.\<close>

fun apply_renames :: "string \<Rightarrow> (string, string) dict \<Rightarrow> SandboxPolicy \<Rightarrow> SandboxPolicy" where
  "apply_renames self [] p = p"
| "apply_renames self ((old, new) # rs) p =
     apply_renames self rs (if old = self then p else apply_rename old new p)"

definition rename_others :: "string \<Rightarrow> string \<Rightarrow> (string, SandboxPolicy) dict \<Rightarrow> (string, SandboxPolicy) dict" where
  "rename_others old new ps = map (\<lambda>(k, q). (k, if k = new then q else apply_rename old new q)) ps"

definition rekey_policy :: "string \<Rightarrow> string \<Rightarrow> PolicyBroker \<Rightarrow> PolicyBroker" where
  "rekey_policy old new pb = (case dict_get (pb_policies pb) old of
     None \<Rightarrow> pb
   | Some p \<Rightarrow>
      (let p1 = p\<lparr>po_sandbox_id := new\<rparr>; rs = dict_set old new (pb_renames pb);
           others = rename_others old new (dict_set new p1 (dict_pop old (pb_policies pb)))
       in pb\<lparr>pb_policies := dict_set new (apply_renames old rs p1) others, pb_renames := rs\<rparr>))"

section \<open>Enforcement\<close>

definition policy_process_request :: "PolicyBroker \<Rightarrow> string option \<Rightarrow> handshake" where
  "policy_process_request pb header =
     (if \<not> truthy header then Respond 400 (''Missing X-Sandbox-ID header'' @ newline)
      else case dict_get (pb_policies pb) (the header) of
        Some p \<Rightarrow> (if can_connect p then Accept (the header) else Respond 403 (''Connection denied by policy'' @ newline))
      | None \<Rightarrow> Accept (the header))"

definition quoted :: "string \<Rightarrow> string" where
  "quoted s = [CHR 0x27] @ s @ [CHR 0x27]"

text \<open>The rule of the policy of \<open>s\<close>, when there is one.\<close>

definition rule_of :: "(string, SandboxPolicy) dict \<Rightarrow> string \<Rightarrow> (SandboxPolicy \<Rightarrow> 'r option) \<Rightarrow> 'r option" where
  "rule_of ps s f = (case dict_get ps s of Some p \<Rightarrow> f p | None \<Rightarrow> None)"

definition op_denial :: "(string, SandboxPolicy) dict \<Rightarrow> string \<Rightarrow> NMBMessage \<Rightarrow> string option" where
  "op_denial ps s m = (case rule_of ps s allowed_ops of
     Some ops \<Rightarrow> (if m_op m \<notin> set ops
       then Some (''Op '' @ quoted (op_value (m_op m)) @ '' not allowed for sandbox '' @ quoted s) else None)
   | None \<Rightarrow> None)"

definition target_denial :: "(string, SandboxPolicy) dict \<Rightarrow> string \<Rightarrow> string \<Rightarrow> string option" where
  "target_denial ps s to =
     (if (case rule_of ps s allowed_egress_targets of Some xs \<Rightarrow> to \<notin> set xs | None \<Rightarrow> False)
      then Some (''Egress to '' @ quoted to @ '' denied for sandbox '' @ quoted s)
      else if (case rule_of ps to allowed_ingress_sources of Some xs \<Rightarrow> s \<notin> set xs | None \<Rightarrow> False)
      then Some (''Ingress from '' @ quoted s @ '' denied for sandbox '' @ quoted to)
      else None)"

definition channel_denial :: "(string, SandboxPolicy) dict \<Rightarrow> string \<Rightarrow> string \<Rightarrow> string option" where
  "channel_denial ps s ch = (case rule_of ps s allowed_channels of
     Some pats \<Rightarrow> (if channel_matches ch pats then None
       else Some (''Channel '' @ quoted ch @ '' not allowed for sandbox '' @ quoted s))
   | None \<Rightarrow> None)"

definition targeted :: "NMBMessage \<Rightarrow> bool" where
  "targeted m = (m_op m \<in> {Op_SEND, Op_REQUEST, Op_STREAM} \<and> truthy (m_to_sandbox m))"

definition on_channel :: "NMBMessage \<Rightarrow> bool" where
  "on_channel m = (m_op m \<in> {Op_SUBSCRIBE, Op_PUBLISH} \<and> truthy (m_channel m))"

text \<open>The checks in the order of the code; the text of the first that fails.\<close>

definition policy_denial :: "(string, SandboxPolicy) dict \<Rightarrow> string \<Rightarrow> NMBMessage \<Rightarrow> string option" where
  "policy_denial ps s m = (case op_denial ps s m of
     Some t \<Rightarrow> Some t
   | None \<Rightarrow> (case (if targeted m then target_denial ps s (the (m_to_sandbox m)) else None) of
       Some t \<Rightarrow> Some t
     | None \<Rightarrow> (if on_channel m then channel_denial ps s (the (m_channel m)) else None)))"

definition enforce_policy :: "env \<Rightarrow> string \<Rightarrow> ws \<Rightarrow> NMBMessage \<Rightarrow> PolicyBroker \<Rightarrow> bool \<times> PolicyBroker" where
  "enforce_policy e s w m pb = (case policy_denial (pb_policies pb) s m of
     None \<Rightarrow> (True, pb)
   | Some t \<Rightarrow> (False, pb\<lparr>pb_broker := send_error e w (m_id m) POLICY_DENIED t None (pb_broker pb)\<rparr>))"

definition policy_dispatch :: "env \<Rightarrow> string \<Rightarrow> ws \<Rightarrow> string \<Rightarrow> PolicyBroker \<Rightarrow> PolicyBroker" where
  "policy_dispatch e s w raw pb =
     (case from_json e raw of
        Inl err \<Rightarrow> pb\<lparr>pb_broker := send_error e w [] (err_code err) (err_text err) None (pb_broker pb)\<rparr>
      | Inr m \<Rightarrow>
         let msg = stamp e s m in
         case validate_frame msg of
           Some err \<Rightarrow> pb\<lparr>pb_broker := send_error e w (m_id msg) (err_code err) (err_text err) None (pb_broker pb)\<rparr>
         | None \<Rightarrow> (case enforce_policy e s w msg pb of
             (False, pb1) \<Rightarrow> pb1
           | (True, pb1) \<Rightarrow> pb1\<lparr>pb_broker := route e s w msg (pb_broker pb1)\<rparr>))"

section \<open>The topology of the harness\<close>

text \<open>A sandbox to set up: its policy, the id its bus has drawn, and its connection.\<close>

type_synonym sandbox_setup = "SandboxPolicy \<times> string \<times> ws"

record harness =
  ha_broker :: PolicyBroker
  ha_unique :: "(string, string) dict"
  ha_sandboxes :: "(string, string \<times> ws) dict"

definition connect_bus :: "env \<Rightarrow> string \<Rightarrow> ws \<Rightarrow> PolicyBroker \<Rightarrow> PolicyBroker" where
  "connect_bus e i w pb = (case policy_process_request pb (Some i) of
     Accept s \<Rightarrow> pb\<lparr>pb_broker := register e s w (pb_broker pb)\<rparr> | Respond code t \<Rightarrow> pb)"

definition set_up :: "env \<Rightarrow> sandbox_setup \<Rightarrow> harness \<Rightarrow> harness" where
  "set_up e sb h = (case sb of (p, i, w) \<Rightarrow>
     (let name = po_sandbox_id p;
          h1 = h\<lparr>ha_broker := rekey_policy name i (ha_broker h), ha_unique := dict_set name i (ha_unique h)\<rparr>
      in if \<not> can_connect p then h1
         else h1\<lparr>ha_broker := connect_bus e i w (ha_broker h1), ha_sandboxes := dict_set name (i, w) (ha_sandboxes h1)\<rparr>))"

definition harness_start :: "env \<Rightarrow> BrokerConfig \<Rightarrow> AuditDB option \<Rightarrow> sandbox_setup list \<Rightarrow> harness" where
  "harness_start e cfg aud sbs =
     fold (set_up e) sbs \<lparr>ha_broker = policy_init cfg aud (map fst sbs), ha_unique = [], ha_sandboxes = []\<rparr>"

definition add_sandbox :: "env \<Rightarrow> sandbox_setup \<Rightarrow> harness \<Rightarrow> harness" where
  "add_sandbox e sb h = set_up e sb (h\<lparr>ha_broker := add_policy (fst sb) (ha_broker h)\<rparr>)"

text \<open>Closing a bus disconnects it at the broker.\<close>

definition close_bus :: "env \<Rightarrow> string \<times> ws \<Rightarrow> PolicyBroker \<Rightarrow> PolicyBroker" where
  "close_bus e bus pb = pb\<lparr>pb_broker := unregister e (fst bus) (snd bus) (pb_broker pb)\<rparr>"

definition remove_sandbox :: "env \<Rightarrow> string \<Rightarrow> harness \<Rightarrow> harness" where
  "remove_sandbox e name h = (case dict_get (ha_sandboxes h) name of
     None \<Rightarrow> h
   | Some bus \<Rightarrow> h\<lparr>ha_sandboxes := dict_pop name (ha_sandboxes h), ha_broker := close_bus e bus (ha_broker h)\<rparr>)"

definition harness_stop :: "env \<Rightarrow> bool \<Rightarrow> harness \<Rightarrow> harness" where
  "harness_stop e landed h =
     (let pb = fold (close_bus e) (dict_values (ha_sandboxes h)) (ha_broker h)
      in h\<lparr>ha_sandboxes := [], ha_broker := pb\<lparr>pb_broker := broker_stop e landed (pb_broker pb)\<rparr>\<rparr>)"

definition resolve_name :: "harness \<Rightarrow> string \<Rightarrow> string" where
  "resolve_name h name = dict_default (ha_unique h) name name"

section \<open>What a policy permits\<close>

definition allows :: "'a list option \<Rightarrow> 'a \<Rightarrow> bool" where
  "allows rule x = (case rule of None \<Rightarrow> True | Some xs \<Rightarrow> x \<in> set xs)"

text \<open>A pattern: everything, one name, or every name that extends a prefix ending in a dot.\<close>

definition covers :: "string \<Rightarrow> string \<Rightarrow> bool" where
  "covers p ch = (p = ''*'' \<or> p = ch \<or> (\<exists>q rest. p = q @ ''.*'' \<and> ch = q @ ''.'' @ rest))"

definition permitted :: "(string, SandboxPolicy) dict \<Rightarrow> string \<Rightarrow> NMBMessage \<Rightarrow> bool" where
  "permitted ps s m =
     ((\<forall>p. dict_get ps s = Some p \<longrightarrow>
         allows (allowed_ops p) (m_op m) \<and>
         (targeted m \<longrightarrow> allows (allowed_egress_targets p) (the (m_to_sandbox m))) \<and>
         (on_channel m \<longrightarrow> (\<forall>pats. allowed_channels p = Some pats \<longrightarrow> (\<exists>c\<in>set pats. covers c (the (m_channel m)))))) \<and>
      (targeted m \<longrightarrow> (\<forall>q. dict_get ps (the (m_to_sandbox m)) = Some q \<longrightarrow> allows (allowed_ingress_sources q) s)))"

lemma pattern_covers: "ends_with p ''.*'' \<and> starts_with ch (butlast p) \<longleftrightarrow> (\<exists>q rest. p = q @ ''.*'' \<and> ch = q @ ''.'' @ rest)"
proof -
  have "butlast (q @ ''.*'') = q @ ''.''" for q :: string by (simp add: butlast_append)
  then show ?thesis by (auto simp: ends_with_iff starts_with_iff)
qed

lemma channel_matches_covers: "channel_matches ch pats \<longleftrightarrow> (\<exists>c\<in>set pats. covers c ch)"
proof (induction pats)
  case (Cons p pats)
  have "channel_matches ch (p # pats) \<longleftrightarrow> covers p ch \<or> channel_matches ch pats"
    unfolding channel_matches.simps pattern_covers covers_def by auto
  with Cons show ?case by simp
qed simp

lemma denial_iff: "policy_denial ps s m = None \<longleftrightarrow> permitted ps s m"
proof (cases "targeted m")
  case True
  then have "\<not> on_channel m" by (auto simp: targeted_def on_channel_def)
  with True show ?thesis
    by (auto simp: policy_denial_def permitted_def op_denial_def target_denial_def rule_of_def allows_def split: option.splits)
next
  case False
  then show ?thesis
    by (auto simp: policy_denial_def permitted_def op_denial_def channel_denial_def rule_of_def allows_def
        channel_matches_covers split: option.splits)
qed

text \<open>What one frame of \<open>s\<close> must satisfy: once it is valid, the policies permit it.\<close>

definition denied :: "env \<Rightarrow> (string, SandboxPolicy) dict \<Rightarrow> string \<Rightarrow> string \<Rightarrow> bool" where
  "denied e ps s raw = (case from_json e raw of
     Inl err \<Rightarrow> False
   | Inr m \<Rightarrow> validate_frame (stamp e s m) = None \<and> \<not> permitted ps s (stamp e s m))"

lemma policy_dispatch_state:
  "pb_policies (policy_dispatch e s w raw pb) = pb_policies pb" "pb_renames (policy_dispatch e s w raw pb) = pb_renames pb"
  by (auto simp: policy_dispatch_def enforce_policy_def Let_def split: sum.split option.split)

text \<open>C40: Refinement: the policy broker is the broker guarded by the policies. A frame that its sender's
  policy and the policy of its target permit, or that is malformed, is dispatched exactly as by the broker;
  any other changes nothing and is answered on the sender's own connection with \<open>POLICY_DENIED\<close>.\<close>

theorem policies_guard_broker:
  "\<exists>i t. pb_broker (policy_dispatch e s w raw pb) =
     (if denied e (pb_policies pb) s raw then send_error e w i POLICY_DENIED t None (pb_broker pb)
      else dispatch e s w raw (pb_broker pb))"
proof (cases "from_json e raw")
  case (Inl err)
  then show ?thesis by (simp add: denied_def policy_dispatch_def dispatch_def)
next
  case (Inr m)
  show ?thesis
  proof (cases "validate_frame (stamp e s m)")
    case None
    then show ?thesis
      using Inr denial_iff [of "pb_policies pb" s "stamp e s m"]
      by (cases "policy_denial (pb_policies pb) s (stamp e s m)")
        (auto simp: denied_def policy_dispatch_def dispatch_def enforce_policy_def Let_def)
  next
    case (Some err)
    then show ?thesis using Inr by (simp add: denied_def policy_dispatch_def dispatch_def Let_def)
  qed
qed

section \<open>Renaming keeps what a policy permits\<close>

definition rn :: "(string, string) dict \<Rightarrow> string \<Rightarrow> string" where
  "rn rs x = dict_default rs x x"

text \<open>Display names are in \<open>N\<close>; the ids are outside, and no two sandboxes share one.\<close>

definition fresh_renames :: "string set \<Rightarrow> (string, string) dict \<Rightarrow> bool" where
  "fresh_renames N rs = (distinct (map fst rs) \<and> set (map fst rs) \<subseteq> N \<and> distinct (map snd rs) \<and> set (map snd rs) \<inter> N = {})"

text \<open>A rule of the policy of \<open>self\<close> after the renames: every name is translated but its own.\<close>

definition view :: "(string, string) dict \<Rightarrow> string \<Rightarrow> string set \<Rightarrow> string set" where
  "view rs self E = (\<lambda>x. if x = self then self else rn rs x) ` E"

lemma dict_set_absent: "dict_get d k = None \<Longrightarrow> dict_set k v d = d @ [(k, v)]"
  by (induction d) (auto simp: dict_get_def dict_set_def split: if_splits)

lemma dict_get_Cons: "dict_get ((k, v) # d) x = (if x = k then Some v else dict_get d x)"
  by (simp add: dict_get_def)

lemma rn_Nil [simp]: "rn [] x = x"
  by (simp add: rn_def dict_default_def)

lemma rn_Cons: "rn ((k, v) # rs) x = (if x = k then v else rn rs x)"
  by (simp add: rn_def dict_default_def dict_get_def)

lemma rn_snoc: "k \<notin> set (map fst rs) \<Longrightarrow> rn (rs @ [(k, v)]) x = (if x = k then v else rn rs x)"
  by (induction rs) (auto simp: rn_Cons)

lemma rn_choice: "x \<notin> set (map fst rs) \<and> rn rs x = x \<or> x \<in> set (map fst rs) \<and> rn rs x \<in> set (map snd rs)"
proof (induction rs)
  case (Cons r rs)
  obtain k v where "r = (k, v)" by (cases r)
  with Cons show ?case by (cases "x = k") (simp_all add: rn_Cons, blast)
qed simp

lemma rn_outside: "x \<notin> set (map fst rs) \<Longrightarrow> rn rs x = x"
  using rn_choice [of x rs] by simp

lemma rn_inj: "fresh_renames N rs \<Longrightarrow> x \<in> N \<Longrightarrow> y \<in> N \<Longrightarrow> rn rs x = rn rs y \<Longrightarrow> x = y"
proof (induction rs)
  case (Cons r rs)
  obtain k v where r: "r = (k, v)" by (cases r)
  have f: "fresh_renames N rs" "v \<notin> N" "v \<notin> set (map snd rs)" using Cons.prems(1) r by (auto simp: fresh_renames_def)
  have "rn rs z \<noteq> v" if "z \<in> N" for z
    using f that rn_choice [of z rs] by auto
  then show ?case using Cons.IH [OF f(1) Cons.prems(2,3)] Cons.prems(2-4) r by (auto simp: rn_Cons split: if_splits)
qed simp

lemma rn_N: "fresh_renames N rs \<Longrightarrow> rn rs x \<in> N \<Longrightarrow> rn rs x = x"
  using rn_choice [of x rs] by (auto simp: fresh_renames_def)

lemma fresh_disjoint: "fresh_renames N rs \<Longrightarrow> set (map fst rs) \<inter> set (map snd rs) = {}"
  unfolding fresh_renames_def by blast

lemma rn_idem: "fresh_renames N rs \<Longrightarrow> rn rs (rn rs x) = rn rs x"
  using rn_choice [of x rs] fresh_disjoint [of N rs] rn_outside [of "rn rs x" rs] by auto

lemma rename_in_set: "map_option set (rename_in old new r) = map_option (image (\<lambda>y. if y = old then new else y)) (map_option set r)"
  by (cases r) (auto simp: rename_in_def set_add_def set_discard_def)

lemma apply_rename_fields [simp]:
  "allowed_egress_targets (apply_rename old new p) = rename_in old new (allowed_egress_targets p)"
  "allowed_ingress_sources (apply_rename old new p) = rename_in old new (allowed_ingress_sources p)"
  "can_connect (apply_rename old new p) = can_connect p" "allowed_channels (apply_rename old new p) = allowed_channels p"
  "allowed_ops (apply_rename old new p) = allowed_ops p"
  by (simp_all add: apply_rename_def)

lemma apply_renames_others [simp]:
  "can_connect (apply_renames a rs p) = can_connect p" "allowed_channels (apply_renames a rs p) = allowed_channels p"
  "allowed_ops (apply_renames a rs p) = allowed_ops p"
  by (induction a rs p rule: apply_renames.induct) simp_all

lemma view_Nil [simp]: "view [] a E = E"
  by (force simp: view_def)

lemma view_init: "view [] a = (\<lambda>E. E)"
  by (rule ext) simp

lemma view_Cons:
  assumes "new \<notin> set (map fst rs)" "a \<noteq> new" "old \<notin> set (map fst rs)"
  shows "view ((old, new) # rs) a E = view rs a (if old = a then E else (\<lambda>y. if y = old then new else y) ` E)"
  using assms rn_outside [OF assms(1)] by (auto simp: view_def rn_Cons image_image)

lemma view_rename:
  assumes "new \<notin> set (map fst rs)" "a \<noteq> new" "old \<notin> set (map fst rs)"
  shows "map_option (view rs a) (map_option set (if old = a then rule else rename_in old new rule)) =
    map_option (view ((old, new) # rs) a) (map_option set rule)"
  using rename_in_set [of old new rule] by (cases rule) (auto simp: view_Cons [OF assms])

lemma apply_renames_sets:
  assumes "distinct (map fst rs)" "set (map fst rs) \<inter> set (map snd rs) = {}" "a \<notin> set (map snd rs)"
  shows "map_option set (allowed_egress_targets (apply_renames a rs p)) = map_option (view rs a) (map_option set (allowed_egress_targets p)) \<and>
    map_option set (allowed_ingress_sources (apply_renames a rs p)) = map_option (view rs a) (map_option set (allowed_ingress_sources p))"
  using assms
proof (induction rs arbitrary: p)
  case Nil
  then show ?case by (simp add: option.map_ident)
next
  case (Cons r rs)
  obtain old new where r: "r = (old, new)" by (cases r)
  have "distinct (map fst rs)" "set (map fst rs) \<inter> set (map snd rs) = {}" "a \<notin> set (map snd rs)" using Cons.prems r by auto
  note IH = Cons.IH [OF this]
  have v: "map_option (view rs a) (map_option set (if old = a then rule else rename_in old new rule)) =
      map_option (view (r # rs) a) (map_option set rule)" for rule
    unfolding r by (rule view_rename) (use Cons.prems r in auto)
  show ?case
    using IH [of "if old = a then p else apply_rename old new p"] v [of "allowed_egress_targets p"] v [of "allowed_ingress_sources p"]
    by (cases "old = a") (simp_all add: r)
qed

text \<open>
  \<open>D\<close> holds the policies as declared, by display name. In the table of the broker each of them
  is found under its translated name, with translated rules.
\<close>

definition known :: "string set \<Rightarrow> SandboxPolicy \<Rightarrow> bool" where
  "known N p = (\<forall>xs. (allowed_egress_targets p = Some xs \<or> allowed_ingress_sources p = Some xs) \<longrightarrow> set xs \<subseteq> N)"

definition same_rules :: "(string set \<Rightarrow> string set) \<Rightarrow> SandboxPolicy \<Rightarrow> SandboxPolicy \<Rightarrow> bool" where
  "same_rules f p q = (can_connect q = can_connect p \<and> allowed_channels q = allowed_channels p \<and> allowed_ops q = allowed_ops p \<and>
     map_option set (allowed_egress_targets q) = map_option f (map_option set (allowed_egress_targets p)) \<and>
     map_option set (allowed_ingress_sources q) = map_option f (map_option set (allowed_ingress_sources p)))"

definition entry_ok ::
  "string set \<Rightarrow> (string, SandboxPolicy) dict \<Rightarrow> (string, string) dict \<Rightarrow> (string, SandboxPolicy) dict \<Rightarrow> string \<Rightarrow> bool" where
  "entry_ok N D rs ps a = (case dict_get D a of
     None \<Rightarrow> dict_get ps (rn rs a) = None
   | Some p \<Rightarrow> known N p \<and> (\<exists>q. dict_get ps (rn rs a) = Some q \<and> same_rules (view rs a) p q))"

definition topology_ok :: "string set \<Rightarrow> (string, SandboxPolicy) dict \<Rightarrow> PolicyBroker \<Rightarrow> bool" where
  "topology_ok N D pb = (fresh_renames N (pb_renames pb) \<and> (\<forall>a\<in>N. entry_ok N D (pb_renames pb) (pb_policies pb) a))"

lemma view_snoc:
  assumes "fresh_renames N rs" "a \<in> N" "a \<notin> set (map fst rs)" "E \<subseteq> N"
  shows "b \<noteq> a \<Longrightarrow> (\<lambda>y. if y = a then new else y) ` view rs b E = view (rs @ [(a, new)]) b E"
    and "view (rs @ [(a, new)]) a (view rs a E) = view (rs @ [(a, new)]) a E"
proof -
  have a: "rn rs x = a \<longleftrightarrow> x = a" for x using rn_N [OF assms(1), of x] assms(2) rn_outside [OF assms(3)] by auto
  note idem = rn_idem [OF assms(1)]
  show "b \<noteq> a \<Longrightarrow> (\<lambda>y. if y = a then new else y) ` view rs b E = view (rs @ [(a, new)]) b E"
    unfolding view_def image_image by (rule image_cong) (use a rn_snoc [OF assms(3)] in auto)
  show "view (rs @ [(a, new)]) a (view rs a E) = view (rs @ [(a, new)]) a E"
    unfolding view_def image_image by (rule image_cong) (use a idem rn_snoc [OF assms(3)] in auto)
qed

lemma translated_twice:
  "r' = map_option (view rs' a) r \<Longrightarrow> r = map_option (\<lambda>E. E) r0 \<or> r = map_option (view rs a) r0 \<Longrightarrow>
     (\<And>E. r0 = Some E \<Longrightarrow> view rs' a (view rs a E) = view rs' a E) \<Longrightarrow> r' = map_option (view rs' a) r0"
  by (cases r0) auto

lemma renamed_rule:
  assumes "fresh_renames N rs" "a \<in> N" "a \<notin> set (map fst rs)" "b \<noteq> a"
    and "map_option set r = map_option (view rs b) (map_option set r0)" "\<And>xs. r0 = Some xs \<Longrightarrow> set xs \<subseteq> N"
  shows "map_option set (rename_in a new r) = map_option (view (rs @ [(a, new)]) b) (map_option set r0)"
proof (cases r0)
  case None
  then show ?thesis using assms(5) by (simp add: rename_in_def)
next
  case (Some xs)
  then have "map_option set r = Some (view rs b (set xs))" using assms(5) by simp
  then show ?thesis
    unfolding rename_in_set using Some view_snoc(1) [OF assms(1-3) assms(6) [OF Some] assms(4), of new] by auto
qed

lemma dict_get_rename_others:
  "dict_get (rename_others old new ps) k = (if k = new then dict_get ps k else map_option (apply_rename old new) (dict_get ps k))"
  by (induction ps) (auto simp: rename_others_def dict_get_def)

lemma rekey_step:
  assumes f: "fresh_renames N (pb_renames pb)" and a: "a \<in> N" "a \<notin> set (map fst (pb_renames pb))"
    and new: "new \<notin> N" "new \<notin> set (map snd (pb_renames pb))"
    and p: "dict_get D a = Some p" "known N p"
    and q: "dict_get (pb_policies pb) a = Some q" "same_rules (\<lambda>E. E) p q \<or> same_rules (view (pb_renames pb) a) p q"
    and others: "\<And>b. b \<in> N \<Longrightarrow> b \<noteq> a \<Longrightarrow> entry_ok N D (pb_renames pb) (pb_policies pb) b"
  shows "topology_ok N D (rekey_policy a new pb) \<and> pb_renames (rekey_policy a new pb) = pb_renames pb @ [(a, new)]"
proof -
  let ?rs = "pb_renames pb" and ?rs' = "pb_renames pb @ [(a, new)]"
  let ?ps' = "pb_policies (rekey_policy a new pb)"
  have rs': "dict_set a new ?rs = ?rs'" by (rule dict_set_absent) (use a(2) in \<open>force simp: dict_get_def map_of_eq_None_iff\<close>)
  have f': "fresh_renames N ?rs'" using f a new by (auto simp: fresh_renames_def)
  have get: "dict_get ?ps' k = (if k = new then Some (apply_renames a ?rs' (q\<lparr>po_sandbox_id := new\<rparr>))
      else if k = a then None else map_option (apply_rename a new) (dict_get (pb_policies pb) k))" for k
    by (simp add: rekey_policy_def q(1) Let_def rs' dict_simps dict_get_rename_others)
  have "entry_ok N D ?rs' ?ps' b" if b: "b \<in> N" for b
  proof (cases "b = a")
    case True
    have sets: "distinct (map fst ?rs')" "set (map fst ?rs') \<inter> set (map snd ?rs') = {}" "a \<notin> set (map snd ?rs')"
      using f' a(1) fresh_disjoint [OF f'] unfolding fresh_renames_def by blast+
    let ?p = "apply_renames a ?rs' (q\<lparr>po_sandbox_id := new\<rparr>)"
    have twice: "view ?rs' a (view ?rs a E) = view ?rs' a E"
      if "map_option set (allowed_egress_targets p) = Some E \<or> map_option set (allowed_ingress_sources p) = Some E" for E
      using that p(2) view_snoc(2) [OF f a] by (auto simp: known_def)
    have "map_option set (allowed_egress_targets ?p) = map_option (view ?rs' a) (map_option set (allowed_egress_targets p))"
      by (rule translated_twice [where r = "map_option set (allowed_egress_targets q)" and rs = ?rs])
        (use q(2) apply_renames_sets [OF sets, of "q\<lparr>po_sandbox_id := new\<rparr>"] twice in \<open>auto simp: same_rules_def\<close>)
    moreover have "map_option set (allowed_ingress_sources ?p) = map_option (view ?rs' a) (map_option set (allowed_ingress_sources p))"
      by (rule translated_twice [where r = "map_option set (allowed_ingress_sources q)" and rs = ?rs])
        (use q(2) apply_renames_sets [OF sets, of "q\<lparr>po_sandbox_id := new\<rparr>"] twice in \<open>auto simp: same_rules_def\<close>)
    ultimately have "same_rules (view ?rs' a) p ?p" using q(2) by (auto simp: same_rules_def)
    then show ?thesis using True p rn_snoc [OF a(2)] by (simp add: entry_ok_def get)
  next
    case False
    have r: "rn ?rs' b = rn ?rs b" using rn_snoc [OF a(2)] False by simp
    have k: "rn ?rs b \<noteq> new" "rn ?rs b \<noteq> a"
      using rn_choice [of b ?rs] False b new f a(1) by (auto simp: fresh_renames_def)
    show ?thesis
    proof (cases "dict_get D b")
      case None
      then show ?thesis using others [OF b False] k by (simp add: entry_ok_def r get)
    next
      case (Some pb0)
      then obtain q0 where q0: "dict_get (pb_policies pb) (rn ?rs b) = Some q0" "same_rules (view ?rs b) pb0 q0" "known N pb0"
        using others [OF b False] by (auto simp: entry_ok_def)
      have "same_rules (view ?rs' b) pb0 (apply_rename a new q0)"
        using q0(2,3) renamed_rule [OF f a False] by (simp add: same_rules_def known_def)
      then show ?thesis using Some q0 k by (simp add: entry_ok_def r get)
    qed
  qed
  then show ?thesis using f' by (simp add: topology_ok_def rekey_policy_def q(1) Let_def rs')
qed

section \<open>The topology\<close>

definition setup_name :: "sandbox_setup \<Rightarrow> string" where
  "setup_name sb = po_sandbox_id (fst sb)"

definition setup_id :: "sandbox_setup \<Rightarrow> string" where
  "setup_id sb = fst (snd sb)"

text \<open>The names are distinct, the ids too, and no id is a name or is mentioned by a rule.\<close>

definition well_named :: "sandbox_setup list \<Rightarrow> bool" where
  "well_named sbs = (distinct (map setup_name sbs) \<and> distinct (map setup_id sbs) \<and> [] \<notin> set (map setup_id sbs) \<and>
     list_all (\<lambda>sb. setup_name sb \<notin> set (map setup_id sbs) \<and> known (- set (map setup_id sbs)) (fst sb)) sbs)"

lemma topology_init: "list_all (known N) ps \<Longrightarrow> topology_ok N (policies_of ps) (policy_init cfg aud ps)"
proof -
  have "list_all (known N) ps \<Longrightarrow> dict_get (policies_of ps) a = Some p \<Longrightarrow> known N p" for a p
    unfolding policies_of_def by (induction ps rule: rev_induct) (auto simp: dict_simps split: if_splits)
  then show "list_all (known N) ps \<Longrightarrow> topology_ok N (policies_of ps) (policy_init cfg aud ps)"
    by (auto simp: topology_ok_def policy_init_def fresh_renames_def entry_ok_def same_rules_def view_init option.map_ident split: option.split)
qed

lemma connect_bus_policies [simp]:
  "pb_policies (connect_bus e i w pb) = pb_policies pb" "pb_renames (connect_bus e i w pb) = pb_renames pb"
  by (simp_all add: connect_bus_def split: handshake.split)

lemma set_up_fields:
  "pb_policies (ha_broker (set_up e sb h)) = pb_policies (rekey_policy (setup_name sb) (setup_id sb) (ha_broker h))"
  "pb_renames (ha_broker (set_up e sb h)) = pb_renames (rekey_policy (setup_name sb) (setup_id sb) (ha_broker h))"
  "ha_unique (set_up e sb h) = dict_set (setup_name sb) (setup_id sb) (ha_unique h)"
  by (cases sb; simp add: set_up_def setup_name_def setup_id_def Let_def)+

definition harness_ok :: "string set \<Rightarrow> (string, SandboxPolicy) dict \<Rightarrow> harness \<Rightarrow> bool" where
  "harness_ok N D h = (topology_ok N D (ha_broker h) \<and> ha_unique h = pb_renames (ha_broker h))"

lemma topology_fields:
  "pb_policies pb' = pb_policies pb \<Longrightarrow> pb_renames pb' = pb_renames pb \<Longrightarrow> topology_ok N D pb' = topology_ok N D pb"
  by (simp add: topology_ok_def)

lemma set_up_ok:
  assumes "ha_unique h = pb_renames (ha_broker h)"
    and "fresh_renames N (pb_renames (ha_broker h))" "setup_name sb \<in> N" "setup_name sb \<notin> set (map fst (ha_unique h))"
    "setup_id sb \<notin> N" "setup_id sb \<notin> set (map snd (ha_unique h))" "dict_get D (setup_name sb) = Some p" "known N p"
    "dict_get (pb_policies (ha_broker h)) (setup_name sb) = Some q"
    "same_rules (\<lambda>E. E) p q \<or> same_rules (view (pb_renames (ha_broker h)) (setup_name sb)) p q"
    "\<And>b. b \<in> N \<Longrightarrow> b \<noteq> setup_name sb \<Longrightarrow> entry_ok N D (pb_renames (ha_broker h)) (pb_policies (ha_broker h)) b"
  shows "harness_ok N D (set_up e sb h) \<and> ha_unique (set_up e sb h) = ha_unique h @ [(setup_name sb, setup_id sb)]"
proof -
  have "dict_set (setup_name sb) (setup_id sb) (ha_unique h) = ha_unique h @ [(setup_name sb, setup_id sb)]"
    by (rule dict_set_absent) (use assms(4) in \<open>force simp: dict_get_def map_of_eq_None_iff\<close>)
  then show ?thesis
    using rekey_step [OF assms(2,3) _ assms(5) _ assms(7-11)] assms(1,4,6)
      topology_fields [OF set_up_fields(1,2) [of e sb h], of N D]
    by (auto simp: harness_ok_def set_up_fields)
qed

lemma set_up_declared:
  assumes "harness_ok N D h" "setup_name sb \<in> N" "setup_name sb \<notin> set (map fst (ha_unique h))"
    "setup_id sb \<notin> N" "setup_id sb \<notin> set (map snd (ha_unique h))" "dict_get D (setup_name sb) \<noteq> None"
  shows "harness_ok N D (set_up e sb h) \<and> ha_unique (set_up e sb h) = ha_unique h @ [(setup_name sb, setup_id sb)]"
proof -
  have h: "fresh_renames N (pb_renames (ha_broker h))" "ha_unique h = pb_renames (ha_broker h)"
    "\<And>b. b \<in> N \<Longrightarrow> entry_ok N D (pb_renames (ha_broker h)) (pb_policies (ha_broker h)) b"
    using assms(1) by (simp_all add: harness_ok_def topology_ok_def)
  obtain p where p: "dict_get D (setup_name sb) = Some p" using assms(6) by blast
  then obtain q where "known N p" "dict_get (pb_policies (ha_broker h)) (setup_name sb) = Some q"
      "same_rules (view (pb_renames (ha_broker h)) (setup_name sb)) p q"
    using h(3) [OF assms(2)] rn_outside [of "setup_name sb" "pb_renames (ha_broker h)"] assms(3) h(2) by (auto simp: entry_ok_def)
  then show ?thesis using set_up_ok [OF h(2,1) assms(2-5) p _ _ disjI2 h(3)] by blast
qed

lemma add_sandbox_ok:
  assumes "harness_ok N D h" "setup_name sb \<in> N" "setup_name sb \<notin> set (map fst (ha_unique h))"
    "setup_id sb \<notin> N" "setup_id sb \<notin> set (map snd (ha_unique h))" "known N (fst sb)"
  shows "harness_ok N (dict_set (setup_name sb) (fst sb) D) (add_sandbox e sb h) \<and>
    ha_unique (add_sandbox e sb h) = ha_unique h @ [(setup_name sb, setup_id sb)]"
proof -
  let ?h = "h\<lparr>ha_broker := add_policy (fst sb) (ha_broker h)\<rparr>"
  have h: "fresh_renames N (pb_renames (ha_broker h))" "ha_unique h = pb_renames (ha_broker h)"
    "\<And>b. b \<in> N \<Longrightarrow> entry_ok N D (pb_renames (ha_broker h)) (pb_policies (ha_broker h)) b"
    using assms(1) by (simp_all add: harness_ok_def topology_ok_def)
  have f: "pb_renames (ha_broker ?h) = pb_renames (ha_broker h)" "ha_unique ?h = ha_unique h"
    "pb_policies (ha_broker ?h) = dict_set (setup_name sb) (fst sb) (pb_policies (ha_broker h))"
    by (simp_all add: add_policy_def setup_name_def)
  have "entry_ok N (dict_set (setup_name sb) (fst sb) D) (pb_renames (ha_broker ?h)) (pb_policies (ha_broker ?h)) b"
    if "b \<in> N" "b \<noteq> setup_name sb" for b
  proof -
    have "rn (pb_renames (ha_broker h)) b \<noteq> setup_name sb" using that(2) rn_N [OF h(1), of b] assms(2) by auto
    then show ?thesis using h(3) [OF that(1)] that(2) unfolding f entry_ok_def dict_simps by simp
  qed
  moreover have "same_rules (\<lambda>E. E) (fst sb) (fst sb)" by (simp add: same_rules_def option.map_ident)
  ultimately show ?thesis
    using set_up_ok [of ?h N sb "dict_set (setup_name sb) (fst sb) D" "fst sb" "fst sb" e] h(1,2) f assms(2-6)
    by (simp add: add_sandbox_def dict_simps)
qed

lemma start_ok:
  assumes "harness_ok N D h" "distinct (map fst (ha_unique h) @ map setup_name sbs)" "distinct (map snd (ha_unique h) @ map setup_id sbs)"
    "set (map setup_name sbs) \<subseteq> N" "set (map setup_id sbs) \<inter> N = {}" "\<And>sb. sb \<in> set sbs \<Longrightarrow> dict_get D (setup_name sb) \<noteq> None"
  shows "harness_ok N D (fold (set_up e) sbs h) \<and>
    ha_unique (fold (set_up e) sbs h) = ha_unique h @ map (\<lambda>sb. (setup_name sb, setup_id sb)) sbs"
  using assms
proof (induction sbs arbitrary: h)
  case (Cons sb sbs)
  have s: "harness_ok N D (set_up e sb h)" "ha_unique (set_up e sb h) = ha_unique h @ [(setup_name sb, setup_id sb)]"
    using set_up_declared [OF Cons.prems(1), of sb e] Cons.prems(2-6) by auto
  show ?case using Cons.IH [OF s(1)] s(2) Cons.prems by auto
qed simp

lemma added_ok:
  assumes "harness_ok N D h" "distinct (map fst (ha_unique h) @ map setup_name sbs)" "distinct (map snd (ha_unique h) @ map setup_id sbs)"
    "set (map setup_name sbs) \<subseteq> N" "set (map setup_id sbs) \<inter> N = {}" "list_all (\<lambda>sb. known N (fst sb)) sbs"
  shows "harness_ok N (fold (\<lambda>sb. dict_set (setup_name sb) (fst sb)) sbs D) (fold (add_sandbox e) sbs h) \<and>
    ha_unique (fold (add_sandbox e) sbs h) = ha_unique h @ map (\<lambda>sb. (setup_name sb, setup_id sb)) sbs"
  using assms
proof (induction sbs arbitrary: h D)
  case (Cons sb sbs)
  have s: "harness_ok N (dict_set (setup_name sb) (fst sb) D) (add_sandbox e sb h)"
      "ha_unique (add_sandbox e sb h) = ha_unique h @ [(setup_name sb, setup_id sb)]"
    using add_sandbox_ok [OF Cons.prems(1), of sb e] Cons.prems(2-6) by auto
  show ?case using Cons.IH [OF s(1)] s(2) Cons.prems by auto
qed simp

text \<open>The declared policies, and the harness with the sandboxes it starts with and those added later.\<close>

definition declared :: "sandbox_setup list \<Rightarrow> (string, SandboxPolicy) dict" where
  "declared sbs = policies_of (map fst sbs)"

definition deployed :: "env \<Rightarrow> BrokerConfig \<Rightarrow> AuditDB option \<Rightarrow> sandbox_setup list \<Rightarrow> sandbox_setup list \<Rightarrow> harness" where
  "deployed e cfg aud first later = fold (add_sandbox e) later (harness_start e cfg aud first)"

lemma declared_names: "sb \<in> set sbs \<Longrightarrow> dict_get (declared sbs) (setup_name sb) \<noteq> None"
  unfolding declared_def policies_of_def
  by (induction sbs rule: rev_induct) (auto simp: dict_simps setup_name_def)

lemma deployed_ok:
  assumes "well_named (first @ later)"
  shows "harness_ok (- set (map setup_id (first @ later))) (declared (first @ later)) (deployed e cfg aud first later) \<and>
    ha_unique (deployed e cfg aud first later) = map (\<lambda>sb. (setup_name sb, setup_id sb)) (first @ later)"
proof -
  let ?N = "- set (map setup_id (first @ later))"
  let ?h = "\<lparr>ha_broker = policy_init cfg aud (map fst first), ha_unique = [], ha_sandboxes = []\<rparr>"
  have w: "distinct (map setup_name (first @ later))" "distinct (map setup_id (first @ later))"
    "set (map setup_name (first @ later)) \<subseteq> ?N" "list_all (\<lambda>sb. known ?N (fst sb)) (first @ later)"
    using assms by (auto simp: well_named_def list_all_iff)
  have "harness_ok ?N (declared first) ?h"
    unfolding harness_ok_def declared_def
    using topology_init [of ?N "map fst first" cfg aud] w(4) by (simp add: list.pred_map comp_def policy_init_def)
  then have f: "harness_ok ?N (declared first) (harness_start e cfg aud first) \<and>
      ha_unique (harness_start e cfg aud first) = map (\<lambda>sb. (setup_name sb, setup_id sb)) first"
    using start_ok [of ?N "declared first" ?h first e] w declared_names [of _ first] by (auto simp: harness_start_def)
  have d: "fold (\<lambda>sb. dict_set (setup_name sb) (fst sb)) later (declared first) = declared (first @ later)"
    by (simp add: declared_def policies_of_def fold_map comp_def setup_name_def)
  show ?thesis
    using added_ok [of ?N "declared first" "harness_start e cfg aud first" later e] f w
    unfolding d deployed_def by (auto simp: comp_def)
qed

lemma allows_translated:
  assumes "fresh_renames N rs" "map_option set r' = map_option (view rs a) (map_option set r)" "\<And>xs. r = Some xs \<Longrightarrow> set xs \<subseteq> N"
    "a \<in> N" "b \<in> N" "b \<noteq> a"
  shows "allows r' (rn rs b) \<longleftrightarrow> allows r b"
proof (cases r)
  case None
  then show ?thesis using assms(2) by (simp add: allows_def)
next
  case (Some xs)
  then obtain ys where ys: "r' = Some ys" "set ys = view rs a (set xs)" using assms(2) by auto
  have "rn rs b \<in> view rs a (set xs) \<longleftrightarrow> b \<in> set xs"
    using assms(3) [OF Some] assms(4-6) rn_inj [OF assms(1), of b] rn_N [OF assms(1), of b] by (auto simp: view_def)
  then show ?thesis using Some ys by (simp add: allows_def)
qed

text \<open>Translating the policies to unique ids keeps what they permit: in every topology, however many sandboxes
  are added after the start and in whatever order the policies refer to one another, a message between two
  different sandboxes, addressed by their names, is permitted exactly when the policies as declared permit it.\<close>

theorem rekeying_keeps_policies:
  assumes "well_named (first @ later)"
    and "set [a, b] \<inter> set (map setup_id (first @ later)) = {}" "a \<noteq> b" "b \<noteq> []" "m_to_sandbox m = Some b"
  shows "permitted (pb_policies (ha_broker (deployed e cfg aud first later))) (resolve_name (deployed e cfg aud first later) a)
      (m\<lparr>m_to_sandbox := Some (resolve_name (deployed e cfg aud first later) b)\<rparr>) \<longleftrightarrow>
    permitted (declared (first @ later)) a m"
proof -
  let ?h = "deployed e cfg aud first later" and ?N = "- set (map setup_id (first @ later))" and ?D = "declared (first @ later)"
  let ?rs = "pb_renames (ha_broker ?h)" and ?ps = "pb_policies (ha_broker ?h)"
  have h: "fresh_renames ?N ?rs" "\<And>x. x \<in> ?N \<Longrightarrow> entry_ok ?N ?D ?rs ?ps x" "ha_unique ?h = ?rs"
      "?rs = map (\<lambda>sb. (setup_name sb, setup_id sb)) (first @ later)"
    using deployed_ok [OF assms(1), of e cfg aud] by (auto simp: harness_ok_def topology_ok_def)
  have res: "resolve_name ?h x = rn ?rs x" for x by (simp add: resolve_name_def rn_def h(3))
  have ab: "a \<in> ?N" "b \<in> ?N" using assms(2) by auto
  have "[] \<notin> set (map snd ?rs)" using assms(1) h(4) by (auto simp: well_named_def)
  then have "rn ?rs b \<noteq> []" using rn_choice [of b ?rs] assms(4) by metis
  then have t: "targeted (m\<lparr>m_to_sandbox := Some (rn ?rs b)\<rparr>) = targeted m" "on_channel (m\<lparr>m_to_sandbox := Some (rn ?rs b)\<rparr>) = on_channel m"
    using assms(4,5) by (simp_all add: targeted_def on_channel_def truthy_def)
  note ok = h(2) [OF ab(1)] h(2) [OF ab(2)]
  have out: "dict_get ?ps (rn ?rs a) = None \<and> dict_get ?D a = None \<or>
      (\<exists>p q. dict_get ?D a = Some p \<and> dict_get ?ps (rn ?rs a) = Some q \<and> allowed_ops q = allowed_ops p \<and>
        allowed_channels q = allowed_channels p \<and>
        (allows (allowed_egress_targets q) (rn ?rs b) \<longleftrightarrow> allows (allowed_egress_targets p) b))"
    using ok(1) allows_translated [OF h(1) _ _ ab assms(3) [symmetric]]
    by (auto simp: entry_ok_def same_rules_def known_def split: option.splits)
  have inn: "dict_get ?ps (rn ?rs b) = None \<and> dict_get ?D b = None \<or>
      (\<exists>p q. dict_get ?D b = Some p \<and> dict_get ?ps (rn ?rs b) = Some q \<and>
        (allows (allowed_ingress_sources q) (rn ?rs a) \<longleftrightarrow> allows (allowed_ingress_sources p) a))"
    using ok(2) allows_translated [OF h(1) _ _ ab(2,1) assms(3)]
    by (auto simp: entry_ok_def same_rules_def known_def split: option.splits)
  show ?thesis using out inn by (auto simp: permitted_def res t assms(5))
qed

text \<open>A reference of a policy to its own sandbox is the exception: no rename reaches it, so a sandbox that is
  declared to send to itself is denied. And \<open>unsubscribe\<close>, said to be always allowed, needs a permission too.\<close>

definition self_setup :: "sandbox_setup list" where
  "self_setup = [(sandbox_policy ''a''\<lparr>allowed_egress_targets := Some [''a'']\<rparr>, ''a-1'', 1)]"

definition self_message :: NMBMessage where
  "self_message = (new_message Op_SEND ''m'')\<lparr>m_to_sandbox := Some ''a''\<rparr>"

theorem self_reference_lost:
  "permitted (declared self_setup) ''a'' self_message \<and>
   resolve_name (deployed e cfg aud self_setup []) ''a'' = ''a-1'' \<and>
   \<not> permitted (pb_policies (ha_broker (deployed e cfg aud self_setup []))) ''a-1'' (self_message\<lparr>m_to_sandbox := Some ''a-1''\<rparr>)"
proof -
  have d: "deployed e cfg aud self_setup [] = set_up e (sandbox_policy ''a''\<lparr>allowed_egress_targets := Some [''a'']\<rparr>, ''a-1'', 1)
      \<lparr>ha_broker = policy_init cfg aud [sandbox_policy ''a''\<lparr>allowed_egress_targets := Some [''a'']\<rparr>], ha_unique = [], ha_sandboxes = []\<rparr>"
    by (simp add: deployed_def harness_start_def self_setup_def)
  have "resolve_name (deployed e cfg aud self_setup []) ''a'' = ''a-1''"
    unfolding d resolve_name_def set_up_fields by (simp add: setup_name_def setup_id_def sandbox_policy_def dict_default_def dict_simps)
  moreover have "\<exists>q. dict_get (pb_policies (ha_broker (deployed e cfg aud self_setup []))) ''a-1'' = Some q \<and> allowed_egress_targets q = Some [''a'']"
    unfolding d set_up_fields
    by (simp add: setup_name_def setup_id_def sandbox_policy_def policy_init_def policies_of_def rekey_policy_def dict_simps dict_set_absent dict_get_Cons Let_def)
  moreover have "dict_get (declared self_setup) ''a'' = Some (sandbox_policy ''a''\<lparr>allowed_egress_targets := Some [''a'']\<rparr>)"
    by (simp add: declared_def self_setup_def policies_of_def sandbox_policy_def dict_simps)
  ultimately show ?thesis
    by (auto simp: permitted_def targeted_def truthy_def allows_def sandbox_policy_def on_channel_def self_message_def new_message_def)
qed

theorem unsubscribe_denied:
  "dict_get ps s = Some p \<Longrightarrow> allowed_ops p = Some ops \<Longrightarrow> Op_UNSUBSCRIBE \<notin> set ops \<Longrightarrow> m_op m = Op_UNSUBSCRIBE \<Longrightarrow>
     policy_denial ps s m \<noteq> None"
  by (simp add: policy_denial_def op_denial_def rule_of_def)

section \<open>A topology\<close>

definition orchestrator_setup :: "sandbox_setup list" where
  "orchestrator_setup = [(sandbox_policy ''o''\<lparr>allowed_egress_targets := Some [''w'']\<rparr>, ''o-1'', 1)]"

definition worker_setup :: "sandbox_setup list" where
  "worker_setup = [(sandbox_policy ''w''\<lparr>allowed_ingress_sources := Some [''o'']\<rparr>, ''w-1'', 2)]"

definition task_message :: NMBMessage where
  "task_message = (new_message Op_SEND ''m'')\<lparr>m_to_sandbox := Some ''w''\<rparr>"

lemma rekeying_keeps_policies_witness:
  "permitted (pb_policies (ha_broker (deployed sample_env default_broker_config None orchestrator_setup worker_setup))) ''o-1''
     (task_message\<lparr>m_to_sandbox := Some ''w-1''\<rparr>)"
proof -
  let ?h = "deployed sample_env default_broker_config None orchestrator_setup worker_setup"
  have w: "well_named (orchestrator_setup @ worker_setup)"
    by (simp add: well_named_def orchestrator_setup_def worker_setup_def setup_name_def setup_id_def sandbox_policy_def known_def)
  have r: "resolve_name ?h ''o'' = ''o-1''" "resolve_name ?h ''w'' = ''w-1''"
    using deployed_ok [OF w, of sample_env default_broker_config None]
    by (simp_all add: resolve_name_def dict_default_def dict_get_def orchestrator_setup_def worker_setup_def setup_name_def setup_id_def sandbox_policy_def)
  have "permitted (declared (orchestrator_setup @ worker_setup)) ''o'' task_message"
    by (auto simp: permitted_def declared_def policies_of_def orchestrator_setup_def worker_setup_def sandbox_policy_def dict_simps
        allows_def on_channel_def task_message_def new_message_def split: if_splits)
  moreover have "set [''o'', ''w''] \<inter> set (map setup_id (orchestrator_setup @ worker_setup)) = {}"
    by (simp add: orchestrator_setup_def worker_setup_def setup_id_def)
  moreover have "m_to_sandbox task_message = Some ''w''" by (simp add: task_message_def)
  ultimately show ?thesis
    using rekeying_keeps_policies [OF w, of "''o''" "''w''" task_message sample_env default_broker_config None] r by simp
qed

end
