(* ===== verification/Deployment.thy ===== *)
theory Deployment
  imports Config Skills FileTools
begin

text \<open>
  The files generated for a deployment: the configuration (\<^verbatim>\<open>scripts/gen_config.py\<close>) and the
  network policy (\<^verbatim>\<open>scripts/gen_policy.py\<close>), each the committed base with values of the
  operator's \<^verbatim>\<open>.env\<close> file. A document is the JSON value that YAML reads and writes, with the
  keys of an object in order; YAML's text and \<open>urlparse\<close> are outside. What the scripts print is left out,
  but for two of the lists they print, as tuples: the substitutions made and those skipped, with a reason
  (\<open>gen_config\<close> skips for one reason only, written \<^verbatim>\<open>unset\<close> here).
\<close>

section \<open>The environment file\<close>

definition strip_quotes :: "string \<Rightarrow> string" where
  "strip_quotes s = rstrip_chars (SQ @ DQ) (dropWhile (\<lambda>c. c \<in> set (SQ @ DQ)) s)"

definition dotenv_line :: "string \<Rightarrow> (string \<times> string) option" where
  "dotenv_line raw =
     (let line = strip raw; key = strip (takeWhile (\<lambda>c. c \<noteq> CHR ''='') line);
          val = strip_quotes (strip (drop 1 (dropWhile (\<lambda>c. c \<noteq> CHR ''='') line)))
      in if line = [] \<or> starts_with line ''#'' \<or> CHR ''='' \<notin> set line then None
         else if key \<noteq> [] then Some (key, val) else None)"

text \<open>\<open>None\<close> when there is no file.\<close>

definition load_dotenv :: "string option \<Rightarrow> environ" where
  "load_dotenv t = (case t of
     None \<Rightarrow> []
   | Some s \<Rightarrow> fold (\<lambda>raw env. case dotenv_line raw of Some (k, v) \<Rightarrow> dict_set k v env | None \<Rightarrow> env) (splitlines s) [])"

section \<open>The configuration\<close>

datatype gen_error = MissingIntermediate string string | BadShape | BadUrl

datatype gen_result =
    GenExit int
  | GenRaised gen_error
  | Resolved json "(string \<times> string) list" "(string \<times> string \<times> string) list"

definition CATEGORY_B_KEYS :: "(string \<times> string) list" where
  "CATEGORY_B_KEYS = [(''GIT_CLONE_ALLOWED_HOSTS'', ''coding.git_clone_allowed_hosts''), (''GITLAB_URL'', ''toolsets.gitlab.url''),
     (''GERRIT_URL'', ''toolsets.gerrit.url'')]"

definition FORBIDDEN_KEY_SUFFIXES :: "string list" where
  "FORBIDDEN_KEY_SUFFIXES = [''_TOKEN'', ''_AUTH'', ''_PASSWORD'', ''_KEY'', ''_SECRET'', ''_API_KEY'', ''_BOT_TOKEN'', ''_APP_TOKEN'',
     ''_USER_TOKEN'', ''_USERNAME'', ''_CREDENTIALS'', ''_COOKIE'']"

text \<open>\<open>key.upper()\<close>, for the letters of an environment variable.\<close>

definition upper_char :: "char \<Rightarrow> char" where
  "upper_char c = (if CHR ''a'' \<le> c \<and> c \<le> CHR ''z'' then char_of (of_char c - 32 :: nat) else c)"

definition has_forbidden_suffix :: "string \<Rightarrow> bool" where
  "has_forbidden_suffix key = list_ex (ends_with (map upper_char key)) FORBIDDEN_KEY_SUFFIXES"

text \<open>
  Descending into a value that is no mapping: \<open>in\<close> a list or a text may find the part, and the
  subscript then fails; otherwise the part is missing. On any other value \<open>in\<close> itself fails.
\<close>

definition holds_part :: "string \<Rightarrow> json \<Rightarrow> bool" where
  "holds_part part node = (case node of
     JList xs \<Rightarrow> JStr part \<in> set xs | JStr s \<Rightarrow> contains_str s part | _ \<Rightarrow> True)"

fun apply_parts :: "string \<Rightarrow> string list \<Rightarrow> string \<Rightarrow> json \<Rightarrow> gen_error + json" where
  "apply_parts dotted [] val node = Inl BadShape"
| "apply_parts dotted [part] val node = (case node of
     JObj kvs \<Rightarrow> Inr (JObj (dict_set part (JStr val) kvs)) | _ \<Rightarrow> Inl BadShape)"
| "apply_parts dotted (part # next_part # parts) val node = (case node of
     JObj kvs \<Rightarrow> (case dict_get kvs part of
         None \<Rightarrow> Inl (MissingIntermediate dotted part)
       | Some child \<Rightarrow> (case apply_parts dotted (next_part # parts) val child of
           Inl x \<Rightarrow> Inl x | Inr child1 \<Rightarrow> Inr (JObj (dict_set part child1 kvs))))
   | _ \<Rightarrow> Inl (if holds_part part node then BadShape else MissingIntermediate dotted part))"

definition apply_dotted_path :: "string \<Rightarrow> string \<Rightarrow> json \<Rightarrow> gen_error + json" where
  "apply_dotted_path dotted val doc = apply_parts dotted (split_on CHR ''.'' dotted) val doc"

record merged =
  mg_doc :: json
  mg_applied :: "(string \<times> string) list"
  mg_skipped :: "(string \<times> string \<times> string) list"
  mg_forbidden :: "string list"

fun merge_keys :: "environ \<Rightarrow> (string \<times> string) list \<Rightarrow> merged \<Rightarrow> gen_error + merged" where
  "merge_keys env [] m = Inr m"
| "merge_keys env ((key, dotted) # ks) m =
     (let val = dict_default env key [] in
      if val = [] then merge_keys env ks (m\<lparr>mg_skipped := mg_skipped m @ [(key, dotted, ''unset'')]\<rparr>)
      else if has_forbidden_suffix key then merge_keys env ks (m\<lparr>mg_forbidden := mg_forbidden m @ [key]\<rparr>)
      else case apply_dotted_path dotted val (mg_doc m) of
        Inl x \<Rightarrow> Inl x
      | Inr doc \<Rightarrow> merge_keys env ks (m\<lparr>mg_doc := doc, mg_applied := mg_applied m @ [(key, dotted)]\<rparr>))"

text \<open>The base is \<open>None\<close> when its file is missing.\<close>

definition gen_config :: "string option \<Rightarrow> json option \<Rightarrow> gen_result" where
  "gen_config dotenv base = (case base of
     None \<Rightarrow> GenExit 1
   | Some doc \<Rightarrow>
      (if list_ex (\<lambda>(key, dotted). has_forbidden_suffix key) CATEGORY_B_KEYS then GenExit 2
       else case merge_keys (load_dotenv dotenv) CATEGORY_B_KEYS
           \<lparr>mg_doc = doc, mg_applied = [], mg_skipped = [], mg_forbidden = []\<rparr> of
         Inl x \<Rightarrow> GenRaised x
       | Inr m \<Rightarrow> (if mg_forbidden m \<noteq> [] then GenExit 3 else Resolved (mg_doc m) (mg_applied m) (mg_skipped m))))"

section \<open>The network policy\<close>

definition POLICY_HOST_SUBSTITUTIONS :: "(string \<times> string) list" where
  "POLICY_HOST_SUBSTITUTIONS = [(''GITLAB_URL'', ''gitlab''), (''GERRIT_URL'', ''gerrit'')]"

text \<open>\<open>url_parts u\<close> is the scheme and the host name \<open>urlparse\<close> finds; \<open>None\<close> when it raises.\<close>

definition extract_host :: "(string \<Rightarrow> (string \<times> string option) option) \<Rightarrow> string \<Rightarrow> gen_error + string" where
  "extract_host url_parts u = (case url_parts (strip u) of
     None \<Rightarrow> Inl BadUrl
   | Some (scheme, host) \<Rightarrow> Inr (if scheme = [] then [] else or_str host []))"

text \<open>\<open>v.get(k) or d\<close> and \<open>v.get(k, d)\<close>; a value that is no mapping has no \<open>get\<close>.\<close>

definition get_or :: "string \<Rightarrow> json \<Rightarrow> json \<Rightarrow> gen_error + json" where
  "get_or k d v = (case v of
     JObj kvs \<Rightarrow> Inr (let x = dict_default kvs k JNull in if json_truthy x then x else d) | _ \<Rightarrow> Inl BadShape)"

definition get_default :: "string \<Rightarrow> json \<Rightarrow> json \<Rightarrow> gen_error + json" where
  "get_default k d v = (case v of JObj kvs \<Rightarrow> Inr (dict_default kvs k d) | _ \<Rightarrow> Inl BadShape)"

fun gen_bind :: "gen_error + 'a \<Rightarrow> ('a \<Rightarrow> gen_error + 'b) \<Rightarrow> gen_error + 'b" where
  "gen_bind (Inl x) k = Inl x"
| "gen_bind (Inr a) k = k a"

text \<open>Assigning in place to the value under a key that is there.\<close>

definition at_key :: "string \<Rightarrow> (json \<Rightarrow> json) \<Rightarrow> json \<Rightarrow> json" where
  "at_key k f v = (case v of
     JObj kvs \<Rightarrow> (case dict_get kvs k of Some x \<Rightarrow> JObj (dict_set k (f x) kvs) | None \<Rightarrow> v) | _ \<Rightarrow> v)"

definition set_first_host :: "string \<Rightarrow> json \<Rightarrow> gen_error + json" where
  "set_first_host host endpoints = (case endpoints of
     JList (JObj kvs # es) \<Rightarrow> Inr (JList (JObj (dict_set ''host'' (JStr host) kvs) # es)) | _ \<Rightarrow> Inl BadShape)"

definition substitute_host ::
  "(string \<Rightarrow> (string \<times> string option) option) \<Rightarrow> environ \<Rightarrow> string \<times> string \<Rightarrow> merged \<Rightarrow> gen_error + merged" where
  "substitute_host url_parts env entry m = (case entry of (var, name) \<Rightarrow>
     (let url = dict_default env var [] in
      gen_bind (get_or ''network_policies'' (JObj []) (mg_doc m)) (\<lambda>nps.
      gen_bind (extract_host url_parts url) (\<lambda>host.
      gen_bind (get_or name (JObj []) nps) (\<lambda>pol.
      gen_bind (get_or ''endpoints'' (JList []) pol) (\<lambda>endpoints.
        if host = [] then
          Inr (m\<lparr>mg_skipped := mg_skipped m @ [(var, name, if strip url = [] then ''missing'' else ''malformed'')]\<rparr>)
        else if \<not> json_truthy endpoints then Inr (m\<lparr>mg_skipped := mg_skipped m @ [(var, name, ''schema_drift'')]\<rparr>)
        else gen_bind (set_first_host host endpoints) (\<lambda>es.
          Inr (m\<lparr>mg_doc := at_key ''network_policies'' (at_key name (at_key ''endpoints'' (\<lambda>_. es))) (mg_doc m),
                mg_applied := mg_applied m @ [(var, name)]\<rparr>))))))))"

fun apply_host_substitutions ::
  "(string \<Rightarrow> (string \<times> string option) option) \<Rightarrow> environ \<Rightarrow> (string \<times> string) list \<Rightarrow> merged \<Rightarrow> gen_error + merged" where
  "apply_host_substitutions url_parts env [] m = Inr m"
| "apply_host_substitutions url_parts env (entry # entries) m =
     gen_bind (substitute_host url_parts env entry m) (apply_host_substitutions url_parts env entries)"

definition comma_list :: "string \<Rightarrow> string list" where
  "comma_list raw = filter (\<lambda>s. s \<noteq> []) (map strip (split_on CHR '','' raw))"

text \<open>A list or a mapping as host cannot be looked up in the set of hosts.\<close>

definition inject_endpoint :: "string list \<Rightarrow> string list \<Rightarrow> json \<Rightarrow> gen_error + json" where
  "inject_endpoint listed ips endpoint =
     gen_bind (get_default ''host'' (JStr []) endpoint) (\<lambda>host. case host of
       JStr h \<Rightarrow> (if h \<in> set listed \<and> ips \<noteq> []
         then (case endpoint of JObj kvs \<Rightarrow> Inr (JObj (dict_set ''allowed_ips'' (JList (map JStr ips)) kvs)) | _ \<Rightarrow> Inl BadShape)
         else Inr endpoint)
     | JList xs \<Rightarrow> Inl BadShape
     | JObj kvs \<Rightarrow> Inl BadShape
     | _ \<Rightarrow> Inr endpoint)"

fun gen_map :: "('a \<Rightarrow> gen_error + 'b) \<Rightarrow> 'a list \<Rightarrow> gen_error + 'b list" where
  "gen_map f [] = Inr []"
| "gen_map f (x # xs) = gen_bind (f x) (\<lambda>y. gen_bind (gen_map f xs) (\<lambda>ys. Inr (y # ys)))"

text \<open>Iterating an empty text or mapping does nothing; their elements, when there are any, have no \<open>get\<close>.\<close>

definition inject_policy :: "string list \<Rightarrow> string list \<Rightarrow> json \<Rightarrow> gen_error + json" where
  "inject_policy listed ips pol =
     gen_bind (get_default ''endpoints'' (JList []) pol) (\<lambda>endpoints. case endpoints of
       JList es \<Rightarrow> gen_bind (gen_map (inject_endpoint listed ips) es) (\<lambda>es1. Inr (at_key ''endpoints'' (\<lambda>_. JList es1) pol))
     | _ \<Rightarrow> (if endpoints = JStr [] \<or> endpoints = JObj [] then Inr pol else Inl BadShape))"

definition inject_entry :: "string list \<Rightarrow> string list \<Rightarrow> string \<times> json \<Rightarrow> gen_error + string \<times> json" where
  "inject_entry listed ips entry = (case entry of (name, pol) \<Rightarrow>
     gen_bind (inject_policy listed ips pol) (\<lambda>pol1. Inr (name, pol1)))"

definition inject_allowed_ips :: "string list \<Rightarrow> string list \<Rightarrow> json \<Rightarrow> gen_error + json" where
  "inject_allowed_ips listed ips doc =
     gen_bind (get_default ''network_policies'' (JObj []) doc) (\<lambda>nps. case nps of
       JObj kvs \<Rightarrow> gen_bind (gen_map (inject_entry listed ips) kvs) (\<lambda>kvs1. Inr (at_key ''network_policies'' (\<lambda>_. JObj kvs1) doc))
     | _ \<Rightarrow> Inl BadShape)"

definition gen_policy :: "(string \<Rightarrow> (string \<times> string option) option) \<Rightarrow> string option \<Rightarrow> json option \<Rightarrow> gen_result" where
  "gen_policy url_parts dotenv base =
     (let env = load_dotenv dotenv; listed = comma_list (dict_default env ''ENDPOINTS_NEEDING_ALLOWED_IPS'' []);
          ips = comma_list (dict_default env ''ALLOWED_IPS'' []) in
      case base of
        None \<Rightarrow> GenExit 1
      | Some doc \<Rightarrow>
         (case apply_host_substitutions url_parts env POLICY_HOST_SUBSTITUTIONS
             \<lparr>mg_doc = doc, mg_applied = [], mg_skipped = [], mg_forbidden = []\<rparr> of
            Inl x \<Rightarrow> GenRaised x
          | Inr m \<Rightarrow> (case inject_allowed_ips listed ips (mg_doc m) of
              Inl x \<Rightarrow> GenRaised x
            | Inr doc1 \<Rightarrow> Resolved doc1 (mg_applied m) (mg_skipped m))))"

section \<open>What the files depend on\<close>

text \<open>The assignments of an environment file, in order; and those that are no secrets.\<close>

definition assignments :: "string \<Rightarrow> (string \<times> string) list" where
  "assignments t = List.map_filter dotenv_line (splitlines t)"

definition public_assignments :: "string \<Rightarrow> (string \<times> string) list" where
  "public_assignments t = filter (\<lambda>(k, v). \<not> has_forbidden_suffix k) (assignments t)"

lemma fold_assignments:
  "fold (\<lambda>raw env. case dotenv_line raw of Some (k, v) \<Rightarrow> dict_set k v env | None \<Rightarrow> env) ls env =
     fold (\<lambda>(k, v). dict_set k v) (List.map_filter dotenv_line ls) env"
  by (induction ls arbitrary: env) (auto simp: List.map_filter_simps split: option.splits)

lemma dict_get_fold_set: "dict_get (fold (\<lambda>(k, v). dict_set k v) kvs env) k = (case map_of (rev kvs) k of Some v \<Rightarrow> Some v | None \<Rightarrow> dict_get env k)"
  by (induction kvs arbitrary: env) (auto simp: dict_get_set map_add_def split: option.splits)

lemma load_dotenv_get: "dict_get (load_dotenv (Some t)) k = map_of (rev (assignments t)) k"
  by (simp add: load_dotenv_def fold_assignments dict_get_fold_set assignments_def split: option.split)

lemma map_of_filter_keys: "P k \<Longrightarrow> map_of (filter (\<lambda>(k, v). P k) kvs) k = map_of kvs k"
  by (induction kvs) auto

lemma public_get: "\<not> has_forbidden_suffix k \<Longrightarrow> dict_get (load_dotenv (Some t)) k = map_of (rev (public_assignments t)) k"
  using map_of_filter_keys [of "\<lambda>k. \<not> has_forbidden_suffix k" k "rev (assignments t)"]
  by (simp add: load_dotenv_get public_assignments_def rev_filter)

lemma merge_keys_cong:
  "list_all (\<lambda>(k, dotted). dict_get env1 k = dict_get env2 k) ks \<Longrightarrow> merge_keys env1 ks m = merge_keys env2 ks m"
  by (induction ks arbitrary: m) (auto simp: dict_default_def Let_def split: sum.splits)

lemma substitutions_cong:
  "list_all (\<lambda>(k, n). dict_get env1 k = dict_get env2 k) ks \<Longrightarrow>
   apply_host_substitutions url_parts env1 ks m = apply_host_substitutions url_parts env2 ks m"
proof (induction ks arbitrary: m)
  case (Cons entry ks)
  then have "substitute_host url_parts env1 entry m = substitute_host url_parts env2 entry m"
    by (auto simp: substitute_host_def dict_default_def split: prod.splits)
  with Cons show ?case by (cases "substitute_host url_parts env2 entry m") auto
qed simp

lemma keys_are_public:
  "\<not> has_forbidden_suffix ''GIT_CLONE_ALLOWED_HOSTS''" "\<not> has_forbidden_suffix ''GITLAB_URL''" "\<not> has_forbidden_suffix ''GERRIT_URL''"
  "\<not> has_forbidden_suffix ''ENDPOINTS_NEEDING_ALLOWED_IPS''" "\<not> has_forbidden_suffix ''ALLOWED_IPS''"
  by code_simp+

text \<open>
  C30: No secret of the environment file reaches a generated file. Two environment files
  whose assignments agree, but for the assignments to keys with a secret-like suffix, give the same
  outcome of both generators: the same configuration and the same network policy, the same lists of what
  was applied and skipped, or the same failure.
\<close>

theorem secrets_stay_out:
  assumes "public_assignments t1 = public_assignments t2"
  shows "gen_config (Some t1) base = gen_config (Some t2) base \<and>
    gen_policy url_parts (Some t1) base = gen_policy url_parts (Some t2) base"
proof -
  have eq: "dict_get (load_dotenv (Some t1)) k = dict_get (load_dotenv (Some t2)) k" if "\<not> has_forbidden_suffix k" for k
    using assms public_get [OF that] by simp
  have "merge_keys (load_dotenv (Some t1)) CATEGORY_B_KEYS m = merge_keys (load_dotenv (Some t2)) CATEGORY_B_KEYS m" for m
    by (rule merge_keys_cong) (simp add: CATEGORY_B_KEYS_def eq keys_are_public)
  moreover have "apply_host_substitutions url_parts (load_dotenv (Some t1)) POLICY_HOST_SUBSTITUTIONS m =
      apply_host_substitutions url_parts (load_dotenv (Some t2)) POLICY_HOST_SUBSTITUTIONS m" for m
    by (rule substitutions_cong) (simp add: POLICY_HOST_SUBSTITUTIONS_def eq keys_are_public)
  ultimately show ?thesis
    unfolding gen_config_def gen_policy_def dict_default_def Let_def by (simp add: eq keys_are_public split: option.split)
qed

lemma secrets_stay_out_witness:
  "public_assignments (''GITLAB_URL=https://g'' @ newline @ ''GITLAB_TOKEN=abc'') = public_assignments ''GITLAB_URL=https://g'' \<and>
   gen_config (Some (''GITLAB_URL=https://g'' @ newline @ ''GITLAB_TOKEN=abc'')) None = gen_config (Some ''GITLAB_URL=https://g'') None"
proof -
  have "public_assignments (''GITLAB_URL=https://g'' @ newline @ ''GITLAB_TOKEN=abc'') = public_assignments ''GITLAB_URL=https://g''"
    by code_simp
  with secrets_stay_out [OF this] show ?thesis by blast
qed

section \<open>From the environment file to the running configuration\<close>

text \<open>Where the assignments of the environment file go, and that no mapping of a section repeats a key.\<close>

definition GENERATED_FIELDS :: "(string \<times> string \<times> string) list" where
  "GENERATED_FIELDS = [(''GIT_CLONE_ALLOWED_HOSTS'', ''coding'', ''git_clone_allowed_hosts''), (''GITLAB_URL'', ''gitlab'', ''url''),
     (''GERRIT_URL'', ''gerrit'', ''url'')]"

definition distinct_fields :: "json \<Rightarrow> bool" where
  "distinct_fields v = (case v of
     JObj kvs \<Rightarrow> list_all (\<lambda>(k, s). case s of JObj fs \<Rightarrow> dict_wf fs | _ \<Rightarrow> True) kvs | _ \<Rightarrow> True)"

lemma list_all_dict_set: "list_all P kvs \<Longrightarrow> P (k, v) \<Longrightarrow> list_all P (dict_set k v kvs)"
  unfolding dict_set_def by (induction kvs) auto

lemma list_all_dict_get: "list_all P kvs \<Longrightarrow> dict_get kvs k = Some v \<Longrightarrow> P (k, v)"
  by (auto simp: list_all_iff dict_get_def dest: map_of_SomeD)

lemma map_of_rev_wf: "dict_wf d \<Longrightarrow> map_of (rev d) = map_of d"
  by (induction d) (auto simp: dict_wf_def map_add_def fun_eq_iff map_of_eq_None_iff [symmetric] split: option.splits)

text \<open>Setting a field of a section, and of a section under another key.\<close>

lemma set_section_field:
  assumes "apply_parts dotted [s, f] val base = Inr doc" and "distinct_fields base"
  shows "given_in doc n g = (if n = s \<and> g = f then Some (JStr val) else given_in base n g)" and "distinct_fields doc"
    and "\<exists>kvs v. base = JObj kvs \<and> doc = JObj (dict_set s (JObj v) kvs)"
proof -
  obtain kvs fs where b: "base = JObj kvs" and s: "dict_get kvs s = Some (JObj fs)"
    and doc: "doc = JObj (dict_set s (JObj (dict_set f (JStr val) fs)) kvs)"
    using assms(1) by (auto split: json.splits option.splits sum.splits if_splits)
  have wf: "dict_wf fs" using list_all_dict_get [OF _ s] assms(2) by (fastforce simp: distinct_fields_def b)
  then show "given_in doc n g = (if n = s \<and> g = f then Some (JStr val) else given_in base n g)"
    using s by (auto simp: b doc given_in_def dict_get_set map_of_rev_wf dict_get_set [unfolded dict_get_def])
  show "distinct_fields doc" using assms(2) wf by (simp add: distinct_fields_def b doc list_all_dict_set)
  show "\<exists>kvs v. base = JObj kvs \<and> doc = JObj (dict_set s (JObj v) kvs)" using b doc by blast
qed

lemma set_toolset_field:
  assumes "apply_parts dotted [''toolsets'', s, f] val base = Inr doc"
    and "distinct_fields base" "distinct_fields (toolsets_of base)"
  shows "n \<noteq> ''toolsets'' \<Longrightarrow> given_in doc n g = given_in base n g"
    and "given_in (toolsets_of doc) n g = (if n = s \<and> g = f then Some (JStr val) else given_in (toolsets_of base) n g)"
    and "distinct_fields doc" "distinct_fields (toolsets_of doc)"
    and "\<exists>kvs v. base = JObj kvs \<and> doc = JObj (dict_set ''toolsets'' v kvs)"
proof -
  obtain kvs ts ts1 where b: "base = JObj kvs" and s: "dict_get kvs ''toolsets'' = Some ts"
    and t: "apply_parts dotted [s, f] val ts = Inr ts1" and doc: "doc = JObj (dict_set ''toolsets'' ts1 kvs)"
    using assms(1) by (auto split: json.splits option.splits sum.splits if_splits simp del: apply_parts.simps(2) simp: apply_parts.simps(3))
  have ts: "toolsets_of base = ts" "toolsets_of doc = ts1"
    using s by (simp_all add: b doc toolsets_of_def dict_default_def dict_get_set)
  note set = set_section_field [OF t assms(3) [unfolded ts]]
  show "n \<noteq> ''toolsets'' \<Longrightarrow> given_in doc n g = given_in base n g" by (simp add: b doc given_in_def dict_get_set)
  show "given_in (toolsets_of doc) n g = (if n = s \<and> g = f then Some (JStr val) else given_in (toolsets_of base) n g)"
    using set(1) by (simp add: ts)
  show "distinct_fields (toolsets_of doc)" using set(2) by (simp add: ts)
  from set(3) obtain tkvs v where tv: "ts = JObj tkvs" "ts1 = JObj (dict_set s (JObj v) tkvs)" by blast
  have "dict_wf tkvs" using list_all_dict_get [OF _ s] assms(2) tv by (fastforce simp: distinct_fields_def b)
  then show "distinct_fields doc" using assms(2) tv by (simp add: distinct_fields_def b doc list_all_dict_set)
  show "\<exists>kvs v. base = JObj kvs \<and> doc = JObj (dict_set ''toolsets'' v kvs)" using b doc by blast
qed

definition plain_document :: "json \<Rightarrow> bool" where
  "plain_document v = (distinct_fields v \<and> distinct_fields (toolsets_of v))"

definition changes_field :: "string \<Rightarrow> string \<Rightarrow> string option \<Rightarrow> json \<Rightarrow> json \<Rightarrow> bool" where
  "changes_field s f x base doc = (plain_document doc \<and> (\<forall>n g. yaml_field doc n g =
     (if n = s \<and> g = f then or_else (map_option (Some \<circ> JStr) x) (yaml_field base n g) else yaml_field base n g)))"

lemma sections_apart:
  "''toolsets'' \<notin> set DIRECT_SECTIONS" "set DIRECT_SECTIONS \<inter> set TOOLSET_SECTIONS = {}"
  by (simp_all add: DIRECT_SECTIONS_def TOOLSET_SECTIONS_def)

lemma changes_direct:
  assumes "apply_parts dotted [s, f] val base = Inr doc" and "plain_document base" and s: "s \<in> set DIRECT_SECTIONS"
  shows "changes_field s f (Some val) base doc"
proof -
  note set = set_section_field [OF assms(1)]
  have d: "distinct_fields base" using assms(2) by (simp add: plain_document_def)
  from set(3) [OF d] obtain kvs v where "base = JObj kvs" "doc = JObj (dict_set s (JObj v) kvs)" by blast
  then have t: "toolsets_of doc = toolsets_of base"
    using s sections_apart(1) by (auto simp: toolsets_of_def dict_default_def dict_get_set)
  then show ?thesis
    using set(1, 2) [OF d] assms(2) s sections_apart(2)
    by (auto simp: changes_field_def plain_document_def yaml_field_def or_else_def)
qed

lemma changes_toolset:
  assumes "apply_parts dotted [''toolsets'', s, f] val base = Inr doc" and "plain_document base" and s: "s \<in> set TOOLSET_SECTIONS"
  shows "changes_field s f (Some val) base doc"
proof -
  have d: "distinct_fields base" "distinct_fields (toolsets_of base)" using assms(2) by (simp_all add: plain_document_def)
  note set = set_toolset_field [OF assms(1) d]
  have plain: "plain_document doc" using set(3, 4) by (simp add: plain_document_def)
  have direct: "given_in doc n g = given_in base n g" if "n \<in> set DIRECT_SECTIONS" for n g
    using that sections_apart(1) by (intro set(1)) blast
  have "s \<notin> set DIRECT_SECTIONS" using s sections_apart(2) by blast
  then have "yaml_field doc n g = (if n = s \<and> g = f then Some (JStr val) else yaml_field base n g)" for n g
    unfolding yaml_field_def using direct [of n g] set(2) [of n g] s by (cases "n = s \<and> g = f") auto
  with plain show ?thesis by (simp add: changes_field_def or_else_def)
qed

lemma merge_step:
  assumes merged: "merge_keys env ((key, dotted) # ks) m = Inr m'" and key: "\<not> has_forbidden_suffix key"
    and plain: "plain_document (mg_doc m)"
    and set: "\<And>val doc. apply_dotted_path dotted val (mg_doc m) = Inr doc \<Longrightarrow> changes_field s f (Some val) (mg_doc m) doc"
  obtains m1 where "merge_keys env ks m1 = Inr m'" "changes_field s f (env_value env key) (mg_doc m) (mg_doc m1)"
proof (cases "env_value env key")
  case None
  then have "dict_default env key [] = []" by (auto simp: env_value_def dict_default_def split: option.splits if_splits)
  with merged have "merge_keys env ks (m\<lparr>mg_skipped := mg_skipped m @ [(key, dotted, ''unset'')]\<rparr>) = Inr m'" by simp
  from that [OF this] plain None show thesis by (simp add: changes_field_def or_else_def)
next
  case (Some val)
  then have "dict_default env key [] = val" "val \<noteq> []" by (auto simp: env_value_def dict_default_def split: option.splits if_splits)
  with merged key obtain doc where d: "apply_dotted_path dotted val (mg_doc m) = Inr doc"
    and "merge_keys env ks (m\<lparr>mg_doc := doc, mg_applied := mg_applied m @ [(key, dotted)]\<rparr>) = Inr m'"
    by (auto simp: Let_def split: sum.splits)
  from that [OF this(2)] set [OF d] Some show thesis by simp
qed

lemma category_paths:
  "split_on CHR ''.'' ''coding.git_clone_allowed_hosts'' = [''coding'', ''git_clone_allowed_hosts'']"
  "split_on CHR ''.'' ''toolsets.gitlab.url'' = [''toolsets'', ''gitlab'', ''url'']"
  "split_on CHR ''.'' ''toolsets.gerrit.url'' = [''toolsets'', ''gerrit'', ''url'']"
  by code_simp+

lemma generated_sections: "''coding'' \<in> set DIRECT_SECTIONS" "''gitlab'' \<in> set TOOLSET_SECTIONS" "''gerrit'' \<in> set TOOLSET_SECTIONS"
  by (simp_all add: DIRECT_SECTIONS_def TOOLSET_SECTIONS_def)

lemma category_changes:
  "apply_dotted_path ''coding.git_clone_allowed_hosts'' val base = Inr doc \<Longrightarrow> plain_document base \<Longrightarrow>
     changes_field ''coding'' ''git_clone_allowed_hosts'' (Some val) base doc"
  "apply_dotted_path ''toolsets.gitlab.url'' val base = Inr doc \<Longrightarrow> plain_document base \<Longrightarrow>
     changes_field ''gitlab'' ''url'' (Some val) base doc"
  "apply_dotted_path ''toolsets.gerrit.url'' val base = Inr doc \<Longrightarrow> plain_document base \<Longrightarrow>
     changes_field ''gerrit'' ''url'' (Some val) base doc"
  unfolding apply_dotted_path_def category_paths
  by (rule changes_direct changes_toolset; (assumption | rule generated_sections))+

lemma generated_given:
  assumes merged: "merge_keys env CATEGORY_B_KEYS m0 = Inr m" and plain: "plain_document (mg_doc m0)"
  shows "yaml_field (mg_doc m) n f =
      (case env_field GENERATED_FIELDS env n f of Some v \<Rightarrow> Some (JStr v) | None \<Rightarrow> yaml_field (mg_doc m0) n f)"
proof -
  have keeps: "changes_field s g x base doc \<Longrightarrow> plain_document doc" for s g x base doc by (simp add: changes_field_def)
  from merge_step [OF merged [unfolded CATEGORY_B_KEYS_def] keys_are_public(1) plain category_changes(1) [OF _ plain]]
  obtain m1 where "merge_keys env [(''GITLAB_URL'', ''toolsets.gitlab.url''), (''GERRIT_URL'', ''toolsets.gerrit.url'')] m1 = Inr m"
    and c1: "changes_field ''coding'' ''git_clone_allowed_hosts'' (env_value env ''GIT_CLONE_ALLOWED_HOSTS'') (mg_doc m0) (mg_doc m1)"
    by blast
  from merge_step [OF this(1) keys_are_public(2) keeps [OF this(2)] category_changes(2) [OF _ keeps [OF this(2)]]]
  obtain m2 where "merge_keys env [(''GERRIT_URL'', ''toolsets.gerrit.url'')] m2 = Inr m"
    and c2: "changes_field ''gitlab'' ''url'' (env_value env ''GITLAB_URL'') (mg_doc m1) (mg_doc m2)"
    by blast
  from merge_step [OF this(1) keys_are_public(3) keeps [OF this(2)] category_changes(3) [OF _ keeps [OF this(2)]]]
  obtain m3 where "merge_keys env [] m3 = Inr m"
    and c3: "changes_field ''gerrit'' ''url'' (env_value env ''GERRIT_URL'') (mg_doc m2) (mg_doc m3)"
    by blast
  then have "m3 = m" by simp
  with c1 c2 c3 show ?thesis
    by (auto simp: changes_field_def env_field_def GENERATED_FIELDS_def or_else_def split: option.splits)
qed

lemma falsy_overlay: "yaml_field (if json_truthy v then v else JObj []) n f = yaml_field v n f"
  by (cases v) (auto simp: yaml_field_def given_in_def toolsets_of_def dict_default_def)

lemma generated_unbound: "env_field GENERATED_FIELDS env n f = Some v \<Longrightarrow>
    env_field (ENV_SECRETS @ RUNTIME_OVERRIDES) env' n f = None \<and> map_of SYNC_FIELDS f = None"
  by (auto simp: env_field_def GENERATED_FIELDS_def ENV_SECRETS_def RUNTIME_OVERRIDES_def SYNC_FIELDS_def split: if_splits)

lemma prompting_not_generated: "map_of SYNC_FIELDS f = Some src \<Longrightarrow> env_field GENERATED_FIELDS env n f = None"
  by (auto simp: env_field_def GENERATED_FIELDS_def SYNC_FIELDS_def split: if_splits)

text \<open>
  C29: What an operator writes in the environment file is what the agent runs with. When
  the generator resolves a base configuration and a process loads the resolved file, each field
  that a key of category B stands for holds the last value assigned to that key in the environment
  file, if not empty; every other field has the value a load of the base itself would give it.
\<close>

theorem environment_file_reaches_configuration:
  assumes gen: "gen_config dotenv (Some base) = Resolved doc applied skipped" and plain: "plain_document base"
    and read: "cv_is_file e (resolve_yaml_path e path)" "cv_yaml e (resolve_yaml_path e path) = Yaml doc"
    and loaded: "load_config e path slack = Inr c" and field: "known app_config_init n f"
  shows "field_of c n f = (case env_field GENERATED_FIELDS (load_dotenv dotenv) n f of
      Some v \<Rightarrow> JStr v
    | None \<Rightarrow> expected_value (e\<lparr>cv_yaml := (\<lambda>_. Yaml base)\<rparr>) path n f)"
proof -
  let ?e = "e\<lparr>cv_yaml := (\<lambda>_. Yaml base)\<rparr>"
  from gen obtain m where m: "merge_keys (load_dotenv dotenv) CATEGORY_B_KEYS
      \<lparr>mg_doc = base, mg_applied = [], mg_skipped = [], mg_forbidden = []\<rparr> = Inr m" and doc: "doc = mg_doc m"
    by (auto simp: gen_config_def split: if_splits sum.splits)
  have path: "resolve_yaml_path ?e path = resolve_yaml_path e path" by (cases path) (simp_all add: resolve_yaml_path_def)
  have val: "configured_value e path n f = (case env_field GENERATED_FIELDS (load_dotenv dotenv) n f of
      Some v \<Rightarrow> JStr v | None \<Rightarrow> configured_value ?e path n f)" for n f
    using generated_given [OF m, of n f] plain generated_unbound [of "load_dotenv dotenv" n f]
    by (auto simp: configured_value_def overlay_read_def path read falsy_overlay doc or_else_def split: option.splits)
  from loaded obtain c1 where c1: "apply_yaml_overlay e path app_config_init = Inr c1"
    and c: "c = sync_agent_loop_prompting_fields (apply_runtime_overrides (cv_environ e) (load_secrets_from_env (cv_environ e) c1))"
    by (auto simp: load_config_def Let_def split: sum.splits option.splits)
  from prepared_config(2) [OF this field] show ?thesis
    using prompting_not_generated [of f] generated_unbound [of "load_dotenv dotenv" n f]
    by (auto simp: expected_value_def val split: option.splits)
qed

definition base_sample :: json where
  "base_sample = JObj [(''coding'', JObj [(''git_clone_allowed_hosts'', JStr [])]),
     (''toolsets'', JObj [(''gitlab'', JObj [(''url'', JStr [])]), (''gerrit'', JObj [(''url'', JStr []), (''enabled'', JBool True)])])]"

definition resolved_sample :: json where
  "resolved_sample = JObj [(''coding'', JObj [(''git_clone_allowed_hosts'', JStr [])]),
     (''toolsets'', JObj [(''gitlab'', JObj [(''url'', JStr ''https://g'')]), (''gerrit'', JObj [(''url'', JStr []), (''enabled'', JBool True)])])]"

text \<open>One address is set, the other stays closed; the secret beside it is not read.\<close>

lemma environment_file_reaches_configuration_witness:
  "\<exists>c. load_config \<lparr>cv_environ = [], cv_is_file = (\<lambda>p. True), cv_yaml = (\<lambda>p. Yaml resolved_sample)\<rparr> None False = Inr c \<and>
     field_of c ''gitlab'' ''url'' = JStr ''https://g'' \<and> field_of c ''gerrit'' ''url'' = JStr []"
proof -
  let ?e = "\<lparr>cv_environ = [], cv_is_file = (\<lambda>p. True), cv_yaml = (\<lambda>p. Yaml resolved_sample)\<rparr>"
  let ?t = "Some (''GITLAB_TOKEN=t'' @ newline @ ''GITLAB_URL = https://g'')"
  have gen: "gen_config ?t (Some base_sample) = Resolved resolved_sample [(''GITLAB_URL'', ''toolsets.gitlab.url'')]
      [(''GIT_CLONE_ALLOWED_HOSTS'', ''coding.git_clone_allowed_hosts'', ''unset''), (''GERRIT_URL'', ''toolsets.gerrit.url'', ''unset'')]"
    by code_simp
  have plain: "plain_document base_sample" by code_simp
  have read: "cv_is_file ?e (resolve_yaml_path ?e None)" "cv_yaml ?e (resolve_yaml_path ?e None) = Yaml resolved_sample"
    by simp_all
  have k: "known app_config_init ''gitlab'' ''url''" "known app_config_init ''gerrit'' ''url''"
    by (simp_all add: known_shape shape_def app_config_init_def section_defs)
  have "\<exists>c1. apply_yaml_overlay ?e None app_config_init = Inr c1" by (simp add: apply_yaml_overlay_def resolved_sample_def)
  moreover have "json_truthy (expected_value ?e None ''inference'' ''base_url'')" by code_simp
  ultimately have "\<exists>c. load_config ?e None False = Inr c" unfolding load_succeeds by simp
  then obtain c where c: "load_config ?e None False = Inr c" ..
  have v: "env_field GENERATED_FIELDS (load_dotenv ?t) ''gitlab'' ''url'' = Some ''https://g''"
    "env_field GENERATED_FIELDS (load_dotenv ?t) ''gerrit'' ''url'' = None"
    "expected_value (?e\<lparr>cv_yaml := (\<lambda>_. Yaml base_sample)\<rparr>) None ''gerrit'' ''url'' = JStr []"
    by code_simp+
  show ?thesis
    using c environment_file_reaches_configuration [OF gen plain read c k(1)]
      environment_file_reaches_configuration [OF gen plain read c k(2)] unfolding v option.case by blast
qed

section \<open>The resolved network policy\<close>

definition under :: "string \<Rightarrow> json \<Rightarrow> json option" where
  "under k v = (case v of JObj kvs \<Rightarrow> dict_get kvs k | _ \<Rightarrow> None)"

definition json_items :: "json option \<Rightarrow> json list" where
  "json_items x = (case x of Some (JList es) \<Rightarrow> es | _ \<Rightarrow> [])"

definition policy_endpoints :: "json \<Rightarrow> string \<Rightarrow> json list" where
  "policy_endpoints doc name =
     json_items (Option.bind (Option.bind (under ''network_policies'' doc) (under name)) (under ''endpoints''))"

text \<open>What should become of the endpoints of a policy: the host of its URL for the first, the address ranges for the listed hosts.\<close>

definition url_host :: "(string \<Rightarrow> (string \<times> string option) option) \<Rightarrow> string \<Rightarrow> string" where
  "url_host url_parts u = (case extract_host url_parts u of Inr h \<Rightarrow> h | Inl _ \<Rightarrow> [])"

definition policy_host :: "(string \<Rightarrow> (string \<times> string option) option) \<Rightarrow> environ \<Rightarrow> string \<Rightarrow> string" where
  "policy_host url_parts env name = (case map_of (map (\<lambda>(var, n). (n, var)) POLICY_HOST_SUBSTITUTIONS) name of
     Some var \<Rightarrow> url_host url_parts (dict_default env var []) | None \<Rightarrow> [])"

definition with_host :: "string \<Rightarrow> json list \<Rightarrow> json list" where
  "with_host h es = (case es of
     JObj kvs # es' \<Rightarrow> (if h = [] then es else JObj (dict_set ''host'' (JStr h) kvs) # es') | _ \<Rightarrow> es)"

definition with_ips :: "string list \<Rightarrow> string list \<Rightarrow> json \<Rightarrow> json" where
  "with_ips listed ips e = (case e of
     JObj kvs \<Rightarrow> (if ips \<noteq> [] \<and> dict_default kvs ''host'' (JStr []) \<in> JStr ` set listed
       then JObj (dict_set ''allowed_ips'' (JList (map JStr ips)) kvs) else e)
   | _ \<Rightarrow> e)"

lemma under_at_key: "under k (at_key k' f v) = (if k = k' then map_option f (under k v) else under k v)"
  by (auto simp: under_def at_key_def dict_get_set split: json.splits option.splits)

lemma under_falsy: "\<not> json_truthy v \<Longrightarrow> under k v = None"
  by (cases v) (auto simp: under_def)

lemma gen_bind_Inr: "gen_bind r k = Inr y \<longleftrightarrow> (\<exists>x. r = Inr x \<and> k x = Inr y)"
  by (cases r) auto

lemma get_or_under: "get_or k d v = Inr x \<Longrightarrow> x = (case under k v of Some y \<Rightarrow> if json_truthy y then y else d | None \<Rightarrow> d)"
  by (auto simp: get_or_def under_def dict_default_def split: json.splits option.splits)

lemma get_default_under: "get_default k d v = Inr x \<Longrightarrow> x = or_else (under k v) d"
  by (auto simp: get_default_def under_def dict_default_def or_else_def split: json.splits option.splits)

lemma with_host_Nil [simp]: "with_host [] es = es"
  by (simp add: with_host_def split: list.split json.split)

lemma substitute_endpoints:
  assumes "substitute_host url_parts env (var, name) m = Inr m1"
  shows "policy_endpoints (mg_doc m1) n = (if n = name
      then with_host (url_host url_parts (dict_default env var [])) (policy_endpoints (mg_doc m) n)
      else policy_endpoints (mg_doc m) n)"
    and "k \<noteq> ''network_policies'' \<Longrightarrow> under k (mg_doc m1) = under k (mg_doc m)"
proof -
  let ?h = "url_host url_parts (dict_default env var [])"
  obtain nps h pol endpoints where g: "get_or ''network_policies'' (JObj []) (mg_doc m) = Inr nps"
    "get_or name (JObj []) nps = Inr pol" "get_or ''endpoints'' (JList []) pol = Inr endpoints"
    and h: "extract_host url_parts (dict_default env var []) = Inr h"
    and r0: "(if h = [] then
          Inr (m\<lparr>mg_skipped := mg_skipped m @
            [(var, name, if strip (dict_default env var []) = [] then ''missing'' else ''malformed'')]\<rparr>)
        else if \<not> json_truthy endpoints then Inr (m\<lparr>mg_skipped := mg_skipped m @ [(var, name, ''schema_drift'')]\<rparr>)
        else gen_bind (set_first_host h endpoints) (\<lambda>es.
          Inr (m\<lparr>mg_doc := at_key ''network_policies'' (at_key name (at_key ''endpoints'' (\<lambda>_. es))) (mg_doc m),
                mg_applied := mg_applied m @ [(var, name)]\<rparr>))) = Inr m1"
    using assms unfolding substitute_host_def Let_def prod.case gen_bind_Inr by blast
  from h have "h = ?h" by (simp add: url_host_def)
  note r = r0 [unfolded this]
  consider "?h = []" "mg_doc m1 = mg_doc m" | "\<not> json_truthy endpoints" "mg_doc m1 = mg_doc m"
    | es where "?h \<noteq> []" "json_truthy endpoints" "set_first_host ?h endpoints = Inr es"
        "mg_doc m1 = at_key ''network_policies'' (at_key name (at_key ''endpoints'' (\<lambda>_. es))) (mg_doc m)"
  proof (cases "?h = []")
    case True
    with r that(1) show thesis by auto
  next
    case h: False
    show thesis
    proof (cases "json_truthy endpoints")
      case False
      with r h that(2) show thesis by auto
    next
      case True
      with r h obtain es where "set_first_host ?h endpoints = Inr es"
        "m1 = m\<lparr>mg_doc := at_key ''network_policies'' (at_key name (at_key ''endpoints'' (\<lambda>_. es))) (mg_doc m),
            mg_applied := mg_applied m @ [(var, name)]\<rparr>"
        by (auto simp: gen_bind_Inr)
      with h True that(3) show thesis by simp
    qed
  qed
  note cases = this
  note u = g [THEN get_or_under]
  have empty: "under k (JObj []) = None" for k by (simp add: under_def)
  show "policy_endpoints (mg_doc m1) n = (if n = name
      then with_host ?h (policy_endpoints (mg_doc m) n) else policy_endpoints (mg_doc m) n)"
  proof (cases rule: cases)
    case 2
    then show ?thesis using u empty
      by (auto simp: under_falsy policy_endpoints_def json_items_def with_host_def split: option.splits json.splits if_splits list.splits)
  next
    case (3 es)
    note e = 3(2, 3, 1) and d = 3(4)
    from e(1) u(3) have 3: "under ''endpoints'' pol = Some endpoints" by (auto split: option.splits if_splits)
    with u(2) empty have 2: "under name nps = Some pol" by (auto split: option.splits if_splits)
    with u(1) empty have 1: "under ''network_policies'' (mg_doc m) = Some nps" by (auto split: option.splits if_splits)
    obtain kvs es' where "endpoints = JList (JObj kvs # es')" "es = JList (JObj (dict_set ''host'' (JStr ?h) kvs) # es')"
      using e(2) by (auto simp: set_first_host_def split: json.splits list.splits)
    with 1 2 3 e(3) show ?thesis by (simp add: policy_endpoints_def json_items_def d under_at_key with_host_def)
  qed simp
  show "k \<noteq> ''network_policies'' \<Longrightarrow> under k (mg_doc m1) = under k (mg_doc m)"
    by (cases rule: cases) (auto simp: under_at_key)
qed

lemma inject_endpoints: "gen_map (inject_endpoint listed ips) es = Inr es1 \<Longrightarrow> es1 = map (with_ips listed ips) es"
proof (induction es arbitrary: es1)
  case (Cons e es)
  have "inject_endpoint listed ips e = Inr e1 \<Longrightarrow> e1 = with_ips listed ips e" for e1
    by (auto simp: inject_endpoint_def with_ips_def get_default_def gen_bind_Inr split: json.splits if_splits)
  with Cons show ?case by (auto simp: gen_bind_Inr)
qed simp

lemma inject_entries:
  "gen_map (inject_entry listed ips) kvs = Inr kvs1 \<Longrightarrow> (case dict_get kvs n of
     None \<Rightarrow> dict_get kvs1 n = None
   | Some pol \<Rightarrow> \<exists>pol1. inject_policy listed ips pol = Inr pol1 \<and> dict_get kvs1 n = Some pol1)"
proof (induction kvs arbitrary: kvs1)
  case (Cons kv kvs)
  then show ?case by (cases kv) (auto simp: gen_bind_Inr inject_entry_def dict_get_def split: option.splits)
qed simp

lemma inject_policy_endpoints:
  assumes "inject_policy listed ips pol = Inr pol1"
  shows "json_items (under ''endpoints'' pol1) = map (with_ips listed ips) (json_items (under ''endpoints'' pol))"
proof -
  obtain endpoints where g: "get_default ''endpoints'' (JList []) pol = Inr endpoints"
    and e: "(case endpoints of
       JList es \<Rightarrow> gen_bind (gen_map (inject_endpoint listed ips) es) (\<lambda>es1. Inr (at_key ''endpoints'' (\<lambda>_. JList es1) pol))
     | _ \<Rightarrow> (if endpoints = JStr [] \<or> endpoints = JObj [] then Inr pol else Inl BadShape)) = Inr pol1"
    using assms unfolding inject_policy_def gen_bind_Inr by blast
  from e have r: "(\<exists>es es1. endpoints = JList es \<and> gen_map (inject_endpoint listed ips) es = Inr es1 \<and>
      pol1 = at_key ''endpoints'' (\<lambda>_. JList es1) pol) \<or> (endpoints = JStr [] \<or> endpoints = JObj []) \<and> pol1 = pol"
    by (cases endpoints) (auto simp: gen_bind_Inr split: if_splits)
  from g have "endpoints = or_else (under ''endpoints'' pol) (JList [])" using get_default_under by blast
  with r show ?thesis
    by (auto simp: under_at_key or_else_def json_items_def dest!: inject_endpoints split: option.splits)
qed

lemma inject_document:
  assumes "inject_allowed_ips listed ips doc = Inr doc1"
  shows "policy_endpoints doc1 n = map (with_ips listed ips) (policy_endpoints doc n)"
    and "k \<noteq> ''network_policies'' \<Longrightarrow> under k doc1 = under k doc"
proof -
  obtain nps where nps: "get_default ''network_policies'' (JObj []) doc = Inr nps"
    and r: "(case nps of
       JObj kvs \<Rightarrow> gen_bind (gen_map (inject_entry listed ips) kvs) (\<lambda>kvs1. Inr (at_key ''network_policies'' (\<lambda>_. JObj kvs1) doc))
     | _ \<Rightarrow> Inl BadShape) = Inr doc1"
    using assms unfolding inject_allowed_ips_def gen_bind_Inr by blast
  from r obtain kvs kvs1 where "nps = JObj kvs" and m: "gen_map (inject_entry listed ips) kvs = Inr kvs1"
    and doc1: "doc1 = at_key ''network_policies'' (\<lambda>_. JObj kvs1) doc"
    by (cases nps) (auto simp: gen_bind_Inr)
  with nps have d: "get_default ''network_policies'' (JObj []) doc = Inr (JObj kvs)" by simp
  from doc1 show "k \<noteq> ''network_policies'' \<Longrightarrow> under k doc1 = under k doc" by (simp add: under_at_key)
  show "policy_endpoints doc1 n = map (with_ips listed ips) (policy_endpoints doc n)"
  proof (cases "under ''network_policies'' doc")
    case (Some nps)
    with get_default_under [OF d] have "nps = JObj kvs" by (simp add: or_else_def)
    with Some inject_entries [OF m, of n] show ?thesis
      by (auto simp: policy_endpoints_def doc1 under_at_key under_def [of n] inject_policy_endpoints json_items_def [of None] split: option.splits)
  qed (simp add: policy_endpoints_def json_items_def doc1 under_at_key)
qed


definition policy_sample :: "json \<Rightarrow> json list \<Rightarrow> json" where
  "policy_sample gitlab_host more_fields = JObj [(''version'', JInt 1), (''network_policies'', JObj [
     (''gitlab'', JObj [(''endpoints'', JList [JObj ([(''host'', gitlab_host)] @ map (Pair ''allowed_ips'') more_fields)])]),
     (''slack'', JObj [(''endpoints'', JList [JObj [(''host'', JStr ''slack.com'')]])])])]"


end
