(* ===== verification/Spec2Isabelle.thy ===== *)
theory Spec2Isabelle
  imports EndToEnd Orchestrator ToolFactory InferenceHub SlackFinalization StartUp SyncBus PolicyBroker Deployment
begin

text \<open>
  A verification development of NemoClaw Escapades (\<^verbatim>\<open>src/src/nemoclaw_escapades/\<close>), a
  multi-agent assistant: a connector hands a user's messages and button clicks to an
  orchestrator, whose agent loop calls tools and delegates coding work to sub-agents in
  their own sandboxes; all processes talk over a message bus, and an audit database records
  what happened. File names below are relative to that directory.

  The parts and how they interact. A request reaches \<open>handle\<close> of the orchestrator, which
  routes clicks (write approvals, buttons of finalised work) and turns a text message into a
  prompt, a run of the agent loop and a response. The loop alternates inference with batches
  of tool calls of the registry, stops at the write gate, and compacts its context. A
  delegation occupies a slot of the delegation manager, spawns a sub-agent and sends it
  \<^verbatim>\<open>task.assign\<close> over the bus; \<^verbatim>\<open>task.complete\<close> and
  \<^verbatim>\<open>task.error\<close> come back to the dispatcher, which starts a finalisation: a run of the same
  loop with the finalisation tools, which push a branch, open a pull request, present the
  work with buttons, re-delegate or discard it. Client and broker implement the bus.

  Theories and what they model.
  \<^item> \<open>Prelude\<close>: Python's values (strings, dictionaries in insertion order, sets, slices,
    truthiness, JSON values), the interface of a dictionary as a locale with its interpretation,
    and the shared rule collections.
  \<^item> \<open>NmbModels\<close> (\<^verbatim>\<open>nmb/models.py\<close>), \<open>Broker\<close>,
    \<open>BrokerInvariants\<close>, \<open>BrokerProps\<close> (\<^verbatim>\<open>nmb/broker.py\<close>): the frames, one
    definition per handler, and \<open>system_step\<close>, the interleaving of connections, frames,
    timers and disconnects; invariants of the reachable states; what is sent to whom.
  \<^item> \<open>Client\<close> (\<^verbatim>\<open>nmb/client.py\<close>): futures, queues and the receive loop; \<open>EndToEnd\<close>
    composes client and broker.
  \<^item> \<open>AuditDb\<close> (\<^verbatim>\<open>audit/db.py\<close>, \<^verbatim>\<open>audit/models.py\<close>,
    \<^verbatim>\<open>agent/audit_buffer.py\<close>): tables, batch writer and replay.
  \<^item> \<open>ToolRegistry\<close> (\<^verbatim>\<open>tools/registry.py\<close>), \<open>Compaction\<close>
    (\<^verbatim>\<open>agent/compaction.py\<close>, \<^verbatim>\<open>orchestrator/transcript_repair.py\<close>), \<open>AgentLoop\<close>
    (\<^verbatim>\<open>agent/loop.py\<close>, \<^verbatim>\<open>agent/approval.py\<close>), \<open>PromptBuilder\<close>
    (\<^verbatim>\<open>agent/prompt_builder.py\<close>).
  \<^item> \<open>TaskProtocol\<close> (\<^verbatim>\<open>nmb/protocol.py\<close>, \<^verbatim>\<open>orchestrator/workflow.py\<close>),
    \<open>Delegation\<close> (\<^verbatim>\<open>orchestrator/delegation.py\<close>), \<open>GitOps\<close>
    (\<^verbatim>\<open>agent/git_helpers.py\<close>, \<^verbatim>\<open>agent/github_helpers.py\<close>, \<open>run_git\<close>),
    \<open>Finalization\<close> (\<^verbatim>\<open>tools/finalization.py\<close>,
    \<^verbatim>\<open>orchestrator/finalization.py\<close>), \<open>Dispatcher\<close>
    (\<^verbatim>\<open>orchestrator/dispatcher.py\<close>).
  \<^item> \<open>Requests\<close> (\<^verbatim>\<open>models/types.py\<close>), \<open>FinalizationActions\<close>
    (\<^verbatim>\<open>orchestrator/finalization_actions.py\<close>), \<open>Orchestrator\<close>
    (\<^verbatim>\<open>orchestrator/orchestrator.py\<close>).

  \<^item> \<open>Config\<close> (\<^verbatim>\<open>config.py\<close>): sections and defaults, YAML overlay, environment, required
    values.
  \<^item> \<open>ServiceCore\<close>: what the HTTP clients share (requests, operations with exceptions, JSON
    output, URL quoting, tool handlers) and the locale \<open>service\<close>, the contract of a toolset;
    \<open>GitLab\<close>, \<open>Jira\<close>, \<open>Gerrit\<close>, \<open>Confluence\<close>, \<open>SlackSearch\<close>, \<open>WebSearch\<close>
    (the files of the same names in \<^verbatim>\<open>tools/\<close>), each with an interpretation of it (the two
    web tools, of which one is unchecked, are covered by a lemma); \<open>ServiceTools\<close>: all of
    them together.
  \<^item> \<open>FileTools\<close> (\<^verbatim>\<open>tools/files.py\<close>, \<^verbatim>\<open>tools/search.py\<close>), \<open>WorkspaceTools\<close>
    (\<^verbatim>\<open>tools/bash.py\<close>, \<^verbatim>\<open>tools/git.py\<close>), \<open>Skills\<close> (\<^verbatim>\<open>agent/skill_loader.py\<close>,
    \<^verbatim>\<open>tools/skill.py\<close>, \<^verbatim>\<open>tools/tool_search.py\<close>), \<open>DelegateTask\<close>
    (\<^verbatim>\<open>tools/delegation.py\<close>), \<open>ToolFactory\<close> (\<^verbatim>\<open>tools/tool_registry_factory.py\<close>).
  \<^item> \<open>Retrying\<close>: what the code relies on of the third-party retry loop, as the relation
    \<open>retry_contract\<close>, the locale \<open>retrying\<close> of its consequences and an instance that meets it;
    \<open>InferenceHub\<close> (\<^verbatim>\<open>backends/inference_hub.py\<close>): payload, one attempt, answers, retries.
  \<^item> \<open>SlackRender\<close>, \<open>SlackConnector\<close> (\<^verbatim>\<open>connectors/slack/connector.py\<close>): markup, splitting
    and blocks; events, the handling of a request between its awaits, approval buttons;
    \<open>SlackFinalization\<close> (\<^verbatim>\<open>connectors/slack/finalization.py\<close>).
  \<^item> \<open>SubAgent\<close> (\<^verbatim>\<open>agent/__main__.py\<close>): one assigned task and its reply; \<open>StartUp\<close>
    (\<^verbatim>\<open>runtime.py\<close>, \<^verbatim>\<open>main.py\<close>): detection of the sandbox, the two processes;
    \<open>SyncBus\<close> (\<^verbatim>\<open>nmb/sync.py\<close>): the blocking client and its iterators, and
    \<open>connect_with_retry\<close> of the client.
  \<^item> \<open>PolicyBroker\<close> (\<^verbatim>\<open>nmb/testing/policy.py\<close>, \<^verbatim>\<open>nmb/testing/harness.py\<close>): the broker under
    policies, and their translation to the ids of a topology.
  \<^item> \<open>Deployment\<close> (\<^verbatim>\<open>scripts/gen_config.py\<close>, \<^verbatim>\<open>scripts/gen_policy.py\<close>): the configuration and the
    network policy resolved from the committed bases and the operator's environment file.

  State and effects. Each Python object is a record named after its class, each method a
  function of the record that returns it updated. A tool's handler is a function of its
  arguments and of a world; the world of finalisation holds the workflow, the dispatcher's
  registries and a list of effects (git commands, pull requests, removals, messages), so that
  what a component may do to the outside is a property of that list. Errors are the \<open>Inl\<close>
  side of a sum or constructors of a result type. Concurrent code is a step relation: a
  handler that does not await in between is one step; \<open>delegate\<close> is cut at its awaits
  (\<open>call_step\<close>); a finalisation task is one step of the dispatcher between its start and the
  clean-up that concludes it, so that messages interleave before and after it; the tools
  gathered by one batch finish in any order, given by \<open>le_schedule\<close>. The handling of a Slack
  event is cut at its awaits too (\<open>slack_step\<close>), and the two threads of a blocking iterator
  take turns (\<open>bridge_step\<close>).

  Groups of lemmas. For the bus: authenticity of frames, agreement of the registries,
  accounting of pending requests, absence of leaks, at-most-once replies, refinement of the
  subscription maps by a relation, and the composition with the client. For the audit
  trail: unique keys, bounds, complete shutdown, idempotent replay. For the loop: the write
  gate, complete tool batches, bounds on inference calls, visibility of tools. For
  delegation: slots, no orphaned process, the refinement of the dispatcher by an abstract
  lifecycle, confinement of finalisation to its workspace and thread. For the orchestrator:
  every write that ran was shown and approved, histories record exactly the answered turns.
  For the tools: what each may send or change (\<open>sends_only\<close>, \<open>reads_ok\<close>,
  \<open>workspace_read_keeps\<close>), confinement to the workspace, and the composition: a run of
  the loop with the full registry changes nothing before the user decides. For the
  configuration: where every value comes from, also through the generator, and what a secret in
  the environment file cannot reach. For the Slack connector: one approval click
  per thread at a time, failures of Slack contained, limits on errors and on text. For the
  backend: the number of attempts and what is reported when they are used up. For the
  processes: one reply per task and what it does to the workflow at the dispatcher, and the
  release of every resource at shutdown.
  The closed theorems about a concrete run show where the code does not keep a promise; the
  manifest lists them as findings.

  Bounds and fuel. Loops of the code are bounded by a count of the code's own (tool rounds,
  retries, attempts), which the model recurses on; the retry loop ends by the attempts left,
  the splitting of a text by its length, the handling of an event by the awaits ahead of it. Where a sample evaluates a run, the
  recursion over the count is unfolded by \<open>sample_fuel\<close>.

  Parameters. Clocks, random ids, the SQL engine's checkpoint, JSON decoding and encoding,
  the inference backend, subprocesses (git, gh, the shell, ripgrep), YAML, regular expressions, the resolution of
  symbolic links, HTTP, the retry loop of tenacity, Slack's API and the transport are fields of environment records, with what the code relies on as premises of the lemmas. Times are
  opaque values.

  Not modelled. Command lines and argument parsing, the socket of Slack's library, database
  migrations (\<^verbatim>\<open>audit/alembic\<close>), the message handles of the bus's test harness, the live checks
  (\<^verbatim>\<open>testing\<close>), logging and timers (\<^verbatim>\<open>observability\<close>).
\<close>

end
